(* ===== verification/Prelude.thy ===== *)
theory Prelude
  imports Main "HOL-Library.Word"
begin

text \<open>
  Shared vocabulary of the development: the machine types of the bridge, Rust's checked
  integer operations on a 64-bit target, results as sums, the outcome monad in which the
  entry points run, flag words, and the small contracts (locales) several components share.

  \<^item> \<open>u8\<close>, \<open>u32\<close>, \<open>u64\<close>, \<open>i64\<close> are words; \<open>usize\<close> values and addresses are naturals, with
    the bound \<open>usize_max\<close> written out wherever the code checks for overflow;
  \<^item> a Rust \<open>String\<close> is a list of bytes, written as a HOL string;
  \<^item> an outcome is what running a piece of Rust code can end in: a value, an early return with
    an error (the question mark operator), a panic, undefined behaviour because the caller
    broke the pointer contract of the C ABI, or a wait for another thread that has not ended.
\<close>

unbundle bit_operations_syntax

named_theorems run_simps
  \<open>equations that run a computation of the outcome monad on a world\<close>

named_theorems abi_defs
  \<open>definitions of the ABI helper functions, unfolded together\<close>

section \<open>Machine types\<close>

type_synonym u8 = "8 word"
type_synonym u32 = "32 word"
type_synonym u64 = "64 word"
type_synonym usize = nat
type_synonym addr = nat

definition usize_max :: nat where
  "usize_max = 18446744073709551615"

definition isize_max :: nat where
  "isize_max = 9223372036854775807"

definition u64_max :: nat where
  "u64_max = 18446744073709551615"

definition null_ptr :: addr where
  "null_ptr = 0"

text \<open>Rust's \<open>usize::checked_add\<close>, \<open>usize::checked_mul\<close> and \<open>usize::saturating_mul\<close>.\<close>

definition checked_add_usize :: "usize \<Rightarrow> usize \<Rightarrow> usize option" where
  "checked_add_usize a b = (if a + b \<le> usize_max then Some (a + b) else None)"

definition checked_mul_usize :: "usize \<Rightarrow> usize \<Rightarrow> usize option" where
  "checked_mul_usize a b = (if a * b \<le> usize_max then Some (a * b) else None)"

definition saturating_mul_usize :: "usize \<Rightarrow> usize \<Rightarrow> usize" where
  "saturating_mul_usize a b = (if a * b \<le> usize_max then a * b else usize_max)"

text \<open>\<open>u64::checked_add\<close>, and the conversions between \<open>usize\<close> and \<open>u64\<close>.\<close>

definition checked_add_u64 :: "u64 \<Rightarrow> u64 \<Rightarrow> u64 option" where
  "checked_add_u64 a b = (if unat a + unat b \<le> u64_max then Some (a + b) else None)"

definition u64_try_from :: "usize \<Rightarrow> u64 option" where
  "u64_try_from n = (if n \<le> u64_max then Some (word_of_nat n) else None)"

definition usize_try_from :: "u64 \<Rightarrow> usize option" where
  "usize_try_from w = (if unat w \<le> usize_max then Some (unat w) else None)"

lemma unat_u64_le [simp]: "unat (w :: u64) \<le> u64_max"
  using unsigned_less [where 'a = nat, of w] by (simp add: u64_max_def)

lemma unat_u64_le_usize [simp]: "unat (w :: u64) \<le> usize_max"
  using unsigned_less [where 'a = nat, of w] by (simp add: usize_max_def)

lemma unat_u64_of_nat: "n \<le> u64_max \<Longrightarrow> unat (word_of_nat n :: u64) = n"
  by (simp add: u64_max_def unat_of_nat)

lemma u64_max_eq_usize_max: "u64_max = usize_max"
  by (simp add: u64_max_def usize_max_def)

lemma usize_try_from_eq [simp]: "usize_try_from w = Some (unat w)"
  by (simp add: usize_try_from_def)

lemma u64_try_from_Some:
  "u64_try_from n = Some w \<longleftrightarrow> n \<le> u64_max \<and> unat w = n"
  by (auto simp: u64_try_from_def unat_u64_of_nat)

lemma u64_try_from_unat [simp]: "u64_try_from (unat w) = Some w"
  by (simp add: u64_try_from_Some)

lemma u64_try_from_None: "u64_try_from n = None \<longleftrightarrow> u64_max < n"
  by (simp add: u64_try_from_def)

lemma checked_add_u64_Some:
  "checked_add_u64 a b = Some c \<longleftrightarrow> unat a + unat b \<le> u64_max \<and> unat c = unat a + unat b"
proof (cases "unat a + unat b \<le> u64_max")
  case True
  then have "unat (a + b) = unat a + unat b"
    by (subst unat_add_lem [symmetric]) (simp add: u64_max_def)
  with True show ?thesis by (auto simp: checked_add_u64_def) (metis unsigned_word_eqI)
qed (simp add: checked_add_u64_def)

lemma checked_add_u64_None:
  "checked_add_u64 a b = None \<longleftrightarrow> u64_max < unat a + unat b"
  by (auto simp: checked_add_u64_def)

lemma unat_min_u64: "unat (min a b :: u64) = min (unat a) (unat b)"
  by (simp add: min_def word_le_nat_alt)

section \<open>Text and bytes\<close>

text \<open>The bytes of a Rust string, and the string with the given bytes.\<close>

definition bytes_of_text :: "string \<Rightarrow> u8 list" where
  "bytes_of_text s = map (\<lambda>c. word_of_nat (of_char c)) s"

definition text_of_bytes :: "u8 list \<Rightarrow> string" where
  "text_of_bytes bs = map (\<lambda>b. char_of (unat b)) bs"

lemma text_of_bytes_of_text [simp]: "text_of_bytes (bytes_of_text s) = s"
proof -
  have "char_of (unat (word_of_nat (of_char c) :: u8)) = c" for c :: char
    by (simp add: unat_of_nat)
  then show ?thesis by (simp add: text_of_bytes_def bytes_of_text_def o_def)
qed

lemma bytes_of_text_of_bytes [simp]: "bytes_of_text (text_of_bytes bs) = bs"
proof -
  have "word_of_nat (of_char (char_of (unat b) :: char)) = b" for b :: u8
    using unsigned_less [where 'a = nat, of b] by simp
  then show ?thesis by (simp add: text_of_bytes_def bytes_of_text_def o_def)
qed

lemma length_text_of_bytes [simp]: "length (text_of_bytes bs) = length bs"
  by (simp add: text_of_bytes_def)

lemma length_bytes_of_text [simp]: "length (bytes_of_text s) = length s"
  by (simp add: bytes_of_text_def)

text \<open>Rust's \<open>to_ascii_lowercase\<close>: only the bytes of \<open>A\<close> to \<open>Z\<close> change.\<close>

definition ascii_lower_char :: "char \<Rightarrow> char" where
  "ascii_lower_char c =
     (let n = (of_char c :: nat) in if 65 \<le> n \<and> n \<le> 90 then char_of (n + 32) else c)"

definition to_ascii_lowercase :: "string \<Rightarrow> string" where
  "to_ascii_lowercase s = map ascii_lower_char s"

section \<open>Results\<close>

text \<open>A fallible pure function returns \<open>'e + 'a\<close>, with \<open>Inl\<close> the error.\<close>

definition res_bind :: "'e + 'a \<Rightarrow> ('a \<Rightarrow> 'e + 'b) \<Rightarrow> 'e + 'b" where
  "res_bind r f = (case r of Inl e \<Rightarrow> Inl e | Inr a \<Rightarrow> f a)"

lemma res_bind_simps [simp]:
  "res_bind (Inl e) f = Inl e"
  "res_bind (Inr a) f = f a"
  by (simp_all add: res_bind_def)

lemma res_bind_eq_Inr: "res_bind r f = Inr b \<longleftrightarrow> (\<exists>a. r = Inr a \<and> f a = Inr b)"
  by (cases r) auto

lemma res_bind_eq_Inl:
  "res_bind r f = Inl e \<longleftrightarrow> r = Inl e \<or> (\<exists>a. r = Inr a \<and> f a = Inl e)"
  by (cases r) auto

definition res_ok :: "'e + 'a \<Rightarrow> bool" where
  "res_ok r = (case r of Inl _ \<Rightarrow> False | Inr _ \<Rightarrow> True)"

lemma res_ok_simps [simp]: "\<not> res_ok (Inl e)" "res_ok (Inr a)"
  by (simp_all add: res_ok_def)

section \<open>Flag words\<close>

text \<open>
  A flag word is built by the chain \<open>if p then word |= bit\<close>. The contract below says the bits
  are distinct single bits; each one is then set exactly when its condition holds.
\<close>

definition flag_word :: "(u64 \<times> bool) list \<Rightarrow> u64" where
  "flag_word fs = fold (\<lambda>(flag, p) w. if p then w OR flag else w) fs 0"

lemma bit_flag_fold:
  "bit (fold (\<lambda>(flag, p) w. if p then w OR flag else w) fs w0 :: u64) k \<longleftrightarrow>
     bit w0 k \<or> (\<exists>(flag, p) \<in> set fs. bit flag k \<and> p)"
proof (induction fs arbitrary: w0)
  case Nil
  then show ?case by simp
next
  case (Cons f fs)
  obtain flag p where f: "f = (flag, p)" by (cases f)
  show ?case using Cons.IH by (auto simp: f bit_simps)
qed

lemma bit_flag_word:
  "bit (flag_word fs) k \<longleftrightarrow> (\<exists>(flag, p) \<in> set fs. bit flag k \<and> p)"
  by (simp add: flag_word_def bit_flag_fold)

lemma and_push_bit_eq_0_iff:
  "(w :: u64) AND push_bit n 1 = 0 \<longleftrightarrow> \<not> (n < 64 \<and> bit w n)"
proof -
  have "w AND push_bit n 1 = 0 \<longleftrightarrow> (\<forall>k < 64. \<not> (bit w k \<and> k = n))"
    by (auto simp: bit_eq_iff bit_simps)
  then show ?thesis by blast
qed

locale flag_layout =
  fixes positions :: "nat list" and holds :: "'a \<Rightarrow> nat \<Rightarrow> bool"
  assumes positions_distinct: "distinct positions"
    and positions_bound: "\<forall>n \<in> set positions. n < 64"
begin

lemma flag_iff:
  assumes "n \<in> set positions"
  shows "bit (flag_word (map (\<lambda>k. (push_bit k 1, holds x k)) positions)) n \<longleftrightarrow> holds x n"
  using assms positions_bound by (auto simp: bit_flag_word bit_simps)

lemma flag_unused:
  assumes "n \<notin> set positions"
  shows "\<not> bit (flag_word (map (\<lambda>k. (push_bit k 1, holds x k)) positions)) n"
  using assms by (auto simp: bit_flag_word bit_simps)

lemma flag_word_inject:
  assumes "flag_word (map (\<lambda>k. (push_bit k 1, holds x k)) positions) =
           flag_word (map (\<lambda>k. (push_bit k 1, holds y k)) positions)"
    and "n \<in> set positions"
  shows "holds x n = holds y n"
  using assms flag_iff [of n x] flag_iff [of n y] by simp

end

section \<open>Outcomes\<close>

datatype ('e, 'a) outcome = Ok 'a | Err 'e | Panic | UB | Blocked

type_synonym ('w, 'e, 'a) comp = "'w \<Rightarrow> ('e, 'a) outcome \<times> 'w"

definition ret :: "'a \<Rightarrow> ('w, 'e, 'a) comp" where
  "ret a w = (Ok a, w)"

definition throw :: "'e \<Rightarrow> ('w, 'e, 'a) comp" where
  "throw e w = (Err e, w)"

definition panic :: "('w, 'e, 'a) comp" where
  "panic w = (Panic, w)"

definition undefined_behaviour :: "('w, 'e, 'a) comp" where
  "undefined_behaviour w = (UB, w)"

definition bind :: "('w, 'e, 'a) comp \<Rightarrow> ('a \<Rightarrow> ('w, 'e, 'b) comp) \<Rightarrow> ('w, 'e, 'b) comp" where
  "bind m f w =
     (case m w of (Ok a, w') \<Rightarrow> f a w' | (Err e, w') \<Rightarrow> (Err e, w')
      | (Panic, w') \<Rightarrow> (Panic, w') | (UB, w') \<Rightarrow> (UB, w')
      | (Blocked, w') \<Rightarrow> (Blocked, w'))"

definition lift_res :: "'e + 'a \<Rightarrow> ('w, 'e, 'a) comp" where
  "lift_res r w = (case r of Inl e \<Rightarrow> (Err e, w) | Inr a \<Rightarrow> (Ok a, w))"

text \<open>
  \<open>closure m\<close> is an immediately invoked closure that returns a \<open>CallResult\<close>: errors raised with
  the question mark operator inside become values outside. \<open>catch_unwind m\<close> is
  \<open>std::panic::catch_unwind\<close> around such a closure: a panic becomes the value \<open>None\<close>, and what
  the closure did to the state before it panicked stays done.
\<close>

definition closure :: "('w, 'e, 'a) comp \<Rightarrow> ('w, 'e, 'e + 'a) comp" where
  "closure m w =
     (case m w of (Ok a, w') \<Rightarrow> (Ok (Inr a), w') | (Err e, w') \<Rightarrow> (Ok (Inl e), w')
      | (Panic, w') \<Rightarrow> (Panic, w') | (UB, w') \<Rightarrow> (UB, w')
      | (Blocked, w') \<Rightarrow> (Blocked, w'))"

definition catch_unwind :: "('w, 'e, 'a) comp \<Rightarrow> ('w, 'e, ('e + 'a) option) comp" where
  "catch_unwind m w =
     (case m w of (Ok a, w') \<Rightarrow> (Ok (Some (Inr a)), w') | (Err e, w') \<Rightarrow> (Ok (Some (Inl e)), w')
      | (Panic, w') \<Rightarrow> (Ok None, w') | (UB, w') \<Rightarrow> (UB, w')
      | (Blocked, w') \<Rightarrow> (Blocked, w'))"

lemma run_basic [run_simps]:
  "ret a w = (Ok a, w)"
  "throw e w = (Err e, w)"
  "panic w = (Panic, w)"
  "undefined_behaviour w = (UB, w)"
  "lift_res (Inl e) w = (Err e, w)"
  "lift_res (Inr a) w = (Ok a, w)"
  by (simp_all add: ret_def throw_def panic_def undefined_behaviour_def lift_res_def)

lemma run_bind [run_simps]:
  "m w = (Ok a, w') \<Longrightarrow> bind m f w = f a w'"
  "m w = (Err e, w') \<Longrightarrow> bind m f w = (Err e, w')"
  "m w = (Panic, w') \<Longrightarrow> bind m f w = (Panic, w')"
  "m w = (UB, w') \<Longrightarrow> bind m f w = (UB, w')"
  "m w = (Blocked, w') \<Longrightarrow> bind m f w = (Blocked, w')"
  by (simp_all add: bind_def)

lemma run_closure [run_simps]:
  "m w = (Ok a, w') \<Longrightarrow> closure m w = (Ok (Inr a), w')"
  "m w = (Err e, w') \<Longrightarrow> closure m w = (Ok (Inl e), w')"
  "m w = (Panic, w') \<Longrightarrow> closure m w = (Panic, w')"
  "m w = (UB, w') \<Longrightarrow> closure m w = (UB, w')"
  "m w = (Blocked, w') \<Longrightarrow> closure m w = (Blocked, w')"
  by (simp_all add: closure_def)

lemma run_catch_unwind [run_simps]:
  "m w = (Ok a, w') \<Longrightarrow> catch_unwind m w = (Ok (Some (Inr a)), w')"
  "m w = (Err e, w') \<Longrightarrow> catch_unwind m w = (Ok (Some (Inl e)), w')"
  "m w = (Panic, w') \<Longrightarrow> catch_unwind m w = (Ok None, w')"
  "m w = (UB, w') \<Longrightarrow> catch_unwind m w = (UB, w')"
  "m w = (Blocked, w') \<Longrightarrow> catch_unwind m w = (Blocked, w')"
  by (simp_all add: catch_unwind_def)

lemma bind_eq_Ok:
  "bind m f w = (Ok b, w'') \<longleftrightarrow> (\<exists>a w'. m w = (Ok a, w') \<and> f a w' = (Ok b, w''))"
  by (auto simp: bind_def split: prod.splits outcome.splits)

lemma bind_ret_left [simp]: "bind (ret a) f = f a"
  by (rule ext) (simp add: bind_def ret_def)

lemma bind_throw_left [simp]: "bind (throw e) f = throw e"
  by (rule ext) (simp add: bind_def throw_def)

lemma bind_bind: "bind (bind m f) g = bind m (\<lambda>x. bind (f x) g)"
  by (rule ext) (auto simp: bind_def split: prod.splits outcome.splits)

section \<open>Resources with terminal states\<close>

text \<open>
  The contract every closable handle of the bridge obeys: no operation leaves a terminal
  state. \<open>run_ops\<close> is a caller driving the handle with a sequence of operations.
\<close>

primrec run_ops :: "('op \<Rightarrow> 's \<Rightarrow> 's) \<Rightarrow> 'op list \<Rightarrow> 's \<Rightarrow> 's" where
  "run_ops step [] s = s"
| "run_ops step (x # xs) s = run_ops step xs (step x s)"

lemma run_ops_append [simp]:
  "run_ops step (xs @ ys) s = run_ops step ys (run_ops step xs s)"
  by (induction xs arbitrary: s) auto

locale terminal_states =
  fixes step :: "'op \<Rightarrow> 's \<Rightarrow> 's" and terminal :: "'s \<Rightarrow> bool"
  assumes terminal_step: "terminal s \<Longrightarrow> terminal (step x s)"
begin

lemma terminal_run: "terminal s \<Longrightarrow> terminal (run_ops step xs s)"
  by (induction xs arbitrary: s) (auto intro: terminal_step)

lemma terminal_prefix:
  "terminal (run_ops step xs s) \<Longrightarrow> terminal (run_ops step (xs @ ys) s)"
  by (simp add: terminal_run)

end

end
