(* ===== verification/Abi.thy ===== *)
theory Abi
  imports Prelude
begin

text \<open>
  The constants and data types of the C ABI (\<open>native/rust/src/abi.rs\<close>) and of the asynchronous
  layer (the type declarations of \<open>native/rust/src/lib.rs\<close>).

  Every \<open>repr(C)\<close> struct is a record with the struct's fields in the struct's order; a field name
  carries a short prefix for its struct, because HOL field names are global. A raw pointer is an
  address. A value of a third-party type the bridge only stores and passes on (an OpenDAL
  operator, lister, reader, writer, copier, a Tokio abort handle) is a \<open>token\<close>, an opaque number;
  a value the bridge inspects (metadata, an error, a capability, a buffer) is the record of what
  its accessors return.
\<close>

section \<open>Constants\<close>

abbreviation (input) ABI_MAJOR :: u32 where
  "ABI_MAJOR \<equiv> 1"

abbreviation (input) ABI_MINOR :: u32 where
  "ABI_MINOR \<equiv> 7"

abbreviation (input) ABI_PATCH :: u32 where
  "ABI_PATCH \<equiv> 0"

abbreviation (input) STRUCT_VERSION :: u32 where
  "STRUCT_VERSION \<equiv> 1"

abbreviation (input) STATUS_OK :: u32 where
  "STATUS_OK \<equiv> 0"

abbreviation (input) STATUS_END :: u32 where
  "STATUS_END \<equiv> 1"

abbreviation (input) STATUS_ERROR :: u32 where
  "STATUS_ERROR \<equiv> 2"

abbreviation (input) STATUS_BUFFER_TOO_SMALL :: u32 where
  "STATUS_BUFFER_TOO_SMALL \<equiv> 3"

abbreviation (input) STATUS_ABI_MISMATCH :: u32 where
  "STATUS_ABI_MISMATCH \<equiv> 4"

abbreviation (input) STATUS_PANIC :: u32 where
  "STATUS_PANIC \<equiv> 5"

abbreviation (input) ERROR_UNEXPECTED :: u32 where
  "ERROR_UNEXPECTED \<equiv> 1"

abbreviation (input) ERROR_UNSUPPORTED :: u32 where
  "ERROR_UNSUPPORTED \<equiv> 2"

abbreviation (input) ERROR_CONFIG_INVALID :: u32 where
  "ERROR_CONFIG_INVALID \<equiv> 3"

abbreviation (input) ERROR_NOT_FOUND :: u32 where
  "ERROR_NOT_FOUND \<equiv> 4"

abbreviation (input) ERROR_PERMISSION_DENIED :: u32 where
  "ERROR_PERMISSION_DENIED \<equiv> 5"

abbreviation (input) ERROR_IS_A_DIRECTORY :: u32 where
  "ERROR_IS_A_DIRECTORY \<equiv> 6"

abbreviation (input) ERROR_NOT_A_DIRECTORY :: u32 where
  "ERROR_NOT_A_DIRECTORY \<equiv> 7"

abbreviation (input) ERROR_ALREADY_EXISTS :: u32 where
  "ERROR_ALREADY_EXISTS \<equiv> 8"

abbreviation (input) ERROR_RATE_LIMITED :: u32 where
  "ERROR_RATE_LIMITED \<equiv> 9"

abbreviation (input) ERROR_IS_SAME_FILE :: u32 where
  "ERROR_IS_SAME_FILE \<equiv> 10"

abbreviation (input) ERROR_CONDITION_NOT_MATCH :: u32 where
  "ERROR_CONDITION_NOT_MATCH \<equiv> 11"

abbreviation (input) ERROR_RANGE_NOT_SATISFIED :: u32 where
  "ERROR_RANGE_NOT_SATISFIED \<equiv> 12"

abbreviation (input) ERROR_INVALID_ARGUMENT :: u32 where
  "ERROR_INVALID_ARGUMENT \<equiv> 4097"

abbreviation (input) ERROR_RESOURCE_CLOSED :: u32 where
  "ERROR_RESOURCE_CLOSED \<equiv> 4098"

abbreviation (input) ERROR_BUFFER_TOO_LARGE :: u32 where
  "ERROR_BUFFER_TOO_LARGE \<equiv> 4099"

abbreviation (input) ERROR_ABI_MISMATCH :: u32 where
  "ERROR_ABI_MISMATCH \<equiv> 4100"

abbreviation (input) ERROR_STATUS_PERMANENT :: u32 where
  "ERROR_STATUS_PERMANENT \<equiv> 1"

abbreviation (input) ERROR_STATUS_TEMPORARY :: u32 where
  "ERROR_STATUS_TEMPORARY \<equiv> 2"

abbreviation (input) ERROR_STATUS_PERSISTENT :: u32 where
  "ERROR_STATUS_PERSISTENT \<equiv> 3"

abbreviation (input) ENTRY_MODE_UNKNOWN :: u32 where
  "ENTRY_MODE_UNKNOWN \<equiv> 0"

abbreviation (input) ENTRY_MODE_FILE :: u32 where
  "ENTRY_MODE_FILE \<equiv> 1"

abbreviation (input) ENTRY_MODE_DIRECTORY :: u32 where
  "ENTRY_MODE_DIRECTORY \<equiv> 2"

abbreviation (input) RANGE_FULL :: u32 where
  "RANGE_FULL \<equiv> 0"

abbreviation (input) RANGE_FROM :: u32 where
  "RANGE_FROM \<equiv> 1"

abbreviation (input) RANGE_OFFSET_LENGTH :: u32 where
  "RANGE_OFFSET_LENGTH \<equiv> 2"

abbreviation (input) RANGE_SUFFIX :: u32 where
  "RANGE_SUFFIX \<equiv> 3"

abbreviation (input) FEATURE_BASE :: u64 where
  "FEATURE_BASE \<equiv> push_bit 0 1"

abbreviation (input) FEATURE_WHOLE_OBJECT :: u64 where
  "FEATURE_WHOLE_OBJECT \<equiv> push_bit 1 1"

abbreviation (input) FEATURE_LISTING :: u64 where
  "FEATURE_LISTING \<equiv> push_bit 2 1"

abbreviation (input) FEATURE_RANDOM_READER :: u64 where
  "FEATURE_RANDOM_READER \<equiv> push_bit 3 1"

abbreviation (input) FEATURE_CHUNKED_WRITER :: u64 where
  "FEATURE_CHUNKED_WRITER \<equiv> push_bit 4 1"

abbreviation (input) FEATURE_READ_STREAM :: u64 where
  "FEATURE_READ_STREAM \<equiv> push_bit 5 1"

abbreviation (input) FEATURE_WRITER_ABORT :: u64 where
  "FEATURE_WRITER_ABORT \<equiv> push_bit 6 1"

abbreviation (input) FEATURE_S3 :: u64 where
  "FEATURE_S3 \<equiv> push_bit 7 1"

abbreviation (input) FEATURE_PRESIGN :: u64 where
  "FEATURE_PRESIGN \<equiv> push_bit 8 1"

abbreviation (input) FEATURE_LAYERS :: u64 where
  "FEATURE_LAYERS \<equiv> push_bit 9 1"

abbreviation (input) FEATURE_CONCURRENCY_LIMIT :: u64 where
  "FEATURE_CONCURRENCY_LIMIT \<equiv> push_bit 10 1"

abbreviation (input) FEATURE_BATCH_DELETE :: u64 where
  "FEATURE_BATCH_DELETE \<equiv> push_bit 11 1"

abbreviation (input) FEATURE_COPIER :: u64 where
  "FEATURE_COPIER \<equiv> push_bit 12 1"

abbreviation (input) FEATURE_ASYNC :: u64 where
  "FEATURE_ASYNC \<equiv> push_bit 13 1"

abbreviation (input) CAP_STAT :: u64 where
  "CAP_STAT \<equiv> push_bit 0 1"

abbreviation (input) CAP_READ :: u64 where
  "CAP_READ \<equiv> push_bit 1 1"

abbreviation (input) CAP_WRITE :: u64 where
  "CAP_WRITE \<equiv> push_bit 2 1"

abbreviation (input) CAP_CREATE_DIR :: u64 where
  "CAP_CREATE_DIR \<equiv> push_bit 3 1"

abbreviation (input) CAP_DELETE :: u64 where
  "CAP_DELETE \<equiv> push_bit 4 1"

abbreviation (input) CAP_LIST :: u64 where
  "CAP_LIST \<equiv> push_bit 5 1"

abbreviation (input) CAP_COPY :: u64 where
  "CAP_COPY \<equiv> push_bit 6 1"

abbreviation (input) CAP_RENAME :: u64 where
  "CAP_RENAME \<equiv> push_bit 7 1"

abbreviation (input) CAP_READ_SUFFIX :: u64 where
  "CAP_READ_SUFFIX \<equiv> push_bit 8 1"

abbreviation (input) CAP_WRITE_APPEND :: u64 where
  "CAP_WRITE_APPEND \<equiv> push_bit 9 1"

abbreviation (input) CAP_LIST_LIMIT :: u64 where
  "CAP_LIST_LIMIT \<equiv> push_bit 10 1"

abbreviation (input) CAP_LIST_START_AFTER :: u64 where
  "CAP_LIST_START_AFTER \<equiv> push_bit 11 1"

abbreviation (input) CAP_LIST_RECURSIVE :: u64 where
  "CAP_LIST_RECURSIVE \<equiv> push_bit 12 1"

abbreviation (input) CAP_PRESIGN_STAT :: u64 where
  "CAP_PRESIGN_STAT \<equiv> push_bit 13 1"

abbreviation (input) CAP_PRESIGN_READ :: u64 where
  "CAP_PRESIGN_READ \<equiv> push_bit 14 1"

abbreviation (input) CAP_PRESIGN_WRITE :: u64 where
  "CAP_PRESIGN_WRITE \<equiv> push_bit 15 1"

abbreviation (input) READ_VERSION_PRESENT :: u64 where
  "READ_VERSION_PRESENT \<equiv> push_bit 0 1"

abbreviation (input) READ_IF_MATCH_PRESENT :: u64 where
  "READ_IF_MATCH_PRESENT \<equiv> push_bit 1 1"

abbreviation (input) READ_IF_NONE_MATCH_PRESENT :: u64 where
  "READ_IF_NONE_MATCH_PRESENT \<equiv> push_bit 2 1"

abbreviation (input) READER_VERSION_PRESENT :: u64 where
  "READER_VERSION_PRESENT \<equiv> push_bit 0 1"

abbreviation (input) READER_IF_MATCH_PRESENT :: u64 where
  "READER_IF_MATCH_PRESENT \<equiv> push_bit 1 1"

abbreviation (input) READER_IF_NONE_MATCH_PRESENT :: u64 where
  "READER_IF_NONE_MATCH_PRESENT \<equiv> push_bit 2 1"

abbreviation (input) READ_STREAM_VERSION_PRESENT :: u64 where
  "READ_STREAM_VERSION_PRESENT \<equiv> push_bit 0 1"

abbreviation (input) READ_STREAM_IF_MATCH_PRESENT :: u64 where
  "READ_STREAM_IF_MATCH_PRESENT \<equiv> push_bit 1 1"

abbreviation (input) READ_STREAM_IF_NONE_MATCH_PRESENT :: u64 where
  "READ_STREAM_IF_NONE_MATCH_PRESENT \<equiv> push_bit 2 1"

abbreviation (input) WRITE_APPEND :: u64 where
  "WRITE_APPEND \<equiv> push_bit 0 1"

abbreviation (input) WRITE_CONTENT_TYPE_PRESENT :: u64 where
  "WRITE_CONTENT_TYPE_PRESENT \<equiv> push_bit 0 1"

abbreviation (input) WRITE_CONTENT_DISPOSITION_PRESENT :: u64 where
  "WRITE_CONTENT_DISPOSITION_PRESENT \<equiv> push_bit 1 1"

abbreviation (input) WRITE_CONTENT_ENCODING_PRESENT :: u64 where
  "WRITE_CONTENT_ENCODING_PRESENT \<equiv> push_bit 2 1"

abbreviation (input) WRITE_CACHE_CONTROL_PRESENT :: u64 where
  "WRITE_CACHE_CONTROL_PRESENT \<equiv> push_bit 3 1"

abbreviation (input) WRITE_IF_MATCH_PRESENT :: u64 where
  "WRITE_IF_MATCH_PRESENT \<equiv> push_bit 4 1"

abbreviation (input) WRITE_IF_NONE_MATCH_PRESENT :: u64 where
  "WRITE_IF_NONE_MATCH_PRESENT \<equiv> push_bit 5 1"

abbreviation (input) STAT_VERSION_PRESENT :: u64 where
  "STAT_VERSION_PRESENT \<equiv> push_bit 0 1"

abbreviation (input) STAT_IF_MATCH_PRESENT :: u64 where
  "STAT_IF_MATCH_PRESENT \<equiv> push_bit 1 1"

abbreviation (input) STAT_IF_NONE_MATCH_PRESENT :: u64 where
  "STAT_IF_NONE_MATCH_PRESENT \<equiv> push_bit 2 1"

abbreviation (input) LIST_RECURSIVE :: u64 where
  "LIST_RECURSIVE \<equiv> push_bit 0 1"

abbreviation (input) LIST_LIMIT_PRESENT :: u64 where
  "LIST_LIMIT_PRESENT \<equiv> push_bit 0 1"

abbreviation (input) LIST_START_AFTER_PRESENT :: u64 where
  "LIST_START_AFTER_PRESENT \<equiv> push_bit 1 1"

abbreviation (input) DELETE_RECURSIVE :: u64 where
  "DELETE_RECURSIVE \<equiv> push_bit 0 1"

abbreviation (input) DELETE_VERSION_PRESENT :: u64 where
  "DELETE_VERSION_PRESENT \<equiv> push_bit 0 1"

abbreviation (input) S3_AUTH_DEFAULT_CHAIN :: u32 where
  "S3_AUTH_DEFAULT_CHAIN \<equiv> 0"

abbreviation (input) S3_AUTH_STATIC :: u32 where
  "S3_AUTH_STATIC \<equiv> 1"

abbreviation (input) S3_AUTH_UNSIGNED :: u32 where
  "S3_AUTH_UNSIGNED \<equiv> 2"

abbreviation (input) S3_AUTH_ASSUME_ROLE :: u32 where
  "S3_AUTH_ASSUME_ROLE \<equiv> 3"

abbreviation (input) S3_SOURCE_DEFAULT_CHAIN :: u32 where
  "S3_SOURCE_DEFAULT_CHAIN \<equiv> 0"

abbreviation (input) S3_SOURCE_STATIC :: u32 where
  "S3_SOURCE_STATIC \<equiv> 1"

abbreviation (input) S3_ROOT_PRESENT :: u64 where
  "S3_ROOT_PRESENT \<equiv> push_bit 0 1"

abbreviation (input) S3_ENDPOINT_PRESENT :: u64 where
  "S3_ENDPOINT_PRESENT \<equiv> push_bit 1 1"

abbreviation (input) S3_SESSION_TOKEN_PRESENT :: u64 where
  "S3_SESSION_TOKEN_PRESENT \<equiv> push_bit 2 1"

abbreviation (input) S3_EXTERNAL_ID_PRESENT :: u64 where
  "S3_EXTERNAL_ID_PRESENT \<equiv> push_bit 3 1"

abbreviation (input) S3_ROLE_SESSION_NAME_PRESENT :: u64 where
  "S3_ROLE_SESSION_NAME_PRESENT \<equiv> push_bit 4 1"

abbreviation (input) S3_ASSUME_ROLE_DURATION_PRESENT :: u64 where
  "S3_ASSUME_ROLE_DURATION_PRESENT \<equiv> push_bit 5 1"

abbreviation (input) S3_VIRTUAL_HOST_STYLE :: u64 where
  "S3_VIRTUAL_HOST_STYLE \<equiv> push_bit 0 1"

abbreviation (input) S3_DISABLE_EC2_METADATA :: u64 where
  "S3_DISABLE_EC2_METADATA \<equiv> push_bit 1 1"

abbreviation (input) METADATA_IS_CURRENT_PRESENT :: u64 where
  "METADATA_IS_CURRENT_PRESENT \<equiv> push_bit 0 1"

abbreviation (input) METADATA_LAST_MODIFIED_PRESENT :: u64 where
  "METADATA_LAST_MODIFIED_PRESENT \<equiv> push_bit 1 1"

abbreviation (input) METADATA_CACHE_CONTROL_PRESENT :: u64 where
  "METADATA_CACHE_CONTROL_PRESENT \<equiv> push_bit 2 1"

abbreviation (input) METADATA_CONTENT_DISPOSITION_PRESENT :: u64 where
  "METADATA_CONTENT_DISPOSITION_PRESENT \<equiv> push_bit 3 1"

abbreviation (input) METADATA_CONTENT_ENCODING_PRESENT :: u64 where
  "METADATA_CONTENT_ENCODING_PRESENT \<equiv> push_bit 4 1"

abbreviation (input) METADATA_CONTENT_MD5_PRESENT :: u64 where
  "METADATA_CONTENT_MD5_PRESENT \<equiv> push_bit 5 1"

abbreviation (input) METADATA_CONTENT_TYPE_PRESENT :: u64 where
  "METADATA_CONTENT_TYPE_PRESENT \<equiv> push_bit 6 1"

abbreviation (input) METADATA_ETAG_PRESENT :: u64 where
  "METADATA_ETAG_PRESENT \<equiv> push_bit 7 1"

abbreviation (input) METADATA_VERSION_PRESENT :: u64 where
  "METADATA_VERSION_PRESENT \<equiv> push_bit 8 1"

text \<open>\<open>MAX_OUTPUT_BYTES\<close> of \<open>lib.rs\<close>: \<open>i32::MAX\<close> as a \<open>u64\<close>.\<close>

abbreviation (input) MAX_OUTPUT_BYTES :: u64 where
  "MAX_OUTPUT_BYTES \<equiv> 2147483647"

abbreviation (input) OPERATOR_LAYER_TIMEOUT :: u32 where
  "OPERATOR_LAYER_TIMEOUT \<equiv> push_bit 0 1"

abbreviation (input) OPERATOR_LAYER_RETRY :: u32 where
  "OPERATOR_LAYER_RETRY \<equiv> push_bit 1 1"

abbreviation (input) OPERATOR_LAYER_CONCURRENCY_LIMIT :: u32 where
  "OPERATOR_LAYER_CONCURRENCY_LIMIT \<equiv> push_bit 2 1"

section \<open>Third-party values the bridge inspects\<close>

type_synonym token = nat

text \<open>An \<open>opendal::Buffer\<close> is a sequence of contiguous segments.\<close>

type_synonym Buffer = "u8 list list"

definition buffer_len_of :: "Buffer \<Rightarrow> usize" where
  "buffer_len_of b = length (concat b)"

datatype BytesRange = Range u64 "u64 option" | Suffix u64

datatype EntryMode = FILE | DIR | UnknownMode

datatype ErrorKind =
    KUnexpected | KUnsupported | KConfigInvalid | KNotFound | KPermissionDenied
  | KIsADirectory | KNotADirectory | KAlreadyExists | KRateLimited | KIsSameFile
  | KConditionNotMatch | KRangeNotSatisfied | KOther

record opendal_Error =
  oe_kind :: ErrorKind
  oe_kind_static :: string
  oe_is_temporary :: bool
  oe_is_persistent :: bool
  oe_message :: string

record Metadata =
  md_mode :: EntryMode
  md_is_current :: "bool option"
  md_is_deleted :: bool
  md_content_length :: u64
  md_last_modified :: "(int \<times> int) option"
  md_cache_control :: "string option"
  md_content_disposition :: "string option"
  md_content_encoding :: "string option"
  md_content_md5 :: "string option"
  md_content_type :: "string option"
  md_etag :: "string option"
  md_version :: "string option"

record Capability =
  cap_stat :: bool
  cap_read :: bool
  cap_write :: bool
  cap_create_dir :: bool
  cap_delete :: bool
  cap_list :: bool
  cap_copy :: bool
  cap_rename :: bool
  cap_read_with_suffix :: bool
  cap_write_can_append :: bool
  cap_list_with_limit :: bool
  cap_list_with_start_after :: bool
  cap_list_with_recursive :: bool
  cap_presign_stat :: bool
  cap_presign_read :: bool
  cap_presign_write :: bool
  cap_delete_max_size :: "usize option"

text \<open>The option structs of OpenDAL, with the fields the bridge sets or reads.\<close>

record ReadOptions =
  rop_range :: BytesRange
  rop_version :: "string option"
  rop_if_match :: "string option"
  rop_if_none_match :: "string option"
  rop_if_modified_since :: "int option"
  rop_if_unmodified_since :: "int option"
  rop_content_length_hint :: "u64 option"

record ReaderOptions =
  rdo_version :: "string option"
  rdo_if_match :: "string option"
  rdo_if_none_match :: "string option"
  rdo_if_modified_since :: "int option"
  rdo_if_unmodified_since :: "int option"
  rdo_content_length_hint :: "u64 option"
  rdo_concurrent :: usize
  rdo_chunk :: "usize option"
  rdo_gap :: "usize option"
  rdo_prefetch :: usize

record StatOptions =
  sop_version :: "string option"
  sop_if_match :: "string option"
  sop_if_none_match :: "string option"

record WriteOptions =
  wop_append :: bool
  wop_content_type :: "string option"
  wop_content_disposition :: "string option"
  wop_content_encoding :: "string option"
  wop_cache_control :: "string option"
  wop_if_match :: "string option"
  wop_if_none_match :: "string option"

record ListOptions =
  lop_limit :: "usize option"
  lop_start_after :: "string option"
  lop_recursive :: bool

record DeleteOptions =
  dop_version :: "string option"
  dop_recursive :: bool

section \<open>Input structs\<close>

record BytesViewV1 =
  bv_data :: addr
  bv_len :: u64

record KvV1 =
  kv_key :: BytesViewV1
  kv_value :: BytesViewV1

record StructHeaderV1 =
  hdr_struct_size :: u32
  hdr_struct_version :: u32

record ByteRangeV1 =
  br_struct_size :: u32
  br_struct_version :: u32
  br_kind :: u32
  br_reserved0 :: u32
  br_offset :: u64
  br_length :: u64

record ReadOptionsV1 =
  ro_struct_size :: u32
  ro_struct_version :: u32
  ro_present_bits :: u64
  ro_range :: ByteRangeV1
  ro_version :: BytesViewV1
  ro_if_match :: BytesViewV1
  ro_if_none_match :: BytesViewV1

record ReaderOptionsV1 =
  rd_struct_size :: u32
  rd_struct_version :: u32
  rd_present_bits :: u64
  rd_version :: BytesViewV1
  rd_if_match :: BytesViewV1
  rd_if_none_match :: BytesViewV1

record ReadStreamOptionsV1 =
  rs_struct_size :: u32
  rs_struct_version :: u32
  rs_present_bits :: u64
  rs_range :: ByteRangeV1
  rs_chunk_size :: u64
  rs_version :: BytesViewV1
  rs_if_match :: BytesViewV1
  rs_if_none_match :: BytesViewV1

record WriteOptionsV1 =
  wo_struct_size :: u32
  wo_struct_version :: u32
  wo_present_bits :: u64
  wo_flags :: u64
  wo_content_type :: BytesViewV1
  wo_content_disposition :: BytesViewV1
  wo_content_encoding :: BytesViewV1
  wo_cache_control :: BytesViewV1
  wo_if_match :: BytesViewV1
  wo_if_none_match :: BytesViewV1

record StatOptionsV1 =
  so_struct_size :: u32
  so_struct_version :: u32
  so_present_bits :: u64
  so_version :: BytesViewV1
  so_if_match :: BytesViewV1
  so_if_none_match :: BytesViewV1

record ListOptionsV1 =
  lo_struct_size :: u32
  lo_struct_version :: u32
  lo_present_bits :: u64
  lo_flags :: u64
  lo_limit :: u64
  lo_start_after :: BytesViewV1

record DeleteOptionsV1 =
  do_struct_size :: u32
  do_struct_version :: u32
  do_present_bits :: u64
  do_flags :: u64
  do_version :: BytesViewV1

record S3OptionsV1 =
  s3_struct_size :: u32
  s3_struct_version :: u32
  s3_present_bits :: u64
  s3_flags :: u64
  s3_auth_kind :: u32
  s3_source_kind :: u32
  s3_bucket :: BytesViewV1
  s3_region :: BytesViewV1
  s3_root :: BytesViewV1
  s3_endpoint :: BytesViewV1
  s3_access_key_id :: BytesViewV1
  s3_secret_access_key :: BytesViewV1
  s3_session_token :: BytesViewV1
  s3_role_arn :: BytesViewV1
  s3_external_id :: BytesViewV1
  s3_role_session_name :: BytesViewV1
  s3_assume_role_duration_seconds :: u32
  s3_reserved0 :: u32

section \<open>Output views\<close>

record TimestampV1 =
  ts_unix_seconds :: int
  ts_nanoseconds :: u32
  ts_reserved0 :: u32

record CapabilityV1 =
  cv_words :: "u64 list"

record MetadataViewV1 =
  mv_struct_size :: u32
  mv_struct_version :: u32
  mv_present_bits :: u64
  mv_mode :: u32
  mv_is_current :: u32
  mv_is_deleted :: u32
  mv_reserved0 :: u32
  mv_content_length :: u64
  mv_last_modified :: TimestampV1
  mv_cache_control :: BytesViewV1
  mv_content_disposition :: BytesViewV1
  mv_content_encoding :: BytesViewV1
  mv_content_md5 :: BytesViewV1
  mv_content_type :: BytesViewV1
  mv_etag :: BytesViewV1
  mv_version :: BytesViewV1

record EntryViewV1 =
  ev_struct_size :: u32
  ev_struct_version :: u32
  ev_reserved0 :: u64
  ev_path :: BytesViewV1
  ev_name :: BytesViewV1

record OperatorInfoViewV1 =
  iv_struct_size :: u32
  iv_struct_version :: u32
  iv_reserved0 :: u64
  iv_scheme :: BytesViewV1
  iv_root :: BytesViewV1
  iv_name :: BytesViewV1
  iv_capability :: CapabilityV1

record ErrorViewV1 =
  erv_struct_size :: u32
  erv_struct_version :: u32
  erv_kind :: u32
  erv_status :: u32
  erv_kind_name :: BytesViewV1
  erv_message :: BytesViewV1

record LibraryInfoViewV1 =
  lv_struct_size :: u32
  lv_struct_version :: u32
  lv_reserved0 :: u64
  lv_binding_version :: BytesViewV1
  lv_opendal_version :: BytesViewV1
  lv_service_profile :: BytesViewV1

record PresignedRequestViewV1 =
  pv_struct_size :: u32
  pv_struct_version :: u32
  pv_reserved0 :: u64
  pv_method :: BytesViewV1
  pv_uri :: BytesViewV1
  pv_header_count :: u64

record PresignedHeaderViewV1 =
  phv_struct_size :: u32
  phv_struct_version :: u32
  phv_reserved0 :: u64
  phv_name :: BytesViewV1
  phv_value :: BytesViewV1

section \<open>Handles\<close>

text \<open>A \<open>std::sync::Mutex\<close> or \<open>RwLock\<close>: the protected value and the poison flag.\<close>

record 'a mutex =
  mx_state :: 'a
  mx_poisoned :: bool

record OperatorV1 =
  op_async_inner :: token
  op_inner :: token
  op_layer_bits :: u32
  op_read_with_suffix :: bool

record BufferV1 =
  buf_bytes :: "u8 list"

record ErrorV1 =
  err_kind :: u32
  err_status :: u32
  err_kind_name :: string
  err_message :: string

record MetadataV1 =
  mdv_metadata :: Metadata

record EntryV1 =
  ent_path :: string
  ent_name :: string
  ent_metadata :: Metadata

record OperatorInfoV1 =
  inf_scheme :: string
  inf_root :: string
  inf_name :: string
  inf_capability :: CapabilityV1

record PresignedHeaderV1 =
  ph_name :: string
  ph_value :: "u8 list"

record PresignedRequestV1 =
  pr_method :: string
  pr_uri :: string
  pr_headers :: "PresignedHeaderV1 list"

datatype ListerStateV1 = ListerOpen token | ListerExhausted | ListerClosed

record ListerV1 =
  lister_state :: "ListerStateV1 mutex"

datatype ReaderStateV1 = ReaderOpen token | ReaderClosed

record ReaderV1 =
  reader_state :: "ReaderStateV1 mutex"
  reader_read_with_suffix :: bool

record ReadStreamCursorV1 =
  cur_iterator :: token
  cur_pending :: "Buffer option"

datatype ReadStreamStateV1 = StreamOpen ReadStreamCursorV1 | StreamEnd | StreamFailed | StreamClosed

record ReadStreamV1 =
  stream_state :: "ReadStreamStateV1 mutex"
  stream_chunk_size :: u64

datatype WriterStateV1 = WriterOpen token | WriterBusy | WriterFinished | WriterAborted | WriterFailed

record WriterV1 =
  writer_state :: "WriterStateV1 mutex"

datatype CopierStateV1 =
    CopierOpen token | CopierBusy | CopierEnd token | CopierFinished | CopierAborted | CopierFailed

record CopierV1 =
  copier_state :: "CopierStateV1 mutex"

section \<open>The asynchronous layer's types\<close>

datatype AsyncResultKind = RBuffer | RMetadata | RReadStream | RWriter | RUnit

text \<open>
  \<open>AsyncReadStreamV1\<close> and \<open>AsyncWriterV1\<close> hold a reference-counted core; a core is named by a
  number.
\<close>

record AsyncReadStreamV1 =
  ars_core :: nat

record AsyncWriterV1 =
  aw_core :: nat

datatype AsyncPayload =
    PayloadNone | PayloadBuffer BufferV1 | PayloadMetadata MetadataV1
  | PayloadReadStream AsyncReadStreamV1 | PayloadWriter AsyncWriterV1 | PayloadUnit

record AsyncOutcome =
  ao_kind :: AsyncResultKind
  ao_status :: u32
  ao_payload :: AsyncPayload
  ao_error :: "ErrorV1 option"

datatype AsyncTaskState = Running token | Completed AsyncOutcome | Taken | Cancelled

datatype AsyncResourcePoison = PoisonReadStream nat | PoisonWriter nat

record AsyncTaskInner =
  ati_state :: AsyncTaskState
  ati_signal :: "token option"

record AsyncTaskShared =
  ats_inner :: "AsyncTaskInner mutex"
  ats_resource :: "AsyncResourcePoison option"

record AsyncTaskV1 =
  at_shared :: nat

record AsyncReadStreamCursor =
  acur_stream :: token
  acur_pending :: "Buffer option"

datatype AsyncReadStreamState =
    ArsOpen AsyncReadStreamCursor | ArsBusy "token option" | ArsEnd | ArsFailed | ArsClosed

record AsyncReadStreamCore =
  arsc_state :: "AsyncReadStreamState mutex"
  arsc_chunk_size :: u64

datatype AsyncReadStreamNext = NextChunk | NextEnd | NextFailed

datatype AsyncReadStreamStart = StartCursor AsyncReadStreamCursor | StartEnd

datatype AsyncWriterState =
    AwOpen token | AwBusy "token option" | AwFinished | AwAborted | AwFailed

record AsyncWriterCore =
  awc_state :: "AsyncWriterState mutex"

datatype AsyncWriterCompletion = CompOpen | CompFinished | CompAborted | CompFailed

section \<open>Sizes and alignments on a 64-bit target\<close>

text \<open>The compile-time assertions at the end of \<open>abi.rs\<close>.\<close>

definition size_of_BytesViewV1 :: usize where "size_of_BytesViewV1 = 16"
definition size_of_KvV1 :: usize where "size_of_KvV1 = 32"
definition size_of_ByteRangeV1 :: usize where "size_of_ByteRangeV1 = 32"
definition size_of_ReadOptionsV1 :: usize where "size_of_ReadOptionsV1 = 96"
definition size_of_ReaderOptionsV1 :: usize where "size_of_ReaderOptionsV1 = 64"
definition size_of_ReadStreamOptionsV1 :: usize where "size_of_ReadStreamOptionsV1 = 104"
definition size_of_WriteOptionsV1 :: usize where "size_of_WriteOptionsV1 = 120"
definition size_of_StatOptionsV1 :: usize where "size_of_StatOptionsV1 = 64"
definition size_of_ListOptionsV1 :: usize where "size_of_ListOptionsV1 = 48"
definition size_of_DeleteOptionsV1 :: usize where "size_of_DeleteOptionsV1 = 40"
definition size_of_S3OptionsV1 :: usize where "size_of_S3OptionsV1 = 200"
definition size_of_MetadataViewV1 :: usize where "size_of_MetadataViewV1 = 168"
definition size_of_EntryViewV1 :: usize where "size_of_EntryViewV1 = 48"
definition size_of_OperatorInfoViewV1 :: usize where "size_of_OperatorInfoViewV1 = 96"
definition size_of_ErrorViewV1 :: usize where "size_of_ErrorViewV1 = 48"
definition size_of_LibraryInfoViewV1 :: usize where "size_of_LibraryInfoViewV1 = 64"
definition size_of_PresignedRequestViewV1 :: usize where "size_of_PresignedRequestViewV1 = 56"
definition size_of_PresignedHeaderViewV1 :: usize where "size_of_PresignedHeaderViewV1 = 48"

end
