(* ===== verification/Utf8.thy ===== *)
theory Utf8
  imports Prelude
begin

text \<open>
  The check made by \<open>std::str::from_utf8\<close>: the well-formed byte sequences of the Unicode
  standard (table of well-formed UTF-8 byte sequences), which exclude overlong forms,
  surrogates and code points above 10FFFF.
\<close>

definition utf8_cont :: "u8 \<Rightarrow> bool" where
  "utf8_cont b \<longleftrightarrow> 0x80 \<le> b \<and> b \<le> 0xBF"

text \<open>Lead byte and second byte of a three-byte and of a four-byte sequence.\<close>

definition utf8_lead3 :: "u8 \<Rightarrow> u8 \<Rightarrow> bool" where
  "utf8_lead3 a b \<longleftrightarrow>
     (a = 0xE0 \<and> 0xA0 \<le> b \<and> b \<le> 0xBF) \<or>
     (0xE1 \<le> a \<and> a \<le> 0xEC \<and> utf8_cont b) \<or>
     (a = 0xED \<and> 0x80 \<le> b \<and> b \<le> 0x9F) \<or>
     (0xEE \<le> a \<and> a \<le> 0xEF \<and> utf8_cont b)"

definition utf8_lead4 :: "u8 \<Rightarrow> u8 \<Rightarrow> bool" where
  "utf8_lead4 a b \<longleftrightarrow>
     (a = 0xF0 \<and> 0x90 \<le> b \<and> b \<le> 0xBF) \<or>
     (0xF1 \<le> a \<and> a \<le> 0xF3 \<and> utf8_cont b) \<or>
     (a = 0xF4 \<and> 0x80 \<le> b \<and> b \<le> 0x8F)"

fun valid_utf8 :: "u8 list \<Rightarrow> bool" where
  "valid_utf8 [] = True"
| "valid_utf8 [a] = (a < 0x80)"
| "valid_utf8 [a, b] =
     (if a < 0x80 then valid_utf8 [b] else 0xC2 \<le> a \<and> a \<le> 0xDF \<and> utf8_cont b)"
| "valid_utf8 [a, b, c] =
     (if a < 0x80 then valid_utf8 [b, c]
      else if 0xC2 \<le> a \<and> a \<le> 0xDF then utf8_cont b \<and> valid_utf8 [c]
      else utf8_lead3 a b \<and> utf8_cont c)"
| "valid_utf8 (a # b # c # d # bs) =
     (if a < 0x80 then valid_utf8 (b # c # d # bs)
      else if 0xC2 \<le> a \<and> a \<le> 0xDF then utf8_cont b \<and> valid_utf8 (c # d # bs)
      else if utf8_lead3 a b then utf8_cont c \<and> valid_utf8 (d # bs)
      else utf8_lead4 a b \<and> utf8_cont c \<and> utf8_cont d \<and> valid_utf8 bs)"

text \<open>\<open>str::from_utf8(bytes).map(str::to_owned)\<close>, without the position of the fault.\<close>

definition from_utf8 :: "u8 list \<Rightarrow> unit + string" where
  "from_utf8 bs = (if valid_utf8 bs then Inr (text_of_bytes bs) else Inl ())"

lemma valid_utf8_ascii_Cons:
  "a < 0x80 \<Longrightarrow> valid_utf8 (a # bs) = valid_utf8 bs"
  by (cases bs rule: valid_utf8.cases) auto

text \<open>Every ASCII string is accepted.\<close>

lemma valid_utf8_ascii:
  "(\<And>b. b \<in> set bs \<Longrightarrow> b < 0x80) \<Longrightarrow> valid_utf8 bs"
proof (induction bs)
  case (Cons a bs)
  then have "a < 0x80" and "valid_utf8 bs" by auto
  then show ?case by (simp only: valid_utf8_ascii_Cons)
qed simp

text \<open>Well-formed sequences concatenate.\<close>

lemma valid_utf8_append:
  "valid_utf8 xs \<Longrightarrow> valid_utf8 ys \<Longrightarrow> valid_utf8 (xs @ ys)"
proof (induction xs rule: valid_utf8.induct)
  case (2 a)
  then show ?case by (simp add: valid_utf8_ascii_Cons)
next
  case (3 a b)
  show ?case
  proof (cases "a < 0x80")
    case True
    with 3 show ?thesis by (simp add: valid_utf8_ascii_Cons)
  next
    case False
    with 3 have two: "0xC2 \<le> a" "a \<le> 0xDF" "utf8_cont b" by auto
    with False \<open>valid_utf8 ys\<close> show ?thesis
      by (cases ys rule: valid_utf8.cases) auto
  qed
next
  case (4 a b c)
  show ?case
  proof (cases "a < 0x80")
    case True
    with 4 show ?thesis by (simp add: valid_utf8_ascii_Cons)
  next
    case nascii: False
    show ?thesis
    proof (cases "0xC2 \<le> a \<and> a \<le> 0xDF")
      case True
      with 4 nascii have "utf8_cont b" "valid_utf8 ([c] @ ys)" by auto
      with nascii True show ?thesis by (cases ys) auto
    next
      case False
      with 4 nascii have "utf8_lead3 a b" "utf8_cont c" by auto
      with False nascii \<open>valid_utf8 ys\<close> show ?thesis by (cases ys) auto
    qed
  qed
next
  case (5 a b c d bs)
  then show ?case by (auto split: if_splits)
qed simp

lemma from_utf8_Inr: "from_utf8 bs = Inr s \<longleftrightarrow> valid_utf8 bs \<and> bytes_of_text s = bs"
  by (auto simp: from_utf8_def)

lemma from_utf8_Inl: "from_utf8 bs = Inl e \<longleftrightarrow> \<not> valid_utf8 bs"
  by (auto simp: from_utf8_def)

end
