(* ===== verification/Failure.thy ===== *)
theory Failure
  imports Abi
begin

text \<open>
  Failures of a call (\<open>CallFailure\<close>, \<open>CallResult\<close> of \<open>lib.rs\<close>) and the functions that build them:
  errors of the binding itself, snapshots of OpenDAL errors, and the redacted errors of operator
  construction.
\<close>

section \<open>CallFailure\<close>

datatype CallFailure = AbiMismatch | Error ErrorV1

type_synonym 'a CallResult = "CallFailure + 'a"

definition abi_mismatch :: "'a CallResult" where
  "abi_mismatch = Inl AbiMismatch"

definition exceeds_output_limit :: "usize \<Rightarrow> bool" where
  \<comment> \<open>\<open>u64::try_from(len).map_or(true, |len| len > MAX_OUTPUT_BYTES)\<close>\<close>
  "exceeds_output_limit n =
     (case u64_try_from n of None \<Rightarrow> True | Some len \<Rightarrow> len > MAX_OUTPUT_BYTES)"

definition binding_error :: "u32 \<Rightarrow> string \<Rightarrow> string \<Rightarrow> CallFailure" where
  "binding_error kind name message =
     (let message = (if exceeds_output_limit (length message)
                     then ''error message exceeds the binding output limit'' else message)
      in Error \<lparr>err_kind = kind, err_status = ERROR_STATUS_PERMANENT,
                err_kind_name = name, err_message = message\<rparr>)"

definition invalid_argument :: "string \<Rightarrow> CallFailure" where
  "invalid_argument message = binding_error ERROR_INVALID_ARGUMENT ''InvalidArgument'' message"

definition buffer_too_large :: "string \<Rightarrow> CallFailure" where
  "buffer_too_large message = binding_error ERROR_BUFFER_TOO_LARGE ''BufferTooLarge'' message"

definition unsupported :: "string \<Rightarrow> CallFailure" where
  "unsupported message = binding_error ERROR_UNSUPPORTED ''Unsupported'' message"

definition resource_closed :: "string \<Rightarrow> CallFailure" where
  "resource_closed message = binding_error ERROR_RESOURCE_CLOSED ''ResourceClosed'' message"

definition unexpected :: "string \<Rightarrow> CallFailure" where
  "unexpected message = binding_error ERROR_UNEXPECTED ''Unexpected'' message"

section \<open>OpenDAL errors\<close>

fun error_code :: "ErrorKind \<Rightarrow> u32" where
  "error_code KUnexpected = ERROR_UNEXPECTED"
| "error_code KUnsupported = ERROR_UNSUPPORTED"
| "error_code KConfigInvalid = ERROR_CONFIG_INVALID"
| "error_code KNotFound = ERROR_NOT_FOUND"
| "error_code KPermissionDenied = ERROR_PERMISSION_DENIED"
| "error_code KIsADirectory = ERROR_IS_A_DIRECTORY"
| "error_code KNotADirectory = ERROR_NOT_A_DIRECTORY"
| "error_code KAlreadyExists = ERROR_ALREADY_EXISTS"
| "error_code KRateLimited = ERROR_RATE_LIMITED"
| "error_code KIsSameFile = ERROR_IS_SAME_FILE"
| "error_code KConditionNotMatch = ERROR_CONDITION_NOT_MATCH"
| "error_code KRangeNotSatisfied = ERROR_RANGE_NOT_SATISFIED"
| "error_code KOther = ERROR_UNEXPECTED"

definition opendal_error_snapshot :: "opendal_Error \<Rightarrow> ErrorV1" where
  "opendal_error_snapshot error =
     \<lparr>err_kind = error_code (oe_kind error),
      err_status = (if oe_is_temporary error then ERROR_STATUS_TEMPORARY
                    else if oe_is_persistent error then ERROR_STATUS_PERSISTENT
                    else ERROR_STATUS_PERMANENT),
      err_kind_name = oe_kind_static error,
      err_message = (if exceeds_output_limit (length (oe_message error))
                     then ''OpenDAL error message exceeds the binding output limit''
                     else oe_message error)\<rparr>"

definition opendal_error :: "opendal_Error \<Rightarrow> CallFailure" where
  "opendal_error error = Error (opendal_error_snapshot error)"

definition construction_error :: "opendal_Error \<Rightarrow> CallFailure" where
  "construction_error error =
     Error ((opendal_error_snapshot error)\<lparr>err_message := ''operator construction failed''\<rparr>)"

section \<open>Bounds and confidentiality of error snapshots\<close>

lemma exceeds_output_limit_iff: "exceeds_output_limit n \<longleftrightarrow> 2147483647 < n"
proof (cases "n \<le> u64_max")
  case True
  then have "(MAX_OUTPUT_BYTES < (word_of_nat n :: u64)) = (2147483647 < n)"
    by (simp add: word_less_nat_alt unat_u64_of_nat)
  with True show ?thesis by (simp add: exceeds_output_limit_def u64_try_from_def)
next
  case False
  then show ?thesis by (simp add: exceeds_output_limit_def u64_try_from_def u64_max_def)
qed

definition error_bounded :: "CallFailure \<Rightarrow> bool" where
  "error_bounded f =
     (case f of AbiMismatch \<Rightarrow> True | Error e \<Rightarrow> length (err_message e) \<le> 2147483647)"

lemma error_bounded_binding_error [simp]: "error_bounded (binding_error k n m)"
  by (simp add: error_bounded_def binding_error_def exceeds_output_limit_iff)

lemma error_bounded_opendal_error [simp]: "error_bounded (opendal_error e)"
  by (simp add: error_bounded_def opendal_error_def opendal_error_snapshot_def
      exceeds_output_limit_iff)

lemma error_bounded_construction_error [simp]: "error_bounded (construction_error e)"
  by (simp add: error_bounded_def construction_error_def)

lemma error_bounded_AbiMismatch [simp]: "error_bounded AbiMismatch"
  by (simp add: error_bounded_def)

lemmas binding_error_ctors =
  invalid_argument_def buffer_too_large_def unsupported_def resource_closed_def unexpected_def

lemma error_bounded_ctors [simp]:
  "error_bounded (invalid_argument m)" "error_bounded (buffer_too_large m)"
  "error_bounded (unsupported m)" "error_bounded (resource_closed m)"
  "error_bounded (unexpected m)"
  by (simp_all add: binding_error_ctors)

lemma binding_error_neq [simp]:
  "AbiMismatch \<noteq> binding_error k n m" "binding_error k n m \<noteq> AbiMismatch"
  by (simp_all add: binding_error_def Let_def)

lemma ctor_neq [simp]:
  "AbiMismatch \<noteq> invalid_argument m" "AbiMismatch \<noteq> buffer_too_large m"
  "AbiMismatch \<noteq> unsupported m" "AbiMismatch \<noteq> resource_closed m" "AbiMismatch \<noteq> unexpected m"
  "invalid_argument m \<noteq> AbiMismatch" "buffer_too_large m \<noteq> AbiMismatch"
  "unsupported m \<noteq> AbiMismatch" "resource_closed m \<noteq> AbiMismatch" "unexpected m \<noteq> AbiMismatch"
  by (simp_all add: binding_error_ctors)

lemma error_code_range: "error_code k \<in> {1..12}"
  by (cases k) auto

text \<open>
  Two construction failures that differ only in their diagnostic text are indistinguishable for
  the caller: nothing of the text reaches the snapshot.
\<close>

lemma construction_error_message_independent:
  "construction_error (e\<lparr>oe_message := m\<rparr>) = construction_error e"
  by (simp add: construction_error_def opendal_error_snapshot_def)

end
