(* ===== verification/World.thy ===== *)
theory World
  imports Failure Utf8
begin

text \<open>
  The state an entry point runs in, and the helper functions every entry point is made of
  (\<open>lib.rs\<close>, from \<open>catch_status\<close> to \<open>prepare_view\<close>).

  The caller's memory is a family of typed heaps, one per C type: reading a struct at a validated
  pointer yields the struct stored there, and writing an output slot changes that slot only.
  Regions of different C types do not overlap, which the C ABI demands of the caller. The boxes
  the library hands out live in \<open>boxes\<close>; \<open>ext\<close> is the state of everything outside this repository
  (OpenDAL, Tokio, the operating system), changed only by external calls.
\<close>

section \<open>World\<close>

record inputs =
  i_u8 :: "addr \<Rightarrow> u8"
  i_view :: "addr \<Rightarrow> BytesViewV1"
  i_kv :: "addr \<Rightarrow> KvV1"
  i_range :: "addr \<Rightarrow> ByteRangeV1"
  i_read_options :: "addr \<Rightarrow> ReadOptionsV1"
  i_reader_options :: "addr \<Rightarrow> ReaderOptionsV1"
  i_read_stream_options :: "addr \<Rightarrow> ReadStreamOptionsV1"
  i_stat_options :: "addr \<Rightarrow> StatOptionsV1"
  i_write_options :: "addr \<Rightarrow> WriteOptionsV1"
  i_list_options :: "addr \<Rightarrow> ListOptionsV1"
  i_delete_options :: "addr \<Rightarrow> DeleteOptionsV1"
  i_s3_options :: "addr \<Rightarrow> S3OptionsV1"

record outputs =
  o_ptr :: "addr \<Rightarrow> addr"
  o_u64 :: "addr \<Rightarrow> u64"
  o_u32 :: "addr \<Rightarrow> u32"
  o_u8 :: "addr \<Rightarrow> u8"
  o_metadata_view :: "addr \<Rightarrow> MetadataViewV1"
  o_entry_view :: "addr \<Rightarrow> EntryViewV1"
  o_info_view :: "addr \<Rightarrow> OperatorInfoViewV1"
  o_error_view :: "addr \<Rightarrow> ErrorViewV1"
  o_library_view :: "addr \<Rightarrow> LibraryInfoViewV1"
  o_request_view :: "addr \<Rightarrow> PresignedRequestViewV1"
  o_header_view :: "addr \<Rightarrow> PresignedHeaderViewV1"

datatype obj =
    OBuffer BufferV1 | OError ErrorV1 | OMetadata MetadataV1 | OEntry EntryV1
  | OOperator OperatorV1 | OInfo OperatorInfoV1 | ORequest PresignedRequestV1
  | OLister ListerV1 | OReader ReaderV1 | OReadStream ReadStreamV1 | OWriter WriterV1
  | OCopier CopierV1 | OTask AsyncTaskV1 | OAsyncReadStream AsyncReadStreamV1
  | OAsyncWriter AsyncWriterV1

text \<open>\<open>runtime_cell\<close> is the static \<open>RUNTIME\<close>: unset, or the result of building the runtime.\<close>

record 'x world =
  inp :: inputs
  out :: outputs
  boxes :: "addr \<Rightarrow> obj option"
  next_box :: addr
  runtime_cell :: "(string + unit) option"
  ext :: 'x

type_synonym ('x, 'a) M = "('x world, CallFailure, 'a) comp"

text \<open>Allocated boxes lie below the allocator's next address, aligned and not null.\<close>

definition wf_world :: "'x world \<Rightarrow> bool" where
  "wf_world w \<longleftrightarrow> 0 < next_box w \<and> 16 dvd next_box w \<and>
     (\<forall>p ob. boxes w p = Some ob \<longrightarrow> 0 < p \<and> 16 dvd p \<and> p < next_box w)"

section \<open>External calls\<close>

datatype 'a ext_result = XOk 'a | XErr opendal_Error | XPanic

type_synonym ('x, 'a) xcall = "'x \<Rightarrow> 'a ext_result \<times> 'x"

definition ext_call :: "(opendal_Error \<Rightarrow> CallFailure) \<Rightarrow> ('x, 'a) xcall \<Rightarrow> ('x, 'a) M" where
  \<comment> \<open>a call into OpenDAL followed by \<open>.map_err(f)?\<close>\<close>
  "ext_call f c w =
     (let (r, x) = c (ext w); w = w\<lparr>ext := x\<rparr> in
      case r of XOk a \<Rightarrow> (Ok a, w) | XErr e \<Rightarrow> (Err (f e), w) | XPanic \<Rightarrow> (Panic, w))"

definition drop_contained :: "(token \<Rightarrow> ('x, unit) xcall) \<Rightarrow> token \<Rightarrow> ('x, unit) M" where
  \<comment> \<open>\<open>let _ = catch_unwind(|| drop(value))\<close>: neither an error nor a panic escapes\<close>
  "drop_contained drop_value t w = (Ok (), w\<lparr>ext := snd (drop_value t (ext w))\<rparr>)"

definition runtime :: "('x \<Rightarrow> bool \<times> 'x) \<Rightarrow> ('x, unit) M" where
  \<comment> \<open>\<open>build\<close> installs OpenDAL's defaults and builds the Tokio runtime, at most once\<close>
  "runtime build w =
     (let (cell, w) =
        (case runtime_cell w of
           Some r \<Rightarrow> (r, w)
         | None \<Rightarrow>
             (let (built, x) = build (ext w);
                  r = (if built then Inr () else Inl ''Tokio runtime initialization failed'')
              in (r, w\<lparr>runtime_cell := Some r, ext := x\<rparr>)))
      in case cell of
           Inr _ \<Rightarrow> (Ok (), w)
         | Inl message \<Rightarrow> (Err (unexpected message), w))"

section \<open>Pointers and borrowed regions\<close>

definition is_aligned :: "nat \<Rightarrow> addr \<Rightarrow> bool" where
  "is_aligned align p \<longleftrightarrow> p mod align = 0"

definition checked_len :: "u64 \<Rightarrow> usize CallResult" where
  "checked_len len =
     (case usize_try_from len of
        None \<Rightarrow> abi_mismatch
      | Some n \<Rightarrow> if n > isize_max then abi_mismatch else Inr n)"

definition checked_region :: "addr \<Rightarrow> usize \<Rightarrow> unit CallResult" where
  "checked_region p len =
     (if len = 0 then Inr ()
      else if p = null_ptr \<or> checked_add_usize p len = None then abi_mismatch
      else Inr ())"

definition read_required :: "nat \<Rightarrow> (addr \<Rightarrow> 'a) \<Rightarrow> addr \<Rightarrow> 'a CallResult" where
  "read_required align mem p =
     (if p = null_ptr \<or> \<not> is_aligned align p then abi_mismatch else Inr (mem p))"

definition borrow_required :: "(obj \<Rightarrow> 'a option) \<Rightarrow> addr \<Rightarrow> ('x, 'a) M" where
  \<comment> \<open>a non-null aligned handle that is not a live box of the right type is the caller's fault\<close>
  "borrow_required sel p w =
     (if p = null_ptr \<or> \<not> is_aligned 8 p then (Err AbiMismatch, w)
      else case boxes w p of
        None \<Rightarrow> (UB, w)
      | Some ob \<Rightarrow> (case sel ob of None \<Rightarrow> (UB, w) | Some a \<Rightarrow> (Ok a, w)))"

definition borrowed_bytes :: "inputs \<Rightarrow> BytesViewV1 \<Rightarrow> u8 list CallResult" where
  "borrowed_bytes m view =
     res_bind (checked_len (bv_len view)) (\<lambda>len.
       if len = 0 then Inr []
       else res_bind (checked_region (bv_data view) len) (\<lambda>_.
         Inr (map (\<lambda>i. i_u8 m (bv_data view + i)) [0..<len])))"

definition read_text_value :: "inputs \<Rightarrow> BytesViewV1 \<Rightarrow> string \<Rightarrow> string CallResult" where
  "read_text_value m view label =
     res_bind (borrowed_bytes m view) (\<lambda>bytes.
       case from_utf8 bytes of
         Inr s \<Rightarrow> Inr s
       | Inl _ \<Rightarrow> Inl (invalid_argument (label @ '' must be valid UTF-8'')))"

definition read_text :: "inputs \<Rightarrow> addr \<Rightarrow> string \<Rightarrow> string CallResult" where
  "read_text m p label =
     res_bind (read_required 8 (i_view m) p) (\<lambda>view. read_text_value m view label)"

definition read_binary :: "inputs \<Rightarrow> addr \<Rightarrow> u8 list CallResult" where
  "read_binary m p = res_bind (read_required 8 (i_view m) p) (\<lambda>view. borrowed_bytes m view)"

definition absent_bytes_is_canonical :: "BytesViewV1 \<Rightarrow> bool" where
  "absent_bytes_is_canonical view \<longleftrightarrow> bv_data view = null_ptr \<and> bv_len view = 0"

definition optional_text ::
  "inputs \<Rightarrow> BytesViewV1 \<Rightarrow> u64 \<Rightarrow> u64 \<Rightarrow> string \<Rightarrow> string option CallResult" where
  "optional_text m view present_bits flag label =
     (if present_bits AND flag \<noteq> 0 then map_sum id Some (read_text_value m view label)
      else if \<not> absent_bytes_is_canonical view then abi_mismatch
      else Inr None)"

definition read_input_struct ::
  "(addr \<Rightarrow> 'a) \<Rightarrow> ('a \<Rightarrow> StructHeaderV1) \<Rightarrow> usize \<Rightarrow> addr \<Rightarrow> 'a CallResult" where
  "read_input_struct mem header_of struct_size p =
     (if p = null_ptr \<or> \<not> is_aligned 8 p then abi_mismatch
      else
        let header = header_of (mem p) in
        if hdr_struct_version header \<noteq> STRUCT_VERSION \<or> unat (hdr_struct_size header) < struct_size
        then abi_mismatch
        else Inr (mem p))"

definition with_inputs :: "(inputs \<Rightarrow> 'a CallResult) \<Rightarrow> ('x, 'a) M" where
  "with_inputs f w = lift_res (f (inp w)) w"

section \<open>Boxes\<close>

definition into_raw :: "obj \<Rightarrow> ('x, addr) M" where
  \<comment> \<open>\<open>Box::into_raw(Box::new(value))\<close>\<close>
  "into_raw ob w =
     (Ok (next_box w),
      w\<lparr>boxes := (boxes w)(next_box w \<mapsto> ob), next_box := next_box w + 16\<rparr>)"

definition put_box :: "addr \<Rightarrow> obj \<Rightarrow> ('x, unit) M" where
  \<comment> \<open>a write through a lock of a live handle\<close>
  "put_box p ob w = (Ok (), w\<lparr>boxes := (boxes w)(p \<mapsto> ob)\<rparr>)"

definition free_box :: "(obj \<Rightarrow> 'a option) \<Rightarrow> addr \<Rightarrow> ('x, unit) M" where
  \<comment> \<open>\<open>if !p.is_null() \<open>{\<close> drop(Box::from_raw(p)) \<open>}\<close>\<close>; freeing anything but a live box of the type
      is the caller's fault\<close>
  "free_box sel p w =
     (if p = null_ptr then (Ok (), w)
      else case boxes w p of
        None \<Rightarrow> (UB, w)
      | Some ob \<Rightarrow> (case sel ob of None \<Rightarrow> (UB, w)
                    | Some _ \<Rightarrow> (Ok (), w\<lparr>boxes := (boxes w)(p := None)\<rparr>)))"

text \<open>The typed reading of a box.\<close>

fun as_buffer where "as_buffer (OBuffer b) = Some b" | "as_buffer _ = None"
fun as_error where "as_error (OError e) = Some e" | "as_error _ = None"
fun as_metadata where "as_metadata (OMetadata m) = Some m" | "as_metadata _ = None"
fun as_entry where "as_entry (OEntry e) = Some e" | "as_entry _ = None"
fun as_operator where "as_operator (OOperator p) = Some p" | "as_operator _ = None"
fun as_info where "as_info (OInfo i) = Some i" | "as_info _ = None"
fun as_request where "as_request (ORequest r) = Some r" | "as_request _ = None"
fun as_lister where "as_lister (OLister l) = Some l" | "as_lister _ = None"
fun as_reader where "as_reader (OReader r) = Some r" | "as_reader _ = None"
fun as_read_stream where "as_read_stream (OReadStream s) = Some s" | "as_read_stream _ = None"
fun as_writer where "as_writer (OWriter x) = Some x" | "as_writer _ = None"
fun as_copier where "as_copier (OCopier c) = Some c" | "as_copier _ = None"
fun as_task where "as_task (OTask t) = Some t" | "as_task _ = None"
fun as_async_read_stream where
  "as_async_read_stream (OAsyncReadStream s) = Some s" | "as_async_read_stream _ = None"
fun as_async_writer where
  "as_async_writer (OAsyncWriter x) = Some x" | "as_async_writer _ = None"

section \<open>Output slots\<close>

definition write_ptr :: "addr \<Rightarrow> addr \<Rightarrow> ('x, unit) M" where
  "write_ptr slot v w = (Ok (), w\<lparr>out := (out w)\<lparr>o_ptr := (o_ptr (out w))(slot := v)\<rparr>\<rparr>)"

definition write_u64 :: "addr \<Rightarrow> u64 \<Rightarrow> ('x, unit) M" where
  "write_u64 slot v w = (Ok (), w\<lparr>out := (out w)\<lparr>o_u64 := (o_u64 (out w))(slot := v)\<rparr>\<rparr>)"

definition write_u32 :: "addr \<Rightarrow> u32 \<Rightarrow> ('x, unit) M" where
  "write_u32 slot v w = (Ok (), w\<lparr>out := (out w)\<lparr>o_u32 := (o_u32 (out w))(slot := v)\<rparr>\<rparr>)"

definition clear_required_output ::
  "nat \<Rightarrow> (addr \<Rightarrow> ('x, unit) M) \<Rightarrow> addr \<Rightarrow> ('x, unit CallResult) M" where
  "clear_required_output align write_value slot =
     (if slot = null_ptr \<or> \<not> is_aligned align slot then ret abi_mismatch
      else bind (write_value slot) (\<lambda>_. ret (Inr ())))"

definition clear_ptr_output :: "addr \<Rightarrow> ('x, unit CallResult) M" where
  "clear_ptr_output = clear_required_output 8 (\<lambda>slot. write_ptr slot null_ptr)"

definition clear_u64_output :: "addr \<Rightarrow> ('x, unit CallResult) M" where
  "clear_u64_output = clear_required_output 8 (\<lambda>slot. write_u64 slot 0)"

definition clear_u32_output :: "addr \<Rightarrow> ('x, unit CallResult) M" where
  "clear_u32_output = clear_required_output 4 (\<lambda>slot. write_u32 slot 0)"

definition clear_error_output :: "addr \<Rightarrow> ('x, unit CallResult) M" where
  "clear_error_output slot =
     (if slot = null_ptr then ret (Inr ())
      else if \<not> is_aligned 8 slot then ret abi_mismatch
      else bind (write_ptr slot null_ptr) (\<lambda>_. ret (Inr ())))"

primrec combine_output_validation :: "unit CallResult list \<Rightarrow> unit CallResult" where
  "combine_output_validation [] = Inr ()"
| "combine_output_validation (r # rs) = res_bind r (\<lambda>_. combine_output_validation rs)"

primrec eval_all :: "('x, 'a) M list \<Rightarrow> ('x, 'a list) M" where
  \<comment> \<open>the elements of an array expression, evaluated in order\<close>
  "eval_all [] = ret []"
| "eval_all (m # ms) = bind m (\<lambda>r. bind (eval_all ms) (\<lambda>rs. ret (r # rs)))"

definition finish_failure :: "CallFailure \<Rightarrow> addr \<Rightarrow> ('x, u32) M" where
  "finish_failure failure out_error =
     (case failure of
        AbiMismatch \<Rightarrow> ret STATUS_ABI_MISMATCH
      | Error error \<Rightarrow>
          if out_error \<noteq> null_ptr
          then bind (into_raw (OError error)) (\<lambda>p.
               bind (write_ptr out_error p) (\<lambda>_. ret STATUS_ERROR))
          else ret STATUS_ERROR)"

section \<open>The shape of an entry point\<close>

text \<open>
  Every entry point clears its output slots, returns the first validation failure, runs its body
  in a closure, and then writes the outputs or the error. \<open>with_outputs\<close> is the first half of
  that text and \<open>deliver\<close> the second.
\<close>

definition with_outputs ::
  "('x, unit CallResult) M list \<Rightarrow> addr \<Rightarrow> ('x, u32) M \<Rightarrow> ('x, u32) M" where
  "with_outputs clears out_error body =
     bind (eval_all clears) (\<lambda>results.
       case combine_output_validation results of
         Inl failure \<Rightarrow> finish_failure failure out_error
       | Inr _ \<Rightarrow> body)"

definition deliver :: "('x, 'a) M \<Rightarrow> ('a \<Rightarrow> ('x, unit) M) \<Rightarrow> addr \<Rightarrow> ('x, u32) M" where
  "deliver body write_out out_error =
     bind (closure body) (\<lambda>result.
       case result of
         Inr a \<Rightarrow> bind (write_out a) (\<lambda>_. ret STATUS_OK)
       | Inl failure \<Rightarrow> finish_failure failure out_error)"

definition write_handle :: "addr \<Rightarrow> obj \<Rightarrow> ('x, unit) M" where
  \<comment> \<open>\<open>slot.write(Box::into_raw(Box::new(value)))\<close>\<close>
  "write_handle slot ob = bind (into_raw ob) (\<lambda>p. write_ptr slot p)"

text \<open>
  \<open>catch_status\<close>: a panic becomes \<open>STATUS_PANIC\<close>. \<open>Undefined\<close> stands for a call whose caller broke
  the pointer contract, \<open>Waiting\<close> for a call that still waits for another thread.
\<close>

datatype exit = Returned u32 | Undefined | Waiting

definition catch_status :: "('x, u32) M \<Rightarrow> 'x world \<Rightarrow> exit \<times> 'x world" where
  "catch_status m w =
     (case m w of
        (Ok status, w') \<Rightarrow> (Returned status, w')
      | (Panic, w') \<Rightarrow> (Returned STATUS_PANIC, w')
      | (Blocked, w') \<Rightarrow> (Waiting, w')
      | (_, w') \<Rightarrow> (Undefined, w'))"

section \<open>Running the helpers\<close>

lemma run_world [run_simps]:
  "ext_call f c w =
     (case fst (c (ext w)) of
        XOk a \<Rightarrow> (Ok a, w\<lparr>ext := snd (c (ext w))\<rparr>)
      | XErr e \<Rightarrow> (Err (f e), w\<lparr>ext := snd (c (ext w))\<rparr>)
      | XPanic \<Rightarrow> (Panic, w\<lparr>ext := snd (c (ext w))\<rparr>))"
  "with_inputs g w = lift_res (g (inp w)) w"
  "into_raw ob w =
     (Ok (next_box w), w\<lparr>boxes := (boxes w)(next_box w \<mapsto> ob), next_box := next_box w + 16\<rparr>)"
  "put_box p ob w = (Ok (), w\<lparr>boxes := (boxes w)(p \<mapsto> ob)\<rparr>)"
  "write_ptr slot v w = (Ok (), w\<lparr>out := (out w)\<lparr>o_ptr := (o_ptr (out w))(slot := v)\<rparr>\<rparr>)"
  "write_u64 slot n w = (Ok (), w\<lparr>out := (out w)\<lparr>o_u64 := (o_u64 (out w))(slot := n)\<rparr>\<rparr>)"
  "write_u32 slot k w = (Ok (), w\<lparr>out := (out w)\<lparr>o_u32 := (o_u32 (out w))(slot := k)\<rparr>\<rparr>)"
  "drop_contained d t w = (Ok (), w\<lparr>ext := snd (d t (ext w))\<rparr>)"
  by (simp_all add: ext_call_def with_inputs_def into_raw_def put_box_def write_ptr_def
      write_u64_def write_u32_def drop_contained_def Let_def split_beta)

lemma run_borrow_live [run_simps]:
  "boxes w p = Some ob \<Longrightarrow> sel ob = Some a \<Longrightarrow> 0 < p \<Longrightarrow> 8 dvd p \<Longrightarrow>
     borrow_required sel p w = (Ok a, w)"
  by (simp add: borrow_required_def null_ptr_def is_aligned_def mod_eq_0_iff_dvd)

lemma run_borrow_null [run_simps]: "borrow_required sel 0 w = (Err AbiMismatch, w)"
  by (simp add: borrow_required_def null_ptr_def)

lemma wf_world_live:
  assumes "wf_world w" and "boxes w p = Some ob"
  shows "0 < p" and "8 dvd p" and "p < next_box w"
proof -
  have *: "0 < p \<and> 16 dvd p \<and> p < next_box w"
    using assms by (auto simp: wf_world_def)
  then show "0 < p" and "p < next_box w" by auto
  have "(8::nat) dvd 16" by simp
  with * show "8 dvd p" by (blast intro: dvd_trans)
qed

lemma wf_world_fresh: "wf_world w \<Longrightarrow> boxes w (next_box w) = None"
  by (cases "boxes w (next_box w)") (auto simp: wf_world_def)

text \<open>Allocation keeps the world well-formed and never reuses a live address.\<close>

lemma wf_world_into_raw:
  assumes "wf_world w" and "into_raw ob w = (Ok p, w')"
  shows "wf_world w'" and "boxes w p = None" and "boxes w' p = Some ob" and "0 < p"
proof -
  have p: "p = next_box w" and
    w': "w' = w\<lparr>boxes := (boxes w)(next_box w \<mapsto> ob), next_box := next_box w + 16\<rparr>"
    using assms(2) by (auto simp: run_simps)
  show "boxes w p = None" using wf_world_fresh [OF assms(1)] by (simp add: p)
  show "boxes w' p = Some ob" by (simp add: p w')
  show "0 < p" using assms(1) by (simp add: p wf_world_def)
  show "wf_world w'"
    using assms(1) by (fastforce simp: wf_world_def w' dest: less_imp_le split: if_splits)
qed

section \<open>Quiet computations\<close>

text \<open>
  The body of an entry point validates inputs and calls OpenDAL; it touches neither the caller's
  output slots nor the boxes. This frame property composes.
\<close>

definition quiet :: "('x, 'a) M \<Rightarrow> bool" where
  "quiet m \<longleftrightarrow>
     (\<forall>w. out (snd (m w)) = out w \<and> boxes (snd (m w)) = boxes w \<and>
          next_box (snd (m w)) = next_box w \<and> inp (snd (m w)) = inp w)"

named_theorems quiet_intros \<open>composition rules for quiet computations\<close>

lemma quietD:
  assumes "quiet m" and "m w = (r, w')"
  shows "out w' = out w" "boxes w' = boxes w" "next_box w' = next_box w" "inp w' = inp w"
  using assms by (metis quiet_def snd_conv)+

lemma quiet_basic [quiet_intros]:
  "quiet (ret a)" "quiet (throw e)" "quiet panic" "quiet undefined_behaviour" "quiet (lift_res r)"
  "quiet (with_inputs g)" "quiet (drop_contained d t)"
  by (auto simp: quiet_def ret_def throw_def panic_def undefined_behaviour_def lift_res_def
      with_inputs_def drop_contained_def split: sum.splits)

lemma quiet_ext_call [quiet_intros]: "quiet (ext_call f c)"
  by (auto simp: quiet_def run_simps split: ext_result.splits)

lemma quiet_borrow [quiet_intros]: "quiet (borrow_required sel p)"
  by (auto simp: quiet_def borrow_required_def split: option.splits)

lemma quiet_runtime [quiet_intros]: "quiet (runtime build)"
  by (auto simp: quiet_def runtime_def Let_def split: option.splits sum.splits prod.splits)

lemma quiet_bind [quiet_intros]:
  assumes "quiet m" and "\<And>a. quiet (f a)"
  shows "quiet (bind m f)"
proof -
  have "out (snd (bind m f w)) = out w \<and> boxes (snd (bind m f w)) = boxes w \<and>
        next_box (snd (bind m f w)) = next_box w \<and> inp (snd (bind m f w)) = inp w" for w
  proof -
    obtain r w1 where m: "m w = (r, w1)" by (cases "m w")
    note q = quietD [OF assms(1) m]
    show ?thesis
    proof (cases r)
      case (Ok a)
      obtain r2 w2 where f: "f a w1 = (r2, w2)" by (cases "f a w1")
      from Ok m f q quietD [OF assms(2) f] show ?thesis by (simp add: bind_def)
    qed (use m q in \<open>simp_all add: bind_def\<close>)
  qed
  then show ?thesis by (simp add: quiet_def)
qed

lemma snd_closure [simp]: "snd (closure m w) = snd (m w)"
  by (simp add: closure_def split: prod.splits outcome.splits)

lemma snd_catch_unwind [simp]: "snd (catch_unwind m w) = snd (m w)"
  by (simp add: catch_unwind_def split: prod.splits outcome.splits)

lemma quiet_closure [quiet_intros]: "quiet m \<Longrightarrow> quiet (closure m)"
  by (simp add: quiet_def)

lemma quiet_catch_unwind [quiet_intros]: "quiet m \<Longrightarrow> quiet (catch_unwind m)"
  by (simp add: quiet_def)

lemma quiet_if [quiet_intros]:
  "quiet m \<Longrightarrow> quiet n \<Longrightarrow> quiet (if b then m else n)"
  by simp

lemma quiet_case_option [quiet_intros]:
  "quiet m \<Longrightarrow> (\<And>a. quiet (f a)) \<Longrightarrow> quiet (case z of None \<Rightarrow> m | Some a \<Rightarrow> f a)"
  by (cases z) auto

lemma quiet_case_sum [quiet_intros]:
  "(\<And>e. quiet (g e)) \<Longrightarrow> (\<And>a. quiet (f a)) \<Longrightarrow> quiet (case z of Inl e \<Rightarrow> g e | Inr a \<Rightarrow> f a)"
  by (cases z) auto

end
