(* ===== verification/Samples.thy ===== *)
theory Samples
  imports World
begin

text \<open>
  Concrete worlds at which the theorems are instantiated: \<open>sample_world x\<close> has no live box, memory
  that reads as zero, and output views whose headers are the ones a current caller declares.
\<close>

definition no_view :: BytesViewV1 where
  "no_view = \<lparr>bv_data = 0, bv_len = 0\<rparr>"

definition sample_range :: ByteRangeV1 where
  "sample_range = \<lparr>br_struct_size = 32, br_struct_version = 1, br_kind = 0, br_reserved0 = 0,
     br_offset = 0, br_length = 0\<rparr>"

definition sample_read_options :: ReadOptionsV1 where
  "sample_read_options = \<lparr>ro_struct_size = 96, ro_struct_version = 1, ro_present_bits = 0,
     ro_range = sample_range, ro_version = no_view, ro_if_match = no_view,
     ro_if_none_match = no_view\<rparr>"

definition sample_reader_options :: ReaderOptionsV1 where
  "sample_reader_options = \<lparr>rd_struct_size = 64, rd_struct_version = 1, rd_present_bits = 0,
     rd_version = no_view, rd_if_match = no_view, rd_if_none_match = no_view\<rparr>"

definition sample_read_stream_options :: ReadStreamOptionsV1 where
  "sample_read_stream_options = \<lparr>rs_struct_size = 104, rs_struct_version = 1, rs_present_bits = 0,
     rs_range = sample_range, rs_chunk_size = 2, rs_version = no_view, rs_if_match = no_view,
     rs_if_none_match = no_view\<rparr>"

definition sample_stat_options :: StatOptionsV1 where
  "sample_stat_options = \<lparr>so_struct_size = 64, so_struct_version = 1, so_present_bits = 0,
     so_version = no_view, so_if_match = no_view, so_if_none_match = no_view\<rparr>"

definition sample_write_options :: WriteOptionsV1 where
  "sample_write_options = \<lparr>wo_struct_size = 120, wo_struct_version = 1, wo_present_bits = 0,
     wo_flags = 0, wo_content_type = no_view, wo_content_disposition = no_view,
     wo_content_encoding = no_view, wo_cache_control = no_view, wo_if_match = no_view,
     wo_if_none_match = no_view\<rparr>"

definition sample_list_options :: ListOptionsV1 where
  "sample_list_options = \<lparr>lo_struct_size = 48, lo_struct_version = 1, lo_present_bits = 0,
     lo_flags = 0, lo_limit = 0, lo_start_after = no_view\<rparr>"

definition sample_delete_options :: DeleteOptionsV1 where
  "sample_delete_options = \<lparr>do_struct_size = 40, do_struct_version = 1, do_present_bits = 0,
     do_flags = 0, do_version = no_view\<rparr>"

definition sample_s3_options :: S3OptionsV1 where
  "sample_s3_options = \<lparr>s3_struct_size = 200, s3_struct_version = 1, s3_present_bits = 0,
     s3_flags = 0, s3_auth_kind = 0, s3_source_kind = 0, s3_bucket = no_view, s3_region = no_view,
     s3_root = no_view, s3_endpoint = no_view, s3_access_key_id = no_view,
     s3_secret_access_key = no_view, s3_session_token = no_view, s3_role_arn = no_view,
     s3_external_id = no_view, s3_role_session_name = no_view,
     s3_assume_role_duration_seconds = 0, s3_reserved0 = 0\<rparr>"

definition sample_inputs :: inputs where
  "sample_inputs = \<lparr>i_u8 = (\<lambda>_. 0), i_view = (\<lambda>_. no_view),
     i_kv = (\<lambda>_. \<lparr>kv_key = no_view, kv_value = no_view\<rparr>), i_range = (\<lambda>_. sample_range),
     i_read_options = (\<lambda>_. sample_read_options), i_reader_options = (\<lambda>_. sample_reader_options),
     i_read_stream_options = (\<lambda>_. sample_read_stream_options),
     i_stat_options = (\<lambda>_. sample_stat_options), i_write_options = (\<lambda>_. sample_write_options),
     i_list_options = (\<lambda>_. sample_list_options), i_delete_options = (\<lambda>_. sample_delete_options),
     i_s3_options = (\<lambda>_. sample_s3_options)\<rparr>"

definition sample_metadata_view :: MetadataViewV1 where
  "sample_metadata_view = \<lparr>mv_struct_size = 168, mv_struct_version = 1, mv_present_bits = 0,
     mv_mode = 0, mv_is_current = 0, mv_is_deleted = 0, mv_reserved0 = 0, mv_content_length = 0,
     mv_last_modified = \<lparr>ts_unix_seconds = 0, ts_nanoseconds = 0, ts_reserved0 = 0\<rparr>,
     mv_cache_control = no_view, mv_content_disposition = no_view, mv_content_encoding = no_view,
     mv_content_md5 = no_view, mv_content_type = no_view, mv_etag = no_view, mv_version = no_view\<rparr>"

definition sample_outputs :: outputs where
  "sample_outputs = \<lparr>o_ptr = (\<lambda>_. 0), o_u64 = (\<lambda>_. 0), o_u32 = (\<lambda>_. 0), o_u8 = (\<lambda>_. 0),
     o_metadata_view = (\<lambda>_. sample_metadata_view),
     o_entry_view = (\<lambda>_. \<lparr>ev_struct_size = 48, ev_struct_version = 1, ev_reserved0 = 0,
       ev_path = no_view, ev_name = no_view\<rparr>),
     o_info_view = (\<lambda>_. \<lparr>iv_struct_size = 96, iv_struct_version = 1, iv_reserved0 = 0,
       iv_scheme = no_view, iv_root = no_view, iv_name = no_view,
       iv_capability = \<lparr>cv_words = [0, 0, 0, 0]\<rparr>\<rparr>),
     o_error_view = (\<lambda>_. \<lparr>erv_struct_size = 48, erv_struct_version = 1, erv_kind = 0,
       erv_status = 0, erv_kind_name = no_view, erv_message = no_view\<rparr>),
     o_library_view = (\<lambda>_. \<lparr>lv_struct_size = 64, lv_struct_version = 1, lv_reserved0 = 0,
       lv_binding_version = no_view, lv_opendal_version = no_view,
       lv_service_profile = no_view\<rparr>),
     o_request_view = (\<lambda>_. \<lparr>pv_struct_size = 56, pv_struct_version = 1, pv_reserved0 = 0,
       pv_method = no_view, pv_uri = no_view, pv_header_count = 0\<rparr>),
     o_header_view = (\<lambda>_. \<lparr>phv_struct_size = 48, phv_struct_version = 1, phv_reserved0 = 0,
       phv_name = no_view, phv_value = no_view\<rparr>)\<rparr>"

definition sample_world :: "'x \<Rightarrow> 'x world" where
  "sample_world x = \<lparr>inp = sample_inputs, out = sample_outputs, boxes = Map.empty, next_box = 16,
     runtime_cell = None, ext = x\<rparr>"

definition sample_operator :: OperatorV1 where
  "sample_operator = \<lparr>op_async_inner = 1, op_inner = 2, op_layer_bits = 0,
     op_read_with_suffix = True\<rparr>"

text \<open>A world in which the box at address 16 holds \<open>ob\<close>.\<close>

definition sample_with :: "obj \<Rightarrow> 'x \<Rightarrow> 'x world" where
  "sample_with ob x = (sample_world x)\<lparr>boxes := [16 \<mapsto> ob], next_box := 32\<rparr>"

lemma wf_sample_world: "wf_world (sample_world x)"
  by (simp add: wf_world_def sample_world_def)

lemma wf_sample_with: "wf_world (sample_with ob x)"
  by (simp add: wf_world_def sample_with_def sample_world_def)

lemma sample_simps [simp]:
  "boxes (sample_world x) = Map.empty" "next_box (sample_world x) = 16"
  "inp (sample_world x) = sample_inputs" "out (sample_world x) = sample_outputs"
  "runtime_cell (sample_world x) = None" "ext (sample_world x) = x"
  "boxes (sample_with ob x) = [16 \<mapsto> ob]" "next_box (sample_with ob x) = 32"
  "inp (sample_with ob x) = sample_inputs" "out (sample_with ob x) = sample_outputs"
  "runtime_cell (sample_with ob x) = None" "ext (sample_with ob x) = x"
  by (simp_all add: sample_world_def sample_with_def)

end
