(* ===== verification/EntryPoint.thy ===== *)
theory EntryPoint
  imports World
begin

text \<open>
  The output contract of the C ABI, proved once for the shape all entry points share.

  An entry point clears every output slot before it looks at its inputs. It then returns
  \<open>STATUS_OK\<close> with the required output set, or \<open>STATUS_ERROR\<close> with a fresh error object in the
  optional error slot, or \<open>STATUS_ABI_MISMATCH\<close> or \<open>STATUS_PANIC\<close> with no output at all. The
  contract \<open>quiet_body\<close> is all it needs of the body: the body changes neither slots nor boxes.
\<close>

definition valid_slots :: "addr \<Rightarrow> addr \<Rightarrow> bool" where
  "valid_slots slot out_error \<longleftrightarrow>
     slot \<noteq> 0 \<and> 8 dvd slot \<and> 8 dvd out_error \<and> slot \<noteq> out_error"

definition clear_slots :: "addr set \<Rightarrow> 'x world \<Rightarrow> 'x world" where
  "clear_slots S w =
     w\<lparr>out := (out w)\<lparr>o_ptr := (\<lambda>p. if p \<in> S \<and> p \<noteq> 0 then 0 else o_ptr (out w) p)\<rparr>\<rparr>"

lemma clear_slots_frame [simp]:
  "boxes (clear_slots S w) = boxes w" "next_box (clear_slots S w) = next_box w"
  "inp (clear_slots S w) = inp w" "ext (clear_slots S w) = ext w"
  "runtime_cell (clear_slots S w) = runtime_cell w"
  "o_u64 (out (clear_slots S w)) = o_u64 (out w)" "o_u32 (out (clear_slots S w)) = o_u32 (out w)"
  by (simp_all add: clear_slots_def)

lemma o_ptr_clear_slots:
  "o_ptr (out (clear_slots S w)) p = (if p \<in> S \<and> p \<noteq> 0 then 0 else o_ptr (out w) p)"
  by (simp add: clear_slots_def)

lemmas slot_defs = clear_ptr_output_def clear_required_output_def clear_error_output_def
  null_ptr_def is_aligned_def mod_eq_0_iff_dvd abi_mismatch_def

lemma run_clear_ptr:
  "clear_ptr_output slot w =
     (if slot = 0 \<or> \<not> 8 dvd slot then (Ok (Inl AbiMismatch), w)
      else (Ok (Inr ()), clear_slots {slot} w))"
proof (cases "slot = 0 \<or> \<not> 8 dvd slot")
  case True
  then show ?thesis by (auto simp: slot_defs run_simps)
next
  case False
  have "(o_ptr (out w))(slot := 0) = (\<lambda>p. if p = slot \<and> p \<noteq> 0 then 0 else o_ptr (out w) p)"
    using False by auto
  with False show ?thesis by (simp add: slot_defs run_simps bind_def clear_slots_def)
qed

lemma clear_slots_zero: "clear_slots {0} w = w"
proof -
  have "(\<lambda>p. if p \<in> {0} \<and> p \<noteq> 0 then 0 else o_ptr (out w) p) = o_ptr (out w)" by auto
  then show ?thesis by (simp add: clear_slots_def)
qed

lemma run_clear_error:
  "clear_error_output slot w =
     (if \<not> 8 dvd slot then (Ok (Inl AbiMismatch), w) else (Ok (Inr ()), clear_slots {slot} w))"
proof (cases "slot = 0")
  case True
  then show ?thesis
    by (simp add: clear_error_output_def null_ptr_def run_simps clear_slots_zero)
next
  case False
  then show ?thesis
    using run_clear_ptr [of slot w]
    by (cases "8 dvd slot") (simp_all add: slot_defs run_simps)
qed

lemma clear_slots_clear_slots: "clear_slots S (clear_slots T w) = clear_slots (S \<union> T) w"
proof -
  have "(\<lambda>p. if p \<in> S \<and> p \<noteq> 0 then 0 else if p \<in> T \<and> p \<noteq> 0 then 0 else o_ptr (out w) p) =
        (\<lambda>p. if p \<in> S \<union> T \<and> p \<noteq> 0 then 0 else o_ptr (out w) p)" by auto
  then show ?thesis by (simp add: clear_slots_def cong: if_cong)
qed

lemma run_with_handle_outputs:
  "with_outputs [clear_ptr_output slot, clear_error_output out_error] out_error body w =
     (if slot = 0 \<or> \<not> 8 dvd slot then
        (Ok STATUS_ABI_MISMATCH, if 8 dvd out_error then clear_slots {out_error} w else w)
      else if \<not> 8 dvd out_error then (Ok STATUS_ABI_MISMATCH, clear_slots {slot} w)
      else body (clear_slots {slot, out_error} w))"
proof -
  have eq: "{out_error} \<union> {slot} = {slot, out_error}" by auto
  show ?thesis
    by (simp add: with_outputs_def bind_def run_clear_ptr run_clear_error run_simps
        finish_failure_def clear_slots_clear_slots eq)
qed

lemma run_with_error_output:
  "with_outputs [clear_error_output out_error] out_error body w =
     (if \<not> 8 dvd out_error then (Ok STATUS_ABI_MISMATCH, w)
      else body (clear_slots {out_error} w))"
  by (simp add: with_outputs_def bind_def run_clear_error run_simps finish_failure_def)

lemma run_finish_failure:
  "finish_failure AbiMismatch out_error w = (Ok STATUS_ABI_MISMATCH, w)"
  "finish_failure (Error e) 0 w = (Ok STATUS_ERROR, w)"
  "out_error \<noteq> 0 \<Longrightarrow> finish_failure (Error e) out_error w =
     (Ok STATUS_ERROR,
      w\<lparr>boxes := (boxes w)(next_box w \<mapsto> OError e), next_box := next_box w + 16,
        out := (out w)\<lparr>o_ptr := (o_ptr (out w))(out_error := next_box w)\<rparr>\<rparr>)"
  by (simp_all add: finish_failure_def null_ptr_def bind_def run_simps)

lemma run_deliver:
  "deliver body write_out out_error w =
     (case body w of
        (Ok a, w1) \<Rightarrow> bind (write_out a) (\<lambda>_. ret STATUS_OK) w1
      | (Err f, w1) \<Rightarrow> finish_failure f out_error w1
      | (Panic, w1) \<Rightarrow> (Panic, w1)
      | (UB, w1) \<Rightarrow> (UB, w1)
      | (Blocked, w1) \<Rightarrow> (Blocked, w1))"
  by (simp add: deliver_def bind_def closure_def split: prod.splits outcome.splits)

lemma run_write_handle:
  "write_handle slot ob w =
     (Ok (), w\<lparr>boxes := (boxes w)(next_box w \<mapsto> ob), next_box := next_box w + 16,
              out := (out w)\<lparr>o_ptr := (o_ptr (out w))(slot := next_box w)\<rparr>\<rparr>)"
  by (simp add: write_handle_def bind_def run_simps)

section \<open>The contract\<close>

text \<open>
  What the caller sees after an entry point that produces one handle, given the outcome \<open>r\<close> of
  its body, the world \<open>w\<close> before the call and the world \<open>w'\<close> after it.
\<close>

definition error_reported :: "addr \<Rightarrow> CallFailure \<Rightarrow> 'x world \<Rightarrow> exit \<Rightarrow> 'x world \<Rightarrow> bool" where
  "error_reported out_error f w e w' \<longleftrightarrow>
     (case f of
        AbiMismatch \<Rightarrow> e = Returned STATUS_ABI_MISMATCH \<and> boxes w' = boxes w \<and>
          (out_error \<noteq> 0 \<longrightarrow> o_ptr (out w') out_error = 0)
      | Error x \<Rightarrow> e = Returned STATUS_ERROR \<and>
          (if out_error = 0 then boxes w' = boxes w
           else o_ptr (out w') out_error = next_box w \<and>
                boxes w' = (boxes w)(next_box w \<mapsto> OError x)))"

definition handle_contract ::
  "('a \<Rightarrow> obj) \<Rightarrow> addr \<Rightarrow> addr \<Rightarrow> (CallFailure, 'a) outcome \<Rightarrow> 'x world \<Rightarrow>
   exit \<times> 'x world \<Rightarrow> bool" where
  "handle_contract mk slot out_error r w res \<longleftrightarrow>
     (case res of (e, w') \<Rightarrow>
       (case r of
          Ok a \<Rightarrow> e = Returned STATUS_OK \<and> o_ptr (out w') slot = next_box w \<and>
            boxes w' = (boxes w)(next_box w \<mapsto> mk a) \<and>
            (out_error \<noteq> 0 \<longrightarrow> o_ptr (out w') out_error = 0)
        | Err f \<Rightarrow> error_reported out_error f w e w' \<and> o_ptr (out w') slot = 0
        | Panic \<Rightarrow> e = Returned STATUS_PANIC \<and> boxes w' = boxes w \<and>
            o_ptr (out w') slot = 0 \<and> (out_error \<noteq> 0 \<longrightarrow> o_ptr (out w') out_error = 0)
        | UB \<Rightarrow> e = Undefined
        | Blocked \<Rightarrow> e = Waiting) \<and>
       (\<forall>p. p \<noteq> slot \<and> p \<noteq> out_error \<longrightarrow> o_ptr (out w') p = o_ptr (out w) p) \<and>
       o_u64 (out w') = o_u64 (out w) \<and> o_u32 (out w') = o_u32 (out w) \<and> inp w' = inp w)"

definition unit_contract ::
  "addr \<Rightarrow> (CallFailure, 'a) outcome \<Rightarrow> 'x world \<Rightarrow> exit \<times> 'x world \<Rightarrow> bool" where
  "unit_contract out_error r w res \<longleftrightarrow>
     (case res of (e, w') \<Rightarrow>
       (case r of
          Ok _ \<Rightarrow> e = Returned STATUS_OK \<and> boxes w' = boxes w \<and>
            (out_error \<noteq> 0 \<longrightarrow> o_ptr (out w') out_error = 0)
        | Err f \<Rightarrow> error_reported out_error f w e w'
        | Panic \<Rightarrow> e = Returned STATUS_PANIC \<and> boxes w' = boxes w \<and>
            (out_error \<noteq> 0 \<longrightarrow> o_ptr (out w') out_error = 0)
        | UB \<Rightarrow> e = Undefined
        | Blocked \<Rightarrow> e = Waiting) \<and>
       (\<forall>p. p \<noteq> out_error \<longrightarrow> o_ptr (out w') p = o_ptr (out w) p) \<and>
       o_u64 (out w') = o_u64 (out w) \<and> o_u32 (out w') = o_u32 (out w) \<and> inp w' = inp w)"

locale quiet_body =
  fixes body :: "('x, 'a) M"
  assumes body_quiet: "quiet body"
begin

lemma handle_entry:
  assumes "valid_slots slot out_error"
  shows "handle_contract mk slot out_error (fst (body (clear_slots {slot, out_error} w))) w
    (catch_status (with_outputs [clear_ptr_output slot, clear_error_output out_error] out_error
       (deliver body (\<lambda>a. write_handle slot (mk a)) out_error)) w)"
proof -
  obtain r w1 where b: "body (clear_slots {slot, out_error} w) = (r, w1)"
    by (cases "body (clear_slots {slot, out_error} w)")
  note q = quietD [OF body_quiet b]
  have run: "catch_status (with_outputs [clear_ptr_output slot, clear_error_output out_error]
       out_error (deliver body (\<lambda>a. write_handle slot (mk a)) out_error)) w =
     catch_status (deliver body (\<lambda>a. write_handle slot (mk a)) out_error)
       (clear_slots {slot, out_error} w)"
    using assms by (simp add: catch_status_def run_with_handle_outputs valid_slots_def)
  show ?thesis
  proof (cases r)
    case (Ok a)
    with assms b q show ?thesis
      unfolding run
        by (simp add: handle_contract_def catch_status_def run_deliver bind_def run_write_handle
          run_simps valid_slots_def o_ptr_clear_slots)
  next
    case (Err f)
    show ?thesis
    proof (cases f)
      case AbiMismatch
      with Err assms b q show ?thesis
        unfolding run
        by (simp add: handle_contract_def catch_status_def run_deliver error_reported_def
            run_finish_failure valid_slots_def o_ptr_clear_slots)
    next
      case (Error x)
      with Err assms b q show ?thesis
        unfolding run by (cases "out_error = 0")
          (simp_all add: handle_contract_def catch_status_def run_deliver error_reported_def
            run_finish_failure valid_slots_def o_ptr_clear_slots)
    qed
  qed (use assms b q in \<open>unfold run, simp_all add: handle_contract_def catch_status_def run_deliver
          valid_slots_def o_ptr_clear_slots\<close>)
qed

lemma unit_entry:
  assumes "8 dvd out_error"
  shows "unit_contract out_error (fst (body (clear_slots {out_error} w))) w
    (catch_status (with_outputs [clear_error_output out_error] out_error
       (deliver body (\<lambda>a. ret ()) out_error)) w)"
proof -
  obtain r w1 where b: "body (clear_slots {out_error} w) = (r, w1)"
    by (cases "body (clear_slots {out_error} w)")
  note q = quietD [OF body_quiet b]
  have run: "catch_status (with_outputs [clear_error_output out_error] out_error
       (deliver body (\<lambda>a. ret ()) out_error)) w =
     catch_status (deliver body (\<lambda>a. ret ()) out_error) (clear_slots {out_error} w)"
    using assms by (simp add: catch_status_def run_with_error_output)
  show ?thesis
  proof (cases r)
    case (Err f)
    show ?thesis
    proof (cases f)
      case AbiMismatch
      with Err b q show ?thesis
        unfolding run
        by (simp add: unit_contract_def catch_status_def run_deliver error_reported_def
            run_finish_failure o_ptr_clear_slots)
    next
      case (Error x)
      with Err b q show ?thesis
        unfolding run by (cases "out_error = 0")
          (simp_all add: unit_contract_def catch_status_def run_deliver error_reported_def
            run_finish_failure o_ptr_clear_slots)
    qed
  qed (use b q in \<open>unfold run, simp_all add: unit_contract_def catch_status_def run_deliver bind_def
          run_simps o_ptr_clear_slots\<close>)
qed

text \<open>With a null or misaligned required slot the body never runs: nothing external happens.\<close>

lemma handle_entry_invalid:
  assumes "slot = 0 \<or> \<not> 8 dvd slot \<or> \<not> 8 dvd out_error"
  shows "\<exists>w'. catch_status (with_outputs [clear_ptr_output slot, clear_error_output out_error]
       out_error (deliver body (\<lambda>a. write_handle slot (mk a)) out_error)) w
       = (Returned STATUS_ABI_MISMATCH, w') \<and> ext w' = ext w \<and> boxes w' = boxes w"
  using assms by (auto simp: catch_status_def run_with_handle_outputs)

end

end
