(* ===== verification/Options.thy ===== *)
theory Options
  imports Samples
begin

text \<open>
  Decoding of the option structs a caller passes (\<open>parse_range\<close> to \<open>parse_delete_options\<close> of
  \<open>lib.rs\<close>). Each parser validates the header, rejects unknown bits, demands the canonical empty
  view for an absent text field, and copies present text fields after checking UTF-8.

  \<open>option_parser\<close> is the contract the text-field parsers share; each one is an interpretation.
\<close>

section \<open>Ranges\<close>

definition BytesRange_default :: BytesRange where
  "BytesRange_default = Range 0 None"

definition parse_range :: "ByteRangeV1 \<Rightarrow> BytesRange CallResult" where
  "parse_range r =
     (if br_struct_version r \<noteq> STRUCT_VERSION
         \<or> unat (br_struct_size r) < size_of_ByteRangeV1
         \<or> br_reserved0 r \<noteq> 0
      then abi_mismatch
      else if br_kind r = RANGE_FULL \<and> br_offset r = 0 \<and> br_length r = 0
      then Inr BytesRange_default
      else if br_kind r = RANGE_FROM \<and> br_length r = 0
      then Inr (Range (br_offset r) None)
      else if br_kind r = RANGE_OFFSET_LENGTH then
        (if checked_add_u64 (br_offset r) (br_length r) = None then abi_mismatch
         else Inr (Range (br_offset r) (Some (br_length r))))
      else if br_kind r = RANGE_SUFFIX \<and> br_offset r = 0
      then Inr (Suffix (br_length r))
      else abi_mismatch)"

section \<open>Parsers\<close>

definition ReadOptions_default :: ReadOptions where
  "ReadOptions_default =
     \<lparr>rop_range = BytesRange_default, rop_version = None, rop_if_match = None,
      rop_if_none_match = None, rop_if_modified_since = None, rop_if_unmodified_since = None,
      rop_content_length_hint = None\<rparr>"

definition ReaderOptions_default :: ReaderOptions where
  "ReaderOptions_default =
     \<lparr>rdo_version = None, rdo_if_match = None, rdo_if_none_match = None,
      rdo_if_modified_since = None, rdo_if_unmodified_since = None,
      rdo_content_length_hint = None, rdo_concurrent = 0, rdo_chunk = None, rdo_gap = None,
      rdo_prefetch = 0\<rparr>"

definition StatOptions_default :: StatOptions where
  "StatOptions_default = \<lparr>sop_version = None, sop_if_match = None, sop_if_none_match = None\<rparr>"

definition WriteOptions_default :: WriteOptions where
  "WriteOptions_default =
     \<lparr>wop_append = False, wop_content_type = None, wop_content_disposition = None,
      wop_content_encoding = None, wop_cache_control = None, wop_if_match = None,
      wop_if_none_match = None\<rparr>"

definition ListOptions_default :: ListOptions where
  "ListOptions_default = \<lparr>lop_limit = None, lop_start_after = None, lop_recursive = False\<rparr>"

definition DeleteOptions_default :: DeleteOptions where
  "DeleteOptions_default = \<lparr>dop_version = None, dop_recursive = False\<rparr>"

text \<open>The \<open>StructHeaderV1\<close> at the start of each input struct.\<close>

definition ro_header :: "ReadOptionsV1 \<Rightarrow> StructHeaderV1" where
  "ro_header s = \<lparr>hdr_struct_size = ro_struct_size s, hdr_struct_version = ro_struct_version s\<rparr>"

definition rd_header :: "ReaderOptionsV1 \<Rightarrow> StructHeaderV1" where
  "rd_header s = \<lparr>hdr_struct_size = rd_struct_size s, hdr_struct_version = rd_struct_version s\<rparr>"

definition rs_header :: "ReadStreamOptionsV1 \<Rightarrow> StructHeaderV1" where
  "rs_header s = \<lparr>hdr_struct_size = rs_struct_size s, hdr_struct_version = rs_struct_version s\<rparr>"

definition so_header :: "StatOptionsV1 \<Rightarrow> StructHeaderV1" where
  "so_header s = \<lparr>hdr_struct_size = so_struct_size s, hdr_struct_version = so_struct_version s\<rparr>"

definition wo_header :: "WriteOptionsV1 \<Rightarrow> StructHeaderV1" where
  "wo_header s = \<lparr>hdr_struct_size = wo_struct_size s, hdr_struct_version = wo_struct_version s\<rparr>"

definition lo_header :: "ListOptionsV1 \<Rightarrow> StructHeaderV1" where
  "lo_header s = \<lparr>hdr_struct_size = lo_struct_size s, hdr_struct_version = lo_struct_version s\<rparr>"

definition do_header :: "DeleteOptionsV1 \<Rightarrow> StructHeaderV1" where
  "do_header s = \<lparr>hdr_struct_size = do_struct_size s, hdr_struct_version = do_struct_version s\<rparr>"

definition parse_read_options :: "inputs \<Rightarrow> addr \<Rightarrow> ReadOptions CallResult" where
  "parse_read_options m pointer =
     (if pointer = null_ptr then Inr ReadOptions_default
      else
        res_bind (read_input_struct (i_read_options m) ro_header size_of_ReadOptionsV1 pointer)
        (\<lambda>input.
          if ro_present_bits input AND
             NOT (READ_VERSION_PRESENT OR READ_IF_MATCH_PRESENT OR READ_IF_NONE_MATCH_PRESENT) \<noteq> 0
          then abi_mismatch
          else
            res_bind (parse_range (ro_range input)) (\<lambda>rng.
            res_bind (optional_text m (ro_version input) (ro_present_bits input)
                        READ_VERSION_PRESENT ''read version'') (\<lambda>version.
            res_bind (optional_text m (ro_if_match input) (ro_present_bits input)
                        READ_IF_MATCH_PRESENT ''read if_match'') (\<lambda>if_match.
            res_bind (optional_text m (ro_if_none_match input) (ro_present_bits input)
                        READ_IF_NONE_MATCH_PRESENT ''read if_none_match'') (\<lambda>if_none_match.
              Inr (ReadOptions_default
                \<lparr>rop_range := rng, rop_version := version, rop_if_match := if_match,
                 rop_if_none_match := if_none_match\<rparr>)))))))"

definition parse_reader_options :: "inputs \<Rightarrow> addr \<Rightarrow> ReaderOptions CallResult" where
  "parse_reader_options m pointer =
     (if pointer = null_ptr then Inr ReaderOptions_default
      else
        res_bind (read_input_struct (i_reader_options m) rd_header size_of_ReaderOptionsV1 pointer)
        (\<lambda>input.
          if rd_present_bits input AND
             NOT (READER_VERSION_PRESENT OR READER_IF_MATCH_PRESENT
                  OR READER_IF_NONE_MATCH_PRESENT) \<noteq> 0
          then abi_mismatch
          else
            res_bind (optional_text m (rd_version input) (rd_present_bits input)
                        READER_VERSION_PRESENT ''reader version'') (\<lambda>version.
            res_bind (optional_text m (rd_if_match input) (rd_present_bits input)
                        READER_IF_MATCH_PRESENT ''reader if_match'') (\<lambda>if_match.
            res_bind (optional_text m (rd_if_none_match input) (rd_present_bits input)
                        READER_IF_NONE_MATCH_PRESENT ''reader if_none_match'') (\<lambda>if_none_match.
              Inr (ReaderOptions_default
                \<lparr>rdo_version := version, rdo_if_match := if_match,
                 rdo_if_none_match := if_none_match\<rparr>))))))"

record ParsedReadStreamOptions =
  prs_reader :: ReaderOptions
  prs_range :: BytesRange
  prs_chunk_size :: u64

definition parse_read_stream_options ::
  "inputs \<Rightarrow> addr \<Rightarrow> ParsedReadStreamOptions CallResult" where
  "parse_read_stream_options m pointer =
     (if pointer = null_ptr then abi_mismatch
      else
        res_bind (read_input_struct (i_read_stream_options m) rs_header
                    size_of_ReadStreamOptionsV1 pointer)
        (\<lambda>input.
          if rs_present_bits input AND
             NOT (READ_STREAM_VERSION_PRESENT OR READ_STREAM_IF_MATCH_PRESENT
                  OR READ_STREAM_IF_NONE_MATCH_PRESENT) \<noteq> 0
          then abi_mismatch
          else if rs_chunk_size input = 0 \<or> rs_chunk_size input > MAX_OUTPUT_BYTES
          then Inl (invalid_argument ''read stream chunk_size must be between 1 and 2147483647'')
          else
            res_bind
              (case checked_len (rs_chunk_size input) of
                 Inr n \<Rightarrow> Inr n
               | Inl _ \<Rightarrow> Inl (invalid_argument
                   ''read stream chunk_size is not representable on this platform'')) (\<lambda>_.
            res_bind (parse_range (rs_range input)) (\<lambda>rng.
            res_bind (optional_text m (rs_version input) (rs_present_bits input)
                        READ_STREAM_VERSION_PRESENT ''read stream version'') (\<lambda>version.
            res_bind (optional_text m (rs_if_match input) (rs_present_bits input)
                        READ_STREAM_IF_MATCH_PRESENT ''read stream if_match'') (\<lambda>if_match.
            res_bind (optional_text m (rs_if_none_match input) (rs_present_bits input)
                        READ_STREAM_IF_NONE_MATCH_PRESENT ''read stream if_none_match'')
              (\<lambda>if_none_match.
              Inr \<lparr>prs_reader = ReaderOptions_default
                     \<lparr>rdo_version := version, rdo_if_match := if_match,
                      rdo_if_none_match := if_none_match, rdo_concurrent := 1,
                      rdo_chunk := None, rdo_prefetch := 0\<rparr>,
                   prs_range = rng, prs_chunk_size = rs_chunk_size input\<rparr>)))))))"

definition parse_stat_options :: "inputs \<Rightarrow> addr \<Rightarrow> StatOptions CallResult" where
  "parse_stat_options m pointer =
     (if pointer = null_ptr then Inr StatOptions_default
      else
        res_bind (read_input_struct (i_stat_options m) so_header size_of_StatOptionsV1 pointer)
        (\<lambda>input.
          if so_present_bits input AND
             NOT (STAT_VERSION_PRESENT OR STAT_IF_MATCH_PRESENT OR STAT_IF_NONE_MATCH_PRESENT) \<noteq> 0
          then abi_mismatch
          else
            res_bind (optional_text m (so_version input) (so_present_bits input)
                        STAT_VERSION_PRESENT ''stat version'') (\<lambda>version.
            res_bind (optional_text m (so_if_match input) (so_present_bits input)
                        STAT_IF_MATCH_PRESENT ''stat if_match'') (\<lambda>if_match.
            res_bind (optional_text m (so_if_none_match input) (so_present_bits input)
                        STAT_IF_NONE_MATCH_PRESENT ''stat if_none_match'') (\<lambda>if_none_match.
              Inr (StatOptions_default
                \<lparr>sop_version := version, sop_if_match := if_match,
                 sop_if_none_match := if_none_match\<rparr>))))))"

definition parse_write_options :: "inputs \<Rightarrow> addr \<Rightarrow> WriteOptions CallResult" where
  "parse_write_options m pointer =
     (if pointer = null_ptr then Inr WriteOptions_default
      else
        res_bind (read_input_struct (i_write_options m) wo_header size_of_WriteOptionsV1 pointer)
        (\<lambda>input.
          if wo_present_bits input AND
             NOT (WRITE_CONTENT_TYPE_PRESENT OR WRITE_CONTENT_DISPOSITION_PRESENT
                  OR WRITE_CONTENT_ENCODING_PRESENT OR WRITE_CACHE_CONTROL_PRESENT
                  OR WRITE_IF_MATCH_PRESENT OR WRITE_IF_NONE_MATCH_PRESENT) \<noteq> 0
             \<or> wo_flags input AND NOT WRITE_APPEND \<noteq> 0
          then abi_mismatch
          else
            res_bind (optional_text m (wo_content_type input) (wo_present_bits input)
                        WRITE_CONTENT_TYPE_PRESENT ''write content_type'') (\<lambda>content_type.
            res_bind (optional_text m (wo_content_disposition input) (wo_present_bits input)
                        WRITE_CONTENT_DISPOSITION_PRESENT ''write content_disposition'')
              (\<lambda>content_disposition.
            res_bind (optional_text m (wo_content_encoding input) (wo_present_bits input)
                        WRITE_CONTENT_ENCODING_PRESENT ''write content_encoding'')
              (\<lambda>content_encoding.
            res_bind (optional_text m (wo_cache_control input) (wo_present_bits input)
                        WRITE_CACHE_CONTROL_PRESENT ''write cache_control'') (\<lambda>cache_control.
            res_bind (optional_text m (wo_if_match input) (wo_present_bits input)
                        WRITE_IF_MATCH_PRESENT ''write if_match'') (\<lambda>if_match.
            res_bind (optional_text m (wo_if_none_match input) (wo_present_bits input)
                        WRITE_IF_NONE_MATCH_PRESENT ''write if_none_match'') (\<lambda>if_none_match.
              Inr \<lparr>wop_append = (wo_flags input AND WRITE_APPEND \<noteq> 0),
                   wop_content_type = content_type,
                   wop_content_disposition = content_disposition,
                   wop_content_encoding = content_encoding,
                   wop_cache_control = cache_control,
                   wop_if_match = if_match, wop_if_none_match = if_none_match\<rparr>))))))))"

definition parse_list_options :: "inputs \<Rightarrow> addr \<Rightarrow> ListOptions CallResult" where
  "parse_list_options m pointer =
     (if pointer = null_ptr then Inr ListOptions_default
      else
        res_bind (read_input_struct (i_list_options m) lo_header size_of_ListOptionsV1 pointer)
        (\<lambda>input.
          if lo_present_bits input AND NOT (LIST_LIMIT_PRESENT OR LIST_START_AFTER_PRESENT) \<noteq> 0
             \<or> lo_flags input AND NOT LIST_RECURSIVE \<noteq> 0
          then abi_mismatch
          else
            res_bind
              (if lo_present_bits input AND LIST_LIMIT_PRESENT \<noteq> 0
               then map_sum id Some (checked_len (lo_limit input))
               else if lo_limit input \<noteq> 0 then abi_mismatch
               else Inr None) (\<lambda>limit.
            res_bind (optional_text m (lo_start_after input) (lo_present_bits input)
                        LIST_START_AFTER_PRESENT ''list start_after'') (\<lambda>start_after.
              Inr \<lparr>lop_limit = limit, lop_start_after = start_after,
                   lop_recursive = (lo_flags input AND LIST_RECURSIVE \<noteq> 0)\<rparr>))))"

definition parse_delete_options :: "inputs \<Rightarrow> addr \<Rightarrow> DeleteOptions CallResult" where
  "parse_delete_options m pointer =
     (if pointer = null_ptr then Inr DeleteOptions_default
      else
        res_bind (read_input_struct (i_delete_options m) do_header size_of_DeleteOptionsV1 pointer)
        (\<lambda>input.
          if do_present_bits input AND NOT DELETE_VERSION_PRESENT \<noteq> 0
             \<or> do_flags input AND NOT DELETE_RECURSIVE \<noteq> 0
          then abi_mismatch
          else
            res_bind (optional_text m (do_version input) (do_present_bits input)
                        DELETE_VERSION_PRESENT ''delete version'') (\<lambda>version.
              Inr \<lparr>dop_version = version,
                   dop_recursive = (do_flags input AND DELETE_RECURSIVE \<noteq> 0)\<rparr>)))"

section \<open>Borrowed text\<close>

text \<open>The caller's view designates the UTF-8 text \<open>s\<close>.\<close>

definition text_at :: "inputs \<Rightarrow> BytesViewV1 \<Rightarrow> string \<Rightarrow> bool" where
  "text_at m view s \<longleftrightarrow>
     borrowed_bytes m view = Inr (bytes_of_text s) \<and> valid_utf8 (bytes_of_text s)"

definition text_field_ok :: "inputs \<Rightarrow> BytesViewV1 \<Rightarrow> bool \<Rightarrow> string option \<Rightarrow> bool" where
  "text_field_ok m view present value \<longleftrightarrow>
     (if present then \<exists>s. value = Some s \<and> text_at m view s
      else value = None \<and> absent_bytes_is_canonical view)"

lemma read_text_value_Inr: "read_text_value m view label = Inr s \<longleftrightarrow> text_at m view s"
  by (cases "borrowed_bytes m view") (auto simp: read_text_value_def text_at_def from_utf8_def)

lemma optional_text_Inr:
  "optional_text m view bits flag label = Inr v \<longleftrightarrow> text_field_ok m view (bits AND flag \<noteq> 0) v"
proof (cases "bits AND flag = 0")
  case True
  then show ?thesis
    by (auto simp: optional_text_def text_field_ok_def abi_mismatch_def)
next
  case False
  have "map_sum id Some r = Inr v \<longleftrightarrow> (\<exists>s. r = Inr s \<and> v = Some s)" for r :: "string CallResult"
    by (cases r) auto
  with False show ?thesis
    by (auto simp: optional_text_def text_field_ok_def read_text_value_Inr)
qed

lemma read_input_struct_Inr:
  "read_input_struct mem header_of n p = Inr s \<longleftrightarrow>
     p \<noteq> 0 \<and> 8 dvd p \<and> s = mem p \<and>
     hdr_struct_version (header_of (mem p)) = STRUCT_VERSION \<and>
     n \<le> unat (hdr_struct_size (header_of (mem p)))"
  by (auto simp: read_input_struct_def abi_mismatch_def null_ptr_def is_aligned_def Let_def
      mod_eq_0_iff_dvd)

lemma if_abi_mismatch_Inr [simp]:
  "(if b then abi_mismatch else r) = Inr x \<longleftrightarrow> \<not> b \<and> r = Inr x"
  by (simp add: abi_mismatch_def)

lemma abi_mismatch_neq [simp]: "abi_mismatch \<noteq> Inr x"
  by (simp add: abi_mismatch_def)

lemmas parse_intro = res_bind_eq_Inr read_input_struct_Inr optional_text_Inr null_ptr_def

section \<open>The contract of a parser\<close>

locale option_parser =
  fixes parse :: "inputs \<Rightarrow> addr \<Rightarrow> 'o CallResult"
    and load :: "inputs \<Rightarrow> addr \<Rightarrow> 's"
    and header :: "'s \<Rightarrow> StructHeaderV1"
    and struct_size :: usize
    and present :: "'s \<Rightarrow> u64"
    and known :: u64
    and fields :: "(('s \<Rightarrow> BytesViewV1) \<times> u64 \<times> ('o \<Rightarrow> string option)) list"
  assumes accepted: "parse m p = Inr opts \<Longrightarrow> p \<noteq> 0 \<Longrightarrow>
      8 dvd p \<and> hdr_struct_version (header (load m p)) = STRUCT_VERSION \<and>
      struct_size \<le> unat (hdr_struct_size (header (load m p))) \<and>
      present (load m p) AND NOT known = 0 \<and>
      (\<forall>(view, flag, sel) \<in> set fields.
         text_field_ok m (view (load m p)) (present (load m p) AND flag \<noteq> 0) (sel opts))"
begin

lemma unknown_bits_rejected:
  assumes "p \<noteq> 0" and "present (load m p) AND NOT known \<noteq> 0"
  shows "\<not> res_ok (parse m p)"
  using assms accepted [of m p] by (cases "parse m p") auto

lemma short_struct_rejected:
  assumes "p \<noteq> 0"
    and "unat (hdr_struct_size (header (load m p))) < struct_size \<or>
         hdr_struct_version (header (load m p)) \<noteq> STRUCT_VERSION"
  shows "\<not> res_ok (parse m p)"
  using assms accepted [of m p] by (cases "parse m p") auto

lemma field_iff_bit:
  assumes "parse m p = Inr opts" and "p \<noteq> 0" and "(view, flag, sel) \<in> set fields"
  shows "(sel opts \<noteq> None) = (present (load m p) AND flag \<noteq> 0)"
  using accepted [OF assms(1,2)] assms(3) by (fastforce simp: text_field_ok_def split: if_splits)

lemma field_is_callers_text:
  assumes "parse m p = Inr opts" and "p \<noteq> 0" and "(view, flag, sel) \<in> set fields"
    and "sel opts = Some s"
  shows "text_at m (view (load m p)) s"
  using accepted [OF assms(1,2)] assms(3,4) by (fastforce simp: text_field_ok_def split: if_splits)

lemma absent_field_canonical:
  assumes "parse m p = Inr opts" and "p \<noteq> 0" and "(view, flag, sel) \<in> set fields"
    and "sel opts = None"
  shows "absent_bytes_is_canonical (view (load m p))"
  using accepted [OF assms(1,2)] assms(3,4) by (fastforce simp: text_field_ok_def split: if_splits)

end

interpretation read_opts: option_parser parse_read_options i_read_options ro_header
  size_of_ReadOptionsV1 ro_present_bits
  "READ_VERSION_PRESENT OR READ_IF_MATCH_PRESENT OR READ_IF_NONE_MATCH_PRESENT"
  "[(ro_version, READ_VERSION_PRESENT, rop_version),
    (ro_if_match, READ_IF_MATCH_PRESENT, rop_if_match),
    (ro_if_none_match, READ_IF_NONE_MATCH_PRESENT, rop_if_none_match)]"
  by unfold_locales (auto simp: parse_read_options_def parse_intro)

interpretation reader_opts: option_parser parse_reader_options i_reader_options rd_header
  size_of_ReaderOptionsV1 rd_present_bits
  "READER_VERSION_PRESENT OR READER_IF_MATCH_PRESENT OR READER_IF_NONE_MATCH_PRESENT"
  "[(rd_version, READER_VERSION_PRESENT, rdo_version),
    (rd_if_match, READER_IF_MATCH_PRESENT, rdo_if_match),
    (rd_if_none_match, READER_IF_NONE_MATCH_PRESENT, rdo_if_none_match)]"
  by unfold_locales (auto simp: parse_reader_options_def parse_intro)

interpretation read_stream_opts: option_parser parse_read_stream_options i_read_stream_options
  rs_header size_of_ReadStreamOptionsV1 rs_present_bits
  "READ_STREAM_VERSION_PRESENT OR READ_STREAM_IF_MATCH_PRESENT OR READ_STREAM_IF_NONE_MATCH_PRESENT"
  "[(rs_version, READ_STREAM_VERSION_PRESENT, rdo_version \<circ> prs_reader),
    (rs_if_match, READ_STREAM_IF_MATCH_PRESENT, rdo_if_match \<circ> prs_reader),
    (rs_if_none_match, READ_STREAM_IF_NONE_MATCH_PRESENT, rdo_if_none_match \<circ> prs_reader)]"
  by unfold_locales (auto simp: parse_read_stream_options_def parse_intro split: if_splits)

interpretation stat_opts: option_parser parse_stat_options i_stat_options so_header
  size_of_StatOptionsV1 so_present_bits
  "STAT_VERSION_PRESENT OR STAT_IF_MATCH_PRESENT OR STAT_IF_NONE_MATCH_PRESENT"
  "[(so_version, STAT_VERSION_PRESENT, sop_version),
    (so_if_match, STAT_IF_MATCH_PRESENT, sop_if_match),
    (so_if_none_match, STAT_IF_NONE_MATCH_PRESENT, sop_if_none_match)]"
  by unfold_locales (auto simp: parse_stat_options_def parse_intro)

interpretation write_opts: option_parser parse_write_options i_write_options wo_header
  size_of_WriteOptionsV1 wo_present_bits
  "WRITE_CONTENT_TYPE_PRESENT OR WRITE_CONTENT_DISPOSITION_PRESENT OR
   WRITE_CONTENT_ENCODING_PRESENT OR WRITE_CACHE_CONTROL_PRESENT OR
   WRITE_IF_MATCH_PRESENT OR WRITE_IF_NONE_MATCH_PRESENT"
  "[(wo_content_type, WRITE_CONTENT_TYPE_PRESENT, wop_content_type),
    (wo_content_disposition, WRITE_CONTENT_DISPOSITION_PRESENT, wop_content_disposition),
    (wo_content_encoding, WRITE_CONTENT_ENCODING_PRESENT, wop_content_encoding),
    (wo_cache_control, WRITE_CACHE_CONTROL_PRESENT, wop_cache_control),
    (wo_if_match, WRITE_IF_MATCH_PRESENT, wop_if_match),
    (wo_if_none_match, WRITE_IF_NONE_MATCH_PRESENT, wop_if_none_match)]"
  by unfold_locales (auto simp: parse_write_options_def parse_intro)

interpretation list_opts: option_parser parse_list_options i_list_options lo_header
  size_of_ListOptionsV1 lo_present_bits "LIST_LIMIT_PRESENT OR LIST_START_AFTER_PRESENT"
  "[(lo_start_after, LIST_START_AFTER_PRESENT, lop_start_after)]"
  by unfold_locales (auto simp: parse_list_options_def parse_intro)

interpretation delete_opts: option_parser parse_delete_options i_delete_options do_header
  size_of_DeleteOptionsV1 do_present_bits DELETE_VERSION_PRESENT
  "[(do_version, DELETE_VERSION_PRESENT, dop_version)]"
  by unfold_locales (auto simp: parse_delete_options_def parse_intro)

section \<open>Properties\<close>

text \<open>
  \<open>parse_range\<close> accepts exactly the canonical encodings of the four kinds of range: the struct is
  complete, the reserved word is zero, fields a kind does not use are zero, and an offset with a
  length never runs past the 64-bit space.
\<close>

theorem parse_range_exact:
  "parse_range r = Inr b \<longleftrightarrow>
     br_struct_version r = STRUCT_VERSION \<and> 32 \<le> unat (br_struct_size r) \<and> br_reserved0 r = 0 \<and>
     (case b of
        Suffix n \<Rightarrow> br_kind r = RANGE_SUFFIX \<and> br_offset r = 0 \<and> br_length r = n
      | Range off (Some n) \<Rightarrow> br_kind r = RANGE_OFFSET_LENGTH \<and> br_offset r = off \<and>
          br_length r = n \<and> unat off + unat n \<le> u64_max
      | Range off None \<Rightarrow> br_length r = 0 \<and> br_offset r = off \<and>
          (br_kind r = RANGE_FROM \<or> br_kind r = RANGE_FULL \<and> off = 0))"
  by (cases b)
    (auto simp: parse_range_def BytesRange_default_def size_of_ByteRangeV1_def checked_add_u64_def
      split: option.splits if_splits)

text \<open>
  Every option parser rejects a struct with a presence bit it does not know, whatever else the
  struct holds.
\<close>

theorem unknown_option_bits_rejected:
  assumes "p \<noteq> 0"
  shows "(ro_present_bits (i_read_options m p) AND NOT 7 \<noteq> 0 \<longrightarrow> \<not> res_ok (parse_read_options m p)) \<and>
    (rd_present_bits (i_reader_options m p) AND NOT 7 \<noteq> 0 \<longrightarrow> \<not> res_ok (parse_reader_options m p)) \<and>
    (rs_present_bits (i_read_stream_options m p) AND NOT 7 \<noteq> 0 \<longrightarrow>
           \<not> res_ok (parse_read_stream_options m p)) \<and>
    (so_present_bits (i_stat_options m p) AND NOT 7 \<noteq> 0 \<longrightarrow> \<not> res_ok (parse_stat_options m p)) \<and>
    (wo_present_bits (i_write_options m p) AND NOT 63 \<noteq> 0 \<longrightarrow> \<not> res_ok (parse_write_options m p)) \<and>
    (lo_present_bits (i_list_options m p) AND NOT 3 \<noteq> 0 \<longrightarrow> \<not> res_ok (parse_list_options m p)) \<and>
    (do_present_bits (i_delete_options m p) AND NOT 1 \<noteq> 0 \<longrightarrow> \<not> res_ok (parse_delete_options m p))"
  using read_opts.unknown_bits_rejected [OF assms, of m]
    reader_opts.unknown_bits_rejected [OF assms, of m]
    read_stream_opts.unknown_bits_rejected [OF assms, of m]
    stat_opts.unknown_bits_rejected [OF assms, of m]
    write_opts.unknown_bits_rejected [OF assms, of m]
    list_opts.unknown_bits_rejected [OF assms, of m]
    delete_opts.unknown_bits_rejected [OF assms, of m]
  by simp_all

lemma unknown_option_bits_rejected_witness:
  "\<not> res_ok (parse_stat_options
     (sample_inputs\<lparr>i_stat_options := (\<lambda>_. sample_stat_options\<lparr>so_present_bits := 8\<rparr>)\<rparr>) 8)"
  using unknown_option_bits_rejected [of 8
      "sample_inputs\<lparr>i_stat_options := (\<lambda>_. sample_stat_options\<lparr>so_present_bits := 8\<rparr>)\<rparr>"]
  by simp

text \<open>
  Accepted write options say exactly what the caller said: each text field is present exactly
  when its bit is set and then equals the caller's valid UTF-8 text, an absent field had the
  canonical empty view, and the append flag is the caller's.
\<close>

theorem write_options_faithful:
  assumes "parse_write_options m p = Inr opts" and "p \<noteq> 0"
  shows "(\<forall>(view, flag, sel) \<in> set
      [(wo_content_type, WRITE_CONTENT_TYPE_PRESENT, wop_content_type),
       (wo_content_disposition, WRITE_CONTENT_DISPOSITION_PRESENT, wop_content_disposition),
       (wo_content_encoding, WRITE_CONTENT_ENCODING_PRESENT, wop_content_encoding),
       (wo_cache_control, WRITE_CACHE_CONTROL_PRESENT, wop_cache_control),
       (wo_if_match, WRITE_IF_MATCH_PRESENT, wop_if_match),
       (wo_if_none_match, WRITE_IF_NONE_MATCH_PRESENT, wop_if_none_match)].
      text_field_ok m (view (i_write_options m p))
        (wo_present_bits (i_write_options m p) AND flag \<noteq> 0) (sel opts)) \<and>
    wop_append opts = (wo_flags (i_write_options m p) = 1)" (is "?texts \<and> _")
proof
  show ?texts using write_opts.accepted [OF assms] by blast
  let ?f = "wo_flags (i_write_options m p)"
  have no: "?f AND NOT 1 = 0" and app: "wop_append opts = (?f AND 1 \<noteq> 0)"
    using assms by (auto simp: parse_write_options_def parse_intro)
  have "?f = (?f AND 1) OR (?f AND NOT 1)" by (simp add: bit_eq_iff bit_simps) blast
  then have "?f = ?f AND 1" using no by simp
  moreover have "?f AND 1 \<in> {0, 1}" by (simp add: and_one_eq mod_2_eq_odd)
  ultimately show "wop_append opts = (?f = 1)" using app by auto
qed

lemma write_options_faithful_witness:
  "\<exists>opts. parse_write_options sample_inputs 8 = Inr opts \<and> \<not> wop_append opts"
proof -
  have e: "\<exists>opts. parse_write_options sample_inputs 8 = Inr opts"
    by (simp add: parse_write_options_def read_input_struct_def null_ptr_def is_aligned_def
        sample_inputs_def sample_write_options_def wo_header_def size_of_WriteOptionsV1_def
        optional_text_def absent_bytes_is_canonical_def no_view_def)
  then obtain opts where o: "parse_write_options sample_inputs 8 = Inr opts" by blast
  from write_options_faithful [OF o] have "\<not> wop_append opts"
    by (simp add: sample_inputs_def sample_write_options_def)
  with o show ?thesis by blast
qed

text \<open>
  Accepted read-stream options carry a chunk size between one byte and the output limit, and
  configure the native reader for strictly sequential reading.
\<close>

theorem read_stream_options_bounds:
  assumes "parse_read_stream_options m p = Inr opts"
  shows "1 \<le> unat (prs_chunk_size opts) \<and> unat (prs_chunk_size opts) \<le> 2147483647 \<and>
    prs_chunk_size opts = rs_chunk_size (i_read_stream_options m p) \<and>
    parse_range (rs_range (i_read_stream_options m p)) = Inr (prs_range opts) \<and>
    rdo_concurrent (prs_reader opts) = 1 \<and> rdo_prefetch (prs_reader opts) = 0"
proof -
  let ?c = "rs_chunk_size (i_read_stream_options m p)"
  have c: "?c \<noteq> 0" "\<not> ?c > 2147483647" and o: "prs_chunk_size opts = ?c"
    "parse_range (rs_range (i_read_stream_options m p)) = Inr (prs_range opts)"
    "rdo_concurrent (prs_reader opts) = 1" "rdo_prefetch (prs_reader opts) = 0"
    using assms by (auto simp: parse_read_stream_options_def parse_intro split: if_splits)
  have "unat ?c \<noteq> 0" using c(1) by (simp add: unat_eq_0)
  moreover have "unat ?c \<le> 2147483647" using c(2) by (simp add: word_less_nat_alt)
  ultimately show ?thesis using o by simp
qed

lemma read_stream_options_bounds_witness:
  "\<exists>opts. parse_read_stream_options sample_inputs 8 = Inr opts \<and>
     unat (prs_chunk_size opts) \<le> 2147483647"
proof -
  have "\<exists>opts. parse_read_stream_options sample_inputs 8 = Inr opts"
    by (simp add: parse_read_stream_options_def read_input_struct_def null_ptr_def is_aligned_def
        sample_inputs_def sample_read_stream_options_def rs_header_def
        size_of_ReadStreamOptionsV1_def optional_text_def absent_bytes_is_canonical_def no_view_def
        checked_len_def isize_max_def parse_range_def sample_range_def size_of_ByteRangeV1_def)
  then obtain opts where o: "parse_read_stream_options sample_inputs 8 = Inr opts" by blast
  with read_stream_options_bounds [OF o] show ?thesis by blast
qed

end
