(* ===== verification/S3Options.thy ===== *)
theory S3Options
  imports Options
begin

text \<open>
  The typed S3 constructor: decoding of \<open>S3OptionsV1\<close> (\<open>parse_s3_options\<close> and its helpers in
  \<open>lib.rs\<close>) and the configuration of OpenDAL's S3 builder (\<open>configure_s3_source\<close>,
  \<open>build_s3_operator\<close>). The builder is third-party; a builder value is the sequence of method
  calls made on it, and \<open>Operator::new\<close> is the parameter \<open>new_operator\<close>.
\<close>

section \<open>Data\<close>

datatype ParsedS3CredentialSource =
    DefaultChain bool
  | Static string string "string option"

datatype ParsedS3Auth =
    Credentials ParsedS3CredentialSource
  | Unsigned
  | AssumeRole string ParsedS3CredentialSource "string option" "string option" "u32 option"

record ParsedS3Options =
  ps3_bucket :: string
  ps3_region :: string
  ps3_root :: "string option"
  ps3_endpoint :: "string option"
  ps3_virtual_host_style :: bool
  ps3_auth :: ParsedS3Auth

section \<open>Parsing\<close>

definition s3_header :: "S3OptionsV1 \<Rightarrow> StructHeaderV1" where
  "s3_header s = \<lparr>hdr_struct_size = s3_struct_size s, hdr_struct_version = s3_struct_version s\<rparr>"

definition required_nonempty_text :: "inputs \<Rightarrow> BytesViewV1 \<Rightarrow> string \<Rightarrow> string CallResult" where
  "required_nonempty_text m view label =
     res_bind (read_text_value m view label) (\<lambda>value.
       if value = [] then Inl (invalid_argument (label @ '' must not be empty'')) else Inr value)"

definition optional_nonempty_text ::
  "inputs \<Rightarrow> BytesViewV1 \<Rightarrow> u64 \<Rightarrow> u64 \<Rightarrow> string \<Rightarrow> string option CallResult" where
  "optional_nonempty_text m view present_bits flag label =
     res_bind (optional_text m view present_bits flag label) (\<lambda>value.
       if value = Some [] then Inl (invalid_argument (label @ '' must not be empty''))
       else Inr value)"

definition require_absent_view :: "BytesViewV1 \<Rightarrow> unit CallResult" where
  "require_absent_view view = (if absent_bytes_is_canonical view then Inr () else abi_mismatch)"

definition reject_present_field :: "u64 \<Rightarrow> u64 \<Rightarrow> string \<Rightarrow> unit CallResult" where
  "reject_present_field present_bits flag label =
     (if present_bits AND flag \<noteq> 0
      then Inl (invalid_argument
             (label @ '' is not valid for the selected S3 authentication mode''))
      else Inr ())"

definition reject_role_fields :: "S3OptionsV1 \<Rightarrow> unit CallResult" where
  "reject_role_fields input =
     res_bind (reject_present_field (s3_present_bits input) S3_EXTERNAL_ID_PRESENT
                 ''S3 external_id'') (\<lambda>_.
     res_bind (reject_present_field (s3_present_bits input) S3_ROLE_SESSION_NAME_PRESENT
                 ''S3 role_session_name'') (\<lambda>_.
     res_bind (reject_present_field (s3_present_bits input) S3_ASSUME_ROLE_DURATION_PRESENT
                 ''S3 assume-role duration'') (\<lambda>_.
     res_bind (require_absent_view (s3_role_arn input)) (\<lambda>_.
     res_bind (require_absent_view (s3_external_id input)) (\<lambda>_.
     res_bind (require_absent_view (s3_role_session_name input)) (\<lambda>_.
       if s3_assume_role_duration_seconds input \<noteq> 0 then abi_mismatch else Inr ()))))))"

definition reject_static_credentials :: "S3OptionsV1 \<Rightarrow> unit CallResult" where
  "reject_static_credentials input =
     res_bind (reject_present_field (s3_present_bits input) S3_SESSION_TOKEN_PRESENT
                 ''S3 session_token'') (\<lambda>_.
     res_bind (require_absent_view (s3_access_key_id input)) (\<lambda>_.
     res_bind (require_absent_view (s3_secret_access_key input)) (\<lambda>_.
       require_absent_view (s3_session_token input))))"

definition parse_static_credentials ::
  "inputs \<Rightarrow> S3OptionsV1 \<Rightarrow> ParsedS3CredentialSource CallResult" where
  "parse_static_credentials m input =
     res_bind (required_nonempty_text m (s3_access_key_id input) ''S3 access_key_id'')
       (\<lambda>access_key_id.
     res_bind (required_nonempty_text m (s3_secret_access_key input) ''S3 secret_access_key'')
       (\<lambda>secret_access_key.
     res_bind (optional_nonempty_text m (s3_session_token input) (s3_present_bits input)
                 S3_SESSION_TOKEN_PRESENT ''S3 session_token'') (\<lambda>session_token.
       Inr (Static access_key_id secret_access_key session_token))))"

text \<open>The match on \<open>input.auth_kind\<close> inside \<open>parse_s3_options\<close>.\<close>

definition parse_assume_role :: "inputs \<Rightarrow> S3OptionsV1 \<Rightarrow> ParsedS3Auth CallResult" where
  "parse_assume_role m input =
     (let disable_ec2_metadata = (s3_flags input AND S3_DISABLE_EC2_METADATA \<noteq> 0) in
      res_bind (required_nonempty_text m (s3_role_arn input) ''S3 role_arn'') (\<lambda>role_arn.
      res_bind (optional_nonempty_text m (s3_external_id input) (s3_present_bits input)
                  S3_EXTERNAL_ID_PRESENT ''S3 external_id'') (\<lambda>external_id.
      res_bind (optional_nonempty_text m (s3_role_session_name input) (s3_present_bits input)
                  S3_ROLE_SESSION_NAME_PRESENT ''S3 role_session_name'') (\<lambda>role_session_name.
      res_bind
        (if s3_present_bits input AND S3_ASSUME_ROLE_DURATION_PRESENT \<noteq> 0 then
           (if s3_assume_role_duration_seconds input = 0
            then Inl (invalid_argument ''S3 assume-role duration_seconds must be positive'')
            else Inr (Some (s3_assume_role_duration_seconds input)))
         else if s3_assume_role_duration_seconds input \<noteq> 0 then abi_mismatch
         else Inr None) (\<lambda>duration_seconds.
      res_bind
        (if s3_source_kind input = S3_SOURCE_DEFAULT_CHAIN then
           res_bind (reject_static_credentials input) (\<lambda>_.
             Inr (DefaultChain disable_ec2_metadata))
         else if s3_source_kind input = S3_SOURCE_STATIC then
           (if disable_ec2_metadata
            then Inl (invalid_argument
                   ''disable_ec2_metadata is only valid for a default credential chain'')
            else parse_static_credentials m input)
         else Inl (invalid_argument ''unsupported S3 assume-role credential source kind''))
        (\<lambda>source.
        Inr (AssumeRole role_arn source external_id role_session_name duration_seconds)))))))"

definition parse_s3_auth :: "inputs \<Rightarrow> S3OptionsV1 \<Rightarrow> ParsedS3Auth CallResult" where
  "parse_s3_auth m input =
     (let disable_ec2_metadata = (s3_flags input AND S3_DISABLE_EC2_METADATA \<noteq> 0) in
      if s3_auth_kind input = S3_AUTH_DEFAULT_CHAIN then
        (if s3_source_kind input \<noteq> S3_SOURCE_DEFAULT_CHAIN
         then Inl (invalid_argument
                ''default-chain S3 authentication requires the default source kind'')
         else
           res_bind (reject_static_credentials input) (\<lambda>_.
           res_bind (reject_role_fields input) (\<lambda>_.
             Inr (Credentials (DefaultChain disable_ec2_metadata)))))
      else if s3_auth_kind input = S3_AUTH_STATIC then
        (if s3_source_kind input \<noteq> S3_SOURCE_STATIC
         then Inl (invalid_argument ''static S3 authentication requires the static source kind'')
         else if disable_ec2_metadata
         then Inl (invalid_argument
                ''disable_ec2_metadata is only valid for a default credential chain'')
         else
           res_bind (reject_role_fields input) (\<lambda>_.
           res_bind (parse_static_credentials m input) (\<lambda>source. Inr (Credentials source))))
      else if s3_auth_kind input = S3_AUTH_UNSIGNED then
        (if s3_source_kind input \<noteq> S3_SOURCE_DEFAULT_CHAIN
         then Inl (invalid_argument ''unsigned S3 authentication requires the default source kind'')
         else if disable_ec2_metadata
         then Inl (invalid_argument
                ''disable_ec2_metadata is not valid for unsigned S3 authentication'')
         else
           res_bind (reject_static_credentials input) (\<lambda>_.
           res_bind (reject_role_fields input) (\<lambda>_. Inr Unsigned)))
      else if s3_auth_kind input = S3_AUTH_ASSUME_ROLE then parse_assume_role m input
      else Inl (invalid_argument ''unsupported S3 authentication kind''))"

definition parse_s3_options :: "inputs \<Rightarrow> addr \<Rightarrow> ParsedS3Options CallResult" where
  "parse_s3_options m pointer =
     (if pointer = null_ptr then abi_mismatch
      else
        res_bind (read_input_struct (i_s3_options m) s3_header size_of_S3OptionsV1 pointer)
        (\<lambda>input.
          if s3_present_bits input AND
               NOT (S3_ROOT_PRESENT OR S3_ENDPOINT_PRESENT OR S3_SESSION_TOKEN_PRESENT
                    OR S3_EXTERNAL_ID_PRESENT OR S3_ROLE_SESSION_NAME_PRESENT
                    OR S3_ASSUME_ROLE_DURATION_PRESENT) \<noteq> 0
             \<or> s3_flags input AND NOT (S3_VIRTUAL_HOST_STYLE OR S3_DISABLE_EC2_METADATA) \<noteq> 0
             \<or> s3_reserved0 input \<noteq> 0
          then abi_mismatch
          else
            res_bind (required_nonempty_text m (s3_bucket input) ''S3 bucket'') (\<lambda>bucket.
            res_bind (required_nonempty_text m (s3_region input) ''S3 region'') (\<lambda>region.
            res_bind (optional_nonempty_text m (s3_root input) (s3_present_bits input)
                        S3_ROOT_PRESENT ''S3 root'') (\<lambda>root.
            res_bind (optional_nonempty_text m (s3_endpoint input) (s3_present_bits input)
                        S3_ENDPOINT_PRESENT ''S3 endpoint'') (\<lambda>endpoint.
            res_bind (parse_s3_auth m input) (\<lambda>auth.
              Inr \<lparr>ps3_bucket = bucket, ps3_region = region, ps3_root = root,
                   ps3_endpoint = endpoint,
                   ps3_virtual_host_style = (s3_flags input AND S3_VIRTUAL_HOST_STYLE \<noteq> 0),
                   ps3_auth = auth\<rparr>)))))))"

section \<open>Configuring the builder\<close>

datatype S3Call =
    CBucket string | CRegion string | CRoot string | CEndpoint string
  | CEnableVirtualHostStyle | CAccessKeyId string | CSecretAccessKey string
  | CSessionToken string | CDisableConfigLoad | CDisableEc2Metadata | CSkipSignature
  | CRoleArn string | CExternalId string | CRoleSessionName string
  | CAssumeRoleDurationSeconds u32

type_synonym S3Builder = "S3Call list"

definition configure_s3_source :: "S3Builder \<Rightarrow> ParsedS3CredentialSource \<Rightarrow> S3Builder" where
  "configure_s3_source builder source =
     (case source of
        DefaultChain disable_ec2_metadata \<Rightarrow>
          (if disable_ec2_metadata then builder @ [CDisableEc2Metadata] else builder)
      | Static access_key_id secret_access_key session_token \<Rightarrow>
          builder @ [CAccessKeyId access_key_id, CSecretAccessKey secret_access_key,
                     CDisableConfigLoad, CDisableEc2Metadata]
          @ (case session_token of None \<Rightarrow> [] | Some t \<Rightarrow> [CSessionToken t]))"

definition s3_builder :: "ParsedS3Options \<Rightarrow> S3Builder" where
  "s3_builder options =
     (let builder = [CBucket (ps3_bucket options), CRegion (ps3_region options)];
          builder = builder @ (case ps3_root options of None \<Rightarrow> [] | Some r \<Rightarrow> [CRoot r]);
          builder = builder @ (case ps3_endpoint options of None \<Rightarrow> [] | Some e \<Rightarrow> [CEndpoint e]);
          builder = (if ps3_virtual_host_style options
                     then builder @ [CEnableVirtualHostStyle] else builder)
      in case ps3_auth options of
           Credentials source \<Rightarrow> configure_s3_source builder source
         | Unsigned \<Rightarrow> builder @ [CSkipSignature, CDisableConfigLoad, CDisableEc2Metadata]
         | AssumeRole role_arn source external_id role_session_name duration_seconds \<Rightarrow>
             configure_s3_source builder source @ [CRoleArn role_arn]
             @ (case external_id of None \<Rightarrow> [] | Some e \<Rightarrow> [CExternalId e])
             @ (case role_session_name of None \<Rightarrow> [] | Some n \<Rightarrow> [CRoleSessionName n])
             @ (case duration_seconds of None \<Rightarrow> [] | Some d \<Rightarrow> [CAssumeRoleDurationSeconds d]))"

definition build_s3_operator ::
  "(S3Builder \<Rightarrow> ('x, token) xcall) \<Rightarrow> ParsedS3Options \<Rightarrow> ('x, token) M" where
  "build_s3_operator new_operator options =
     ext_call construction_error (new_operator (s3_builder options))"

lemma quiet_build_s3_operator [quiet_intros]: "quiet (build_s3_operator new_operator options)"
  by (simp add: build_s3_operator_def quiet_intros)

section \<open>What an accepted S3 configuration means\<close>

text \<open>
  The abstract reading of the struct: which credential mode the caller selected and which fields
  belong to it. A field of another mode must be absent in its canonical form.
\<close>

definition nonempty_text_at :: "inputs \<Rightarrow> BytesViewV1 \<Rightarrow> string \<Rightarrow> bool" where
  "nonempty_text_at m view s \<longleftrightarrow> s \<noteq> [] \<and> text_at m view s"

definition nonempty_field_ok :: "inputs \<Rightarrow> BytesViewV1 \<Rightarrow> bool \<Rightarrow> string option \<Rightarrow> bool" where
  "nonempty_field_ok m view present v \<longleftrightarrow> v \<noteq> Some [] \<and> text_field_ok m view present v"

definition no_static_fields :: "S3OptionsV1 \<Rightarrow> bool" where
  "no_static_fields i \<longleftrightarrow> s3_present_bits i AND S3_SESSION_TOKEN_PRESENT = 0 \<and>
     absent_bytes_is_canonical (s3_access_key_id i) \<and>
     absent_bytes_is_canonical (s3_secret_access_key i) \<and>
     absent_bytes_is_canonical (s3_session_token i)"

definition no_role_fields :: "S3OptionsV1 \<Rightarrow> bool" where
  "no_role_fields i \<longleftrightarrow> s3_present_bits i AND S3_EXTERNAL_ID_PRESENT = 0 \<and>
     s3_present_bits i AND S3_ROLE_SESSION_NAME_PRESENT = 0 \<and>
     s3_present_bits i AND S3_ASSUME_ROLE_DURATION_PRESENT = 0 \<and>
     absent_bytes_is_canonical (s3_role_arn i) \<and> absent_bytes_is_canonical (s3_external_id i) \<and>
     absent_bytes_is_canonical (s3_role_session_name i) \<and> s3_assume_role_duration_seconds i = 0"

definition ec2_disabled :: "S3OptionsV1 \<Rightarrow> bool" where
  "ec2_disabled i \<longleftrightarrow> s3_flags i AND S3_DISABLE_EC2_METADATA \<noteq> 0"

definition duration_field_ok :: "S3OptionsV1 \<Rightarrow> u32 option \<Rightarrow> bool" where
  "duration_field_ok i d \<longleftrightarrow>
     (if s3_present_bits i AND S3_ASSUME_ROLE_DURATION_PRESENT \<noteq> 0
      then s3_assume_role_duration_seconds i \<noteq> 0 \<and> d = Some (s3_assume_role_duration_seconds i)
      else s3_assume_role_duration_seconds i = 0 \<and> d = None)"

fun source_matches :: "inputs \<Rightarrow> S3OptionsV1 \<Rightarrow> ParsedS3CredentialSource \<Rightarrow> bool" where
  "source_matches m i (DefaultChain d) \<longleftrightarrow>
     s3_source_kind i = S3_SOURCE_DEFAULT_CHAIN \<and> no_static_fields i \<and> d = ec2_disabled i"
| "source_matches m i (Static a s t) \<longleftrightarrow>
     s3_source_kind i = S3_SOURCE_STATIC \<and> \<not> ec2_disabled i \<and>
     nonempty_text_at m (s3_access_key_id i) a \<and> nonempty_text_at m (s3_secret_access_key i) s \<and>
     nonempty_field_ok m (s3_session_token i)
       (s3_present_bits i AND S3_SESSION_TOKEN_PRESENT \<noteq> 0) t"

fun auth_matches :: "inputs \<Rightarrow> S3OptionsV1 \<Rightarrow> ParsedS3Auth \<Rightarrow> bool" where
  "auth_matches m i (Credentials src) \<longleftrightarrow>
     s3_auth_kind i = (case src of DefaultChain _ \<Rightarrow> S3_AUTH_DEFAULT_CHAIN
                                 | Static _ _ _ \<Rightarrow> S3_AUTH_STATIC) \<and>
     source_matches m i src \<and> no_role_fields i"
| "auth_matches m i Unsigned \<longleftrightarrow>
     s3_auth_kind i = S3_AUTH_UNSIGNED \<and> s3_source_kind i = S3_SOURCE_DEFAULT_CHAIN \<and>
     \<not> ec2_disabled i \<and> no_static_fields i \<and> no_role_fields i"
| "auth_matches m i (AssumeRole arn src eid rsn dur) \<longleftrightarrow>
     s3_auth_kind i = S3_AUTH_ASSUME_ROLE \<and> nonempty_text_at m (s3_role_arn i) arn \<and>
     nonempty_field_ok m (s3_external_id i) (s3_present_bits i AND S3_EXTERNAL_ID_PRESENT \<noteq> 0) eid \<and>
     nonempty_field_ok m (s3_role_session_name i)
       (s3_present_bits i AND S3_ROLE_SESSION_NAME_PRESENT \<noteq> 0) rsn \<and>
     duration_field_ok i dur \<and> source_matches m i src"

lemma required_nonempty_text_Inr:
  "required_nonempty_text m view label = Inr s \<longleftrightarrow> nonempty_text_at m view s"
  by (auto simp: required_nonempty_text_def res_bind_eq_Inr read_text_value_Inr
      nonempty_text_at_def)

lemma optional_nonempty_text_Inr:
  "optional_nonempty_text m view bits flag label = Inr v \<longleftrightarrow>
     nonempty_field_ok m view (bits AND flag \<noteq> 0) v"
  by (auto simp: optional_nonempty_text_def res_bind_eq_Inr optional_text_Inr
      nonempty_field_ok_def)

lemma reject_role_fields_Inr: "reject_role_fields i = Inr u \<longleftrightarrow> no_role_fields i"
  by (auto simp: reject_role_fields_def no_role_fields_def res_bind_eq_Inr
      reject_present_field_def require_absent_view_def abi_mismatch_def)

lemma reject_static_credentials_Inr: "reject_static_credentials i = Inr u \<longleftrightarrow> no_static_fields i"
  by (auto simp: reject_static_credentials_def no_static_fields_def res_bind_eq_Inr
      reject_present_field_def require_absent_view_def abi_mismatch_def)

lemma parse_static_credentials_Inr:
  "parse_static_credentials m i = Inr src \<longleftrightarrow>
     (\<exists>a s t. src = Static a s t \<and> nonempty_text_at m (s3_access_key_id i) a \<and>
        nonempty_text_at m (s3_secret_access_key i) s \<and>
        nonempty_field_ok m (s3_session_token i)
          (s3_present_bits i AND S3_SESSION_TOKEN_PRESENT \<noteq> 0) t)"
  by (auto simp: parse_static_credentials_def res_bind_eq_Inr required_nonempty_text_Inr
      optional_nonempty_text_Inr)

lemmas s3_iffs = res_bind_eq_Inr reject_role_fields_Inr reject_static_credentials_Inr
  parse_static_credentials_Inr required_nonempty_text_Inr optional_nonempty_text_Inr

lemma duration_Inr:
  "(if s3_present_bits i AND S3_ASSUME_ROLE_DURATION_PRESENT \<noteq> 0 then
      (if s3_assume_role_duration_seconds i = 0 then Inl e
       else Inr (Some (s3_assume_role_duration_seconds i)))
    else if s3_assume_role_duration_seconds i \<noteq> 0 then abi_mismatch else Inr None) = Inr d
   \<longleftrightarrow> duration_field_ok i d"
  by (auto simp: duration_field_ok_def)

lemma source_Inr:
  "(if s3_source_kind i = S3_SOURCE_DEFAULT_CHAIN then
      res_bind (reject_static_credentials i) (\<lambda>_. Inr (DefaultChain (ec2_disabled i)))
    else if s3_source_kind i = S3_SOURCE_STATIC then
      (if ec2_disabled i then Inl e1 else parse_static_credentials m i)
    else Inl e2) = Inr src \<longleftrightarrow> source_matches m i src"
  by (cases src) (auto simp: s3_iffs)

lemma parse_assume_role_Inr:
  "parse_assume_role m i = Inr auth \<longleftrightarrow>
     (\<exists>arn src eid rsn dur. auth = AssumeRole arn src eid rsn dur \<and>
        nonempty_text_at m (s3_role_arn i) arn \<and>
        nonempty_field_ok m (s3_external_id i) (s3_present_bits i AND S3_EXTERNAL_ID_PRESENT \<noteq> 0) eid \<and>
        nonempty_field_ok m (s3_role_session_name i)
          (s3_present_bits i AND S3_ROLE_SESSION_NAME_PRESENT \<noteq> 0) rsn \<and>
        duration_field_ok i dur \<and> source_matches m i src)"
  unfolding parse_assume_role_def Let_def ec2_disabled_def [symmetric]
  by (simp only: res_bind_eq_Inr required_nonempty_text_Inr optional_nonempty_text_Inr
      duration_Inr source_Inr) blast

lemma parse_s3_auth_iff:
  "parse_s3_auth m i = Inr auth \<longleftrightarrow> auth_matches m i auth"
proof -
  consider (default) "s3_auth_kind i = S3_AUTH_DEFAULT_CHAIN"
    | (static) "s3_auth_kind i = S3_AUTH_STATIC" | (unsigned) "s3_auth_kind i = S3_AUTH_UNSIGNED"
    | (role) "s3_auth_kind i = S3_AUTH_ASSUME_ROLE"
    | (other) "s3_auth_kind i \<noteq> S3_AUTH_DEFAULT_CHAIN" "s3_auth_kind i \<noteq> S3_AUTH_STATIC"
        "s3_auth_kind i \<noteq> S3_AUTH_UNSIGNED" "s3_auth_kind i \<noteq> S3_AUTH_ASSUME_ROLE"
    by blast
  then show ?thesis
  proof cases
    case default
    then show ?thesis
      by (cases auth) (auto simp: parse_s3_auth_def s3_iffs ec2_disabled_def
          split: ParsedS3CredentialSource.splits)
  next
    case static
    then show ?thesis
      by (cases auth) (auto simp: parse_s3_auth_def s3_iffs ec2_disabled_def
          split: ParsedS3CredentialSource.splits)
  next
    case unsigned
    then show ?thesis
      by (cases auth) (auto simp: parse_s3_auth_def s3_iffs ec2_disabled_def
          split: ParsedS3CredentialSource.splits)
  next
    case role
    then show ?thesis
      by (cases auth) (auto simp: parse_s3_auth_def parse_assume_role_Inr
          split: ParsedS3CredentialSource.splits)
  next
    case other
    then show ?thesis
      by (cases auth) (auto simp: parse_s3_auth_def split: ParsedS3CredentialSource.splits)
  qed
qed

section \<open>Credential calls\<close>

fun is_credential :: "S3Call \<Rightarrow> bool" where
  "is_credential (CAccessKeyId _) = True"
| "is_credential (CSecretAccessKey _) = True"
| "is_credential (CSessionToken _) = True"
| "is_credential _ = False"

fun auth_source :: "ParsedS3Auth \<Rightarrow> ParsedS3CredentialSource option" where
  "auth_source (Credentials src) = Some src"
| "auth_source Unsigned = None"
| "auth_source (AssumeRole _ src _ _ _) = Some src"

fun source_credentials :: "ParsedS3CredentialSource option \<Rightarrow> S3Call list" where
  "source_credentials (Some (Static a s t)) =
     [CAccessKeyId a, CSecretAccessKey s] @ (case t of None \<Rightarrow> [] | Some x \<Rightarrow> [CSessionToken x])"
| "source_credentials (Some (DefaultChain _)) = []"
| "source_credentials None = []"

section \<open>Properties\<close>

text \<open>
  C37. \<open>parse_s3_options\<close> accepts exactly the well-formed structs: a complete versioned struct with
  only known bits, nonempty bucket and region, optional fields present exactly when announced, and
  an authentication section in which precisely the fields of the selected mode are given.
\<close>

theorem parse_s3_options_exact:
  "parse_s3_options m p = Inr o3 \<longleftrightarrow>
     (let i = i_s3_options m p in
      p \<noteq> 0 \<and> 8 dvd p \<and> s3_struct_version i = STRUCT_VERSION \<and> 200 \<le> unat (s3_struct_size i) \<and>
      s3_present_bits i AND NOT 63 = 0 \<and> s3_flags i AND NOT 3 = 0 \<and> s3_reserved0 i = 0 \<and>
      nonempty_text_at m (s3_bucket i) (ps3_bucket o3) \<and>
      nonempty_text_at m (s3_region i) (ps3_region o3) \<and>
      nonempty_field_ok m (s3_root i) (s3_present_bits i AND S3_ROOT_PRESENT \<noteq> 0) (ps3_root o3) \<and>
      nonempty_field_ok m (s3_endpoint i) (s3_present_bits i AND S3_ENDPOINT_PRESENT \<noteq> 0)
        (ps3_endpoint o3) \<and>
      ps3_virtual_host_style o3 = (s3_flags i AND S3_VIRTUAL_HOST_STYLE \<noteq> 0) \<and>
      auth_matches m i (ps3_auth o3))"
proof -
  have eq: "(\<lparr>ps3_bucket = b, ps3_region = r, ps3_root = rt, ps3_endpoint = e,
      ps3_virtual_host_style = v, ps3_auth = a\<rparr> = o3) \<longleftrightarrow>
      ps3_bucket o3 = b \<and> ps3_region o3 = r \<and> ps3_root o3 = rt \<and> ps3_endpoint o3 = e \<and>
      ps3_virtual_host_style o3 = v \<and> ps3_auth o3 = a" for b r rt e v a
    by (cases o3) auto
  show ?thesis
    by (auto simp: parse_s3_options_def res_bind_eq_Inr read_input_struct_Inr null_ptr_def
        s3_header_def size_of_S3OptionsV1_def required_nonempty_text_Inr optional_nonempty_text_Inr
        parse_s3_auth_iff eq Let_def)
qed

text \<open>
  C38. The builder receives exactly the credentials of the selected source and nothing else; request
  signing is skipped exactly for unsigned access; and configuration files and the environment are
  consulted exactly when the caller selected the default credential chain.
\<close>

theorem s3_builder_credentials:
  "filter is_credential (s3_builder o3) = source_credentials (auth_source (ps3_auth o3)) \<and>
   (CSkipSignature \<in> set (s3_builder o3)) = (ps3_auth o3 = Unsigned) \<and>
   (CDisableConfigLoad \<in> set (s3_builder o3)) =
     (\<forall>d. auth_source (ps3_auth o3) \<noteq> Some (DefaultChain d))"
  by (cases "ps3_auth o3")
    (auto simp: s3_builder_def configure_s3_source_def Let_def
      split: ParsedS3CredentialSource.splits option.splits)

end
