(* ===== verification/Buffers.thy ===== *)
theory Buffers
  imports Options
begin

text \<open>
  Bounded buffering of read results (\<open>checked_read_buffer\<close> to \<open>collect_bounded_read_chunks\<close> of
  \<open>lib.rs\<close>). The bridge copies upstream buffers into one \<open>Vec\<close> and never lets it grow past the
  limit negotiated with the caller.

  A \<open>Vec\<close> is its bytes and its capacity. \<open>grow n\<close> is the capacity the allocator grants when \<open>n\<close> is
  requested; the standard library documents that it is at least \<open>n\<close>. Subtractions that would
  underflow and failing debug assertions are panics of the model. An iterator over buffers is the
  finite list of the items it yields.
\<close>

record vec =
  v_bytes :: "u8 list"
  v_capacity :: usize

definition vec_new :: vec where
  "vec_new = \<lparr>v_bytes = [], v_capacity = 0\<rparr>"

definition reserve_exact :: "(usize \<Rightarrow> usize) \<Rightarrow> usize \<Rightarrow> (vec, 'e, unit) comp" where
  "reserve_exact grow additional v =
     (Ok (), if v_capacity v - length (v_bytes v) \<ge> additional then v
             else v\<lparr>v_capacity := grow (length (v_bytes v) + additional)\<rparr>)"

definition extend_from_slice :: "(usize \<Rightarrow> usize) \<Rightarrow> u8 list \<Rightarrow> (vec, 'e, unit) comp" where
  "extend_from_slice grow bs v =
     (Ok (), \<lparr>v_bytes = v_bytes v @ bs,
              v_capacity = (if length (v_bytes v) + length bs \<le> v_capacity v then v_capacity v
                            else grow (length (v_bytes v) + length bs))\<rparr>)"

primrec extend_segments :: "(usize \<Rightarrow> usize) \<Rightarrow> Buffer \<Rightarrow> (vec, 'e, unit) comp" where
  "extend_segments grow [] = ret ()"
| "extend_segments grow (b # bs) = bind (extend_from_slice grow b) (\<lambda>_. extend_segments grow bs)"

section \<open>Operations\<close>

definition checked_read_buffer :: "Buffer \<Rightarrow> u64 \<Rightarrow> string \<Rightarrow> BufferV1 CallResult" where
  "checked_read_buffer buffer max_output_len subject =
     (case u64_try_from (buffer_len_of buffer) of
        None \<Rightarrow> Inl (buffer_too_large (subject @ '' length is not representable''))
      | Some len \<Rightarrow>
          if len > MAX_OUTPUT_BYTES \<or> len > max_output_len
          then Inl (buffer_too_large (subject @ '' exceeds the negotiated output limit''))
          else Inr \<lparr>buf_bytes = concat buffer\<rparr>)"

definition split_read_stream_buffer ::
  "(Buffer \<Rightarrow> usize \<Rightarrow> Buffer \<times> Buffer) \<Rightarrow> Buffer \<Rightarrow> u64 \<Rightarrow>
   (Buffer \<times> Buffer option) CallResult" where
  \<comment> \<open>\<open>split_to b n\<close> is \<open>Buffer::split_to\<close>: the first \<open>n\<close> bytes, and what stays in the buffer\<close>
  "split_read_stream_buffer split_to buffer chunk_size =
     (case usize_try_from chunk_size of
        None \<Rightarrow> Inl (buffer_too_large ''read stream chunk size is not representable'')
      | Some n \<Rightarrow>
          (case split_to buffer (min (buffer_len_of buffer) n) of
             (chunk, rest) \<Rightarrow> Inr (chunk, if buffer_len_of rest = 0 then None else Some rest)))"

record WholeReadPlan =
  plan_reader_options :: ReaderOptions
  plan_range :: BytesRange
  plan_output_limit :: u64

definition whole_read_plan :: "ReadOptions \<Rightarrow> u64 \<Rightarrow> WholeReadPlan CallResult" where
  "whole_read_plan options max_output_len =
     (let output_limit = min max_output_len MAX_OUTPUT_BYTES;
          too_large = Inl (buffer_too_large ''read result exceeds the negotiated output limit'')
      in
      res_bind
        (case rop_range options of
           Range _ (Some n) \<Rightarrow> if n > output_limit then too_large else Inr ()
         | Suffix n \<Rightarrow> if n > output_limit then too_large else Inr ()
         | Range _ None \<Rightarrow> Inr ()) (\<lambda>_.
        Inr \<lparr>plan_reader_options =
               \<lparr>rdo_version = rop_version options, rdo_if_match = rop_if_match options,
                rdo_if_none_match = rop_if_none_match options,
                rdo_if_modified_since = rop_if_modified_since options,
                rdo_if_unmodified_since = rop_if_unmodified_since options,
                rdo_content_length_hint = rop_content_length_hint options,
                rdo_concurrent = 1, rdo_chunk = None, rdo_gap = None, rdo_prefetch = 0\<rparr>,
             plan_range = rop_range options, plan_output_limit = output_limit\<rparr>))"

fun is_suffix :: "BytesRange \<Rightarrow> bool" where
  "is_suffix (Suffix _) = True"
| "is_suffix (Range _ _) = False"

definition ensure_suffix_is_native :: "BytesRange \<Rightarrow> bool \<Rightarrow> unit CallResult" where
  "ensure_suffix_is_native r native_suffix =
     (if is_suffix r \<and> \<not> native_suffix
      then Inl (unsupported ''suffix reads require native backend range support'')
      else Inr ())"

definition append_bounded_read_chunk ::
  "(usize \<Rightarrow> usize) \<Rightarrow> Buffer \<Rightarrow> u64 \<Rightarrow> string \<Rightarrow> (vec, CallFailure, unit) comp" where
  "append_bounded_read_chunk grow buffer output_limit subject output =
     (let unrepresentable = (Err (buffer_too_large (subject @ '' length is not representable'')), output)
      in
      case u64_try_from (length (v_bytes output)) of
        None \<Rightarrow> unrepresentable
      | Some current_length \<Rightarrow>
      (case u64_try_from (buffer_len_of buffer) of
        None \<Rightarrow> unrepresentable
      | Some chunk_length \<Rightarrow>
      (case checked_add_u64 current_length chunk_length of
        None \<Rightarrow> unrepresentable
      | Some next_length \<Rightarrow>
        if next_length > output_limit
        then (Err (buffer_too_large (subject @ '' exceeds the negotiated output limit'')), output)
        else
      (case usize_try_from next_length of
        None \<Rightarrow> (Err (buffer_too_large ''read result length is not representable''), output)
      | Some required \<Rightarrow>
        bind
          (\<lambda>v. if required > v_capacity v then
                 (case usize_try_from output_limit of
                    None \<Rightarrow> (Err (buffer_too_large ''read output limit is not representable''), v)
                  | Some limit \<Rightarrow>
                      let target =
                        min (max (saturating_mul_usize (max (v_capacity v) 1) 2) required) limit
                      in if target < length (v_bytes v) then (Panic, v)
                         else reserve_exact grow (target - length (v_bytes v)) v)
               else (Ok (), v))
          (\<lambda>_. bind (extend_segments grow buffer)
          (\<lambda>_ v. if length (v_bytes v) \<noteq> required then (Panic, v) else (Ok (), v))) output))))"

fun collect_from ::
  "(usize \<Rightarrow> usize) \<Rightarrow> Buffer ext_result list \<Rightarrow> u64 \<Rightarrow> string \<Rightarrow> (vec, CallFailure, unit) comp" where
  "collect_from grow [] output_limit subject = ret ()"
| "collect_from grow (XErr e # items) output_limit subject = throw (opendal_error e)"
| "collect_from grow (XPanic # items) output_limit subject = panic"
| "collect_from grow (XOk buffer # items) output_limit subject =
     bind (append_bounded_read_chunk grow buffer output_limit subject)
       (\<lambda>_. collect_from grow items output_limit subject)"

definition collect_bounded_read_chunks ::
  "(usize \<Rightarrow> usize) \<Rightarrow> Buffer ext_result list \<Rightarrow> u64 \<Rightarrow> string \<Rightarrow> ('x, BufferV1) M" where
  "collect_bounded_read_chunks grow buffers output_limit subject w =
     (case collect_from grow buffers output_limit subject vec_new of
        (Ok _, v) \<Rightarrow> (Ok \<lparr>buf_bytes = v_bytes v\<rparr>, w)
      | (Err f, _) \<Rightarrow> (Err f, w)
      | (Panic, _) \<Rightarrow> (Panic, w)
      | (UB, _) \<Rightarrow> (UB, w)
      | (Blocked, _) \<Rightarrow> (Blocked, w))"

definition read_open_ended_bounded ::
  "(usize \<Rightarrow> usize) \<Rightarrow> (token \<Rightarrow> BytesRange \<Rightarrow> ('x, Buffer ext_result list) xcall) \<Rightarrow>
   token \<Rightarrow> BytesRange \<Rightarrow> u64 \<Rightarrow> ('x, BufferV1) M" where
  "read_open_ended_bounded grow into_iterator reader r output_limit =
     bind (ext_call opendal_error (into_iterator reader r)) (\<lambda>buffers.
       collect_bounded_read_chunks grow buffers output_limit ''reader result'')"

section \<open>Appending one chunk\<close>

definition grows :: "(usize \<Rightarrow> usize) \<Rightarrow> bool" where
  "grows grow \<longleftrightarrow> (\<forall>n. n \<le> grow n)"

lemma extend_segments_bytes:
  "\<exists>v'. (extend_segments grow buffer :: (vec, 'e, unit) comp) v = (Ok (), v') \<and>
     v_bytes v' = v_bytes v @ concat buffer"
proof (induction buffer arbitrary: v)
  case Nil
  then show ?case by (simp add: run_simps)
next
  case (Cons b bs)
  obtain v1 where e: "(extend_from_slice grow b :: (vec, 'e, unit) comp) v = (Ok (), v1)"
    and b: "v_bytes v1 = v_bytes v @ b" by (simp add: extend_from_slice_def)
  from Cons.IH [of v1] e b show ?case by (auto simp: bind_def)
qed

lemma extend_segments_capacity:
  assumes "length (v_bytes v) + length (concat buffer) \<le> v_capacity v"
  shows "v_capacity (snd (extend_segments grow buffer v)) = v_capacity v"
  using assms
  by (induction buffer arbitrary: v) (auto simp: run_simps bind_def extend_from_slice_def)

text \<open>The capacity requested is enough for the chunk and never exceeds the limit.\<close>

lemma reservation_bounds:
  assumes "required \<le> limit"
  shows "required \<le> min (max (saturating_mul_usize (max c 1) 2) required) limit"
    and "min (max (saturating_mul_usize (max c 1) 2) required) limit \<le> limit"
  using assms by auto

definition fits :: "vec \<Rightarrow> Buffer \<Rightarrow> u64 \<Rightarrow> bool" where
  "fits v buffer limit \<longleftrightarrow> length (v_bytes v) + length (concat buffer) \<le> unat limit"

text \<open>A chunk that fits: the reservation succeeds, keeps the bytes, and stays within the limit.\<close>

lemma append_step:
  assumes "fits v buffer limit"
  shows "\<exists>v1. v_bytes v1 = v_bytes v \<and>
    append_bounded_read_chunk grow buffer limit subject v =
      bind (extend_segments grow buffer)
        (\<lambda>_ u. if length (v_bytes u) \<noteq> length (v_bytes v) + length (concat buffer) then (Panic, u)
               else (Ok (), u)) v1 \<and>
    (grow = id \<and> length (v_bytes v) \<le> v_capacity v \<and> v_capacity v \<le> unat limit \<longrightarrow>
       length (v_bytes v) + length (concat buffer) \<le> v_capacity v1 \<and> v_capacity v1 \<le> unat limit)"
proof -
  let ?n = "length (v_bytes v)" and ?k = "length (concat buffer)"
  have le: "?n + ?k \<le> unat limit" using assms by (simp add: fits_def)
  have max: "?n + ?k \<le> u64_max" using le unat_u64_le [of limit] by linarith
  obtain a where a: "u64_try_from ?n = Some a" "unat a = ?n"
    using max by (cases "u64_try_from ?n") (auto simp: u64_try_from_Some u64_try_from_None)
  obtain b where b: "u64_try_from (buffer_len_of buffer) = Some b" "unat b = ?k"
    using max by (cases "u64_try_from ?k")
      (auto simp: u64_try_from_Some u64_try_from_None buffer_len_of_def)
  obtain c where c: "checked_add_u64 a b = Some c" "unat c = ?n + ?k"
    using max a b
    by (cases "checked_add_u64 a b") (auto simp: checked_add_u64_Some checked_add_u64_None)
  have not_over: "\<not> c > limit" using c le by (simp add: word_less_nat_alt)
  let ?target = "min (max (saturating_mul_usize (max (v_capacity v) 1) 2) (?n + ?k)) (unat limit)"
  note bounds = reservation_bounds [OF le, of "v_capacity v"]
  have tgt: "\<not> ?target < ?n" using bounds(1) by linarith
  let ?v1 = "if ?n + ?k > v_capacity v
       then snd (reserve_exact grow (?target - ?n) v :: (CallFailure, unit) outcome \<times> vec)
       else v"
  have "v_bytes ?v1 = v_bytes v" by (simp add: reserve_exact_def)
  moreover have "append_bounded_read_chunk grow buffer limit subject v =
      bind (extend_segments grow buffer)
        (\<lambda>_ u. if length (v_bytes u) \<noteq> ?n + ?k then (Panic, u) else (Ok (), u)) ?v1"
    using a b c not_over tgt
    by (simp add: append_bounded_read_chunk_def Let_def bind_def reserve_exact_def)
  moreover have "grow = id \<and> ?n \<le> v_capacity v \<and> v_capacity v \<le> unat limit \<longrightarrow>
      ?n + ?k \<le> v_capacity ?v1 \<and> v_capacity ?v1 \<le> unat limit"
    using bounds by (auto simp: reserve_exact_def)
  ultimately show ?thesis by blast
qed

lemma append_fits:
  assumes "fits v buffer limit"
  shows "\<exists>v'. append_bounded_read_chunk grow buffer limit subject v = (Ok (), v') \<and>
          v_bytes v' = v_bytes v @ concat buffer"
proof -
  obtain v1 where bytes: "v_bytes v1 = v_bytes v" and
    step: "append_bounded_read_chunk grow buffer limit subject v =
      bind (extend_segments grow buffer)
        (\<lambda>_ u. if length (v_bytes u) \<noteq> length (v_bytes v) + length (concat buffer) then (Panic, u)
               else (Ok (), u)) v1"
    using append_step [OF assms] by blast
  obtain v' where "(extend_segments grow buffer :: (vec, CallFailure, unit) comp) v1 = (Ok (), v')"
    and "v_bytes v' = v_bytes v1 @ concat buffer" using extend_segments_bytes by blast
  then show ?thesis by (simp add: step bind_def bytes)
qed

lemma append_too_large:
  assumes "\<not> fits v buffer limit"
  shows "\<exists>msg. append_bounded_read_chunk grow buffer limit subject v =
           (Err (buffer_too_large msg), v)"
proof (cases "length (v_bytes v) + length (concat buffer) \<le> u64_max")
  case False
  then show ?thesis
    by (auto simp: append_bounded_read_chunk_def Let_def buffer_len_of_def checked_add_u64_Some
        u64_try_from_Some split: option.splits)
next
  case True
  let ?n = "length (v_bytes v)" and ?k = "length (concat buffer)"
  obtain a where a: "u64_try_from ?n = Some a" "unat a = ?n"
    using True by (cases "u64_try_from ?n") (auto simp: u64_try_from_Some u64_try_from_None)
  obtain b where b: "u64_try_from (buffer_len_of buffer) = Some b" "unat b = ?k"
    using True by (cases "u64_try_from ?k")
      (auto simp: u64_try_from_Some u64_try_from_None buffer_len_of_def)
  obtain c where c: "checked_add_u64 a b = Some c" "unat c = ?n + ?k"
    using True a b
    by (cases "checked_add_u64 a b") (auto simp: checked_add_u64_Some checked_add_u64_None)
  have "c > limit" using c assms by (simp add: word_less_nat_alt fits_def)
  with a b c show ?thesis by (auto simp: append_bounded_read_chunk_def)
qed

section \<open>Collecting an iterator\<close>

lemma collect_from_Ok:
  assumes "length (v_bytes v) \<le> unat limit"
  shows "(\<exists>v'. collect_from grow items limit subject v = (Ok (), v') \<and> v_bytes v' = bs) \<longleftrightarrow>
    (\<exists>bufs. items = map XOk bufs \<and> bs = v_bytes v @ concat (concat bufs) \<and>
       length bs \<le> unat limit)"
  using assms
proof (induction items arbitrary: v)
  case Nil
  then show ?case by (auto simp: run_simps)
next
  case (Cons item items)
  show ?case
  proof (cases item)
    case (XOk buffer)
    show ?thesis
    proof (cases "fits v buffer limit")
      case True
      then obtain v1 where v1: "append_bounded_read_chunk grow buffer limit subject v = (Ok (), v1)"
        "v_bytes v1 = v_bytes v @ concat buffer" using append_fits by blast
      have "length (v_bytes v1) \<le> unat limit" using True v1 by (simp add: fits_def)
      from Cons.IH [OF this] v1 show ?thesis
        by (auto simp: XOk bind_def Cons_eq_map_conv)
    next
      case False
      from append_too_large [OF False] obtain msg where
        e: "append_bounded_read_chunk grow buffer limit subject v = (Err (buffer_too_large msg), v)"
        by blast
      have "\<not> length (v_bytes v @ concat (concat (buffer # bufs))) \<le> unat limit" for bufs
        using False by (simp add: fits_def)
      with e show ?thesis by (auto simp: XOk bind_def Cons_eq_map_conv)
    qed
  qed (auto simp: run_simps)
qed

text \<open>A collection fails with an upstream error, with the output limit, or with a panic upstream.\<close>

lemma collect_from_cases:
  "length (v_bytes v) \<le> unat limit \<Longrightarrow>
   (\<exists>v'. collect_from grow items limit subject v = (Ok (), v')) \<or>
   (\<exists>e v'. XErr e \<in> set items \<and>
      collect_from grow items limit subject v = (Err (opendal_error e), v')) \<or>
   (\<exists>msg v'. collect_from grow items limit subject v = (Err (buffer_too_large msg), v')) \<or>
   (XPanic \<in> set items \<and> (\<exists>v'. collect_from grow items limit subject v = (Panic, v')))"
proof (induction items arbitrary: v)
  case Nil
  then show ?case by (simp add: run_simps)
next
  case (Cons item items)
  show ?case
  proof (cases item)
    case (XOk buffer)
    show ?thesis
    proof (cases "fits v buffer limit")
      case True
      then obtain v1 where v1: "append_bounded_read_chunk grow buffer limit subject v = (Ok (), v1)"
        "v_bytes v1 = v_bytes v @ concat buffer" using append_fits by blast
      have "length (v_bytes v1) \<le> unat limit" using True v1 by (simp add: fits_def)
      from Cons.IH [OF this] v1 show ?thesis by (auto simp: XOk bind_def)
    next
      case False
      from append_too_large [OF False, of grow subject] show ?thesis
        by (auto simp: XOk bind_def)
    qed
  qed (auto simp: run_simps)
qed

lemma collect_Ok_iff:
  "(\<exists>w'. collect_bounded_read_chunks grow items limit subject w = (Ok b, w')) \<longleftrightarrow>
   (\<exists>bufs. items = map XOk bufs \<and> buf_bytes b = concat (concat bufs) \<and>
      length (buf_bytes b) \<le> unat limit)"
proof -
  have "(\<exists>w'. collect_bounded_read_chunks grow items limit subject w = (Ok b, w')) \<longleftrightarrow>
    (\<exists>v'. collect_from grow items limit subject vec_new = (Ok (), v') \<and> v_bytes v' = buf_bytes b)"
    by (auto simp: collect_bounded_read_chunks_def split: prod.splits outcome.splits)
  also have "\<dots> \<longleftrightarrow> (\<exists>bufs. items = map XOk bufs \<and> buf_bytes b = concat (concat bufs) \<and>
      length (buf_bytes b) \<le> unat limit)"
    using collect_from_Ok [of vec_new limit grow items subject "buf_bytes b"]
    by (simp add: vec_new_def)
  finally show ?thesis .
qed

lemma collect_world [simp]:
  "snd (collect_bounded_read_chunks grow items limit subject w) = w"
  by (simp add: collect_bounded_read_chunks_def split: prod.splits outcome.splits)

lemma quiet_collect [quiet_intros]:
  "quiet (collect_bounded_read_chunks grow items limit subject)"
  by (simp add: quiet_def)

lemma quiet_read_open_ended [quiet_intros]:
  "quiet (read_open_ended_bounded grow into_iterator reader r limit)"
  unfolding read_open_ended_bounded_def by (intro quiet_intros)

section \<open>Limits\<close>

lemma checked_read_buffer_Inr:
  "checked_read_buffer buffer limit subject = Inr b \<longleftrightarrow>
     length (concat buffer) \<le> 2147483647 \<and> length (concat buffer) \<le> unat limit \<and>
     buf_bytes b = concat buffer"
proof (cases "u64_try_from (buffer_len_of buffer)")
  case None
  then have "u64_max < length (concat buffer)" by (simp add: u64_try_from_None buffer_len_of_def)
  with None show ?thesis by (simp add: checked_read_buffer_def u64_max_def)
next
  case (Some n)
  then have "unat n = length (concat buffer)" by (simp add: u64_try_from_Some buffer_len_of_def)
  with Some show ?thesis
    by (cases b) (auto simp: checked_read_buffer_def word_less_nat_alt)
qed

definition range_size_within :: "BytesRange \<Rightarrow> u64 \<Rightarrow> bool" where
  "range_size_within r limit \<longleftrightarrow>
     (case r of Range _ None \<Rightarrow> True | Range _ (Some n) \<Rightarrow> n \<le> limit | Suffix n \<Rightarrow> n \<le> limit)"

lemma whole_read_plan_iff:
  "(\<exists>plan. whole_read_plan options max_len = Inr plan) \<longleftrightarrow>
     range_size_within (rop_range options) (min max_len MAX_OUTPUT_BYTES)"
  by (auto simp: whole_read_plan_def range_size_within_def Let_def res_bind_eq_Inr min_less_iff_disj
      split: BytesRange.splits option.splits if_splits)

lemma whole_read_plan_Inr:
  assumes "whole_read_plan options max_len = Inr plan"
  shows "plan_output_limit plan = min max_len MAX_OUTPUT_BYTES"
    and "plan_range plan = rop_range options"
    and "rdo_chunk (plan_reader_options plan) = None"
    and "rdo_version (plan_reader_options plan) = rop_version options"
    and "rdo_if_match (plan_reader_options plan) = rop_if_match options"
    and "rdo_if_none_match (plan_reader_options plan) = rop_if_none_match options"
  using assms by (auto simp: whole_read_plan_def Let_def res_bind_eq_Inr
      split: BytesRange.splits option.splits if_splits)

section \<open>Properties\<close>

text \<open>
  Appending a chunk is exact and never panics: a chunk that fits the limit is appended byte for
  byte, and one that does not leaves the collected output untouched and reports \<open>BufferTooLarge\<close>.
\<close>

theorem append_chunk_exact:
  "(fits v buffer limit \<longrightarrow>
      (\<exists>v'. append_bounded_read_chunk grow buffer limit subject v = (Ok (), v') \<and>
         v_bytes v' = v_bytes v @ concat buffer)) \<and>
   (\<not> fits v buffer limit \<longrightarrow>
      (\<exists>msg. append_bounded_read_chunk grow buffer limit subject v = (Err (buffer_too_large msg), v)))"
  using append_fits append_too_large by blast

lemma append_chunk_exact_witness:
  "\<exists>v'. append_bounded_read_chunk id [[1, 2], [3]] 3 ''read result'' vec_new = (Ok (), v') \<and>
     v_bytes v' = [1, 2, 3]"
  using append_chunk_exact [of vec_new "[[1, 2], [3]]" 3 id "''read result''"]
  by (simp add: fits_def vec_new_def)

text \<open>
  Collecting an iterator succeeds exactly when every item is a buffer and all bytes together fit
  the limit, and then yields exactly their concatenation.
\<close>

theorem collect_bounded_exact:
  "(\<exists>w'. collect_bounded_read_chunks grow items limit subject w = (Ok b, w')) \<longleftrightarrow>
   (\<exists>bufs. items = map XOk bufs \<and> buf_bytes b = concat (concat bufs) \<and>
      length (buf_bytes b) \<le> unat limit)"
  by (rule collect_Ok_iff)

text \<open>
  The capacity of the collected output never exceeds the negotiated limit when the allocator
  grants what is asked for, so buffering stays within the memory the caller agreed to.
\<close>

theorem append_capacity_bounded:
  assumes "v_capacity v \<le> unat limit" and "length (v_bytes v) \<le> v_capacity v"
  shows "v_capacity (snd (append_bounded_read_chunk id buffer limit subject v)) \<le> unat limit"
proof (cases "fits v buffer limit")
  case False
  then obtain msg where "append_bounded_read_chunk id buffer limit subject v = (Err (buffer_too_large msg), v)"
    using append_too_large by blast
  with assms show ?thesis by simp
next
  case True
  obtain v1 where bytes: "v_bytes v1 = v_bytes v" and
    step: "append_bounded_read_chunk id buffer limit subject v =
      bind (extend_segments id buffer)
        (\<lambda>_ u. if length (v_bytes u) \<noteq> length (v_bytes v) + length (concat buffer) then (Panic, u)
               else (Ok (), u)) v1"
    and cap: "length (v_bytes v) + length (concat buffer) \<le> v_capacity v1" "v_capacity v1 \<le> unat limit"
    using append_step [OF True, of id subject] assms by blast
  obtain v' where "(extend_segments id buffer :: (vec, CallFailure, unit) comp) v1 = (Ok (), v')"
    and "v_bytes v' = v_bytes v1 @ concat buffer" using extend_segments_bytes by blast
  moreover have "v_capacity (snd ((extend_segments id buffer :: (vec, CallFailure, unit) comp) v1)) =
      v_capacity v1"
    by (rule extend_segments_capacity) (simp add: cap(1) bytes)
  ultimately show ?thesis using cap(2) by (simp add: step bind_def bytes)
qed

lemma append_capacity_bounded_witness:
  "v_capacity (snd (append_bounded_read_chunk id [[1, 2], [3]] 4 ''read result'' vec_new)) \<le> 4"
  using append_capacity_bounded [of vec_new 4 "[[1, 2], [3]]" "''read result''"]
  by (simp add: vec_new_def)

end
