(* ===== verification/Views.thy ===== *)
theory Views
  imports EntryPoint Samples
begin

text \<open>
  Output views and snapshots (\<open>lib.rs\<close>, \<open>prepare_view\<close> to \<open>checked_entry\<close> and
  \<open>metadata_output_view\<close> to \<open>operator_info_free\<close>): the C structs through which the caller reads an
  error, a buffer, metadata, an entry or operator information.

  A view's text fields point into memory owned by the box the view was taken from. Where the
  allocator put it is outside the program: \<open>heap k\<close> is the address of the \<open>k\<close>-th owned byte string
  of the box.
\<close>

section \<open>Snapshots\<close>

definition bytes_view :: "addr \<Rightarrow> u8 list \<Rightarrow> BytesViewV1" where
  \<comment> \<open>\<open>data\<close> is \<open>bytes.as_ptr()\<close>\<close>
  "bytes_view data bytes =
     (if bytes = [] then \<lparr>bv_data = null_ptr, bv_len = 0\<rparr>
      else \<lparr>bv_data = data,
            bv_len = (case u64_try_from (length bytes) of Some n \<Rightarrow> n | None \<Rightarrow> - 1)\<rparr>)"

definition string_view :: "addr \<Rightarrow> string \<Rightarrow> BytesViewV1" where
  "string_view data s = bytes_view data (bytes_of_text s)"

definition optional_string_view :: "addr \<Rightarrow> string option \<Rightarrow> BytesViewV1" where
  "optional_string_view data v =
     (case v of None \<Rightarrow> \<lparr>bv_data = null_ptr, bv_len = 0\<rparr> | Some s \<Rightarrow> string_view data s)"

definition capability_view :: "Capability \<Rightarrow> CapabilityV1" where
  "capability_view capability =
     (let word0 = flag_word
        [(CAP_STAT, cap_stat capability), (CAP_READ, cap_read capability),
         (CAP_WRITE, cap_write capability), (CAP_CREATE_DIR, cap_create_dir capability),
         (CAP_DELETE, cap_delete capability), (CAP_LIST, cap_list capability),
         (CAP_COPY, cap_copy capability), (CAP_RENAME, cap_rename capability),
         (CAP_READ_SUFFIX, cap_read_with_suffix capability),
         (CAP_WRITE_APPEND, cap_write_can_append capability),
         (CAP_LIST_LIMIT, cap_list_with_limit capability),
         (CAP_LIST_START_AFTER, cap_list_with_start_after capability),
         (CAP_LIST_RECURSIVE, cap_list_with_recursive capability),
         (CAP_PRESIGN_STAT, cap_presign_stat capability),
         (CAP_PRESIGN_READ, cap_presign_read capability),
         (CAP_PRESIGN_WRITE, cap_presign_write capability)];
          delete_max_size = (case cap_delete_max_size capability of
             None \<Rightarrow> 0
           | Some n \<Rightarrow> (case u64_try_from n of Some v \<Rightarrow> v | None \<Rightarrow> - 1))
      in \<lparr>cv_words = [word0, delete_max_size, 0, 0]\<rparr>)"

definition check_output_string :: "string option \<Rightarrow> unit CallResult" where
  "check_output_string value =
     (case value of
        Some s \<Rightarrow> if exceeds_output_limit (length s)
                  then Inl (buffer_too_large ''metadata string exceeds the binding output limit'')
                  else Inr ()
      | None \<Rightarrow> Inr ())"

definition checked_metadata :: "Metadata \<Rightarrow> MetadataV1 CallResult" where
  "checked_metadata metadata =
     res_bind (check_output_string (md_cache_control metadata)) (\<lambda>_.
     res_bind (check_output_string (md_content_disposition metadata)) (\<lambda>_.
     res_bind (check_output_string (md_content_encoding metadata)) (\<lambda>_.
     res_bind (check_output_string (md_content_md5 metadata)) (\<lambda>_.
     res_bind (check_output_string (md_content_type metadata)) (\<lambda>_.
     res_bind (check_output_string (md_etag metadata)) (\<lambda>_.
     res_bind (check_output_string (md_version metadata)) (\<lambda>_.
       Inr \<lparr>mdv_metadata = metadata\<rparr>)))))))"

text \<open>An \<open>opendal::Entry\<close>, by its accessors \<open>name\<close> and \<open>into_parts\<close>.\<close>

record opendal_Entry =
  oen_name :: string
  oen_path :: string
  oen_metadata :: Metadata

definition checked_entry :: "opendal_Entry \<Rightarrow> EntryV1 CallResult" where
  "checked_entry entry =
     (let name = oen_name entry; path = oen_path entry; metadata = oen_metadata entry in
      if exceeds_output_limit (length path)
      then Inl (buffer_too_large ''entry path exceeds the binding output limit'')
      else if exceeds_output_limit (length name)
      then Inl (buffer_too_large ''entry name exceeds the binding output limit'')
      else res_bind (checked_metadata metadata) (\<lambda>md.
        Inr \<lparr>ent_path = path, ent_name = name, ent_metadata = mdv_metadata md\<rparr>))"

definition u32_try_from_i32 :: "int \<Rightarrow> u32 option" where
  "u32_try_from_i32 n = (if 0 \<le> n then Some (word_of_int n) else None)"

fun entry_mode_code :: "EntryMode \<Rightarrow> u32" where
  "entry_mode_code FILE = ENTRY_MODE_FILE"
| "entry_mode_code DIR = ENTRY_MODE_DIRECTORY"
| "entry_mode_code UnknownMode = ENTRY_MODE_UNKNOWN"

definition metadata_output_view ::
  "(nat \<Rightarrow> addr) \<Rightarrow> Metadata \<Rightarrow> StructHeaderV1 \<Rightarrow> MetadataViewV1 CallResult" where
  "metadata_output_view heap metadata header =
     res_bind
       (case md_last_modified metadata of
          Some (seconds, subsec) \<Rightarrow>
            (case u32_try_from_i32 subsec of
               Some nanoseconds \<Rightarrow>
                 Inr \<lparr>ts_unix_seconds = seconds, ts_nanoseconds = nanoseconds, ts_reserved0 = 0\<rparr>
             | None \<Rightarrow> abi_mismatch)
        | None \<Rightarrow> Inr \<lparr>ts_unix_seconds = 0, ts_nanoseconds = 0, ts_reserved0 = 0\<rparr>)
     (\<lambda>last_modified.
       Inr \<lparr>mv_struct_size = hdr_struct_size header,
            mv_struct_version = hdr_struct_version header,
            mv_present_bits = flag_word
              [(METADATA_IS_CURRENT_PRESENT, md_is_current metadata \<noteq> None),
               (METADATA_LAST_MODIFIED_PRESENT, md_last_modified metadata \<noteq> None),
               (METADATA_CACHE_CONTROL_PRESENT, md_cache_control metadata \<noteq> None),
               (METADATA_CONTENT_DISPOSITION_PRESENT, md_content_disposition metadata \<noteq> None),
               (METADATA_CONTENT_ENCODING_PRESENT, md_content_encoding metadata \<noteq> None),
               (METADATA_CONTENT_MD5_PRESENT, md_content_md5 metadata \<noteq> None),
               (METADATA_CONTENT_TYPE_PRESENT, md_content_type metadata \<noteq> None),
               (METADATA_ETAG_PRESENT, md_etag metadata \<noteq> None),
               (METADATA_VERSION_PRESENT, md_version metadata \<noteq> None)],
            mv_mode = entry_mode_code (md_mode metadata),
            mv_is_current = (case md_is_current metadata of Some b \<Rightarrow> of_bool b | None \<Rightarrow> 0),
            mv_is_deleted = of_bool (md_is_deleted metadata),
            mv_reserved0 = 0,
            mv_content_length = md_content_length metadata,
            mv_last_modified = last_modified,
            mv_cache_control = optional_string_view (heap 0) (md_cache_control metadata),
            mv_content_disposition = optional_string_view (heap 1) (md_content_disposition metadata),
            mv_content_encoding = optional_string_view (heap 2) (md_content_encoding metadata),
            mv_content_md5 = optional_string_view (heap 3) (md_content_md5 metadata),
            mv_content_type = optional_string_view (heap 4) (md_content_type metadata),
            mv_etag = optional_string_view (heap 5) (md_etag metadata),
            mv_version = optional_string_view (heap 6) (md_version metadata)\<rparr>)"

section \<open>Writing a view\<close>

text \<open>What \<open>prepare_view\<close> needs to know of the type of a view.\<close>

record 'v view_type =
  vt_get :: "outputs \<Rightarrow> addr \<Rightarrow> 'v"
  vt_put :: "(addr \<Rightarrow> 'v) \<Rightarrow> outputs \<Rightarrow> outputs"
  vt_header :: "'v \<Rightarrow> StructHeaderV1"
  vt_zeroed :: "StructHeaderV1 \<Rightarrow> 'v"
  vt_size :: usize

definition write_view :: "'v view_type \<Rightarrow> addr \<Rightarrow> 'v \<Rightarrow> ('x, unit) M" where
  "write_view vt output v w =
     (Ok (), w\<lparr>out := vt_put vt ((vt_get vt (out w))(output := v)) (out w)\<rparr>)"

definition prepare_view :: "'v view_type \<Rightarrow> addr \<Rightarrow> ('x, StructHeaderV1) M" where
  "prepare_view vt output w =
     (if output = null_ptr \<or> \<not> is_aligned 8 output then (Err AbiMismatch, w)
      else
        let header = vt_header vt (vt_get vt (out w) output) in
        if hdr_struct_version header \<noteq> STRUCT_VERSION
           \<or> unat (hdr_struct_size header) < vt_size vt
        then (Err AbiMismatch, w)
        else bind (write_view vt output (vt_zeroed vt header)) (\<lambda>_. ret header) w)"

text \<open>
  The text all view functions share: prepare the output, compute the view, write it; any failure
  ends in \<open>finish_failure\<close> without an error slot.
\<close>

definition view_call ::
  "'v view_type \<Rightarrow> addr \<Rightarrow> (StructHeaderV1 \<Rightarrow> ('x, 'v) M) \<Rightarrow> ('x, u32) M" where
  "view_call vt output compute =
     bind (closure (prepare_view vt output)) (\<lambda>result.
       case result of
         Inl failure \<Rightarrow> finish_failure failure null_ptr
       | Inr header \<Rightarrow> deliver (compute header) (write_view vt output) null_ptr)"

definition empty_view :: BytesViewV1 where
  "empty_view = \<lparr>bv_data = null_ptr, bv_len = 0\<rparr>"

definition library_info_type :: "LibraryInfoViewV1 view_type" where
  "library_info_type =
     \<lparr>vt_get = o_library_view, vt_put = (\<lambda>f os. os\<lparr>o_library_view := f\<rparr>),
      vt_header = (\<lambda>v. \<lparr>hdr_struct_size = lv_struct_size v,
                         hdr_struct_version = lv_struct_version v\<rparr>),
      vt_zeroed = (\<lambda>h. \<lparr>lv_struct_size = hdr_struct_size h,
                         lv_struct_version = hdr_struct_version h, lv_reserved0 = 0,
                         lv_binding_version = empty_view, lv_opendal_version = empty_view,
                         lv_service_profile = empty_view\<rparr>),
      vt_size = size_of_LibraryInfoViewV1\<rparr>"

definition error_view_type :: "ErrorViewV1 view_type" where
  "error_view_type =
     \<lparr>vt_get = o_error_view, vt_put = (\<lambda>f os. os\<lparr>o_error_view := f\<rparr>),
      vt_header = (\<lambda>v. \<lparr>hdr_struct_size = erv_struct_size v,
                         hdr_struct_version = erv_struct_version v\<rparr>),
      vt_zeroed = (\<lambda>h. \<lparr>erv_struct_size = hdr_struct_size h,
                         erv_struct_version = hdr_struct_version h, erv_kind = 0, erv_status = 0,
                         erv_kind_name = empty_view, erv_message = empty_view\<rparr>),
      vt_size = size_of_ErrorViewV1\<rparr>"

definition metadata_view_type :: "MetadataViewV1 view_type" where
  "metadata_view_type =
     \<lparr>vt_get = o_metadata_view, vt_put = (\<lambda>f os. os\<lparr>o_metadata_view := f\<rparr>),
      vt_header = (\<lambda>v. \<lparr>hdr_struct_size = mv_struct_size v,
                         hdr_struct_version = mv_struct_version v\<rparr>),
      vt_zeroed = (\<lambda>h. \<lparr>mv_struct_size = hdr_struct_size h,
                         mv_struct_version = hdr_struct_version h, mv_present_bits = 0,
                         mv_mode = 0, mv_is_current = 0, mv_is_deleted = 0, mv_reserved0 = 0,
                         mv_content_length = 0,
                         mv_last_modified =
                           \<lparr>ts_unix_seconds = 0, ts_nanoseconds = 0, ts_reserved0 = 0\<rparr>,
                         mv_cache_control = empty_view, mv_content_disposition = empty_view,
                         mv_content_encoding = empty_view, mv_content_md5 = empty_view,
                         mv_content_type = empty_view, mv_etag = empty_view,
                         mv_version = empty_view\<rparr>),
      vt_size = size_of_MetadataViewV1\<rparr>"

definition entry_view_type :: "EntryViewV1 view_type" where
  "entry_view_type =
     \<lparr>vt_get = o_entry_view, vt_put = (\<lambda>f os. os\<lparr>o_entry_view := f\<rparr>),
      vt_header = (\<lambda>v. \<lparr>hdr_struct_size = ev_struct_size v,
                         hdr_struct_version = ev_struct_version v\<rparr>),
      vt_zeroed = (\<lambda>h. \<lparr>ev_struct_size = hdr_struct_size h,
                         ev_struct_version = hdr_struct_version h, ev_reserved0 = 0,
                         ev_path = empty_view, ev_name = empty_view\<rparr>),
      vt_size = size_of_EntryViewV1\<rparr>"

definition operator_info_view_type :: "OperatorInfoViewV1 view_type" where
  "operator_info_view_type =
     \<lparr>vt_get = o_info_view, vt_put = (\<lambda>f os. os\<lparr>o_info_view := f\<rparr>),
      vt_header = (\<lambda>v. \<lparr>hdr_struct_size = iv_struct_size v,
                         hdr_struct_version = iv_struct_version v\<rparr>),
      vt_zeroed = (\<lambda>h. \<lparr>iv_struct_size = hdr_struct_size h,
                         iv_struct_version = hdr_struct_version h, iv_reserved0 = 0,
                         iv_scheme = empty_view, iv_root = empty_view, iv_name = empty_view,
                         iv_capability = \<lparr>cv_words = [0, 0, 0, 0]\<rparr>\<rparr>),
      vt_size = size_of_OperatorInfoViewV1\<rparr>"

section \<open>Entry points\<close>

definition library_info ::
  "(nat \<Rightarrow> addr) \<Rightarrow> string \<Rightarrow> string \<Rightarrow> string \<Rightarrow> addr \<Rightarrow> 'x world \<Rightarrow> exit \<times> 'x world" where
  \<comment> \<open>the three version strings are compile-time constants of the build\<close>
  "library_info heap binding_version opendal_version service_profile output =
     catch_status (view_call library_info_type output (\<lambda>header.
       ret \<lparr>lv_struct_size = hdr_struct_size header, lv_struct_version = hdr_struct_version header,
            lv_reserved0 = 0, lv_binding_version = string_view (heap 0) binding_version,
            lv_opendal_version = string_view (heap 1) opendal_version,
            lv_service_profile = string_view (heap 2) service_profile\<rparr>))"

definition error_view :: "(addr \<Rightarrow> nat \<Rightarrow> addr) \<Rightarrow> addr \<Rightarrow> addr \<Rightarrow> 'x world \<Rightarrow> exit \<times> 'x world" where
  "error_view heap error output =
     catch_status (view_call error_view_type output (\<lambda>header.
       bind (borrow_required as_error error) (\<lambda>e.
         ret \<lparr>erv_struct_size = hdr_struct_size header,
              erv_struct_version = hdr_struct_version header,
              erv_kind = err_kind e, erv_status = err_status e,
              erv_kind_name = string_view (heap error 0) (err_kind_name e),
              erv_message = string_view (heap error 1) (err_message e)\<rparr>)))"

definition error_free :: "addr \<Rightarrow> ('x, unit) M" where
  "error_free = free_box as_error"

definition buffer_len :: "addr \<Rightarrow> addr \<Rightarrow> 'x world \<Rightarrow> exit \<times> 'x world" where
  "buffer_len buffer output =
     catch_status (with_outputs [clear_u64_output output] null_ptr
       (bind (closure (borrow_required as_buffer buffer)) (\<lambda>result.
          case result of
            Inl failure \<Rightarrow> finish_failure failure null_ptr
          | Inr b \<Rightarrow>
              (case u64_try_from (length (buf_bytes b)) of
                 None \<Rightarrow> ret STATUS_ABI_MISMATCH
               | Some length_word \<Rightarrow> bind (write_u64 output length_word) (\<lambda>_. ret STATUS_OK)))))"

definition write_bytes :: "addr \<Rightarrow> u8 list \<Rightarrow> ('x, unit) M" where
  "write_bytes destination bytes w =
     (Ok (), w\<lparr>out := (out w)\<lparr>o_u8 :=
        (\<lambda>a. if destination \<le> a \<and> a < destination + length bytes
             then bytes ! (a - destination) else o_u8 (out w) a)\<rparr>\<rparr>)"

definition buffer_copy ::
  "addr \<Rightarrow> addr \<Rightarrow> u64 \<Rightarrow> addr \<Rightarrow> 'x world \<Rightarrow> exit \<times> 'x world" where
  "buffer_copy buffer destination capacity out_required =
     catch_status (with_outputs [clear_u64_output out_required] null_ptr
       (bind (closure (borrow_required as_buffer buffer)) (\<lambda>result.
          case result of
            Inl failure \<Rightarrow> finish_failure failure null_ptr
          | Inr b \<Rightarrow>
              (case u64_try_from (length (buf_bytes b)) of
                 None \<Rightarrow> ret STATUS_ABI_MISMATCH
               | Some required \<Rightarrow>
                   if destination = null_ptr then
                     (if capacity \<noteq> 0 then ret STATUS_ABI_MISMATCH
                      else bind (write_u64 out_required required) (\<lambda>_.
                        ret (if required = 0 then STATUS_OK else STATUS_BUFFER_TOO_SMALL)))
                   else
                     (case checked_len capacity of
                        Inl _ \<Rightarrow> ret STATUS_ABI_MISMATCH
                      | Inr capacity_usize \<Rightarrow>
                          if checked_add_usize destination capacity_usize = None
                          then ret STATUS_ABI_MISMATCH
                          else if capacity < required
                          then bind (write_u64 out_required required) (\<lambda>_.
                                 ret STATUS_BUFFER_TOO_SMALL)
                          else
                            bind (write_u64 out_required required) (\<lambda>_.
                            bind (if buf_bytes b \<noteq> [] then write_bytes destination (buf_bytes b)
                                  else ret ()) (\<lambda>_.
                              ret STATUS_OK)))))))"

definition buffer_free :: "addr \<Rightarrow> ('x, unit) M" where
  "buffer_free = free_box as_buffer"

definition metadata_view ::
  "(addr \<Rightarrow> nat \<Rightarrow> addr) \<Rightarrow> addr \<Rightarrow> addr \<Rightarrow> 'x world \<Rightarrow> exit \<times> 'x world" where
  "metadata_view heap metadata output =
     catch_status (view_call metadata_view_type output (\<lambda>header.
       bind (borrow_required as_metadata metadata) (\<lambda>m.
         lift_res (metadata_output_view (heap metadata) (mdv_metadata m) header))))"

definition metadata_free :: "addr \<Rightarrow> ('x, unit) M" where
  "metadata_free = free_box as_metadata"

definition entry_view ::
  "(addr \<Rightarrow> nat \<Rightarrow> addr) \<Rightarrow> addr \<Rightarrow> addr \<Rightarrow> 'x world \<Rightarrow> exit \<times> 'x world" where
  "entry_view heap entry output =
     catch_status (view_call entry_view_type output (\<lambda>header.
       bind (borrow_required as_entry entry) (\<lambda>e.
         ret \<lparr>ev_struct_size = hdr_struct_size header,
              ev_struct_version = hdr_struct_version header, ev_reserved0 = 0,
              ev_path = string_view (heap entry 7) (ent_path e),
              ev_name = string_view (heap entry 8) (ent_name e)\<rparr>)))"

definition entry_metadata_view ::
  "(addr \<Rightarrow> nat \<Rightarrow> addr) \<Rightarrow> addr \<Rightarrow> addr \<Rightarrow> 'x world \<Rightarrow> exit \<times> 'x world" where
  "entry_metadata_view heap entry output =
     catch_status (view_call metadata_view_type output (\<lambda>header.
       bind (borrow_required as_entry entry) (\<lambda>e.
         lift_res (metadata_output_view (heap entry) (ent_metadata e) header))))"

definition entry_free :: "addr \<Rightarrow> ('x, unit) M" where
  "entry_free = free_box as_entry"

definition operator_info_view ::
  "(addr \<Rightarrow> nat \<Rightarrow> addr) \<Rightarrow> addr \<Rightarrow> addr \<Rightarrow> 'x world \<Rightarrow> exit \<times> 'x world" where
  "operator_info_view heap info output =
     catch_status (view_call operator_info_view_type output (\<lambda>header.
       bind (borrow_required as_info info) (\<lambda>i.
         ret \<lparr>iv_struct_size = hdr_struct_size header,
              iv_struct_version = hdr_struct_version header, iv_reserved0 = 0,
              iv_scheme = string_view (heap info 0) (inf_scheme i),
              iv_root = string_view (heap info 1) (inf_root i),
              iv_name = string_view (heap info 2) (inf_name i),
              iv_capability = inf_capability i\<rparr>)))"

definition operator_info_free :: "addr \<Rightarrow> ('x, unit) M" where
  "operator_info_free = free_box as_info"

section \<open>The contract of a view\<close>

definition view_ready :: "'v view_type \<Rightarrow> addr \<Rightarrow> 'x world \<Rightarrow> bool" where
  "view_ready vt output w \<longleftrightarrow>
     output \<noteq> 0 \<and> 8 dvd output \<and>
     hdr_struct_version (vt_header vt (vt_get vt (out w) output)) = STRUCT_VERSION \<and>
     vt_size vt \<le> unat (hdr_struct_size (vt_header vt (vt_get vt (out w) output)))"

definition set_view :: "'v view_type \<Rightarrow> addr \<Rightarrow> 'v \<Rightarrow> 'x world \<Rightarrow> 'x world" where
  "set_view vt output v w = w\<lparr>out := vt_put vt ((vt_get vt (out w))(output := v)) (out w)\<rparr>"

lemma set_view_frame [simp]:
  "boxes (set_view vt output v w) = boxes w" "inp (set_view vt output v w) = inp w"
  "next_box (set_view vt output v w) = next_box w" "ext (set_view vt output v w) = ext w"
  by (simp_all add: set_view_def)

text \<open>
  A view call writes the whole view on success, a zeroed view with the caller's header when the
  handle is unusable, and nothing at all when the output itself is not acceptable.
\<close>

locale view_layout =
  fixes vt :: "'v view_type"
  assumes get_put: "vt_get vt (vt_put vt f os) = f"
    and put_put: "vt_put vt f (vt_put vt g os) = vt_put vt f os"
begin

lemma prepare_ready:
  assumes "view_ready vt output w"
  shows "prepare_view vt output w =
    (Ok (vt_header vt (vt_get vt (out w) output)),
     set_view vt output (vt_zeroed vt (vt_header vt (vt_get vt (out w) output))) w)"
  using assms
  by (simp add: view_ready_def prepare_view_def null_ptr_def is_aligned_def mod_eq_0_iff_dvd
      Let_def bind_def write_view_def run_simps set_view_def)

lemma prepare_not_ready:
  assumes "\<not> view_ready vt output w"
  shows "prepare_view vt output w = (Err AbiMismatch, w)"
  using assms
  by (auto simp: view_ready_def prepare_view_def null_ptr_def is_aligned_def mod_eq_0_iff_dvd
      Let_def)

lemma view_success:
  assumes "view_ready vt output w"
    and "\<And>w'. boxes w' = boxes w \<Longrightarrow>
           compute (vt_header vt (vt_get vt (out w) output)) w' = (Ok v, w')"
  shows "catch_status (view_call vt output compute) w = (Returned STATUS_OK, set_view vt output v w)"
proof -
  let ?h = "vt_header vt (vt_get vt (out w) output)"
  let ?w1 = "set_view vt output (vt_zeroed vt ?h) w"
  have c: "compute ?h ?w1 = (Ok v, ?w1)" using assms(2) by simp
  have "(vt_get vt (out ?w1))(output := v) = (vt_get vt (out w))(output := v)"
    by (simp add: set_view_def get_put)
  then have "set_view vt output v ?w1 = set_view vt output v w"
    by (simp add: set_view_def put_put get_put)
  with c prepare_ready [OF assms(1)] show ?thesis
    by (simp add: catch_status_def view_call_def bind_def closure_def run_deliver write_view_def
        run_simps flip: set_view_def)
qed

lemma view_bad_handle:
  assumes "view_ready vt output w"
    and "\<And>w'. boxes w' = boxes w \<Longrightarrow>
           compute (vt_header vt (vt_get vt (out w) output)) w' = (Err AbiMismatch, w')"
  shows "catch_status (view_call vt output compute) w =
    (Returned STATUS_ABI_MISMATCH,
     set_view vt output (vt_zeroed vt (vt_header vt (vt_get vt (out w) output))) w)"
  using prepare_ready [OF assms(1)] assms(2)
  by (simp add: catch_status_def view_call_def bind_def closure_def run_deliver run_finish_failure)

lemma view_bad_output:
  assumes "\<not> view_ready vt output w"
  shows "catch_status (view_call vt output compute) w = (Returned STATUS_ABI_MISMATCH, w)"
  using prepare_not_ready [OF assms]
  by (simp add: catch_status_def view_call_def bind_def closure_def run_finish_failure)

end

interpretation library_views: view_layout library_info_type
  by unfold_locales (simp_all add: library_info_type_def)

interpretation error_views: view_layout error_view_type
  by unfold_locales (simp_all add: error_view_type_def)

interpretation metadata_views: view_layout metadata_view_type
  by unfold_locales (simp_all add: metadata_view_type_def)

interpretation entry_views: view_layout entry_view_type
  by unfold_locales (simp_all add: entry_view_type_def)

interpretation info_views: view_layout operator_info_view_type
  by unfold_locales (simp_all add: operator_info_view_type_def)

section \<open>Capabilities\<close>

definition capability_flag :: "Capability \<Rightarrow> nat \<Rightarrow> bool" where
  "capability_flag c k =
     [cap_stat c, cap_read c, cap_write c, cap_create_dir c, cap_delete c, cap_list c, cap_copy c,
      cap_rename c, cap_read_with_suffix c, cap_write_can_append c, cap_list_with_limit c,
      cap_list_with_start_after c, cap_list_with_recursive c, cap_presign_stat c,
      cap_presign_read c, cap_presign_write c] ! k"

interpretation capability_bits: flag_layout "[0..<16]" capability_flag
  by unfold_locales auto

lemma capability_word0:
  "cv_words (capability_view c) ! 0 =
     flag_word (map (\<lambda>k. (push_bit k 1, capability_flag c k)) [0..<16])"
  by (simp add: capability_view_def capability_flag_def upt_rec)

section \<open>Metadata\<close>

definition metadata_flag :: "Metadata \<Rightarrow> nat \<Rightarrow> bool" where
  "metadata_flag m k =
     [md_is_current m \<noteq> None, md_last_modified m \<noteq> None, md_cache_control m \<noteq> None,
      md_content_disposition m \<noteq> None, md_content_encoding m \<noteq> None, md_content_md5 m \<noteq> None,
      md_content_type m \<noteq> None, md_etag m \<noteq> None, md_version m \<noteq> None] ! k"

interpretation metadata_bits: flag_layout "[0..<9]" metadata_flag
  by unfold_locales auto

lemma metadata_present_bits:
  assumes "metadata_output_view heap m header = Inr v"
  shows "mv_present_bits v = flag_word (map (\<lambda>k. (push_bit k 1, metadata_flag m k)) [0..<9])"
  using assms
  by (auto simp: metadata_output_view_def res_bind_eq_Inr metadata_flag_def upt_rec)

lemma metadata_bit:
  assumes "metadata_output_view heap m header = Inr v" and "k < 9"
  shows "(mv_present_bits v AND push_bit k 1 \<noteq> 0) = metadata_flag m k"
  using metadata_bits.flag_iff [of k m] assms(2)
  unfolding metadata_present_bits [OF assms(1)] and_push_bit_eq_0_iff by simp

text \<open>How a caller reads a view back.\<close>

definition view_text :: "(addr \<Rightarrow> u8) \<Rightarrow> BytesViewV1 \<Rightarrow> string" where
  "view_text mem v = text_of_bytes (map (\<lambda>i. mem (bv_data v + i)) [0..<unat (bv_len v)])"

definition decode_text :: "(addr \<Rightarrow> u8) \<Rightarrow> u64 \<Rightarrow> u64 \<Rightarrow> BytesViewV1 \<Rightarrow> string option" where
  "decode_text mem bits flag v = (if bits AND flag \<noteq> 0 then Some (view_text mem v) else None)"

definition decode_mode :: "u32 \<Rightarrow> EntryMode" where
  "decode_mode n = (if n = ENTRY_MODE_FILE then FILE
                    else if n = ENTRY_MODE_DIRECTORY then DIR else UnknownMode)"

definition decode_metadata :: "(addr \<Rightarrow> u8) \<Rightarrow> MetadataViewV1 \<Rightarrow> Metadata" where
  "decode_metadata mem v =
     (let bits = mv_present_bits v; text = decode_text mem bits in
      \<lparr>md_mode = decode_mode (mv_mode v),
       md_is_current = (if bits AND METADATA_IS_CURRENT_PRESENT \<noteq> 0
                        then Some (mv_is_current v \<noteq> 0) else None),
       md_is_deleted = (mv_is_deleted v \<noteq> 0),
       md_content_length = mv_content_length v,
       md_last_modified = (if bits AND METADATA_LAST_MODIFIED_PRESENT \<noteq> 0
                           then Some (ts_unix_seconds (mv_last_modified v),
                                      uint (ts_nanoseconds (mv_last_modified v))) else None),
       md_cache_control = text METADATA_CACHE_CONTROL_PRESENT (mv_cache_control v),
       md_content_disposition = text METADATA_CONTENT_DISPOSITION_PRESENT (mv_content_disposition v),
       md_content_encoding = text METADATA_CONTENT_ENCODING_PRESENT (mv_content_encoding v),
       md_content_md5 = text METADATA_CONTENT_MD5_PRESENT (mv_content_md5 v),
       md_content_type = text METADATA_CONTENT_TYPE_PRESENT (mv_content_type v),
       md_etag = text METADATA_ETAG_PRESENT (mv_etag v),
       md_version = text METADATA_VERSION_PRESENT (mv_version v)\<rparr>)"

text \<open>The memory at \<open>a\<close> holds the bytes of the owned string.\<close>

definition owned_at :: "(addr \<Rightarrow> u8) \<Rightarrow> addr \<Rightarrow> string option \<Rightarrow> bool" where
  "owned_at mem a x \<longleftrightarrow>
     (case x of None \<Rightarrow> True
      | Some s \<Rightarrow> (\<forall>i < length s. mem (a + i) = bytes_of_text s ! i))"

lemma view_text_string_view:
  assumes "owned_at mem a (Some s)" and "length s \<le> u64_max"
  shows "view_text mem (string_view a s) = s"
proof (cases "s = []")
  case True
  then show ?thesis
    by (simp add: view_text_def string_view_def bytes_view_def bytes_of_text_def text_of_bytes_def)
next
  case False
  have "map (\<lambda>i. mem (a + i)) [0..<length s] = bytes_of_text s"
    using assms(1) by (intro nth_equalityI) (simp_all add: owned_at_def)
  moreover have "bytes_of_text s \<noteq> []" using False by (simp add: bytes_of_text_def)
  moreover have "string_view a s = \<lparr>bv_data = a, bv_len = word_of_nat (length s)\<rparr>"
    using calculation(2) assms(2) by (simp add: string_view_def bytes_view_def u64_try_from_def)
  ultimately show ?thesis
    by (simp add: view_text_def unat_u64_of_nat [OF assms(2)])
qed

lemma decode_text_optional:
  assumes "owned_at mem a x" and "check_output_string x = Inr u"
    and "(bits AND flag \<noteq> 0) = (x \<noteq> None)"
  shows "decode_text mem bits flag (optional_string_view a x) = x"
proof (cases x)
  case None
  then show ?thesis using assms by (simp add: decode_text_def)
next
  case (Some s)
  then have "length s \<le> u64_max"
    using assms(2)
    by (simp add: check_output_string_def exceeds_output_limit_iff u64_max_def split: if_splits)
  then show ?thesis
    using assms Some by (simp add: decode_text_def optional_string_view_def view_text_string_view)
qed

lemma metadata_output_view_Inr:
  "(\<exists>v. metadata_output_view heap m header = Inr v) \<longleftrightarrow>
     (\<forall>s n. md_last_modified m = Some (s, n) \<longrightarrow> 0 \<le> n)"
  by (cases "md_last_modified m")
    (auto simp: metadata_output_view_def res_bind_eq_Inr u32_try_from_i32_def abi_mismatch_def
      split: if_splits)

lemma checked_metadata_Inr:
  "checked_metadata m = Inr mv \<longleftrightarrow>
     mv = \<lparr>mdv_metadata = m\<rparr> \<and>
     (\<forall>x \<in> {md_cache_control m, md_content_disposition m, md_content_encoding m,
             md_content_md5 m, md_content_type m, md_etag m, md_version m}.
        check_output_string x = Inr ())"
  by (auto simp: checked_metadata_def res_bind_eq_Inr)

definition metadata_owned :: "(addr \<Rightarrow> u8) \<Rightarrow> (nat \<Rightarrow> addr) \<Rightarrow> Metadata \<Rightarrow> bool" where
  "metadata_owned mem heap m \<longleftrightarrow>
     owned_at mem (heap 0) (md_cache_control m) \<and> owned_at mem (heap 1) (md_content_disposition m) \<and>
     owned_at mem (heap 2) (md_content_encoding m) \<and> owned_at mem (heap 3) (md_content_md5 m) \<and>
     owned_at mem (heap 4) (md_content_type m) \<and> owned_at mem (heap 5) (md_etag m) \<and>
     owned_at mem (heap 6) (md_version m)"

definition subsec_i32 :: "Metadata \<Rightarrow> bool" where
  \<comment> \<open>the sub-second part is what \<open>subsec_nanosecond\<close> returns: an \<open>i32\<close>, negative before the epoch\<close>
  "subsec_i32 m \<longleftrightarrow>
     (case md_last_modified m of None \<Rightarrow> True | Some (s, n) \<Rightarrow> - (2 ^ 31) \<le> n \<and> n < 2 ^ 31)"

definition negative_subsec :: "Metadata \<Rightarrow> bool" where
  "negative_subsec m \<longleftrightarrow> (case md_last_modified m of None \<Rightarrow> False | Some (s, n) \<Rightarrow> n < 0)"

lemma metadata_output_view_negative:
  "negative_subsec m \<Longrightarrow> metadata_output_view heap m header = Inl AbiMismatch"
  by (auto simp: negative_subsec_def metadata_output_view_def u32_try_from_i32_def abi_mismatch_def
      res_bind_def split: option.splits)

lemma decode_mode_code [simp]: "decode_mode (entry_mode_code k) = k"
  by (cases k) (simp_all add: decode_mode_def)

lemma decode_metadata_fields:
  assumes v: "metadata_output_view heap m header = Inr v" and chk: "checked_metadata m = Inr mv"
    and own: "metadata_owned mem heap m"
  shows "md_cache_control (decode_metadata mem v) = md_cache_control m"
    and "md_content_disposition (decode_metadata mem v) = md_content_disposition m"
    and "md_content_encoding (decode_metadata mem v) = md_content_encoding m"
    and "md_content_md5 (decode_metadata mem v) = md_content_md5 m"
    and "md_content_type (decode_metadata mem v) = md_content_type m"
    and "md_etag (decode_metadata mem v) = md_etag m"
    and "md_version (decode_metadata mem v) = md_version m"
proof -
  note bit = metadata_bit [OF v]
  have fields: "mv_cache_control v = optional_string_view (heap 0) (md_cache_control m)"
    "mv_content_disposition v = optional_string_view (heap 1) (md_content_disposition m)"
    "mv_content_encoding v = optional_string_view (heap 2) (md_content_encoding m)"
    "mv_content_md5 v = optional_string_view (heap 3) (md_content_md5 m)"
    "mv_content_type v = optional_string_view (heap 4) (md_content_type m)"
    "mv_etag v = optional_string_view (heap 5) (md_etag m)"
    "mv_version v = optional_string_view (heap 6) (md_version m)"
    using v by (auto simp: metadata_output_view_def res_bind_eq_Inr)
  have dec: "decode_text mem (mv_present_bits v) (push_bit k 1) (optional_string_view a x) = x"
    if "k < 9" "metadata_flag m k = (x \<noteq> None)" "owned_at mem a x"
      "x \<in> {md_cache_control m, md_content_disposition m, md_content_encoding m,
             md_content_md5 m, md_content_type m, md_etag m, md_version m}" for k a x
    using that chk bit [OF that(1)] by (intro decode_text_optional) (auto simp: checked_metadata_Inr)
  show "md_cache_control (decode_metadata mem v) = md_cache_control m"
    using own dec [of 2 "md_cache_control m" "heap 0"]
    unfolding decode_metadata_def Let_def fields by (simp add: metadata_flag_def metadata_owned_def)
  show "md_content_disposition (decode_metadata mem v) = md_content_disposition m"
    using own dec [of 3 "md_content_disposition m" "heap 1"]
    unfolding decode_metadata_def Let_def fields by (simp add: metadata_flag_def metadata_owned_def)
  show "md_content_encoding (decode_metadata mem v) = md_content_encoding m"
    using own dec [of 4 "md_content_encoding m" "heap 2"]
    unfolding decode_metadata_def Let_def fields by (simp add: metadata_flag_def metadata_owned_def)
  show "md_content_md5 (decode_metadata mem v) = md_content_md5 m"
    using own dec [of 5 "md_content_md5 m" "heap 3"]
    unfolding decode_metadata_def Let_def fields by (simp add: metadata_flag_def metadata_owned_def)
  show "md_content_type (decode_metadata mem v) = md_content_type m"
    using own dec [of 6 "md_content_type m" "heap 4"]
    unfolding decode_metadata_def Let_def fields by (simp add: metadata_flag_def metadata_owned_def)
  show "md_etag (decode_metadata mem v) = md_etag m"
    using own dec [of 7 "md_etag m" "heap 5"]
    unfolding decode_metadata_def Let_def fields by (simp add: metadata_flag_def metadata_owned_def)
  show "md_version (decode_metadata mem v) = md_version m"
    using own dec [of 8 "md_version m" "heap 6"]
    unfolding decode_metadata_def Let_def fields by (simp add: metadata_flag_def metadata_owned_def)
qed

lemma decode_metadata_scalars:
  assumes v: "metadata_output_view heap m header = Inr v" and sub: "subsec_i32 m"
  shows "md_mode (decode_metadata mem v) = md_mode m"
    and "md_is_current (decode_metadata mem v) = md_is_current m"
    and "md_is_deleted (decode_metadata mem v) = md_is_deleted m"
    and "md_content_length (decode_metadata mem v) = md_content_length m"
    and "md_last_modified (decode_metadata mem v) = md_last_modified m"
proof -
  note bit = metadata_bit [OF v]
  show "md_mode (decode_metadata mem v) = md_mode m"
    and "md_is_deleted (decode_metadata mem v) = md_is_deleted m"
    and "md_content_length (decode_metadata mem v) = md_content_length m"
    using v by (auto simp: decode_metadata_def metadata_output_view_def res_bind_eq_Inr Let_def)
  have cur: "mv_is_current v = (case md_is_current m of Some b \<Rightarrow> of_bool b | None \<Rightarrow> 0)"
    using v by (auto simp: metadata_output_view_def res_bind_eq_Inr)
  show "md_is_current (decode_metadata mem v) = md_is_current m"
    using bit [of 0] unfolding decode_metadata_def Let_def cur
    by (cases "md_is_current m") (simp_all add: metadata_flag_def)
  have ts: "0 \<le> n \<and> mv_last_modified v = \<lparr>ts_unix_seconds = s, ts_nanoseconds = word_of_int n,
      ts_reserved0 = 0\<rparr>" if "md_last_modified m = Some (s, n)" for s n
    using v that
    by (auto simp: metadata_output_view_def res_bind_eq_Inr u32_try_from_i32_def abi_mismatch_def
        split: if_splits)
  have nn: "uint (word_of_int n :: u32) = n" if "0 \<le> n" "n < 2 ^ 31" for n
    using that by (simp add: uint_word_of_int take_bit_int_eq_self)
  show "md_last_modified (decode_metadata mem v) = md_last_modified m"
    using bit [of 1] sub nn ts unfolding decode_metadata_def Let_def
    by (cases "md_last_modified m") (auto simp: metadata_flag_def subsec_i32_def)
qed

lemma decode_metadata_output_view:
  assumes "metadata_output_view heap m header = Inr v" and "checked_metadata m = Inr mv"
    and "metadata_owned mem heap m" and "subsec_i32 m"
  shows "decode_metadata mem v = m"
  using decode_metadata_fields [OF assms(1-3)] decode_metadata_scalars [OF assms(1,4)]
  by (intro Metadata.equality) simp_all

lemma metadata_view_live:
  assumes "view_ready metadata_view_type output w" and "boxes w p = Some (OMetadata mv)"
    and "0 < p" and "8 dvd p"
    and "metadata_output_view (heap p) (mdv_metadata mv)
           (vt_header metadata_view_type (o_metadata_view (out w) output)) = Inr v"
  shows "metadata_view heap p output w = (Returned STATUS_OK, set_view metadata_view_type output v w)"
proof -
  have get: "vt_get metadata_view_type = o_metadata_view" by (simp add: metadata_view_type_def)
  show ?thesis
    unfolding metadata_view_def
    by (rule metadata_views.view_success [OF assms(1)])
      (simp add: get bind_def run_borrow_live [where ob = "OMetadata mv"] assms(2-) run_simps)
qed

lemma metadata_view_negative:
  assumes "view_ready metadata_view_type output w" and "boxes w p = Some (OMetadata mv)"
    and "0 < p" and "8 dvd p" and "negative_subsec (mdv_metadata mv)"
  shows "metadata_view heap p output w = (Returned STATUS_ABI_MISMATCH,
    set_view metadata_view_type output (vt_zeroed metadata_view_type
      (vt_header metadata_view_type (o_metadata_view (out w) output))) w)"
proof -
  have get: "vt_get metadata_view_type = o_metadata_view" by (simp add: metadata_view_type_def)
  show ?thesis
    unfolding metadata_view_def get [symmetric]
    by (rule metadata_views.view_bad_handle [OF assms(1)])
      (simp add: bind_def run_borrow_live [where ob = "OMetadata mv"] assms(2-4) run_simps
        metadata_output_view_negative [OF assms(5)])
qed

section \<open>Properties\<close>

text \<open>
  C30. Metadata survives the trip to the caller, unless it was last modified at a fraction of a second
  before the epoch. When a snapshot accepted by \<open>checked_metadata\<close> is viewed through
  \<open>metadata_view\<close> and its sub-second part is not negative, the call succeeds, keeps the caller's
  header, and the caller reads back every field of the snapshot, absent fields and empty strings told
  apart. When the sub-second part is negative, as that of every fractional time before 1970 is, the
  call reports an ABI mismatch although the snapshot was accepted, and the caller is left with a zeroed
  view that says no field is present. Either way no handle changes. The one fact used of a time is
  that its sub-second part is an \<open>i32\<close>.
\<close>

theorem metadata_view_roundtrip:
  assumes "view_ready metadata_view_type output w"
    and "boxes w p = Some (OMetadata mv)" and "0 < p" and "8 dvd p"
    and "checked_metadata m = Inr mv" and "subsec_i32 m"
    and "metadata_owned mem (heap p) m"
  shows "\<exists>w'. boxes w' = boxes w \<and>
    mv_struct_size (o_metadata_view (out w') output) = mv_struct_size (o_metadata_view (out w) output) \<and>
    (if negative_subsec m
     then metadata_view heap p output w = (Returned STATUS_ABI_MISMATCH, w') \<and>
       o_metadata_view (out w') output =
         vt_zeroed metadata_view_type (vt_header metadata_view_type (o_metadata_view (out w) output)) \<and>
       mv_present_bits (o_metadata_view (out w') output) = 0
     else metadata_view heap p output w = (Returned STATUS_OK, w') \<and>
       decode_metadata mem (o_metadata_view (out w') output) = m)"
proof -
  let ?h = "vt_header metadata_view_type (o_metadata_view (out w) output)"
  have m: "mdv_metadata mv = m" using assms(5) by (auto simp: checked_metadata_Inr)
  have get: "o_metadata_view (out (set_view metadata_view_type output v w)) output = v" for v
    by (simp add: set_view_def metadata_view_type_def)
  show ?thesis
  proof (cases "negative_subsec m")
    case True
    then show ?thesis
      using metadata_view_negative [OF assms(1-4), of heap] m
      by (intro exI [of _ "set_view metadata_view_type output (vt_zeroed metadata_view_type ?h) w"])
        (simp add: get, simp add: metadata_view_type_def)
  next
    case False
    then obtain v where v: "metadata_output_view (heap p) m ?h = Inr v"
      using metadata_output_view_Inr [of "heap p" m ?h]
      by (auto simp: negative_subsec_def split: option.splits)
    have "mv_struct_size v = mv_struct_size (o_metadata_view (out w) output)"
      using v by (auto simp: metadata_output_view_def res_bind_eq_Inr metadata_view_type_def)
    with False show ?thesis
      using metadata_view_live [OF assms(1-4), of heap v]
        decode_metadata_output_view [OF v assms(5,7,6)] v
      by (simp add: get m)
  qed
qed

definition sample_metadata :: Metadata where
  "sample_metadata = \<lparr>md_mode = FILE, md_is_current = Some True, md_is_deleted = False,
     md_content_length = 3, md_last_modified = Some (7, 9), md_cache_control = Some [],
     md_content_disposition = None, md_content_encoding = None, md_content_md5 = None,
     md_content_type = None, md_etag = None, md_version = None\<rparr>"

text \<open>Half a second before the epoch.\<close>

definition sample_pre_epoch :: Metadata where
  "sample_pre_epoch = sample_metadata\<lparr>md_last_modified := Some (0, - 500000000)\<rparr>"

lemma metadata_view_roundtrip_witness:
  "(\<exists>w'. metadata_view (\<lambda>p k. p + k) 16 64
          (sample_with (OMetadata \<lparr>mdv_metadata = sample_metadata\<rparr>) ()) = (Returned STATUS_OK, w') \<and>
     decode_metadata (\<lambda>_. 0) (o_metadata_view (out w') 64) = sample_metadata \<and>
     mv_struct_size (o_metadata_view (out w') 64) = 168 \<and>
     boxes w' = [16 \<mapsto> OMetadata \<lparr>mdv_metadata = sample_metadata\<rparr>]) \<and>
   (\<exists>w'. metadata_view (\<lambda>p k. p + k) 16 64
          (sample_with (OMetadata \<lparr>mdv_metadata = sample_pre_epoch\<rparr>) ()) =
            (Returned STATUS_ABI_MISMATCH, w') \<and>
     mv_present_bits (o_metadata_view (out w') 64) = 0)"
proof -
  have ready: "view_ready metadata_view_type 64 (sample_with (OMetadata mv) ())" for mv
    by (simp add: view_ready_def metadata_view_type_def sample_outputs_def sample_metadata_view_def
        size_of_MetadataViewV1_def)
  have "checked_metadata sample_metadata = Inr \<lparr>mdv_metadata = sample_metadata\<rparr>"
    "checked_metadata sample_pre_epoch = Inr \<lparr>mdv_metadata = sample_pre_epoch\<rparr>"
    by (simp_all add: checked_metadata_def check_output_string_def sample_metadata_def sample_pre_epoch_def
        exceeds_output_limit_iff)
  moreover have "subsec_i32 sample_metadata" "subsec_i32 sample_pre_epoch"
    "\<not> negative_subsec sample_metadata" "negative_subsec sample_pre_epoch"
    "metadata_owned (\<lambda>_. 0) ((+) 16) sample_metadata" "metadata_owned (\<lambda>_. 0) ((+) 16) sample_pre_epoch"
    by (simp_all add: subsec_i32_def negative_subsec_def metadata_owned_def owned_at_def
        sample_metadata_def sample_pre_epoch_def)
  ultimately show ?thesis
    using metadata_view_roundtrip [of 64 "sample_with (OMetadata \<lparr>mdv_metadata = sample_metadata\<rparr>) ()" 16
        "\<lparr>mdv_metadata = sample_metadata\<rparr>" sample_metadata "\<lambda>_. 0" "\<lambda>p k. p + k", OF ready]
      metadata_view_roundtrip [of 64 "sample_with (OMetadata \<lparr>mdv_metadata = sample_pre_epoch\<rparr>) ()" 16
        "\<lparr>mdv_metadata = sample_pre_epoch\<rparr>" sample_pre_epoch "\<lambda>_. 0" "\<lambda>p k. p + k", OF ready]
    by (simp add: sample_outputs_def sample_metadata_view_def) blast
qed

text \<open>
  \<open>buffer_copy\<close> is all or nothing. With a live buffer, a valid length slot and a destination
  region that does not wrap around, it reports the buffer's length; when the capacity suffices it
  writes exactly the buffer's bytes at the destination and no other byte, otherwise it returns
  \<open>STATUS_BUFFER_TOO_SMALL\<close> and leaves the destination untouched.
\<close>

theorem buffer_copy_exact:
  assumes "boxes w p = Some (OBuffer b)" and "0 < p" and "8 dvd p"
    and "slot \<noteq> 0" and "8 dvd slot" and "destination \<noteq> 0"
    and "unat capacity \<le> isize_max" and "destination + unat capacity \<le> usize_max"
    and "length (buf_bytes b) \<le> u64_max"
  shows "\<exists>w'. buffer_copy p destination capacity slot w =
      (Returned (if length (buf_bytes b) \<le> unat capacity then STATUS_OK
                 else STATUS_BUFFER_TOO_SMALL), w') \<and>
    unat (o_u64 (out w') slot) = length (buf_bytes b) \<and> boxes w' = boxes w \<and>
    (length (buf_bytes b) \<le> unat capacity \<longrightarrow>
       map (\<lambda>i. o_u8 (out w') (destination + i)) [0..<length (buf_bytes b)] = buf_bytes b) \<and>
    (\<forall>a. (a < destination \<or> destination + unat capacity \<le> a
          \<or> unat capacity < length (buf_bytes b)) \<longrightarrow> o_u8 (out w') a = o_u8 (out w) a)"
proof -
  obtain n where n: "u64_try_from (length (buf_bytes b)) = Some n" "unat n = length (buf_bytes b)"
    using assms(9) by (simp add: u64_try_from_def unat_u64_of_nat)
  have clear: "clear_u64_output slot w = (Ok (Inr ()), w\<lparr>out := (out w)\<lparr>o_u64 := (o_u64 (out w))(slot := 0)\<rparr>\<rparr>)"
    using assms(4,5)
    by (simp add: clear_u64_output_def clear_required_output_def null_ptr_def is_aligned_def
        mod_eq_0_iff_dvd bind_def run_simps)
  have len: "checked_len capacity = Inr (unat capacity)" using assms(7) by (simp add: checked_len_def)
  have add: "checked_add_usize destination (unat capacity) = Some (destination + unat capacity)"
    using assms(8) by (simp add: checked_add_usize_def)
  have cap: "(capacity < n) = (unat capacity < length (buf_bytes b))"
    using n by (simp add: word_less_nat_alt)
  have map_if_nth: "map (\<lambda>i. if i < length xs then xs ! i else f i) [0..<length xs] = xs"
    for xs :: "u8 list" and f by (intro nth_equalityI) simp_all
  have borrow: "borrow_required as_buffer p w1 = (Ok b, w1)" if "boxes w1 = boxes w"
    for w1 :: "'a world"
    using assms(1-3) that by (intro run_borrow_live) auto
  show ?thesis
  proof (cases "length (buf_bytes b) \<le> unat capacity")
    case True
    then show ?thesis
      using n cap assms(6)
      by (simp add: buffer_copy_def catch_status_def with_outputs_def bind_def clear run_simps
          borrow closure_def len add null_ptr_def write_bytes_def map_if_nth cong: if_cong)
  next
    case False
    then show ?thesis
      using n cap assms(6)
      by (simp add: buffer_copy_def catch_status_def with_outputs_def bind_def clear run_simps
          borrow closure_def len add null_ptr_def cong: if_cong)
  qed
qed

lemma buffer_copy_exact_witness:
  "\<exists>w'. buffer_copy 16 1000 8 64 (sample_with (OBuffer \<lparr>buf_bytes = [1, 2, 3]\<rparr>) ()) =
      (Returned STATUS_OK, w') \<and> unat (o_u64 (out w') 64) = 3 \<and>
      map (\<lambda>i. o_u8 (out w') (1000 + i)) [0..<3] = [1, 2, 3]"
  using buffer_copy_exact [of "sample_with (OBuffer \<lparr>buf_bytes = [1, 2, 3]\<rparr>) ()" 16
      "\<lparr>buf_bytes = [1, 2, 3]\<rparr>" 64 1000 8]
  by (auto simp: isize_max_def usize_max_def u64_max_def upt_rec)

text \<open>
  Bit \<open>k\<close> of the first capability word is set exactly when the \<open>k\<close>-th capability holds, and no
  bit beyond the sixteen defined ones is ever set.
\<close>

theorem capability_word_exact:
  "bit (cv_words (capability_view c) ! 0) k \<longleftrightarrow> k < 16 \<and> capability_flag c k"
  using capability_bits.flag_iff [of k c] capability_bits.flag_unused [of k c]
  by (cases "k < 16") (simp_all only: capability_word0 set_upt atLeastLessThan_iff, simp_all)

end
