(* ===== verification/Config.thy ===== *)
theory Config
  imports Options Samples
begin

text \<open>
  The two arrays a caller passes by pointer and length: the key/value configuration of an operator
  (\<open>read_config\<close>) and the paths of a batch delete (\<open>read_text_array\<close>) of \<open>lib.rs\<close>. Both validate
  the array's region first and copy every element.
\<close>

section \<open>Operations\<close>

definition array_bytes :: "usize \<Rightarrow> usize \<Rightarrow> usize CallResult" where
  \<comment> \<open>\<open>length.checked_mul(size).filter(|bytes| *bytes <= isize::MAX).ok_or(AbiMismatch)\<close>\<close>
  "array_bytes n elem_size =
     (case checked_mul_usize n elem_size of
        None \<Rightarrow> abi_mismatch
      | Some bytes \<Rightarrow> if bytes \<le> isize_max then Inr bytes else abi_mismatch)"

definition array_at :: "(addr \<Rightarrow> 'a) \<Rightarrow> usize \<Rightarrow> addr \<Rightarrow> usize \<Rightarrow> 'a list" where
  \<comment> \<open>\<open>slice::from_raw_parts\<close>\<close>
  "array_at mem elem_size p n = map (\<lambda>i. mem (p + elem_size * i)) [0..<n]"

fun read_config_items ::
  "inputs \<Rightarrow> KvV1 list \<Rightarrow> string set \<Rightarrow> (string \<times> string) list CallResult" where
  "read_config_items m [] keys = Inr []"
| "read_config_items m (item # items) keys =
     res_bind (read_text_value m (kv_key item) ''config key'') (\<lambda>key.
       if to_ascii_lowercase key \<in> keys then Inl (invalid_argument ''duplicate config key'')
       else
         res_bind (read_text_value m (kv_value item) ''config value'') (\<lambda>value.
         res_bind (read_config_items m items (insert (to_ascii_lowercase key) keys)) (\<lambda>rest.
           Inr ((key, value) # rest))))"

definition read_config ::
  "inputs \<Rightarrow> addr \<Rightarrow> u64 \<Rightarrow> (string \<times> string) list CallResult" where
  "read_config m config config_len =
     res_bind (checked_len config_len) (\<lambda>n.
     res_bind (array_bytes n size_of_KvV1) (\<lambda>bytes.
       if n = 0 then Inr []
       else if config = null_ptr \<or> \<not> is_aligned 8 config
               \<or> checked_add_usize config bytes = None
       then abi_mismatch
       else read_config_items m (array_at (i_kv m) size_of_KvV1 config n) {}))"

fun check_text_array ::
  "inputs \<Rightarrow> string \<Rightarrow> BytesViewV1 list \<Rightarrow> u64 \<Rightarrow> u64 CallResult" where
  "check_text_array m label [] total_bytes = Inr total_bytes"
| "check_text_array m label (value # values) total_bytes =
     res_bind (borrowed_bytes m value) (\<lambda>bytes.
       case from_utf8 bytes of
         Inl _ \<Rightarrow> Inl (invalid_argument (label @ '' must be valid UTF-8''))
       | Inr _ \<Rightarrow>
           (case checked_add_u64 total_bytes (bv_len value) of
              None \<Rightarrow> Inl (buffer_too_large ''batch delete paths exceed the negotiated byte limit'')
            | Some sum_bytes \<Rightarrow>
                if sum_bytes \<le> MAX_OUTPUT_BYTES then check_text_array m label values sum_bytes
                else Inl (buffer_too_large
                       ''batch delete paths exceed the negotiated byte limit'')))"

fun read_texts :: "inputs \<Rightarrow> string \<Rightarrow> BytesViewV1 list \<Rightarrow> string list CallResult" where
  "read_texts m label [] = Inr []"
| "read_texts m label (value # values) =
     res_bind (read_text_value m value label) (\<lambda>s.
     res_bind (read_texts m label values) (\<lambda>rest. Inr (s # rest)))"

definition read_text_array ::
  "inputs \<Rightarrow> addr \<Rightarrow> u64 \<Rightarrow> string \<Rightarrow> string list CallResult" where
  "read_text_array m values values_len label =
     res_bind (checked_len values_len) (\<lambda>n.
     res_bind (array_bytes n size_of_BytesViewV1) (\<lambda>bytes.
       if n = 0 then Inr []
       else if values = null_ptr \<or> \<not> is_aligned 8 values
               \<or> checked_add_usize values bytes = None
       then abi_mismatch
       else
         (case u64_try_from bytes of
            None \<Rightarrow> abi_mismatch
          | Some total_bytes \<Rightarrow>
              if total_bytes > MAX_OUTPUT_BYTES
              then Inl (buffer_too_large
                     ''batch delete path carriers exceed the negotiated byte limit'')
              else
                let slice = array_at (i_view m) size_of_BytesViewV1 values n in
                res_bind (check_text_array m label slice total_bytes) (\<lambda>_.
                  read_texts m label slice))))"

section \<open>Arrays\<close>

text \<open>The region an array of \<open>n\<close> elements of the given size must occupy.\<close>

definition array_region_ok :: "addr \<Rightarrow> nat \<Rightarrow> nat \<Rightarrow> bool" where
  "array_region_ok p n elem_size \<longleftrightarrow>
     n * elem_size \<le> isize_max \<and> (n \<noteq> 0 \<longrightarrow> p \<noteq> 0 \<and> 8 dvd p \<and> p + n * elem_size \<le> usize_max)"

lemma array_bytes_Inr: "array_bytes n elem_size = Inr b \<longleftrightarrow> n * elem_size \<le> isize_max \<and> b = n * elem_size"
  by (auto simp: array_bytes_def checked_mul_usize_def isize_max_def usize_max_def)

lemma checked_len_Inr: "checked_len len = Inr n \<longleftrightarrow> unat len \<le> isize_max \<and> n = unat len"
  by (auto simp: checked_len_def abi_mismatch_def)

lemma borrowed_bytes_length:
  "borrowed_bytes m view = Inr bs \<Longrightarrow> length bs = unat (bv_len view)"
  by (auto simp: borrowed_bytes_def res_bind_eq_Inr checked_len_Inr split: if_splits)

lemma text_at_length: "text_at m view s \<Longrightarrow> length s = unat (bv_len view)"
  by (auto simp: text_at_def dest: borrowed_bytes_length)

lemma text_at_unique: "text_at m view s \<Longrightarrow> text_at m view t \<Longrightarrow> s = t"
  by (metis text_at_def sum.inject(2) text_of_bytes_of_text)

section \<open>Configuration\<close>

abbreviation lower_keys :: "(string \<times> string) list \<Rightarrow> string list" where
  "lower_keys kvs \<equiv> map (to_ascii_lowercase \<circ> fst) kvs"

definition kv_at :: "inputs \<Rightarrow> KvV1 \<Rightarrow> string \<times> string \<Rightarrow> bool" where
  "kv_at m item kv \<longleftrightarrow> text_at m (kv_key item) (fst kv) \<and> text_at m (kv_value item) (snd kv)"

lemma read_config_items_Inr:
  "read_config_items m items keys = Inr kvs \<longleftrightarrow>
     list_all2 (kv_at m) items kvs \<and> distinct (lower_keys kvs) \<and> set (lower_keys kvs) \<inter> keys = {}"
proof (induction items arbitrary: keys kvs)
  case Nil
  then show ?case by auto
next
  case (Cons item items)
  show ?case
    by (cases kvs) (auto simp: res_bind_eq_Inr read_text_value_Inr Cons.IH kv_at_def image_iff)
qed

section \<open>Batch delete paths\<close>

lemma check_text_array_Inr:
  assumes "unat sum_bytes \<le> 2147483647"
  shows "(\<exists>t. check_text_array m label views sum_bytes = Inr t) \<longleftrightarrow>
    (\<forall>v \<in> set views. \<exists>s. text_at m v s) \<and>
    unat sum_bytes + sum_list (map (unat \<circ> bv_len) views) \<le> 2147483647"
  using assms
proof (induction views arbitrary: sum_bytes)
  case Nil
  then show ?case by simp
next
  case (Cons v views)
  have utf: "(\<exists>s. text_at m v s) \<longleftrightarrow> (\<exists>bs u. borrowed_bytes m v = Inr bs \<and> from_utf8 bs = Inr u)"
    unfolding text_at_def from_utf8_def
    by (metis (full_types) bytes_of_text_of_bytes sum.distinct(1))
  show ?case
  proof (cases "\<exists>s. text_at m v s")
    case False
    with utf show ?thesis
      by (cases "borrowed_bytes m v") (auto split: sum.splits)
  next
    case True
    then obtain bs u where b: "borrowed_bytes m v = Inr bs" "from_utf8 bs = Inr u"
      using utf by blast
    show ?thesis
    proof (cases "unat sum_bytes + unat (bv_len v) \<le> 2147483647")
      case True
      then obtain t where t: "checked_add_u64 sum_bytes (bv_len v) = Some t"
        "unat t = unat sum_bytes + unat (bv_len v)"
        by (cases "checked_add_u64 sum_bytes (bv_len v)")
          (auto simp: checked_add_u64_None checked_add_u64_Some u64_max_def)
      then have "t \<le> 2147483647" using True by (simp add: word_le_nat_alt)
      with Cons.IH [of t] t True b \<open>\<exists>s. text_at m v s\<close> show ?thesis by (simp add: add.assoc)
    next
      case False
      then have "\<not> t \<le> 2147483647" if "checked_add_u64 sum_bytes (bv_len v) = Some t" for t
        using that by (simp add: word_le_nat_alt checked_add_u64_Some)
      with False b show ?thesis by (auto split: option.splits)
    qed
  qed
qed

lemma read_texts_Inr: "read_texts m label views = Inr texts \<longleftrightarrow> list_all2 (text_at m) views texts"
proof (induction views arbitrary: texts)
  case Nil
  then show ?case by auto
next
  case (Cons v views)
  then show ?case by (cases texts) (auto simp: res_bind_eq_Inr read_text_value_Inr)
qed

lemma list_all2_text_length:
  "list_all2 (text_at m) views texts \<Longrightarrow>
     sum_list (map (unat \<circ> bv_len) views) = sum_list (map length texts)"
  by (induction rule: list_all2_induct) (auto dest: text_at_length)

section \<open>Properties\<close>

text \<open>
  \<open>read_config\<close> accepts exactly the arrays that occupy a valid region, whose keys and values are
  all valid UTF-8, and whose keys are pairwise distinct up to ASCII case; the result lists the
  pairs in the caller's order.
\<close>

theorem read_config_exact:
  "read_config m p len = Inr kvs \<longleftrightarrow>
     array_region_ok p (unat len) 32 \<and>
     list_all2 (kv_at m) (array_at (i_kv m) 32 p (unat len)) kvs \<and> distinct (lower_keys kvs)"
proof (cases "unat len = 0")
  case True
  then show ?thesis
    by (auto simp: read_config_def res_bind_eq_Inr checked_len_Inr array_bytes_Inr array_at_def
        array_region_ok_def)
next
  case False
  then show ?thesis
    by (auto simp: read_config_def res_bind_eq_Inr checked_len_Inr array_bytes_Inr
        array_region_ok_def null_ptr_def is_aligned_def mod_eq_0_iff_dvd checked_add_usize_def
        size_of_KvV1_def read_config_items_Inr isize_max_def)
qed

text \<open>
  C40. \<open>read_text_array\<close> accepts exactly the arrays that occupy a valid region, whose elements are all
  valid UTF-8, and whose carriers and text together stay within the output limit; the result is
  the caller's texts in order.
\<close>

theorem read_text_array_exact:
  "read_text_array m p len label = Inr texts \<longleftrightarrow>
     array_region_ok p (unat len) 16 \<and>
     list_all2 (text_at m) (array_at (i_view m) 16 p (unat len)) texts \<and>
     unat len * 16 + sum_list (map length texts) \<le> 2147483647"
proof (cases "unat len = 0")
  case True
  then show ?thesis
    by (auto simp: read_text_array_def res_bind_eq_Inr checked_len_Inr array_bytes_Inr array_at_def
        array_region_ok_def)
next
  case False
  let ?views = "array_at (i_view m) 16 p (unat len)"
  show ?thesis
  proof (cases "array_region_ok p (unat len) 16 \<and> unat len * 16 \<le> 2147483647")
    case True
    have fits: "unat len * 16 \<le> u64_max" using True by (simp add: u64_max_def)
    then obtain t where t: "u64_try_from (unat len * 16) = Some t" "unat t = unat len * 16"
      by (cases "u64_try_from (unat len * 16)")
        (auto simp only: u64_try_from_Some u64_try_from_None)
    have t_le: "unat t \<le> 2147483647" using t True by simp
    have run: "read_text_array m p len label =
        res_bind (check_text_array m label ?views t) (\<lambda>_. read_texts m label ?views)"
      using True False t t_le
      by (simp add: read_text_array_def checked_len_def array_bytes_def checked_mul_usize_def
          array_region_ok_def size_of_BytesViewV1_def null_ptr_def is_aligned_def
          mod_eq_0_iff_dvd checked_add_usize_def word_less_nat_alt isize_max_def usize_max_def
          linorder_not_less Let_def)
    have "(\<exists>u. check_text_array m label ?views t = Inr u) \<longleftrightarrow>
        unat len * 16 + sum_list (map length texts) \<le> 2147483647"
      if "list_all2 (text_at m) ?views texts"
    proof -
      have "\<forall>v \<in> set ?views. \<exists>s. text_at m v s"
        using that by (metis in_set_conv_nth list_all2_conv_all_nth)
      then show ?thesis
        using check_text_array_Inr [OF t_le, of m label ?views] list_all2_text_length [OF that] t
        by simp
    qed
    then show ?thesis using True by (auto simp: run res_bind_eq_Inr read_texts_Inr)
  next
    case bad: False
    have "read_text_array m p len label \<noteq> Inr texts"
    proof
      assume "read_text_array m p len label = Inr texts"
      then have "array_region_ok p (unat len) 16 \<and> unat len * 16 \<le> 2147483647"
        using False
        by (auto simp: read_text_array_def res_bind_eq_Inr checked_len_Inr array_bytes_Inr
            array_region_ok_def null_ptr_def is_aligned_def mod_eq_0_iff_dvd checked_add_usize_def
            size_of_BytesViewV1_def u64_try_from_Some word_less_nat_alt linorder_not_less
            split: option.splits if_splits)
      with bad show False by simp
    qed
    with bad show ?thesis by auto
  qed
qed

end
