(* ===== verification/Operator.thy ===== *)
theory Operator
  imports EntryPoint S3Options Buffers Views Config
begin

text \<open>
  Operators: their construction from a scheme or from S3 options, the layers stacked on them, and
  the whole-object operations (\<open>operator_new\<close> to \<open>operator_rename\<close> of \<open>lib.rs\<close>).

  OpenDAL's operator is outside the repository: \<open>operator_api\<close> collects the functions of it the
  bridge calls. A call that returns a \<open>Result\<close> is an \<open>xcall\<close>; one that cannot fail but may panic is
  a \<open>vcall\<close>. Every entry point is a body, the closure that computes the result, wrapped in the
  shared text that clears and fills the output slots.
\<close>

section \<open>The operator interface of OpenDAL\<close>

type_synonym ('x, 'a) vcall = "'x \<Rightarrow> 'a option \<times> 'x"

definition ext_value :: "('x, 'a) vcall \<Rightarrow> ('x, 'a) M" where
  "ext_value c w =
     (case c (ext w) of
        (Some a, x) \<Rightarrow> (Ok a, w\<lparr>ext := x\<rparr>)
      | (None, x) \<Rightarrow> (Panic, w\<lparr>ext := x\<rparr>))"

lemma quiet_ext_value [quiet_intros]: "quiet (ext_value c)"
  by (auto simp: quiet_def ext_value_def split: prod.splits option.splits)

record opendal_info =
  oi_scheme :: string
  oi_root :: string
  oi_name :: string
  oi_capability :: Capability

datatype Layer =
    TimeoutLayer u64 u64
  | RetryLayer usize u64 u64 bool
  | ConcurrentLimitLayer usize "usize option"

record 'x operator_api =
  oa_build_runtime :: "'x \<Rightarrow> bool \<times> 'x"
  oa_via_iter :: "string \<Rightarrow> (string \<times> string) list \<Rightarrow> ('x, token) xcall"
  oa_new_s3 :: "S3Builder \<Rightarrow> ('x, token) xcall"
  oa_native_suffix :: "token \<Rightarrow> ('x, bool) vcall"
  oa_blocking :: "token \<Rightarrow> ('x, token) xcall"
  oa_info :: "token \<Rightarrow> ('x, opendal_info) vcall"
  oa_layer :: "token \<Rightarrow> Layer \<Rightarrow> ('x, token) vcall"
  oa_check :: "token \<Rightarrow> ('x, unit) xcall"
  oa_exists :: "token \<Rightarrow> string \<Rightarrow> ('x, bool) xcall"
  oa_stat :: "token \<Rightarrow> string \<Rightarrow> StatOptions \<Rightarrow> ('x, Metadata) xcall"
  oa_reader :: "token \<Rightarrow> string \<Rightarrow> ReaderOptions \<Rightarrow> ('x, token) xcall"
  oa_into_iterator :: "token \<Rightarrow> BytesRange \<Rightarrow> ('x, Buffer ext_result list) xcall"
  oa_write :: "token \<Rightarrow> string \<Rightarrow> u8 list \<Rightarrow> WriteOptions \<Rightarrow> ('x, Metadata) xcall"
  oa_create_dir :: "token \<Rightarrow> string \<Rightarrow> ('x, unit) xcall"
  oa_delete :: "token \<Rightarrow> string \<Rightarrow> DeleteOptions \<Rightarrow> ('x, unit) xcall"
  oa_delete_iter :: "token \<Rightarrow> string list \<Rightarrow> ('x, unit) xcall"
  oa_copy :: "token \<Rightarrow> string \<Rightarrow> string \<Rightarrow> ('x, Metadata) xcall"
  oa_rename :: "token \<Rightarrow> string \<Rightarrow> string \<Rightarrow> ('x, unit) xcall"
  oa_grow :: "usize \<Rightarrow> usize"

section \<open>Construction\<close>

definition operator_handles_with_layers ::
  "'x operator_api \<Rightarrow> token \<Rightarrow> u32 \<Rightarrow> ('x, OperatorV1 \<times> OperatorInfoV1) M" where
  "operator_handles_with_layers api async_operator layer_bits =
     bind (ext_value (oa_native_suffix api async_operator)) (\<lambda>native_suffix.
     bind (ext_call construction_error (oa_blocking api async_operator)) (\<lambda>operator.
     bind (ext_value (oa_info api operator)) (\<lambda>info.
       if \<exists>value \<in> set [oi_scheme info, oi_root info, oi_name info].
            exceeds_output_limit (length value)
       then throw (buffer_too_large ''operator information exceeds the binding output limit'')
       else
         let capability = capability_view (oi_capability info);
             capability =
               (if \<not> native_suffix
                then capability\<lparr>cv_words := (cv_words capability)
                       [0 := cv_words capability ! 0 AND NOT CAP_READ_SUFFIX]\<rparr>
                else capability)
         in ret (\<lparr>op_async_inner = async_operator, op_inner = operator,
                  op_layer_bits = layer_bits, op_read_with_suffix = native_suffix\<rparr>,
                 \<lparr>inf_scheme = oi_scheme info, inf_root = oi_root info, inf_name = oi_name info,
                  inf_capability = capability\<rparr>))))"

definition operator_handles ::
  "'x operator_api \<Rightarrow> token \<Rightarrow> ('x, OperatorV1 \<times> OperatorInfoV1) M" where
  "operator_handles api async_operator = operator_handles_with_layers api async_operator 0"

definition clear_pair ::
  "addr \<Rightarrow> addr \<Rightarrow> addr \<Rightarrow> ('x, unit CallResult) M list" where
  "clear_pair out_operator out_info out_error =
     [clear_ptr_output out_operator, clear_ptr_output out_info, clear_error_output out_error]"

definition write_pair :: "addr \<Rightarrow> addr \<Rightarrow> OperatorV1 \<times> OperatorInfoV1 \<Rightarrow> ('x, unit) M" where
  "write_pair out_operator out_info r =
     bind (write_handle out_operator (OOperator (fst r))) (\<lambda>_.
       write_handle out_info (OInfo (snd r)))"

definition operator_new_body ::
  "'x operator_api \<Rightarrow> addr \<Rightarrow> addr \<Rightarrow> u64 \<Rightarrow> ('x, OperatorV1 \<times> OperatorInfoV1) M" where
  "operator_new_body api scheme config config_len =
     bind (with_inputs (\<lambda>m. read_text m scheme ''scheme'')) (\<lambda>scheme.
     bind (with_inputs (\<lambda>m. read_config m config config_len)) (\<lambda>config.
     bind (runtime (oa_build_runtime api)) (\<lambda>_.
     bind (ext_call construction_error (oa_via_iter api scheme config)) (\<lambda>async_operator.
       operator_handles api async_operator))))"

definition operator_new ::
  "'x operator_api \<Rightarrow> addr \<Rightarrow> addr \<Rightarrow> u64 \<Rightarrow> addr \<Rightarrow> addr \<Rightarrow> addr \<Rightarrow> 'x world \<Rightarrow> exit \<times> 'x world" where
  "operator_new api scheme config config_len out_operator out_info out_error =
     catch_status (with_outputs (clear_pair out_operator out_info out_error) out_error
       (deliver (operator_new_body api scheme config config_len)
         (\<lambda>r. bind (into_raw (OOperator (fst r))) (\<lambda>operator.
              bind (into_raw (OInfo (snd r))) (\<lambda>info.
              bind (write_ptr out_operator operator) (\<lambda>_.
                write_ptr out_info info)))) out_error))"

definition operator_s3_body ::
  "'x operator_api \<Rightarrow> addr \<Rightarrow> ('x, OperatorV1 \<times> OperatorInfoV1) M" where
  "operator_s3_body api options =
     bind (with_inputs (\<lambda>m. parse_s3_options m options)) (\<lambda>options.
     bind (runtime (oa_build_runtime api)) (\<lambda>_.
     bind (build_s3_operator (oa_new_s3 api) options) (\<lambda>async_operator.
       operator_handles api async_operator)))"

definition operator_s3 ::
  "'x operator_api \<Rightarrow> addr \<Rightarrow> addr \<Rightarrow> addr \<Rightarrow> addr \<Rightarrow> 'x world \<Rightarrow> exit \<times> 'x world" where
  "operator_s3 api options out_operator out_info out_error =
     catch_status (with_outputs (clear_pair out_operator out_info out_error) out_error
       (deliver (operator_s3_body api options) (write_pair out_operator out_info) out_error))"

definition operator_free :: "addr \<Rightarrow> ('x, unit) M" where
  "operator_free = free_box as_operator"

section \<open>Layers\<close>

definition positive_millis :: "u64 \<Rightarrow> string \<Rightarrow> u64 CallResult" where
  \<comment> \<open>a \<open>Duration\<close> built by \<open>from_millis\<close> is its number of milliseconds\<close>
  "positive_millis value label =
     (if value = 0 then Inl (invalid_argument (label @ '' must be greater than zero''))
      else Inr value)"

definition retry_count :: "u32 \<Rightarrow> usize CallResult" where
  "retry_count value =
     (if value = 0 then Inl (invalid_argument ''max_retries must be greater than zero'')
      else if unat value \<le> usize_max then Inr (unat value)
      else Inl (invalid_argument ''max_retries is not representable on this platform''))"

definition rebuild_layered_operator ::
  "'x operator_api \<Rightarrow> token \<Rightarrow> u32 \<Rightarrow> ('x, OperatorV1 \<times> OperatorInfoV1) M" where
  "rebuild_layered_operator api async_inner layer_bits =
     bind (runtime (oa_build_runtime api)) (\<lambda>_.
       operator_handles_with_layers api async_inner layer_bits)"

definition operator_with_timeout_body ::
  "'x operator_api \<Rightarrow> addr \<Rightarrow> u64 \<Rightarrow> u64 \<Rightarrow> ('x, OperatorV1 \<times> OperatorInfoV1) M" where
  "operator_with_timeout_body api operator operation_timeout_millis io_timeout_millis =
     bind (borrow_required as_operator operator) (\<lambda>operator.
     bind (lift_res (positive_millis operation_timeout_millis ''operation_timeout_millis''))
       (\<lambda>operation_timeout.
     bind (lift_res (positive_millis io_timeout_millis ''io_timeout_millis'')) (\<lambda>io_timeout.
       if op_layer_bits operator AND OPERATOR_LAYER_TIMEOUT \<noteq> 0
       then throw (invalid_argument ''timeout layer is already installed'')
       else if op_layer_bits operator AND OPERATOR_LAYER_CONCURRENCY_LIMIT \<noteq> 0
       then throw (invalid_argument
              ''timeout layer must be installed before concurrency limit layer'')
       else if op_layer_bits operator AND OPERATOR_LAYER_RETRY \<noteq> 0
       then throw (invalid_argument ''timeout layer must be installed before retry layer'')
       else
         bind (ext_value (oa_layer api (op_async_inner operator)
                 (TimeoutLayer operation_timeout io_timeout))) (\<lambda>layered.
           rebuild_layered_operator api layered
             (op_layer_bits operator OR OPERATOR_LAYER_TIMEOUT)))))"

definition operator_with_timeout ::
  "'x operator_api \<Rightarrow> addr \<Rightarrow> u64 \<Rightarrow> u64 \<Rightarrow> addr \<Rightarrow> addr \<Rightarrow> addr \<Rightarrow> 'x world \<Rightarrow> exit \<times> 'x world" where
  "operator_with_timeout api operator operation_timeout_millis io_timeout_millis
     out_operator out_info out_error =
     catch_status (with_outputs (clear_pair out_operator out_info out_error) out_error
       (deliver (operator_with_timeout_body api operator operation_timeout_millis io_timeout_millis)
          (write_pair out_operator out_info) out_error))"

definition operator_with_retry_body ::
  "'x operator_api \<Rightarrow> addr \<Rightarrow> u32 \<Rightarrow> u64 \<Rightarrow> u64 \<Rightarrow> u32 \<Rightarrow> ('x, OperatorV1 \<times> OperatorInfoV1) M" where
  "operator_with_retry_body api operator max_retries min_delay_millis max_delay_millis jitter =
     bind (borrow_required as_operator operator) (\<lambda>operator.
       if jitter > 1 then throw AbiMismatch
       else
         bind (lift_res (retry_count max_retries)) (\<lambda>max_retries.
         bind (lift_res (positive_millis min_delay_millis ''min_delay_millis'')) (\<lambda>min_delay.
         bind (lift_res (positive_millis max_delay_millis ''max_delay_millis'')) (\<lambda>max_delay.
           if min_delay > max_delay
           then throw (invalid_argument ''min_delay_millis must not exceed max_delay_millis'')
           else if op_layer_bits operator AND OPERATOR_LAYER_RETRY \<noteq> 0
           then throw (invalid_argument ''retry layer is already installed'')
           else if op_layer_bits operator AND OPERATOR_LAYER_CONCURRENCY_LIMIT \<noteq> 0
           then throw (invalid_argument
                  ''retry layer must be installed before concurrency limit layer'')
           else
             bind (ext_value (oa_layer api (op_async_inner operator)
                     (RetryLayer max_retries min_delay max_delay (jitter \<noteq> 0)))) (\<lambda>layered.
               rebuild_layered_operator api layered
                 (op_layer_bits operator OR OPERATOR_LAYER_RETRY))))))"

definition operator_with_retry ::
  "'x operator_api \<Rightarrow> addr \<Rightarrow> u32 \<Rightarrow> u64 \<Rightarrow> u64 \<Rightarrow> u32 \<Rightarrow> addr \<Rightarrow> addr \<Rightarrow> addr \<Rightarrow>
   'x world \<Rightarrow> exit \<times> 'x world" where
  "operator_with_retry api operator max_retries min_delay_millis max_delay_millis jitter
     out_operator out_info out_error =
     catch_status (with_outputs (clear_pair out_operator out_info out_error) out_error
       (deliver (operator_with_retry_body api operator max_retries min_delay_millis
                   max_delay_millis jitter)
          (write_pair out_operator out_info) out_error))"

definition positive_concurrency_limit :: "u64 \<Rightarrow> string \<Rightarrow> usize CallResult" where
  "positive_concurrency_limit value label =
     (if value = 0 then Inl (invalid_argument (label @ '' must be greater than zero''))
      else case usize_try_from value of
        Some n \<Rightarrow> Inr n
      | None \<Rightarrow> Inl (invalid_argument (label @ '' is not representable on this platform'')))"

definition operator_with_concurrency_limit_body ::
  "'x operator_api \<Rightarrow> addr \<Rightarrow> u64 \<Rightarrow> u32 \<Rightarrow> u64 \<Rightarrow> ('x, OperatorV1 \<times> OperatorInfoV1) M" where
  "operator_with_concurrency_limit_body api operator operation_limit has_http_request_limit
     http_request_limit =
     bind (borrow_required as_operator operator) (\<lambda>operator.
       if has_http_request_limit > 1 then throw AbiMismatch
       else if has_http_request_limit = 0 \<and> http_request_limit \<noteq> 0
       then throw (invalid_argument ''http_request_limit must be zero when it is absent'')
       else if op_layer_bits operator AND OPERATOR_LAYER_CONCURRENCY_LIMIT \<noteq> 0
       then throw (invalid_argument ''concurrency limit layer is already installed'')
       else
         bind (lift_res (positive_concurrency_limit operation_limit ''operation_limit''))
           (\<lambda>operation_limit.
         bind
           (if has_http_request_limit \<noteq> 0
            then bind (lift_res (positive_concurrency_limit http_request_limit
                         ''http_request_limit'')) (\<lambda>n. ret (Some n))
            else ret None) (\<lambda>http_limit.
         bind (ext_value (oa_layer api (op_async_inner operator)
                 (ConcurrentLimitLayer operation_limit http_limit))) (\<lambda>layered.
           rebuild_layered_operator api layered
             (op_layer_bits operator OR OPERATOR_LAYER_CONCURRENCY_LIMIT)))))"

definition operator_with_concurrency_limit ::
  "'x operator_api \<Rightarrow> addr \<Rightarrow> u64 \<Rightarrow> u32 \<Rightarrow> u64 \<Rightarrow> addr \<Rightarrow> addr \<Rightarrow> addr \<Rightarrow>
   'x world \<Rightarrow> exit \<times> 'x world" where
  "operator_with_concurrency_limit api operator operation_limit has_http_request_limit
     http_request_limit out_operator out_info out_error =
     catch_status (with_outputs (clear_pair out_operator out_info out_error) out_error
       (deliver (operator_with_concurrency_limit_body api operator operation_limit
                   has_http_request_limit http_request_limit)
          (write_pair out_operator out_info) out_error))"

section \<open>Whole-object operations\<close>

definition operator_check_body :: "'x operator_api \<Rightarrow> addr \<Rightarrow> ('x, unit) M" where
  "operator_check_body api operator =
     bind (borrow_required as_operator operator) (\<lambda>operator.
       ext_call opendal_error (oa_check api (op_inner operator)))"

definition operator_check ::
  "'x operator_api \<Rightarrow> addr \<Rightarrow> addr \<Rightarrow> 'x world \<Rightarrow> exit \<times> 'x world" where
  "operator_check api operator out_error =
     catch_status (with_outputs [clear_error_output out_error] out_error
       (deliver (operator_check_body api operator) (\<lambda>_. ret ()) out_error))"

definition operator_exists_body :: "'x operator_api \<Rightarrow> addr \<Rightarrow> addr \<Rightarrow> ('x, u32) M" where
  "operator_exists_body api operator path =
     bind (borrow_required as_operator operator) (\<lambda>operator.
     bind (with_inputs (\<lambda>m. read_text m path ''path'')) (\<lambda>path.
     bind (ext_call opendal_error (oa_exists api (op_inner operator) path)) (\<lambda>found.
       ret (of_bool found))))"

definition operator_exists ::
  "'x operator_api \<Rightarrow> addr \<Rightarrow> addr \<Rightarrow> addr \<Rightarrow> addr \<Rightarrow> 'x world \<Rightarrow> exit \<times> 'x world" where
  "operator_exists api operator path out_exists out_error =
     catch_status (with_outputs [clear_u32_output out_exists, clear_error_output out_error] out_error
       (deliver (operator_exists_body api operator path) (write_u32 out_exists) out_error))"

definition operator_stat_body ::
  "'x operator_api \<Rightarrow> addr \<Rightarrow> addr \<Rightarrow> addr \<Rightarrow> ('x, MetadataV1) M" where
  "operator_stat_body api operator path options =
     bind (borrow_required as_operator operator) (\<lambda>operator.
     bind (with_inputs (\<lambda>m. read_text m path ''path'')) (\<lambda>path.
     bind (with_inputs (\<lambda>m. parse_stat_options m options)) (\<lambda>options.
     bind (ext_call opendal_error (oa_stat api (op_inner operator) path options)) (\<lambda>metadata.
       lift_res (checked_metadata metadata)))))"

definition operator_stat ::
  "'x operator_api \<Rightarrow> addr \<Rightarrow> addr \<Rightarrow> addr \<Rightarrow> addr \<Rightarrow> addr \<Rightarrow> 'x world \<Rightarrow> exit \<times> 'x world" where
  "operator_stat api operator path options out_metadata out_error =
     catch_status (with_outputs [clear_ptr_output out_metadata, clear_error_output out_error]
       out_error
       (deliver (operator_stat_body api operator path options)
          (\<lambda>a. write_handle out_metadata (OMetadata a)) out_error))"

definition operator_read_body ::
  "'x operator_api \<Rightarrow> addr \<Rightarrow> addr \<Rightarrow> addr \<Rightarrow> u64 \<Rightarrow> ('x, BufferV1) M" where
  "operator_read_body api operator path options max_output_len =
     bind (borrow_required as_operator operator) (\<lambda>operator.
     bind (with_inputs (\<lambda>m. read_text m path ''path'')) (\<lambda>path.
     bind (with_inputs (\<lambda>m. parse_read_options m options)) (\<lambda>options.
     bind (lift_res (whole_read_plan options max_output_len)) (\<lambda>plan.
     bind (lift_res (ensure_suffix_is_native (plan_range plan) (op_read_with_suffix operator)))
       (\<lambda>_.
     bind (ext_call opendal_error
             (oa_reader api (op_inner operator) path (plan_reader_options plan))) (\<lambda>reader.
     bind (ext_call opendal_error (oa_into_iterator api reader (plan_range plan))) (\<lambda>iterator.
       collect_bounded_read_chunks (oa_grow api) iterator (plan_output_limit plan)
         ''read result'')))))))"

definition operator_read ::
  "'x operator_api \<Rightarrow> addr \<Rightarrow> addr \<Rightarrow> addr \<Rightarrow> u64 \<Rightarrow> addr \<Rightarrow> addr \<Rightarrow> 'x world \<Rightarrow> exit \<times> 'x world" where
  "operator_read api operator path options max_output_len out_buffer out_error =
     catch_status (with_outputs [clear_ptr_output out_buffer, clear_error_output out_error]
       out_error
       (deliver (operator_read_body api operator path options max_output_len)
          (\<lambda>a. write_handle out_buffer (OBuffer a)) out_error))"

definition operator_write_body ::
  "'x operator_api \<Rightarrow> addr \<Rightarrow> addr \<Rightarrow> addr \<Rightarrow> addr \<Rightarrow> ('x, MetadataV1) M" where
  "operator_write_body api operator path data options =
     bind (borrow_required as_operator operator) (\<lambda>operator.
     bind (with_inputs (\<lambda>m. read_text m path ''path'')) (\<lambda>path.
     bind (with_inputs (\<lambda>m. read_binary m data)) (\<lambda>data.
     bind (with_inputs (\<lambda>m. parse_write_options m options)) (\<lambda>options.
     bind (ext_call opendal_error (oa_write api (op_inner operator) path data options))
       (\<lambda>metadata.
       lift_res (checked_metadata metadata))))))"

definition operator_write ::
  "'x operator_api \<Rightarrow> addr \<Rightarrow> addr \<Rightarrow> addr \<Rightarrow> addr \<Rightarrow> addr \<Rightarrow> addr \<Rightarrow> 'x world \<Rightarrow> exit \<times> 'x world" where
  "operator_write api operator path data options out_metadata out_error =
     catch_status (with_outputs [clear_ptr_output out_metadata, clear_error_output out_error]
       out_error
       (deliver (operator_write_body api operator path data options)
          (\<lambda>a. write_handle out_metadata (OMetadata a)) out_error))"

definition operator_create_dir_body :: "'x operator_api \<Rightarrow> addr \<Rightarrow> addr \<Rightarrow> ('x, unit) M" where
  "operator_create_dir_body api operator path =
     bind (borrow_required as_operator operator) (\<lambda>operator.
     bind (with_inputs (\<lambda>m. read_text m path ''path'')) (\<lambda>path.
       ext_call opendal_error (oa_create_dir api (op_inner operator) path)))"

definition operator_create_dir ::
  "'x operator_api \<Rightarrow> addr \<Rightarrow> addr \<Rightarrow> addr \<Rightarrow> 'x world \<Rightarrow> exit \<times> 'x world" where
  "operator_create_dir api operator path out_error =
     catch_status (with_outputs [clear_error_output out_error] out_error
       (deliver (operator_create_dir_body api operator path) (\<lambda>_. ret ()) out_error))"

definition operator_delete_body :: "'x operator_api \<Rightarrow> addr \<Rightarrow> addr \<Rightarrow> addr \<Rightarrow> ('x, unit) M" where
  "operator_delete_body api operator path options =
     bind (borrow_required as_operator operator) (\<lambda>operator.
     bind (with_inputs (\<lambda>m. read_text m path ''path'')) (\<lambda>path.
     bind (with_inputs (\<lambda>m. parse_delete_options m options)) (\<lambda>options.
       ext_call opendal_error (oa_delete api (op_inner operator) path options))))"

definition operator_delete ::
  "'x operator_api \<Rightarrow> addr \<Rightarrow> addr \<Rightarrow> addr \<Rightarrow> addr \<Rightarrow> 'x world \<Rightarrow> exit \<times> 'x world" where
  "operator_delete api operator path options out_error =
     catch_status (with_outputs [clear_error_output out_error] out_error
       (deliver (operator_delete_body api operator path options) (\<lambda>_. ret ()) out_error))"

definition operator_delete_many_body ::
  "'x operator_api \<Rightarrow> addr \<Rightarrow> addr \<Rightarrow> u64 \<Rightarrow> ('x, unit) M" where
  "operator_delete_many_body api operator paths paths_len =
     bind (borrow_required as_operator operator) (\<lambda>operator.
     bind (with_inputs (\<lambda>m. read_text_array m paths paths_len ''batch delete path'')) (\<lambda>paths.
       ext_call opendal_error (oa_delete_iter api (op_inner operator) paths)))"

definition operator_delete_many ::
  "'x operator_api \<Rightarrow> addr \<Rightarrow> addr \<Rightarrow> u64 \<Rightarrow> addr \<Rightarrow> 'x world \<Rightarrow> exit \<times> 'x world" where
  "operator_delete_many api operator paths paths_len out_error =
     catch_status (with_outputs [clear_error_output out_error] out_error
       (deliver (operator_delete_many_body api operator paths paths_len) (\<lambda>_. ret ()) out_error))"

definition operator_copy_body ::
  "'x operator_api \<Rightarrow> addr \<Rightarrow> addr \<Rightarrow> addr \<Rightarrow> ('x, MetadataV1) M" where
  "operator_copy_body api operator source destination =
     bind (borrow_required as_operator operator) (\<lambda>operator.
     bind (with_inputs (\<lambda>m. read_text m source ''source path'')) (\<lambda>source.
     bind (with_inputs (\<lambda>m. read_text m destination ''destination path'')) (\<lambda>destination.
     bind (ext_call opendal_error (oa_copy api (op_inner operator) source destination))
       (\<lambda>metadata.
       lift_res (checked_metadata metadata)))))"

definition operator_copy ::
  "'x operator_api \<Rightarrow> addr \<Rightarrow> addr \<Rightarrow> addr \<Rightarrow> addr \<Rightarrow> addr \<Rightarrow> 'x world \<Rightarrow> exit \<times> 'x world" where
  "operator_copy api operator source destination out_metadata out_error =
     catch_status (with_outputs [clear_ptr_output out_metadata, clear_error_output out_error]
       out_error
       (deliver (operator_copy_body api operator source destination)
          (\<lambda>a. write_handle out_metadata (OMetadata a)) out_error))"

definition operator_rename_body :: "'x operator_api \<Rightarrow> addr \<Rightarrow> addr \<Rightarrow> addr \<Rightarrow> ('x, unit) M" where
  "operator_rename_body api operator source destination =
     bind (borrow_required as_operator operator) (\<lambda>operator.
     bind (with_inputs (\<lambda>m. read_text m source ''source path'')) (\<lambda>source.
     bind (with_inputs (\<lambda>m. read_text m destination ''destination path'')) (\<lambda>destination.
       ext_call opendal_error (oa_rename api (op_inner operator) source destination))))"

definition operator_rename ::
  "'x operator_api \<Rightarrow> addr \<Rightarrow> addr \<Rightarrow> addr \<Rightarrow> addr \<Rightarrow> 'x world \<Rightarrow> exit \<times> 'x world" where
  "operator_rename api operator source destination out_error =
     catch_status (with_outputs [clear_error_output out_error] out_error
       (deliver (operator_rename_body api operator source destination) (\<lambda>_. ret ()) out_error))"

section \<open>Bodies leave boxes and slots alone\<close>

lemma quiet_operator_handles [quiet_intros]:
  "quiet (operator_handles_with_layers api t bits)" "quiet (operator_handles api t)"
  "quiet (rebuild_layered_operator api t bits)"
  unfolding operator_handles_def rebuild_layered_operator_def operator_handles_with_layers_def Let_def
  by (intro quiet_intros)+

lemma quiet_operator_bodies:
  "quiet (operator_new_body api scheme config config_len)"
  "quiet (operator_s3_body api options)"
  "quiet (operator_with_timeout_body api p t1 t2)"
  "quiet (operator_with_retry_body api p n d1 d2 j)"
  "quiet (operator_with_concurrency_limit_body api p l h hl)"
  "quiet (operator_check_body api p)"
  "quiet (operator_exists_body api p path)"
  "quiet (operator_stat_body api p path so)"
  "quiet (operator_read_body api p path rop limit)"
  "quiet (operator_write_body api p path data wo)"
  "quiet (operator_create_dir_body api p path)"
  "quiet (operator_delete_body api p path dops)"
  "quiet (operator_delete_many_body api p paths len)"
  "quiet (operator_copy_body api p src dst)"
  "quiet (operator_rename_body api p src dst)"
  unfolding operator_new_body_def operator_s3_body_def operator_with_timeout_body_def
    operator_with_retry_body_def operator_with_concurrency_limit_body_def operator_check_body_def
    operator_exists_body_def operator_stat_body_def operator_read_body_def operator_write_body_def
    operator_create_dir_body_def operator_delete_body_def operator_delete_many_body_def
    operator_copy_body_def operator_rename_body_def
  by (intro quiet_intros)+

section \<open>Entry points with two handles\<close>

definition valid_pair_slots :: "addr \<Rightarrow> addr \<Rightarrow> addr \<Rightarrow> bool" where
  "valid_pair_slots oop oinfo oerr \<longleftrightarrow>
     oop \<noteq> 0 \<and> 8 dvd oop \<and> oinfo \<noteq> 0 \<and> 8 dvd oinfo \<and> 8 dvd oerr \<and> distinct [oop, oinfo, oerr]"

definition hand_over ::
  "addr \<Rightarrow> addr \<Rightarrow> OperatorV1 \<times> OperatorInfoV1 \<Rightarrow> 'x world \<Rightarrow> 'x world" where
  "hand_over oop oinfo r w =
     w\<lparr>boxes := (boxes w)(next_box w \<mapsto> OOperator (fst r), next_box w + 16 \<mapsto> OInfo (snd r)),
       next_box := next_box w + 32,
       out := (out w)\<lparr>o_ptr := (o_ptr (out w))(oop := next_box w, oinfo := next_box w + 16)\<rparr>\<rparr>"

lemma run_write_pair: "write_pair oop oinfo r w = (Ok (), hand_over oop oinfo r w)"
  by (simp add: write_pair_def bind_def run_write_handle hand_over_def add.assoc)

lemma run_write_new_pair:
  "bind (into_raw (OOperator (fst r))) (\<lambda>p. bind (into_raw (OInfo (snd r))) (\<lambda>q.
     bind (write_ptr oop p) (\<lambda>_. write_ptr oinfo q))) w = (Ok (), hand_over oop oinfo r w)"
  by (simp add: bind_def run_simps hand_over_def add.assoc)

lemma run_with_pair_outputs:
  assumes "valid_pair_slots oop oinfo oerr"
  shows "with_outputs (clear_pair oop oinfo oerr) oerr body w =
    body (clear_slots {oop, oinfo, oerr} w)"
proof -
  have "{oerr} \<union> ({oinfo} \<union> {oop}) = {oop, oinfo, oerr}" by auto
  then show ?thesis
    using assms
    by (simp add: valid_pair_slots_def with_outputs_def clear_pair_def bind_def run_clear_ptr
        run_clear_error run_simps clear_slots_clear_slots)
qed

definition pair_contract ::
  "addr \<Rightarrow> addr \<Rightarrow> addr \<Rightarrow> (CallFailure, OperatorV1 \<times> OperatorInfoV1) outcome \<Rightarrow>
   'x world \<Rightarrow> exit \<times> 'x world \<Rightarrow> bool" where
  "pair_contract oop oinfo oerr r w res \<longleftrightarrow>
     (case res of (e, w') \<Rightarrow>
       (case r of
          Ok (operator, info) \<Rightarrow> e = Returned STATUS_OK \<and>
            o_ptr (out w') oop = next_box w \<and> o_ptr (out w') oinfo = next_box w + 16 \<and>
            boxes w' = (boxes w)(next_box w \<mapsto> OOperator operator, next_box w + 16 \<mapsto> OInfo info) \<and>
            (oerr \<noteq> 0 \<longrightarrow> o_ptr (out w') oerr = 0)
        | Err f \<Rightarrow> error_reported oerr f w e w' \<and> o_ptr (out w') oop = 0 \<and> o_ptr (out w') oinfo = 0
        | Panic \<Rightarrow> e = Returned STATUS_PANIC \<and> boxes w' = boxes w \<and>
            o_ptr (out w') oop = 0 \<and> o_ptr (out w') oinfo = 0 \<and>
            (oerr \<noteq> 0 \<longrightarrow> o_ptr (out w') oerr = 0)
        | UB \<Rightarrow> e = Undefined
        | Blocked \<Rightarrow> e = Waiting) \<and>
       (\<forall>p. p \<notin> {oop, oinfo, oerr} \<longrightarrow> o_ptr (out w') p = o_ptr (out w) p) \<and> inp w' = inp w)"

locale pair_body = quiet_body body for body :: "('x, OperatorV1 \<times> OperatorInfoV1) M"
begin

lemma pair_entry:
  assumes valid: "valid_pair_slots oop oinfo oerr"
    and writer: "\<And>r w. write_out r w = (Ok (), hand_over oop oinfo r w)"
  shows "pair_contract oop oinfo oerr (fst (body (clear_slots {oop, oinfo, oerr} w))) w
    (catch_status (with_outputs (clear_pair oop oinfo oerr) oerr (deliver body write_out oerr)) w)"
proof -
  let ?w0 = "clear_slots {oop, oinfo, oerr} w"
  obtain r w1 where b: "body ?w0 = (r, w1)" by (cases "body ?w0")
  note q = quietD [OF body_quiet b]
  have run: "catch_status (with_outputs (clear_pair oop oinfo oerr) oerr (deliver body write_out oerr)) w
    = catch_status (deliver body write_out oerr) ?w0"
    by (simp add: catch_status_def run_with_pair_outputs [OF valid])
  show ?thesis
  proof (cases r)
    case (Ok a)
    with valid b q show ?thesis
      unfolding run
      by (cases a) (auto simp: pair_contract_def catch_status_def run_deliver bind_def writer run_simps
          hand_over_def valid_pair_slots_def o_ptr_clear_slots)
  next
    case (Err f)
    show ?thesis
    proof (cases f)
      case AbiMismatch
      with Err valid b q show ?thesis
        unfolding run
        by (simp add: pair_contract_def catch_status_def run_deliver error_reported_def
            run_finish_failure valid_pair_slots_def o_ptr_clear_slots)
    next
      case (Error x)
      with Err valid b q show ?thesis
        unfolding run by (cases "oerr = 0")
          (auto simp: pair_contract_def catch_status_def run_deliver error_reported_def
            run_finish_failure valid_pair_slots_def o_ptr_clear_slots)
    qed
  qed (use valid b q in \<open>unfold run, auto simp: pair_contract_def catch_status_def run_deliver
          valid_pair_slots_def o_ptr_clear_slots\<close>)
qed

end

interpretation new_call: pair_body "operator_new_body api scheme config config_len"
  for api scheme config config_len by unfold_locales (rule quiet_operator_bodies)

interpretation s3_call: pair_body "operator_s3_body api options"
  for api options by unfold_locales (rule quiet_operator_bodies)

interpretation timeout_call: pair_body "operator_with_timeout_body api p t1 t2"
  for api p t1 t2 by unfold_locales (rule quiet_operator_bodies)

interpretation retry_call: pair_body "operator_with_retry_body api p n d1 d2 j"
  for api p n d1 d2 j by unfold_locales (rule quiet_operator_bodies)

interpretation limit_call: pair_body "operator_with_concurrency_limit_body api p l h hl"
  for api p l h hl by unfold_locales (rule quiet_operator_bodies)

interpretation check_call: quiet_body "operator_check_body api p"
  for api p by unfold_locales (rule quiet_operator_bodies)

interpretation exists_call: quiet_body "operator_exists_body api p path"
  for api p path by unfold_locales (rule quiet_operator_bodies)

interpretation stat_call: quiet_body "operator_stat_body api p path so"
  for api p path so by unfold_locales (rule quiet_operator_bodies)

interpretation read_call: quiet_body "operator_read_body api p path rop limit"
  for api p path rop limit by unfold_locales (rule quiet_operator_bodies)

interpretation write_call: quiet_body "operator_write_body api p path data wo"
  for api p path data wo by unfold_locales (rule quiet_operator_bodies)

interpretation create_dir_call: quiet_body "operator_create_dir_body api p path"
  for api p path by unfold_locales (rule quiet_operator_bodies)

interpretation delete_call: quiet_body "operator_delete_body api p path dops"
  for api p path dops by unfold_locales (rule quiet_operator_bodies)

interpretation delete_many_call: quiet_body "operator_delete_many_body api p paths len"
  for api p paths len by unfold_locales (rule quiet_operator_bodies)

interpretation copy_call: quiet_body "operator_copy_body api p src dst"
  for api p src dst by unfold_locales (rule quiet_operator_bodies)

interpretation rename_call: quiet_body "operator_rename_body api p src dst"
  for api p src dst by unfold_locales (rule quiet_operator_bodies)

section \<open>Successful construction\<close>

lemma ext_value_Ok: "ext_value c w = (Ok a, w') \<longleftrightarrow> c (ext w) = (Some a, ext w') \<and> w' = w\<lparr>ext := ext w'\<rparr>"
  by (auto simp: ext_value_def split: prod.splits option.splits)

lemma runtime_Ok:
  "runtime build w = (Ok (), w') \<Longrightarrow> boxes w' = boxes w \<and> inp w' = inp w"
  using quietD [OF quiet_runtime] by metis

lemma lift_res_Ok: "lift_res r w = (Ok a, w') \<longleftrightarrow> r = Inr a \<and> w' = w"
  by (cases r) (auto simp: run_simps)

lemma throw_not_Ok [simp]: "throw e w \<noteq> (Ok a, w')"
  by (simp add: throw_def)

lemma borrow_Ok:
  "borrow_required sel p w = (Ok a, w') \<longleftrightarrow>
     w' = w \<and> p \<noteq> 0 \<and> 8 dvd p \<and> (\<exists>ob. boxes w p = Some ob \<and> sel ob = Some a)"
  by (auto simp: borrow_required_def null_ptr_def is_aligned_def mod_eq_0_iff_dvd
      split: option.splits)

lemma as_operator_Some: "as_operator ob = Some op \<longleftrightarrow> ob = OOperator op"
  by (cases ob) auto

lemmas body_Ok = bind_eq_Ok borrow_Ok lift_res_Ok as_operator_Some

lemma handles_Ok:
  assumes "operator_handles_with_layers api t bits w = (Ok (op, info), w')"
  shows "op_layer_bits op = bits" and "op_async_inner op = t"
    and "bit (cv_words (inf_capability info) ! 0) 8 \<longrightarrow> op_read_with_suffix op"
  using assms
  by (auto simp: operator_handles_with_layers_def bind_eq_Ok Let_def ret_def capability_view_def
      bit_simps split: if_splits)

lemma rebuild_Ok:
  assumes "rebuild_layered_operator api t bits w = (Ok (op, info), w')"
  shows "op_layer_bits op = bits" and "op_async_inner op = t"
  using assms handles_Ok(1,2) by (fastforce simp: rebuild_layered_operator_def bind_eq_Ok)+

lemma ext_value_Some: "ext_value call w = (Ok a, w') \<Longrightarrow> \<exists>x x'. call x = (Some a, x')"
  by (auto simp: ext_value_def split: prod.splits option.splits)

lemma positive_millis_Inr: "positive_millis v label = Inr d \<longleftrightarrow> v \<noteq> 0 \<and> d = v"
  by (auto simp: positive_millis_def)

lemma retry_count_Inr: "retry_count v = Inr n \<Longrightarrow> v \<noteq> 0 \<and> n = unat v"
  by (auto simp: retry_count_def split: if_splits)

lemma positive_limit_Inr:
  "positive_concurrency_limit v label = Inr n \<longleftrightarrow> v \<noteq> 0 \<and> n = unat v"
  by (auto simp: positive_concurrency_limit_def)

section \<open>The layer stack\<close>

text \<open>
  The abstract view of a layered operator: the list of installed layers, innermost first.
  \<open>layered\<close> follows the operators a caller can obtain by construction and repeated layering.
\<close>

fun layer_rank :: "Layer \<Rightarrow> nat" where
  "layer_rank (TimeoutLayer _ _) = 0"
| "layer_rank (RetryLayer _ _ _ _) = 1"
| "layer_rank (ConcurrentLimitLayer _ _) = 2"

definition layer_mask :: "Layer list \<Rightarrow> u32" where
  "layer_mask ls = fold (\<lambda>l w. w OR push_bit (layer_rank l) 1) ls 0"

fun layer_sound :: "Layer \<Rightarrow> bool" where
  "layer_sound (TimeoutLayer operation io) \<longleftrightarrow> operation \<noteq> 0 \<and> io \<noteq> 0"
| "layer_sound (RetryLayer n lo hi _) \<longleftrightarrow> n \<noteq> 0 \<and> lo \<noteq> 0 \<and> lo \<le> hi"
| "layer_sound (ConcurrentLimitLayer n h) \<longleftrightarrow> n \<noteq> 0 \<and> h \<noteq> Some 0"

inductive layered :: "'x operator_api \<Rightarrow> Layer list \<Rightarrow> OperatorV1 \<Rightarrow> bool" for api where
  constructed: "operator_new_body api scheme config len w = (Ok (op, info), w') \<Longrightarrow> layered api [] op"
| constructed_s3: "operator_s3_body api options w = (Ok (op, info), w') \<Longrightarrow> layered api [] op"
| with_timeout: "layered api ls op \<Longrightarrow> boxes w p = Some (OOperator op) \<Longrightarrow>
    operator_with_timeout_body api p t1 t2 w = (Ok (op', info), w') \<Longrightarrow>
    layered api (ls @ [TimeoutLayer t1 t2]) op'"
| with_retry: "layered api ls op \<Longrightarrow> boxes w p = Some (OOperator op) \<Longrightarrow>
    operator_with_retry_body api p n d1 d2 j w = (Ok (op', info), w') \<Longrightarrow>
    layered api (ls @ [RetryLayer (unat n) d1 d2 (j \<noteq> 0)]) op'"
| with_limit: "layered api ls op \<Longrightarrow> boxes w p = Some (OOperator op) \<Longrightarrow>
    operator_with_concurrency_limit_body api p l h hl w = (Ok (op', info), w') \<Longrightarrow>
    layered api (ls @ [ConcurrentLimitLayer (unat l) (if h \<noteq> 0 then Some (unat hl) else None)]) op'"

text \<open>The native operators that OpenDAL builds from \<open>t\<close> by wrapping it in the layers, one after the other.\<close>

inductive wrapped :: "'x operator_api \<Rightarrow> token \<Rightarrow> Layer list \<Rightarrow> token \<Rightarrow> bool" for api t where
  unwrapped: "wrapped api t [] t"
| wrap: "wrapped api t ls t' \<Longrightarrow> oa_layer api t' l x = (Some t'', x') \<Longrightarrow> wrapped api t (ls @ [l]) t''"

lemma bit_layer_mask:
  "bit (layer_mask ls) k \<longleftrightarrow> k \<in> layer_rank ` set ls"
proof -
  have rank: "layer_rank l < 3" for l by (cases l) auto
  have "bit (fold (\<lambda>l w. w OR push_bit (layer_rank l) 1) ls w0 :: u32) k \<longleftrightarrow>
      bit w0 k \<or> k \<in> layer_rank ` set ls" for w0
  proof (induction ls arbitrary: w0)
    case (Cons l ls)
    have "bit (w0 OR push_bit (layer_rank l) 1 :: u32) k \<longleftrightarrow> bit w0 k \<or> k = layer_rank l"
      using rank [of l] by (auto simp: bit_simps)
    with Cons.IH show ?case by auto
  qed simp
  then show ?thesis by (simp add: layer_mask_def)
qed

lemma layer_mask_append: "layer_mask (ls @ [l]) = layer_mask ls OR push_bit (layer_rank l) 1"
  by (simp add: layer_mask_def)

lemma and_push_bit_u32: "k < 32 \<Longrightarrow> (w :: u32) AND push_bit k 1 \<noteq> 0 \<longleftrightarrow> bit w k"
proof -
  assume k: "k < 32"
  have "w AND push_bit k 1 = 0 \<longleftrightarrow> (\<forall>n < 32. \<not> (bit w n \<and> n = k))"
    by (auto simp: bit_eq_iff bit_simps)
  with k show ?thesis by blast
qed

lemma layer_absent:
  assumes "(layer_mask ls :: u32) AND push_bit k 1 = 0" and "k < 32"
  shows "\<forall>l \<in> set ls. layer_rank l \<noteq> k"
  using assms and_push_bit_u32 [of k "layer_mask ls"] by (auto simp: bit_layer_mask)

text \<open>The rank of every layer stays below three, so a layer whose rank exceeds those installed goes on top.\<close>

lemma sorted_append_rank:
  assumes "sorted_wrt (<) (map layer_rank ls)" and "\<forall>x \<in> set ls. layer_rank x < layer_rank l"
  shows "sorted_wrt (<) (map layer_rank (ls @ [l]))"
  using assms by (simp add: sorted_wrt_append)

lemma timeout_Ok:
  assumes "boxes w p = Some (OOperator op)"
    and "operator_with_timeout_body api p t1 t2 w = (Ok (op', info), w')"
  shows "t1 \<noteq> 0" "t2 \<noteq> 0" "op_layer_bits op AND push_bit 0 1 = 0"
    "op_layer_bits op AND push_bit 1 1 = 0" "op_layer_bits op AND push_bit 2 1 = 0"
    "op_layer_bits op' = op_layer_bits op OR push_bit 0 1"
    "\<exists>x x'. oa_layer api (op_async_inner op) (TimeoutLayer t1 t2) x = (Some (op_async_inner op'), x')"
  using assms
  by (auto simp: operator_with_timeout_body_def body_Ok positive_millis_Inr
      split: if_splits dest: rebuild_Ok dest!: ext_value_Some)

lemma retry_Ok:
  assumes "boxes w p = Some (OOperator op)"
    and "operator_with_retry_body api p n d1 d2 j w = (Ok (op', info), w')"
  shows "n \<noteq> 0" "d1 \<noteq> 0" "d1 \<le> d2" "op_layer_bits op AND push_bit 1 1 = 0"
    "op_layer_bits op AND push_bit 2 1 = 0" "op_layer_bits op' = op_layer_bits op OR push_bit 1 1"
    "\<exists>x x'. oa_layer api (op_async_inner op) (RetryLayer (unat n) d1 d2 (j \<noteq> 0)) x =
       (Some (op_async_inner op'), x')"
  using assms
  by (auto simp: operator_with_retry_body_def body_Ok positive_millis_Inr linorder_not_less
      split: if_splits dest: rebuild_Ok dest!: retry_count_Inr ext_value_Some)

lemma limit_Ok:
  assumes "boxes w p = Some (OOperator op)"
    and "operator_with_concurrency_limit_body api p l h hl w = (Ok (op', info), w')"
  shows "l \<noteq> 0" "h \<noteq> 0 \<longrightarrow> hl \<noteq> 0" "op_layer_bits op AND push_bit 2 1 = 0"
    "op_layer_bits op' = op_layer_bits op OR push_bit 2 1"
    "\<exists>x x'. oa_layer api (op_async_inner op)
       (ConcurrentLimitLayer (unat l) (if h \<noteq> 0 then Some (unat hl) else None)) x =
       (Some (op_async_inner op'), x')"
  using assms
  by (auto simp: operator_with_concurrency_limit_body_def body_Ok positive_limit_Inr ret_def
      split: if_splits dest: rebuild_Ok dest!: ext_value_Some)

section \<open>Properties\<close>

text \<open>
  C29. Layers stack in one order only. Whatever sequence of calls built an operator, its layers are
  timeout, then retry, then concurrency limit, each at most once, each with positive parameters,
  the operator's layer bits record exactly the layers installed, and the native operator behind it
  is one OpenDAL built by wrapping in exactly these layers, in this order.
\<close>

theorem layers_in_order:
  assumes "layered api ls op"
  shows "sorted_wrt (<) (map layer_rank ls) \<and> (\<forall>l \<in> set ls. layer_sound l) \<and>
    op_layer_bits op = layer_mask ls \<and> (\<exists>t. wrapped api t ls (op_async_inner op))"
  using assms
proof (induction rule: layered.induct)
  case (constructed scheme config len w op info w')
  then show ?case
    by (auto simp: operator_new_body_def operator_handles_def bind_eq_Ok layer_mask_def
        dest: handles_Ok(1) intro: wrapped.unwrapped)
next
  case (constructed_s3 options w op info w')
  then show ?case
    by (auto simp: operator_s3_body_def operator_handles_def bind_eq_Ok layer_mask_def
        dest: handles_Ok(1) intro: wrapped.unwrapped)
next
  case (with_timeout ls op w p t1 t2 op' info w')
  note ok = timeout_Ok [OF with_timeout(2,3)]
  have "ls = []"
  proof (rule ccontr)
    assume "ls \<noteq> []"
    then obtain l where l: "l \<in> set ls" by (cases ls) auto
    have "layer_rank l \<in> {0, 1, 2}" by (cases l) auto
    then show False
      using l ok(3-5) with_timeout.IH layer_absent [of ls 0] layer_absent [of ls 1]
        layer_absent [of ls 2] by auto
  qed
  moreover have "\<exists>t. wrapped api t (ls @ [TimeoutLayer t1 t2]) (op_async_inner op')"
    using with_timeout.IH ok(7) by (blast intro: wrapped.wrap)
  ultimately show ?case using ok with_timeout.IH by (simp add: layer_mask_def)
next
  case (with_retry ls op w p n d1 d2 j op' info w')
  note ok = retry_Ok [OF with_retry(2,3)]
  have "layer_rank l < 1" if l: "l \<in> set ls" for l
  proof -
    have "layer_rank l \<in> {0, 1, 2}" by (cases l) auto
    then show ?thesis
      using l ok(4,5) with_retry.IH layer_absent [of ls 1] layer_absent [of ls 2] by auto
  qed
  moreover have "\<exists>t. wrapped api t (ls @ [RetryLayer (unat n) d1 d2 (j \<noteq> 0)]) (op_async_inner op')"
    using with_retry.IH ok(7) by (blast intro: wrapped.wrap)
  ultimately show ?case
    using ok(1-6) with_retry.IH by (auto simp: layer_mask_append sorted_wrt_append unat_eq_0)
next
  case (with_limit ls op w p l h hl op' info w')
  note ok = limit_Ok [OF with_limit(2,3)]
  have "layer_rank x < 2" if x: "x \<in> set ls" for x
  proof -
    have "layer_rank x \<in> {0, 1, 2}" by (cases x) auto
    then show ?thesis using x ok(3) with_limit.IH layer_absent [of ls 2] by auto
  qed
  moreover have "\<exists>t. wrapped api t
      (ls @ [ConcurrentLimitLayer (unat l) (if h \<noteq> 0 then Some (unat hl) else None)]) (op_async_inner op')"
    using with_limit.IH ok(5) by (blast intro: wrapped.wrap)
  ultimately show ?case
    using ok(1-4) with_limit.IH by (auto simp: layer_mask_append sorted_wrt_append unat_eq_0)
qed

definition sample_info :: opendal_info where
  "sample_info = \<lparr>oi_scheme = ''memory'', oi_root = [], oi_name = [],
     oi_capability = \<lparr>cap_stat = True, cap_read = True, cap_write = True, cap_create_dir = True,
       cap_delete = True, cap_list = True, cap_copy = True, cap_rename = True,
       cap_read_with_suffix = True, cap_write_can_append = True, cap_list_with_limit = True,
       cap_list_with_start_after = True, cap_list_with_recursive = True, cap_presign_stat = False,
       cap_presign_read = False, cap_presign_write = False, cap_delete_max_size = None\<rparr>\<rparr>"

definition sample_file :: Metadata where
  "sample_file = \<lparr>md_mode = FILE, md_is_current = None, md_is_deleted = False,
     md_content_length = 3, md_last_modified = None, md_cache_control = None,
     md_content_disposition = None, md_content_encoding = None, md_content_md5 = None,
     md_content_type = None, md_etag = None, md_version = None\<rparr>"

text \<open>A backend that answers every call, with a three-byte object behind every path.\<close>

definition sample_api :: "unit operator_api" where
  "sample_api = \<lparr>oa_build_runtime = (\<lambda>_. (True, ())), oa_via_iter = (\<lambda>_ _ _. (XOk 1, ())),
     oa_new_s3 = (\<lambda>_ _. (XOk 1, ())), oa_native_suffix = (\<lambda>_ _. (Some True, ())),
     oa_blocking = (\<lambda>_ _. (XOk 2, ())), oa_info = (\<lambda>_ _. (Some sample_info, ())),
     oa_layer = (\<lambda>_ _ _. (Some 2, ())), oa_check = (\<lambda>_ _. (XOk (), ())),
     oa_exists = (\<lambda>_ _ _. (XOk True, ())), oa_stat = (\<lambda>_ _ _ _. (XOk sample_file, ())),
     oa_reader = (\<lambda>_ _ _ _. (XOk 3, ())),
     oa_into_iterator = (\<lambda>_ _ _. (XOk [XOk [[1, 2]], XOk [[3]]], ())),
     oa_write = (\<lambda>_ _ _ _ _. (XOk sample_file, ())), oa_create_dir = (\<lambda>_ _ _. (XOk (), ())),
     oa_delete = (\<lambda>_ _ _ _. (XOk (), ())), oa_delete_iter = (\<lambda>_ _ _. (XOk (), ())),
     oa_copy = (\<lambda>_ _ _ _. (XOk sample_file, ())), oa_rename = (\<lambda>_ _ _ _. (XOk (), ())),
     oa_grow = id\<rparr>"

lemma sample_text: "read_text sample_inputs 8 label = Inr []"
  by (simp add: read_text_def read_required_def null_ptr_def is_aligned_def sample_inputs_def
      read_text_value_def borrowed_bytes_def checked_len_def isize_max_def no_view_def
      from_utf8_def text_of_bytes_def)

lemma sample_handles:
  "\<exists>info w'. operator_handles_with_layers sample_api t bits w =
     (Ok (\<lparr>op_async_inner = t, op_inner = 2, op_layer_bits = bits, op_read_with_suffix = True\<rparr>, info), w')"
  by (simp add: operator_handles_with_layers_def bind_def ext_value_def ext_call_def sample_api_def
      sample_info_def exceeds_output_limit_iff run_simps Let_def)

lemma layers_in_order_witness:
  "\<exists>op. layered sample_api [TimeoutLayer 5 6] op \<and> op_layer_bits op = 1"
proof -
  let ?op = "\<lparr>op_async_inner = 1, op_inner = 2, op_layer_bits = 0, op_read_with_suffix = True\<rparr>"
  have run: "runtime (oa_build_runtime sample_api) w =
      (Ok (), w\<lparr>runtime_cell := Some (Inr ()), ext := ()\<rparr>)"
    if "runtime_cell w = None" for w :: "unit world"
    using that by (simp add: runtime_def sample_api_def Let_def)
  have cfg: "read_config sample_inputs 0 0 = Inr []"
    by (simp add: read_config_def checked_len_def array_bytes_def checked_mul_usize_def
        isize_max_def usize_max_def)
  obtain info w' where "operator_new_body sample_api 8 0 0 (sample_world ()) = (Ok (?op, info), w')"
    using sample_handles [of 1 0]
    by (fastforce simp: operator_new_body_def bind_def run_simps sample_text cfg run
        ext_call_def operator_handles_def sample_api_def [THEN arg_cong, of oa_via_iter])
  then have "layered sample_api [] ?op" by (rule layered.constructed)
  moreover have "boxes (sample_with (OOperator ?op) ()) 16 = Some (OOperator ?op)" by simp
  moreover obtain op' info' w'' where t:
    "operator_with_timeout_body sample_api 16 5 6 (sample_with (OOperator ?op) ()) =
       (Ok (op', info'), w'')"
  proof -
    have layer: "oa_layer sample_api t l x = (Some 2, ())" for t l x by (simp add: sample_api_def)
    have "operator_with_timeout_body sample_api 16 5 6 (sample_with (OOperator ?op) ()) =
      operator_handles_with_layers sample_api 2 1
        ((sample_with (OOperator ?op) ())\<lparr>runtime_cell := Some (Inr ()), ext := ()\<rparr>)"
      by (simp add: operator_with_timeout_body_def bind_def run_borrow_live
          [where ob = "OOperator ?op"] positive_millis_def run_simps ext_value_def run layer
          rebuild_layered_operator_def)
    with that sample_handles [of 2 1] show thesis by metis
  qed
  ultimately have l: "layered sample_api ([] @ [TimeoutLayer 5 6]) op'"
    by (rule layered.with_timeout)
  from layers_in_order [OF this] have "op_layer_bits op' = 1"
    by (simp add: layer_mask_def)
  with l show ?thesis by auto
qed

text \<open>
  C1. A whole-object read is exact and bounded. With valid slots, a live operator, a decodable path
  and options whose declared size fits, and a backend whose reader yields the buffers \<open>bufs\<close>, the
  call hands out one fresh buffer box holding their concatenation if it fits the negotiated limit
  (the caller's limit capped at \<open>i32::MAX\<close>), and otherwise reports \<open>BufferTooLarge\<close> and hands out
  no buffer.
\<close>

theorem operator_read_exact:
  assumes slots: "valid_slots slot oerr" "oerr \<noteq> 0"
    and op: "boxes w p = Some (OOperator op)" "0 < p" "8 dvd p"
    and path: "read_text (inp w) path ''path'' = Inr s"
    and opts: "parse_read_options (inp w) ropts = Inr opts"
    and plan: "whole_read_plan opts limit = Inr plan"
    and suffix: "is_suffix (rop_range opts) \<longrightarrow> op_read_with_suffix op"
    and reader: "oa_reader api (op_inner op) s (plan_reader_options plan) (ext w) = (XOk r, x1)"
    and iter: "oa_into_iterator api r (rop_range opts) x1 = (XOk (map XOk bufs), x2)"
  shows "\<exists>w'. let fits = length (concat (concat bufs)) \<le> min (unat limit) 2147483647 in
    operator_read api p path ropts limit slot oerr w =
      (Returned (if fits then STATUS_OK else STATUS_ERROR), w') \<and>
    o_ptr (out w') slot = (if fits then next_box w else 0) \<and>
    (if fits then boxes w' = (boxes w)(next_box w \<mapsto> OBuffer \<lparr>buf_bytes = concat (concat bufs)\<rparr>)
     else \<exists>e. Error e \<in> range buffer_too_large \<and> o_ptr (out w') oerr = next_box w \<and>
              boxes w' = (boxes w)(next_box w \<mapsto> OError e))"
proof -
  let ?w0 = "clear_slots {slot, oerr} w" and ?bytes = "concat (concat bufs)"
  let ?items = "map XOk bufs :: Buffer ext_result list"
  have pr: "plan_range plan = rop_range opts"
    and pl: "unat (plan_output_limit plan) = min (unat limit) 2147483647"
    using whole_read_plan_Inr [OF plan] by (simp_all add: unat_min_u64)
  have native: "ensure_suffix_is_native (rop_range opts) (op_read_with_suffix op) = Inr ()"
    using suffix by (simp add: ensure_suffix_is_native_def)
  have body: "operator_read_body api p path ropts limit ?w0 =
      collect_bounded_read_chunks (oa_grow api) ?items (plan_output_limit plan) ''read result''
        (?w0\<lparr>ext := x2\<rparr>)"
    using op reader iter
    by (simp add: operator_read_body_def bind_def run_borrow_live [where ob = "OOperator op"]
        run_simps path opts plan pr native)
  have ok: "(\<exists>w'. collect_bounded_read_chunks (oa_grow api) ?items (plan_output_limit plan)
        ''read result'' (?w0\<lparr>ext := x2\<rparr>) = (Ok b, w')) \<longleftrightarrow>
      buf_bytes b = ?bytes \<and> length ?bytes \<le> min (unat limit) 2147483647" for b
    by (subst collect_Ok_iff) (auto simp: pl inj_map_eq_map inj_def)
  note contract = read_call.handle_entry [OF slots(1), of OBuffer api p path ropts limit w,
      folded operator_read_def]
  obtain e w' where res: "operator_read api p path ropts limit slot oerr w = (e, w')"
    by (cases "operator_read api p path ropts limit slot oerr w")
  show ?thesis
  proof (cases "length ?bytes \<le> min (unat limit) 2147483647")
    case True
    then have "fst (operator_read_body api p path ropts limit ?w0) = Ok \<lparr>buf_bytes = ?bytes\<rparr>"
      using ok [of "\<lparr>buf_bytes = ?bytes\<rparr>"] body by auto
    with contract res True show ?thesis by (simp add: handle_contract_def)
  next
    case False
    have "collect_from (oa_grow api) ?items (plan_output_limit plan) ''read result'' vec_new
        \<noteq> (Ok (), v')" for v'
      using ok [of "\<lparr>buf_bytes = v_bytes v'\<rparr>"] False
      by (auto simp: collect_bounded_read_chunks_def)
    with collect_from_cases [of vec_new "plan_output_limit plan" "oa_grow api" ?items
        "''read result''"]
    obtain msg where "fst (operator_read_body api p path ropts limit ?w0) = Err (buffer_too_large msg)"
      using body by (auto simp: vec_new_def collect_bounded_read_chunks_def)
    moreover obtain x where "buffer_too_large msg = Error x"
      by (auto simp: buffer_too_large_def binding_error_def Let_def)
    ultimately show ?thesis
      using contract res False slots(2)
      by (auto simp: handle_contract_def error_reported_def intro!: exI [of _ x]
          range_eqI [of _ _ msg])
  qed
qed

lemma operator_read_exact_witness:
  "\<exists>w'. operator_read sample_api 16 8 0 100 64 72 (sample_with (OOperator sample_operator) ()) =
      (Returned STATUS_OK, w') \<and>
    boxes w' 32 = Some (OBuffer \<lparr>buf_bytes = [1, 2, 3]\<rparr>)"
proof -
  let ?plan = "\<lparr>plan_reader_options = ReaderOptions_default\<lparr>rdo_concurrent := 1\<rparr>,
      plan_range = Range 0 None, plan_output_limit = 100\<rparr>"
  have "parse_read_options sample_inputs 0 = Inr ReadOptions_default"
    by (simp add: parse_read_options_def null_ptr_def)
  moreover have "whole_read_plan ReadOptions_default 100 = Inr ?plan"
    by (simp add: whole_read_plan_def ReadOptions_default_def ReaderOptions_default_def
        BytesRange_default_def)
  ultimately show ?thesis
    using operator_read_exact [of 64 72 "sample_with (OOperator sample_operator) ()" 16
        sample_operator 8 "[]" 0 ReadOptions_default 100 ?plan sample_api 3 "()"
        "[[[1, 2]], [[3]]]" "()"]
    by (auto simp: valid_slots_def sample_text sample_api_def ReadOptions_default_def
        BytesRange_default_def)
qed

text \<open>
  C27. Every whole-object entry point that hands out a handle obeys the output contract: on success
  the slot holds a fresh box with the body's result, on failure the slot is null and the error slot
  holds exactly the body's error, on a panic nothing is handed out, and no other slot, box or input
  changes.
\<close>

theorem operator_handle_contracts:
  assumes "valid_slots slot oerr"
  shows "handle_contract OMetadata slot oerr
      (fst (operator_stat_body api p path so (clear_slots {slot, oerr} w))) w
      (operator_stat api p path so slot oerr w) \<and>
    handle_contract OBuffer slot oerr
      (fst (operator_read_body api p path rop limit (clear_slots {slot, oerr} w))) w
      (operator_read api p path rop limit slot oerr w) \<and>
    handle_contract OMetadata slot oerr
      (fst (operator_write_body api p path data wo (clear_slots {slot, oerr} w))) w
      (operator_write api p path data wo slot oerr w) \<and>
    handle_contract OMetadata slot oerr
      (fst (operator_copy_body api p src dst (clear_slots {slot, oerr} w))) w
      (operator_copy api p src dst slot oerr w)"
  unfolding operator_stat_def operator_read_def operator_write_def operator_copy_def
  by (intro conjI stat_call.handle_entry read_call.handle_entry write_call.handle_entry
      copy_call.handle_entry assms)

lemma operator_handle_contracts_witness:
  "handle_contract OMetadata 64 72
      (fst (operator_stat_body sample_api 16 8 0
              (clear_slots {64, 72} (sample_with (OOperator sample_operator) ()))))
      (sample_with (OOperator sample_operator) ())
      (operator_stat sample_api 16 8 0 64 72 (sample_with (OOperator sample_operator) ()))"
  using operator_handle_contracts [of 64 72 sample_api 16 8 0
      "sample_with (OOperator sample_operator) ()"]
  by (simp add: valid_slots_def)

text \<open>
  Every whole-object entry point that only reports success obeys the output contract: no box
  appears except the error object, and no slot but the error slot changes.
\<close>

theorem operator_unit_contracts:
  assumes "8 dvd oerr"
  shows "unit_contract oerr (fst (operator_check_body api p (clear_slots {oerr} w))) w
      (operator_check api p oerr w) \<and>
    unit_contract oerr (fst (operator_create_dir_body api p path (clear_slots {oerr} w))) w
      (operator_create_dir api p path oerr w) \<and>
    unit_contract oerr (fst (operator_delete_body api p path dops (clear_slots {oerr} w))) w
      (operator_delete api p path dops oerr w) \<and>
    unit_contract oerr (fst (operator_delete_many_body api p paths len (clear_slots {oerr} w))) w
      (operator_delete_many api p paths len oerr w) \<and>
    unit_contract oerr (fst (operator_rename_body api p src dst (clear_slots {oerr} w))) w
      (operator_rename api p src dst oerr w)"
  unfolding operator_check_def operator_create_dir_def operator_delete_def operator_delete_many_def
    operator_rename_def
  by (intro conjI check_call.unit_entry create_dir_call.unit_entry delete_call.unit_entry
      delete_many_call.unit_entry rename_call.unit_entry assms)

lemma operator_unit_contracts_witness:
  "unit_contract 72 (fst (operator_check_body sample_api 16
      (clear_slots {72} (sample_with (OOperator sample_operator) ()))))
      (sample_with (OOperator sample_operator) ())
      (operator_check sample_api 16 72 (sample_with (OOperator sample_operator) ()))"
  using operator_unit_contracts [of 72 sample_api 16 "sample_with (OOperator sample_operator) ()"]
  by simp

text \<open>
  C28. Every entry point that constructs or layers an operator hands out the operator and its
  information together or neither: both slots hold fresh boxes on success, and both are null on
  every failure and on a panic.
\<close>

theorem operator_pair_contracts:
  assumes "valid_pair_slots oop oinfo oerr"
  shows "pair_contract oop oinfo oerr
      (fst (operator_new_body api scheme config len (clear_slots {oop, oinfo, oerr} w))) w
      (operator_new api scheme config len oop oinfo oerr w) \<and>
    pair_contract oop oinfo oerr
      (fst (operator_s3_body api options (clear_slots {oop, oinfo, oerr} w))) w
      (operator_s3 api options oop oinfo oerr w) \<and>
    pair_contract oop oinfo oerr
      (fst (operator_with_timeout_body api p t1 t2 (clear_slots {oop, oinfo, oerr} w))) w
      (operator_with_timeout api p t1 t2 oop oinfo oerr w) \<and>
    pair_contract oop oinfo oerr
      (fst (operator_with_retry_body api p n d1 d2 j (clear_slots {oop, oinfo, oerr} w))) w
      (operator_with_retry api p n d1 d2 j oop oinfo oerr w) \<and>
    pair_contract oop oinfo oerr
      (fst (operator_with_concurrency_limit_body api p l h hl (clear_slots {oop, oinfo, oerr} w))) w
      (operator_with_concurrency_limit api p l h hl oop oinfo oerr w)"
  unfolding operator_new_def operator_s3_def operator_with_timeout_def operator_with_retry_def
    operator_with_concurrency_limit_def
  by (intro conjI new_call.pair_entry s3_call.pair_entry timeout_call.pair_entry
      retry_call.pair_entry limit_call.pair_entry assms run_write_pair run_write_new_pair)

lemma operator_pair_contracts_witness:
  "pair_contract 64 72 80
      (fst (operator_new_body sample_api 8 0 0 (clear_slots {64, 72, 80} (sample_world ()))))
      (sample_world ()) (operator_new sample_api 8 0 0 64 72 80 (sample_world ()))"
  using operator_pair_contracts [of 64 72 80 sample_api 8 0 0 "sample_world ()"]
  by (simp add: valid_pair_slots_def)

text \<open>
  Construction never advertises a suffix read it would refuse: when the capability word handed
  to the caller has the suffix bit, the operator accepts native suffix ranges.
\<close>

theorem advertised_suffix_is_accepted:
  assumes "operator_handles_with_layers api t bits w = (Ok (op, info), w')"
    and "bit (cv_words (inf_capability info) ! 0) 8"
  shows "ensure_suffix_is_native r (op_read_with_suffix op) = Inr ()"
  using handles_Ok(3) [OF assms(1)] assms(2) by (simp add: ensure_suffix_is_native_def)

lemma advertised_suffix_is_accepted_witness:
  "\<exists>op info w'. operator_handles_with_layers sample_api 1 0 (sample_world ()) = (Ok (op, info), w') \<and>
     ensure_suffix_is_native (Suffix 4) (op_read_with_suffix op) = Inr ()"
proof -
  obtain op info w' where h: "operator_handles_with_layers sample_api 1 0 (sample_world ()) =
      (Ok (op, info), w')" and i: "inf_capability info = capability_view (oi_capability sample_info)"
    by (simp add: operator_handles_with_layers_def bind_def ext_value_def ext_call_def sample_api_def
        sample_info_def exceeds_output_limit_iff run_simps Let_def)
  have "bit (cv_words (inf_capability info) ! 0) 8"
    unfolding i capability_word0 by (subst capability_bits.flag_iff)
      (simp_all add: capability_flag_def sample_info_def)
  from advertised_suffix_is_accepted [OF h this] h show ?thesis by blast
qed

end
