(* ===== verification/Sessions.thy ===== *)
theory Sessions
  imports EntryPoint
begin

text \<open>
  What the stateful handles share: borrowing a handle at the start of a call, a caller that drives
  one entry point repeatedly, and the frame conditions such a session keeps.
\<close>

definition with_handle ::
  "(obj \<Rightarrow> 'a option) \<Rightarrow> addr \<Rightarrow> addr \<Rightarrow> ('a \<Rightarrow> ('x, u32) M) \<Rightarrow> ('x, u32) M" where
  \<comment> \<open>\<open>match borrow_required(handle) \<open>{\<close> Ok(h) => .., Err(f) => return finish_failure(f, out_error) \<open>}\<close>\<close>\<close>
  "with_handle sel p out_error f =
     bind (closure (borrow_required sel p)) (\<lambda>r.
       case r of Inl failure \<Rightarrow> finish_failure failure out_error | Inr h \<Rightarrow> f h)"

definition on_handle :: "(obj \<Rightarrow> 'a option) \<Rightarrow> addr \<Rightarrow> ('a \<Rightarrow> ('x, unit) M) \<Rightarrow> ('x, unit) M" where
  \<comment> \<open>\<open>if p.is_null() \<open>{\<close> return; \<open>}\<close> let h = &*p; ..\<close> of the close and free functions\<close>
  "on_handle sel p f w =
     (if p = null_ptr then (Ok (), w)
      else case boxes w p of
        None \<Rightarrow> (UB, w)
      | Some ob \<Rightarrow> (case sel ob of None \<Rightarrow> (UB, w) | Some h \<Rightarrow> f h w))"

definition live_at :: "addr \<Rightarrow> obj \<Rightarrow> 'x world \<Rightarrow> bool" where
  "live_at p ob w \<longleftrightarrow> wf_world w \<and> boxes w p = Some ob"

lemma live_atD:
  assumes "live_at p ob w"
  shows "boxes w p = Some ob" "0 < p" "8 dvd p" "p \<noteq> next_box w" "wf_world w" "p \<noteq> 0"
    "p \<noteq> next_box w + 16"
  using assms wf_world_live [of w p ob] by (auto simp: live_at_def)

lemma run_with_handle:
  assumes "live_at p ob w" and "sel ob = Some h" and "boxes w' = boxes w"
  shows "with_handle sel p out_error f w' = f h w'"
  using assms live_atD [OF assms(1)]
  by (simp add: with_handle_def bind_def closure_def run_borrow_live [where ob = ob])

lemma run_handle_call:
  assumes "valid_slots slot oerr" and "live_at p ob w" and "sel ob = Some h"
  shows "catch_status (with_outputs [clear_ptr_output slot, clear_error_output oerr] oerr
           (with_handle sel p oerr f)) w =
         catch_status (f h) (clear_slots {slot, oerr} w)"
  using assms
  by (simp add: catch_status_def run_with_handle_outputs valid_slots_def
      run_with_handle [where sel = sel and ob = ob and w = w and h = h])

lemma wf_clear_slots [simp]: "wf_world (clear_slots S w) = wf_world w"
  by (simp add: wf_world_def)

lemma wf_world_cong:
  "boxes w' = boxes w \<Longrightarrow> next_box w' = next_box w \<Longrightarrow> wf_world w' = wf_world w"
  by (simp add: wf_world_def)

lemma wf_world_put:
  assumes "wf_world w" and "boxes w p = Some ob" and "boxes w' = (boxes w)(p \<mapsto> ob')"
    and "next_box w' = next_box w"
  shows "wf_world w'"
  using assms by (auto simp: wf_world_def)

lemma wf_world_put_new:
  assumes "wf_world w" and "boxes w p = Some ob"
    and "boxes w' = (boxes w)(p \<mapsto> ob', next_box w \<mapsto> new)" and "next_box w' = next_box w + 16"
  shows "wf_world w'"
proof -
  have n: "0 < next_box w" "16 dvd next_box w" using assms(1) by (auto simp: wf_world_def)
  have "0 < q \<and> 16 dvd q \<and> q < next_box w + 16"
    if "boxes w' q = Some ob2" for q ob2
  proof (cases "q = next_box w")
    case False
    then have "\<exists>ob3. boxes w q = Some ob3" using that assms(2,3) by (auto split: if_splits)
    then show ?thesis using assms(1) by (fastforce simp: wf_world_def)
  qed (use n in simp)
  then show ?thesis using n assms(4) by (simp add: wf_world_def)
qed

lemma wf_world_new:
  assumes "wf_world w" and "boxes w' = (boxes w)(next_box w \<mapsto> new)"
    and "next_box w' = next_box w + 16"
  shows "wf_world w'"
proof -
  have n: "0 < next_box w" "16 dvd next_box w" using assms(1) by (auto simp: wf_world_def)
  have "0 < q \<and> 16 dvd q \<and> q < next_box w + 16"
    if "boxes w' q = Some ob2" for q ob2
  proof (cases "q = next_box w")
    case False
    then show ?thesis using that assms(1,2) by (fastforce simp: wf_world_def)
  qed (use n in simp)
  then show ?thesis using n assms(3) by (simp add: wf_world_def)
qed

lemma wf_no_null: "wf_world w \<Longrightarrow> boxes w 0 = None"
  by (cases "boxes w 0") (auto simp: wf_world_def)

lemma run_finish_failure_frame:
  "\<exists>w'. finish_failure f oerr w =
      (Ok (case f of AbiMismatch \<Rightarrow> STATUS_ABI_MISMATCH | Error _ \<Rightarrow> STATUS_ERROR), w') \<and>
    ext w' = ext w \<and> (wf_world w \<longrightarrow> wf_world w') \<and>
    (\<forall>q ob. boxes w q = Some ob \<longrightarrow> wf_world w \<longrightarrow> boxes w' q = Some ob) \<and>
    (\<forall>q. q \<noteq> oerr \<longrightarrow> o_ptr (out w') q = o_ptr (out w) q)"
proof (cases f)
  case AbiMismatch
  then show ?thesis by (simp add: run_finish_failure)
next
  case (Error e)
  show ?thesis
  proof (cases "oerr = 0")
    case True
    then show ?thesis by (simp add: Error run_finish_failure)
  next
    case False
    let ?w' = "w\<lparr>boxes := (boxes w)(next_box w \<mapsto> OError e), next_box := next_box w + 16,
        out := (out w)\<lparr>o_ptr := (o_ptr (out w))(oerr := next_box w)\<rparr>\<rparr>"
    have "wf_world w \<longrightarrow> wf_world ?w'" by (auto intro: wf_world_new)
    moreover have "boxes ?w' q = Some ob" if "boxes w q = Some ob" "wf_world w" for q ob
      using that wf_world_live(3) [OF that(2,1)] by simp
    ultimately show ?thesis using False by (simp add: Error run_finish_failure)
  qed
qed

section \<open>Driving an entry point\<close>

text \<open>
  \<open>drive n call slot\<close> calls an entry point \<open>n\<close> times and records, after each call, the status and the
  object the output slot designates.
\<close>

fun drive ::
  "nat \<Rightarrow> ('x world \<Rightarrow> exit \<times> 'x world) \<Rightarrow> addr \<Rightarrow> 'x world \<Rightarrow> (exit \<times> obj option) list \<times> 'x world" where
  "drive 0 call slot w = ([], w)"
| "drive (Suc n) call slot w =
     (let (e, w1) = call w;
          (rs, w2) = drive n call slot w1
      in ((e, boxes w1 (o_ptr (out w1) slot)) # rs, w2))"

lemma drive_Suc:
  "drive (Suc n) call slot w =
     ((fst (call w), boxes (snd (call w)) (o_ptr (out (snd (call w))) slot))
        # fst (drive n call slot (snd (call w))), snd (drive n call slot (snd (call w))))"
  by (simp add: split_beta Let_def)

declare drive.simps(2) [simp del]

lemma drive_stuck:
  assumes "P w" and "\<And>w. P w \<Longrightarrow> \<exists>w1. call w = (e, w1) \<and> P w1 \<and> boxes w1 (o_ptr (out w1) slot) = r"
  shows "fst (drive n call slot w) = replicate n (e, r) \<and> P (snd (drive n call slot w))"
  using assms(1)
proof (induction n arbitrary: w)
  case (Suc n)
  obtain w1 where w1: "call w = (e, w1)" "P w1" "boxes w1 (o_ptr (out w1) slot) = r"
    using assms(2) [OF Suc.prems] by blast
  with Suc.IH [of w1] show ?case by (simp add: drive_Suc)
qed simp

end
