(* ===== verification/Lister.thy ===== *)
theory Lister
  imports Operator Sessions
begin

text \<open>
  Listers (\<open>operator_lister\<close>, \<open>lister_next\<close>, \<open>lister_close\<close>, \<open>lister_free\<close> of \<open>lib.rs\<close>). A lister is a
  mutex around \<open>Open\<close>, \<open>Exhausted\<close> or \<open>Closed\<close>. OpenDAL's blocking lister is a token, advanced by
  \<open>la_next\<close>.
\<close>

section \<open>Operations\<close>

record 'x lister_api =
  la_lister :: "token \<Rightarrow> string \<Rightarrow> ListOptions \<Rightarrow> ('x, token) xcall"
  la_next :: "token \<Rightarrow> ('x, opendal_Entry option) xcall"
  la_drop :: "token \<Rightarrow> ('x, unit) xcall"

definition operator_lister_body ::
  "'x lister_api \<Rightarrow> addr \<Rightarrow> addr \<Rightarrow> addr \<Rightarrow> ('x, ListerV1) M" where
  "operator_lister_body api operator path options =
     bind (borrow_required as_operator operator) (\<lambda>operator.
     bind (with_inputs (\<lambda>m. read_text m path ''path'')) (\<lambda>path.
     bind (with_inputs (\<lambda>m. parse_list_options m options)) (\<lambda>options.
     bind (ext_call opendal_error (la_lister api (op_inner operator) path options)) (\<lambda>lister.
       ret \<lparr>lister_state = \<lparr>mx_state = ListerOpen lister, mx_poisoned = False\<rparr>\<rparr>))))"

definition operator_lister ::
  "'x lister_api \<Rightarrow> addr \<Rightarrow> addr \<Rightarrow> addr \<Rightarrow> addr \<Rightarrow> addr \<Rightarrow> 'x world \<Rightarrow> exit \<times> 'x world" where
  "operator_lister api operator path options out_lister out_error =
     catch_status (with_outputs [clear_ptr_output out_lister, clear_error_output out_error]
       out_error
       (deliver (operator_lister_body api operator path options)
          (\<lambda>a. write_handle out_lister (OLister a)) out_error))"

definition lister_obj :: "ListerStateV1 \<Rightarrow> bool \<Rightarrow> obj" where
  "lister_obj s poisoned = OLister \<lparr>lister_state = \<lparr>mx_state = s, mx_poisoned = poisoned\<rparr>\<rparr>"

definition drop_blocking_lister_contained :: "'x lister_api \<Rightarrow> token \<Rightarrow> ('x, unit) M" where
  "drop_blocking_lister_contained api = drop_contained (la_drop api)"

definition lister_step :: "'x lister_api \<Rightarrow> token \<Rightarrow> ('x, EntryV1 option) M" where
  \<comment> \<open>the closure under \<open>catch_unwind\<close> in \<open>lister_next\<close>\<close>
  "lister_step api inner =
     bind (ext_call opendal_error (la_next api inner)) (\<lambda>item.
       case item of
         Some entry \<Rightarrow> bind (lift_res (checked_entry entry)) (\<lambda>e. ret (Some e))
       | None \<Rightarrow> ret None)"

definition lister_next ::
  "'x lister_api \<Rightarrow> addr \<Rightarrow> addr \<Rightarrow> addr \<Rightarrow> 'x world \<Rightarrow> exit \<times> 'x world" where
  "lister_next api lister out_entry out_error =
     catch_status (with_outputs [clear_ptr_output out_entry, clear_error_output out_error] out_error
       (with_handle as_lister lister out_error (\<lambda>l.
          if mx_poisoned (lister_state l) then
            bind (put_box lister (lister_obj ListerExhausted True)) (\<lambda>_.
            bind (case mx_state (lister_state l) of
                    ListerOpen inner \<Rightarrow> drop_blocking_lister_contained api inner
                  | _ \<Rightarrow> ret ()) (\<lambda>_.
            bind (put_box lister (lister_obj ListerExhausted False)) (\<lambda>_.
              finish_failure (unexpected ''lister state lock was poisoned'') out_error)))
          else
            bind (put_box lister (lister_obj ListerExhausted False)) (\<lambda>_.
              case mx_state (lister_state l) of
                ListerExhausted \<Rightarrow> ret STATUS_END
              | ListerClosed \<Rightarrow>
                  bind (put_box lister (lister_obj ListerClosed False)) (\<lambda>_.
                    finish_failure (resource_closed ''lister is closed'') out_error)
              | ListerOpen inner \<Rightarrow>
                  bind (catch_unwind (lister_step api inner)) (\<lambda>step.
                    case step of
                      Some (Inr (Some entry)) \<Rightarrow>
                        bind (put_box lister (lister_obj (ListerOpen inner) False)) (\<lambda>_.
                        bind (write_handle out_entry (OEntry entry)) (\<lambda>_.
                          ret STATUS_OK))
                    | Some (Inr None) \<Rightarrow>
                        bind (drop_blocking_lister_contained api inner) (\<lambda>_. ret STATUS_END)
                    | Some (Inl failure) \<Rightarrow>
                        bind (drop_blocking_lister_contained api inner) (\<lambda>_.
                          finish_failure failure out_error)
                    | None \<Rightarrow>
                        bind (drop_blocking_lister_contained api inner) (\<lambda>_.
                          ret STATUS_PANIC))))))"

definition close_lister_state :: "'x lister_api \<Rightarrow> addr \<Rightarrow> ListerV1 \<Rightarrow> ('x, unit) M" where
  "close_lister_state api p lister =
     bind (put_box p (lister_obj ListerClosed False)) (\<lambda>_.
       case mx_state (lister_state lister) of
         ListerOpen inner \<Rightarrow> drop_blocking_lister_contained api inner
       | ListerExhausted \<Rightarrow> ret ()
       | ListerClosed \<Rightarrow> ret ())"

definition lister_close :: "'x lister_api \<Rightarrow> addr \<Rightarrow> ('x, unit) M" where
  "lister_close api lister = on_handle as_lister lister (close_lister_state api lister)"

definition lister_free :: "'x lister_api \<Rightarrow> addr \<Rightarrow> ('x, unit) M" where
  "lister_free api lister =
     on_handle as_lister lister (\<lambda>l.
       bind (close_lister_state api lister l) (\<lambda>_. free_box as_lister lister))"

section \<open>One call\<close>

lemma as_lister_obj [simp]:
  "as_lister (lister_obj s b) = Some \<lparr>lister_state = \<lparr>mx_state = s, mx_poisoned = b\<rparr>\<rparr>"
  by (simp add: lister_obj_def)

text \<open>What a call leaves behind: the lister's state, the external state, and an empty or filled slot.\<close>

definition lister_after ::
  "addr \<Rightarrow> addr \<Rightarrow> ListerStateV1 \<Rightarrow> 'x \<Rightarrow> obj option \<Rightarrow> 'x world \<Rightarrow> bool" where
  "lister_after p slot s x entry w \<longleftrightarrow>
     live_at p (lister_obj s False) w \<and> ext w = x \<and> boxes w (o_ptr (out w) slot) = entry"

lemmas lister_next_run = lister_next_def catch_status_def run_with_handle_outputs valid_slots_def
  with_handle_def bind_def closure_def catch_unwind_def lister_step_def run_simps run_write_handle
  drop_blocking_lister_contained_def

lemma lister_next_entry:
  assumes "valid_slots slot oerr" and "live_at p (lister_obj (ListerOpen t) False) w"
    and "la_next api t (ext w) = (XOk (Some e), x)" and "checked_entry e = Inr v"
  shows "\<exists>w'. lister_next api p slot oerr w = (Returned STATUS_OK, w') \<and>
    lister_after p slot (ListerOpen t) x (Some (OEntry v)) w'"
proof -
  note live = live_atD [OF assms(2)]
  let ?w' = "snd (lister_next api p slot oerr w)"
  have run: "lister_next api p slot oerr w = (Returned STATUS_OK, ?w') \<and>
      boxes ?w' = (boxes w)(p \<mapsto> lister_obj (ListerOpen t) False, next_box w \<mapsto> OEntry v) \<and>
      next_box ?w' = next_box w + 16 \<and> ext ?w' = x \<and> o_ptr (out ?w') slot = next_box w"
    using assms live(1-3) by (simp add: lister_next_run)
  moreover have "wf_world ?w'"
    using run by (intro wf_world_put_new [OF live(5,1)]) auto
  ultimately show ?thesis
    using live(4) by (intro exI [of _ ?w']) (simp add: lister_after_def live_at_def)
qed

lemma lister_next_end:
  assumes "valid_slots slot oerr" and "live_at p (lister_obj (ListerOpen t) False) w"
    and "la_next api t (ext w) = (XOk None, x)"
  shows "\<exists>w'. lister_next api p slot oerr w = (Returned STATUS_END, w') \<and>
    lister_after p slot ListerExhausted (snd (la_drop api t x)) None w'"
proof -
  note live = live_atD [OF assms(2)]
  let ?w' = "snd (lister_next api p slot oerr w)"
  have run: "lister_next api p slot oerr w = (Returned STATUS_END, ?w') \<and>
      boxes ?w' = (boxes w)(p \<mapsto> lister_obj ListerExhausted False) \<and>
      next_box ?w' = next_box w \<and> ext ?w' = snd (la_drop api t x) \<and> o_ptr (out ?w') slot = 0"
    using assms live(1-3) by (simp add: lister_next_run o_ptr_clear_slots)
  moreover have "wf_world ?w'"
    using run by (intro wf_world_put [OF live(5,1)]) auto
  ultimately show ?thesis
    using live(6) wf_no_null [of ?w']
    by (intro exI [of _ ?w']) (simp add: lister_after_def live_at_def)
qed

lemma lister_next_exhausted:
  assumes "valid_slots slot oerr" and "live_at p (lister_obj ListerExhausted False) w"
  shows "\<exists>w'. lister_next api p slot oerr w = (Returned STATUS_END, w') \<and>
    lister_after p slot ListerExhausted (ext w) None w'"
proof -
  note live = live_atD [OF assms(2)]
  let ?w' = "snd (lister_next api p slot oerr w)"
  have run: "lister_next api p slot oerr w = (Returned STATUS_END, ?w') \<and>
      boxes ?w' = (boxes w)(p \<mapsto> lister_obj ListerExhausted False) \<and>
      next_box ?w' = next_box w \<and> ext ?w' = ext w \<and> o_ptr (out ?w') slot = 0"
    using assms live(1-3) by (simp add: lister_next_run o_ptr_clear_slots)
  moreover have "wf_world ?w'"
    using run by (intro wf_world_put [OF live(5,1)]) auto
  ultimately show ?thesis
    using live(6) wf_no_null [of ?w']
    by (intro exI [of _ ?w']) (simp add: lister_after_def live_at_def)
qed

lemma drive_exhausted:
  assumes "valid_slots slot oerr" and "live_at p (lister_obj ListerExhausted False) w"
  shows "fst (drive n (lister_next api p slot oerr) slot w) = replicate n (Returned STATUS_END, None) \<and>
    ext (snd (drive n (lister_next api p slot oerr) slot w)) = ext w"
proof -
  let ?P = "\<lambda>w'. live_at p (lister_obj ListerExhausted False) w' \<and> ext w' = ext w"
  have "fst (drive n (lister_next api p slot oerr) slot w) = replicate n (Returned STATUS_END, None) \<and>
      ?P (snd (drive n (lister_next api p slot oerr) slot w))"
  proof (rule drive_stuck [where P = ?P])
    show "?P w" using assms by simp
    show "\<exists>w1. lister_next api p slot oerr w' = (Returned STATUS_END, w1) \<and> ?P w1 \<and>
        boxes w1 (o_ptr (out w1) slot) = None" if "?P w'" for w'
      using lister_next_exhausted [OF assms(1), of p w' api] that by (auto simp: lister_after_def)
  qed
  then show ?thesis by simp
qed

section \<open>A failed step exhausts the lister\<close>

text \<open>The step fails: upstream error, an entry that exceeds the limits, or a panic upstream.\<close>

lemma lister_step_run:
  assumes "la_next api t (ext w) = (r, x)"
  shows "lister_step api t w =
    ((case r of
        XOk None \<Rightarrow> Ok None
      | XOk (Some e) \<Rightarrow> (case checked_entry e of Inr v \<Rightarrow> Ok (Some v) | Inl f \<Rightarrow> Err f)
      | XErr e \<Rightarrow> Err (opendal_error e)
      | XPanic \<Rightarrow> Panic), w\<lparr>ext := x\<rparr>)"
  using assms
  by (auto simp: lister_step_def bind_def run_simps lift_res_def
      split: ext_result.splits option.splits sum.splits)

lemma lister_next_failed:
  assumes slots: "valid_slots slot oerr" and live: "live_at p (lister_obj (ListerOpen t) False) w"
    and step: "la_next api t (ext w) = (r, x)"
    and failed: "r = XPanic \<or> (\<exists>e. r = XErr e) \<or> (\<exists>e f. r = XOk (Some e) \<and> checked_entry e = Inl f)"
  shows "\<exists>status w'. lister_next api p slot oerr w = (Returned status, w') \<and>
    status \<notin> {STATUS_OK, STATUS_END} \<and>
    lister_after p slot ListerExhausted (snd (la_drop api t x)) None w'"
proof -
  note l = live_atD [OF live]
  let ?w1 = "(clear_slots {slot, oerr} w)\<lparr>boxes := (boxes w)(p \<mapsto> lister_obj ListerExhausted False),
      ext := snd (la_drop api t x)\<rparr>"
  have wf: "wf_world ?w1" by (rule wf_world_put [OF l(5,1)]) simp_all
  have slot0: "o_ptr (out ?w1) slot = 0" using slots by (simp add: o_ptr_clear_slots valid_slots_def)
  have run: "lister_next api p slot oerr w =
      (case r of XPanic \<Rightarrow> (Returned STATUS_PANIC, ?w1)
       | XErr e \<Rightarrow> catch_status (finish_failure (opendal_error e) oerr) ?w1
       | XOk (Some e) \<Rightarrow> (case checked_entry e of Inl f \<Rightarrow> catch_status (finish_failure f oerr) ?w1
                          | Inr v \<Rightarrow> (Undefined, ?w1))
       | XOk None \<Rightarrow> (Undefined, ?w1))"
    using failed slots step l(1-3)
    by (auto simp: lister_next_def catch_status_def run_with_handle_outputs valid_slots_def
        with_handle_def bind_def closure_def catch_unwind_def run_simps lister_step_run
        drop_blocking_lister_contained_def)
  have fail: "\<exists>status w'. catch_status (finish_failure f oerr) ?w1 = (Returned status, w') \<and>
      status \<notin> {STATUS_OK, STATUS_END} \<and>
      lister_after p slot ListerExhausted (snd (la_drop api t x)) None w'" for f
  proof -
    obtain w' where w': "finish_failure f oerr ?w1 =
          (Ok (case f of AbiMismatch \<Rightarrow> STATUS_ABI_MISMATCH | Error _ \<Rightarrow> STATUS_ERROR), w')"
      "ext w' = ext ?w1" "wf_world w'" "boxes w' p = Some (lister_obj ListerExhausted False)"
      "o_ptr (out w') slot = o_ptr (out ?w1) slot"
      using run_finish_failure_frame [of f oerr ?w1] wf slots by (auto simp: valid_slots_def)
    then show ?thesis
      using slot0 wf_no_null [of w']
      by (auto simp: catch_status_def lister_after_def live_at_def split: CallFailure.splits)
  qed
  have "lister_after p slot ListerExhausted (snd (la_drop api t x)) None ?w1"
    using wf slot0 wf_no_null [OF wf] l(6) by (simp add: lister_after_def live_at_def)
  then show ?thesis using failed run fail by auto
qed

section \<open>Terminal states\<close>

datatype lister_op = LNext | LClose

definition lister_apply ::
  "'x lister_api \<Rightarrow> addr \<Rightarrow> addr \<Rightarrow> addr \<Rightarrow> lister_op \<Rightarrow> 'x world \<Rightarrow> 'x world" where
  "lister_apply api p slot oerr x w =
     (case x of LNext \<Rightarrow> snd (lister_next api p slot oerr w) | LClose \<Rightarrow> snd (lister_close api p w))"

definition lister_terminal :: "addr \<Rightarrow> 'x \<Rightarrow> 'x world \<Rightarrow> bool" where
  "lister_terminal p x w \<longleftrightarrow>
     (\<exists>s. s \<in> {ListerExhausted, ListerClosed} \<and> live_at p (lister_obj s False) w) \<and> ext w = x"

lemma lister_terminal_next:
  assumes "lister_terminal p x w"
  shows "lister_terminal p x (snd (lister_next api p slot oerr w))"
proof -
  obtain s where s: "s \<in> {ListerExhausted, ListerClosed}" "live_at p (lister_obj s False) w"
    and x: "ext w = x" using assms by (auto simp: lister_terminal_def)
  note l = live_atD [OF s(2)]
  show ?thesis
  proof (cases "slot = 0 \<or> \<not> 8 dvd slot \<or> \<not> 8 dvd oerr")
    case True
    then show ?thesis
      using s x by (auto simp: lister_next_def catch_status_def run_with_handle_outputs
          lister_terminal_def live_at_def)
  next
    case False
    let ?w1 = "(clear_slots {slot, oerr} w)\<lparr>boxes := (boxes w)(p \<mapsto> lister_obj s False)\<rparr>"
    have wf: "wf_world ?w1" by (rule wf_world_put [OF l(5,1)]) simp_all
    obtain w' where w': "finish_failure (resource_closed ''lister is closed'') oerr ?w1 =
          (Ok STATUS_ERROR, w')"
      "ext w' = x" "wf_world w'" "boxes w' p = Some (lister_obj s False)"
      using run_finish_failure_frame [of "resource_closed ''lister is closed''" oerr ?w1] wf x
      by (auto simp: resource_closed_def binding_error_def Let_def)
    show ?thesis
    proof (cases s)
      case ListerExhausted
      then show ?thesis
        using False s x l wf
        by (auto simp: lister_next_def catch_status_def run_with_handle_outputs with_handle_def
            bind_def closure_def run_simps lister_terminal_def live_at_def)
    next
      case ListerClosed
      then show ?thesis
        using False s x l w'
        by (auto simp: lister_next_def catch_status_def run_with_handle_outputs with_handle_def
            bind_def closure_def run_simps lister_terminal_def live_at_def)
    qed (use s in simp)
  qed
qed

lemma lister_terminal_close:
  assumes "lister_terminal p x w"
  shows "lister_terminal p x (snd (lister_close api p w))"
proof -
  obtain s where s: "s \<in> {ListerExhausted, ListerClosed}" "live_at p (lister_obj s False) w"
    and x: "ext w = x" using assms by (auto simp: lister_terminal_def)
  note l = live_atD [OF s(2)]
  have "wf_world (w\<lparr>boxes := (boxes w)(p \<mapsto> lister_obj ListerClosed False)\<rparr>)"
    by (rule wf_world_put [OF l(5,1)]) simp_all
  then show ?thesis
    using s x l
    by (auto simp: lister_close_def on_handle_def null_ptr_def close_lister_state_def bind_def
        run_simps lister_terminal_def live_at_def)
qed

interpretation lister_life: terminal_states "lister_apply api p slot oerr" "lister_terminal p x"
  for api p slot oerr x
  by unfold_locales
    (auto simp: lister_apply_def lister_terminal_next lister_terminal_close split: lister_op.splits)

section \<open>Properties\<close>

text \<open>The entries a backend lister yields from external state \<open>x\<close>, up to its end.\<close>

fun yields :: "'x lister_api \<Rightarrow> token \<Rightarrow> 'x \<Rightarrow> opendal_Entry list \<Rightarrow> 'x \<Rightarrow> bool" where
  "yields api t x [] x' \<longleftrightarrow> la_next api t x = (XOk None, x')"
| "yields api t x (e # es) x' \<longleftrightarrow>
     (\<exists>y. la_next api t x = (XOk (Some e), y) \<and> yields api t y es x')"

text \<open>
  C2. Listing is complete, ordered and sticky. Driving \<open>lister_next\<close> on an open lister hands out
  exactly the entries the backend yields, in order, each as a fresh snapshot; then it reports the
  end, drops the native lister, and reports the end again however often it is called, without
  touching the backend.
\<close>

theorem lister_enumerates:
  assumes "valid_slots slot oerr" and "live_at p (lister_obj (ListerOpen t) False) w"
    and "yields api t (ext w) es x" and "\<forall>e \<in> set es. res_ok (checked_entry e)"
  shows "fst (drive (length es + Suc k) (lister_next api p slot oerr) slot w) =
      map (\<lambda>e. (Returned STATUS_OK, Some (OEntry (projr (checked_entry e))))) es @
      replicate (Suc k) (Returned STATUS_END, None) \<and>
    ext (snd (drive (length es + Suc k) (lister_next api p slot oerr) slot w)) = snd (la_drop api t x)"
  using assms(2-4)
proof (induction es arbitrary: w)
  case Nil
  then obtain w1 where w1: "lister_next api p slot oerr w = (Returned STATUS_END, w1)"
    "lister_after p slot ListerExhausted (snd (la_drop api t x)) None w1"
    using lister_next_end [OF assms(1)] by fastforce
  then show ?case
    using drive_exhausted [OF assms(1), of p w1 k api]
    by (simp add: lister_after_def drive_Suc)
next
  case (Cons e es)
  then obtain y v where y: "la_next api t (ext w) = (XOk (Some e), y)" "yields api t y es x"
    and v: "checked_entry e = Inr v" by (auto simp: res_ok_def split: sum.splits)
  obtain w1 where w1: "lister_next api p slot oerr w = (Returned STATUS_OK, w1)"
    "lister_after p slot (ListerOpen t) y (Some (OEntry v)) w1"
    using lister_next_entry [OF assms(1) Cons.prems(1) y(1) v] by blast
  then show ?case
    using Cons.IH [of w1] Cons.prems y v by (simp add: lister_after_def drive_Suc)
qed

definition sample_entry :: opendal_Entry where
  "sample_entry = \<lparr>oen_name = ''a'', oen_path = ''d/a'', oen_metadata = sample_file\<rparr>"

definition sample_lister_api :: "nat lister_api" where
  "sample_lister_api = \<lparr>la_lister = (\<lambda>_ _ _ x. (XOk 5, x)),
     la_next = (\<lambda>_ x. (XOk (if x = 0 then None else Some sample_entry), x - 1)),
     la_drop = (\<lambda>_ x. (XOk (), x))\<rparr>"

lemma sample_entry_checked:
  "checked_entry sample_entry =
     Inr \<lparr>ent_path = ''d/a'', ent_name = ''a'', ent_metadata = sample_file\<rparr>"
  by (simp add: checked_entry_def sample_entry_def exceeds_output_limit_iff checked_metadata_def
      check_output_string_def sample_file_def Let_def)

lemma lister_enumerates_witness:
  "fst (drive (length [sample_entry, sample_entry] + Suc 1) (lister_next sample_lister_api 16 64 72)
          64 (sample_with (lister_obj (ListerOpen 5) False) 2)) =
     map (\<lambda>e. (Returned STATUS_OK, Some (OEntry (projr (checked_entry e)))))
       [sample_entry, sample_entry] @ replicate (Suc 1) (Returned STATUS_END, None)"
proof (rule lister_enumerates [where t = 5 and x = 0, THEN conjunct1])
  show "valid_slots 64 72" by (simp add: valid_slots_def)
  show "live_at 16 (lister_obj (ListerOpen 5) False) (sample_with (lister_obj (ListerOpen 5) False) 2)"
    by (simp add: live_at_def wf_sample_with)
  show "yields sample_lister_api 5 (ext (sample_with (lister_obj (ListerOpen 5) False) 2))
      [sample_entry, sample_entry] 0" by (simp add: sample_lister_api_def)
  show "\<forall>e \<in> set [sample_entry, sample_entry]. res_ok (checked_entry e)"
    by (simp add: sample_entry_checked)
qed

text \<open>
  A listing error is reported once. When the backend fails, panics, or yields an entry beyond
  the output limits, that call reports it and hands out nothing; the native lister is dropped and
  every later call reports the end.
\<close>

theorem lister_failure_reported_once:
  assumes "valid_slots slot oerr" and "live_at p (lister_obj (ListerOpen t) False) w"
    and "la_next api t (ext w) = (r, x)"
    and "r = XPanic \<or> (\<exists>e. r = XErr e) \<or> (\<exists>e f. r = XOk (Some e) \<and> checked_entry e = Inl f)"
  shows "\<exists>status. status \<notin> {STATUS_OK, STATUS_END} \<and>
    fst (drive (Suc n) (lister_next api p slot oerr) slot w) =
      (Returned status, None) # replicate n (Returned STATUS_END, None)"
proof -
  obtain status w1 where w1: "lister_next api p slot oerr w = (Returned status, w1)"
    "status \<notin> {STATUS_OK, STATUS_END}"
    "lister_after p slot ListerExhausted (snd (la_drop api t x)) None w1"
    using lister_next_failed [OF assms] by blast
  then show ?thesis
    using drive_exhausted [OF assms(1), of p w1 n api]
    by (auto simp: lister_after_def drive_Suc)
qed

lemma lister_failure_reported_once_witness:
  "\<exists>status. status \<notin> {STATUS_OK, STATUS_END} \<and>
    fst (drive (Suc 2) (lister_next (sample_lister_api\<lparr>la_next := (\<lambda>_ x. (XPanic, x))\<rparr>) 16 64 72) 64
          (sample_with (lister_obj (ListerOpen 5) False) 2)) =
      (Returned status, None) # replicate 2 (Returned STATUS_END, None)"
  by (rule lister_failure_reported_once [where t = 5 and r = XPanic and x = 2])
    (simp_all add: valid_slots_def live_at_def wf_sample_with)

text \<open>
  An exhausted or closed lister stays so: under every sequence of next and close calls, with
  any output slots, it remains exhausted or closed and no further call reaches the backend.
\<close>

theorem lister_terminal_forever:
  assumes "lister_terminal p x w"
  shows "lister_terminal p x (run_ops (lister_apply api p slot oerr) ops w)"
  using assms by (rule lister_life.terminal_run)

lemma lister_terminal_forever_witness:
  "lister_terminal 16 7 (run_ops (lister_apply sample_lister_api 16 64 72) [LNext, LClose, LNext]
      (sample_with (lister_obj ListerExhausted False) 7))"
  by (rule lister_terminal_forever) (auto simp: lister_terminal_def live_at_def wf_sample_with)

end
