(* ===== verification/Reader.thy ===== *)
theory Reader
  imports Operator Sessions
begin

text \<open>
  Random-access readers (\<open>operator_reader\<close>, \<open>reader_read\<close>, \<open>reader_close\<close>, \<open>reader_free\<close> of \<open>lib.rs\<close>).
  A reader is an \<open>RwLock\<close> around \<open>Open\<close> or \<open>Closed\<close>. A panic below \<open>reader_read\<close> closes the reader.
\<close>

section \<open>Operations\<close>

record 'x reader_api =
  ra_reader :: "token \<Rightarrow> string \<Rightarrow> ReaderOptions \<Rightarrow> ('x, token) xcall"
  ra_read :: "token \<Rightarrow> BytesRange \<Rightarrow> ('x, Buffer) xcall"
  ra_into_iterator :: "token \<Rightarrow> BytesRange \<Rightarrow> ('x, Buffer ext_result list) xcall"
  ra_drop :: "token \<Rightarrow> ('x, unit) xcall"
  ra_grow :: "usize \<Rightarrow> usize"

definition operator_reader_body ::
  "'x reader_api \<Rightarrow> addr \<Rightarrow> addr \<Rightarrow> addr \<Rightarrow> ('x, ReaderV1) M" where
  "operator_reader_body api operator path options =
     bind (borrow_required as_operator operator) (\<lambda>operator.
     bind (with_inputs (\<lambda>m. read_text m path ''path'')) (\<lambda>path.
     bind (with_inputs (\<lambda>m. parse_reader_options m options)) (\<lambda>options.
     bind (ext_call opendal_error (ra_reader api (op_inner operator) path options)) (\<lambda>reader.
       ret \<lparr>reader_state = \<lparr>mx_state = ReaderOpen reader, mx_poisoned = False\<rparr>,
            reader_read_with_suffix = op_read_with_suffix operator\<rparr>))))"

definition operator_reader ::
  "'x reader_api \<Rightarrow> addr \<Rightarrow> addr \<Rightarrow> addr \<Rightarrow> addr \<Rightarrow> addr \<Rightarrow> 'x world \<Rightarrow> exit \<times> 'x world" where
  "operator_reader api operator path options out_reader out_error =
     catch_status (with_outputs [clear_ptr_output out_reader, clear_error_output out_error]
       out_error
       (deliver (operator_reader_body api operator path options)
          (\<lambda>a. write_handle out_reader (OReader a)) out_error))"

definition drop_blocking_reader_contained :: "'x reader_api \<Rightarrow> token \<Rightarrow> ('x, unit) M" where
  "drop_blocking_reader_contained api = drop_contained (ra_drop api)"

definition close_reader_state :: "'x reader_api \<Rightarrow> addr \<Rightarrow> ReaderV1 \<Rightarrow> ('x, unit) M" where
  "close_reader_state api p reader =
     bind (put_box p (OReader (reader\<lparr>reader_state :=
             \<lparr>mx_state = ReaderClosed, mx_poisoned = False\<rparr>\<rparr>))) (\<lambda>_.
       case mx_state (reader_state reader) of
         ReaderOpen inner \<Rightarrow> drop_blocking_reader_contained api inner
       | ReaderClosed \<Rightarrow> ret ())"

fun range_exceeds :: "BytesRange \<Rightarrow> u64 \<Rightarrow> bool" where
  "range_exceeds (Range _ (Some n)) limit \<longleftrightarrow> n > limit"
| "range_exceeds (Suffix n) limit \<longleftrightarrow> n > limit"
| "range_exceeds (Range _ None) limit \<longleftrightarrow> False"

fun is_open_ended :: "BytesRange \<Rightarrow> bool" where
  "is_open_ended (Range _ None) = True"
| "is_open_ended _ = False"

definition reader_read_body ::
  "'x reader_api \<Rightarrow> addr \<Rightarrow> ReaderV1 \<Rightarrow> addr \<Rightarrow> u64 \<Rightarrow> ('x, BufferV1) M" where
  "reader_read_body api p reader range_ptr max_output_len =
     bind (with_inputs (\<lambda>m. res_bind (read_required 8 (i_range m) range_ptr) parse_range)) (\<lambda>rng.
       let negotiated_limit = min max_output_len MAX_OUTPUT_BYTES in
       bind (lift_res (ensure_suffix_is_native rng (reader_read_with_suffix reader))) (\<lambda>_.
         if range_exceeds rng negotiated_limit
         then throw (buffer_too_large ''reader range exceeds the negotiated output limit'')
         else if mx_poisoned (reader_state reader)
         then bind (close_reader_state api p reader) (\<lambda>_.
                throw (unexpected ''reader state lock was poisoned''))
         else
           case mx_state (reader_state reader) of
             ReaderClosed \<Rightarrow> throw (resource_closed ''reader is closed'')
           | ReaderOpen inner \<Rightarrow>
               if is_open_ended rng
               then read_open_ended_bounded (ra_grow api) (ra_into_iterator api) inner rng
                      negotiated_limit
               else bind (ext_call opendal_error (ra_read api inner rng)) (\<lambda>buffer.
                      lift_res (checked_read_buffer buffer negotiated_limit ''reader result''))))"

definition recover_panic ::
  "('x, u32) M \<Rightarrow> ('x, unit) M \<Rightarrow> 'x world \<Rightarrow> exit \<times> 'x world" where
  \<comment> \<open>\<open>match catch_unwind(m) \<open>{\<close> Ok(status) => status, Err(_) => \<open>{\<close> recover; STATUS_PANIC \<open>}\<close> \<open>}\<close>\<close>\<close>
  "recover_panic m recover w =
     (case m w of
        (Ok status, w') \<Rightarrow> (Returned status, w')
      | (Panic, w') \<Rightarrow>
          (case recover w' of
             (Ok _, w'') \<Rightarrow> (Returned STATUS_PANIC, w'')
           | (Blocked, w'') \<Rightarrow> (Waiting, w'')
           | (_, w'') \<Rightarrow> (Undefined, w''))
      | (Blocked, w') \<Rightarrow> (Waiting, w')
      | (_, w') \<Rightarrow> (Undefined, w'))"

definition if_aligned :: "addr \<Rightarrow> ('x, unit) M \<Rightarrow> ('x, unit) M" where
  "if_aligned p m = (if p \<noteq> null_ptr \<and> is_aligned 8 p then m else ret ())"

definition reader_read ::
  "'x reader_api \<Rightarrow> addr \<Rightarrow> addr \<Rightarrow> u64 \<Rightarrow> addr \<Rightarrow> addr \<Rightarrow> 'x world \<Rightarrow> exit \<times> 'x world" where
  "reader_read api reader range_ptr max_output_len out_buffer out_error =
     recover_panic
       (with_outputs [clear_ptr_output out_buffer, clear_error_output out_error] out_error
         (with_handle as_reader reader out_error (\<lambda>r.
            deliver (reader_read_body api reader r range_ptr max_output_len)
              (\<lambda>a. write_handle out_buffer (OBuffer a)) out_error)))
       (if_aligned reader (on_handle as_reader reader (close_reader_state api reader)))"

definition reader_close :: "'x reader_api \<Rightarrow> addr \<Rightarrow> ('x, unit) M" where
  "reader_close api reader = on_handle as_reader reader (close_reader_state api reader)"

definition reader_free :: "'x reader_api \<Rightarrow> addr \<Rightarrow> ('x, unit) M" where
  "reader_free api reader =
     on_handle as_reader reader (\<lambda>r.
       bind (close_reader_state api reader r) (\<lambda>_. free_box as_reader reader))"

section \<open>Reading\<close>

lemma quiet_operator_reader: "quiet (operator_reader_body api p path opts)"
  unfolding operator_reader_body_def by (intro quiet_intros)

interpretation reader_call: quiet_body "operator_reader_body api p path opts"
  for api p path opts by unfold_locales (rule quiet_operator_reader)

definition reader_obj :: "ReaderStateV1 \<Rightarrow> bool \<Rightarrow> bool \<Rightarrow> obj" where
  "reader_obj s poisoned suffix =
     OReader \<lparr>reader_state = \<lparr>mx_state = s, mx_poisoned = poisoned\<rparr>,
              reader_read_with_suffix = suffix\<rparr>"

text \<open>What the backend returns for a range, and what the caller may get of it.\<close>

definition backend_bytes ::
  "'x reader_api \<Rightarrow> token \<Rightarrow> BytesRange \<Rightarrow> 'x \<Rightarrow> u8 list \<Rightarrow> 'x \<Rightarrow> bool" where
  "backend_bytes api t rng x bs x' \<longleftrightarrow>
     (if is_open_ended rng
      then \<exists>bufs. ra_into_iterator api t rng x = (XOk (map XOk bufs), x') \<and> bs = concat (concat bufs)
      else \<exists>buf. ra_read api t rng x = (XOk buf, x') \<and> bs = concat buf)"

lemma collect_too_large:
  assumes "\<not> length (concat (concat bufs)) \<le> unat limit"
  shows "\<exists>msg. collect_bounded_read_chunks grow (map XOk bufs) limit subject w =
    (Err (buffer_too_large msg), w)"
proof -
  have "collect_from grow (map XOk bufs) limit subject vec_new \<noteq> (Ok (), v')" for v'
    using collect_Ok_iff [of grow "map XOk bufs" limit subject w "\<lparr>buf_bytes = v_bytes v'\<rparr>"] assms
    by (auto simp: collect_bounded_read_chunks_def inj_map_eq_map inj_def)
  then show ?thesis
    using collect_from_cases [of vec_new limit grow "map XOk bufs" subject]
    by (auto simp: vec_new_def collect_bounded_read_chunks_def)
qed

lemma collect_fits:
  assumes "length (concat (concat bufs)) \<le> unat limit"
  shows "collect_bounded_read_chunks grow (map XOk bufs) limit subject w =
    (Ok \<lparr>buf_bytes = concat (concat bufs)\<rparr>, w)"
  using collect_Ok_iff [of grow "map XOk bufs" limit subject w "\<lparr>buf_bytes = concat (concat bufs)\<rparr>"]
    assms collect_world [of grow "map XOk bufs" limit subject w]
  by (auto simp del: collect_world)

lemma checked_read_buffer_Inl:
  assumes "\<not> (length (concat buf) \<le> 2147483647 \<and> length (concat buf) \<le> unat limit)"
  shows "\<exists>msg. checked_read_buffer buf limit subject = Inl (buffer_too_large msg)"
proof (cases "checked_read_buffer buf limit subject")
  case (Inl e)
  then show ?thesis
    by (auto simp: checked_read_buffer_def split: option.splits if_splits)
next
  case (Inr b)
  then show ?thesis using assms by (simp add: checked_read_buffer_Inr)
qed

lemma reader_body_exact:
  assumes rng: "res_bind (read_required 8 (i_range (inp w)) rp) parse_range = Inr rng"
    and suffix: "is_suffix rng \<longrightarrow> sfx"
    and size: "\<not> range_exceeds rng (min limit MAX_OUTPUT_BYTES)"
    and bytes: "backend_bytes api t rng (ext w) bs x"
  defines "r \<equiv> \<lparr>reader_state = \<lparr>mx_state = ReaderOpen t, mx_poisoned = False\<rparr>,
                reader_read_with_suffix = sfx\<rparr>"
  shows "if length bs \<le> min (unat limit) 2147483647
    then reader_read_body api p r rp limit w = (Ok \<lparr>buf_bytes = bs\<rparr>, w\<lparr>ext := x\<rparr>)
    else \<exists>msg. reader_read_body api p r rp limit w = (Err (buffer_too_large msg), w\<lparr>ext := x\<rparr>)"
proof -
  let ?limit = "min limit MAX_OUTPUT_BYTES"
  have lim: "unat ?limit = min (unat limit) 2147483647" by (simp add: unat_min_u64)
  have native: "ensure_suffix_is_native rng sfx = Inr ()"
    using suffix by (simp add: ensure_suffix_is_native_def)
  show ?thesis
  proof (cases "is_open_ended rng")
    case True
    then obtain bufs where bufs: "ra_into_iterator api t rng (ext w) = (XOk (map XOk bufs), x)"
      "bs = concat (concat bufs)" using bytes by (auto simp: backend_bytes_def)
    have "reader_read_body api p r rp limit w =
        collect_bounded_read_chunks (ra_grow api) (map XOk bufs) ?limit ''reader result''
          (w\<lparr>ext := x\<rparr>)"
      using True size bufs rng
      by (simp add: reader_read_body_def bind_def run_simps native r_def Let_def
          read_open_ended_bounded_def)
    then show ?thesis
      using collect_fits [of bufs ?limit "ra_grow api" "''reader result''" "w\<lparr>ext := x\<rparr>"]
        collect_too_large [of bufs ?limit "ra_grow api" "''reader result''" "w\<lparr>ext := x\<rparr>"]
      unfolding lim bufs(2) by (cases "length (concat (concat bufs)) \<le> min (unat limit) 2147483647") auto
  next
    case False
    then obtain buf where buf: "ra_read api t rng (ext w) = (XOk buf, x)" "bs = concat buf"
      using bytes by (auto simp: backend_bytes_def)
    have "reader_read_body api p r rp limit w =
        lift_res (checked_read_buffer buf ?limit ''reader result'') (w\<lparr>ext := x\<rparr>)"
      using False size buf rng
      by (simp add: reader_read_body_def bind_def run_simps native r_def Let_def)
    moreover have "checked_read_buffer buf ?limit ''reader result'' = Inr \<lparr>buf_bytes = bs\<rparr>"
      if "length bs \<le> min (unat limit) 2147483647"
      using that lim buf(2) by (simp add: checked_read_buffer_Inr)
    moreover have "\<exists>msg. checked_read_buffer buf ?limit ''reader result'' = Inl (buffer_too_large msg)"
      if "\<not> length bs \<le> min (unat limit) 2147483647"
      using that lim buf(2) by (intro checked_read_buffer_Inl) simp
    ultimately show ?thesis
      by (cases "length bs \<le> min (unat limit) 2147483647") (fastforce simp: run_simps)+
  qed
qed

text \<open>The state of a reader after a call, and what the output slot designates.\<close>

definition reader_after ::
  "addr \<Rightarrow> addr \<Rightarrow> obj \<Rightarrow> 'x \<Rightarrow> obj option \<Rightarrow> 'x world \<Rightarrow> bool" where
  "reader_after p slot ob x result w \<longleftrightarrow>
     live_at p ob w \<and> ext w = x \<and> boxes w (o_ptr (out w) slot) = result"

lemma as_reader_obj [simp]:
  "as_reader (reader_obj s b sfx) = Some \<lparr>reader_state = \<lparr>mx_state = s, mx_poisoned = b\<rparr>,
     reader_read_with_suffix = sfx\<rparr>"
  by (simp add: reader_obj_def)

lemma reader_read_run:
  assumes "valid_slots slot oerr" and "live_at p (reader_obj s b sfx) w"
  shows "reader_read api p rp limit slot oerr w =
    recover_panic (deliver (reader_read_body api p \<lparr>reader_state = \<lparr>mx_state = s, mx_poisoned = b\<rparr>,
        reader_read_with_suffix = sfx\<rparr> rp limit) (\<lambda>a. write_handle slot (OBuffer a)) oerr)
      (if_aligned p (on_handle as_reader p (close_reader_state api p))) (clear_slots {slot, oerr} w)"
  using assms
  by (simp add: reader_read_def recover_panic_def run_with_handle_outputs valid_slots_def
      run_with_handle [where ob = "reader_obj s b sfx" and w = w])

lemma deliver_error_frame:
  assumes "wf_world w0" and "boxes w0 p = Some ob" and "body w0 = (Err f, w0\<lparr>ext := x\<rparr>)"
    and "o_ptr (out w0) slot = 0" and "slot \<noteq> oerr"
  shows "\<exists>w'. deliver body wr oerr w0 =
      (Ok (case f of AbiMismatch \<Rightarrow> STATUS_ABI_MISMATCH | Error _ \<Rightarrow> STATUS_ERROR), w') \<and>
    live_at p ob w' \<and> ext w' = x \<and> boxes w' (o_ptr (out w') slot) = None"
proof -
  have "wf_world (w0\<lparr>ext := x\<rparr>)" using assms(1) by (simp add: wf_world_def)
  with run_finish_failure_frame [of f oerr "w0\<lparr>ext := x\<rparr>"] obtain w' where
    "finish_failure f oerr (w0\<lparr>ext := x\<rparr>) =
      (Ok (case f of AbiMismatch \<Rightarrow> STATUS_ABI_MISMATCH | Error _ \<Rightarrow> STATUS_ERROR), w')"
    "ext w' = x" "wf_world w'" "boxes w' p = Some ob" "o_ptr (out w') slot = 0"
    using assms(2,4,5) by auto
  then show ?thesis
    using assms(3) wf_no_null [of w'] by (simp add: run_deliver live_at_def)
qed

lemma reader_read_error:
  assumes "valid_slots slot oerr" and "live_at p (reader_obj s b sfx) w"
    and "reader_read_body api p \<lparr>reader_state = \<lparr>mx_state = s, mx_poisoned = b\<rparr>,
           reader_read_with_suffix = sfx\<rparr> rp limit (clear_slots {slot, oerr} w) =
         (Err (binding_error k n m), (clear_slots {slot, oerr} w)\<lparr>ext := x\<rparr>)"
  shows "\<exists>w'. reader_read api p rp limit slot oerr w = (Returned STATUS_ERROR, w') \<and>
    reader_after p slot (reader_obj s b sfx) x None w'"
proof -
  note live = live_atD [OF assms(2)]
  have "slot \<noteq> 0" "slot \<noteq> oerr" using assms(1) by (auto simp: valid_slots_def)
  then have "\<exists>w'. deliver (reader_read_body api p \<lparr>reader_state = \<lparr>mx_state = s, mx_poisoned = b\<rparr>,
        reader_read_with_suffix = sfx\<rparr> rp limit) (\<lambda>a. write_handle slot (OBuffer a)) oerr
        (clear_slots {slot, oerr} w) =
      (Ok (case binding_error k n m of AbiMismatch \<Rightarrow> STATUS_ABI_MISMATCH | Error _ \<Rightarrow> STATUS_ERROR), w') \<and>
    live_at p (reader_obj s b sfx) w' \<and> ext w' = x \<and> boxes w' (o_ptr (out w') slot) = None"
    using live assms(3) by (intro deliver_error_frame) (simp_all add: o_ptr_clear_slots)
  then show ?thesis
    by (auto simp: reader_read_run [OF assms(1,2)] recover_panic_def reader_after_def
        binding_error_def Let_def)
qed

section \<open>Properties\<close>

text \<open>
  C32. A reader returns exactly the bytes of the requested range. For an open reader and a canonical
  range whose declared size is within the limit, the call hands out a fresh buffer with exactly the
  backend's bytes when they fit the negotiated limit, and otherwise an error and no buffer; either
  way the reader stays open and usable.
\<close>

theorem reader_read_exact:
  assumes "valid_slots slot oerr" and "live_at p (reader_obj (ReaderOpen t) False sfx) w"
    and "res_bind (read_required 8 (i_range (inp w)) rp) parse_range = Inr rng"
    and "is_suffix rng \<longrightarrow> sfx" and "\<not> range_exceeds rng (min limit MAX_OUTPUT_BYTES)"
    and "backend_bytes api t rng (ext w) bs x"
  shows "\<exists>w'. let fits = length bs \<le> min (unat limit) 2147483647 in
    reader_read api p rp limit slot oerr w =
      (Returned (if fits then STATUS_OK else STATUS_ERROR), w') \<and>
    reader_after p slot (reader_obj (ReaderOpen t) False sfx) x
      (if fits then Some (OBuffer \<lparr>buf_bytes = bs\<rparr>) else None) w'"
proof -
  note live = live_atD [OF assms(2)]
  let ?w0 = "clear_slots {slot, oerr} w"
  have body: "if length bs \<le> min (unat limit) 2147483647
    then reader_read_body api p \<lparr>reader_state = \<lparr>mx_state = ReaderOpen t, mx_poisoned = False\<rparr>,
           reader_read_with_suffix = sfx\<rparr> rp limit ?w0 = (Ok \<lparr>buf_bytes = bs\<rparr>, ?w0\<lparr>ext := x\<rparr>)
    else \<exists>msg. reader_read_body api p \<lparr>reader_state = \<lparr>mx_state = ReaderOpen t, mx_poisoned = False\<rparr>,
           reader_read_with_suffix = sfx\<rparr> rp limit ?w0 = (Err (buffer_too_large msg), ?w0\<lparr>ext := x\<rparr>)"
    by (rule reader_body_exact) (use assms in simp_all)
  show ?thesis
  proof (cases "length bs \<le> min (unat limit) 2147483647")
    case True
    let ?w' = "snd (reader_read api p rp limit slot oerr w)"
    have run: "reader_read api p rp limit slot oerr w = (Returned STATUS_OK, ?w') \<and>
        boxes ?w' = (boxes w)(next_box w \<mapsto> OBuffer \<lparr>buf_bytes = bs\<rparr>) \<and>
        next_box ?w' = next_box w + 16 \<and> ext ?w' = x \<and> o_ptr (out ?w') slot = next_box w"
      using True body
      by (simp add: reader_read_run [OF assms(1,2)] recover_panic_def run_deliver bind_def
          run_write_handle run_simps)
    moreover have "wf_world ?w'" using run by (intro wf_world_new [OF live(5)]) auto
    ultimately show ?thesis
      using True live(1,4) by (intro exI [of _ ?w']) (simp add: reader_after_def live_at_def)
  next
    case False
    then obtain msg where err: "reader_read_body api p
        \<lparr>reader_state = \<lparr>mx_state = ReaderOpen t, mx_poisoned = False\<rparr>, reader_read_with_suffix = sfx\<rparr>
        rp limit ?w0 = (Err (buffer_too_large msg), ?w0\<lparr>ext := x\<rparr>)" using body by auto
    with reader_read_error [OF assms(1,2), of api rp limit ERROR_BUFFER_TOO_LARGE "''BufferTooLarge''"
        msg x] False
    show ?thesis by (simp add: buffer_too_large_def) blast
  qed
qed

definition sample_reader_api :: "nat reader_api" where
  "sample_reader_api = \<lparr>ra_reader = (\<lambda>_ _ _ x. (XOk 4, x)), ra_read = (\<lambda>_ _ x. (XOk [[1], [2]], x)),
     ra_into_iterator = (\<lambda>_ _ x. (XOk [XOk [[1, 2]], XOk [[3]]], x)), ra_drop = (\<lambda>_ x. (XOk (), x + 1)),
     ra_grow = id\<rparr>"

lemma reader_read_exact_witness:
  "\<exists>w'. reader_read sample_reader_api 16 8 100 64 72
      (sample_with (reader_obj (ReaderOpen 4) False True) 0) = (Returned STATUS_OK, w') \<and>
    boxes w' (o_ptr (out w') 64) = Some (OBuffer \<lparr>buf_bytes = [1, 2, 3]\<rparr>)"
proof -
  have "backend_bytes sample_reader_api 4 (Range 0 None) 0 [1, 2, 3] 0"
    unfolding backend_bytes_def
    by (simp add: sample_reader_api_def, rule exI [of _ "[[[1, 2]], [[3]]]"]) simp
  moreover have "res_bind (read_required 8 (i_range sample_inputs) 8) parse_range = Inr (Range 0 None)"
    by (simp add: read_required_def null_ptr_def is_aligned_def sample_inputs_def parse_range_def
        sample_range_def size_of_ByteRangeV1_def BytesRange_default_def)
  ultimately show ?thesis
    using reader_read_exact [of 64 72 16 4 True "sample_with (reader_obj (ReaderOpen 4) False True) 0"
        8 "Range 0 None" 100 sample_reader_api "[1, 2, 3]" 0]
    by (auto simp: valid_slots_def live_at_def wf_sample_with reader_after_def)
qed

text \<open>
  A panic below a read closes the reader for good: the call reports \<open>STATUS_PANIC\<close> and hands out
  nothing, the native reader is dropped, and the next read with a well-formed range reports an error
  without reaching the backend.
\<close>

theorem reader_panic_closes:
  assumes "valid_slots slot oerr" and "live_at p (reader_obj (ReaderOpen t) False sfx) w"
    and "res_bind (read_required 8 (i_range (inp w)) rp) parse_range = Inr rng"
    and "is_suffix rng \<longrightarrow> sfx" and "\<not> range_exceeds rng (min limit MAX_OUTPUT_BYTES)"
    and "\<not> is_open_ended rng" and "ra_read api t rng (ext w) = (XPanic, x)"
  shows "\<exists>w1 w2. reader_read api p rp limit slot oerr w = (Returned STATUS_PANIC, w1) \<and>
    reader_after p slot (reader_obj ReaderClosed False sfx) (snd (ra_drop api t x)) None w1 \<and>
    reader_read api p rp limit slot oerr w1 = (Returned STATUS_ERROR, w2) \<and>
    reader_after p slot (reader_obj ReaderClosed False sfx) (snd (ra_drop api t x)) None w2"
proof -
  note live = live_atD [OF assms(2)]
  let ?w0 = "clear_slots {slot, oerr} w" and ?w1 = "snd (reader_read api p rp limit slot oerr w)"
  have native: "ensure_suffix_is_native rng sfx = Inr ()"
    using assms(4) by (simp add: ensure_suffix_is_native_def)
  have body: "reader_read_body api p \<lparr>reader_state = \<lparr>mx_state = ReaderOpen t, mx_poisoned = False\<rparr>,
      reader_read_with_suffix = sfx\<rparr> rp limit ?w0 = (Panic, ?w0\<lparr>ext := x\<rparr>)"
    using assms(3,5-7) by (simp add: reader_read_body_def bind_def run_simps native Let_def)
  have run: "reader_read api p rp limit slot oerr w = (Returned STATUS_PANIC, ?w1) \<and>
      boxes ?w1 = (boxes w)(p \<mapsto> reader_obj ReaderClosed False sfx) \<and> next_box ?w1 = next_box w \<and>
      ext ?w1 = snd (ra_drop api t x) \<and> inp ?w1 = inp w \<and> o_ptr (out ?w1) slot = 0"
    using body live assms(1)
    by (simp add: reader_read_run [OF assms(1,2)] recover_panic_def run_deliver if_aligned_def
        null_ptr_def is_aligned_def mod_eq_0_iff_dvd on_handle_def close_reader_state_def bind_def
        run_simps drop_blocking_reader_contained_def reader_obj_def o_ptr_clear_slots valid_slots_def)
  have wf1: "wf_world ?w1" using run by (intro wf_world_put [OF live(5,1)]) auto
  have after1: "reader_after p slot (reader_obj ReaderClosed False sfx) (snd (ra_drop api t x)) None ?w1"
    using run wf1 wf_no_null [OF wf1] live(6) by (simp add: reader_after_def live_at_def)
  then have live1: "live_at p (reader_obj ReaderClosed False sfx) ?w1"
    by (simp add: reader_after_def)
  let ?w10 = "clear_slots {slot, oerr} ?w1"
  have body2: "reader_read_body api p \<lparr>reader_state = \<lparr>mx_state = ReaderClosed, mx_poisoned = False\<rparr>,
      reader_read_with_suffix = sfx\<rparr> rp limit ?w10 =
      (Err (resource_closed ''reader is closed''), ?w10\<lparr>ext := snd (ra_drop api t x)\<rparr>)"
    using assms(3,5,6) run by (simp add: reader_read_body_def bind_def run_simps native Let_def)
  from body2 have "\<exists>w2. reader_read api p rp limit slot oerr ?w1 = (Returned STATUS_ERROR, w2) \<and>
      reader_after p slot (reader_obj ReaderClosed False sfx) (snd (ra_drop api t x)) None w2"
    unfolding resource_closed_def by (rule reader_read_error [OF assms(1) live1])
  with run after1 show ?thesis by blast
qed

lemma reader_panic_closes_witness:
  "\<exists>w1. reader_read (sample_reader_api\<lparr>ra_read := (\<lambda>_ _ x. (XPanic, x))\<rparr>) 16 8 100 64 72
      ((sample_with (reader_obj (ReaderOpen 4) False True) 0)
         \<lparr>inp := sample_inputs\<lparr>i_range := (\<lambda>_. sample_range\<lparr>br_kind := 3, br_length := 5\<rparr>)\<rparr>\<rparr>) =
      (Returned STATUS_PANIC, w1) \<and> ext w1 = 1"
proof -
  let ?m = "sample_inputs\<lparr>i_range := (\<lambda>_. sample_range\<lparr>br_kind := 3, br_length := 5\<rparr>)\<rparr>"
  let ?w = "(sample_with (reader_obj (ReaderOpen 4) False True) 0)\<lparr>inp := ?m\<rparr>"
  have "res_bind (read_required 8 (i_range ?m) 8) parse_range = Inr (Suffix 5)"
    by (simp add: read_required_def null_ptr_def is_aligned_def parse_range_def sample_range_def
        size_of_ByteRangeV1_def)
  moreover have "live_at 16 (reader_obj (ReaderOpen 4) False True) ?w"
    using wf_sample_with [of "reader_obj (ReaderOpen 4) False True" 0]
    by (simp add: live_at_def wf_world_def)
  ultimately show ?thesis
    using reader_panic_closes [of 64 72 16 4 True ?w 8 "Suffix 5" 100
        "sample_reader_api\<lparr>ra_read := (\<lambda>_ _ x. (XPanic, x))\<rparr>" 0]
    by (auto simp: valid_slots_def reader_after_def sample_reader_api_def)
qed

end
