(* ===== verification/ReadStream.thy ===== *)
theory ReadStream
  imports Reader
begin

text \<open>
  Sequential read streams (\<open>operator_read_stream\<close>, \<open>read_stream_next\<close>, \<open>read_stream_close\<close>,
  \<open>read_stream_free\<close> of \<open>lib.rs\<close>). A stream cuts the buffers an OpenDAL iterator yields into chunks
  of at most \<open>chunk_size\<close> bytes; what is left of a buffer waits in the cursor.

  \<open>sa_split_to\<close> is \<open>Buffer::split_to\<close>. A value dropped while the lock is held may panic in its
  destructor; the panic poisons the lock, so the lock counts as poisoned until the drop has returned.
\<close>

section \<open>Operations\<close>

record 'x stream_api =
  sa_reader :: "token \<Rightarrow> string \<Rightarrow> ReaderOptions \<Rightarrow> ('x, token) xcall"
  sa_into_iterator :: "token \<Rightarrow> BytesRange \<Rightarrow> ('x, token) xcall"
  sa_next :: "token \<Rightarrow> ('x, Buffer option) xcall"
  sa_drop :: "token \<Rightarrow> ('x, unit) vcall"
  sa_split_to :: "Buffer \<Rightarrow> usize \<Rightarrow> Buffer \<times> Buffer"

definition operator_read_stream_body ::
  "'x stream_api \<Rightarrow> addr \<Rightarrow> addr \<Rightarrow> addr \<Rightarrow> ('x, ReadStreamV1) M" where
  "operator_read_stream_body api operator path options =
     bind (borrow_required as_operator operator) (\<lambda>operator.
     bind (with_inputs (\<lambda>m. read_text m path ''path'')) (\<lambda>path.
     bind (with_inputs (\<lambda>m. parse_read_stream_options m options)) (\<lambda>parsed.
     bind (lift_res (ensure_suffix_is_native (prs_range parsed) (op_read_with_suffix operator)))
       (\<lambda>_.
     bind (ext_call opendal_error (sa_reader api (op_inner operator) path (prs_reader parsed)))
       (\<lambda>reader.
     bind (ext_call opendal_error (sa_into_iterator api reader (prs_range parsed))) (\<lambda>iterator.
       ret \<lparr>stream_state =
              \<lparr>mx_state = StreamOpen \<lparr>cur_iterator = iterator, cur_pending = None\<rparr>,
               mx_poisoned = False\<rparr>,
            stream_chunk_size = prs_chunk_size parsed\<rparr>))))))"

definition operator_read_stream ::
  "'x stream_api \<Rightarrow> addr \<Rightarrow> addr \<Rightarrow> addr \<Rightarrow> addr \<Rightarrow> addr \<Rightarrow> 'x world \<Rightarrow> exit \<times> 'x world" where
  "operator_read_stream api operator path options out_stream out_error =
     catch_status (with_outputs [clear_ptr_output out_stream, clear_error_output out_error]
       out_error
       (deliver (operator_read_stream_body api operator path options)
          (\<lambda>a. write_handle out_stream (OReadStream a)) out_error))"

definition set_stream :: "addr \<Rightarrow> ReadStreamV1 \<Rightarrow> ReadStreamStateV1 \<Rightarrow> bool \<Rightarrow> ('x, unit) M" where
  "set_stream p stream s poisoned =
     put_box p (OReadStream (stream\<lparr>stream_state := \<lparr>mx_state = s, mx_poisoned = poisoned\<rparr>\<rparr>))"

definition drop_cursor :: "'x stream_api \<Rightarrow> ReadStreamCursorV1 \<Rightarrow> ('x, unit) M" where
  "drop_cursor api cursor = ext_value (sa_drop api (cur_iterator cursor))"

definition drop_stream_state :: "'x stream_api \<Rightarrow> ReadStreamStateV1 \<Rightarrow> ('x, unit) M" where
  "drop_stream_state api s =
     (case s of StreamOpen cursor \<Rightarrow> drop_cursor api cursor | _ \<Rightarrow> ret ())"

definition close_read_stream_state :: "'x stream_api \<Rightarrow> addr \<Rightarrow> ReadStreamV1 \<Rightarrow> ('x, unit) M" where
  "close_read_stream_state api p stream =
     bind (set_stream p stream StreamClosed True) (\<lambda>_.
     bind (drop_stream_state api (mx_state (stream_state stream))) (\<lambda>_.
       set_stream p stream StreamClosed False))"

definition fail_read_stream_state :: "'x stream_api \<Rightarrow> addr \<Rightarrow> ReadStreamV1 \<Rightarrow> ('x, unit) M" where
  "fail_read_stream_state api p stream =
     bind (set_stream p stream StreamFailed True) (\<lambda>_.
     bind (drop_stream_state api (mx_state (stream_state stream))) (\<lambda>_.
       set_stream p stream StreamFailed False))"

definition read_stream_lock_failure ::
  "'x stream_api \<Rightarrow> addr \<Rightarrow> ReadStreamV1 \<Rightarrow> ('x, CallFailure) M" where
  "read_stream_lock_failure api p stream =
     bind (fail_read_stream_state api p stream) (\<lambda>_.
       ret (unexpected ''read stream state lock was poisoned''))"

definition stream_step ::
  "'x stream_api \<Rightarrow> u64 \<Rightarrow> ReadStreamCursorV1 \<Rightarrow> ('x, (Buffer \<times> ReadStreamCursorV1) option) M" where
  \<comment> \<open>the closure under \<open>catch_unwind\<close>: the chunk and the cursor after it\<close>
  "stream_step api chunk_size cursor =
     bind (case cur_pending cursor of
             Some buffer \<Rightarrow> ret (Some buffer)
           | None \<Rightarrow> ext_call opendal_error (sa_next api (cur_iterator cursor))) (\<lambda>item.
       case item of
         None \<Rightarrow> ret None
       | Some buffer \<Rightarrow>
           bind (lift_res (split_read_stream_buffer (sa_split_to api) buffer chunk_size)) (\<lambda>r.
             ret (Some (fst r, cursor\<lparr>cur_pending := snd r\<rparr>))))"

definition read_stream_locked ::
  "'x stream_api \<Rightarrow> addr \<Rightarrow> u64 \<Rightarrow> addr \<Rightarrow> addr \<Rightarrow> ReadStreamV1 \<Rightarrow> ('x, u32) M" where
  \<comment> \<open>\<open>read_stream_next\<close> once the lock is held\<close>
  "read_stream_locked api p max_output_len out_buffer out_error stream =
     bind (set_stream p stream StreamFailed False) (\<lambda>_.
       case mx_state (stream_state stream) of
         StreamEnd \<Rightarrow> bind (set_stream p stream StreamEnd False) (\<lambda>_. ret STATUS_END)
       | StreamFailed \<Rightarrow>
           bind (set_stream p stream StreamFailed False) (\<lambda>_.
             finish_failure (resource_closed ''read stream is closed'') out_error)
       | StreamClosed \<Rightarrow>
           bind (set_stream p stream StreamClosed False) (\<lambda>_.
             finish_failure (resource_closed ''read stream is closed'') out_error)
       | StreamOpen cursor \<Rightarrow>
           bind (catch_unwind (stream_step api (stream_chunk_size stream) cursor)) (\<lambda>step.
             case step of
               Some (Inr (Some (buffer, cursor'))) \<Rightarrow>
                 (case checked_read_buffer buffer
                         (min max_output_len (stream_chunk_size stream)) ''read stream chunk'' of
                    Inr b \<Rightarrow>
                      bind (set_stream p stream (StreamOpen cursor') False) (\<lambda>_.
                      bind (write_handle out_buffer (OBuffer b)) (\<lambda>_.
                        ret STATUS_OK))
                  | Inl failure \<Rightarrow>
                      bind (finish_failure failure out_error) (\<lambda>status.
                      bind (drop_cursor api cursor) (\<lambda>_. ret status)))
             | Some (Inr None) \<Rightarrow>
                 bind (set_stream p stream StreamEnd False) (\<lambda>_.
                 bind (drop_cursor api cursor) (\<lambda>_. ret STATUS_END))
             | Some (Inl failure) \<Rightarrow>
                 bind (finish_failure failure out_error) (\<lambda>status.
                 bind (drop_cursor api cursor) (\<lambda>_. ret status))
             | None \<Rightarrow> bind (drop_cursor api cursor) (\<lambda>_. ret STATUS_PANIC)))"

definition read_stream_next ::
  "'x stream_api \<Rightarrow> addr \<Rightarrow> u64 \<Rightarrow> addr \<Rightarrow> addr \<Rightarrow> 'x world \<Rightarrow> exit \<times> 'x world" where
  "read_stream_next api stream max_output_len out_buffer out_error =
     recover_panic
       (with_outputs [clear_ptr_output out_buffer, clear_error_output out_error] out_error
         (with_handle as_read_stream stream out_error (\<lambda>s.
            if mx_poisoned (stream_state s)
            then bind (read_stream_lock_failure api stream s) (\<lambda>failure.
                   finish_failure failure out_error)
            else read_stream_locked api stream max_output_len out_buffer out_error s)))
       (if_aligned stream (on_handle as_read_stream stream (fail_read_stream_state api stream)))"

definition contain :: "('x, unit) M \<Rightarrow> ('x, unit) M" where
  \<comment> \<open>\<open>let _ = catch_unwind(..)\<close> around a function without a result\<close>
  "contain m = bind (catch_unwind m) (\<lambda>_. ret ())"

definition read_stream_close :: "'x stream_api \<Rightarrow> addr \<Rightarrow> ('x, unit) M" where
  "read_stream_close api stream =
     contain (on_handle as_read_stream stream (close_read_stream_state api stream))"

definition read_stream_free :: "'x stream_api \<Rightarrow> addr \<Rightarrow> ('x, unit) M" where
  "read_stream_free api stream =
     contain (on_handle as_read_stream stream (\<lambda>s.
       bind (catch_unwind (close_read_stream_state api stream s)) (\<lambda>_.
         free_box as_read_stream stream)))"

section \<open>The chunk sequence\<close>

lemma quiet_operator_read_stream: "quiet (operator_read_stream_body api p path opts)"
  unfolding operator_read_stream_body_def by (intro quiet_intros)

interpretation read_stream_call: quiet_body "operator_read_stream_body api p path opts"
  for api p path opts by unfold_locales (rule quiet_operator_read_stream)

text \<open>
  The abstract stream: the bytes still pending from the current buffer, if any, and the buffers the
  backend will yield. \<open>leftover\<close> is what stays pending after one chunk.
\<close>

definition leftover :: "nat \<Rightarrow> 'a list \<Rightarrow> 'a list option" where
  "leftover n bs = (if n = 0 \<or> length bs \<le> n then None else Some (drop n bs))"

function all_chunks :: "nat \<Rightarrow> 'a list option \<Rightarrow> 'a list list \<Rightarrow> 'a list list" where
  "all_chunks n (Some b) bs = take n b # all_chunks n (leftover n b) bs"
| "all_chunks n None (b # bs) = take n b # all_chunks n (leftover n b) bs"
| "all_chunks n None [] = []"
  by pat_completeness auto
termination
  by (relation "measure (\<lambda>(n, p, bs).
      (case p of None \<Rightarrow> 0 | Some b \<Rightarrow> Suc (length b)) + sum_list (map (\<lambda>b. length b + 2) bs))")
    (auto simp: leftover_def)

lemma all_chunks_concat:
  "0 < n \<Longrightarrow> concat (all_chunks n p bs) = (case p of None \<Rightarrow> [] | Some b \<Rightarrow> b) @ concat bs"
proof (induction n p bs rule: all_chunks.induct)
  case (1 n b bs)
  then show ?case by (simp add: leftover_def split: if_splits)
next
  case (2 n b bs)
  then show ?case by (simp add: leftover_def split: if_splits)
qed simp

lemma concat_map_concat: "concat (map concat xss) = concat (concat xss)"
  by (induction xss) auto

lemma all_chunks_bound: "c \<in> set (all_chunks n p bs) \<Longrightarrow> length c \<le> n"
  by (induction n p bs rule: all_chunks.induct) auto

text \<open>What the bridge relies on of \<open>Buffer::split_to\<close>.\<close>

definition splits_exactly :: "(Buffer \<Rightarrow> usize \<Rightarrow> Buffer \<times> Buffer) \<Rightarrow> bool" where
  "splits_exactly split_to \<longleftrightarrow>
     (\<forall>b n. n \<le> length (concat b) \<longrightarrow>
        concat (fst (split_to b n)) = take n (concat b) \<and>
        concat (snd (split_to b n)) = drop n (concat b))"

lemma split_read_stream_exact:
  assumes "splits_exactly split_to"
  shows "\<exists>chunk rest. split_read_stream_buffer split_to b n = Inr (chunk, rest) \<and>
    concat chunk = take (unat n) (concat b) \<and>
    (unat n \<noteq> 0 \<longrightarrow> map_option concat rest = leftover (unat n) (concat b))"
proof -
  obtain c r where cr: "split_to b (min (length (concat b)) (unat n)) = (c, r)" by fastforce
  then have "concat c = take (min (length (concat b)) (unat n)) (concat b)"
    and r: "concat r = drop (min (length (concat b)) (unat n)) (concat b)"
    using assms by (auto simp: splits_exactly_def dest!: spec [of _ b]
        spec [of _ "min (length (concat b)) (unat n)"])
  then have c: "concat c = take (unat n) (concat b)" by (simp add: min_def split: if_splits)
  have "length (concat r) = 0 \<longleftrightarrow> length (concat b) \<le> unat n" using r by auto
  moreover have "concat r = drop (unat n) (concat b)" if "\<not> length (concat b) \<le> unat n"
    using r that by (simp add: min_def split: if_splits)
  ultimately show ?thesis
    using c cr by (simp add: split_read_stream_buffer_def buffer_len_of_def leftover_def)
qed

definition stream_obj :: "ReadStreamStateV1 \<Rightarrow> u64 \<Rightarrow> obj" where
  "stream_obj s n = OReadStream \<lparr>stream_state = \<lparr>mx_state = s, mx_poisoned = False\<rparr>,
     stream_chunk_size = n\<rparr>"

lemma as_stream_obj [simp]:
  "as_read_stream (stream_obj s n) = Some \<lparr>stream_state = \<lparr>mx_state = s, mx_poisoned = False\<rparr>,
     stream_chunk_size = n\<rparr>"
  by (simp add: stream_obj_def)

definition stream_after ::
  "addr \<Rightarrow> addr \<Rightarrow> obj \<Rightarrow> 'x \<Rightarrow> obj option \<Rightarrow> 'x world \<Rightarrow> bool" where
  "stream_after p slot ob x result w \<longleftrightarrow>
     live_at p ob w \<and> ext w = x \<and> boxes w (o_ptr (out w) slot) = result"

text \<open>The next buffer the step works on: the pending one, or one fetched from the iterator.\<close>

definition next_buffer ::
  "'x stream_api \<Rightarrow> ReadStreamCursorV1 \<Rightarrow> 'x \<Rightarrow> Buffer \<Rightarrow> 'x \<Rightarrow> bool" where
  "next_buffer api c x b x' \<longleftrightarrow>
     (case cur_pending c of
        Some b' \<Rightarrow> b = b' \<and> x' = x
      | None \<Rightarrow> sa_next api (cur_iterator c) x = (XOk (Some b), x'))"

lemma stream_step_chunk:
  assumes "next_buffer api c (ext w) b x" and "splits_exactly (sa_split_to api)" and "n \<noteq> 0"
  shows "\<exists>chunk c'. stream_step api n c w = (Ok (Some (chunk, c')), w\<lparr>ext := x\<rparr>) \<and>
    concat chunk = take (unat n) (concat b) \<and> cur_iterator c' = cur_iterator c \<and>
    map_option concat (cur_pending c') = leftover (unat n) (concat b)"
proof -
  obtain chunk rest where split: "split_read_stream_buffer (sa_split_to api) b n = Inr (chunk, rest)"
    "concat chunk = take (unat n) (concat b)" "map_option concat rest = leftover (unat n) (concat b)"
    using split_read_stream_exact [OF assms(2), of b n] assms(3) by (auto simp: unat_eq_0)
  have "stream_step api n c w = (Ok (Some (chunk, c\<lparr>cur_pending := rest\<rparr>)), w\<lparr>ext := x\<rparr>)"
    using assms(1) split(1)
    by (cases "cur_pending c") (auto simp: stream_step_def bind_def run_simps next_buffer_def)
  with split show ?thesis by auto
qed

lemma read_stream_next_run:
  assumes "valid_slots slot oerr" and "live_at p (stream_obj s n) w"
  shows "read_stream_next api p limit slot oerr w =
    recover_panic (read_stream_locked api p limit slot oerr
        \<lparr>stream_state = \<lparr>mx_state = s, mx_poisoned = False\<rparr>, stream_chunk_size = n\<rparr>)
      (if_aligned p (on_handle as_read_stream p (fail_read_stream_state api p)))
      (clear_slots {slot, oerr} w)"
  using assms
  by (simp add: read_stream_next_def recover_panic_def run_with_handle_outputs valid_slots_def
      run_with_handle [where ob = "stream_obj s n" and w = w])

lemmas stream_run = read_stream_locked_def set_stream_def recover_panic_def bind_def run_simps
  catch_unwind_def stream_obj_def [symmetric] run_write_handle

lemma stream_next_chunk:
  assumes "valid_slots slot oerr" and "live_at p (stream_obj (StreamOpen c) n) w"
    and "next_buffer api c (ext w) b x" and "splits_exactly (sa_split_to api)"
    and "n \<noteq> 0" and "unat n \<le> 2147483647" and "n \<le> limit"
  shows "\<exists>w' c'. read_stream_next api p limit slot oerr w = (Returned STATUS_OK, w') \<and>
    cur_iterator c' = cur_iterator c \<and>
    map_option concat (cur_pending c') = leftover (unat n) (concat b) \<and>
    stream_after p slot (stream_obj (StreamOpen c') n) x
      (Some (OBuffer \<lparr>buf_bytes = take (unat n) (concat b)\<rparr>)) w'"
proof -
  note live = live_atD [OF assms(2)]
  let ?w1 = "(clear_slots {slot, oerr} w)\<lparr>boxes := (boxes w)(p \<mapsto> stream_obj StreamFailed n)\<rparr>"
  obtain chunk c' where step: "stream_step api n c ?w1 = (Ok (Some (chunk, c')), ?w1\<lparr>ext := x\<rparr>)"
    "concat chunk = take (unat n) (concat b)" "cur_iterator c' = cur_iterator c"
    "map_option concat (cur_pending c') = leftover (unat n) (concat b)"
    using stream_step_chunk [of api c ?w1 b x n] assms(3-5) by auto
  have chk: "checked_read_buffer chunk (min limit n) ''read stream chunk'' =
      Inr \<lparr>buf_bytes = take (unat n) (concat b)\<rparr>"
    using step(2) assms(6,7) by (simp add: checked_read_buffer_Inr min_absorb2)
  let ?w' = "snd (read_stream_next api p limit slot oerr w)"
  have run: "read_stream_next api p limit slot oerr w = (Returned STATUS_OK, ?w') \<and>
      boxes ?w' = (boxes w)(p \<mapsto> stream_obj (StreamOpen c') n,
        next_box w \<mapsto> OBuffer \<lparr>buf_bytes = take (unat n) (concat b)\<rparr>) \<and>
      next_box ?w' = next_box w + 16 \<and> ext ?w' = x \<and> o_ptr (out ?w') slot = next_box w"
    using step(1) chk
    by (simp add: read_stream_next_run [OF assms(1,2)] stream_run)
  moreover have "wf_world ?w'" using run by (intro wf_world_put_new [OF live(5,1)]) auto
  ultimately show ?thesis
    using step(3,4) live(4) by (intro exI [of _ ?w'] exI [of _ c']) (simp add: stream_after_def live_at_def)
qed

lemma stream_next_end:
  assumes "valid_slots slot oerr" and "live_at p (stream_obj (StreamOpen c) n) w"
    and "cur_pending c = None" and "sa_next api (cur_iterator c) (ext w) = (XOk None, x)"
    and "sa_drop api (cur_iterator c) x = (Some (), x')"
  shows "\<exists>w'. read_stream_next api p limit slot oerr w = (Returned STATUS_END, w') \<and>
    stream_after p slot (stream_obj StreamEnd n) x' None w'"
proof -
  note live = live_atD [OF assms(2)]
  let ?w' = "snd (read_stream_next api p limit slot oerr w)"
  have run: "read_stream_next api p limit slot oerr w = (Returned STATUS_END, ?w') \<and>
      boxes ?w' = (boxes w)(p \<mapsto> stream_obj StreamEnd n) \<and>
      next_box ?w' = next_box w \<and> ext ?w' = x' \<and> o_ptr (out ?w') slot = 0"
    using assms(1,3-5)
    by (simp add: read_stream_next_run [OF assms(1,2)] stream_run stream_step_def drop_cursor_def
        ext_value_def o_ptr_clear_slots valid_slots_def)
  moreover have "wf_world ?w'" using run by (intro wf_world_put [OF live(5,1)]) auto
  ultimately show ?thesis
    using live(6) wf_no_null [of ?w']
    by (intro exI [of _ ?w']) (simp add: stream_after_def live_at_def)
qed

lemma stream_next_ended:
  assumes "valid_slots slot oerr" and "live_at p (stream_obj StreamEnd n) w"
  shows "\<exists>w'. read_stream_next api p limit slot oerr w = (Returned STATUS_END, w') \<and>
    stream_after p slot (stream_obj StreamEnd n) (ext w) None w'"
proof -
  note live = live_atD [OF assms(2)]
  let ?w' = "snd (read_stream_next api p limit slot oerr w)"
  have run: "read_stream_next api p limit slot oerr w = (Returned STATUS_END, ?w') \<and>
      boxes ?w' = (boxes w)(p \<mapsto> stream_obj StreamEnd n) \<and>
      next_box ?w' = next_box w \<and> ext ?w' = ext w \<and> o_ptr (out ?w') slot = 0"
    using assms(1)
    by (simp add: read_stream_next_run [OF assms(1,2)] stream_run o_ptr_clear_slots valid_slots_def)
  moreover have "wf_world ?w'" using run by (intro wf_world_put [OF live(5,1)]) auto
  ultimately show ?thesis
    using live(6) wf_no_null [of ?w']
    by (intro exI [of _ ?w']) (simp add: stream_after_def live_at_def)
qed

lemma drive_ended:
  assumes "valid_slots slot oerr" and "live_at p (stream_obj StreamEnd n) w"
  shows "fst (drive k (read_stream_next api p limit slot oerr) slot w) =
    replicate k (Returned STATUS_END, None)"
proof -
  let ?P = "\<lambda>w'. live_at p (stream_obj StreamEnd n) w'"
  have "fst (drive k (read_stream_next api p limit slot oerr) slot w) =
      replicate k (Returned STATUS_END, None) \<and>
      ?P (snd (drive k (read_stream_next api p limit slot oerr) slot w))"
  proof (rule drive_stuck [where P = ?P])
    show "?P w" using assms by simp
    show "\<exists>w1. read_stream_next api p limit slot oerr w' = (Returned STATUS_END, w1) \<and> ?P w1 \<and>
        boxes w1 (o_ptr (out w1) slot) = None" if "?P w'" for w'
      using stream_next_ended [OF assms(1) that, of api limit] by (auto simp: stream_after_def)
  qed
  then show ?thesis by simp
qed

section \<open>Properties\<close>

text \<open>The buffers the iterator yields from external state \<open>x\<close>, up to its end.\<close>

fun buffers_yielded :: "'x stream_api \<Rightarrow> token \<Rightarrow> 'x \<Rightarrow> Buffer list \<Rightarrow> 'x \<Rightarrow> bool" where
  "buffers_yielded api t x [] x' \<longleftrightarrow> sa_next api t x = (XOk None, x')"
| "buffers_yielded api t x (b # bs) x' \<longleftrightarrow>
     (\<exists>y. sa_next api t x = (XOk (Some b), y) \<and> buffers_yielded api t y bs x')"

lemma stream_drive:
  assumes slots: "valid_slots slot oerr" and split: "splits_exactly (sa_split_to api)"
    and n: "n \<noteq> 0" "unat n \<le> 2147483647" "n \<le> limit"
    and drp: "\<And>x. \<exists>x'. sa_drop api t x = (Some (), x')"
  shows "live_at p (stream_obj (StreamOpen c) n) w \<Longrightarrow> cur_iterator c = t \<Longrightarrow>
    map_option concat (cur_pending c) = pend \<Longrightarrow> buffers_yielded api t (ext w) bufs x \<Longrightarrow>
    map concat bufs = bss \<Longrightarrow>
    fst (drive (length (all_chunks (unat n) pend bss) + Suc k)
           (read_stream_next api p limit slot oerr) slot w) =
      map (\<lambda>b. (Returned STATUS_OK, Some (OBuffer \<lparr>buf_bytes = b\<rparr>))) (all_chunks (unat n) pend bss) @
      replicate (Suc k) (Returned STATUS_END, None)"
proof (induction "unat n" pend bss arbitrary: c w bufs rule: all_chunks.induct)
  case (1 b bs)
  then obtain b' where b': "cur_pending c = Some b'" "concat b' = b" by auto
  then have nb: "next_buffer api c (ext w) b' (ext w)" by (simp add: next_buffer_def)
  obtain w1 c1 where w1: "read_stream_next api p limit slot oerr w = (Returned STATUS_OK, w1)"
    "cur_iterator c1 = cur_iterator c"
    "map_option concat (cur_pending c1) = leftover (unat n) (concat b')"
    "stream_after p slot (stream_obj (StreamOpen c1) n) (ext w)
      (Some (OBuffer \<lparr>buf_bytes = take (unat n) (concat b')\<rparr>)) w1"
    using stream_next_chunk [OF slots 1(2) nb split n] by blast
  from 1(1) [of c1 w1 bufs] w1 1(3-) b' show ?case by (simp add: stream_after_def drive_Suc)
next
  case (2 b bs)
  then obtain b' bufs' y where b': "bufs = b' # bufs'" "concat b' = b" "map concat bufs' = bs"
    "sa_next api t (ext w) = (XOk (Some b'), y)" "buffers_yielded api t y bufs' x" by auto
  then have nb: "next_buffer api c (ext w) b' y" using 2 by (simp add: next_buffer_def)
  obtain w1 c1 where w1: "read_stream_next api p limit slot oerr w = (Returned STATUS_OK, w1)"
    "cur_iterator c1 = cur_iterator c"
    "map_option concat (cur_pending c1) = leftover (unat n) (concat b')"
    "stream_after p slot (stream_obj (StreamOpen c1) n) y
      (Some (OBuffer \<lparr>buf_bytes = take (unat n) (concat b')\<rparr>)) w1"
    using stream_next_chunk [OF slots 2(2) nb split n] by blast
  from 2(1) [of c1 w1 bufs'] w1 2(3-) b' show ?case by (simp add: stream_after_def drive_Suc)
next
  case 3
  then obtain x' where "sa_drop api (cur_iterator c) x = (Some (), x')" using drp by blast
  then obtain w1 where w1: "read_stream_next api p limit slot oerr w = (Returned STATUS_END, w1)"
    "stream_after p slot (stream_obj StreamEnd n) x' None w1"
    using stream_next_end [OF slots 3(1)] 3 by fastforce
  then show ?case
    using drive_ended [OF slots, of p n w1 k api limit] by (simp add: stream_after_def drive_Suc)
qed

text \<open>
  C3. A read stream delivers the object unchanged. Driving \<open>read_stream_next\<close> on a fresh stream hands
  out a sequence of chunks, none longer than the negotiated chunk size, whose concatenation is
  exactly the concatenation of the buffers the backend yields, followed by the end, again and again.
\<close>

theorem read_stream_delivers:
  assumes "valid_slots slot oerr" and "splits_exactly (sa_split_to api)"
    and "n \<noteq> 0" and "unat n \<le> 2147483647" and "n \<le> limit"
    and "\<forall>x. \<exists>x'. sa_drop api t x = (Some (), x')"
    and "live_at p (stream_obj (StreamOpen \<lparr>cur_iterator = t, cur_pending = None\<rparr>) n) w"
    and "buffers_yielded api t (ext w) bufs x"
  shows "\<exists>chunks. concat chunks = concat (concat bufs) \<and> (\<forall>c \<in> set chunks. length c \<le> unat n) \<and>
    (\<forall>k. fst (drive (length chunks + Suc k) (read_stream_next api p limit slot oerr) slot w) =
      map (\<lambda>b. (Returned STATUS_OK, Some (OBuffer \<lparr>buf_bytes = b\<rparr>))) chunks @
      replicate (Suc k) (Returned STATUS_END, None))"
proof -
  let ?chunks = "all_chunks (unat n) None (map concat bufs)"
  have "concat ?chunks = concat (map concat bufs)"
    using assms(3) by (simp add: all_chunks_concat unat_gt_0)
  then have "concat ?chunks = concat (concat bufs)" by (simp add: concat_map_concat)
  moreover have "\<forall>c \<in> set ?chunks. length c \<le> unat n" using all_chunks_bound by blast
  moreover have "fst (drive (length ?chunks + Suc k) (read_stream_next api p limit slot oerr) slot w) =
      map (\<lambda>b. (Returned STATUS_OK, Some (OBuffer \<lparr>buf_bytes = b\<rparr>))) ?chunks @
      replicate (Suc k) (Returned STATUS_END, None)" for k
    by (rule stream_drive [OF assms(1-5) _ assms(7) _ _ assms(8)]) (use assms(6) in auto)
  ultimately show ?thesis by blast
qed

definition sample_stream_api :: "Buffer list stream_api" where
  "sample_stream_api = \<lparr>sa_reader = (\<lambda>_ _ _ x. (XOk 3, x)), sa_into_iterator = (\<lambda>_ _ x. (XOk 5, x)),
     sa_next = (\<lambda>_ x. case x of [] \<Rightarrow> (XOk None, []) | b # bs \<Rightarrow> (XOk (Some b), bs)),
     sa_drop = (\<lambda>_ x. (Some (), x)),
     sa_split_to = (\<lambda>b n. ([take n (concat b)], [drop n (concat b)]))\<rparr>"

lemma read_stream_delivers_witness:
  "\<exists>chunks. concat chunks = [1, 2, 3, 4] \<and> (\<forall>c \<in> set chunks. length c \<le> 2) \<and>
    (\<forall>k. fst (drive (length chunks + Suc k) (read_stream_next sample_stream_api 16 9 64 72) 64
        (sample_with (stream_obj (StreamOpen \<lparr>cur_iterator = 5, cur_pending = None\<rparr>) 2)
          [[[1, 2, 3]], [[4]]])) =
      map (\<lambda>b. (Returned STATUS_OK, Some (OBuffer \<lparr>buf_bytes = b\<rparr>))) chunks @
      replicate (Suc k) (Returned STATUS_END, None))"
  using read_stream_delivers [of 64 72 sample_stream_api 2 9 5 16
      "sample_with (stream_obj (StreamOpen \<lparr>cur_iterator = 5, cur_pending = None\<rparr>) 2)
        [[[1, 2, 3]], [[4]]]" "[[[1, 2, 3]], [[4]]]" "[]"]
  by (simp add: valid_slots_def splits_exactly_def sample_stream_api_def live_at_def wf_sample_with)

section \<open>Terminal states\<close>

datatype stream_op = SNext u64 | SClose

definition stream_apply ::
  "'x stream_api \<Rightarrow> addr \<Rightarrow> addr \<Rightarrow> addr \<Rightarrow> stream_op \<Rightarrow> 'x world \<Rightarrow> 'x world" where
  "stream_apply api p slot oerr x w =
     (case x of SNext limit \<Rightarrow> snd (read_stream_next api p limit slot oerr w)
      | SClose \<Rightarrow> snd (read_stream_close api p w))"

definition stream_terminal :: "addr \<Rightarrow> u64 \<Rightarrow> 'x \<Rightarrow> 'x world \<Rightarrow> bool" where
  "stream_terminal p n x w \<longleftrightarrow>
     (\<exists>s. s \<in> {StreamEnd, StreamFailed, StreamClosed} \<and> live_at p (stream_obj s n) w) \<and> ext w = x"

lemma stream_terminal_next:
  assumes "stream_terminal p n x w"
  shows "stream_terminal p n x (snd (read_stream_next api p limit slot oerr w))"
proof -
  obtain s where s: "s \<in> {StreamEnd, StreamFailed, StreamClosed}" "live_at p (stream_obj s n) w"
    and x: "ext w = x" using assms by (auto simp: stream_terminal_def)
  note l = live_atD [OF s(2)]
  show ?thesis
  proof (cases "slot = 0 \<or> \<not> 8 dvd slot \<or> \<not> 8 dvd oerr")
    case True
    then show ?thesis
      using s x by (auto simp: read_stream_next_def recover_panic_def run_with_handle_outputs
          stream_terminal_def live_at_def)
  next
    case False
    let ?w1 = "(clear_slots {slot, oerr} w)\<lparr>boxes := (boxes w)(p \<mapsto> stream_obj s n)\<rparr>"
    have wf: "wf_world ?w1" by (rule wf_world_put [OF l(5,1)]) simp_all
    obtain w' where w': "finish_failure (resource_closed ''read stream is closed'') oerr ?w1 =
          (Ok STATUS_ERROR, w')"
      "ext w' = x" "wf_world w'" "boxes w' p = Some (stream_obj s n)"
      using run_finish_failure_frame [of "resource_closed ''read stream is closed''" oerr ?w1] wf x
      by (auto simp: resource_closed_def binding_error_def Let_def)
    have run: "read_stream_next api p limit slot oerr w =
        recover_panic (read_stream_locked api p limit slot oerr
            \<lparr>stream_state = \<lparr>mx_state = s, mx_poisoned = False\<rparr>, stream_chunk_size = n\<rparr>)
          (if_aligned p (on_handle as_read_stream p (fail_read_stream_state api p)))
          (clear_slots {slot, oerr} w)"
      using False
      by (simp add: read_stream_next_def recover_panic_def run_with_handle_outputs
          run_with_handle [where ob = "stream_obj s n" and w = w] s(2))
    consider (ended) "s = StreamEnd" | (closed) "s = StreamFailed \<or> s = StreamClosed"
      using s(1) by auto
    then show ?thesis
    proof cases
      case ended
      then show ?thesis
        using s x l wf by (auto simp: run stream_run stream_terminal_def live_at_def)
    next
      case closed
      then show ?thesis
        using w' by (auto simp: run stream_run stream_terminal_def live_at_def)
    qed
  qed
qed

lemma stream_terminal_close:
  assumes "stream_terminal p n x w"
  shows "stream_terminal p n x (snd (read_stream_close api p w))"
proof -
  obtain s where s: "s \<in> {StreamEnd, StreamFailed, StreamClosed}" "live_at p (stream_obj s n) w"
    and x: "ext w = x" using assms by (auto simp: stream_terminal_def)
  note l = live_atD [OF s(2)]
  have "wf_world (w\<lparr>boxes := (boxes w)(p \<mapsto> stream_obj StreamClosed n)\<rparr>)"
    by (rule wf_world_put [OF l(5,1)]) simp_all
  moreover have "drop_stream_state api s w' = (Ok (), w')" for w' :: "'a world"
    using s(1) by (auto simp: drop_stream_state_def run_simps)
  ultimately show ?thesis
    using s x l
    by (auto simp: read_stream_close_def contain_def on_handle_def null_ptr_def
        close_read_stream_state_def bind_def catch_unwind_def set_stream_def run_simps
        stream_obj_def [symmetric] stream_terminal_def live_at_def)
qed

interpretation stream_life: terminal_states "stream_apply api p slot oerr" "stream_terminal p n x"
  for api p slot oerr n x
  by unfold_locales
    (auto simp: stream_apply_def stream_terminal_next stream_terminal_close split: stream_op.splits)

text \<open>
  A stream that has ended, failed or been closed stays so under every sequence of next and close
  calls, with any limits and output slots, and no further call reaches the backend.
\<close>

theorem read_stream_terminal_forever:
  assumes "stream_terminal p n x w"
  shows "stream_terminal p n x (run_ops (stream_apply api p slot oerr) ops w)"
  using assms by (rule stream_life.terminal_run)

lemma read_stream_terminal_forever_witness:
  "stream_terminal 16 2 [] (run_ops (stream_apply sample_stream_api 16 64 72)
      [SNext 5, SClose, SNext 9] (sample_with (stream_obj StreamFailed 2) []))"
  by (rule read_stream_terminal_forever) (auto simp: stream_terminal_def live_at_def wf_sample_with)

text \<open>
  A failing stream reports the failure once and then refuses. When the backend reports an error
  instead of a buffer, the call hands out nothing, the stream is failed for good, the iterator is
  dropped, and the next call reports an error without reaching the backend.
\<close>

theorem read_stream_error_is_final:
  assumes "valid_slots slot oerr"
    and "live_at p (stream_obj (StreamOpen \<lparr>cur_iterator = t, cur_pending = None\<rparr>) n) w"
    and "sa_next api t (ext w) = (XErr e, x)" and "sa_drop api t x = (Some (), x')"
  shows "\<exists>w1 w2. read_stream_next api p limit slot oerr w = (Returned STATUS_ERROR, w1) \<and>
    boxes w1 (o_ptr (out w1) slot) = None \<and> stream_terminal p n x' w1 \<and>
    read_stream_next api p limit slot oerr w1 = (Returned STATUS_ERROR, w2) \<and>
    boxes w2 (o_ptr (out w2) slot) = None \<and> ext w2 = x'"
proof -
  have closed: "\<exists>w2. read_stream_next api p limit slot oerr w1 = (Returned STATUS_ERROR, w2) \<and>
      boxes w2 (o_ptr (out w2) slot) = None \<and> ext w2 = ext w1"
    if l1: "live_at p (stream_obj StreamFailed n) w1" for w1
  proof -
    note l = live_atD [OF l1]
    let ?w = "(clear_slots {slot, oerr} w1)\<lparr>boxes := (boxes w1)(p \<mapsto> stream_obj StreamFailed n)\<rparr>"
    have wf: "wf_world ?w" by (rule wf_world_put [OF l(5,1)]) simp_all
    obtain w2 where "finish_failure (resource_closed ''read stream is closed'') oerr ?w =
          (Ok STATUS_ERROR, w2)"
      "ext w2 = ext w1" "wf_world w2" "o_ptr (out w2) slot = 0"
      using run_finish_failure_frame [of "resource_closed ''read stream is closed''" oerr ?w] wf
        assms(1)
      by (auto simp: resource_closed_def binding_error_def Let_def o_ptr_clear_slots valid_slots_def)
    then show ?thesis
      using wf_no_null [of w2] by (simp add: read_stream_next_run [OF assms(1) l1] stream_run)
  qed
  note l = live_atD [OF assms(2)]
  let ?w0 = "(clear_slots {slot, oerr} w)\<lparr>boxes := (boxes w)(p \<mapsto> stream_obj StreamFailed n), ext := x\<rparr>"
  have wf: "wf_world ?w0" by (rule wf_world_put [OF l(5,1)]) simp_all
  obtain w1 where w1: "finish_failure (opendal_error e) oerr ?w0 = (Ok STATUS_ERROR, w1)"
    "ext w1 = x" "wf_world w1" "boxes w1 p = Some (stream_obj StreamFailed n)" "o_ptr (out w1) slot = 0"
    using run_finish_failure_frame [of "opendal_error e" oerr ?w0] wf assms(1)
    by (auto simp: opendal_error_def o_ptr_clear_slots valid_slots_def)
  let ?w1 = "w1\<lparr>ext := x'\<rparr>"
  have wf1: "wf_world ?w1" using w1(3) by (simp add: wf_world_def)
  have "read_stream_next api p limit slot oerr w = (Returned STATUS_ERROR, ?w1)"
    using w1 assms(3,4)
    by (simp add: read_stream_next_run [OF assms(1,2)] stream_run stream_step_def drop_cursor_def
        ext_value_def)
  moreover have "live_at p (stream_obj StreamFailed n) ?w1" using w1 wf1 by (simp add: live_at_def)
  moreover have "boxes ?w1 (o_ptr (out ?w1) slot) = None" using w1(5) wf_no_null [OF wf1] by simp
  ultimately show ?thesis
    using closed [of ?w1] by (auto simp: stream_terminal_def intro!: exI [of _ ?w1])
qed

definition sample_error :: opendal_Error where
  "sample_error = \<lparr>oe_kind = KNotFound, oe_kind_static = ''NotFound'', oe_is_temporary = False,
     oe_is_persistent = False, oe_message = ''gone''\<rparr>"

lemma read_stream_error_is_final_witness:
  "\<exists>w1. read_stream_next (sample_stream_api\<lparr>sa_next := (\<lambda>_ x. (XErr sample_error, x))\<rparr>) 16 9 64 72
      (sample_with (stream_obj (StreamOpen \<lparr>cur_iterator = 5, cur_pending = None\<rparr>) 2) []) =
      (Returned STATUS_ERROR, w1) \<and> stream_terminal 16 2 [] w1"
  using read_stream_error_is_final [of 64 72 16 5 2
      "sample_with (stream_obj (StreamOpen \<lparr>cur_iterator = 5, cur_pending = None\<rparr>) 2) []"
      "sample_stream_api\<lparr>sa_next := (\<lambda>_ x. (XErr sample_error, x))\<rparr>" sample_error "[]" "[]" 9]
  by (auto simp: valid_slots_def live_at_def wf_sample_with sample_stream_api_def)

end
