(* ===== verification/Turns.thy ===== *)
theory Turns
  imports ReadStream
begin

text \<open>
  Handles that several threads use in turn. Writers, copiers and the cores of asynchronous streams
  and writers share one protocol: under the handle's lock a call takes the native object out of the
  state and leaves the handle busy; the lock is released while the call works; then the call puts a
  new state back. \<open>turn_step\<close> is one locked section of one of the threads, and \<open>lent_handle\<close> is what
  the protocol demands of the locked sections.
\<close>

record ('i, 's, 't) turns =
  tn_state :: 's
  tn_holder :: "'i \<Rightarrow> 't option"

inductive turn_step ::
  "('c \<Rightarrow> 's \<Rightarrow> ('t \<times> 's) option) \<Rightarrow> ('c \<Rightarrow> 's \<Rightarrow> 's) \<Rightarrow> ('r \<Rightarrow> 't \<Rightarrow> 's \<Rightarrow> 's) \<Rightarrow>
   ('i, 's, 't) turns \<Rightarrow> ('i, 's, 't) turns \<Rightarrow> bool"
  for take_turn refuse put_back where
  takes: "tn_holder c i = None \<Longrightarrow> take_turn call (tn_state c) = Some (t, s) \<Longrightarrow>
    turn_step take_turn refuse put_back c (c\<lparr>tn_state := s, tn_holder := (tn_holder c)(i \<mapsto> t)\<rparr>)"
| refused: "take_turn call (tn_state c) = None \<Longrightarrow>
    turn_step take_turn refuse put_back c (c\<lparr>tn_state := refuse call (tn_state c)\<rparr>)"
| puts: "tn_holder c i = Some t \<Longrightarrow>
    turn_step take_turn refuse put_back c
      (c\<lparr>tn_state := put_back r t (tn_state c), tn_holder := (tn_holder c)(i := None)\<rparr>)"

definition fresh_turns :: "'s \<Rightarrow> ('i, 's, 't) turns" where
  "fresh_turns s = \<lparr>tn_state = s, tn_holder = (\<lambda>_. None)\<rparr>"

definition untouched :: "('s \<Rightarrow> 'a) \<Rightarrow> ('s \<Rightarrow> 's) \<Rightarrow> 's \<Rightarrow> 's" where
  \<comment> \<open>anything else that happens meanwhile, as long as it leaves what \<open>part\<close> reads alone\<close>
  "untouched part f s = (if part (f s) = part s then f s else s)"

lemma part_untouched [simp]: "part (untouched part f s) = part s"
  by (simp add: untouched_def)

definition one_holder :: "('i, 's, 't) turns \<Rightarrow> bool" where
  "one_holder c \<longleftrightarrow> (\<forall>i j. tn_holder c i \<noteq> None \<longrightarrow> tn_holder c j \<noteq> None \<longrightarrow> i = j)"

text \<open>
  A handle that lends its object. \<open>opened\<close> and \<open>busy\<close> tell of a state that the object is in it, or that
  a call has it; the rest are ended states. Between them a handle may be closed, failed or recovered
  while a call still has the object.
\<close>

locale lent_handle =
  fixes take_turn :: "'c \<Rightarrow> 's \<Rightarrow> ('t \<times> 's) option"
    and refuse :: "'c \<Rightarrow> 's \<Rightarrow> 's"
    and put_back :: "'r \<Rightarrow> 't \<Rightarrow> 's \<Rightarrow> 's"
    and valid :: "'s \<Rightarrow> bool"
    and opened :: "'s \<Rightarrow> bool"
    and busy :: "'s \<Rightarrow> bool"
  assumes take_opened:
      "valid s \<Longrightarrow> take_turn call s = Some (t, s') \<Longrightarrow> opened s \<and> busy s' \<and> valid s'"
    and refuse_valid: "valid s \<Longrightarrow> take_turn call s = None \<Longrightarrow> valid (refuse call s)"
    and refuse_opens_nothing:
      "valid s \<Longrightarrow> take_turn call s = None \<Longrightarrow> opened (refuse call s) \<Longrightarrow> opened s"
    and refuse_lends_nothing:
      "valid s \<Longrightarrow> take_turn call s = None \<Longrightarrow> busy (refuse call s) \<Longrightarrow> busy s"
    and put_valid: "valid s \<Longrightarrow> valid (put_back r t s)"
    and put_releases: "valid s \<Longrightarrow> \<not> busy (put_back r t s)"
    and busy_not_opened: "busy s \<Longrightarrow> \<not> opened s"
begin

definition lent :: "('i, 's, 't) turns \<Rightarrow> bool" where
  "lent c \<longleftrightarrow> valid (tn_state c) \<and> one_holder c \<and>
     ((\<exists>i. tn_holder c i \<noteq> None) \<longrightarrow> \<not> opened (tn_state c)) \<and>
     (busy (tn_state c) \<longrightarrow> (\<exists>i. tn_holder c i \<noteq> None))"

lemma lent_step:
  assumes "turn_step take_turn refuse put_back c c'" and "lent c"
  shows "lent c'"
  using assms(1)
proof (cases rule: turn_step.cases)
  case (takes i call t s)
  then have s: "opened (tn_state c)" "busy s" "valid s"
    using assms(2) take_opened by (auto simp: lent_def)
  then have "tn_holder c = (\<lambda>_. None)" using assms(2) by (auto simp: lent_def)
  then show ?thesis using takes s busy_not_opened by (auto simp: lent_def one_holder_def)
next
  case (refused call)
  then show ?thesis
    using assms(2) refuse_valid [OF _ refused(2)] refuse_opens_nothing [OF _ refused(2)]
      refuse_lends_nothing [OF _ refused(2)]
    by (auto simp: lent_def one_holder_def)
next
  case (puts i t r)
  then have "valid (put_back r t (tn_state c))" "\<not> busy (put_back r t (tn_state c))"
    using assms(2) put_valid put_releases by (auto simp: lent_def)
  moreover have "(tn_holder c)(i := None) = (\<lambda>_. None)"
    using assms(2) puts by (fastforce simp: lent_def one_holder_def)
  ultimately show ?thesis using puts by (simp add: lent_def one_holder_def)
qed

lemma lent_reachable:
  assumes "(turn_step take_turn refuse put_back)\<^sup>*\<^sup>* (fresh_turns s) c" and "valid s" and "\<not> busy s"
  shows "lent c"
  using assms(1)
proof (induction rule: rtranclp_induct)
  case base
  then show ?case using assms(2,3) by (simp add: lent_def one_holder_def fresh_turns_def)
next
  case (step c c')
  then show ?case using lent_step by blast
qed

end

text \<open>Handles that end: no call that is refused brings an ended handle back.\<close>

locale ending_handle = lent_handle +
  fixes ended :: "'b \<Rightarrow> bool"
  assumes ended_not_opened: "ended s \<Longrightarrow> \<not> opened s"
    and refuse_ended: "valid s \<Longrightarrow> take_turn call s = None \<Longrightarrow> ended s \<Longrightarrow> ended (refuse call s)"
begin

lemma settled_keeps:
  assumes "(turn_step take_turn refuse put_back)\<^sup>*\<^sup>* c c'" and "lent c" and "ended (tn_state c)"
    and "tn_holder c = (\<lambda>_. None)"
  shows "ended (tn_state c') \<and> tn_holder c' = (\<lambda>_. None) \<and> lent c'"
  using assms(1)
proof (induction rule: rtranclp_induct)
  case base
  then show ?case using assms by simp
next
  case (step c1 c2)
  then have v: "valid (tn_state c1)" "\<not> opened (tn_state c1)"
    using ended_not_opened by (auto simp: lent_def)
  have l: "lent c2" using step lent_step by blast
  from step(2) show ?case
  proof (cases rule: turn_step.cases)
    case (takes i call t s)
    then show ?thesis using v take_opened by blast
  next
    case (refused call)
    then show ?thesis using step.IH l v refuse_ended by auto
  next
    case (puts i t r)
    then show ?thesis using step.IH by simp
  qed
qed

end

section \<open>Handles in a box\<close>

text \<open>
  The state of a handle that is a box with a mutex in it: \<open>lock_obj s poisoned\<close> is the box and
  \<open>state_of\<close> reads its state. The lemmas are what a section of the lock does to the box.
\<close>

definition now_at :: "(obj \<Rightarrow> 's option) \<Rightarrow> addr \<Rightarrow> 'x world \<Rightarrow> 's option" where
  "now_at state_of p w = Option.bind (boxes w p) state_of"

definition live_now :: "(obj \<Rightarrow> 's option) \<Rightarrow> addr \<Rightarrow> 'x world \<Rightarrow> bool" where
  "live_now state_of p w \<longleftrightarrow> wf_world w \<and> now_at state_of p w \<noteq> None"

definition poison_at ::
  "('s \<Rightarrow> bool \<Rightarrow> obj) \<Rightarrow> (obj \<Rightarrow> 's option) \<Rightarrow> addr \<Rightarrow> 'x world \<Rightarrow> 'x world" where
  \<comment> \<open>a thread unwinds with the lock held\<close>
  "poison_at lock_obj state_of p w =
     (case now_at state_of p w of
        None \<Rightarrow> w | Some s \<Rightarrow> w\<lparr>boxes := (boxes w)(p \<mapsto> lock_obj s True)\<rparr>)"

definition elsewhere :: "addr \<Rightarrow> ('x world \<Rightarrow> 'x world) \<Rightarrow> 'x world \<Rightarrow> 'x world" where
  "elsewhere p = untouched (\<lambda>w. (boxes w p, wf_world w))"

locale lock_box =
  fixes lock_obj :: "'s \<Rightarrow> bool \<Rightarrow> obj"
    and state_of :: "obj \<Rightarrow> 's option"
  assumes state_of_lock_obj: "state_of (lock_obj s b) = Some s"
    and state_of_lock: "state_of ob = Some s \<Longrightarrow> \<exists>b. ob = lock_obj s b"
begin

lemma now_at_obj: "boxes w p = Some (lock_obj s b) \<Longrightarrow> now_at state_of p w = Some s"
  by (simp add: now_at_def state_of_lock_obj)

lemma live_nowE:
  assumes "live_now state_of p w"
  obtains s b where "now_at state_of p w = Some s" "boxes w p = Some (lock_obj s b)"
    "live_at p (lock_obj s b) w"
proof -
  obtain ob s where ob: "boxes w p = Some ob" "state_of ob = Some s"
    using assms by (auto simp: live_now_def now_at_def bind_eq_Some_conv)
  then obtain b where "ob = lock_obj s b" using state_of_lock by blast
  with ob assms show ?thesis by (intro that [of s b]) (auto simp: now_at_def live_at_def live_now_def)
qed

lemma live_now_put:
  assumes "live_now state_of p w" and "boxes w' = (boxes w)(p \<mapsto> lock_obj s b)"
    and "next_box w' = next_box w"
  shows "live_now state_of p w' \<and> now_at state_of p w' = Some s"
proof -
  obtain s0 b0 where "boxes w p = Some (lock_obj s0 b0)" by (rule live_nowE [OF assms(1)])
  then have "wf_world w'" using assms wf_world_put by (auto simp: live_now_def)
  then show ?thesis using assms(2) by (simp add: live_now_def now_at_def state_of_lock_obj)
qed

lemma poison_keeps:
  assumes "live_now state_of p w"
  shows "live_now state_of p (poison_at lock_obj state_of p w)"
    and "now_at state_of p (poison_at lock_obj state_of p w) = now_at state_of p w"
proof -
  obtain s b where "now_at state_of p w = Some s" by (rule live_nowE [OF assms])
  with live_now_put [OF assms, of "w\<lparr>boxes := (boxes w)(p \<mapsto> lock_obj s True)\<rparr>" s True]
  show "live_now state_of p (poison_at lock_obj state_of p w)"
    "now_at state_of p (poison_at lock_obj state_of p w) = now_at state_of p w"
    by (simp_all add: poison_at_def)
qed

lemma elsewhere_keeps:
  "live_now state_of p (elsewhere p f w) = live_now state_of p w"
  "now_at state_of p (elsewhere p f w) = now_at state_of p w"
proof -
  have "boxes (elsewhere p f w) p = boxes w p \<and> wf_world (elsewhere p f w) = wf_world w"
    using part_untouched [of "\<lambda>w. (boxes w p, wf_world w)" f w] by (simp add: elsewhere_def)
  then show "live_now state_of p (elsewhere p f w) = live_now state_of p w"
    "now_at state_of p (elsewhere p f w) = now_at state_of p w"
    by (simp_all add: live_now_def now_at_def)
qed

end

section \<open>Calls on such a handle\<close>

text \<open>
  A call that has to wait is given the list of what the other threads do to the world during each of
  its waits. A call whose list is used up is still waiting.
\<close>

type_synonym 'x rely = "('x world \<Rightarrow> 'x world) list"

datatype taken = Took token | AlreadyDone | Wait | Refused CallFailure

definition locked :: "(obj \<Rightarrow> 'a option) \<Rightarrow> addr \<Rightarrow> ('a \<Rightarrow> ('x, 'b) M) \<Rightarrow> ('x, 'b) M" where
  \<comment> \<open>lock the handle at \<open>p\<close> and look at its state; the handle is borrowed for the whole call\<close>
  "locked sel p f w =
     (case boxes w p of
        None \<Rightarrow> (UB, w)
      | Some ob \<Rightarrow> (case sel ob of None \<Rightarrow> (UB, w) | Some h \<Rightarrow> f h w))"

definition drop_value :: "(token \<Rightarrow> ('x, unit) xcall) \<Rightarrow> token \<Rightarrow> ('x, unit) M" where
  \<comment> \<open>a drop outside any containment: a panic of the destructor goes on\<close>
  "drop_value destroy t w =
     (let (r, x) = destroy t (ext w) in (case r of XPanic \<Rightarrow> Panic | _ \<Rightarrow> Ok (), w\<lparr>ext := x\<rparr>))"

definition drop_open :: "(token \<Rightarrow> ('x, unit) M) \<Rightarrow> token option \<Rightarrow> ('x, unit) M" where
  "drop_open destroy z = (case z of Some inner \<Rightarrow> destroy inner | None \<Rightarrow> ret ())"

definition finish_or ::
  "('x, 'a) M \<Rightarrow> addr \<Rightarrow> ('a \<Rightarrow> ('x, u32) M) \<Rightarrow> ('x, u32) M" where
  \<comment> \<open>\<open>match m \<open>{\<close> Ok(a) => .., Err(failure) => return finish_failure(failure, out_error) \<open>}\<close>\<close>\<close>
  "finish_or m out_error f =
     bind (closure m) (\<lambda>r. case r of Inl failure \<Rightarrow> finish_failure failure out_error | Inr a \<Rightarrow> f a)"

lemma runtime_running: "runtime_cell w = Some (Inr ()) \<Longrightarrow> runtime build w = (Ok (), w)"
  by (simp add: runtime_def Let_def)

text \<open>A live handle \<open>ob\<close>, with the runtime running and the caller's inputs \<open>m\<close>.\<close>

definition ready_at :: "addr \<Rightarrow> obj \<Rightarrow> 'x \<Rightarrow> inputs \<Rightarrow> 'x world \<Rightarrow> bool" where
  "ready_at p ob x m w \<longleftrightarrow> live_at p ob w \<and> ext w = x \<and>
     runtime_cell w = Some (Inr ()) \<and> inp w = m"

lemma run_finish_failure_kept:
  "\<exists>w'. finish_failure f oerr w =
      (Ok (case f of AbiMismatch \<Rightarrow> STATUS_ABI_MISMATCH | Error _ \<Rightarrow> STATUS_ERROR), w') \<and>
    (\<forall>p ob. ready_at p ob x m w \<longrightarrow> ready_at p ob x m w') \<and>
    (\<forall>q. q \<noteq> oerr \<longrightarrow> o_ptr (out w') q = o_ptr (out w) q)"
proof -
  obtain w' where w': "finish_failure f oerr w =
      (Ok (case f of AbiMismatch \<Rightarrow> STATUS_ABI_MISMATCH | Error _ \<Rightarrow> STATUS_ERROR), w')"
    "ext w' = ext w" "wf_world w \<longrightarrow> wf_world w'"
    "\<forall>q ob. boxes w q = Some ob \<longrightarrow> wf_world w \<longrightarrow> boxes w' q = Some ob"
    "\<forall>q. q \<noteq> oerr \<longrightarrow> o_ptr (out w') q = o_ptr (out w) q"
    using run_finish_failure_frame [of f oerr w] by blast
  have "runtime_cell w' = runtime_cell w \<and> inp w' = inp w"
  proof (cases f)
    case (Error e)
    then show ?thesis using w'(1) by (cases "oerr = 0") (auto simp: run_finish_failure)
  qed (use w'(1) in \<open>auto simp: run_finish_failure\<close>)
  with w' show ?thesis by (auto simp: ready_at_def live_at_def)
qed

lemma ready_at_put:
  assumes "ready_at p ob x m w"
  shows "ready_at p ob' x' m (w\<lparr>boxes := (boxes w)(p \<mapsto> ob'), ext := x'\<rparr>)"
proof -
  have l: "wf_world w" "boxes w p = Some ob"
    using assms by (auto simp: ready_at_def live_at_def)
  have "wf_world (w\<lparr>boxes := (boxes w)(p \<mapsto> ob'), ext := x'\<rparr>)"
    by (rule wf_world_put [OF l]) simp_all
  with assms show ?thesis by (simp add: ready_at_def live_at_def)
qed

lemma ready_at_clear [simp]: "ready_at p ob x m (clear_slots S w) = ready_at p ob x m w"
  by (simp add: ready_at_def live_at_def)

lemma ready_reported:
  assumes "ready_at p ob x m w"
    and "f \<noteq> AbiMismatch"
  shows "\<exists>w'. recover_panic (finish_failure f oerr) rec w = (Returned STATUS_ERROR, w') \<and>
    ready_at p ob x m w' \<and> (\<forall>q. q \<noteq> oerr \<longrightarrow> o_ptr (out w') q = o_ptr (out w) q)"
  using run_finish_failure_kept [of f oerr w x m] assms
  by (cases f) (auto simp: recover_panic_def)

lemmas turn_run = recover_panic_def with_handle_def finish_or_def bind_def closure_def
  catch_unwind_def run_simps locked_def runtime_running

end
