(* ===== verification/Writer.thy ===== *)
theory Writer
  imports ReadStream Turns
begin

text \<open>
  Chunked writers (\<open>operator_writer\<close>, \<open>writer_write\<close>, \<open>writer_close\<close>, \<open>writer_abort\<close>, \<open>writer_free\<close> of
  \<open>lib.rs\<close> and their state helpers). A writer is a mutex around \<open>Open\<close>, \<open>Busy\<close>, \<open>Finished\<close>, \<open>Aborted\<close>
  or \<open>Failed\<close>, with a condition variable on which a call waits while another thread's call is busy.

  A call that has to wait is given the list \<open>waits\<close>: what the other threads do to the world during
  each of its waits. When the list is used up the call is still waiting. Overwriting the state drops
  the value it held; that value is \<open>Busy\<close> or an ended state, which hold nothing, as the turn protocol
  below shows for every interleaving.
\<close>

section \<open>State helpers\<close>

record 'x writer_api =
  wa_build_runtime :: "'x \<Rightarrow> bool \<times> 'x"
  wa_writer :: "token \<Rightarrow> string \<Rightarrow> WriteOptions \<Rightarrow> ('x, token) xcall"
  wa_write :: "token \<Rightarrow> u8 list \<Rightarrow> ('x, unit) xcall"
  wa_close :: "token \<Rightarrow> ('x, Metadata) xcall"
  wa_abort :: "token \<Rightarrow> ('x, unit) xcall"
  wa_drop :: "token \<Rightarrow> ('x, unit) xcall"

definition writer_obj :: "WriterStateV1 \<Rightarrow> bool \<Rightarrow> obj" where
  "writer_obj s poisoned = OWriter \<lparr>writer_state = \<lparr>mx_state = s, mx_poisoned = poisoned\<rparr>\<rparr>"

definition drop_async_writer_contained :: "'x writer_api \<Rightarrow> token \<Rightarrow> ('x, unit) M" where
  "drop_async_writer_contained api = drop_contained (wa_drop api)"

definition open_writer :: "WriterStateV1 \<Rightarrow> token option" where
  "open_writer s = (case s of WriterOpen inner \<Rightarrow> Some inner | _ \<Rightarrow> None)"

definition fail_writer_state :: "'x writer_api \<Rightarrow> addr \<Rightarrow> WriterV1 \<Rightarrow> ('x, unit) M" where
  "fail_writer_state api p writer =
     bind (put_box p (writer_obj WriterFailed False)) (\<lambda>_.
       drop_open (drop_async_writer_contained api) (open_writer (mx_state (writer_state writer))))"

definition writer_poison_failure :: "'x writer_api \<Rightarrow> addr \<Rightarrow> WriterV1 \<Rightarrow> ('x, CallFailure) M" where
  "writer_poison_failure api p writer =
     bind (put_box p (writer_obj WriterFailed False)) (\<lambda>_.
     bind (drop_open (drop_async_writer_contained api)
             (open_writer (mx_state (writer_state writer)))) (\<lambda>_.
       ret (unexpected ''writer state lock was poisoned'')))"

definition take_writer_now :: "bool \<Rightarrow> WriterStateV1 \<Rightarrow> taken \<times> WriterStateV1" where
  \<comment> \<open>one turn of the loop of \<open>take_writer_for_call\<close>, under the lock\<close>
  "take_writer_now repeated_abort_is_ok current =
     (case current of
        WriterOpen inner \<Rightarrow> (Took inner, WriterBusy)
      | WriterBusy \<Rightarrow> (Wait, WriterBusy)
      | WriterAborted \<Rightarrow>
          if repeated_abort_is_ok then (AlreadyDone, WriterAborted)
          else (Refused (resource_closed ''writer is closed''), WriterAborted)
      | WriterFinished \<Rightarrow> (Refused (resource_closed ''writer is closed''), WriterFinished)
      | WriterFailed \<Rightarrow> (Refused (resource_closed ''writer is closed''), WriterFailed))"

fun take_writer_for_call ::
  "'x writer_api \<Rightarrow> 'x rely \<Rightarrow> addr \<Rightarrow> bool \<Rightarrow> ('x, token option) M" where
  "take_writer_for_call api waits p repeated_abort_is_ok =
     locked as_writer p (\<lambda>writer.
       if mx_poisoned (writer_state writer)
       then bind (writer_poison_failure api p writer) throw
       else
         (case take_writer_now repeated_abort_is_ok (mx_state (writer_state writer)) of
            (r, s) \<Rightarrow>
              bind (put_box p (writer_obj s False)) (\<lambda>_.
                case r of
                  Took inner \<Rightarrow> ret (Some inner)
                | AlreadyDone \<Rightarrow> ret None
                | Refused failure \<Rightarrow> throw failure
                | Wait \<Rightarrow>
                    (\<lambda>w. case waits of
                       [] \<Rightarrow> (Blocked, w)
                     | others # waits' \<Rightarrow>
                         take_writer_for_call api waits' p repeated_abort_is_ok (others w)))))"

definition set_writer_state ::
  "'x writer_api \<Rightarrow> addr \<Rightarrow> WriterStateV1 \<Rightarrow> ('x, unit CallResult) M" where
  "set_writer_state api p next_state =
     locked as_writer p (\<lambda>writer.
       if mx_poisoned (writer_state writer) then
         bind (put_box p (writer_obj WriterFailed False)) (\<lambda>_.
         bind (drop_open (drop_value (wa_drop api)) (open_writer next_state)) (\<lambda>_.
           ret (Inl (unexpected ''writer state lock was poisoned''))))
       else bind (put_box p (writer_obj next_state False)) (\<lambda>_. ret (Inr ())))"

section \<open>Entry points\<close>

definition operator_writer_body ::
  "'x writer_api \<Rightarrow> addr \<Rightarrow> addr \<Rightarrow> addr \<Rightarrow> ('x, WriterV1) M" where
  "operator_writer_body api operator path options =
     bind (borrow_required as_operator operator) (\<lambda>operator.
     bind (with_inputs (\<lambda>m. read_text m path ''path'')) (\<lambda>path.
     bind (with_inputs (\<lambda>m. parse_write_options m options)) (\<lambda>options.
     bind (runtime (wa_build_runtime api)) (\<lambda>_.
     bind (ext_call opendal_error (wa_writer api (op_async_inner operator) path options)) (\<lambda>writer.
       ret \<lparr>writer_state = \<lparr>mx_state = WriterOpen writer, mx_poisoned = False\<rparr>\<rparr>)))))"

definition operator_writer ::
  "'x writer_api \<Rightarrow> addr \<Rightarrow> addr \<Rightarrow> addr \<Rightarrow> addr \<Rightarrow> addr \<Rightarrow> 'x world \<Rightarrow> exit \<times> 'x world" where
  "operator_writer api operator path options out_writer out_error =
     catch_status (with_outputs [clear_ptr_output out_writer, clear_error_output out_error]
       out_error
       (deliver (operator_writer_body api operator path options)
          (\<lambda>a. write_handle out_writer (OWriter a)) out_error))"

definition require_writer ::
  "'x writer_api \<Rightarrow> 'x rely \<Rightarrow> addr \<Rightarrow> ('x, token) M" where
  \<comment> \<open>\<open>take_writer_for_call(writer, false)\<close> with the arm that cannot be reached\<close>
  "require_writer api waits p =
     bind (take_writer_for_call api waits p False) (\<lambda>r.
       case r of Some inner \<Rightarrow> ret inner | None \<Rightarrow> panic)"

definition fail_writer_call ::
  "'x writer_api \<Rightarrow> addr \<Rightarrow> token \<Rightarrow> ('x, u32) M \<Rightarrow> ('x, u32) M" where
  "fail_writer_call api p inner report =
     bind (set_writer_state api p WriterFailed) (\<lambda>_.
     bind (drop_async_writer_contained api inner) (\<lambda>_. report))"

definition recover_writer :: "'x writer_api \<Rightarrow> addr \<Rightarrow> ('x, unit) M" where
  "recover_writer api p =
     if_aligned p (on_handle as_writer p (fail_writer_state api p))"

definition writer_write ::
  "'x writer_api \<Rightarrow> 'x rely \<Rightarrow> addr \<Rightarrow> addr \<Rightarrow> addr \<Rightarrow> 'x world \<Rightarrow> exit \<times> 'x world" where
  "writer_write api waits writer data out_error =
     recover_panic
       (with_outputs [clear_error_output out_error] out_error
         (with_handle as_writer writer out_error (\<lambda>_.
          finish_or (with_inputs (\<lambda>m. read_binary m data)) out_error (\<lambda>data.
          finish_or (runtime (wa_build_runtime api)) out_error (\<lambda>_.
          finish_or (require_writer api waits writer) out_error (\<lambda>inner.
            bind (catch_unwind (ext_call opendal_error (wa_write api inner data))) (\<lambda>step.
              case step of
                Some (Inr _) \<Rightarrow>
                  bind (set_writer_state api writer (WriterOpen inner)) (\<lambda>r.
                    case r of
                      Inr _ \<Rightarrow> ret STATUS_OK
                    | Inl failure \<Rightarrow> finish_failure failure out_error)
              | Some (Inl failure) \<Rightarrow>
                  fail_writer_call api writer inner (finish_failure failure out_error)
              | None \<Rightarrow> fail_writer_call api writer inner (ret STATUS_PANIC))))))))
       (recover_writer api writer)"

definition writer_close ::
  "'x writer_api \<Rightarrow> 'x rely \<Rightarrow> addr \<Rightarrow> addr \<Rightarrow> addr \<Rightarrow> 'x world \<Rightarrow> exit \<times> 'x world" where
  "writer_close api waits writer out_metadata out_error =
     recover_panic
       (with_outputs [clear_ptr_output out_metadata, clear_error_output out_error] out_error
         (with_handle as_writer writer out_error (\<lambda>_.
          finish_or (runtime (wa_build_runtime api)) out_error (\<lambda>_.
          finish_or (require_writer api waits writer) out_error (\<lambda>inner.
            bind (catch_unwind (bind (ext_call opendal_error (wa_close api inner)) (\<lambda>metadata.
                    lift_res (checked_metadata metadata)))) (\<lambda>step.
              case step of
                Some (Inr metadata) \<Rightarrow>
                  bind (set_writer_state api writer WriterFinished) (\<lambda>r.
                    case r of
                      Inl failure \<Rightarrow>
                        bind (drop_async_writer_contained api inner) (\<lambda>_.
                          finish_failure failure out_error)
                    | Inr _ \<Rightarrow>
                        bind (drop_async_writer_contained api inner) (\<lambda>_.
                        bind (write_handle out_metadata (OMetadata metadata)) (\<lambda>_.
                          ret STATUS_OK)))
              | Some (Inl failure) \<Rightarrow>
                  fail_writer_call api writer inner (finish_failure failure out_error)
              | None \<Rightarrow> fail_writer_call api writer inner (ret STATUS_PANIC)))))))
       (recover_writer api writer)"

definition writer_abort ::
  "'x writer_api \<Rightarrow> 'x rely \<Rightarrow> addr \<Rightarrow> addr \<Rightarrow> 'x world \<Rightarrow> exit \<times> 'x world" where
  "writer_abort api waits writer out_error =
     recover_panic
       (with_outputs [clear_error_output out_error] out_error
         (with_handle as_writer writer out_error (\<lambda>_.
          finish_or (runtime (wa_build_runtime api)) out_error (\<lambda>_.
          finish_or (take_writer_for_call api waits writer True) out_error (\<lambda>taken.
            case taken of
              None \<Rightarrow> ret STATUS_OK
            | Some inner \<Rightarrow>
                bind (catch_unwind (ext_call opendal_error (wa_abort api inner))) (\<lambda>step.
                  case step of
                    Some (Inr _) \<Rightarrow>
                      bind (set_writer_state api writer WriterAborted) (\<lambda>result.
                      bind (drop_async_writer_contained api inner) (\<lambda>_.
                        case result of
                          Inr _ \<Rightarrow> ret STATUS_OK
                        | Inl failure \<Rightarrow> finish_failure failure out_error))
                  | Some (Inl failure) \<Rightarrow>
                      fail_writer_call api writer inner (finish_failure failure out_error)
                  | None \<Rightarrow> fail_writer_call api writer inner (ret STATUS_PANIC)))))))
       (recover_writer api writer)"

definition writer_free :: "'x writer_api \<Rightarrow> addr \<Rightarrow> ('x, unit) M" where
  "writer_free api writer =
     contain (on_handle as_writer writer (\<lambda>h.
       bind (fail_writer_state api writer h) (\<lambda>_. free_box as_writer writer)))"

section \<open>Running the helpers\<close>

declare take_writer_for_call.simps [simp del]

lemma quiet_operator_writer: "quiet (operator_writer_body api p path opts)"
  unfolding operator_writer_body_def by (intro quiet_intros)

interpretation writer_call: quiet_body "operator_writer_body api p path opts"
  for api p path opts by unfold_locales (rule quiet_operator_writer)

lemma as_writer_obj [simp]:
  "as_writer (writer_obj s b) = Some \<lparr>writer_state = \<lparr>mx_state = s, mx_poisoned = b\<rparr>\<rparr>"
  by (simp add: writer_obj_def)

definition writer_ended :: "WriterStateV1 \<Rightarrow> bool" where
  "writer_ended s \<longleftrightarrow> s \<in> {WriterFinished, WriterAborted, WriterFailed}"

lemma take_open:
  assumes "boxes w p = Some (writer_obj (WriterOpen t) False)"
  shows "take_writer_for_call api waits p rep w =
    (Ok (Some t), w\<lparr>boxes := (boxes w)(p \<mapsto> writer_obj WriterBusy False)\<rparr>)"
  using assms
  by (subst take_writer_for_call.simps)
    (simp add: locked_def take_writer_now_def bind_def run_simps)

lemma take_ended:
  assumes "boxes w p = Some (writer_obj s False)" and "writer_ended s" and "s = WriterAborted \<longrightarrow> \<not> rep"
  shows "take_writer_for_call api waits p rep w = (Err (resource_closed ''writer is closed''), w)"
proof -
  have "w\<lparr>boxes := (boxes w)(p \<mapsto> writer_obj s False)\<rparr> = w" using assms(1) by (simp add: fun_upd_idem)
  then show ?thesis
    using assms
    by (subst take_writer_for_call.simps)
      (auto simp: locked_def take_writer_now_def bind_def run_simps writer_ended_def)
qed

lemma take_aborted:
  assumes "boxes w p = Some (writer_obj WriterAborted False)"
  shows "take_writer_for_call api waits p True w = (Ok None, w)"
proof -
  have "w\<lparr>boxes := (boxes w)(p \<mapsto> writer_obj WriterAborted False)\<rparr> = w"
    using assms by (simp add: fun_upd_idem)
  then show ?thesis
    using assms
    by (subst take_writer_for_call.simps)
      (simp add: locked_def take_writer_now_def bind_def run_simps)
qed

lemma take_busy:
  assumes "boxes w p = Some (writer_obj WriterBusy False)"
  shows "take_writer_for_call api waits p rep w =
    (case waits of [] \<Rightarrow> (Blocked, w)
     | others # waits' \<Rightarrow> take_writer_for_call api waits' p rep (others w))"
proof -
  have "w\<lparr>boxes := (boxes w)(p \<mapsto> writer_obj WriterBusy False)\<rparr> = w"
    using assms by (simp add: fun_upd_idem)
  then show ?thesis
    using assms
    by (subst take_writer_for_call.simps)
      (simp add: locked_def take_writer_now_def bind_def run_simps)
qed

text \<open>A writer in state \<open>s\<close>, with the runtime running and the caller's inputs \<open>m\<close>.\<close>

abbreviation writer_at ::
  "addr \<Rightarrow> WriterStateV1 \<Rightarrow> 'x \<Rightarrow> inputs \<Rightarrow> 'x world \<Rightarrow> bool" where
  "writer_at p s \<equiv> ready_at p (writer_obj s False)"

lemmas writer_run = recover_panic_def with_handle_def finish_or_def bind_def closure_def
  catch_unwind_def run_simps require_writer_def set_writer_state_def locked_def fail_writer_call_def
  drop_async_writer_contained_def

section \<open>One call\<close>

lemma writer_write_open:
  assumes "8 dvd oerr" and "writer_at p (WriterOpen t) x m w" and "read_binary m dp = Inr d"
    and "wa_write api t d x = (XOk (), x')"
  shows "\<exists>w'. writer_write api waits p dp oerr w = (Returned STATUS_OK, w') \<and>
    writer_at p (WriterOpen t) x' m w'"
proof -
  let ?w0 = "clear_slots {oerr} w"
  have at0: "writer_at p (WriterOpen t) x m ?w0" using assms(2) by simp
  then have l: "live_at p (writer_obj (WriterOpen t) False) ?w0" "ext ?w0 = x" "inp ?w0 = m"
    and r: "runtime_cell ?w0 = Some (Inr ())" by (auto simp: ready_at_def)
  have "writer_write api waits p dp oerr w =
      (Returned STATUS_OK, ?w0\<lparr>boxes := (boxes ?w0)(p \<mapsto> writer_obj (WriterOpen t) False), ext := x'\<rparr>)"
    using assms(1,3,4) live_atD [OF l(1)] l(2,3) r
    by (simp add: writer_write_def run_with_error_output writer_run take_open runtime_running)
  with ready_at_put [OF at0, of "writer_obj (WriterOpen t) False" x'] show ?thesis by blast
qed

lemma writer_write_failed:
  assumes "8 dvd oerr" and "writer_at p (WriterOpen t) x m w" and "read_binary m dp = Inr d"
    and "wa_write api t d x = (r, x')" and "\<forall>u. r \<noteq> XOk u"
  shows "\<exists>status w'. writer_write api waits p dp oerr w = (Returned status, w') \<and>
    status \<in> {STATUS_ERROR, STATUS_PANIC} \<and> writer_at p WriterFailed (snd (wa_drop api t x')) m w'"
proof -
  let ?w0 = "clear_slots {oerr} w"
  let ?w1 = "?w0\<lparr>boxes := (boxes ?w0)(p \<mapsto> writer_obj WriterFailed False),
      ext := snd (wa_drop api t x')\<rparr>"
  have at0: "writer_at p (WriterOpen t) x m ?w0" using assms(2) by simp
  then have l: "live_at p (writer_obj (WriterOpen t) False) ?w0" "ext ?w0 = x" "inp ?w0 = m"
    and rt: "runtime_cell ?w0 = Some (Inr ())" by (auto simp: ready_at_def)
  note at1 = ready_at_put [OF at0, of "writer_obj WriterFailed False" "snd (wa_drop api t x')"]
  have run: "writer_write api waits p dp oerr w =
      (case r of XErr e \<Rightarrow> recover_panic (finish_failure (opendal_error e) oerr) (recover_writer api p) ?w1
       | _ \<Rightarrow> (Returned STATUS_PANIC, ?w1))"
    using assms(1,3-5) live_atD [OF l(1)] l(2,3) rt
    by (cases r) (simp_all add: writer_write_def run_with_error_output writer_run take_open
        runtime_running)
  have fin: "\<exists>w2. finish_failure (opendal_error e) oerr ?w1 = (Ok STATUS_ERROR, w2) \<and>
      writer_at p WriterFailed (snd (wa_drop api t x')) m w2" for e
    using run_finish_failure_kept [of "opendal_error e" oerr ?w1 "snd (wa_drop api t x')" m] at1
    by (auto simp: opendal_error_def)
  show ?thesis
  proof (cases r)
    case (XErr e)
    with run fin [of e] show ?thesis by (auto simp: recover_panic_def)
  next
    case XPanic
    with run at1 show ?thesis by auto
  qed (use assms(5) in auto)
qed

lemma writer_call_refused:
  assumes "writer_at p s x m w" and "writer_ended s"
  shows "\<exists>w'. recover_panic (finish_failure (resource_closed ''writer is closed'') oerr) rec w =
      (Returned STATUS_ERROR, w') \<and> writer_at p s x m w' \<and>
    (\<forall>q. q \<noteq> oerr \<longrightarrow> o_ptr (out w') q = o_ptr (out w) q)"
  using run_finish_failure_kept [of "resource_closed ''writer is closed''" oerr w x m] assms(1)
  by (auto simp: recover_panic_def resource_closed_def binding_error_def Let_def)

lemma writer_write_ended:
  assumes "8 dvd oerr" and "writer_at p s x m w" and "writer_ended s" and "read_binary m dp = Inr d"
  shows "\<exists>w'. writer_write api waits p dp oerr w = (Returned STATUS_ERROR, w') \<and> writer_at p s x m w'"
proof -
  let ?w0 = "clear_slots {oerr} w"
  have at0: "writer_at p s x m ?w0" using assms(2) by simp
  then have l: "live_at p (writer_obj s False) ?w0" "ext ?w0 = x" "inp ?w0 = m"
    and rt: "runtime_cell ?w0 = Some (Inr ())" by (auto simp: ready_at_def)
  have "writer_write api waits p dp oerr w =
      recover_panic (finish_failure (resource_closed ''writer is closed'') oerr) (recover_writer api p) ?w0"
    using assms(1,3,4) live_atD [OF l(1)] l(2,3) rt
    by (simp add: writer_write_def run_with_error_output writer_run take_ended runtime_running)
  with writer_call_refused [OF at0 assms(3)] show ?thesis by metis
qed

lemma writer_close_ended:
  assumes "valid_slots slot oerr" and "writer_at p s x m w" and "writer_ended s"
  shows "\<exists>w'. writer_close api waits p slot oerr w = (Returned STATUS_ERROR, w') \<and>
    writer_at p s x m w' \<and> o_ptr (out w') slot = 0"
proof -
  let ?w0 = "clear_slots {slot, oerr} w"
  have at0: "writer_at p s x m ?w0" using assms(2) by simp
  then have l: "live_at p (writer_obj s False) ?w0" "ext ?w0 = x"
    and rt: "runtime_cell ?w0 = Some (Inr ())" by (auto simp: ready_at_def)
  have "writer_close api waits p slot oerr w =
      recover_panic (finish_failure (resource_closed ''writer is closed'') oerr) (recover_writer api p) ?w0"
    using assms(1,3) live_atD [OF l(1)] l(2) rt
    by (simp add: writer_close_def run_with_handle_outputs valid_slots_def writer_run take_ended
        runtime_running)
  moreover have "o_ptr (out ?w0) slot = 0" "slot \<noteq> oerr"
    using assms(1) by (auto simp: o_ptr_clear_slots valid_slots_def)
  ultimately show ?thesis
    using writer_call_refused [OF at0 assms(3), of oerr "recover_writer api p"] by auto
qed

lemma writer_close_open:
  assumes "valid_slots slot oerr" and "writer_at p (WriterOpen t) x m w"
    and "wa_close api t x = (XOk md, x')" and "checked_metadata md = Inr v"
  shows "\<exists>w'. writer_close api waits p slot oerr w = (Returned STATUS_OK, w') \<and>
    writer_at p WriterFinished (snd (wa_drop api t x')) m w' \<and>
    boxes w' (o_ptr (out w') slot) = Some (OMetadata v)"
proof -
  let ?w0 = "clear_slots {slot, oerr} w" and ?w' = "snd (writer_close api waits p slot oerr w)"
  have at0: "writer_at p (WriterOpen t) x m ?w0" using assms(2) by simp
  then have l: "live_at p (writer_obj (WriterOpen t) False) ?w0" "ext ?w0 = x" "inp ?w0 = m"
    and rt: "runtime_cell ?w0 = Some (Inr ())" by (auto simp: ready_at_def)
  note lv = live_atD [OF l(1)]
  have run: "writer_close api waits p slot oerr w = (Returned STATUS_OK, ?w') \<and>
      boxes ?w' = (boxes ?w0)(p \<mapsto> writer_obj WriterFinished False, next_box ?w0 \<mapsto> OMetadata v) \<and>
      next_box ?w' = next_box ?w0 + 16 \<and> ext ?w' = snd (wa_drop api t x') \<and>
      inp ?w' = m \<and> runtime_cell ?w' = Some (Inr ()) \<and> o_ptr (out ?w') slot = next_box ?w0"
    using assms(1,3,4) lv l(2,3) rt
    by (simp add: writer_close_def run_with_handle_outputs valid_slots_def writer_run take_open
        runtime_running run_write_handle)
  moreover have "wf_world ?w'" using run by (intro wf_world_put_new [OF lv(5,1)]) auto
  ultimately show ?thesis
    using lv(4) by (intro exI [of _ ?w']) (simp add: ready_at_def live_at_def)
qed

lemma writer_abort_ended:
  assumes "8 dvd oerr" and "writer_at p s x m w" and "writer_ended s"
  shows "\<exists>w'. writer_abort api waits p oerr w =
      (Returned (if s = WriterAborted then STATUS_OK else STATUS_ERROR), w') \<and> writer_at p s x m w'"
proof -
  let ?w0 = "clear_slots {oerr} w"
  have at0: "writer_at p s x m ?w0" using assms(2) by simp
  then have l: "live_at p (writer_obj s False) ?w0" "ext ?w0 = x"
    and rt: "runtime_cell ?w0 = Some (Inr ())" by (auto simp: ready_at_def)
  show ?thesis
  proof (cases "s = WriterAborted")
    case True
    then have "writer_abort api waits p oerr w = (Returned STATUS_OK, ?w0)"
      using assms(1) live_atD [OF l(1)] rt
      by (simp add: writer_abort_def run_with_error_output writer_run take_aborted runtime_running)
    with True at0 show ?thesis by auto
  next
    case False
    then have "writer_abort api waits p oerr w =
        recover_panic (finish_failure (resource_closed ''writer is closed'') oerr)
          (recover_writer api p) ?w0"
      using assms(1,3) live_atD [OF l(1)] rt
      by (simp add: writer_abort_def run_with_error_output writer_run take_ended runtime_running)
    with False writer_call_refused [OF at0 assms(3), of oerr "recover_writer api p"]
    show ?thesis by auto
  qed
qed

section \<open>The turn protocol\<close>

text \<open>
  The locked sections of the calls on one writer, as turns. A call enters by \<open>take_writer_for_call\<close>:
  with no wait to follow it takes the native writer, is refused, or finds the handle busy and has
  still to wait, which is one more attempt later. The call that took the native writer ends its turn
  by \<open>set_writer_state\<close>, or, when it unwinds, by the recovery of its entry point. A call that
  unwinds without the native writer runs the same recovery, whoever has the turn; the lock may be
  poisoned; and anything may happen that leaves this handle alone.
\<close>

definition writer_state_of :: "obj \<Rightarrow> WriterStateV1 option" where
  "writer_state_of ob = map_option (\<lambda>h. mx_state (writer_state h)) (as_writer ob)"

interpretation writer_box: lock_box writer_obj writer_state_of
proof unfold_locales
  fix ob s
  assume "writer_state_of ob = Some s"
  then obtain h where "ob = OWriter h" "s = mx_state (writer_state h)"
    by (auto simp: writer_state_of_def elim!: as_writer.elims)
  then have "ob = writer_obj s (mx_poisoned (writer_state h))" by (simp add: writer_obj_def)
  then show "\<exists>b. ob = writer_obj s b" ..
qed (simp add: writer_state_of_def)

abbreviation writer_now :: "addr \<Rightarrow> 'x world \<Rightarrow> WriterStateV1 option" where
  "writer_now \<equiv> now_at writer_state_of"

abbreviation writer_live :: "addr \<Rightarrow> 'x world \<Rightarrow> bool" where
  "writer_live \<equiv> live_now writer_state_of"

datatype 'x writer_event = WEnter bool | WRecover | WPoison | WElsewhere "'x world \<Rightarrow> 'x world"

datatype writer_result = WrOpen | WrFinished | WrAborted | WrFailed | WrUnwound

definition writer_take :: "'x writer_api \<Rightarrow> addr \<Rightarrow> 'x writer_event \<Rightarrow> 'x world \<Rightarrow> (token \<times> 'x world) option" where
  "writer_take api p event w =
     (case event of
        WEnter rep \<Rightarrow>
          (case take_writer_for_call api [] p rep w of (Ok (Some t), w') \<Rightarrow> Some (t, w') | _ \<Rightarrow> None)
      | _ \<Rightarrow> None)"

definition writer_pass :: "'x writer_api \<Rightarrow> addr \<Rightarrow> 'x writer_event \<Rightarrow> 'x world \<Rightarrow> 'x world" where
  \<comment> \<open>the sections after which nobody new has the native writer\<close>
  "writer_pass api p event w =
     (case event of
        WEnter rep \<Rightarrow> snd (take_writer_for_call api [] p rep w)
      | WRecover \<Rightarrow> snd (recover_writer api p w)
      | WPoison \<Rightarrow> poison_at writer_obj writer_state_of p w
      | WElsewhere f \<Rightarrow> elsewhere p f w)"

definition writer_return :: "'x writer_api \<Rightarrow> addr \<Rightarrow> writer_result \<Rightarrow> token \<Rightarrow> 'x world \<Rightarrow> 'x world" where
  "writer_return api p r t w =
     (case r of
        WrOpen \<Rightarrow> snd (set_writer_state api p (WriterOpen t) w)
      | WrFinished \<Rightarrow> snd (set_writer_state api p WriterFinished w)
      | WrAborted \<Rightarrow> snd (set_writer_state api p WriterAborted w)
      | WrFailed \<Rightarrow> snd (set_writer_state api p WriterFailed w)
      | WrUnwound \<Rightarrow> snd (recover_writer api p w))"

abbreviation writer_turn ::
  "'x writer_api \<Rightarrow> addr \<Rightarrow> ('i, 'x world, token) turns \<Rightarrow> ('i, 'x world, token) turns \<Rightarrow> bool" where
  "writer_turn api p \<equiv> turn_step (writer_take api p) (writer_pass api p) (writer_return api p)"

lemmas writer_section_run = bind_def run_simps locked_def put_box_def drop_open_def drop_value_def
  drop_async_writer_contained_def drop_contained_def throw_def ret_def

lemma take_section:
  assumes "writer_live p w" and "writer_now p w = Some s"
  obtains (took) t w' where "take_writer_for_call api [] p rep w = (Ok (Some t), w')"
      "s = WriterOpen t" "writer_live p w'" "writer_now p w' = Some WriterBusy"
  | (passed) r w' s' where "take_writer_for_call api [] p rep w = (r, w')" "\<forall>t. r \<noteq> Ok (Some t)"
      "writer_live p w'" "writer_now p w' = Some s'" "s' = WriterFailed \<or> s' = s \<and> open_writer s = None"
proof -
  obtain b where b: "boxes w p = Some (writer_obj s b)"
    using writer_box.live_nowE [OF assms(1)] assms(2) by (metis option.inject)
  note live = writer_box.live_now_put [OF assms(1)]
  show ?thesis
  proof (cases b)
    case True
    then have "fst (take_writer_for_call api [] p rep w) = Err (unexpected ''writer state lock was poisoned'')"
      "boxes (snd (take_writer_for_call api [] p rep w)) = (boxes w)(p \<mapsto> writer_obj WriterFailed False)"
      "next_box (snd (take_writer_for_call api [] p rep w)) = next_box w"
      using b by (subst take_writer_for_call.simps,
          simp add: writer_section_run writer_poison_failure_def split: option.split)+
    with live show ?thesis by (intro passed [OF surjective_pairing]) auto
  next
    case False
    show ?thesis
    proof (cases s)
      case (WriterOpen t)
      with False b live [of "w\<lparr>boxes := (boxes w)(p \<mapsto> writer_obj WriterBusy False)\<rparr>" WriterBusy False]
      show ?thesis by (intro took [OF take_open]) auto
    next
      case WriterBusy
      with False b assms take_busy [of w p api "[]" rep] show ?thesis
        by (intro passed [of Blocked w s]) (auto simp: open_writer_def)
    next
      case WriterAborted
      with False b assms take_aborted [of w p api "[]"] take_ended [of w p s rep api "[]"] show ?thesis
        by (cases rep) (auto intro: passed simp: open_writer_def writer_ended_def)
    qed (use False b assms take_ended [of w p s rep api "[]"] in
        \<open>auto intro: passed simp: open_writer_def writer_ended_def\<close>)
  qed
qed

lemma set_section:
  assumes "writer_live p w"
  shows "writer_live p (snd (set_writer_state api p next_state w)) \<and>
    writer_now p (snd (set_writer_state api p next_state w)) \<in> {Some next_state, Some WriterFailed}"
proof -
  obtain s b where b: "boxes w p = Some (writer_obj s b)" by (rule writer_box.live_nowE [OF assms])
  let ?s = "if b then WriterFailed else next_state"
  have "boxes (snd (set_writer_state api p next_state w)) = (boxes w)(p \<mapsto> writer_obj ?s False)"
    "next_box (snd (set_writer_state api p next_state w)) = next_box w"
    using b by (auto simp: set_writer_state_def writer_section_run Let_def split: option.split prod.split
        ext_result.split)
  with writer_box.live_now_put [OF assms] show ?thesis by (auto split: if_splits)
qed

lemma recover_section:
  assumes "writer_live p w"
  shows "writer_live p (snd (recover_writer api p w)) \<and>
    writer_now p (snd (recover_writer api p w)) = Some WriterFailed"
proof -
  obtain s b where b: "boxes w p = Some (writer_obj s b)" "live_at p (writer_obj s b) w"
    by (rule writer_box.live_nowE [OF assms])
  note lv = live_atD [OF b(2)]
  have "boxes (snd (recover_writer api p w)) = (boxes w)(p \<mapsto> writer_obj WriterFailed False)"
    "next_box (snd (recover_writer api p w)) = next_box w"
    using lv b by (auto simp: recover_writer_def if_aligned_def on_handle_def null_ptr_def is_aligned_def
        fail_writer_state_def writer_section_run split: option.split)
  with writer_box.live_now_put [OF assms] show ?thesis by auto
qed

lemma writer_take_opened:
  assumes "writer_live p w" and "writer_take api p event w = Some (t, w')"
  shows "writer_now p w = Some (WriterOpen t) \<and> writer_live p w' \<and> writer_now p w' = Some WriterBusy"
proof -
  obtain s where s: "writer_now p w = Some s" using assms(1) by (auto simp: live_now_def)
  from assms(2) obtain rep where e: "event = WEnter rep"
    by (auto simp: writer_take_def split: writer_event.splits)
  show ?thesis
    by (rule take_section [OF assms(1) s, of api rep])
      (use assms(2) e s in \<open>auto simp: writer_take_def split: outcome.splits option.splits\<close>)
qed

lemma writer_passed:
  assumes "writer_live p w" and "writer_now p w = Some s" and "writer_take api p event w = None"
  shows "writer_live p (writer_pass api p event w) \<and>
    writer_now p (writer_pass api p event w) \<in> {Some s, Some WriterFailed}"
proof (cases event)
  case (WEnter rep)
  show ?thesis
    by (rule take_section [OF assms(1,2), of api rep])
      (use assms WEnter in \<open>auto simp: writer_take_def writer_pass_def\<close>)
next
  case WRecover
  then show ?thesis using recover_section [OF assms(1), of api] by (simp add: writer_pass_def)
next
  case WPoison
  then show ?thesis using writer_box.poison_keeps [OF assms(1)] assms(2) by (simp add: writer_pass_def)
next
  case (WElsewhere f)
  then show ?thesis using writer_box.elsewhere_keeps [of p f w] assms(1,2) by (simp add: writer_pass_def)
qed

lemma writer_returned:
  assumes "writer_live p w"
  shows "writer_live p (writer_return api p r t w) \<and>
    writer_now p (writer_return api p r t w) \<in>
      {Some (WriterOpen t), Some WriterFinished, Some WriterAborted, Some WriterFailed}"
  using set_section [OF assms, of api "WriterOpen t"] set_section [OF assms, of api WriterFinished]
    set_section [OF assms, of api WriterAborted] set_section [OF assms, of api WriterFailed]
    recover_section [OF assms, of api]
  by (cases r) (auto simp: writer_return_def)

interpretation writer_turns: ending_handle "writer_take api p" "writer_pass api p" "writer_return api p"
  "writer_live p" "\<lambda>w. \<exists>t. writer_now p w = Some (WriterOpen t)" "\<lambda>w. writer_now p w = Some WriterBusy"
  "\<lambda>w. \<exists>s. writer_now p w = Some s \<and> writer_ended s"
  for api :: "'x writer_api" and p
proof unfold_locales
  fix w :: "'x world" and call
  assume "writer_live p w" and n: "writer_take api p call w = None"
  then obtain s where s: "writer_now p w = Some s" by (auto simp: live_now_def)
  note passed = writer_passed [OF \<open>writer_live p w\<close> s n]
  show "writer_live p (writer_pass api p call w)" using passed by simp
  show "\<exists>t. writer_now p w = Some (WriterOpen t)"
    if "\<exists>t. writer_now p (writer_pass api p call w) = Some (WriterOpen t)" using that passed s by auto
  show "writer_now p w = Some WriterBusy" if "writer_now p (writer_pass api p call w) = Some WriterBusy"
    using that passed s by auto
  show "\<exists>s. writer_now p (writer_pass api p call w) = Some s \<and> writer_ended s"
    if "\<exists>s. writer_now p w = Some s \<and> writer_ended s"
    using that passed s by (auto simp: writer_ended_def)
next
  fix w :: "'x world" and r t
  assume "writer_live p w"
  from writer_returned [OF this, of api r t]
  show "writer_live p (writer_return api p r t w)"
    "writer_now p (writer_return api p r t w) \<noteq> Some WriterBusy" by auto
qed (auto simp: writer_ended_def dest: writer_take_opened)

section \<open>Properties\<close>

text \<open>
  C34. Calls on one writer exclude each other. However many threads write, close and abort, in any
  interleaving of the locked sections \<open>take_writer_for_call\<close>, \<open>set_writer_state\<close> and
  \<open>fail_writer_state\<close> (run when a call unwinds, also while another call is at work), with the lock
  poisoned at any moment: the handle stays live; at most one call has the native writer; while one
  does, the handle is busy or already ended, never open, so that no second one can take it and a
  store never overwrites a native writer; the handle is busy only while a call has it; and once it
  is ended with no call at work it stays ended and nobody gets the native writer again.
\<close>

theorem writer_mutual_exclusion:
  assumes "live_at p (writer_obj (WriterOpen t) False) w"
    and "(writer_turn api p)\<^sup>*\<^sup>* (fresh_turns w) c" and "(writer_turn api p)\<^sup>*\<^sup>* c c'"
  shows "\<exists>s. writer_now p (tn_state c) = Some s \<and> one_holder c \<and>
    ((\<exists>i. tn_holder c i \<noteq> None) \<longrightarrow> s = WriterBusy \<or> writer_ended s) \<and>
    (s = WriterBusy \<longrightarrow> (\<exists>i. tn_holder c i \<noteq> None)) \<and>
    (writer_ended s \<and> (\<forall>i. tn_holder c i = None) \<longrightarrow>
       (\<exists>s'. writer_now p (tn_state c') = Some s' \<and> writer_ended s') \<and> (\<forall>i. tn_holder c' i = None))"
proof -
  have now: "writer_now p w = Some (WriterOpen t)"
    using assms(1) by (simp add: live_at_def writer_box.now_at_obj)
  have "writer_live p w" using assms(1) now by (simp add: live_at_def live_now_def)
  with writer_turns.lent_reachable [OF assms(2)] now have l: "writer_turns.lent p c" by simp
  then obtain s where s: "writer_now p (tn_state c) = Some s"
    by (auto simp: writer_turns.lent_def live_now_def)
  moreover have "(\<exists>s'. writer_now p (tn_state c') = Some s' \<and> writer_ended s') \<and> (\<forall>i. tn_holder c' i = None)"
    if "writer_ended s" "\<forall>i. tn_holder c i = None"
    using writer_turns.settled_keeps [OF assms(3) l] s that by (auto simp: fun_eq_iff)
  ultimately show ?thesis
    using l by (cases s) (auto simp: writer_turns.lent_def writer_ended_def)
qed

definition sample_writer_api :: "u8 list writer_api" where
  "sample_writer_api = \<lparr>wa_build_runtime = (\<lambda>x. (True, x)), wa_writer = (\<lambda>_ _ _ x. (XOk 7, x)),
     wa_write = (\<lambda>_ d x. (XOk (), x @ d)), wa_close = (\<lambda>_ x. (XOk sample_file, x)),
     wa_abort = (\<lambda>_ x. (XOk (), x)), wa_drop = (\<lambda>_ x. (XOk (), x))\<rparr>"

lemma writer_mutual_exclusion_witness:
  "\<exists>c. (writer_turn sample_writer_api 16)\<^sup>*\<^sup>*
      (fresh_turns (sample_with (writer_obj (WriterOpen 7) False) [])) c \<and>
    tn_holder c = [1::nat \<mapsto> 7] \<and> writer_now 16 (tn_state c) = Some WriterFailed \<and> one_holder c"
proof -
  let ?w = "sample_with (writer_obj (WriterOpen 7) False) []" and ?api = sample_writer_api
  have live: "live_at 16 (writer_obj (WriterOpen 7) False) ?w"
    using wf_sample_with [of "writer_obj (WriterOpen 7) False" "[]"] by (simp add: live_at_def)
  obtain w1 where w1: "writer_take ?api 16 (WEnter False) ?w = Some (7, w1)"
    "writer_live 16 w1"
    using take_open [of ?w 16 7 ?api "[]" False] writer_take_opened [of 16 ?w ?api "WEnter False" 7] live
    by (auto simp: writer_take_def live_at_def live_now_def writer_box.now_at_obj)
  let ?c1 = "\<lparr>tn_state = w1, tn_holder = [1::nat \<mapsto> 7::token]\<rparr>"
  let ?c2 = "\<lparr>tn_state = writer_pass ?api 16 WRecover w1, tn_holder = [1::nat \<mapsto> 7::token]\<rparr>"
  have "writer_turn ?api 16 (fresh_turns ?w) ?c1"
    using turn_step.takes [of "fresh_turns ?w" "1::nat" "writer_take ?api 16" "WEnter False" 7 w1] w1(1)
    by (simp add: fresh_turns_def)
  moreover have "writer_turn ?api 16 ?c1 ?c2"
    using turn_step.refused [of "writer_take ?api 16" WRecover ?c1] by (simp add: writer_take_def)
  ultimately have r: "(writer_turn ?api 16)\<^sup>*\<^sup>* (fresh_turns ?w) ?c2" by auto
  from writer_mutual_exclusion [OF live r rtranclp.rtrancl_refl] have "one_holder ?c2" by auto
  moreover have "writer_now 16 (tn_state ?c2) = Some WriterFailed"
    using recover_section [OF w1(2), of ?api] by (simp add: writer_pass_def)
  ultimately show ?thesis using r by auto
qed

text \<open>The writes of a session: all data delivered to the backend in order.\<close>

fun write_all ::
  "'x writer_api \<Rightarrow> addr \<Rightarrow> addr \<Rightarrow> addr list \<Rightarrow> 'x world \<Rightarrow> exit list \<times> 'x world" where
  "write_all api p oerr [] w = ([], w)"
| "write_all api p oerr (dp # dps) w =
     (let (e, w1) = writer_write api [] p dp oerr w;
          (es, w2) = write_all api p oerr dps w1
      in (e # es, w2))"

fun accepts_all :: "'x writer_api \<Rightarrow> token \<Rightarrow> 'x \<Rightarrow> u8 list list \<Rightarrow> 'x \<Rightarrow> bool" where
  "accepts_all api t x [] x' \<longleftrightarrow> x' = x"
| "accepts_all api t x (d # ds) x' \<longleftrightarrow> (\<exists>y. wa_write api t d x = (XOk (), y) \<and> accepts_all api t y ds x')"

lemma write_all_accepted:
  assumes "8 dvd oerr" and "list_all2 (\<lambda>dp d. read_binary m dp = Inr d) dps ds"
    and "writer_at p (WriterOpen t) x m w" and "accepts_all api t x ds x'"
  shows "fst (write_all api p oerr dps w) = replicate (length dps) (Returned STATUS_OK) \<and>
    writer_at p (WriterOpen t) x' m (snd (write_all api p oerr dps w))"
  using assms(2-4)
proof (induction dps ds arbitrary: x w rule: list_all2_induct)
  case (Cons dp dps d ds)
  then obtain y where y: "wa_write api t d x = (XOk (), y)" "accepts_all api t y ds x'" by auto
  obtain w1 where "writer_write api [] p dp oerr w = (Returned STATUS_OK, w1)"
    "writer_at p (WriterOpen t) y m w1"
    using writer_write_open [OF assms(1) Cons.prems(1) Cons.hyps(1) y(1)] by blast
  with Cons.IH [of y w1] y(2) show ?case by (simp add: split_beta)
qed simp

text \<open>
  C4. A write session delivers the caller's data in order and finishes once. When the backend
  accepts the writes and the close, every write reports success, the backend has seen exactly the
  caller's byte strings in order, the close hands out the metadata and drops the native writer, and
  afterwards write, close and abort all report an error without reaching the backend.
\<close>

theorem writer_session:
  assumes "valid_slots slot oerr" and "list_all2 (\<lambda>dp d. read_binary m dp = Inr d) dps ds"
    and "writer_at p (WriterOpen t) x m w" and "accepts_all api t x ds x1"
    and "wa_close api t x1 = (XOk md, x2)" and "checked_metadata md = Inr v"
    and "read_binary m dp = Inr d"
  shows "\<exists>w1 w2 w3 w4 w5.
    write_all api p oerr dps w = (replicate (length dps) (Returned STATUS_OK), w1) \<and>
    writer_close api waits p slot oerr w1 = (Returned STATUS_OK, w2) \<and>
    boxes w2 (o_ptr (out w2) slot) = Some (OMetadata v) \<and>
    ext w2 = snd (wa_drop api t x2) \<and>
    writer_write api waits p dp oerr w2 = (Returned STATUS_ERROR, w3) \<and>
    writer_close api waits p slot oerr w3 = (Returned STATUS_ERROR, w4) \<and>
    writer_abort api waits p oerr w4 = (Returned STATUS_ERROR, w5) \<and> ext w5 = ext w2"
proof -
  have oerr: "8 dvd oerr" using assms(1) by (simp add: valid_slots_def)
  have ended: "writer_ended WriterFinished" by (simp add: writer_ended_def)
  obtain w1 where w1: "write_all api p oerr dps w = (replicate (length dps) (Returned STATUS_OK), w1)"
    "writer_at p (WriterOpen t) x1 m w1"
    using write_all_accepted [OF oerr assms(2-4)] by (metis prod.collapse)
  obtain w2 where w2: "writer_close api waits p slot oerr w1 = (Returned STATUS_OK, w2)"
    "writer_at p WriterFinished (snd (wa_drop api t x2)) m w2"
    "boxes w2 (o_ptr (out w2) slot) = Some (OMetadata v)"
    using writer_close_open [OF assms(1) w1(2) assms(5,6)] by blast
  obtain w3 where w3: "writer_write api waits p dp oerr w2 = (Returned STATUS_ERROR, w3)"
    "writer_at p WriterFinished (snd (wa_drop api t x2)) m w3"
    using writer_write_ended [OF oerr w2(2) ended assms(7)] by blast
  obtain w4 where w4: "writer_close api waits p slot oerr w3 = (Returned STATUS_ERROR, w4)"
    "writer_at p WriterFinished (snd (wa_drop api t x2)) m w4"
    using writer_close_ended [OF assms(1) w3(2) ended] by blast
  obtain w5 where "writer_abort api waits p oerr w4 = (Returned STATUS_ERROR, w5)"
    "writer_at p WriterFinished (snd (wa_drop api t x2)) m w5"
    using writer_abort_ended [OF oerr w4(2) ended] by auto
  with w1 w2 w3 w4 show ?thesis by (auto simp: ready_at_def)
qed

lemma writer_session_witness:
  "\<exists>w1 w2. write_all sample_writer_api 16 72 [8, 8]
      ((sample_with (writer_obj (WriterOpen 7) False) [])\<lparr>runtime_cell := Some (Inr ())\<rparr>) =
      ([Returned STATUS_OK, Returned STATUS_OK], w1) \<and>
    writer_close sample_writer_api [] 16 64 72 w1 = (Returned STATUS_OK, w2)"
proof -
  let ?w = "(sample_with (writer_obj (WriterOpen 7) False) [])\<lparr>runtime_cell := Some (Inr ())\<rparr>"
  have "read_binary sample_inputs 8 = Inr []"
    by (simp add: read_binary_def read_required_def null_ptr_def is_aligned_def sample_inputs_def
        borrowed_bytes_def checked_len_def isize_max_def no_view_def)
  moreover have "writer_at 16 (WriterOpen 7) [] sample_inputs ?w"
    using wf_sample_with [of "writer_obj (WriterOpen 7) False" "[]"]
    by (simp add: ready_at_def live_at_def wf_world_def)
  moreover have "checked_metadata sample_file = Inr \<lparr>mdv_metadata = sample_file\<rparr>"
    by (simp add: checked_metadata_def check_output_string_def sample_file_def)
  ultimately show ?thesis
    using writer_session [of 64 72 sample_inputs "[8, 8]" "[[], []]" 16 7 "[]" ?w sample_writer_api
        "[]" sample_file "[]" "\<lparr>mdv_metadata = sample_file\<rparr>" 8 "[]" "[]"]
    by (auto simp: valid_slots_def sample_writer_api_def)
qed

text \<open>
  C39. A write that fails or panics ends the writer: the call reports it, the native writer is dropped
  exactly then, and the writer is failed, so that the next write is refused without reaching the
  backend.
\<close>

theorem writer_failure_is_final:
  assumes "8 dvd oerr" and "writer_at p (WriterOpen t) x m w" and "read_binary m dp = Inr d"
    and "wa_write api t d x = (r, x')" and "\<forall>u. r \<noteq> XOk u"
  shows "\<exists>status w1 w2. writer_write api waits p dp oerr w = (Returned status, w1) \<and>
    status \<in> {STATUS_ERROR, STATUS_PANIC} \<and> ext w1 = snd (wa_drop api t x') \<and>
    boxes w1 p = Some (writer_obj WriterFailed False) \<and>
    writer_write api waits p dp oerr w1 = (Returned STATUS_ERROR, w2) \<and> ext w2 = ext w1"
proof -
  obtain status w1 where w1: "writer_write api waits p dp oerr w = (Returned status, w1)"
    "status \<in> {STATUS_ERROR, STATUS_PANIC}"
    "writer_at p WriterFailed (snd (wa_drop api t x')) m w1"
    using writer_write_failed [OF assms] by blast
  moreover obtain w2 where "writer_write api waits p dp oerr w1 = (Returned STATUS_ERROR, w2)"
    "writer_at p WriterFailed (snd (wa_drop api t x')) m w2"
    using writer_write_ended [OF assms(1) w1(3) _ assms(3)] by (auto simp: writer_ended_def)
  ultimately show ?thesis by (auto simp: ready_at_def live_at_def)
qed

lemma writer_failure_is_final_witness:
  "\<exists>status w1. writer_write (sample_writer_api\<lparr>wa_write := (\<lambda>_ _ x. (XPanic, x))\<rparr>) [] 16 8 72
      ((sample_with (writer_obj (WriterOpen 7) False) [])\<lparr>runtime_cell := Some (Inr ())\<rparr>) =
      (Returned status, w1) \<and> boxes w1 16 = Some (writer_obj WriterFailed False)"
proof -
  let ?w = "(sample_with (writer_obj (WriterOpen 7) False) [])\<lparr>runtime_cell := Some (Inr ())\<rparr>"
  have "read_binary sample_inputs 8 = Inr []"
    by (simp add: read_binary_def read_required_def null_ptr_def is_aligned_def sample_inputs_def
        borrowed_bytes_def checked_len_def isize_max_def no_view_def)
  moreover have "writer_at 16 (WriterOpen 7) [] sample_inputs ?w"
    using wf_sample_with [of "writer_obj (WriterOpen 7) False" "[]"]
    by (simp add: ready_at_def live_at_def wf_world_def)
  ultimately show ?thesis
    using writer_failure_is_final [of 72 16 7 "[]" sample_inputs ?w 8 "[]"
        "sample_writer_api\<lparr>wa_write := (\<lambda>_ _ x. (XPanic, x))\<rparr>" XPanic "[]" "[]"]
    by auto
qed

end
