(* ===== verification/Copier.thy ===== *)
theory Copier
  imports Turns
begin

text \<open>
  Managed copies (\<open>operator_copier\<close>, \<open>copier_next\<close>, \<open>copier_finish\<close>, \<open>copier_abort\<close>, \<open>copier_free\<close> of
  \<open>lib.rs\<close> and their state helpers). A copier is a mutex around \<open>Open\<close>, \<open>Busy\<close>, \<open>End\<close>, \<open>Finished\<close>,
  \<open>Aborted\<close> or \<open>Failed\<close> with a condition variable. \<open>End\<close> keeps the native copier: the end of the
  progress is stable until \<open>copier_finish\<close> consumes it.
\<close>

section \<open>State helpers\<close>

record 'x copier_api =
  ca_build_runtime :: "'x \<Rightarrow> bool \<times> 'x"
  ca_copier :: "token \<Rightarrow> string \<Rightarrow> string \<Rightarrow> ('x, token) xcall"
  ca_next :: "token \<Rightarrow> ('x, usize option) xcall"
  ca_close :: "token \<Rightarrow> ('x, Metadata) xcall"
  ca_abort :: "token \<Rightarrow> ('x, unit) xcall"
  ca_drop :: "token \<Rightarrow> ('x, unit) xcall"

definition copier_obj :: "CopierStateV1 \<Rightarrow> bool \<Rightarrow> obj" where
  "copier_obj s poisoned = OCopier \<lparr>copier_state = \<lparr>mx_state = s, mx_poisoned = poisoned\<rparr>\<rparr>"

definition drop_async_copier_contained :: "'x copier_api \<Rightarrow> token \<Rightarrow> ('x, unit) M" where
  "drop_async_copier_contained api = drop_contained (ca_drop api)"

definition open_copier :: "CopierStateV1 \<Rightarrow> token option" where
  "open_copier s = (case s of CopierOpen inner \<Rightarrow> Some inner | CopierEnd inner \<Rightarrow> Some inner | _ \<Rightarrow> None)"

definition fail_copier_state :: "'x copier_api \<Rightarrow> addr \<Rightarrow> CopierV1 \<Rightarrow> ('x, unit) M" where
  "fail_copier_state api p copier =
     bind (put_box p (copier_obj CopierFailed False)) (\<lambda>_.
       drop_open (drop_async_copier_contained api) (open_copier (mx_state (copier_state copier))))"

definition copier_poison_failure :: "'x copier_api \<Rightarrow> addr \<Rightarrow> CopierV1 \<Rightarrow> ('x, CallFailure) M" where
  "copier_poison_failure api p copier =
     bind (put_box p (copier_obj CopierFailed False)) (\<lambda>_.
     bind (drop_open (drop_async_copier_contained api)
             (open_copier (mx_state (copier_state copier)))) (\<lambda>_.
       ret (unexpected ''copier state lock was poisoned'')))"

datatype CopierCall = CopierNext | CopierFinish | CopierAbort

definition take_copier_now :: "CopierCall \<Rightarrow> CopierStateV1 \<Rightarrow> taken \<times> CopierStateV1" where
  \<comment> \<open>one turn of the loop of \<open>take_copier_for_call\<close>, under the lock\<close>
  "take_copier_now call current =
     (case current of
        CopierOpen inner \<Rightarrow> (Took inner, CopierBusy)
      | CopierEnd inner \<Rightarrow>
          (case call of
             CopierFinish \<Rightarrow> (Took inner, CopierBusy)
           | CopierNext \<Rightarrow> (AlreadyDone, CopierEnd inner)
           | CopierAbort \<Rightarrow> (Refused (resource_closed ''copier is closed''), CopierEnd inner))
      | CopierBusy \<Rightarrow> (Wait, CopierBusy)
      | CopierAborted \<Rightarrow>
          if call = CopierAbort then (AlreadyDone, CopierAborted)
          else (Refused (resource_closed ''copier is closed''), CopierAborted)
      | CopierFinished \<Rightarrow> (Refused (resource_closed ''copier is closed''), CopierFinished)
      | CopierFailed \<Rightarrow> (Refused (resource_closed ''copier is closed''), CopierFailed))"

fun take_copier_for_call ::
  "'x copier_api \<Rightarrow> 'x rely \<Rightarrow> addr \<Rightarrow> CopierCall \<Rightarrow> ('x, token option) M" where
  "take_copier_for_call api waits p call =
     locked as_copier p (\<lambda>copier.
       if mx_poisoned (copier_state copier)
       then bind (copier_poison_failure api p copier) throw
       else
         (case take_copier_now call (mx_state (copier_state copier)) of
            (r, s) \<Rightarrow>
              bind (put_box p (copier_obj s False)) (\<lambda>_.
                case r of
                  Took inner \<Rightarrow> ret (Some inner)
                | AlreadyDone \<Rightarrow> ret None
                | Refused failure \<Rightarrow> throw failure
                | Wait \<Rightarrow>
                    (\<lambda>w. case waits of
                       [] \<Rightarrow> (Blocked, w)
                     | others # waits' \<Rightarrow> take_copier_for_call api waits' p call (others w)))))"

definition set_copier_state ::
  "'x copier_api \<Rightarrow> addr \<Rightarrow> CopierStateV1 \<Rightarrow> ('x, unit CallResult) M" where
  "set_copier_state api p next_state =
     locked as_copier p (\<lambda>copier.
       if mx_poisoned (copier_state copier) then
         bind (put_box p (copier_obj CopierFailed False)) (\<lambda>_.
         bind (drop_open (drop_value (ca_drop api)) (open_copier next_state)) (\<lambda>_.
           ret (Inl (unexpected ''copier state lock was poisoned''))))
       else bind (put_box p (copier_obj next_state False)) (\<lambda>_. ret (Inr ())))"

section \<open>Entry points\<close>

definition operator_copier_body ::
  "'x copier_api \<Rightarrow> addr \<Rightarrow> addr \<Rightarrow> addr \<Rightarrow> ('x, CopierV1) M" where
  "operator_copier_body api operator source destination =
     bind (borrow_required as_operator operator) (\<lambda>operator.
     bind (with_inputs (\<lambda>m. read_text m source ''source path'')) (\<lambda>source.
     bind (with_inputs (\<lambda>m. read_text m destination ''destination path'')) (\<lambda>destination.
     bind (runtime (ca_build_runtime api)) (\<lambda>_.
     bind (ext_call opendal_error (ca_copier api (op_async_inner operator) source destination))
       (\<lambda>copier.
       ret \<lparr>copier_state = \<lparr>mx_state = CopierOpen copier, mx_poisoned = False\<rparr>\<rparr>)))))"

definition operator_copier ::
  "'x copier_api \<Rightarrow> addr \<Rightarrow> addr \<Rightarrow> addr \<Rightarrow> addr \<Rightarrow> addr \<Rightarrow> 'x world \<Rightarrow> exit \<times> 'x world" where
  "operator_copier api operator source destination out_copier out_error =
     catch_status (with_outputs [clear_ptr_output out_copier, clear_error_output out_error]
       out_error
       (deliver (operator_copier_body api operator source destination)
          (\<lambda>a. write_handle out_copier (OCopier a)) out_error))"

definition fail_copier_call ::
  "'x copier_api \<Rightarrow> addr \<Rightarrow> token \<Rightarrow> ('x, u32) M \<Rightarrow> ('x, u32) M" where
  "fail_copier_call api p inner report =
     bind (set_copier_state api p CopierFailed) (\<lambda>_.
     bind (drop_async_copier_contained api inner) (\<lambda>_. report))"

definition recover_copier :: "'x copier_api \<Rightarrow> addr \<Rightarrow> ('x, unit) M" where
  "recover_copier api p = if_aligned p (on_handle as_copier p (fail_copier_state api p))"

definition copier_progress :: "usize option \<Rightarrow> u64 option CallResult" where
  "copier_progress progress =
     (case progress of
        None \<Rightarrow> Inr None
      | Some value \<Rightarrow>
          (case u64_try_from value of
             None \<Rightarrow> Inl (buffer_too_large ''copier progress is not representable as UInt64'')
           | Some bytes \<Rightarrow> Inr (Some bytes)))"

definition copier_next ::
  "'x copier_api \<Rightarrow> 'x rely \<Rightarrow> addr \<Rightarrow> addr \<Rightarrow> addr \<Rightarrow> 'x world \<Rightarrow> exit \<times> 'x world" where
  "copier_next api waits copier out_bytes out_error =
     recover_panic
       (with_outputs [clear_u64_output out_bytes, clear_error_output out_error] out_error
         (with_handle as_copier copier out_error (\<lambda>_.
          finish_or (runtime (ca_build_runtime api)) out_error (\<lambda>_.
          finish_or (take_copier_for_call api waits copier CopierNext) out_error (\<lambda>taken.
            case taken of
              None \<Rightarrow> ret STATUS_END
            | Some inner \<Rightarrow>
                bind (catch_unwind (bind (ext_call opendal_error (ca_next api inner)) (\<lambda>progress.
                        lift_res (copier_progress progress)))) (\<lambda>step.
                  case step of
                    Some (Inr (Some bytes)) \<Rightarrow>
                      bind (set_copier_state api copier (CopierOpen inner)) (\<lambda>r.
                        case r of
                          Inr _ \<Rightarrow> bind (write_u64 out_bytes bytes) (\<lambda>_. ret STATUS_OK)
                        | Inl failure \<Rightarrow> finish_failure failure out_error)
                  | Some (Inr None) \<Rightarrow>
                      bind (set_copier_state api copier (CopierEnd inner)) (\<lambda>r.
                        case r of
                          Inr _ \<Rightarrow> ret STATUS_END
                        | Inl failure \<Rightarrow> finish_failure failure out_error)
                  | Some (Inl failure) \<Rightarrow>
                      fail_copier_call api copier inner (finish_failure failure out_error)
                  | None \<Rightarrow> fail_copier_call api copier inner (ret STATUS_PANIC)))))))
       (recover_copier api copier)"

definition require_copier :: "'x copier_api \<Rightarrow> 'x rely \<Rightarrow> addr \<Rightarrow> ('x, token) M" where
  \<comment> \<open>\<open>take_copier_for_call(copier, Finish)\<close> with the arm that cannot be reached\<close>
  "require_copier api waits p =
     bind (take_copier_for_call api waits p CopierFinish) (\<lambda>r.
       case r of Some inner \<Rightarrow> ret inner | None \<Rightarrow> panic)"

definition copier_finish ::
  "'x copier_api \<Rightarrow> 'x rely \<Rightarrow> addr \<Rightarrow> addr \<Rightarrow> addr \<Rightarrow> 'x world \<Rightarrow> exit \<times> 'x world" where
  "copier_finish api waits copier out_metadata out_error =
     recover_panic
       (with_outputs [clear_ptr_output out_metadata, clear_error_output out_error] out_error
         (with_handle as_copier copier out_error (\<lambda>_.
          finish_or (runtime (ca_build_runtime api)) out_error (\<lambda>_.
          finish_or (require_copier api waits copier) out_error (\<lambda>inner.
            bind (catch_unwind (bind (ext_call opendal_error (ca_close api inner)) (\<lambda>metadata.
                    lift_res (checked_metadata metadata)))) (\<lambda>step.
              case step of
                Some (Inr metadata) \<Rightarrow>
                  bind (set_copier_state api copier CopierFinished) (\<lambda>r.
                    case r of
                      Inl failure \<Rightarrow>
                        bind (drop_async_copier_contained api inner) (\<lambda>_.
                          finish_failure failure out_error)
                    | Inr _ \<Rightarrow>
                        bind (drop_async_copier_contained api inner) (\<lambda>_.
                        bind (write_handle out_metadata (OMetadata metadata)) (\<lambda>_.
                          ret STATUS_OK)))
              | Some (Inl failure) \<Rightarrow>
                  fail_copier_call api copier inner (finish_failure failure out_error)
              | None \<Rightarrow> fail_copier_call api copier inner (ret STATUS_PANIC)))))))
       (recover_copier api copier)"

definition copier_abort ::
  "'x copier_api \<Rightarrow> 'x rely \<Rightarrow> addr \<Rightarrow> addr \<Rightarrow> 'x world \<Rightarrow> exit \<times> 'x world" where
  "copier_abort api waits copier out_error =
     recover_panic
       (with_outputs [clear_error_output out_error] out_error
         (with_handle as_copier copier out_error (\<lambda>_.
          finish_or (runtime (ca_build_runtime api)) out_error (\<lambda>_.
          finish_or (take_copier_for_call api waits copier CopierAbort) out_error (\<lambda>taken.
            case taken of
              None \<Rightarrow> ret STATUS_OK
            | Some inner \<Rightarrow>
                bind (catch_unwind (ext_call opendal_error (ca_abort api inner))) (\<lambda>step.
                  case step of
                    Some (Inr _) \<Rightarrow>
                      bind (set_copier_state api copier CopierAborted) (\<lambda>result.
                      bind (drop_async_copier_contained api inner) (\<lambda>_.
                        case result of
                          Inr _ \<Rightarrow> ret STATUS_OK
                        | Inl failure \<Rightarrow> finish_failure failure out_error))
                  | Some (Inl failure) \<Rightarrow>
                      fail_copier_call api copier inner (finish_failure failure out_error)
                  | None \<Rightarrow> fail_copier_call api copier inner (ret STATUS_PANIC)))))))
       (recover_copier api copier)"

definition copier_free :: "'x copier_api \<Rightarrow> addr \<Rightarrow> ('x, unit) M" where
  "copier_free api copier =
     contain (on_handle as_copier copier (\<lambda>h.
       bind (fail_copier_state api copier h) (\<lambda>_. free_box as_copier copier)))"

declare take_copier_for_call.simps [simp del]

lemma quiet_operator_copier: "quiet (operator_copier_body api p source destination)"
  unfolding operator_copier_body_def by (intro quiet_intros)

interpretation copier_call: quiet_body "operator_copier_body api p source destination"
  for api p source destination by unfold_locales (rule quiet_operator_copier)

section \<open>Running the helpers\<close>

lemma as_copier_obj [simp]:
  "as_copier (copier_obj s b) = Some \<lparr>copier_state = \<lparr>mx_state = s, mx_poisoned = b\<rparr>\<rparr>"
  by (simp add: copier_obj_def)

abbreviation copier_at ::
  "addr \<Rightarrow> CopierStateV1 \<Rightarrow> 'x \<Rightarrow> inputs \<Rightarrow> 'x world \<Rightarrow> bool" where
  "copier_at p s \<equiv> ready_at p (copier_obj s False)"

definition copier_ended :: "CopierStateV1 \<Rightarrow> bool" where
  "copier_ended s \<longleftrightarrow> s \<in> {CopierFinished, CopierAborted, CopierFailed}"

text \<open>What a call that need not wait takes, in one fact.\<close>

lemma take_copier_ready:
  assumes "boxes w p = Some (copier_obj s False)" and "take_copier_now call s = (r, s')"
  shows "take_copier_for_call api waits p call w =
    (case r of
       Took t \<Rightarrow> (Ok (Some t), w\<lparr>boxes := (boxes w)(p \<mapsto> copier_obj s' False)\<rparr>)
     | AlreadyDone \<Rightarrow> (Ok None, w\<lparr>boxes := (boxes w)(p \<mapsto> copier_obj s' False)\<rparr>)
     | Refused f \<Rightarrow> (Err f, w\<lparr>boxes := (boxes w)(p \<mapsto> copier_obj s' False)\<rparr>)
     | Wait \<Rightarrow>
         (case waits of
            [] \<Rightarrow> (Blocked, w\<lparr>boxes := (boxes w)(p \<mapsto> copier_obj s' False)\<rparr>)
          | others # waits' \<Rightarrow>
              take_copier_for_call api waits' p call
                (others (w\<lparr>boxes := (boxes w)(p \<mapsto> copier_obj s' False)\<rparr>))))"
  using assms
  by (subst take_copier_for_call.simps)
    (simp add: locked_def bind_def run_simps split: taken.splits list.splits)

lemma take_copier_keeps:
  assumes "take_copier_now call s = (r, s')" and "\<forall>t. r \<noteq> Took t"
  shows "s' = s"
  using assms
  by (auto simp: take_copier_now_def split: CopierStateV1.splits CopierCall.splits if_splits)

lemma put_same:
  assumes "boxes w p = Some ob"
  shows "w\<lparr>boxes := (boxes w)(p \<mapsto> ob)\<rparr> = w"
    and "(clear_slots S w)\<lparr>boxes := (boxes w)(p \<mapsto> ob)\<rparr> = clear_slots S w"
  using assms by (simp_all add: fun_upd_idem clear_slots_def)

lemma run_with_u64_outputs:
  assumes "valid_slots slot oerr"
  shows "with_outputs [clear_u64_output slot, clear_error_output oerr] oerr body w =
    body (clear_slots {oerr} (w\<lparr>out := (out w)\<lparr>o_u64 := (o_u64 (out w))(slot := 0)\<rparr>\<rparr>))"
  using assms
  by (simp add: with_outputs_def valid_slots_def bind_def run_clear_error run_simps clear_u64_output_def
      clear_required_output_def null_ptr_def is_aligned_def mod_eq_0_iff_dvd)

lemmas copier_run = turn_run require_copier_def set_copier_state_def fail_copier_call_def
  drop_async_copier_contained_def copier_progress_def

section \<open>One call\<close>

text \<open>The world a polling call works on: outputs cleared, handle and backend untouched.\<close>

definition next_start :: "addr \<Rightarrow> addr \<Rightarrow> 'x world \<Rightarrow> 'x world" where
  "next_start slot oerr w =
     clear_slots {oerr} (w\<lparr>out := (out w)\<lparr>o_u64 := (o_u64 (out w))(slot := 0)\<rparr>\<rparr>)"

lemma ready_next_start [simp]: "ready_at p ob x m (next_start slot oerr w) = ready_at p ob x m w"
  by (simp add: next_start_def) (simp add: ready_at_def live_at_def wf_world_def)

lemma ready_atD:
  assumes "ready_at p ob x m w"
  shows "boxes w p = Some ob" "0 < p" "8 dvd p" "p \<noteq> next_box w" "wf_world w" "p \<noteq> 0"
    "ext w = x" "inp w = m" "runtime_cell w = Some (Inr ())"
  using assms live_atD [of p ob w] by (auto simp: ready_at_def)

lemma copier_next_open:
  assumes "valid_slots slot oerr" and "copier_at p (CopierOpen t) x m w"
    and "ca_next api t x = (XOk (Some n), x')" and "n \<le> u64_max"
  shows "\<exists>w'. copier_next api waits p slot oerr w = (Returned STATUS_OK, w') \<and>
    copier_at p (CopierOpen t) x' m w' \<and> unat (o_u64 (out w') slot) = n"
proof -
  let ?w0 = "next_start slot oerr w"
  have at0: "copier_at p (CopierOpen t) x m ?w0" using assms(2) by simp
  obtain b where b: "u64_try_from n = Some b" "unat b = n"
    using assms(4) by (simp add: u64_try_from_def unat_u64_of_nat)
  let ?w1 = "?w0\<lparr>boxes := (boxes ?w0)(p \<mapsto> copier_obj (CopierOpen t) False), ext := x'\<rparr>"
  let ?w2 = "?w1\<lparr>out := (out ?w1)\<lparr>o_u64 := (o_u64 (out ?w1))(slot := b)\<rparr>\<rparr>"
  have take: "take_copier_now CopierNext (CopierOpen t) = (Took t, CopierBusy)"
    by (simp add: take_copier_now_def)
  have "copier_next api waits p slot oerr w = (Returned STATUS_OK, ?w2)"
    using assms(1,3) b(1) ready_atD [OF at0]
    by (simp add: copier_next_def run_with_u64_outputs next_start_def [symmetric] copier_run
        take_copier_ready [OF _ take])
  moreover have "copier_at p (CopierOpen t) x' m ?w2"
    using ready_at_put [OF at0, of "copier_obj (CopierOpen t) False" x']
    by (simp add: ready_at_def live_at_def wf_world_def)
  ultimately show ?thesis using b(2) by (intro exI [of _ ?w2]) simp
qed

lemma copier_next_last:
  assumes "valid_slots slot oerr" and "copier_at p (CopierOpen t) x m w"
    and "ca_next api t x = (XOk None, x')"
  shows "\<exists>w'. copier_next api waits p slot oerr w = (Returned STATUS_END, w') \<and>
    copier_at p (CopierEnd t) x' m w' \<and> o_u64 (out w') slot = 0"
proof -
  let ?w0 = "next_start slot oerr w"
  let ?w1 = "?w0\<lparr>boxes := (boxes ?w0)(p \<mapsto> copier_obj (CopierEnd t) False), ext := x'\<rparr>"
  have at0: "copier_at p (CopierOpen t) x m ?w0" using assms(2) by simp
  have take: "take_copier_now CopierNext (CopierOpen t) = (Took t, CopierBusy)"
    by (simp add: take_copier_now_def)
  have "copier_next api waits p slot oerr w = (Returned STATUS_END, ?w1)"
    using assms(1,3) ready_atD [OF at0]
    by (simp add: copier_next_def run_with_u64_outputs next_start_def [symmetric] copier_run
        take_copier_ready [OF _ take])
  moreover have "o_u64 (out ?w1) slot = 0" by (simp add: next_start_def clear_slots_def)
  ultimately show ?thesis using ready_at_put [OF at0] by blast
qed

lemma copier_next_at_end:
  assumes "valid_slots slot oerr" and "copier_at p (CopierEnd t) x m w"
  shows "\<exists>w'. copier_next api waits p slot oerr w = (Returned STATUS_END, w') \<and>
    copier_at p (CopierEnd t) x m w' \<and> o_u64 (out w') slot = 0"
proof -
  let ?w0 = "next_start slot oerr w"
  have at0: "copier_at p (CopierEnd t) x m ?w0" using assms(2) by simp
  have take: "take_copier_now CopierNext (CopierEnd t) = (AlreadyDone, CopierEnd t)"
    by (simp add: take_copier_now_def)
  have "copier_next api waits p slot oerr w = (Returned STATUS_END, ?w0)"
    using assms(1) ready_atD [OF at0]
    by (simp add: copier_next_def run_with_u64_outputs next_start_def [symmetric] copier_run
        take_copier_ready [OF _ take] put_same)
  moreover have "o_u64 (out ?w0) slot = 0" by (simp add: next_start_def clear_slots_def)
  ultimately show ?thesis using at0 by blast
qed

lemma copier_finish_open:
  assumes "valid_slots slot oerr" and "copier_at p s x m w" and "s \<in> {CopierOpen t, CopierEnd t}"
    and "ca_close api t x = (XOk md, x')" and "checked_metadata md = Inr v"
  shows "\<exists>w'. copier_finish api waits p slot oerr w = (Returned STATUS_OK, w') \<and>
    copier_at p CopierFinished (snd (ca_drop api t x')) m w' \<and>
    boxes w' (o_ptr (out w') slot) = Some (OMetadata v)"
proof -
  let ?w0 = "clear_slots {slot, oerr} w" and ?w' = "snd (copier_finish api waits p slot oerr w)"
  have at0: "copier_at p s x m ?w0" using assms(2) by simp
  note l = ready_atD [OF at0]
  have take: "take_copier_now CopierFinish s = (Took t, CopierBusy)"
    using assms(3) by (auto simp: take_copier_now_def)
  have run: "copier_finish api waits p slot oerr w = (Returned STATUS_OK, ?w') \<and>
      boxes ?w' = (boxes ?w0)(p \<mapsto> copier_obj CopierFinished False, next_box ?w0 \<mapsto> OMetadata v) \<and>
      next_box ?w' = next_box ?w0 + 16 \<and> ext ?w' = snd (ca_drop api t x') \<and>
      inp ?w' = m \<and> runtime_cell ?w' = Some (Inr ()) \<and> o_ptr (out ?w') slot = next_box ?w0"
    using assms(1,4,5) l
    by (simp add: copier_finish_def run_with_handle_outputs valid_slots_def copier_run
        take_copier_ready [OF _ take] run_write_handle)
  moreover have "wf_world ?w'" using run by (intro wf_world_put_new [OF l(5,1)]) auto
  ultimately show ?thesis
    using l(4) by (intro exI [of _ ?w']) (simp add: ready_at_def live_at_def)
qed

section \<open>The documented life cycle\<close>

text \<open>
  The transitions of \<open>c-abi.md\<close>: \<open>Open --next--> Open, End\<close>; \<open>Open/End --finish--> Finished\<close>;
  \<open>Open --abort--> Aborted\<close>; each may instead lead to \<open>Failed\<close>. Everywhere else a call changes nothing.
\<close>

fun copier_diagram :: "CopierCall \<Rightarrow> CopierStateV1 \<Rightarrow> CopierStateV1 \<Rightarrow> bool" where
  "copier_diagram CopierNext (CopierOpen t) s' \<longleftrightarrow> s' \<in> {CopierOpen t, CopierEnd t, CopierFailed}"
| "copier_diagram CopierFinish (CopierOpen t) s' \<longleftrightarrow> s' \<in> {CopierFinished, CopierFailed}"
| "copier_diagram CopierFinish (CopierEnd t) s' \<longleftrightarrow> s' \<in> {CopierFinished, CopierFailed}"
| "copier_diagram CopierAbort (CopierOpen t) s' \<longleftrightarrow> s' \<in> {CopierAborted, CopierFailed}"
| "copier_diagram _ s s' \<longleftrightarrow> s' = s"

definition copier_idle :: "CopierCall \<Rightarrow> CopierStateV1 \<Rightarrow> bool" where
  \<comment> \<open>the call does not reach the backend in this state\<close>
  "copier_idle call s \<longleftrightarrow> (\<forall>t. fst (take_copier_now call s) \<noteq> Took t)"

definition copier_outcome ::
  "CopierCall \<Rightarrow> addr \<Rightarrow> CopierStateV1 \<Rightarrow> 'x \<Rightarrow> inputs \<Rightarrow> exit \<times> 'x world \<Rightarrow> bool" where
  "copier_outcome call p s x m r \<longleftrightarrow>
     (\<exists>e s' x'. fst r = Returned e \<and> e \<in> {STATUS_OK, STATUS_END, STATUS_ERROR, STATUS_PANIC} \<and>
        copier_at p s' x' m (snd r) \<and> copier_diagram call s s' \<and> (copier_idle call s \<longrightarrow> x' = x))"

lemma copier_outcomeI:
  assumes "r = (Returned e, w')" and "copier_at p s' x' m w'"
    and "copier_diagram call s s'" and "copier_idle call s \<longrightarrow> x' = x"
    and "e \<in> {STATUS_OK, STATUS_END, STATUS_ERROR, STATUS_PANIC}"
  shows "copier_outcome call p s x m r"
proof -
  from assms have "fst r = Returned e" "copier_at p s' x' m (snd r)" by auto
  with assms(3-5) show ?thesis unfolding copier_outcome_def by blast
qed

lemma failures_are_errors [simp]:
  "opendal_error e \<noteq> AbiMismatch" "buffer_too_large l \<noteq> AbiMismatch" "resource_closed l \<noteq> AbiMismatch"
  by (simp_all add: opendal_error_def buffer_too_large_def resource_closed_def binding_error_def Let_def)

lemma take_copier_Took:
  assumes "take_copier_now call s = (Took t, s')"
  shows "s' = CopierBusy \<and> (s = CopierOpen t \<or> s = CopierEnd t \<and> call = CopierFinish)"
  using assms
  by (auto simp: take_copier_now_def split: CopierStateV1.splits CopierCall.splits if_splits)

text \<open>How a call that took the native copier and failed ends: \<open>None\<close> stands for a panic.\<close>

definition report_failure ::
  "CallFailure option \<Rightarrow> addr \<Rightarrow> ('x, unit) M \<Rightarrow> 'x world \<Rightarrow> exit \<times> 'x world" where
  "report_failure fo oerr rec w =
     (case fo of None \<Rightarrow> (Returned STATUS_PANIC, w)
      | Some f \<Rightarrow> recover_panic (finish_failure f oerr) rec w)"

lemma copier_outcome_failed:
  assumes "copier_at p s x m w0" and "take_copier_now call s = (Took t, s1)"
    and "w1 = w0\<lparr>boxes := (boxes w0)(p \<mapsto> copier_obj CopierFailed False), ext := x'\<rparr>"
    and "r = report_failure fo oerr rec w1" and "fo \<noteq> Some AbiMismatch"
  shows "copier_outcome call p s x m r"
proof -
  have at1: "copier_at p CopierFailed x' m w1" using ready_at_put [OF assms(1)] assms(3) by simp
  have d: "copier_diagram call s CopierFailed" "\<not> copier_idle call s"
    using take_copier_Took [OF assms(2)] assms(2) by (cases call; auto simp: copier_idle_def)+
  show ?thesis
  proof (cases fo)
    case None
    with at1 d assms(4) show ?thesis by (intro copier_outcomeI) (auto simp: report_failure_def)
  next
    case (Some f)
    then obtain w' where "r = (Returned STATUS_ERROR, w')" "copier_at p CopierFailed x' m w'"
      using ready_reported [OF at1, of f oerr rec] assms(4,5) by (auto simp: report_failure_def)
    then show ?thesis by (rule copier_outcomeI) (use d in simp_all)
  qed
qed

lemma copier_outcome_idle:
  assumes "copier_at p s x m w0" and "copier_idle call s" and "s \<noteq> CopierBusy"
    and "r = (Returned e, w0) \<and> e \<in> {STATUS_OK, STATUS_END} \<or>
      (\<exists>f. f \<noteq> AbiMismatch \<and> r = recover_panic (finish_failure f oerr) rec w0)"
  shows "copier_outcome call p s x m r"
proof -
  have d: "copier_diagram call s s"
    using assms(2,3) by (cases s; cases call) (auto simp: copier_idle_def take_copier_now_def)
  from assms(4) show ?thesis
  proof
    assume "r = (Returned e, w0) \<and> e \<in> {STATUS_OK, STATUS_END}"
    with d assms(1) show ?thesis by (intro copier_outcomeI) auto
  next
    assume "\<exists>f. f \<noteq> AbiMismatch \<and> r = recover_panic (finish_failure f oerr) rec w0"
    then obtain f where "f \<noteq> AbiMismatch" "r = recover_panic (finish_failure f oerr) rec w0" by blast
    then obtain w' where "r = (Returned STATUS_ERROR, w')" "copier_at p s x m w'"
      using ready_reported [OF assms(1), of f oerr rec] by auto
    then show ?thesis by (rule copier_outcomeI) (use d in simp_all)
  qed
qed

lemma refusal_is_error:
  "take_copier_now call s = (Refused f, s') \<Longrightarrow> f \<noteq> AbiMismatch"
  by (auto simp: take_copier_now_def split: CopierStateV1.splits CopierCall.splits if_splits)

lemma waits_only_busy: "take_copier_now call s = (Wait, s') \<Longrightarrow> s = CopierBusy"
  by (auto simp: take_copier_now_def split: CopierStateV1.splits CopierCall.splits if_splits)

lemma res_bind_not_abi:
  assumes "r \<noteq> Inl AbiMismatch" and "\<And>a. f a \<noteq> Inl AbiMismatch"
  shows "res_bind r f \<noteq> Inl AbiMismatch"
  using assms by (cases r) (auto simp: res_bind_def)

lemma checked_metadata_error: "checked_metadata md \<noteq> Inl AbiMismatch"
proof -
  have "check_output_string s \<noteq> Inl AbiMismatch" for s
    by (cases s) (simp_all add: check_output_string_def)
  then show ?thesis unfolding checked_metadata_def by (intro res_bind_not_abi) simp_all
qed

lemma copier_next_follows:
  assumes "valid_slots slot oerr" and "copier_at p s x m w" and "s \<noteq> CopierBusy"
  shows "copier_outcome CopierNext p s x m (copier_next api waits p slot oerr w)"
proof -
  let ?w0 = "next_start slot oerr w" and ?r = "copier_next api waits p slot oerr w"
  have at0: "copier_at p s x m ?w0" using assms(2) by simp
  obtain r s1 where take: "take_copier_now CopierNext s = (r, s1)" by force
  note run = copier_next_def run_with_u64_outputs next_start_def [symmetric] copier_run
    take_copier_ready [OF _ take]
  show ?thesis
  proof (cases r)
    case (Took t)
    then have s: "s = CopierOpen t" using take_copier_Took take by blast
    obtain step x' where step: "ca_next api t x = (step, x')" by force
    show ?thesis
    proof (cases "\<exists>b. step = XOk b \<and> (\<forall>n. b = Some n \<longrightarrow> n \<le> u64_max)")
      case True
      with step s assms(2) copier_next_open [OF assms(1), of p t x m w api _ x' waits]
        copier_next_last [OF assms(1), of p t x m w api x' waits]
      obtain e w' s' where "?r = (Returned e, w')" "copier_at p s' x' m w'"
        "s' \<in> {CopierOpen t, CopierEnd t}" "e \<in> {STATUS_OK, STATUS_END}"
        by (cases "\<exists>n. step = XOk (Some n)") (blast, auto)
      then show ?thesis
        by (intro copier_outcomeI) (use s in \<open>auto simp: copier_idle_def take_copier_now_def\<close>)
    next
      case False
      let ?x' = "snd (ca_drop api t x')"
      let ?w1 = "?w0\<lparr>boxes := (boxes ?w0)(p \<mapsto> copier_obj CopierFailed False), ext := ?x'\<rparr>"
      have "?r = report_failure
          (case step of XPanic \<Rightarrow> None | XErr e \<Rightarrow> Some (opendal_error e)
           | XOk _ \<Rightarrow> Some (buffer_too_large ''copier progress is not representable as UInt64''))
          oerr (recover_copier api p) ?w1"
        using False assms(1) step Took ready_atD [OF at0]
        by (cases step) (auto simp: run report_failure_def u64_try_from_def)
      then show ?thesis using take Took by (intro copier_outcome_failed [OF at0]) (auto split: ext_result.splits)
    qed
  next
    case AlreadyDone
    then have "?r = (Returned STATUS_END, ?w0)"
      using assms(1) ready_atD [OF at0] take_copier_keeps [OF take] by (simp add: run put_same)
    then show ?thesis
      using take AlreadyDone assms(3) by (intro copier_outcome_idle [OF at0]) (auto simp: copier_idle_def)
  next
    case (Refused f)
    then have "?r = recover_panic (finish_failure f oerr) (recover_copier api p) ?w0"
      using assms(1) ready_atD [OF at0] take_copier_keeps [OF take] by (simp add: run put_same)
    then show ?thesis
      using take Refused assms(3) refusal_is_error [of CopierNext s f]
      by (intro copier_outcome_idle [OF at0]) (auto simp: copier_idle_def)
  qed (use take waits_only_busy assms(3) in blast)
qed

lemma finish_never_done: "take_copier_now CopierFinish s \<noteq> (AlreadyDone, s')"
  by (auto simp: take_copier_now_def split: CopierStateV1.splits)

lemma copier_finish_follows:
  assumes "valid_slots slot oerr" and "copier_at p s x m w" and "s \<noteq> CopierBusy"
  shows "copier_outcome CopierFinish p s x m (copier_finish api waits p slot oerr w)"
proof -
  let ?w0 = "clear_slots {slot, oerr} w" and ?r = "copier_finish api waits p slot oerr w"
  have at0: "copier_at p s x m ?w0" using assms(2) by simp
  obtain r s1 where take: "take_copier_now CopierFinish s = (r, s1)" by force
  have v: "slot \<noteq> 0" "8 dvd slot" "8 dvd oerr" using assms(1) by (auto simp: valid_slots_def)
  note run = copier_finish_def run_with_handle_outputs copier_run take_copier_ready [OF _ take]
  show ?thesis
  proof (cases r)
    case (Took t)
    then have s: "s \<in> {CopierOpen t, CopierEnd t}" using take_copier_Took take by blast
    obtain step x' where step: "ca_close api t x = (step, x')" by force
    show ?thesis
    proof (cases "\<exists>md v. step = XOk md \<and> checked_metadata md = Inr v")
      case True
      then obtain w' where "?r = (Returned STATUS_OK, w')"
        "copier_at p CopierFinished (snd (ca_drop api t x')) m w'"
        using step copier_finish_open [OF assms(1,2) s] by blast
      then show ?thesis
        by (rule copier_outcomeI) (use s in \<open>auto simp: copier_idle_def take_copier_now_def\<close>)
    next
      case False
      let ?x' = "snd (ca_drop api t x')"
      let ?w1 = "?w0\<lparr>boxes := (boxes ?w0)(p \<mapsto> copier_obj CopierFailed False), ext := ?x'\<rparr>"
      have "?r = report_failure
          (case step of XPanic \<Rightarrow> None | XErr e \<Rightarrow> Some (opendal_error e)
           | XOk md \<Rightarrow> Some (projl (checked_metadata md)))
          oerr (recover_copier api p) ?w1"
        using False v step Took ready_atD [OF at0]
        by (cases step; cases "checked_metadata (case step of XOk md \<Rightarrow> md)")
          (auto simp: run report_failure_def)
      moreover have "projl (checked_metadata md) \<noteq> AbiMismatch" if "step = XOk md" for md
        using False that checked_metadata_error [of md] by (cases "checked_metadata md") auto
      ultimately show ?thesis
        using take Took by (intro copier_outcome_failed [OF at0]) (auto split: ext_result.splits)
    qed
  next
    case (Refused f)
    then have "?r = recover_panic (finish_failure f oerr) (recover_copier api p) ?w0"
      using v ready_atD [OF at0] take_copier_keeps [OF take] by (simp add: run put_same)
    then show ?thesis
      using take Refused assms(3) refusal_is_error [of CopierFinish s f]
      by (intro copier_outcome_idle [OF at0]) (auto simp: copier_idle_def)
  qed (use take waits_only_busy assms(3) finish_never_done in blast)+
qed

lemma copier_abort_follows:
  assumes "8 dvd oerr" and "copier_at p s x m w" and "s \<noteq> CopierBusy"
  shows "copier_outcome CopierAbort p s x m (copier_abort api waits p oerr w)"
proof -
  let ?w0 = "clear_slots {oerr} w" and ?r = "copier_abort api waits p oerr w"
  have at0: "copier_at p s x m ?w0" using assms(2) by simp
  obtain r s1 where take: "take_copier_now CopierAbort s = (r, s1)" by force
  note run = copier_abort_def run_with_error_output copier_run take_copier_ready [OF _ take]
  show ?thesis
  proof (cases r)
    case (Took t)
    then have s: "s = CopierOpen t" using take_copier_Took take by blast
    obtain step x' where step: "ca_abort api t x = (step, x')" by force
    let ?x' = "snd (ca_drop api t x')"
    let ?w1 = "\<lambda>s1. ?w0\<lparr>boxes := (boxes ?w0)(p \<mapsto> copier_obj s1 False), ext := ?x'\<rparr>"
    show ?thesis
    proof (cases "step = XOk ()")
      case True
      then have "?r = (Returned STATUS_OK, ?w1 CopierAborted)"
        using step Took assms(1) ready_atD [OF at0] by (simp add: run)
      then show ?thesis
        by (rule copier_outcomeI [OF _ ready_at_put [OF at0]])
          (use s in \<open>auto simp: copier_idle_def take_copier_now_def\<close>)
    next
      case False
      have "?r = report_failure (case step of XErr e \<Rightarrow> Some (opendal_error e) | _ \<Rightarrow> None)
          oerr (recover_copier api p) (?w1 CopierFailed)"
        using False assms(1) step Took ready_atD [OF at0]
        by (cases step) (auto simp: run report_failure_def)
      then show ?thesis
        using take Took by (intro copier_outcome_failed [OF at0]) (auto split: ext_result.splits)
    qed
  next
    case AlreadyDone
    then have "?r = (Returned STATUS_OK, ?w0)"
      using assms(1) ready_atD [OF at0] take_copier_keeps [OF take] by (simp add: run put_same)
    then show ?thesis
      using take AlreadyDone assms(3) by (intro copier_outcome_idle [OF at0]) (auto simp: copier_idle_def)
  next
    case (Refused f)
    then have "?r = recover_panic (finish_failure f oerr) (recover_copier api p) ?w0"
      using assms(1) ready_atD [OF at0] take_copier_keeps [OF take] by (simp add: run put_same)
    then show ?thesis
      using take Refused assms(3) refusal_is_error [of CopierAbort s f]
      by (intro copier_outcome_idle [OF at0]) (auto simp: copier_idle_def)
  qed (use take waits_only_busy assms(3) in blast)
qed

section \<open>The turn protocol\<close>

text \<open>The locked sections of the calls on one copier, as for writers.\<close>

definition copier_state_of :: "obj \<Rightarrow> CopierStateV1 option" where
  "copier_state_of ob = map_option (\<lambda>h. mx_state (copier_state h)) (as_copier ob)"

interpretation copier_box: lock_box copier_obj copier_state_of
proof unfold_locales
  fix ob s
  assume "copier_state_of ob = Some s"
  then obtain h where "ob = OCopier h" "s = mx_state (copier_state h)"
    by (auto simp: copier_state_of_def elim!: as_copier.elims)
  then have "ob = copier_obj s (mx_poisoned (copier_state h))" by (simp add: copier_obj_def)
  then show "\<exists>b. ob = copier_obj s b" ..
qed (simp add: copier_state_of_def)

abbreviation copier_now :: "addr \<Rightarrow> 'x world \<Rightarrow> CopierStateV1 option" where
  "copier_now \<equiv> now_at copier_state_of"

abbreviation copier_live :: "addr \<Rightarrow> 'x world \<Rightarrow> bool" where
  "copier_live \<equiv> live_now copier_state_of"

datatype 'x copier_event =
  CEnter CopierCall | CRecover | CPoison | CElsewhere "'x world \<Rightarrow> 'x world"

datatype copier_result = CrOpen | CrEnd | CrFinished | CrAborted | CrFailed | CrUnwound

definition copier_take ::
  "'x copier_api \<Rightarrow> addr \<Rightarrow> 'x copier_event \<Rightarrow> 'x world \<Rightarrow> (token \<times> 'x world) option" where
  "copier_take api p event w =
     (case event of
        CEnter call \<Rightarrow>
          (case take_copier_for_call api [] p call w of (Ok (Some t), w') \<Rightarrow> Some (t, w') | _ \<Rightarrow> None)
      | _ \<Rightarrow> None)"

definition copier_pass :: "'x copier_api \<Rightarrow> addr \<Rightarrow> 'x copier_event \<Rightarrow> 'x world \<Rightarrow> 'x world" where
  "copier_pass api p event w =
     (case event of
        CEnter call \<Rightarrow> snd (take_copier_for_call api [] p call w)
      | CRecover \<Rightarrow> snd (recover_copier api p w)
      | CPoison \<Rightarrow> poison_at copier_obj copier_state_of p w
      | CElsewhere f \<Rightarrow> elsewhere p f w)"

definition copier_return :: "'x copier_api \<Rightarrow> addr \<Rightarrow> copier_result \<Rightarrow> token \<Rightarrow> 'x world \<Rightarrow> 'x world" where
  "copier_return api p r t w =
     (case r of
        CrOpen \<Rightarrow> snd (set_copier_state api p (CopierOpen t) w)
      | CrEnd \<Rightarrow> snd (set_copier_state api p (CopierEnd t) w)
      | CrFinished \<Rightarrow> snd (set_copier_state api p CopierFinished w)
      | CrAborted \<Rightarrow> snd (set_copier_state api p CopierAborted w)
      | CrFailed \<Rightarrow> snd (set_copier_state api p CopierFailed w)
      | CrUnwound \<Rightarrow> snd (recover_copier api p w))"

abbreviation copier_turn ::
  "'x copier_api \<Rightarrow> addr \<Rightarrow> ('i, 'x world, token) turns \<Rightarrow> ('i, 'x world, token) turns \<Rightarrow> bool" where
  "copier_turn api p \<equiv> turn_step (copier_take api p) (copier_pass api p) (copier_return api p)"

lemmas copier_section_run = bind_def run_simps locked_def put_box_def drop_open_def drop_value_def
  drop_async_copier_contained_def drop_contained_def throw_def ret_def

lemma take_copier_section:
  assumes "copier_live p w" and "copier_now p w = Some s"
  obtains (took) t w' where "take_copier_for_call api [] p call w = (Ok (Some t), w')"
      "open_copier s = Some t" "copier_live p w'" "copier_now p w' = Some CopierBusy"
  | (passed) r w' s' where "take_copier_for_call api [] p call w = (r, w')" "\<forall>t. r \<noteq> Ok (Some t)"
      "copier_live p w'" "copier_now p w' = Some s'" "s' = CopierFailed \<or> s' = s"
proof -
  obtain b where b: "boxes w p = Some (copier_obj s b)"
    using copier_box.live_nowE [OF assms(1)] assms(2) by (metis option.inject)
  note live = copier_box.live_now_put [OF assms(1)]
  show ?thesis
  proof (cases b)
    case True
    then have "fst (take_copier_for_call api [] p call w) = Err (unexpected ''copier state lock was poisoned'')"
      "boxes (snd (take_copier_for_call api [] p call w)) = (boxes w)(p \<mapsto> copier_obj CopierFailed False)"
      "next_box (snd (take_copier_for_call api [] p call w)) = next_box w"
      using b by (subst take_copier_for_call.simps,
          simp add: copier_section_run copier_poison_failure_def split: option.split)+
    with live show ?thesis by (intro passed [OF surjective_pairing]) auto
  next
    case False
    obtain r s' where r: "take_copier_now call s = (r, s')" by force
    note ready = take_copier_ready [OF _ r, of w p api "[]"]
      and live = live [of "w\<lparr>boxes := (boxes w)(p \<mapsto> copier_obj s' False)\<rparr>" s' False]
    show ?thesis
    proof (cases "\<exists>t. r = Took t")
      case True
      then show ?thesis
        using False b ready live take_copier_Took [of call s _ s'] r
        by (auto intro!: took simp: open_copier_def)
    next
      case no: False
      then show ?thesis
        using False b ready live take_copier_keeps [OF r]
        by (cases r) (auto intro: passed)
    qed
  qed
qed

lemma set_copier_section:
  assumes "copier_live p w"
  shows "copier_live p (snd (set_copier_state api p next_state w)) \<and>
    copier_now p (snd (set_copier_state api p next_state w)) \<in> {Some next_state, Some CopierFailed}"
proof -
  obtain s b where b: "boxes w p = Some (copier_obj s b)" by (rule copier_box.live_nowE [OF assms])
  let ?s = "if b then CopierFailed else next_state"
  have "boxes (snd (set_copier_state api p next_state w)) = (boxes w)(p \<mapsto> copier_obj ?s False)"
    "next_box (snd (set_copier_state api p next_state w)) = next_box w"
    using b by (auto simp: set_copier_state_def copier_section_run Let_def split: option.split prod.split
        ext_result.split)
  with copier_box.live_now_put [OF assms] show ?thesis by (auto split: if_splits)
qed

lemma recover_copier_section:
  assumes "copier_live p w"
  shows "copier_live p (snd (recover_copier api p w)) \<and>
    copier_now p (snd (recover_copier api p w)) = Some CopierFailed"
proof -
  obtain s b where b: "boxes w p = Some (copier_obj s b)" "live_at p (copier_obj s b) w"
    by (rule copier_box.live_nowE [OF assms])
  note lv = live_atD [OF b(2)]
  have "boxes (snd (recover_copier api p w)) = (boxes w)(p \<mapsto> copier_obj CopierFailed False)"
    "next_box (snd (recover_copier api p w)) = next_box w"
    using lv b by (auto simp: recover_copier_def if_aligned_def on_handle_def null_ptr_def is_aligned_def
        fail_copier_state_def copier_section_run split: option.split)
  with copier_box.live_now_put [OF assms] show ?thesis by auto
qed

lemma copier_take_opened:
  assumes "copier_live p w" and "copier_take api p event w = Some (t, w')"
  shows "(copier_now p w = Some (CopierOpen t) \<or> copier_now p w = Some (CopierEnd t)) \<and>
    copier_live p w' \<and> copier_now p w' = Some CopierBusy"
proof -
  obtain s where s: "copier_now p w = Some s" using assms(1) by (auto simp: live_now_def)
  from assms(2) obtain call where e: "event = CEnter call"
    by (auto simp: copier_take_def split: copier_event.splits)
  show ?thesis
    by (rule take_copier_section [OF assms(1) s, of api call])
      (use assms(2) e s in \<open>auto simp: copier_take_def open_copier_def
         split: outcome.splits option.splits CopierStateV1.splits\<close>)
qed

lemma copier_passed:
  assumes "copier_live p w" and "copier_now p w = Some s" and "copier_take api p event w = None"
  shows "copier_live p (copier_pass api p event w) \<and>
    copier_now p (copier_pass api p event w) \<in> {Some s, Some CopierFailed}"
proof (cases event)
  case (CEnter call)
  show ?thesis
    by (rule take_copier_section [OF assms(1,2), of api call])
      (use assms CEnter in \<open>auto simp: copier_take_def copier_pass_def\<close>)
next
  case CRecover
  then show ?thesis using recover_copier_section [OF assms(1), of api] by (simp add: copier_pass_def)
next
  case CPoison
  then show ?thesis using copier_box.poison_keeps [OF assms(1)] assms(2) by (simp add: copier_pass_def)
next
  case (CElsewhere f)
  then show ?thesis
    using copier_box.elsewhere_keeps [of p f w] assms(1,2) by (simp add: copier_pass_def)
qed

lemma copier_returned:
  assumes "copier_live p w"
  shows "copier_live p (copier_return api p r t w) \<and> copier_now p (copier_return api p r t w) \<noteq> Some CopierBusy"
  using set_copier_section [OF assms, of api "CopierOpen t"] set_copier_section [OF assms, of api "CopierEnd t"]
    set_copier_section [OF assms, of api CopierFinished] set_copier_section [OF assms, of api CopierAborted]
    set_copier_section [OF assms, of api CopierFailed] recover_copier_section [OF assms, of api]
  by (cases r) (auto simp: copier_return_def)

interpretation copier_turns: ending_handle "copier_take api p" "copier_pass api p" "copier_return api p"
  "copier_live p" "\<lambda>w. \<exists>s. copier_now p w = Some s \<and> (\<exists>t. open_copier s = Some t)"
  "\<lambda>w. copier_now p w = Some CopierBusy" "\<lambda>w. \<exists>s. copier_now p w = Some s \<and> copier_ended s"
  for api :: "'x copier_api" and p
proof unfold_locales
  fix w :: "'x world" and call
  assume "copier_live p w" and n: "copier_take api p call w = None"
  then obtain s where s: "copier_now p w = Some s" by (auto simp: live_now_def)
  note passed = copier_passed [OF \<open>copier_live p w\<close> s n]
  show "copier_live p (copier_pass api p call w)" using passed by simp
  show "\<exists>s. copier_now p w = Some s \<and> (\<exists>t. open_copier s = Some t)"
    if "\<exists>s. copier_now p (copier_pass api p call w) = Some s \<and> (\<exists>t. open_copier s = Some t)"
    using that passed s by (auto simp: open_copier_def)
  show "copier_now p w = Some CopierBusy" if "copier_now p (copier_pass api p call w) = Some CopierBusy"
    using that passed s by auto
  show "\<exists>s. copier_now p (copier_pass api p call w) = Some s \<and> copier_ended s"
    if "\<exists>s. copier_now p w = Some s \<and> copier_ended s"
    using that passed s by (auto simp: copier_ended_def)
next
  fix w :: "'x world" and r t
  assume "copier_live p w"
  from copier_returned [OF this, of api r t]
  show "copier_live p (copier_return api p r t w)"
    "copier_now p (copier_return api p r t w) \<noteq> Some CopierBusy" by auto
qed (auto simp: copier_ended_def open_copier_def dest: copier_take_opened)

section \<open>Properties\<close>

text \<open>
  C5. A copier follows its documented life cycle whatever the backend does. From every state a
  caller can find, next, finish and abort return, move the handle only along the documented
  transitions, and do not reach the backend at all in a state in which the call has no work.
\<close>

theorem copier_follows_life_cycle:
  assumes "valid_slots slot oerr" and "copier_at p s x m w" and "s \<noteq> CopierBusy"
  shows "copier_outcome CopierNext p s x m (copier_next api waits p slot oerr w) \<and>
    copier_outcome CopierFinish p s x m (copier_finish api waits p slot oerr w) \<and>
    copier_outcome CopierAbort p s x m (copier_abort api waits p oerr w)"
  using copier_next_follows [OF assms] copier_finish_follows [OF assms]
    copier_abort_follows [OF _ assms(2,3)] assms(1)
  by (simp add: valid_slots_def)

definition sample_copier_api :: "nat list copier_api" where
  \<comment> \<open>a backend that reports the given progress and then the end\<close>
  "sample_copier_api = \<lparr>ca_build_runtime = (\<lambda>x. (True, x)), ca_copier = (\<lambda>_ _ _ x. (XOk 7, x)),
     ca_next = (\<lambda>_ x. case x of [] \<Rightarrow> (XOk None, []) | n # ns \<Rightarrow> (XOk (Some n), ns)),
     ca_close = (\<lambda>_ x. (XOk sample_file, x)),
     ca_abort = (\<lambda>_ x. (XOk (), x)), ca_drop = (\<lambda>_ x. (XOk (), x))\<rparr>"

definition sample_copier_world :: "nat list \<Rightarrow> nat list world" where
  "sample_copier_world ns =
     (sample_with (copier_obj (CopierOpen 7) False) ns)\<lparr>runtime_cell := Some (Inr ())\<rparr>"

lemma sample_copier_at: "copier_at 16 (CopierOpen 7) ns sample_inputs (sample_copier_world ns)"
  using wf_sample_with [of "copier_obj (CopierOpen 7) False" ns]
  by (simp add: sample_copier_world_def ready_at_def live_at_def wf_world_def)

lemma copier_follows_life_cycle_witness:
  "copier_outcome CopierNext 16 (CopierOpen 7) [5, 3] sample_inputs
     (copier_next sample_copier_api [] 16 64 72 (sample_copier_world [5, 3]))"
  using copier_follows_life_cycle [OF _ sample_copier_at, of 64 72 "[5, 3]" sample_copier_api "[]"]
  by (simp add: valid_slots_def)

text \<open>The caller's loop: poll the copier a number of times, noting status and progress.\<close>

fun poll_copier ::
  "'x copier_api \<Rightarrow> addr \<Rightarrow> addr \<Rightarrow> addr \<Rightarrow> nat \<Rightarrow> 'x world \<Rightarrow> (exit \<times> nat) list \<times> 'x world" where
  "poll_copier api p slot oerr 0 w = ([], w)"
| "poll_copier api p slot oerr (Suc n) w =
     (let (e, w1) = copier_next api [] p slot oerr w;
          (rs, w2) = poll_copier api p slot oerr n w1
      in ((e, unat (o_u64 (out w1) slot)) # rs, w2))"

fun copies_with :: "'x copier_api \<Rightarrow> token \<Rightarrow> 'x \<Rightarrow> nat list \<Rightarrow> 'x \<Rightarrow> bool" where
  \<comment> \<open>the backend reports these progress deltas and then the end\<close>
  "copies_with api t x [] x' \<longleftrightarrow> ca_next api t x = (XOk None, x')"
| "copies_with api t x (n # ns) x' \<longleftrightarrow> n \<le> u64_max \<and>
     (\<exists>y. ca_next api t x = (XOk (Some n), y) \<and> copies_with api t y ns x')"

lemma poll_at_end:
  assumes "valid_slots slot oerr" and "copier_at p (CopierEnd t) x m w"
  shows "fst (poll_copier api p slot oerr k w) = replicate k (Returned STATUS_END, 0) \<and>
    copier_at p (CopierEnd t) x m (snd (poll_copier api p slot oerr k w))"
  using assms(2)
proof (induction k arbitrary: w)
  case (Suc k)
  obtain w1 where "copier_next api [] p slot oerr w = (Returned STATUS_END, w1)"
    "copier_at p (CopierEnd t) x m w1" "o_u64 (out w1) slot = 0"
    using copier_next_at_end [OF assms(1) Suc.prems] by blast
  with Suc.IH [of w1] show ?case by (simp add: split_beta)
qed simp

lemma poll_all:
  assumes "valid_slots slot oerr" and "copier_at p (CopierOpen t) x m w" and "copies_with api t x ns x'"
  shows "fst (poll_copier api p slot oerr (length ns + Suc k) w) =
      map (Pair (Returned STATUS_OK)) ns @ replicate (Suc k) (Returned STATUS_END, 0) \<and>
    copier_at p (CopierEnd t) x' m (snd (poll_copier api p slot oerr (length ns + Suc k) w))"
  using assms(2,3)
proof (induction ns arbitrary: x w)
  case Nil
  then obtain w1 where "copier_next api [] p slot oerr w = (Returned STATUS_END, w1)"
    "copier_at p (CopierEnd t) x' m w1" "o_u64 (out w1) slot = 0"
    using copier_next_last [OF assms(1), of p t x m w api x' "[]"] by auto
  with poll_at_end [OF assms(1), of p t x' m w1 api k] show ?case by (simp add: split_beta)
next
  case (Cons n ns)
  then obtain y where "n \<le> u64_max" "ca_next api t x = (XOk (Some n), y)" "copies_with api t y ns x'"
    by auto
  moreover then obtain w1 where "copier_next api [] p slot oerr w = (Returned STATUS_OK, w1)"
    "copier_at p (CopierOpen t) y m w1" "unat (o_u64 (out w1) slot) = n"
    using copier_next_open [OF assms(1) Cons.prems(1)] by blast
  ultimately show ?case using Cons.IH [of y w1] by (simp add: split_beta)
qed

text \<open>
  C33. Polling a copier reports exactly the backend's progress deltas in order and then the end, as
  often as the caller asks, without reaching the backend again; finishing then hands out the
  destination's metadata and drops the native copier.
\<close>

theorem copier_session:
  assumes "valid_slots slot oerr" and "copier_at p (CopierOpen t) x m w" and "copies_with api t x ns x1"
    and "ca_close api t x1 = (XOk md, x2)" and "checked_metadata md = Inr v"
  shows "\<exists>w1 w2. poll_copier api p slot oerr (length ns + Suc k) w =
      (map (Pair (Returned STATUS_OK)) ns @ replicate (Suc k) (Returned STATUS_END, 0), w1) \<and>
    ext w1 = x1 \<and>
    copier_finish api waits p slot oerr w1 = (Returned STATUS_OK, w2) \<and>
    boxes w2 (o_ptr (out w2) slot) = Some (OMetadata v) \<and>
    boxes w2 p = Some (copier_obj CopierFinished False) \<and> ext w2 = snd (ca_drop api t x2)"
proof -
  obtain w1 where w1: "poll_copier api p slot oerr (length ns + Suc k) w =
      (map (Pair (Returned STATUS_OK)) ns @ replicate (Suc k) (Returned STATUS_END, 0), w1)"
    "copier_at p (CopierEnd t) x1 m w1"
    using poll_all [OF assms(1-3), of k] by (metis prod.collapse)
  obtain w2 where w2: "copier_finish api waits p slot oerr w1 = (Returned STATUS_OK, w2)"
    "copier_at p CopierFinished (snd (ca_drop api t x2)) m w2"
    "boxes w2 (o_ptr (out w2) slot) = Some (OMetadata v)"
    using copier_finish_open [OF assms(1) w1(2) _ assms(4,5), of waits] by auto
  show ?thesis using w1 w2 ready_atD [OF w1(2)] ready_atD [OF w2(2)] by blast
qed

lemma copier_session_witness:
  "\<exists>w1 w2. poll_copier sample_copier_api 16 64 72 4 (sample_copier_world [5, 3]) =
      ([(Returned STATUS_OK, 5), (Returned STATUS_OK, 3), (Returned STATUS_END, 0),
        (Returned STATUS_END, 0)], w1) \<and>
    copier_finish sample_copier_api [] 16 64 72 w1 = (Returned STATUS_OK, w2)"
proof -
  have "checked_metadata sample_file = Inr \<lparr>mdv_metadata = sample_file\<rparr>"
    by (simp add: checked_metadata_def check_output_string_def sample_file_def)
  moreover have "copies_with sample_copier_api 7 [5, 3] [5, 3] []"
    by (simp add: sample_copier_api_def u64_max_def)
  moreover have "ca_close sample_copier_api 7 [] = (XOk sample_file, [])"
    by (simp add: sample_copier_api_def)
  ultimately obtain w1 w2 where "poll_copier sample_copier_api 16 64 72 (length [5, 3 :: nat] + Suc 1)
      (sample_copier_world [5, 3]) = (map (Pair (Returned STATUS_OK)) [5, 3] @
        replicate (Suc 1) (Returned STATUS_END, 0), w1)"
    "copier_finish sample_copier_api [] 16 64 72 w1 = (Returned STATUS_OK, w2)"
    using copier_session [OF _ sample_copier_at, of 64 72 sample_copier_api "[5, 3]" "[5, 3]" "[]"
        sample_file "[]" "\<lparr>mdv_metadata = sample_file\<rparr>" 1 "[]"]
    by (auto simp del: poll_copier.simps simp: valid_slots_def)
  moreover have "length [5, 3 :: nat] + Suc 1 = 4" by simp
  ultimately show ?thesis by (auto simp del: poll_copier.simps simp: numeral_eq_Suc)
qed

text \<open>
  Racing calls on one copier exclude each other, as those on a writer do: in any interleaving of
  the locked sections, with recoveries and a lock poisoned at any moment, at most one call has the
  native copier, the handle is busy or ended while one does, and busy only then.
\<close>

theorem copier_mutual_exclusion:
  assumes "live_at p (copier_obj (CopierOpen t) False) w" and "(copier_turn api p)\<^sup>*\<^sup>* (fresh_turns w) c"
  shows "\<exists>s. copier_now p (tn_state c) = Some s \<and> one_holder c \<and>
    ((\<exists>i. tn_holder c i \<noteq> None) \<longrightarrow> s = CopierBusy \<or> copier_ended s) \<and>
    (s = CopierBusy \<longrightarrow> (\<exists>i. tn_holder c i \<noteq> None))"
proof -
  have now: "copier_now p w = Some (CopierOpen t)"
    using assms(1) by (simp add: live_at_def copier_box.now_at_obj)
  have "copier_live p w" using assms(1) now by (simp add: live_at_def live_now_def)
  with copier_turns.lent_reachable [OF assms(2)] now have l: "copier_turns.lent p c" by simp
  then obtain s where s: "copier_now p (tn_state c) = Some s"
    by (auto simp: copier_turns.lent_def live_now_def)
  then show ?thesis
    using l [unfolded copier_turns.lent_def] by (cases s) (auto simp: copier_ended_def open_copier_def)
qed

end
