(* ===== verification/Completion.thy ===== *)
theory Completion
  imports Turns
begin

text \<open>
  The completion pipe of an asynchronous task on Linux (\<open>write_completion_byte\<close> and
  \<open>CompletionSignal\<close> of \<open>lib.rs\<close>). The POSIX calls are parameters acting on the external state; the
  descriptor a \<open>CompletionSignal\<close> owns is a token.
\<close>

section \<open>The operating system's interface\<close>

definition O_NONBLOCK :: u32 where "O_NONBLOCK = 2048"
definition O_ACCMODE :: u32 where "O_ACCMODE = 3"
definition O_RDONLY :: u32 where "O_RDONLY = 0"
definition S_IFMT :: u32 where "S_IFMT = 61440"
definition S_IFIFO :: u32 where "S_IFIFO = 4096"
definition EINTR :: int where "EINTR = 4"
definition EPIPE :: int where "EPIPE = 32"
definition SIGPIPE :: nat where "SIGPIPE = 13"

text \<open>
  \<open>px_getfl\<close> and \<open>px_write\<close> return what the C functions return, \<open>-1\<close> for a failure; \<open>px_errno\<close> and
  \<open>px_error_text\<close> read \<open>errno\<close>. A signal mask is the list of blocked signals.
\<close>

record 'x posix =
  px_dup :: "int \<Rightarrow> 'x \<Rightarrow> (string + token) \<times> 'x"
  px_close :: "token \<Rightarrow> 'x \<Rightarrow> 'x"
  px_getfl :: "token \<Rightarrow> 'x \<Rightarrow> u32 \<times> 'x"
  px_fstat :: "token \<Rightarrow> 'x \<Rightarrow> u32 option \<times> 'x"
  px_errno :: "'x \<Rightarrow> int option"
  px_error_text :: "'x \<Rightarrow> string"
  px_sigset :: "'x \<Rightarrow> nat set option"
  px_block :: "nat set \<Rightarrow> 'x \<Rightarrow> nat set option \<times> 'x"
  px_setmask :: "nat set \<Rightarrow> 'x \<Rightarrow> 'x"
  px_sigpending :: "'x \<Rightarrow> nat set option \<times> 'x"
  px_sigtimedwait :: "nat set \<Rightarrow> 'x \<Rightarrow> 'x"
  px_write :: "token \<Rightarrow> u8 list \<Rightarrow> 'x \<Rightarrow> int \<times> 'x"

definition os_call :: "('x \<Rightarrow> 'a \<times> 'x) \<Rightarrow> ('x, 'a) M" where
  "os_call f w = (let (r, x) = f (ext w) in (Ok r, w\<lparr>ext := x\<rparr>))"

definition os_read :: "('x \<Rightarrow> 'a) \<Rightarrow> ('x, 'a) M" where
  "os_read f w = (Ok (f (ext w)), w)"

definition os_do :: "('x \<Rightarrow> 'x) \<Rightarrow> ('x, unit) M" where
  "os_do f w = (Ok (), w\<lparr>ext := f (ext w)\<rparr>)"

section \<open>Operations\<close>

partial_function (option) write_completion_byte ::
  "'x posix \<Rightarrow> token \<Rightarrow> 'x \<Rightarrow> (int option \<times> 'x) option" where
  "write_completion_byte os fd x =
     (let (written, x1) = px_write os fd [1] x in
      if written \<noteq> -1 then Some (None, x1)
      else
        let error = px_errno os x1 in
        if error \<noteq> Some EINTR then Some (error, x1) else write_completion_byte os fd x1)"

definition fail_closing :: "'x posix \<Rightarrow> token \<Rightarrow> CallFailure \<Rightarrow> ('x, 'a) M" where
  \<comment> \<open>an early return drops the owned duplicate\<close>
  "fail_closing os owned failure = bind (os_do (px_close os owned)) (\<lambda>_. throw failure)"

definition unix_duplicate :: "u32 \<Rightarrow> 'x posix \<Rightarrow> int \<Rightarrow> ('x, token) M" where
  \<comment> \<open>\<open>duplicate\<close> as far as all Unix targets share it; the value of \<open>O_NONBLOCK\<close> differs between them\<close>
  "unix_duplicate nonblock os raw_fd =
     (if raw_fd < 0 then throw (invalid_argument ''async completion fd must be non-negative'')
      else
        bind (os_call (px_dup os raw_fd)) (\<lambda>r.
          case r of
            Inl error \<Rightarrow> throw (unexpected (''could not duplicate async completion fd: '' @ error))
          | Inr owned \<Rightarrow>
              bind (os_call (px_getfl os owned)) (\<lambda>flags.
                if flags = -1 then
                  bind (os_read (px_error_text os)) (\<lambda>error.
                    fail_closing os owned
                      (unexpected (''could not inspect async completion fd: '' @ error)))
                else if flags AND nonblock = 0 then
                  fail_closing os owned
                    (invalid_argument ''async completion fd must be nonblocking'')
                else if flags AND O_ACCMODE = O_RDONLY then
                  fail_closing os owned (invalid_argument ''async completion fd must be writable'')
                else
                  bind (os_call (px_fstat os owned)) (\<lambda>stat.
                    case stat of
                      None \<Rightarrow>
                        bind (os_read (px_error_text os)) (\<lambda>error.
                          fail_closing os owned
                            (unexpected (''could not inspect async completion fd type: '' @ error)))
                    | Some st_mode \<Rightarrow>
                        if st_mode AND S_IFMT \<noteq> S_IFIFO then
                          fail_closing os owned
                            (invalid_argument ''async completion fd must be a pipe'')
                        else ret owned))))"

definition duplicate :: "'x posix \<Rightarrow> int \<Rightarrow> ('x, token) M" where
  "duplicate os raw_fd = unix_duplicate O_NONBLOCK os raw_fd"

definition signal_byte :: "'x posix \<Rightarrow> token \<Rightarrow> ('x, int option) M" where
  "signal_byte os fd w =
     (case write_completion_byte os fd (ext w) of
        None \<Rightarrow> (Blocked, w)
      | Some (error, x) \<Rightarrow> (Ok error, w\<lparr>ext := x\<rparr>))"

definition notify_body :: "'x posix \<Rightarrow> token \<Rightarrow> ('x, unit) M" where
  "notify_body os fd =
     bind (os_read (px_sigset os)) (\<lambda>blocked.
       case blocked of
         None \<Rightarrow> ret ()
       | Some blocked \<Rightarrow>
           bind (os_call (px_block os blocked)) (\<lambda>previous.
             case previous of
               None \<Rightarrow> ret ()
             | Some previous \<Rightarrow>
                 bind (os_call (px_sigpending os)) (\<lambda>pending.
                   case pending of
                     None \<Rightarrow> os_do (px_setmask os previous)
                   | Some pending \<Rightarrow>
                       let pending_before = SIGPIPE \<in> pending in
                       bind (signal_byte os fd) (\<lambda>write_error.
                       bind (if write_error = Some EPIPE \<and> \<not> pending_before
                             then os_do (px_sigtimedwait os blocked) else ret ()) (\<lambda>_.
                         os_do (px_setmask os previous))))))"

definition notify :: "'x posix \<Rightarrow> token \<Rightarrow> ('x, unit) M" where
  \<comment> \<open>\<open>notify\<close> consumes the signal, whose descriptor is closed on return\<close>
  "notify os fd = bind (notify_body os fd) (\<lambda>_. os_do (px_close os fd))"

section \<open>Documented behaviour of the operating system\<close>

text \<open>
  What POSIX documents of the calls, in terms of the thread's signal mask, its pending signals, the
  open descriptors, and whether the default action of \<open>SIGPIPE\<close> has ended the process. A pending
  signal that the mask no longer blocks is delivered; a write to a pipe without readers raises
  \<open>SIGPIPE\<close> and fails with \<open>EPIPE\<close>.
\<close>

record 'x os_view =
  ov_mask :: "'x \<Rightarrow> nat set"
  ov_pending :: "'x \<Rightarrow> nat set"
  ov_killed :: "'x \<Rightarrow> bool"
  ov_fds :: "'x \<Rightarrow> token set"

definition same_signals :: "'x os_view \<Rightarrow> 'x \<Rightarrow> 'x \<Rightarrow> bool" where
  "same_signals v x x' \<longleftrightarrow> ov_mask v x' = ov_mask v x \<and> ov_pending v x' = ov_pending v x \<and>
     ov_killed v x' = ov_killed v x"

definition same_os :: "'x os_view \<Rightarrow> 'x \<Rightarrow> 'x \<Rightarrow> bool" where
  "same_os v x x' \<longleftrightarrow> same_signals v x x' \<and> ov_fds v x' = ov_fds v x"

definition interrupted_write :: "'x posix \<Rightarrow> int \<Rightarrow> 'x \<Rightarrow> bool" where
  "interrupted_write os n x \<longleftrightarrow> n = -1 \<and> px_errno os x = Some EINTR"

definition broken_write :: "'x posix \<Rightarrow> int \<Rightarrow> 'x \<Rightarrow> bool" where
  "broken_write os n x \<longleftrightarrow> n = -1 \<and> px_errno os x = Some EPIPE"

definition descriptors_behave :: "'x posix \<Rightarrow> 'x os_view \<Rightarrow> bool" where
  "descriptors_behave os v \<longleftrightarrow>
     (\<forall>fd x e x'. px_dup os fd x = (Inl e, x') \<longrightarrow> same_os v x x') \<and>
     (\<forall>fd x t x'. px_dup os fd x = (Inr t, x') \<longrightarrow>
        same_signals v x x' \<and> t \<notin> ov_fds v x \<and> ov_fds v x' = insert t (ov_fds v x)) \<and>
     (\<forall>t x. same_signals v x (px_close os t x) \<and> ov_fds v (px_close os t x) = ov_fds v x - {t}) \<and>
     (\<forall>t x. same_os v x (snd (px_getfl os t x))) \<and> (\<forall>t x. same_os v x (snd (px_fstat os t x)))"

definition signals_behave :: "'x posix \<Rightarrow> 'x os_view \<Rightarrow> bool" where
  "signals_behave os v \<longleftrightarrow>
     (\<forall>x S. px_sigset os x = Some S \<longrightarrow> S = {SIGPIPE}) \<and>
     (\<forall>S x x'. px_block os S x = (None, x') \<longrightarrow> same_os v x x') \<and>
     (\<forall>S x previous x'. px_block os S x = (Some previous, x') \<longrightarrow>
        previous = ov_mask v x \<and> ov_mask v x' = ov_mask v x \<union> S \<and>
        ov_pending v x' = ov_pending v x \<and> ov_killed v x' = ov_killed v x \<and>
        ov_fds v x' = ov_fds v x) \<and>
     (\<forall>x r x'. px_sigpending os x = (r, x') \<longrightarrow>
        same_os v x x' \<and> (\<forall>P. r = Some P \<longrightarrow> P = ov_pending v x)) \<and>
     (\<forall>x x'. px_sigtimedwait os {SIGPIPE} x = x' \<longrightarrow>
        ov_mask v x' = ov_mask v x \<and> ov_pending v x' = ov_pending v x - {SIGPIPE} \<and>
        ov_killed v x' = ov_killed v x \<and> ov_fds v x' = ov_fds v x) \<and>
     (\<forall>S x x'. px_setmask os S x = x' \<longrightarrow>
        ov_mask v x' = S \<and> ov_pending v x' = ov_pending v x \<inter> S \<and>
        ov_killed v x' = (ov_killed v x \<or> SIGPIPE \<in> ov_pending v x - S) \<and>
        ov_fds v x' = ov_fds v x) \<and>
     (\<forall>t bs x n x'. px_write os t bs x = (n, x') \<longrightarrow> SIGPIPE \<in> ov_mask v x \<longrightarrow>
        ov_mask v x' = ov_mask v x \<and> ov_killed v x' = ov_killed v x \<and> ov_fds v x' = ov_fds v x \<and>
        ov_pending v x' = ov_pending v x \<union> (if broken_write os n x' then {SIGPIPE} else {}))"

fun interruptions :: "'x posix \<Rightarrow> token \<Rightarrow> nat \<Rightarrow> 'x \<Rightarrow> 'x \<Rightarrow> bool" where
  \<comment> \<open>so many writes in a row are interrupted by a signal\<close>
  "interruptions os fd 0 x y \<longleftrightarrow> y = x"
| "interruptions os fd (Suc k) x y \<longleftrightarrow>
     (case px_write os fd [1] x of (n, x1) \<Rightarrow> interrupted_write os n x1 \<and> interruptions os fd k x1 y)"

section \<open>Lemmas\<close>

lemma write_completion_byte_returns:
  assumes "interruptions os fd k x y" and "px_write os fd [1] y = (n, z)"
    and "\<not> interrupted_write os n z"
  shows "write_completion_byte os fd x = Some (if n = -1 then px_errno os z else None, z)"
  using assms(1)
proof (induction k arbitrary: x)
  case 0
  then show ?case
    using assms(2,3)
    by (subst write_completion_byte.simps) (auto simp: interrupted_write_def Let_def)
next
  case (Suc k)
  obtain n1 x1 where w: "px_write os fd [1] x = (n1, x1)" by force
  with Suc.prems have "interrupted_write os n1 x1" "interruptions os fd k x1 y" by auto
  then show ?case
    using Suc.IH [of x1] w
    by (subst write_completion_byte.simps) (simp add: interrupted_write_def Let_def)
qed

lemma write_completion_byte_induct [consumes 1]:
  assumes "write_completion_byte os fd x = Some r"
    and "\<And>f x r. \<lbrakk>\<And>x r. f os fd x = Some r \<Longrightarrow> P x r;
      (let (written, x1) = px_write os fd [1] x in
       if written \<noteq> -1 then Some (None, x1)
       else let error = px_errno os x1 in
         if error \<noteq> Some EINTR then Some (error, x1) else f os fd x1) = Some r\<rbrakk> \<Longrightarrow> P x r"
  shows "P x r"
proof -
  let ?P = "\<lambda>os' fd' x r. os' = os \<longrightarrow> fd' = fd \<longrightarrow> P x r"
  have "?P os fd x r"
  proof (rule write_completion_byte.raw_induct
      [where P = ?P and xa = "((os, fd), x)" and y = r, unfolded prod.case])
    fix f os' fd' x r
    assume IH: "\<And>os' fd' x r. f os' fd' x = Some r \<Longrightarrow> ?P os' fd' x r"
      and body: "(let (written, x1) = px_write os' fd' [1] x in
         if written \<noteq> -1 then Some (None, x1)
         else let error = px_errno os' x1 in
           if error \<noteq> Some EINTR then Some (error, x1) else f os' fd' x1) = Some r"
    show "?P os' fd' x r"
    proof (intro impI)
      assume eq: "os' = os" "fd' = fd"
      show "P x r"
        using IH body unfolding eq by (intro assms(2) [of f x r]) auto
    qed
  qed (rule assms(1))
  then show ?thesis by simp
qed

definition write_effect :: "'x os_view \<Rightarrow> int option \<Rightarrow> 'x \<Rightarrow> 'x \<Rightarrow> bool" where
  "write_effect v e x x' \<longleftrightarrow>
     ov_mask v x' = ov_mask v x \<and> ov_killed v x' = ov_killed v x \<and> ov_fds v x' = ov_fds v x \<and>
     ov_pending v x' = ov_pending v x \<union> (if e = Some EPIPE then {SIGPIPE} else {})"

lemma write_completion_byte_effect:
  assumes "signals_behave os v" and "write_completion_byte os fd x = Some r"
  shows "SIGPIPE \<in> ov_mask v x \<longrightarrow> write_effect v (fst r) x (snd r)"
  using assms(2)
proof (induction rule: write_completion_byte_induct)
  case (1 f x r)
  obtain n x1 where w: "px_write os fd [1] x = (n, x1)" by force
  have eff: "SIGPIPE \<in> ov_mask v x \<longrightarrow>
      write_effect v (if n = -1 then px_errno os x1 else None) x x1"
    using assms(1) w by (auto simp: signals_behave_def write_effect_def broken_write_def)
  show ?case
  proof (cases "interrupted_write os n x1")
    case True
    then have "f os fd x1 = Some r" using 1(2) w by (simp add: interrupted_write_def)
    from 1(1) [OF this] eff True show ?thesis
      by (auto simp: write_effect_def interrupted_write_def EINTR_def EPIPE_def)
  next
    case False
    then have "r = (if n = -1 then px_errno os x1 else None, x1)"
      using 1(2) w by (auto simp: interrupted_write_def Let_def split: if_splits)
    with eff show ?thesis by simp
  qed
qed

lemma signals_behaveD:
  assumes "signals_behave os v"
  shows "px_sigset os x = Some S \<Longrightarrow> S = {SIGPIPE}"
    and "px_block os S x = (None, x') \<Longrightarrow> same_os v x x'"
    and "px_block os S x = (Some previous, x') \<Longrightarrow>
      previous = ov_mask v x \<and> ov_mask v x' = ov_mask v x \<union> S \<and> ov_pending v x' = ov_pending v x \<and>
      ov_killed v x' = ov_killed v x \<and> ov_fds v x' = ov_fds v x"
    and "px_sigpending os x = (r, x') \<Longrightarrow> same_os v x x' \<and> (\<forall>P. r = Some P \<longrightarrow> P = ov_pending v x)"
    and "ov_mask v (px_sigtimedwait os {SIGPIPE} x) = ov_mask v x"
    and "ov_pending v (px_sigtimedwait os {SIGPIPE} x) = ov_pending v x - {SIGPIPE}"
    and "ov_killed v (px_sigtimedwait os {SIGPIPE} x) = ov_killed v x"
    and "ov_fds v (px_sigtimedwait os {SIGPIPE} x) = ov_fds v x"
    and "ov_mask v (px_setmask os S x) = S"
    and "ov_pending v (px_setmask os S x) = ov_pending v x \<inter> S"
    and "ov_killed v (px_setmask os S x) = (ov_killed v x \<or> SIGPIPE \<in> ov_pending v x - S)"
    and "ov_fds v (px_setmask os S x) = ov_fds v x"
  using assms unfolding signals_behave_def by simp_all

text \<open>A write that blocks \<open>SIGPIPE\<close> first and takes back its own signal leaves no trace.\<close>

lemma notify_body_contained:
  assumes "signals_behave os v" and "ov_pending v (ext w) \<subseteq> ov_mask v (ext w)"
    and "\<And>y. \<exists>r. write_completion_byte os fd y = Some r"
  shows "\<exists>x'. notify_body os fd w = (Ok (), w\<lparr>ext := x'\<rparr>) \<and> same_os v (ext w) x'"
proof (cases "px_sigset os (ext w)")
  case None
  then show ?thesis
    by (intro exI [of _ "ext w"])
      (simp add: notify_body_def bind_def os_read_def run_simps same_os_def same_signals_def)
next
  case (Some blocked)
  note blk = signals_behaveD [OF assms(1)]
  obtain r x1 where b: "px_block os blocked (ext w) = (r, x1)" by force
  note run1 = notify_body_def bind_def os_read_def os_call_def Some b
  show ?thesis
  proof (cases r)
    case None
    then show ?thesis
      using blk(2) [OF b [unfolded None]] by (intro exI [of _ x1]) (simp add: run1 run_simps)
  next
    case prev: (Some previous)
    note b1 = blk(3) [OF b [unfolded prev]]
    have sp: "blocked = {SIGPIPE}" by (rule blk(1) [OF Some])
    obtain q x2 where q: "px_sigpending os x1 = (q, x2)" by force
    note b2 = blk(4) [OF q]
    show ?thesis
    proof (cases q)
      case None
      with b1 b2 assms(2) show ?thesis
        by (intro exI [of _ "px_setmask os previous x2"])
          (auto simp: run1 run_simps prev q os_do_def same_os_def same_signals_def blk)
    next
      case pend: (Some pending)
      obtain e x3 where e: "write_completion_byte os fd x2 = Some (e, x3)" using assms(3) by force
      have m: "SIGPIPE \<in> ov_mask v x2" using b1 b2 sp by (auto simp: same_os_def same_signals_def)
      have b3: "write_effect v e x2 x3" using write_completion_byte_effect [OF assms(1) e] m by simp
      let ?x4 = "if e = Some EPIPE \<and> SIGPIPE \<notin> pending then px_sigtimedwait os blocked x3 else x3"
      have "notify_body os fd w = (Ok (), w\<lparr>ext := px_setmask os previous ?x4\<rparr>)"
        by (simp add: run1 run_simps prev q pend os_do_def signal_byte_def e Let_def)
      moreover have "same_os v (ext w) (px_setmask os previous ?x4)"
        using b1 b2 b3 assms(2) pend sp
        by (auto simp: same_os_def same_signals_def write_effect_def blk split: if_splits)
      ultimately show ?thesis by blast
    qed
  qed
qed

section \<open>Properties\<close>

definition writes_settle :: "'x posix \<Rightarrow> token \<Rightarrow> bool" where
  \<comment> \<open>no thread is interrupted forever\<close>
  "writes_settle os fd \<longleftrightarrow> (\<forall>x. \<exists>k y. interruptions os fd k x y \<and>
     (case px_write os fd [1] y of (n, z) \<Rightarrow> \<not> interrupted_write os n z))"

lemma settled_write_returns:
  assumes "writes_settle os fd"
  shows "\<exists>r. write_completion_byte os fd y = Some r"
proof -
  obtain k u where u: "interruptions os fd k y u \<and>
      (case px_write os fd [1] u of (n, z) \<Rightarrow> \<not> interrupted_write os n z)"
    using assms [unfolded writes_settle_def, rule_format, of y] by (elim exE)
  obtain n z where w: "px_write os fd [1] u = (n, z)" by force
  then have "\<not> interrupted_write os n z" using u by simp
  with write_completion_byte_returns [OF conjunct1 [OF u] w] show ?thesis by blast
qed

text \<open>
  C36. Announcing a completion is invisible to the host process. When signals interrupt a write only
  finitely often, \<open>notify\<close> returns; the thread's signal mask and its pending signals are what they
  were, a \<open>SIGPIPE\<close> raised by a reader that is gone never takes effect, and exactly the task's own
  descriptor is closed.
\<close>

theorem notify_contained:
  assumes "signals_behave os v" and "descriptors_behave os v" and "writes_settle os fd"
    and "ov_pending v (ext w) \<subseteq> ov_mask v (ext w)"
  shows "\<exists>x'. notify os fd w = (Ok (), w\<lparr>ext := x'\<rparr>) \<and> same_signals v (ext w) x' \<and>
    ov_fds v x' = ov_fds v (ext w) - {fd}"
proof -
  obtain x1 where "notify_body os fd w = (Ok (), w\<lparr>ext := x1\<rparr>)" "same_os v (ext w) x1"
    using notify_body_contained [OF assms(1,4) settled_write_returns [OF assms(3)]] by blast
  then show ?thesis
    using assms(2)
    by (intro exI [of _ "px_close os fd x1"])
      (simp add: notify_def bind_def os_do_def same_os_def same_signals_def descriptors_behave_def)
qed

text \<open>
  A host whose pipe may have lost its reader: every write to a broken pipe raises \<open>SIGPIPE\<close>.
\<close>

record host =
  h_mask :: "nat set"
  h_pending :: "nat set"
  h_killed :: bool
  h_fds :: "nat list"
  h_reader :: bool
  h_errno :: "int option"

definition sample_posix :: "host posix" where
  "sample_posix = \<lparr>
     px_dup = (\<lambda>fd h. let t = Suc (sum_list (h_fds h)) in (Inr t, h\<lparr>h_fds := t # h_fds h\<rparr>)),
     px_close = (\<lambda>t h. h\<lparr>h_fds := removeAll t (h_fds h)\<rparr>),
     px_getfl = (\<lambda>t h. (O_NONBLOCK OR 1, h)),
     px_fstat = (\<lambda>t h. (Some S_IFIFO, h)),
     px_errno = h_errno,
     px_error_text = (\<lambda>h. []),
     px_sigset = (\<lambda>h. Some {SIGPIPE}),
     px_block = (\<lambda>S h. (Some (h_mask h), h\<lparr>h_mask := h_mask h \<union> S\<rparr>)),
     px_setmask = (\<lambda>S h. h\<lparr>h_mask := S, h_pending := h_pending h \<inter> S,
       h_killed := (h_killed h \<or> SIGPIPE \<in> h_pending h - S)\<rparr>),
     px_sigpending = (\<lambda>h. (Some (h_pending h), h)),
     px_sigtimedwait = (\<lambda>S h. h\<lparr>h_pending := h_pending h - S\<rparr>),
     px_write = (\<lambda>t bs h. if h_reader h then (int (length bs), h\<lparr>h_errno := None\<rparr>)
       else (-1, h\<lparr>h_errno := Some EPIPE, h_pending := insert SIGPIPE (h_pending h)\<rparr>))\<rparr>"

definition sample_view :: "host os_view" where
  "sample_view = \<lparr>ov_mask = h_mask, ov_pending = h_pending, ov_killed = h_killed,
     ov_fds = (\<lambda>h. set (h_fds h))\<rparr>"

definition sample_host :: host where
  "sample_host = \<lparr>h_mask = {}, h_pending = {}, h_killed = False, h_fds = [5], h_reader = False,
     h_errno = None\<rparr>"

lemma sample_posix_behaves:
  "signals_behave sample_posix sample_view" "descriptors_behave sample_posix sample_view"
  "writes_settle sample_posix fd"
proof -
  show "signals_behave sample_posix sample_view"
    by (auto simp: signals_behave_def sample_posix_def sample_view_def same_os_def same_signals_def
        broken_write_def)
  have "Suc (sum_list xs) \<notin> set xs" for xs :: "nat list"
    using member_le_sum_list [of "Suc (sum_list xs)" xs] by auto
  then show "descriptors_behave sample_posix sample_view"
    by (auto simp: descriptors_behave_def sample_posix_def sample_view_def same_os_def
        same_signals_def Let_def)
  show "writes_settle sample_posix fd"
    unfolding writes_settle_def
  proof
    fix x
    have "case px_write sample_posix fd [1] x of (n, z) \<Rightarrow> \<not> interrupted_write sample_posix n z"
      by (simp add: sample_posix_def interrupted_write_def EINTR_def EPIPE_def)
    then show "\<exists>k y. interruptions sample_posix fd k x y \<and>
        (case px_write sample_posix fd [1] y of (n, z) \<Rightarrow> \<not> interrupted_write sample_posix n z)"
      by (intro exI [of _ 0] exI [of _ x]) simp
  qed
qed

lemma notify_contained_witness:
  "\<exists>x'. notify sample_posix 5 (sample_world sample_host) = (Ok (), (sample_world sample_host)\<lparr>ext := x'\<rparr>) \<and>
    h_killed x' = False \<and> h_mask x' = {} \<and> set (h_fds x') = {}"
proof -
  let ?w = "sample_world sample_host"
  have x: "ext ?w = sample_host" by (simp add: sample_world_def)
  then have "ov_pending sample_view (ext ?w) \<subseteq> ov_mask sample_view (ext ?w)"
    by (simp add: sample_view_def sample_host_def)
  from notify_contained [OF sample_posix_behaves this, of 5] obtain x' where
    n: "notify sample_posix 5 ?w = (Ok (), ?w\<lparr>ext := x'\<rparr>)" "same_signals sample_view sample_host x'"
      "ov_fds sample_view x' = ov_fds sample_view sample_host - {5}"
    unfolding x by blast
  from n(2,3) have "h_killed x' = False \<and> h_mask x' = {} \<and> set (h_fds x') = {}"
    by (simp add: sample_view_def sample_host_def same_signals_def)
  with n(1) show ?thesis by blast
qed

lemma unix_duplicate_owns:
  assumes "descriptors_behave os v"
  shows "case unix_duplicate nonblock os fd w of
      (Ok owned, w') \<Rightarrow> 0 \<le> fd \<and> owned \<notin> ov_fds v (ext w) \<and>
        ov_fds v (ext w') = insert owned (ov_fds v (ext w)) \<and> same_signals v (ext w) (ext w')
    | (Err failure, w') \<Rightarrow> failure \<noteq> AbiMismatch \<and> same_os v (ext w) (ext w')
    | _ \<Rightarrow> False"
proof -
  obtain r x1 where d: "px_dup os fd (ext w) = (r, x1)" by force
  note beh = assms [unfolded descriptors_behave_def]
  show ?thesis
  proof (cases "fd < 0")
    case True
    then show ?thesis by (simp add: unix_duplicate_def run_simps same_os_def same_signals_def)
  next
    case fd: False
    show ?thesis
    proof (cases r)
      case (Inl e)
      with fd d beh show ?thesis by (simp add: unix_duplicate_def bind_def os_call_def run_simps)
    next
      case (Inr owned)
      with d beh have own: "same_signals v (ext w) x1" "owned \<notin> ov_fds v (ext w)"
        "ov_fds v x1 = insert owned (ov_fds v (ext w))" by auto
      obtain flags x2 where f: "px_getfl os owned x1 = (flags, x2)" by force
      obtain st x3 where st: "px_fstat os owned x2 = (st, x3)" by force
      have same: "same_os v x1 x2" "same_os v x2 x3" using beh f st by (metis snd_conv)+
      have closed: "same_os v (ext w) (px_close os owned x2)" "same_os v (ext w) (px_close os owned x3)"
        using own same beh by (auto simp: same_os_def same_signals_def)
      show ?thesis
        using fd d Inr f st own same closed
        by (cases st) (auto simp: unix_duplicate_def bind_def os_call_def os_read_def os_do_def fail_closing_def
            run_simps same_os_def same_signals_def)
    qed
  qed
qed

text \<open>
  Preparing a completion pipe neither leaks nor steals a descriptor. When the duplicate is
  accepted the caller's descriptors stay open and exactly the duplicate is added; when it is refused,
  with the reason as an error, the set of open descriptors is what it was.
\<close>

theorem duplicate_owns_exactly:
  assumes "descriptors_behave os v"
  shows "case duplicate os fd w of
      (Ok owned, w') \<Rightarrow> 0 \<le> fd \<and> owned \<notin> ov_fds v (ext w) \<and>
        ov_fds v (ext w') = insert owned (ov_fds v (ext w)) \<and> same_signals v (ext w) (ext w')
    | (Err failure, w') \<Rightarrow> failure \<noteq> AbiMismatch \<and> same_os v (ext w) (ext w')
    | _ \<Rightarrow> False"
  unfolding duplicate_def using assms by (rule unix_duplicate_owns)

lemma duplicate_owns_exactly_witness:
  "case duplicate sample_posix 5 (sample_world sample_host) of
     (Ok owned, w') \<Rightarrow> owned = 6 \<and> set (h_fds (ext w')) = {5, 6} | _ \<Rightarrow> False"
proof -
  have x: "ext (sample_world sample_host) = sample_host" by (simp add: sample_world_def)
  have run: "fst (duplicate sample_posix 5 (sample_world sample_host)) = Ok 6"
    by (simp add: duplicate_def unix_duplicate_def bind_def os_call_def run_simps sample_posix_def x sample_host_def Let_def
        O_NONBLOCK_def O_ACCMODE_def O_RDONLY_def S_IFIFO_def S_IFMT_def)
  show ?thesis
    using duplicate_owns_exactly [OF sample_posix_behaves(2), of 5 "sample_world sample_host"] run x
    by (cases "duplicate sample_posix 5 (sample_world sample_host)")
      (auto simp: sample_view_def sample_host_def)
qed

end
