(* ===== verification/CompletionTargets.thy ===== *)
theory CompletionTargets
  imports Completion
begin

text \<open>
  \<open>CompletionSignal\<close> on the targets other than Linux: Apple's, where the pipe itself is told not to
  raise \<open>SIGPIPE\<close>, and those without POSIX descriptors, where the asynchronous functions are refused.
  The constants \<open>O_ACCMODE\<close>, \<open>O_RDONLY\<close>, \<open>S_IFMT\<close>, \<open>S_IFIFO\<close> and \<open>EINTR\<close> have the same values on Apple's
  targets as on Linux.
\<close>

definition O_NONBLOCK_apple :: u32 where "O_NONBLOCK_apple = 4"

definition apple_duplicate ::
  "'x posix \<Rightarrow> (token \<Rightarrow> 'x \<Rightarrow> int \<times> 'x) \<Rightarrow> int \<Rightarrow> ('x, token) M" where
  \<comment> \<open>\<open>set_nosigpipe\<close> is \<open>fcntl(fd, F_SETNOSIGPIPE, 1)\<close>\<close>
  "apple_duplicate os set_nosigpipe raw_fd =
     bind (unix_duplicate O_NONBLOCK_apple os raw_fd) (\<lambda>owned.
     bind (os_call (set_nosigpipe owned)) (\<lambda>r.
       if r = -1 then
         bind (os_read (px_error_text os)) (\<lambda>error.
           fail_closing os owned
             (unexpected (''could not suppress SIGPIPE on async completion fd: '' @ error)))
       else ret owned))"

definition apple_notify :: "'x posix \<Rightarrow> token \<Rightarrow> ('x, unit) M" where
  "apple_notify os fd = bind (signal_byte os fd) (\<lambda>_. os_do (px_close os fd))"

definition other_duplicate :: "int \<Rightarrow> ('x, token) M" where
  "other_duplicate raw_fd = throw (unsupported ''native async pipe completion requires a POSIX target'')"

definition other_notify :: "token \<Rightarrow> ('x, unit) M" where
  "other_notify fd = ret ()"

text \<open>
  What Darwin documents of \<open>F_SETNOSIGPIPE\<close>: it changes nothing but the descriptor's own flag
  \<open>flagged\<close>, and a write to a flagged descriptor raises no signal.
\<close>

definition nosigpipe_behaves ::
  "'x posix \<Rightarrow> 'x os_view \<Rightarrow> (token \<Rightarrow> 'x \<Rightarrow> int \<times> 'x) \<Rightarrow> (token \<Rightarrow> 'x \<Rightarrow> bool) \<Rightarrow> bool" where
  "nosigpipe_behaves os v set_nosigpipe flagged \<longleftrightarrow>
     (\<forall>t x r x'. set_nosigpipe t x = (r, x') \<longrightarrow> same_os v x x' \<and> (r \<noteq> -1 \<longrightarrow> flagged t x')) \<and>
     (\<forall>t bs x n x'. px_write os t bs x = (n, x') \<longrightarrow> flagged t x \<longrightarrow> same_os v x x' \<and> flagged t x')"

lemma nosigpipeD:
  assumes "nosigpipe_behaves os v set_nosigpipe flagged"
  shows "set_nosigpipe t x = (r, x') \<Longrightarrow> same_os v x x' \<and> (r \<noteq> -1 \<longrightarrow> flagged t x')"
    and "px_write os t bs x = (n, x') \<Longrightarrow> flagged t x \<longrightarrow> same_os v x x' \<and> flagged t x'"
  using assms unfolding nosigpipe_behaves_def by simp_all

lemma same_os_trans: "same_os v x y \<Longrightarrow> same_os v y z \<Longrightarrow> same_os v x z"
  by (simp add: same_os_def same_signals_def)

lemma flagged_write:
  assumes "nosigpipe_behaves os v set_nosigpipe flagged" and "write_completion_byte os fd x = Some r"
  shows "flagged fd x \<longrightarrow> same_os v x (snd r)"
  using assms(2)
proof (induction rule: write_completion_byte_induct)
  case (1 f x r)
  obtain n x1 where w: "px_write os fd [1] x = (n, x1)" by force
  have eff: "flagged fd x \<longrightarrow> same_os v x x1 \<and> flagged fd x1"
    using w by (rule nosigpipeD(2) [OF assms(1)])
  show ?case
  proof (cases "interrupted_write os n x1")
    case True
    then have "f os fd x1 = Some r" using 1(2) w by (simp add: interrupted_write_def)
    from 1(1) [OF this] eff show ?thesis by (auto intro: same_os_trans [of v x x1])
  next
    case False
    then have "snd r = x1"
      using 1(2) w by (auto simp: interrupted_write_def Let_def split: if_splits)
    with eff show ?thesis by simp
  qed
qed

text \<open>
  On Apple's targets, too, an accepted duplicate is owned exactly and a refused one is closed; and the
  accepted one is flagged, which is what \<open>apple_notify\<close> relies on.
\<close>

theorem apple_duplicate_owns:
  assumes "descriptors_behave os v" and "nosigpipe_behaves os v set_nosigpipe flagged"
  shows "case apple_duplicate os set_nosigpipe fd w of
      (Ok owned, w') \<Rightarrow> owned \<notin> ov_fds v (ext w) \<and> flagged owned (ext w') \<and>
        ov_fds v (ext w') = insert owned (ov_fds v (ext w)) \<and> same_signals v (ext w) (ext w')
    | (Err failure, w') \<Rightarrow> failure \<noteq> AbiMismatch \<and> same_os v (ext w) (ext w')
    | _ \<Rightarrow> False"
proof (cases "unix_duplicate O_NONBLOCK_apple os fd w")
  case (Pair r w1)
  note own = unix_duplicate_owns [OF assms(1), where nonblock = O_NONBLOCK_apple and fd = fd and w = w, unfolded Pair prod.case]
  show ?thesis
  proof (cases r)
    case (Ok owned)
    obtain n x where n: "set_nosigpipe owned (ext w1) = (n, x)" by force
    from nosigpipeD(1) [OF assms(2) this]
    have set: "same_os v (ext w1) x" "n \<noteq> -1 \<longrightarrow> flagged owned x" by simp_all
    have "same_signals v x (px_close os owned x)" "ov_fds v (px_close os owned x) = ov_fds v x - {owned}"
      using assms(1) by (simp_all add: descriptors_behave_def)
    then show ?thesis
      using own set by (auto simp: apple_duplicate_def bind_def os_call_def os_read_def os_do_def fail_closing_def
        run_simps Pair Ok n same_os_def same_signals_def)
  qed (use own in \<open>simp_all add: apple_duplicate_def bind_def Pair\<close>)
qed

theorem apple_notify_contained:
  assumes "descriptors_behave os v" and "nosigpipe_behaves os v set_nosigpipe flagged"
    and "writes_settle os fd" and "flagged fd (ext w)"
  shows "\<exists>x'. apple_notify os fd w = (Ok (), w\<lparr>ext := x'\<rparr>) \<and> same_signals v (ext w) x' \<and>
    ov_fds v x' = ov_fds v (ext w) - {fd}"
proof -
  obtain e x where e: "write_completion_byte os fd (ext w) = Some (e, x)"
    using settled_write_returns [OF assms(3)] by force
  have "same_os v (ext w) x" using flagged_write [OF assms(2) e] assms(4) by simp
  moreover have "same_signals v x (px_close os fd x)" "ov_fds v (px_close os fd x) = ov_fds v x - {fd}"
    using assms(1) by (simp_all add: descriptors_behave_def)
  ultimately show ?thesis
    by (intro exI [of _ "px_close os fd x"])
      (simp add: apple_notify_def bind_def signal_byte_def os_do_def e same_os_def same_signals_def)
qed

end
