(* ===== verification/AsyncCore.thy ===== *)
theory AsyncCore
  imports Completion
begin

text \<open>
  The shared state of the asynchronous layer: task results (\<open>AsyncOutcome\<close>, \<open>AsyncTaskShared\<close>), and the
  cores of asynchronous read streams and writers (\<open>AsyncReadStreamCore\<close>, \<open>AsyncWriterCore\<close> of \<open>lib.rs\<close>).

  The objects behind \<open>Arc\<close> live in \<open>async_env\<close>, which takes the place of the external state and holds
  the backend's state as \<open>ae_back\<close>. Each method is split into what it does to the locked state, a pure
  function, and the effects it has once the lock is released. A native object that goes out of scope
  is dropped by an external call that may panic.
\<close>

section \<open>Environment\<close>

datatype AsyncFuture =
    FReady AsyncOutcome
  | FWholeRead token string WholeReadPlan
  | FOpenStream token string ParsedReadStreamOptions
  | FNext nat AsyncReadStreamCursor u64
  | FOpenWriter token string WriteOptions
  | FWrite nat token "u8 list"
  | FFinish nat token
  | FAbort nat token

text \<open>What is left of a future when the call it awaits has returned.\<close>

datatype AsyncWork =
    WReady AsyncOutcome
  | WNext nat AsyncReadStreamCursor AsyncReadStreamNext AsyncOutcome
  | WWriter nat token AsyncWriterCompletion AsyncOutcome

datatype JoinResult = JoinOutcome AsyncOutcome | JoinUnwound | JoinCancelled | JoinFailed

text \<open>
  An operation is a spawned Tokio task: before its awaited call returns, after that, and joined. Its
  abort handle is its number.
\<close>

datatype AsyncOp = Spawned AsyncFuture | Resumed AsyncWork | Joined JoinResult

record 'x async_env =
  ae_tasks :: "nat \<Rightarrow> AsyncTaskShared option"
  ae_streams :: "nat \<Rightarrow> AsyncReadStreamCore option"
  ae_writers :: "nat \<Rightarrow> AsyncWriterCore option"
  ae_ops :: "token \<Rightarrow> (AsyncResultKind \<times> AsyncOp) option"
  ae_aborts :: "token list"
  ae_notified :: "token list"
  ae_next :: nat
  ae_back :: 'x

record 'x async_api =
  aa_build_runtime :: "'x \<Rightarrow> bool \<times> 'x"
  aa_os :: "'x posix"
  aa_grow :: "usize \<Rightarrow> usize"
  aa_split_to :: "Buffer \<Rightarrow> usize \<Rightarrow> Buffer \<times> Buffer"
  aa_reader :: "token \<Rightarrow> string \<Rightarrow> ReaderOptions \<Rightarrow> ('x, token) xcall"
  aa_stream_items :: "token \<Rightarrow> BytesRange \<Rightarrow> ('x, Buffer ext_result list) xcall"
  aa_into_stream :: "token \<Rightarrow> BytesRange \<Rightarrow> ('x, token) xcall"
  aa_try_next :: "token \<Rightarrow> ('x, Buffer option) xcall"
  aa_drop_stream :: "token \<Rightarrow> ('x, unit) xcall"
  aa_writer :: "token \<Rightarrow> string \<Rightarrow> WriteOptions \<Rightarrow> ('x, token) xcall"
  aa_write :: "token \<Rightarrow> u8 list \<Rightarrow> ('x, unit) xcall"
  aa_close :: "token \<Rightarrow> ('x, Metadata) xcall"
  aa_abort :: "token \<Rightarrow> ('x, unit) xcall"
  aa_drop_writer :: "token \<Rightarrow> ('x, unit) xcall"

type_synonym ('x, 'a) AM = "('x async_env, 'a) M"

definition back_world :: "'x async_env world \<Rightarrow> 'x world" where
  "back_world w = \<lparr>inp = inp w, out = out w, boxes = boxes w, next_box = next_box w,
     runtime_cell = runtime_cell w, ext = ae_back (ext w)\<rparr>"

definition front_world :: "'x async_env \<Rightarrow> 'x world \<Rightarrow> 'x async_env world" where
  "front_world e w = \<lparr>inp = inp w, out = out w, boxes = boxes w, next_box = next_box w,
     runtime_cell = runtime_cell w, ext = e\<lparr>ae_back := ext w\<rparr>\<rparr>"

definition in_backend :: "('x, 'a) M \<Rightarrow> ('x, 'a) AM" where
  \<comment> \<open>run a computation that knows nothing of the asynchronous layer\<close>
  "in_backend m w = (case m (back_world w) of (r, w') \<Rightarrow> (r, front_world (ext w) w'))"

lemma back_world_simps [simp]:
  "ext (back_world w) = ae_back (ext w)" "inp (back_world w) = inp w" "boxes (back_world w) = boxes w"
  "runtime_cell (back_world w) = runtime_cell w"
  "front_world (ext w) ((back_world w)\<lparr>ext := x\<rparr>) = w\<lparr>ext := (ext w)\<lparr>ae_back := x\<rparr>\<rparr>"
  "front_world (ext w) (back_world w) = w"
  by (simp_all add: back_world_def front_world_def)

lemma run_in_backend:
  assumes "m (back_world w) = (r, (back_world w)\<lparr>ext := x\<rparr>)"
  shows "in_backend m w = (r, w\<lparr>ext := (ext w)\<lparr>ae_back := x\<rparr>\<rparr>)"
  using assms by (simp add: in_backend_def)

definition env_do :: "('x async_env \<Rightarrow> 'x async_env) \<Rightarrow> ('x, unit) AM" where
  "env_do f w = (Ok (), w\<lparr>ext := f (ext w)\<rparr>)"

definition lookup_env :: "('x async_env \<Rightarrow> nat \<Rightarrow> 'a option) \<Rightarrow> nat \<Rightarrow> ('x, 'a) AM" where
  \<comment> \<open>follow an \<open>Arc\<close>: what it points to is alive\<close>
  "lookup_env sel i w = (case sel (ext w) i of None \<Rightarrow> (UB, w) | Some a \<Rightarrow> (Ok a, w))"

definition abort_op :: "token \<Rightarrow> ('x, unit) AM" where
  "abort_op t = env_do (\<lambda>e. e\<lparr>ae_aborts := t # ae_aborts e\<rparr>)"

definition abort_if :: "token option \<Rightarrow> ('x, unit) AM" where
  "abort_if a = (case a of Some t \<Rightarrow> abort_op t | None \<Rightarrow> ret ())"

definition notify_signal :: "'x async_api \<Rightarrow> token option \<Rightarrow> ('x, unit) AM" where
  \<comment> \<open>\<open>if let Some(signal) = signal \<open>{\<close> signal.notify() \<open>}\<close>\<close>\<close>
  "notify_signal api signal =
     (case signal of
        None \<Rightarrow> ret ()
      | Some fd \<Rightarrow>
          bind (env_do (\<lambda>e. e\<lparr>ae_notified := fd # ae_notified e\<rparr>)) (\<lambda>_.
            in_backend (notify (aa_os api) fd)))"

section \<open>Outcomes\<close>

definition outcome_success :: "AsyncResultKind \<Rightarrow> AsyncPayload \<Rightarrow> AsyncOutcome" where
  "outcome_success kind payload =
     \<lparr>ao_kind = kind, ao_status = STATUS_OK, ao_payload = payload, ao_error = None\<rparr>"

definition outcome_end :: "AsyncResultKind \<Rightarrow> AsyncOutcome" where
  "outcome_end kind =
     \<lparr>ao_kind = kind, ao_status = STATUS_END, ao_payload = PayloadNone, ao_error = None\<rparr>"

definition outcome_failure :: "AsyncResultKind \<Rightarrow> CallFailure \<Rightarrow> AsyncOutcome" where
  "outcome_failure kind failure =
     (case failure of
        AbiMismatch \<Rightarrow>
          \<lparr>ao_kind = kind, ao_status = STATUS_ABI_MISMATCH, ao_payload = PayloadNone, ao_error = None\<rparr>
      | Error error \<Rightarrow>
          \<lparr>ao_kind = kind, ao_status = STATUS_ERROR, ao_payload = PayloadNone,
           ao_error = Some error\<rparr>)"

definition outcome_panic :: "AsyncResultKind \<Rightarrow> AsyncOutcome" where
  "outcome_panic kind =
     \<lparr>ao_kind = kind, ao_status = STATUS_PANIC, ao_payload = PayloadNone, ao_error = None\<rparr>"

section \<open>Read stream cores\<close>

definition take_for_next ::
  "AsyncReadStreamState \<Rightarrow> AsyncReadStreamStart CallResult \<times> AsyncReadStreamState" where
  "take_for_next state =
     (case state of
        ArsOpen cursor \<Rightarrow> (Inr (StartCursor cursor), ArsBusy None)
      | ArsEnd \<Rightarrow> (Inr StartEnd, ArsEnd)
      | ArsBusy abort \<Rightarrow>
          (Inl (resource_closed ''async read stream already has an in-flight operation''),
           ArsBusy abort)
      | ArsFailed \<Rightarrow> (Inl (resource_closed ''async read stream is closed''), ArsFailed)
      | ArsClosed \<Rightarrow> (Inl (resource_closed ''async read stream is closed''), ArsClosed))"

definition stream_install_abort ::
  "token \<Rightarrow> AsyncReadStreamState \<Rightarrow> token option \<times> AsyncReadStreamState" where
  "stream_install_abort abort state =
     (case state of
        ArsBusy None \<Rightarrow> (None, ArsBusy (Some abort))
      | ArsFailed \<Rightarrow> (Some abort, ArsFailed)
      | ArsClosed \<Rightarrow> (Some abort, ArsClosed)
      | other \<Rightarrow> (None, other))"

definition complete_next ::
  "AsyncReadStreamCursor \<Rightarrow> AsyncReadStreamNext \<Rightarrow> AsyncReadStreamState \<Rightarrow>
   AsyncReadStreamCursor option \<times> AsyncReadStreamState" where
  \<comment> \<open>the cursor that goes out of scope, and the new state\<close>
  "complete_next cursor next state =
     (case state of
        ArsBusy _ \<Rightarrow>
          (case next of
             NextChunk \<Rightarrow> (None, ArsOpen cursor)
           | NextEnd \<Rightarrow> (Some cursor, ArsEnd)
           | NextFailed \<Rightarrow> (Some cursor, ArsFailed))
      | _ \<Rightarrow> (Some cursor, state))"

definition stream_busy_abort :: "AsyncReadStreamState \<Rightarrow> token option" where
  "stream_busy_abort state = (case state of ArsBusy abort \<Rightarrow> abort | _ \<Rightarrow> None)"

definition stream_cursor :: "AsyncReadStreamState \<Rightarrow> AsyncReadStreamCursor option" where
  "stream_cursor state = (case state of ArsOpen cursor \<Rightarrow> Some cursor | _ \<Rightarrow> None)"

definition put_stream :: "nat \<Rightarrow> AsyncReadStreamCore \<Rightarrow> AsyncReadStreamState \<Rightarrow> bool \<Rightarrow> ('x, unit) AM" where
  "put_stream i core state poisoned =
     env_do (\<lambda>e. e\<lparr>ae_streams := (ae_streams e)(i \<mapsto>
       core\<lparr>arsc_state := \<lparr>mx_state = state, mx_poisoned = poisoned\<rparr>\<rparr>)\<rparr>)"

definition stream_section ::
  "nat \<Rightarrow> (AsyncReadStreamState \<Rightarrow> 'a \<times> AsyncReadStreamState) \<Rightarrow> ('x, 'a) AM" where
  \<comment> \<open>\<open>lock_state\<close>, a locked section, and the release; a poisoned lock is recovered\<close>
  "stream_section i f =
     bind (lookup_env ae_streams i) (\<lambda>core.
       case f (mx_state (arsc_state core)) of
         (a, state) \<Rightarrow> bind (put_stream i core state False) (\<lambda>_. ret a))"

definition drop_cursor_value :: "'x async_api \<Rightarrow> AsyncReadStreamCursor option \<Rightarrow> ('x, unit) AM" where
  "drop_cursor_value api cursor =
     (case cursor of
        None \<Rightarrow> ret ()
      | Some c \<Rightarrow> in_backend (drop_value (aa_drop_stream api) (acur_stream c)))"

definition end_stream :: "'x async_api \<Rightarrow> nat \<Rightarrow> AsyncReadStreamState \<Rightarrow> ('x, unit) AM" where
  \<comment> \<open>replace the state, drop the previous one under the lock, then abort what was in flight\<close>
  "end_stream api i terminal =
     bind (lookup_env ae_streams i) (\<lambda>core.
     bind (put_stream i core terminal True) (\<lambda>_.
     bind (drop_cursor_value api (stream_cursor (mx_state (arsc_state core)))) (\<lambda>_.
     bind (put_stream i core terminal False) (\<lambda>_.
       abort_if (stream_busy_abort (mx_state (arsc_state core)))))))"

definition stream_core_close :: "'x async_api \<Rightarrow> nat \<Rightarrow> ('x, unit) AM" where
  "stream_core_close api i = end_stream api i ArsClosed"

definition stream_core_fail :: "'x async_api \<Rightarrow> nat \<Rightarrow> ('x, unit) AM" where
  "stream_core_fail api i = end_stream api i ArsFailed"

definition stream_core_complete ::
  "'x async_api \<Rightarrow> nat \<Rightarrow> AsyncReadStreamCursor \<Rightarrow> AsyncReadStreamNext \<Rightarrow> ('x, unit) AM" where
  "stream_core_complete api i cursor next =
     bind (stream_section i (complete_next cursor next)) (drop_cursor_value api)"

section \<open>Writer cores\<close>

definition take_for_call ::
  "bool \<Rightarrow> AsyncWriterState \<Rightarrow> token option CallResult \<times> AsyncWriterState" where
  "take_for_call repeated_abort_is_ok state =
     (case state of
        AwOpen writer \<Rightarrow> (Inr (Some writer), AwBusy None)
      | AwAborted \<Rightarrow>
          if repeated_abort_is_ok then (Inr None, AwAborted)
          else (Inl (resource_closed ''async writer is closed''), AwAborted)
      | AwBusy abort \<Rightarrow>
          (Inl (resource_closed ''async writer already has an in-flight operation''), AwBusy abort)
      | AwFinished \<Rightarrow> (Inl (resource_closed ''async writer is closed''), AwFinished)
      | AwFailed \<Rightarrow> (Inl (resource_closed ''async writer is closed''), AwFailed))"

definition writer_install_abort ::
  "token \<Rightarrow> AsyncWriterState \<Rightarrow> token option \<times> AsyncWriterState" where
  "writer_install_abort abort state =
     (case state of
        AwBusy None \<Rightarrow> (None, AwBusy (Some abort))
      | AwFailed \<Rightarrow> (Some abort, AwFailed)
      | other \<Rightarrow> (None, other))"

definition complete_writer ::
  "token \<Rightarrow> AsyncWriterCompletion \<Rightarrow> AsyncWriterState \<Rightarrow> token option \<times> AsyncWriterState" where
  "complete_writer writer next state =
     (case state of
        AwBusy _ \<Rightarrow>
          (case next of
             CompOpen \<Rightarrow> (None, AwOpen writer)
           | CompFinished \<Rightarrow> (Some writer, AwFinished)
           | CompAborted \<Rightarrow> (Some writer, AwAborted)
           | CompFailed \<Rightarrow> (Some writer, AwFailed))
      | _ \<Rightarrow> (Some writer, state))"

definition writer_busy_abort :: "AsyncWriterState \<Rightarrow> token option" where
  "writer_busy_abort state = (case state of AwBusy abort \<Rightarrow> abort | _ \<Rightarrow> None)"

definition writer_native :: "AsyncWriterState \<Rightarrow> token option" where
  "writer_native state = (case state of AwOpen writer \<Rightarrow> Some writer | _ \<Rightarrow> None)"

definition put_writer :: "nat \<Rightarrow> AsyncWriterState \<Rightarrow> bool \<Rightarrow> ('x, unit) AM" where
  "put_writer i state poisoned =
     env_do (\<lambda>e. e\<lparr>ae_writers := (ae_writers e)(i \<mapsto>
       \<lparr>awc_state = \<lparr>mx_state = state, mx_poisoned = poisoned\<rparr>\<rparr>)\<rparr>)"

definition writer_section ::
  "nat \<Rightarrow> (AsyncWriterState \<Rightarrow> 'a \<times> AsyncWriterState) \<Rightarrow> ('x, 'a) AM" where
  "writer_section i f =
     bind (lookup_env ae_writers i) (\<lambda>core.
       case f (mx_state (awc_state core)) of
         (a, state) \<Rightarrow> bind (put_writer i state False) (\<lambda>_. ret a))"

definition drop_writer_value :: "'x async_api \<Rightarrow> token option \<Rightarrow> ('x, unit) AM" where
  "drop_writer_value api writer =
     (case writer of None \<Rightarrow> ret () | Some t \<Rightarrow> in_backend (drop_value (aa_drop_writer api) t))"

definition writer_core_fail :: "'x async_api \<Rightarrow> nat \<Rightarrow> ('x, unit) AM" where
  "writer_core_fail api i =
     bind (lookup_env ae_writers i) (\<lambda>core.
     bind (put_writer i AwFailed True) (\<lambda>_.
     bind (drop_writer_value api (writer_native (mx_state (awc_state core)))) (\<lambda>_.
     bind (put_writer i AwFailed False) (\<lambda>_.
       abort_if (writer_busy_abort (mx_state (awc_state core)))))))"

definition writer_core_complete ::
  "'x async_api \<Rightarrow> nat \<Rightarrow> token \<Rightarrow> AsyncWriterCompletion \<Rightarrow> ('x, unit) AM" where
  "writer_core_complete api i writer next =
     bind (writer_section i (complete_writer writer next)) (drop_writer_value api)"

definition poison_fail :: "'x async_api \<Rightarrow> AsyncResourcePoison \<Rightarrow> ('x, unit) AM" where
  "poison_fail api resource =
     (case resource of
        PoisonReadStream i \<Rightarrow> stream_core_fail api i
      | PoisonWriter i \<Rightarrow> writer_core_fail api i)"

end
