(* ===== verification/AsyncTask.thy ===== *)
theory AsyncTask
  imports AsyncCore
begin

text \<open>
  Task results (\<open>AsyncTaskShared::publish\<close>, \<open>cancel\<close> and \<open>take\<close> of \<open>lib.rs\<close>). A task is running, completed
  with an outcome, taken or cancelled; it owns the completion signal as long as it runs.
\<close>

section \<open>Locked sections\<close>

definition publish_state :: "AsyncOutcome \<Rightarrow> AsyncTaskInner \<Rightarrow> token option \<times> AsyncTaskInner" where
  \<comment> \<open>the signal to notify; without one the outcome is dropped\<close>
  "publish_state outcome inner =
     (case ati_state inner of
        Running _ \<Rightarrow>
          (ati_signal inner, inner\<lparr>ati_state := Completed outcome, ati_signal := None\<rparr>)
      | _ \<Rightarrow> (None, inner))"

definition cancel_state ::
  "AsyncTaskInner \<Rightarrow> (token option \<times> bool \<times> token option) \<times> AsyncTaskInner" where
  \<comment> \<open>what to abort, whether to poison the resource, and the signal to notify\<close>
  "cancel_state inner =
     (let (abort, poison, state) =
        (case ati_state inner of
           Running abort \<Rightarrow> (Some abort, True, Cancelled)
         | Completed _ \<Rightarrow> (None, True, Cancelled)
         | Taken \<Rightarrow> (None, False, Taken)
         | Cancelled \<Rightarrow> (None, False, Cancelled))
      in if poison
         then ((abort, poison, ati_signal inner), inner\<lparr>ati_state := state, ati_signal := None\<rparr>)
         else ((abort, poison, None), inner\<lparr>ati_state := state\<rparr>))"

definition take_state ::
  "AsyncResultKind \<Rightarrow> AsyncTaskInner \<Rightarrow> AsyncOutcome CallResult \<times> AsyncTaskInner" where
  "take_state expected inner =
     (case ati_state inner of
        Completed outcome \<Rightarrow>
          if ao_kind outcome \<noteq> expected
          then (Inl (invalid_argument ''async task result kind does not match take''), inner)
          else (Inr outcome, inner\<lparr>ati_state := Taken\<rparr>)
      | Running abort \<Rightarrow> (Inl (resource_closed ''async task result is not ready''), inner)
      | Taken \<Rightarrow> (Inl (resource_closed ''async task result was already taken''), inner)
      | Cancelled \<Rightarrow> (Inl (resource_closed ''async task was cancelled''), inner))"

section \<open>Methods\<close>

definition put_task :: "nat \<Rightarrow> AsyncTaskShared \<Rightarrow> AsyncTaskInner \<Rightarrow> bool \<Rightarrow> ('x, unit) AM" where
  "put_task i shared inner poisoned =
     env_do (\<lambda>e. e\<lparr>ae_tasks := (ae_tasks e)(i \<mapsto>
       shared\<lparr>ats_inner := \<lparr>mx_state = inner, mx_poisoned = poisoned\<rparr>\<rparr>)\<rparr>)"

definition drop_payload :: "'x async_api \<Rightarrow> AsyncPayload \<Rightarrow> ('x, unit) AM" where
  \<comment> \<open>a payload nobody took holds the only reference to its core\<close>
  "drop_payload api payload =
     (case payload of
        PayloadReadStream h \<Rightarrow>
          bind (lookup_env ae_streams (ars_core h)) (\<lambda>core.
          bind (env_do (\<lambda>e. e\<lparr>ae_streams := (ae_streams e)(ars_core h := None)\<rparr>)) (\<lambda>_.
            drop_cursor_value api (stream_cursor (mx_state (arsc_state core)))))
      | PayloadWriter h \<Rightarrow>
          bind (lookup_env ae_writers (aw_core h)) (\<lambda>core.
          bind (env_do (\<lambda>e. e\<lparr>ae_writers := (ae_writers e)(aw_core h := None)\<rparr>)) (\<lambda>_.
            drop_writer_value api (writer_native (mx_state (awc_state core)))))
      | _ \<Rightarrow> ret ())"

definition drop_completed :: "'x async_api \<Rightarrow> AsyncTaskState \<Rightarrow> ('x, unit) AM" where
  "drop_completed api state =
     (case state of Completed outcome \<Rightarrow> drop_payload api (ao_payload outcome) | _ \<Rightarrow> ret ())"

definition publish :: "'x async_api \<Rightarrow> nat \<Rightarrow> AsyncOutcome \<Rightarrow> ('x, unit) AM" where
  "publish api i outcome =
     bind (lookup_env ae_tasks i) (\<lambda>shared.
       case mx_state (ats_inner shared) of inner \<Rightarrow>
       case publish_state outcome inner of (signal, inner') \<Rightarrow>
         bind (put_task i shared inner' False) (\<lambda>_.
         bind (notify_signal api signal) (\<lambda>_.
           case ati_state inner of
             Running _ \<Rightarrow> ret ()
           | _ \<Rightarrow> drop_payload api (ao_payload outcome))))"

definition cancel :: "'x async_api \<Rightarrow> nat \<Rightarrow> ('x, unit) AM" where
  "cancel api i =
     bind (lookup_env ae_tasks i) (\<lambda>shared.
       case mx_state (ats_inner shared) of inner \<Rightarrow>
       case cancel_state inner of ((abort, poison, signal), inner') \<Rightarrow>
         bind (put_task i shared inner' True) (\<lambda>_.
         bind (drop_completed api (ati_state inner)) (\<lambda>_.
         bind (put_task i shared inner' False) (\<lambda>_.
         bind (abort_if abort) (\<lambda>_.
         bind (case ats_resource shared of
                 Some resource \<Rightarrow> if poison then poison_fail api resource else ret ()
               | None \<Rightarrow> ret ()) (\<lambda>_.
           notify_signal api signal))))))"

definition take_task :: "nat \<Rightarrow> AsyncResultKind \<Rightarrow> ('x, AsyncOutcome) AM" where
  "take_task i expected =
     bind (lookup_env ae_tasks i) (\<lambda>shared.
       case take_state expected (mx_state (ats_inner shared)) of
         (r, inner') \<Rightarrow> bind (put_task i shared inner' False) (\<lambda>_. lift_res r))"

section \<open>The task protocol\<close>

text \<open>
  Publishing, cancelling and taking race. Their locked sections happen in some order: a list of
  operations. What the world sees of the run is the signals notified and the outcomes handed out.
\<close>

datatype task_op = TPublish AsyncOutcome | TCancel | TTake AsyncResultKind

definition task_step :: "task_op \<Rightarrow> AsyncTaskInner \<Rightarrow> (token list \<times> AsyncOutcome list) \<times> AsyncTaskInner" where
  "task_step op inner =
     (case op of
        TPublish outcome \<Rightarrow>
          (case publish_state outcome inner of
             (signal, inner') \<Rightarrow> ((case signal of None \<Rightarrow> [] | Some fd \<Rightarrow> [fd], []), inner'))
      | TCancel \<Rightarrow>
          (case cancel_state inner of
             ((_, _, signal), inner') \<Rightarrow> ((case signal of None \<Rightarrow> [] | Some fd \<Rightarrow> [fd], []), inner'))
      | TTake kind \<Rightarrow>
          (case take_state kind inner of
             (r, inner') \<Rightarrow> (([], case r of Inl _ \<Rightarrow> [] | Inr outcome \<Rightarrow> [outcome]), inner')))"

fun run_task ::
  "task_op list \<Rightarrow> AsyncTaskInner \<Rightarrow> (token list \<times> AsyncOutcome list) \<times> AsyncTaskInner" where
  "run_task [] inner = (([], []), inner)"
| "run_task (op # ops) inner =
     (let ((signals, taken), inner') = task_step op inner;
          ((signals', taken'), inner'') = run_task ops inner'
      in ((signals @ signals', taken @ taken'), inner''))"

definition fresh_task :: "token \<Rightarrow> token \<Rightarrow> AsyncTaskInner" where
  "fresh_task abort fd = \<lparr>ati_state = Running abort, ati_signal = Some fd\<rparr>"

text \<open>
  The specification in terms of the order alone: the first publication wins unless a cancellation
  comes before it, and its outcome goes to the first take of its kind, unless a cancellation comes
  before that.
\<close>

fun settles :: "task_op \<Rightarrow> bool" where
  "settles (TPublish _) = True"
| "settles TCancel = True"
| "settles (TTake _) = False"

fun taken_after :: "AsyncOutcome \<Rightarrow> task_op list \<Rightarrow> AsyncOutcome list" where
  "taken_after outcome [] = []"
| "taken_after outcome (TCancel # ops) = []"
| "taken_after outcome (TTake kind # ops) =
     (if kind = ao_kind outcome then [outcome] else taken_after outcome ops)"
| "taken_after outcome (TPublish _ # ops) = taken_after outcome ops"

fun expected_takes :: "task_op list \<Rightarrow> AsyncOutcome list" where
  "expected_takes [] = []"
| "expected_takes (TCancel # ops) = []"
| "expected_takes (TTake _ # ops) = expected_takes ops"
| "expected_takes (TPublish outcome # ops) = taken_after outcome ops"

lemmas task_defs = task_step_def publish_state_def cancel_state_def take_state_def

lemma run_task_settled:
  assumes "ati_state inner \<in> {Taken, Cancelled}" and "ati_signal inner = None"
  shows "fst (run_task ops inner) = ([], [])"
  using assms
proof (induction ops arbitrary: inner)
  case (Cons op ops)
  then have "task_step op inner = (([], []), inner)"
    by (cases op) (auto simp: task_defs split: AsyncTaskState.splits)
  with Cons show ?case by (simp add: split_beta Let_def)
qed simp

lemma run_task_completed:
  assumes "ati_signal inner = None" and "ati_state inner = Completed outcome"
  shows "fst (run_task ops inner) = ([], taken_after outcome ops)"
  using assms
proof (induction ops arbitrary: inner)
  case (Cons op ops)
  show ?case
  proof (cases op)
    case (TPublish o2)
    with Cons have "task_step op inner = (([], []), inner)" by (simp add: task_defs)
    with Cons TPublish show ?thesis by (simp add: split_beta Let_def)
  next
    case TCancel
    with Cons.prems have "fst (task_step op inner) = ([], [])"
      "ati_state (snd (task_step op inner)) = Cancelled" "ati_signal (snd (task_step op inner)) = None"
      by (simp_all add: task_defs)
    with TCancel run_task_settled [of "snd (task_step op inner)" ops] show ?thesis
      by (simp add: split_beta Let_def)
  next
    case (TTake kind)
    show ?thesis
    proof (cases "kind = ao_kind outcome")
      case True
      with TTake Cons.prems have "fst (task_step op inner) = ([], [outcome])"
        "ati_state (snd (task_step op inner)) = Taken" "ati_signal (snd (task_step op inner)) = None"
        by (simp_all add: task_defs)
      with TTake True run_task_settled [of "snd (task_step op inner)" ops] show ?thesis
        by (simp add: split_beta Let_def)
    next
      case False
      with TTake Cons.prems have "task_step op inner = (([], []), inner)" by (simp add: task_defs)
      with Cons TTake False show ?thesis by (simp add: split_beta Let_def)
    qed
  qed
qed simp

lemma run_task_running:
  assumes "ati_state inner = Running abort" and "ati_signal inner = Some fd"
  shows "fst (run_task ops inner) = (if list_ex settles ops then [fd] else [], expected_takes ops)"
  using assms
proof (induction ops arbitrary: inner)
  case (Cons op ops)
  show ?case
  proof (cases op)
    case (TPublish outcome)
    with Cons.prems have "fst (task_step op inner) = ([fd], [])"
      "ati_state (snd (task_step op inner)) = Completed outcome"
      "ati_signal (snd (task_step op inner)) = None"
      by (simp_all add: task_defs)
    with TPublish run_task_completed [of "snd (task_step op inner)" outcome ops] show ?thesis
      by (simp add: split_beta Let_def)
  next
    case TCancel
    with Cons.prems have "fst (task_step op inner) = ([fd], [])"
      "ati_state (snd (task_step op inner)) = Cancelled" "ati_signal (snd (task_step op inner)) = None"
      by (simp_all add: task_defs)
    with TCancel run_task_settled [of "snd (task_step op inner)" ops] show ?thesis
      by (simp add: split_beta Let_def)
  next
    case (TTake kind)
    with Cons.prems have "task_step op inner = (([], []), inner)" by (simp add: task_defs)
    with Cons TTake show ?thesis by (simp add: split_beta Let_def)
  qed
qed simp

section \<open>Properties\<close>

text \<open>
  C9. A task announces its end exactly once and hands its result out at most once, in every order of
  publications, cancellations and takes. The signal is notified once as soon as anything settles the
  task, and the outcomes handed out are exactly those the order of the operations determines.
\<close>

theorem async_task_protocol:
  "fst (run_task ops (fresh_task abort fd)) =
     (if list_ex settles ops then [fd] else [], expected_takes ops)"
  by (rule run_task_running [where abort = abort]) (simp_all add: fresh_task_def)

end
