(* ===== verification/AsyncCalls.thy ===== *)
theory AsyncCalls
  imports AsyncTask
begin

text \<open>
  The entry points of the asynchronous layer (\<open>AsyncLaunch\<close> and the \<open>async_*\<close> functions of \<open>lib.rs\<close>) and
  the operations they spawn. A future is a value of \<open>AsyncFuture\<close>; a spawned operation is polled up to
  the return of the call it awaits, resumed to its end, or, once its abort handle was used, cancelled
  while it waits. Its supervisor then publishes the result. The four are separate steps, so that
  everything the caller does can happen between them.
\<close>

section \<open>Launching\<close>

definition launch_prepare :: "'x async_api \<Rightarrow> int \<Rightarrow> ('x, token) AM" where
  "launch_prepare api completion_fd =
     in_backend (bind (duplicate (aa_os api) completion_fd) (\<lambda>signal.
       bind (closure (runtime (aa_build_runtime api))) (\<lambda>r.
         case r of
           Inl failure \<Rightarrow> fail_closing (aa_os api) signal failure
         | Inr _ \<Rightarrow> ret signal)))"

definition with_launch :: "'x async_api \<Rightarrow> token \<Rightarrow> ('x, 'a) AM \<Rightarrow> ('x, 'a) AM" where
  \<comment> \<open>an early return after \<open>prepare\<close> drops the launch and with it the signal\<close>
  "with_launch api signal m =
     bind (closure m) (\<lambda>r.
       case r of
         Inl failure \<Rightarrow> in_backend (fail_closing (aa_os api) signal failure)
       | Inr a \<Rightarrow> ret a)"

definition spawn ::
  "token \<Rightarrow> AsyncResultKind \<Rightarrow> AsyncResourcePoison option \<Rightarrow> AsyncFuture \<Rightarrow> ('x, AsyncTaskV1 \<times> token) AM" where
  "spawn signal kind resource future w =
     (let e = ext w; n = ae_next e in
      (Ok (\<lparr>at_shared = n\<rparr>, n),
       w\<lparr>ext := e\<lparr>ae_next := n + 1,
           ae_ops := (ae_ops e)(n \<mapsto> (kind, Spawned future)),
           ae_tasks := (ae_tasks e)(n \<mapsto>
             \<lparr>ats_inner =
                \<lparr>mx_state = \<lparr>ati_state = Running n, ati_signal = Some signal\<rparr>, mx_poisoned = False\<rparr>,
              ats_resource = resource\<rparr>)\<rparr>\<rparr>))"

section \<open>Futures\<close>

definition run_async_whole_read ::
  "'x async_api \<Rightarrow> token \<Rightarrow> string \<Rightarrow> WholeReadPlan \<Rightarrow> ('x, AsyncOutcome) AM" where
  "run_async_whole_read api operator path plan =
     bind (closure (in_backend (
       bind (ext_call opendal_error (aa_reader api operator path (plan_reader_options plan))) (\<lambda>reader.
       bind (ext_call opendal_error (aa_stream_items api reader (plan_range plan))) (\<lambda>buffers.
         collect_bounded_read_chunks (aa_grow api) buffers (plan_output_limit plan) ''read result'')))))
     (\<lambda>result.
       case result of
         Inr buffer \<Rightarrow> ret (outcome_success RBuffer (PayloadBuffer buffer))
       | Inl failure \<Rightarrow> ret (outcome_failure RBuffer failure))"

definition open_stream_future ::
  "'x async_api \<Rightarrow> token \<Rightarrow> string \<Rightarrow> ParsedReadStreamOptions \<Rightarrow> ('x, AsyncOutcome) AM" where
  "open_stream_future api operator path parsed =
     bind (closure (in_backend (
       bind (ext_call opendal_error (aa_reader api operator path (prs_reader parsed))) (\<lambda>reader.
         ext_call opendal_error (aa_into_stream api reader (prs_range parsed))))))
     (\<lambda>result.
       case result of
         Inl failure \<Rightarrow> ret (outcome_failure RReadStream failure)
       | Inr stream \<Rightarrow>
           (\<lambda>w. let e = ext w; n = ae_next e in
             (Ok (outcome_success RReadStream (PayloadReadStream \<lparr>ars_core = n\<rparr>)),
              w\<lparr>ext := e\<lparr>ae_next := n + 1, ae_streams := (ae_streams e)(n \<mapsto>
                \<lparr>arsc_state = \<lparr>mx_state = ArsOpen \<lparr>acur_stream = stream, acur_pending = None\<rparr>,
                   mx_poisoned = False\<rparr>,
                 arsc_chunk_size = prs_chunk_size parsed\<rparr>)\<rparr>\<rparr>)))"

definition open_writer_future ::
  "'x async_api \<Rightarrow> token \<Rightarrow> string \<Rightarrow> WriteOptions \<Rightarrow> ('x, AsyncOutcome) AM" where
  "open_writer_future api operator path options =
     bind (closure (in_backend (ext_call opendal_error (aa_writer api operator path options)))) (\<lambda>result.
       case result of
         Inl failure \<Rightarrow> ret (outcome_failure RWriter failure)
       | Inr writer \<Rightarrow>
           (\<lambda>w. let e = ext w; n = ae_next e in
             (Ok (outcome_success RWriter (PayloadWriter \<lparr>aw_core = n\<rparr>)),
              w\<lparr>ext := e\<lparr>ae_next := n + 1, ae_writers := (ae_writers e)(n \<mapsto>
                \<lparr>awc_state = \<lparr>mx_state = AwOpen writer, mx_poisoned = False\<rparr>\<rparr>)\<rparr>\<rparr>)))"

definition bounded_chunk ::
  "'x async_api \<Rightarrow> AsyncReadStreamCursor \<Rightarrow> Buffer \<Rightarrow> u64 \<Rightarrow> u64 \<Rightarrow>
   AsyncReadStreamCursor \<times> BufferV1 CallResult" where
  "bounded_chunk api cursor buffer chunk_size max_output_len =
     (case split_read_stream_buffer (aa_split_to api) buffer chunk_size of
        Inl failure \<Rightarrow> (cursor, Inl failure)
      | Inr (chunk, pending) \<Rightarrow>
          (cursor\<lparr>acur_pending := pending\<rparr>,
           checked_read_buffer chunk (min max_output_len chunk_size) ''async read stream chunk''))"

definition next_future ::
  "'x async_api \<Rightarrow> nat \<Rightarrow> AsyncReadStreamCursor \<Rightarrow> u64 \<Rightarrow> ('x, AsyncWork) AM" where
  "next_future api i cursor max_output_len =
     bind (lookup_env ae_streams i) (\<lambda>core.
     bind (closure (case acur_pending cursor of
             Some buffer \<Rightarrow> ret (Some buffer)
           | None \<Rightarrow> in_backend (ext_call opendal_error (aa_try_next api (acur_stream cursor))))) (\<lambda>next.
       case next of
         Inr (Some buffer) \<Rightarrow>
           (case bounded_chunk api (cursor\<lparr>acur_pending := None\<rparr>) buffer (arsc_chunk_size core)
                   max_output_len of
              (cursor', Inr b) \<Rightarrow>
                ret (WNext i cursor' NextChunk (outcome_success RBuffer (PayloadBuffer b)))
            | (cursor', Inl failure) \<Rightarrow>
                ret (WNext i cursor' NextFailed (outcome_failure RBuffer failure)))
       | Inr None \<Rightarrow> ret (WNext i cursor NextEnd (outcome_end RBuffer))
       | Inl failure \<Rightarrow> ret (WNext i cursor NextFailed (outcome_failure RBuffer failure))))"

definition unit_future ::
  "nat \<Rightarrow> token \<Rightarrow> AsyncWriterCompletion \<Rightarrow> ('x, unit) xcall \<Rightarrow> ('x, AsyncWork) AM" where
  \<comment> \<open>the futures of \<open>write\<close> and \<open>abort\<close>\<close>
  "unit_future i writer completion call =
     bind (closure (in_backend (ext_call opendal_error call))) (\<lambda>result.
       case result of
         Inr _ \<Rightarrow> ret (WWriter i writer completion (outcome_success RUnit PayloadUnit))
       | Inl failure \<Rightarrow> ret (WWriter i writer CompFailed (outcome_failure RUnit failure)))"

definition finish_future :: "'x async_api \<Rightarrow> nat \<Rightarrow> token \<Rightarrow> ('x, AsyncWork) AM" where
  "finish_future api i writer =
     bind (closure (bind (in_backend (ext_call opendal_error (aa_close api writer))) (\<lambda>metadata.
       lift_res (checked_metadata metadata)))) (\<lambda>result.
       case result of
         Inr metadata \<Rightarrow>
           ret (WWriter i writer CompFinished (outcome_success RMetadata (PayloadMetadata metadata)))
       | Inl failure \<Rightarrow> ret (WWriter i writer CompFailed (outcome_failure RMetadata failure)))"

definition await_future :: "'x async_api \<Rightarrow> AsyncFuture \<Rightarrow> ('x, AsyncWork) AM" where
  "await_future api future =
     (case future of
        FReady outcome \<Rightarrow> ret (WReady outcome)
      | FWholeRead operator path plan \<Rightarrow>
          bind (run_async_whole_read api operator path plan) (\<lambda>outcome. ret (WReady outcome))
      | FOpenStream operator path parsed \<Rightarrow>
          bind (open_stream_future api operator path parsed) (\<lambda>outcome. ret (WReady outcome))
      | FNext i cursor limit \<Rightarrow> next_future api i cursor limit
      | FOpenWriter operator path options \<Rightarrow>
          bind (open_writer_future api operator path options) (\<lambda>outcome. ret (WReady outcome))
      | FWrite i writer data \<Rightarrow> unit_future i writer CompOpen (aa_write api writer data)
      | FFinish i writer \<Rightarrow> finish_future api i writer
      | FAbort i writer \<Rightarrow> unit_future i writer CompAborted (aa_abort api writer))"

definition finish_work :: "'x async_api \<Rightarrow> AsyncWork \<Rightarrow> ('x, AsyncOutcome) AM" where
  "finish_work api work =
     (case work of
        WReady outcome \<Rightarrow> ret outcome
      | WNext i cursor next outcome \<Rightarrow>
          bind (stream_core_complete api i cursor next) (\<lambda>_. ret outcome)
      | WWriter i writer next outcome \<Rightarrow>
          bind (writer_core_complete api i writer next) (\<lambda>_. ret outcome))"

definition drop_future :: "'x async_api \<Rightarrow> AsyncFuture \<Rightarrow> ('x, unit) AM" where
  "drop_future api future =
     (case future of
        FNext i cursor limit \<Rightarrow> drop_cursor_value api (Some cursor)
      | FWrite i writer data \<Rightarrow> drop_writer_value api (Some writer)
      | FFinish i writer \<Rightarrow> drop_writer_value api (Some writer)
      | FAbort i writer \<Rightarrow> drop_writer_value api (Some writer)
      | _ \<Rightarrow> ret ())"

section \<open>Operations\<close>

definition op_state :: "nat \<Rightarrow> AsyncResultKind \<Rightarrow> AsyncOp \<Rightarrow> ('x, unit) AM" where
  "op_state n kind st = env_do (\<lambda>e. e\<lparr>ae_ops := (ae_ops e)(n \<mapsto> (kind, st))\<rparr>)"

definition poll_op :: "'x async_api \<Rightarrow> nat \<Rightarrow> ('x, unit) AM" where
  \<comment> \<open>a destructor that panics while the stack unwinds ends the process\<close>
  "poll_op api n =
     bind (lookup_env ae_ops n) (\<lambda>(kind, st).
       case st of
         Spawned future \<Rightarrow>
           bind (catch_unwind (await_future api future)) (\<lambda>r.
             case r of
               Some (Inr work) \<Rightarrow> op_state n kind (Resumed work)
             | _ \<Rightarrow>
                 bind (catch_unwind (drop_future api future)) (\<lambda>d.
                   if d = None then undefined_behaviour else op_state n kind (Joined JoinUnwound)))
       | _ \<Rightarrow> ret ())"

definition resume_op :: "'x async_api \<Rightarrow> nat \<Rightarrow> ('x, unit) AM" where
  "resume_op api n =
     bind (lookup_env ae_ops n) (\<lambda>(kind, st).
       case st of
         Resumed work \<Rightarrow>
           bind (catch_unwind (finish_work api work)) (\<lambda>r.
             case r of
               Some (Inr outcome) \<Rightarrow> op_state n kind (Joined (JoinOutcome outcome))
             | _ \<Rightarrow> op_state n kind (Joined JoinUnwound))
       | _ \<Rightarrow> ret ())"

definition cancel_op :: "'x async_api \<Rightarrow> nat \<Rightarrow> ('x, unit) AM" where
  "cancel_op api n =
     bind (lookup_env ae_ops n) (\<lambda>(kind, st) w.
       case st of
         Spawned future \<Rightarrow>
           if n \<in> set (ae_aborts (ext w)) then
             bind (catch_unwind (drop_future api future)) (\<lambda>d.
               op_state n kind (Joined (if d = None then JoinFailed else JoinCancelled))) w
           else ret () w
       | _ \<Rightarrow> ret () w)"

definition supervise :: "'x async_api \<Rightarrow> nat \<Rightarrow> ('x, unit) AM" where
  "supervise api n =
     bind (lookup_env ae_ops n) (\<lambda>(kind, st).
       case st of
         Joined r \<Rightarrow>
           bind (lookup_env ae_tasks n) (\<lambda>shared.
           bind (env_do (\<lambda>e. e\<lparr>ae_ops := (ae_ops e)(n := None)\<rparr>)) (\<lambda>_.
           bind (case r of
                   JoinOutcome outcome \<Rightarrow> ret outcome
                 | JoinCancelled \<Rightarrow>
                     ret (outcome_failure kind (resource_closed ''async operation was cancelled''))
                 | _ \<Rightarrow>
                     bind (case ats_resource shared of
                             Some resource \<Rightarrow> poison_fail api resource
                           | None \<Rightarrow> ret ()) (\<lambda>_.
                       ret (outcome_panic kind))) (\<lambda>outcome.
             publish api n outcome)))
       | _ \<Rightarrow> ret ())"

section \<open>Entry points\<close>

definition async_operator_read_start_body ::
  "'x async_api \<Rightarrow> addr \<Rightarrow> addr \<Rightarrow> addr \<Rightarrow> u64 \<Rightarrow> int \<Rightarrow> ('x, AsyncTaskV1) AM" where
  "async_operator_read_start_body api operator path options max_output_len completion_fd =
     bind (borrow_required as_operator operator) (\<lambda>operator.
     bind (with_inputs (\<lambda>m. read_text m path ''path'')) (\<lambda>path.
     bind (with_inputs (\<lambda>m. parse_read_options m options)) (\<lambda>options.
     bind (lift_res (whole_read_plan options max_output_len)) (\<lambda>plan.
     bind (lift_res (ensure_suffix_is_native (plan_range plan) (op_read_with_suffix operator))) (\<lambda>_.
     bind (launch_prepare api completion_fd) (\<lambda>signal.
     bind (spawn signal RBuffer None (FWholeRead (op_async_inner operator) path plan)) (\<lambda>r.
       ret (fst r))))))))"

definition begin_task ::
  "('x, AsyncTaskV1) AM \<Rightarrow> addr \<Rightarrow> addr \<Rightarrow> 'x async_env world \<Rightarrow> exit \<times> 'x async_env world" where
  \<comment> \<open>the frame all start functions share\<close>
  "begin_task body out_task out_error =
     catch_status (with_outputs [clear_ptr_output out_task, clear_error_output out_error] out_error
       (deliver body (\<lambda>a. write_handle out_task (OTask a)) out_error))"

definition async_operator_read_start ::
  "'x async_api \<Rightarrow> addr \<Rightarrow> addr \<Rightarrow> addr \<Rightarrow> u64 \<Rightarrow> int \<Rightarrow> addr \<Rightarrow> addr \<Rightarrow>
   'x async_env world \<Rightarrow> exit \<times> 'x async_env world" where
  "async_operator_read_start api operator path options max_output_len completion_fd out_task out_error =
     begin_task (async_operator_read_start_body api operator path options max_output_len completion_fd)
       out_task out_error"

definition async_operator_read_stream_start_body ::
  "'x async_api \<Rightarrow> addr \<Rightarrow> addr \<Rightarrow> addr \<Rightarrow> int \<Rightarrow> ('x, AsyncTaskV1) AM" where
  "async_operator_read_stream_start_body api operator path options completion_fd =
     bind (borrow_required as_operator operator) (\<lambda>operator.
     bind (with_inputs (\<lambda>m. read_text m path ''path'')) (\<lambda>path.
     bind (with_inputs (\<lambda>m. parse_read_stream_options m options)) (\<lambda>parsed.
     bind (lift_res (ensure_suffix_is_native (prs_range parsed) (op_read_with_suffix operator))) (\<lambda>_.
     bind (launch_prepare api completion_fd) (\<lambda>signal.
     bind (spawn signal RReadStream None (FOpenStream (op_async_inner operator) path parsed)) (\<lambda>r.
       ret (fst r)))))))"

definition async_operator_read_stream_start ::
  "'x async_api \<Rightarrow> addr \<Rightarrow> addr \<Rightarrow> addr \<Rightarrow> int \<Rightarrow> addr \<Rightarrow> addr \<Rightarrow>
   'x async_env world \<Rightarrow> exit \<times> 'x async_env world" where
  "async_operator_read_stream_start api operator path options completion_fd out_task out_error =
     begin_task (async_operator_read_stream_start_body api operator path options completion_fd)
       out_task out_error"

definition async_read_stream_next_start_body ::
  "'x async_api \<Rightarrow> addr \<Rightarrow> u64 \<Rightarrow> int \<Rightarrow> ('x, AsyncTaskV1) AM" where
  "async_read_stream_next_start_body api stream max_output_len completion_fd =
     bind (borrow_required as_async_read_stream stream) (\<lambda>stream.
     let core = ars_core stream in
     bind (launch_prepare api completion_fd) (\<lambda>signal.
     bind (with_launch api signal (bind (stream_section core take_for_next) lift_res)) (\<lambda>start.
     let resource = Some (PoisonReadStream core) in
       case start of
         StartEnd \<Rightarrow>
           bind (spawn signal RBuffer resource (FReady (outcome_end RBuffer))) (\<lambda>r. ret (fst r))
       | StartCursor cursor \<Rightarrow>
           bind (spawn signal RBuffer resource (FNext core cursor max_output_len)) (\<lambda>(task, abort).
           bind (stream_section core (stream_install_abort abort)) (\<lambda>now.
           bind (abort_if now) (\<lambda>_.
             ret task))))))"

definition async_read_stream_next_start ::
  "'x async_api \<Rightarrow> addr \<Rightarrow> u64 \<Rightarrow> int \<Rightarrow> addr \<Rightarrow> addr \<Rightarrow>
   'x async_env world \<Rightarrow> exit \<times> 'x async_env world" where
  "async_read_stream_next_start api stream max_output_len completion_fd out_task out_error =
     begin_task (async_read_stream_next_start_body api stream max_output_len completion_fd)
       out_task out_error"

definition async_read_stream_close :: "'x async_api \<Rightarrow> addr \<Rightarrow> ('x, unit) AM" where
  "async_read_stream_close api stream =
     contain (on_handle as_async_read_stream stream (\<lambda>h. stream_core_close api (ars_core h)))"

definition leave_box :: "('x, unit) AM \<Rightarrow> ('x, unit) AM \<Rightarrow> ('x, unit) AM" where
  \<comment> \<open>the \<open>Box\<close> taken by \<open>from_raw\<close> goes out of scope also when the call on it unwinds\<close>
  "leave_box call free =
     bind (catch_unwind call) (\<lambda>r. bind free (\<lambda>_. if r = None then panic else ret ()))"

definition async_read_stream_free :: "'x async_api \<Rightarrow> addr \<Rightarrow> ('x, unit) AM" where
  "async_read_stream_free api stream =
     contain (on_handle as_async_read_stream stream (\<lambda>h.
       leave_box (stream_core_close api (ars_core h)) (free_box as_async_read_stream stream)))"

definition async_operator_writer_start_body ::
  "'x async_api \<Rightarrow> addr \<Rightarrow> addr \<Rightarrow> addr \<Rightarrow> int \<Rightarrow> ('x, AsyncTaskV1) AM" where
  "async_operator_writer_start_body api operator path options completion_fd =
     bind (borrow_required as_operator operator) (\<lambda>operator.
     bind (with_inputs (\<lambda>m. read_text m path ''path'')) (\<lambda>path.
     bind (with_inputs (\<lambda>m. parse_write_options m options)) (\<lambda>options.
     bind (launch_prepare api completion_fd) (\<lambda>signal.
     bind (spawn signal RWriter None (FOpenWriter (op_async_inner operator) path options)) (\<lambda>r.
       ret (fst r))))))"

definition async_operator_writer_start ::
  "'x async_api \<Rightarrow> addr \<Rightarrow> addr \<Rightarrow> addr \<Rightarrow> int \<Rightarrow> addr \<Rightarrow> addr \<Rightarrow>
   'x async_env world \<Rightarrow> exit \<times> 'x async_env world" where
  "async_operator_writer_start api operator path options completion_fd out_task out_error =
     begin_task (async_operator_writer_start_body api operator path options completion_fd)
       out_task out_error"

definition own_writer :: "'x async_api \<Rightarrow> token \<Rightarrow> nat \<Rightarrow> ('x, token) AM" where
  \<comment> \<open>\<open>core.take_for_call(false)?.expect(..)\<close>\<close>
  "own_writer api signal core =
     bind (with_launch api signal (bind (writer_section core (take_for_call False)) lift_res)) (\<lambda>r.
       case r of Some writer \<Rightarrow> ret writer | None \<Rightarrow> panic)"

definition spawn_writer_op ::
  "token \<Rightarrow> AsyncResultKind \<Rightarrow> nat \<Rightarrow> AsyncFuture \<Rightarrow> ('x, AsyncTaskV1) AM" where
  "spawn_writer_op signal kind core future =
     bind (spawn signal kind (Some (PoisonWriter core)) future) (\<lambda>(task, abort).
     bind (writer_section core (writer_install_abort abort)) (\<lambda>now.
     bind (abort_if now) (\<lambda>_.
       ret task)))"

definition async_writer_write_start_body ::
  "'x async_api \<Rightarrow> addr \<Rightarrow> addr \<Rightarrow> int \<Rightarrow> ('x, AsyncTaskV1) AM" where
  "async_writer_write_start_body api writer data completion_fd =
     bind (borrow_required as_async_writer writer) (\<lambda>writer.
     bind (with_inputs (\<lambda>m. read_binary m data)) (\<lambda>data.
     bind (launch_prepare api completion_fd) (\<lambda>signal.
     bind (own_writer api signal (aw_core writer)) (\<lambda>native_writer.
       spawn_writer_op signal RUnit (aw_core writer) (FWrite (aw_core writer) native_writer data)))))"

definition async_writer_write_start ::
  "'x async_api \<Rightarrow> addr \<Rightarrow> addr \<Rightarrow> int \<Rightarrow> addr \<Rightarrow> addr \<Rightarrow>
   'x async_env world \<Rightarrow> exit \<times> 'x async_env world" where
  "async_writer_write_start api writer data completion_fd out_task out_error =
     begin_task (async_writer_write_start_body api writer data completion_fd) out_task out_error"

definition async_writer_finish_start_body ::
  "'x async_api \<Rightarrow> addr \<Rightarrow> int \<Rightarrow> ('x, AsyncTaskV1) AM" where
  "async_writer_finish_start_body api writer completion_fd =
     bind (borrow_required as_async_writer writer) (\<lambda>writer.
     bind (launch_prepare api completion_fd) (\<lambda>signal.
     bind (own_writer api signal (aw_core writer)) (\<lambda>native_writer.
       spawn_writer_op signal RMetadata (aw_core writer) (FFinish (aw_core writer) native_writer))))"

definition async_writer_finish_start ::
  "'x async_api \<Rightarrow> addr \<Rightarrow> int \<Rightarrow> addr \<Rightarrow> addr \<Rightarrow>
   'x async_env world \<Rightarrow> exit \<times> 'x async_env world" where
  "async_writer_finish_start api writer completion_fd out_task out_error =
     begin_task (async_writer_finish_start_body api writer completion_fd) out_task out_error"

definition async_writer_abort_start_body ::
  "'x async_api \<Rightarrow> addr \<Rightarrow> int \<Rightarrow> ('x, AsyncTaskV1) AM" where
  "async_writer_abort_start_body api writer completion_fd =
     bind (borrow_required as_async_writer writer) (\<lambda>writer.
     bind (launch_prepare api completion_fd) (\<lambda>signal.
     bind (with_launch api signal
             (bind (writer_section (aw_core writer) (take_for_call True)) lift_res)) (\<lambda>taken.
       case taken of
         None \<Rightarrow>
           bind (spawn signal RUnit (Some (PoisonWriter (aw_core writer)))
                   (FReady (outcome_success RUnit PayloadUnit))) (\<lambda>r. ret (fst r))
       | Some native_writer \<Rightarrow>
           spawn_writer_op signal RUnit (aw_core writer) (FAbort (aw_core writer) native_writer))))"

definition async_writer_abort_start ::
  "'x async_api \<Rightarrow> addr \<Rightarrow> int \<Rightarrow> addr \<Rightarrow> addr \<Rightarrow>
   'x async_env world \<Rightarrow> exit \<times> 'x async_env world" where
  "async_writer_abort_start api writer completion_fd out_task out_error =
     begin_task (async_writer_abort_start_body api writer completion_fd) out_task out_error"

definition async_writer_free :: "'x async_api \<Rightarrow> addr \<Rightarrow> ('x, unit) AM" where
  "async_writer_free api writer =
     contain (on_handle as_async_writer writer (\<lambda>h.
       leave_box (writer_core_fail api (aw_core h)) (free_box as_async_writer writer)))"

definition async_task_cancel :: "'x async_api \<Rightarrow> addr \<Rightarrow> ('x, unit) AM" where
  "async_task_cancel api task = contain (on_handle as_task task (\<lambda>h. cancel api (at_shared h)))"

definition async_task_free :: "'x async_api \<Rightarrow> addr \<Rightarrow> ('x, unit) AM" where
  "async_task_free api task =
     contain (on_handle as_task task (\<lambda>h.
       leave_box (cancel api (at_shared h)) (free_box as_task task)))"

definition report_outcome_error :: "ErrorV1 option \<Rightarrow> addr \<Rightarrow> ('x, u32) AM" where
  "report_outcome_error error out_error =
     (case error of
        Some e \<Rightarrow>
          if out_error \<noteq> null_ptr
          then bind (write_handle out_error (OError e)) (\<lambda>_. ret STATUS_ERROR)
          else ret STATUS_ERROR
      | None \<Rightarrow> ret STATUS_ERROR)"

definition finish_async_payload_take ::
  "'x async_api \<Rightarrow> addr \<Rightarrow> AsyncResultKind \<Rightarrow> addr \<Rightarrow> addr \<Rightarrow> (AsyncPayload \<Rightarrow> obj option) \<Rightarrow>
   ('x, u32) AM" where
  "finish_async_payload_take api task expected out_value out_error take_payload =
     with_outputs [clear_ptr_output out_value, clear_error_output out_error] out_error
       (with_handle as_task task out_error (\<lambda>task.
        finish_or (take_task (at_shared task) expected) out_error (\<lambda>outcome.
          let status = ao_status outcome in
          if status = STATUS_OK then
            (case take_payload (ao_payload outcome) of
               Some value \<Rightarrow> bind (write_handle out_value value) (\<lambda>_. ret STATUS_OK)
             | None \<Rightarrow>
                 bind (drop_payload api (ao_payload outcome)) (\<lambda>_. ret STATUS_ABI_MISMATCH))
          else if status = STATUS_END \<and> expected = RBuffer then
            (if ao_payload outcome = PayloadNone \<and> ao_error outcome = None then ret STATUS_END
             else bind (drop_payload api (ao_payload outcome)) (\<lambda>_. ret STATUS_ABI_MISMATCH))
          else bind
            (if status = STATUS_ERROR then report_outcome_error (ao_error outcome) out_error
             else if status = STATUS_ABI_MISMATCH \<or> status = STATUS_PANIC then ret status
             else ret STATUS_ABI_MISMATCH) (\<lambda>s.
            bind (drop_payload api (ao_payload outcome)) (\<lambda>_. ret s)))))"

definition async_task_take_buffer ::
  "'x async_api \<Rightarrow> addr \<Rightarrow> addr \<Rightarrow> addr \<Rightarrow> 'x async_env world \<Rightarrow> exit \<times> 'x async_env world" where
  "async_task_take_buffer api task out_buffer out_error =
     catch_status (finish_async_payload_take api task RBuffer out_buffer out_error
       (\<lambda>payload. case payload of PayloadBuffer value \<Rightarrow> Some (OBuffer value) | _ \<Rightarrow> None))"

definition async_task_take_metadata ::
  "'x async_api \<Rightarrow> addr \<Rightarrow> addr \<Rightarrow> addr \<Rightarrow> 'x async_env world \<Rightarrow> exit \<times> 'x async_env world" where
  "async_task_take_metadata api task out_metadata out_error =
     catch_status (finish_async_payload_take api task RMetadata out_metadata out_error
       (\<lambda>payload. case payload of PayloadMetadata value \<Rightarrow> Some (OMetadata value) | _ \<Rightarrow> None))"

definition async_task_take_read_stream ::
  "'x async_api \<Rightarrow> addr \<Rightarrow> addr \<Rightarrow> addr \<Rightarrow> 'x async_env world \<Rightarrow> exit \<times> 'x async_env world" where
  "async_task_take_read_stream api task out_stream out_error =
     catch_status (finish_async_payload_take api task RReadStream out_stream out_error
       (\<lambda>payload. case payload of PayloadReadStream value \<Rightarrow> Some (OAsyncReadStream value) | _ \<Rightarrow> None))"

definition async_task_take_writer ::
  "'x async_api \<Rightarrow> addr \<Rightarrow> addr \<Rightarrow> addr \<Rightarrow> 'x async_env world \<Rightarrow> exit \<times> 'x async_env world" where
  "async_task_take_writer api task out_writer out_error =
     catch_status (finish_async_payload_take api task RWriter out_writer out_error
       (\<lambda>payload. case payload of PayloadWriter value \<Rightarrow> Some (OAsyncWriter value) | _ \<Rightarrow> None))"

definition async_task_take_unit ::
  "'x async_api \<Rightarrow> addr \<Rightarrow> addr \<Rightarrow> 'x async_env world \<Rightarrow> exit \<times> 'x async_env world" where
  "async_task_take_unit api task out_error =
     catch_status (with_outputs [clear_error_output out_error] out_error
       (with_handle as_task task out_error (\<lambda>task.
        finish_or (take_task (at_shared task) RUnit) out_error (\<lambda>outcome.
          let status = ao_status outcome in
          bind
            (if status = STATUS_OK \<and> ao_payload outcome = PayloadUnit then ret STATUS_OK
             else if status = STATUS_ERROR then report_outcome_error (ao_error outcome) out_error
             else if status = STATUS_ABI_MISMATCH \<or> status = STATUS_PANIC then ret status
             else ret STATUS_ABI_MISMATCH) (\<lambda>s.
            bind (drop_payload api (ao_payload outcome)) (\<lambda>_. ret s))))))"

end
