(* ===== verification/Interruptible.thy ===== *)
theory Interruptible
  imports AsyncCalls
begin

text \<open>
  Handles whose turn can be interrupted. The cores of asynchronous streams and writers share the turn
  protocol of \<open>Turns\<close>, but a close, a free or a cancellation may end the handle while an operation
  still holds the native object; the operation then finds the handle ended and drops the object. The
  steps are the sections of \<open>AsyncReadStreamCore\<close> and \<open>AsyncWriterCore\<close> run on the shared environment.
\<close>

locale interruptible_handle = ending_handle +
  assumes put_ended: "valid s \<Longrightarrow> ended s \<Longrightarrow> ended (put_back r t s)"
begin

lemma ended_keeps:
  assumes "(turn_step take_turn refuse put_back)\<^sup>*\<^sup>* c c'" and "lent c" and "ended (tn_state c)"
  shows "lent c' \<and> ended (tn_state c') \<and> (\<forall>i. tn_holder c' i \<noteq> None \<longrightarrow> tn_holder c' i = tn_holder c i)"
  using assms(1)
proof (induction rule: rtranclp_induct)
  case base
  then show ?case using assms by simp
next
  case (step c1 c2)
  then have l: "lent c2" using lent_step by blast
  have v: "valid (tn_state c1)" "\<not> opened (tn_state c1)"
    using step.IH ended_not_opened by (auto simp: lent_def)
  from step(2) show ?case
  proof (cases rule: turn_step.cases)
    case (takes i call t s)
    then show ?thesis using v take_opened by blast
  next
    case (refused call)
    then show ?thesis using step.IH l v refuse_ended by auto
  next
    case (puts i t r)
    then show ?thesis using step.IH l v put_ended by auto
  qed
qed

end

section \<open>Read stream cores\<close>

text \<open>
  An operation enters by \<open>take_for_next\<close> and ends its turn by completing, or, when it unwinds, by the
  failure its supervisor declares. At any time the stream may be closed or freed, a task cancelled or
  a supervisor may fail it, an abort handle may be installed, and anything may happen that leaves
  this core alone.
\<close>

definition stream_now :: "nat \<Rightarrow> 'x async_env world \<Rightarrow> AsyncReadStreamState option" where
  "stream_now i w = map_option (\<lambda>core. mx_state (arsc_state core)) (ae_streams (ext w) i)"

datatype 'x stream_event =
    SNextStart | SClose | SFail | SInstall token | SElsewhere "'x async_env world \<Rightarrow> 'x async_env world"

datatype stream_result = SrCompleted AsyncReadStreamCursor AsyncReadStreamNext | SrUnwound

definition stream_take ::
  "nat \<Rightarrow> 'x stream_event \<Rightarrow> 'x async_env world \<Rightarrow> (AsyncReadStreamCursor \<times> 'x async_env world) option" where
  "stream_take i event w =
     (case event of
        SNextStart \<Rightarrow>
          (case stream_section i take_for_next w of
             (Ok (Inr (StartCursor cursor)), w') \<Rightarrow> Some (cursor, w') | _ \<Rightarrow> None)
      | _ \<Rightarrow> None)"

definition stream_pass ::
  "'x async_api \<Rightarrow> nat \<Rightarrow> 'x stream_event \<Rightarrow> 'x async_env world \<Rightarrow> 'x async_env world" where
  "stream_pass api i event w =
     (case event of
        SNextStart \<Rightarrow> snd (stream_section i take_for_next w)
      | SClose \<Rightarrow> snd (stream_core_close api i w)
      | SFail \<Rightarrow> snd (stream_core_fail api i w)
      | SInstall abort \<Rightarrow> snd (bind (stream_section i (stream_install_abort abort)) abort_if w)
      | SElsewhere f \<Rightarrow> untouched (\<lambda>w. ae_streams (ext w) i) f w)"

definition stream_return ::
  "'x async_api \<Rightarrow> nat \<Rightarrow> stream_result \<Rightarrow> AsyncReadStreamCursor \<Rightarrow> 'x async_env world \<Rightarrow> 'x async_env world" where
  "stream_return api i r cursor w =
     (case r of
        SrCompleted cursor' next \<Rightarrow> snd (stream_core_complete api i cursor' next w)
      | SrUnwound \<Rightarrow> snd (stream_core_fail api i w))"

abbreviation stream_turn ::
  "'x async_api \<Rightarrow> nat \<Rightarrow> ('i, 'x async_env world, AsyncReadStreamCursor) turns \<Rightarrow>
   ('i, 'x async_env world, AsyncReadStreamCursor) turns \<Rightarrow> bool" where
  "stream_turn api i \<equiv> turn_step (stream_take i) (stream_pass api i) (stream_return api i)"

definition stream_ended :: "AsyncReadStreamState \<Rightarrow> bool" where
  "stream_ended s \<longleftrightarrow> s \<in> {ArsEnd, ArsFailed, ArsClosed}"

lemma stream_now_backend [simp]: "stream_now i (snd (in_backend m w)) = stream_now i w"
  by (simp add: in_backend_def stream_now_def front_world_def split: prod.split)

lemma stream_now_drop [simp]: "stream_now i (snd (drop_cursor_value api cursor w)) = stream_now i w"
  by (simp add: drop_cursor_value_def ret_def split: option.split)

lemma stream_now_abort [simp]: "stream_now i (snd (abort_if a w)) = stream_now i w"
  by (simp add: abort_if_def abort_op_def env_do_def ret_def stream_now_def split: option.split)

lemma stream_now_put [simp]:
  "stream_now i (snd (put_stream i core s b w)) = Some s" "fst (put_stream i core s b w) = Ok ()"
  by (simp_all add: put_stream_def env_do_def stream_now_def)

lemma stream_now_section:
  assumes "stream_now i w = Some s"
  shows "stream_now i (snd (stream_section i f w)) = Some (snd (f s))"
    and "fst (stream_section i f w) = Ok (fst (f s))"
  using assms
  by (auto simp: stream_now_def stream_section_def lookup_env_def bind_def put_stream_def env_do_def
      ret_def split: prod.split)

lemma stream_now_end:
  assumes "stream_now i w = Some s"
  shows "stream_now i (snd (end_stream api i s' w)) = Some s'"
proof -
  obtain core where c: "ae_streams (ext w) i = Some core" using assms by (auto simp: stream_now_def)
  let ?w1 = "snd (put_stream i core s' True w)"
    and ?drop = "drop_cursor_value api (stream_cursor (mx_state (arsc_state core)))"
  obtain r w2 where d: "?drop ?w1 = (r, w2)" by force
  have "stream_now i w2 = Some s'" using stream_now_drop [of i api _ ?w1] d by (metis snd_conv stream_now_put(1))
  moreover have "end_stream api i s' w = bind (\<lambda>_. (r, w2)) (\<lambda>_. bind (put_stream i core s' False)
      (\<lambda>_. abort_if (stream_busy_abort (mx_state (arsc_state core))))) w"
    using c d by (simp add: end_stream_def bind_def lookup_env_def put_stream_def env_do_def)
  ultimately show ?thesis by (cases r) (simp_all add: bind_def split_beta)
qed

lemma stream_now_complete:
  assumes "stream_now i w = Some s"
  shows "stream_now i (snd (stream_core_complete api i cursor next w)) = Some (snd (complete_next cursor next s))"
  using stream_now_section [OF assms, of "complete_next cursor next"]
  by (simp add: stream_core_complete_def bind_def split_beta)

lemma stream_taken:
  assumes "stream_now i w = Some s" and "stream_take i event w = Some (cursor, w')"
  shows "s = ArsOpen cursor \<and> stream_now i w' = Some (ArsBusy None)"
  using assms(2) stream_now_section [OF assms(1), of take_for_next]
  by (cases s) (auto simp: stream_take_def take_for_next_def
      split: stream_event.splits prod.splits outcome.splits sum.splits AsyncReadStreamStart.splits)

lemma stream_passed:
  assumes "stream_now i w = Some s" and "stream_take i event w = None"
  shows "\<exists>s'. stream_now i (stream_pass api i event w) = Some s' \<and>
    (s' = s \<or> stream_ended s' \<or> s = ArsBusy None \<and> (\<exists>abort. s' = ArsBusy (Some abort)))"
proof (cases event)
  case SNextStart
  then show ?thesis
    using assms(2) stream_now_section [OF assms(1), of take_for_next]
    by (cases s) (auto simp: stream_take_def stream_pass_def take_for_next_def stream_ended_def
        split: prod.splits)
next
  case (SInstall abort)
  then show ?thesis
    using stream_now_section [OF assms(1), of "stream_install_abort abort"]
    by (cases s rule: AsyncReadStreamState.exhaust)
      (auto simp: stream_pass_def bind_def split_beta stream_install_abort_def stream_ended_def
        split: option.splits)
next
  case (SElsewhere f)
  then show ?thesis
    using assms(1) part_untouched [of "\<lambda>w. ae_streams (ext w) i" f w]
    by (auto simp: stream_pass_def stream_now_def)
qed (use stream_now_end [OF assms(1), of api] in
    \<open>simp_all add: stream_pass_def stream_core_close_def stream_core_fail_def stream_ended_def\<close>)

lemma stream_returned:
  assumes "stream_now i w = Some s"
  shows "\<exists>s'. stream_now i (stream_return api i r cursor w) = Some s' \<and> (\<nexists>abort. s' = ArsBusy abort) \<and>
    (stream_ended s \<longrightarrow> stream_ended s')"
proof (cases r)
  case (SrCompleted cursor' completion)
  then show ?thesis
    using stream_now_complete [OF assms, of api cursor' completion]
    by (cases s) (auto simp: stream_return_def complete_next_def stream_ended_def
        split: AsyncReadStreamNext.splits)
next
  case SrUnwound
  then show ?thesis
    using stream_now_end [OF assms, of api ArsFailed]
    by (simp add: stream_return_def stream_core_fail_def stream_ended_def)
qed

interpretation stream_core: interruptible_handle "stream_take i" "stream_pass api i" "stream_return api i"
  "\<lambda>w. stream_now i w \<noteq> None" "\<lambda>w. \<exists>cursor. stream_now i w = Some (ArsOpen cursor)"
  "\<lambda>w. \<exists>abort. stream_now i w = Some (ArsBusy abort)" "\<lambda>w. \<exists>s. stream_now i w = Some s \<and> stream_ended s"
  for api :: "'x async_api" and i
proof unfold_locales
  fix w :: "'x async_env world" and event cursor w'
  assume "stream_now i w \<noteq> None" and t: "stream_take i event w = Some (cursor, w')"
  then obtain s where s: "stream_now i w = Some s" by blast
  show "(\<exists>cursor. stream_now i w = Some (ArsOpen cursor)) \<and>
      (\<exists>abort. stream_now i w' = Some (ArsBusy abort)) \<and> stream_now i w' \<noteq> None"
    using stream_taken [OF s t] s by auto
next
  fix w :: "'x async_env world" and event
  assume "stream_now i w \<noteq> None" and t: "stream_take i event w = None"
  then obtain s where s: "stream_now i w = Some s" by blast
  note passed = stream_passed [OF s t, of api]
  show "stream_now i (stream_pass api i event w) \<noteq> None" using passed by auto
  show "\<exists>cursor. stream_now i w = Some (ArsOpen cursor)"
    if "\<exists>cursor. stream_now i (stream_pass api i event w) = Some (ArsOpen cursor)"
    using that passed s by (auto simp: stream_ended_def)
  show "\<exists>abort. stream_now i w = Some (ArsBusy abort)"
    if "\<exists>abort. stream_now i (stream_pass api i event w) = Some (ArsBusy abort)"
    using that passed s by (auto simp: stream_ended_def)
  show "\<exists>s. stream_now i (stream_pass api i event w) = Some s \<and> stream_ended s"
    if "\<exists>s. stream_now i w = Some s \<and> stream_ended s"
    using that passed s by (auto simp: stream_ended_def)
next
  fix w :: "'x async_env world" and r cursor
  assume "stream_now i w \<noteq> None"
  then obtain s where s: "stream_now i w = Some s" by blast
  note returned = stream_returned [OF s, of api r cursor]
  show "stream_now i (stream_return api i r cursor w) \<noteq> None"
    "\<not> (\<exists>abort. stream_now i (stream_return api i r cursor w) = Some (ArsBusy abort))"
    using returned by auto
  show "\<exists>s. stream_now i (stream_return api i r cursor w) = Some s \<and> stream_ended s"
    if "\<exists>s. stream_now i w = Some s \<and> stream_ended s"
    using that returned s by auto
qed (auto simp: stream_ended_def)

section \<open>Writer cores\<close>

definition awriter_now :: "nat \<Rightarrow> 'x async_env world \<Rightarrow> AsyncWriterState option" where
  "awriter_now i w = map_option (\<lambda>core. mx_state (awc_state core)) (ae_writers (ext w) i)"

datatype 'x awriter_event =
    AEnter bool | AFail | AInstall token | AElsewhere "'x async_env world \<Rightarrow> 'x async_env world"

datatype awriter_result = ArCompleted AsyncWriterCompletion | ArUnwound

definition awriter_take ::
  "nat \<Rightarrow> 'x awriter_event \<Rightarrow> 'x async_env world \<Rightarrow> (token \<times> 'x async_env world) option" where
  "awriter_take i event w =
     (case event of
        AEnter repeated_abort_is_ok \<Rightarrow>
          (case writer_section i (take_for_call repeated_abort_is_ok) w of
             (Ok (Inr (Some writer)), w') \<Rightarrow> Some (writer, w') | _ \<Rightarrow> None)
      | _ \<Rightarrow> None)"

definition awriter_pass ::
  "'x async_api \<Rightarrow> nat \<Rightarrow> 'x awriter_event \<Rightarrow> 'x async_env world \<Rightarrow> 'x async_env world" where
  "awriter_pass api i event w =
     (case event of
        AEnter repeated_abort_is_ok \<Rightarrow> snd (writer_section i (take_for_call repeated_abort_is_ok) w)
      | AFail \<Rightarrow> snd (writer_core_fail api i w)
      | AInstall abort \<Rightarrow> snd (bind (writer_section i (writer_install_abort abort)) abort_if w)
      | AElsewhere f \<Rightarrow> untouched (\<lambda>w. ae_writers (ext w) i) f w)"

definition awriter_return ::
  "'x async_api \<Rightarrow> nat \<Rightarrow> awriter_result \<Rightarrow> token \<Rightarrow> 'x async_env world \<Rightarrow> 'x async_env world" where
  "awriter_return api i r writer w =
     (case r of
        ArCompleted completion \<Rightarrow> snd (writer_core_complete api i writer completion w)
      | ArUnwound \<Rightarrow> snd (writer_core_fail api i w))"

abbreviation awriter_turn ::
  "'x async_api \<Rightarrow> nat \<Rightarrow> ('i, 'x async_env world, token) turns \<Rightarrow>
   ('i, 'x async_env world, token) turns \<Rightarrow> bool" where
  "awriter_turn api i \<equiv> turn_step (awriter_take i) (awriter_pass api i) (awriter_return api i)"

definition awriter_ended :: "AsyncWriterState \<Rightarrow> bool" where
  "awriter_ended s \<longleftrightarrow> s \<in> {AwFinished, AwAborted, AwFailed}"

lemma awriter_now_backend [simp]: "awriter_now i (snd (in_backend m w)) = awriter_now i w"
  by (simp add: in_backend_def awriter_now_def front_world_def split: prod.split)

lemma awriter_now_drop [simp]: "awriter_now i (snd (drop_writer_value api writer w)) = awriter_now i w"
  by (simp add: drop_writer_value_def ret_def split: option.split)

lemma awriter_now_abort [simp]: "awriter_now i (snd (abort_if a w)) = awriter_now i w"
  by (simp add: abort_if_def abort_op_def env_do_def ret_def awriter_now_def split: option.split)

lemma awriter_now_put [simp]:
  "awriter_now i (snd (put_writer i s b w)) = Some s" "fst (put_writer i s b w) = Ok ()"
  by (simp_all add: put_writer_def env_do_def awriter_now_def)

lemma awriter_now_section:
  assumes "awriter_now i w = Some s"
  shows "awriter_now i (snd (writer_section i f w)) = Some (snd (f s))"
    and "fst (writer_section i f w) = Ok (fst (f s))"
  using assms
  by (auto simp: awriter_now_def writer_section_def lookup_env_def bind_def put_writer_def env_do_def
      ret_def split: prod.split)

lemma awriter_now_fail:
  assumes "awriter_now i w = Some s"
  shows "awriter_now i (snd (writer_core_fail api i w)) = Some AwFailed"
proof -
  obtain core where c: "ae_writers (ext w) i = Some core" using assms by (auto simp: awriter_now_def)
  let ?w1 = "snd (put_writer i AwFailed True w)"
    and ?drop = "drop_writer_value api (writer_native (mx_state (awc_state core)))"
  obtain r w2 where d: "?drop ?w1 = (r, w2)" by force
  have "awriter_now i w2 = Some AwFailed"
    using awriter_now_drop [of i api _ ?w1] d by (metis snd_conv awriter_now_put(1))
  moreover have "writer_core_fail api i w = bind (\<lambda>_. (r, w2)) (\<lambda>_. bind (put_writer i AwFailed False)
      (\<lambda>_. abort_if (writer_busy_abort (mx_state (awc_state core))))) w"
    using c d by (simp add: writer_core_fail_def bind_def lookup_env_def put_writer_def env_do_def)
  ultimately show ?thesis by (cases r) (simp_all add: bind_def split_beta)
qed

lemma awriter_now_complete:
  assumes "awriter_now i w = Some s"
  shows "awriter_now i (snd (writer_core_complete api i writer completion w)) =
    Some (snd (complete_writer writer completion s))"
  using awriter_now_section [OF assms, of "complete_writer writer completion"]
  by (simp add: writer_core_complete_def bind_def split_beta)

lemma awriter_taken:
  assumes "awriter_now i w = Some s" and "awriter_take i event w = Some (writer, w')"
  shows "s = AwOpen writer \<and> awriter_now i w' = Some (AwBusy None)"
proof -
  obtain rep where e: "event = AEnter rep"
    using assms(2) by (auto simp: awriter_take_def split: awriter_event.splits)
  show ?thesis
    using assms(2) e awriter_now_section [OF assms(1), of "take_for_call rep"]
    by (cases s) (auto simp: awriter_take_def take_for_call_def
        split: prod.splits outcome.splits sum.splits option.splits if_splits)
qed

lemma awriter_passed:
  assumes "awriter_now i w = Some s" and "awriter_take i event w = None"
  shows "\<exists>s'. awriter_now i (awriter_pass api i event w) = Some s' \<and>
    (s' = s \<or> awriter_ended s' \<or> s = AwBusy None \<and> (\<exists>abort. s' = AwBusy (Some abort)))"
proof (cases event)
  case (AEnter rep)
  then show ?thesis
    using assms(2) awriter_now_section [OF assms(1), of "take_for_call rep"]
    by (cases s) (auto simp: awriter_take_def awriter_pass_def take_for_call_def awriter_ended_def
        split: prod.splits)
next
  case (AInstall abort)
  then show ?thesis
    using awriter_now_section [OF assms(1), of "writer_install_abort abort"]
    by (cases s) (auto simp: awriter_pass_def bind_def split_beta writer_install_abort_def awriter_ended_def
        split: option.splits)
next
  case (AElsewhere f)
  then show ?thesis
    using assms(1) part_untouched [of "\<lambda>w. ae_writers (ext w) i" f w]
    by (auto simp: awriter_pass_def awriter_now_def)
qed (use awriter_now_fail [OF assms(1), of api] in \<open>simp add: awriter_pass_def awriter_ended_def\<close>)

lemma awriter_returned:
  assumes "awriter_now i w = Some s"
  shows "\<exists>s'. awriter_now i (awriter_return api i r writer w) = Some s' \<and> (\<nexists>abort. s' = AwBusy abort) \<and>
    (awriter_ended s \<longrightarrow> awriter_ended s')"
proof (cases r)
  case (ArCompleted completion)
  then show ?thesis
    using awriter_now_complete [OF assms, of api writer completion]
    by (cases s) (auto simp: awriter_return_def complete_writer_def awriter_ended_def
        split: AsyncWriterCompletion.splits)
next
  case ArUnwound
  then show ?thesis
    using awriter_now_fail [OF assms, of api] by (simp add: awriter_return_def awriter_ended_def)
qed

interpretation awriter_core: interruptible_handle "awriter_take i" "awriter_pass api i" "awriter_return api i"
  "\<lambda>w. awriter_now i w \<noteq> None" "\<lambda>w. \<exists>writer. awriter_now i w = Some (AwOpen writer)"
  "\<lambda>w. \<exists>abort. awriter_now i w = Some (AwBusy abort)" "\<lambda>w. \<exists>s. awriter_now i w = Some s \<and> awriter_ended s"
  for api :: "'x async_api" and i
proof unfold_locales
  fix w :: "'x async_env world" and event writer w'
  assume "awriter_now i w \<noteq> None" and t: "awriter_take i event w = Some (writer, w')"
  then obtain s where s: "awriter_now i w = Some s" by blast
  show "(\<exists>writer. awriter_now i w = Some (AwOpen writer)) \<and>
      (\<exists>abort. awriter_now i w' = Some (AwBusy abort)) \<and> awriter_now i w' \<noteq> None"
    using awriter_taken [OF s t] s by auto
next
  fix w :: "'x async_env world" and event
  assume "awriter_now i w \<noteq> None" and t: "awriter_take i event w = None"
  then obtain s where s: "awriter_now i w = Some s" by blast
  note passed = awriter_passed [OF s t, of api]
  show "awriter_now i (awriter_pass api i event w) \<noteq> None" using passed by auto
  show "\<exists>writer. awriter_now i w = Some (AwOpen writer)"
    if "\<exists>writer. awriter_now i (awriter_pass api i event w) = Some (AwOpen writer)"
    using that passed s by (auto simp: awriter_ended_def)
  show "\<exists>abort. awriter_now i w = Some (AwBusy abort)"
    if "\<exists>abort. awriter_now i (awriter_pass api i event w) = Some (AwBusy abort)"
    using that passed s by (auto simp: awriter_ended_def)
  show "\<exists>s. awriter_now i (awriter_pass api i event w) = Some s \<and> awriter_ended s"
    if "\<exists>s. awriter_now i w = Some s \<and> awriter_ended s"
    using that passed s by (auto simp: awriter_ended_def)
next
  fix w :: "'x async_env world" and r writer
  assume "awriter_now i w \<noteq> None"
  then obtain s where s: "awriter_now i w = Some s" by blast
  note returned = awriter_returned [OF s, of api r writer]
  show "awriter_now i (awriter_return api i r writer w) \<noteq> None"
    "\<not> (\<exists>abort. awriter_now i (awriter_return api i r writer w) = Some (AwBusy abort))"
    using returned by auto
  show "\<exists>s. awriter_now i (awriter_return api i r writer w) = Some s \<and> awriter_ended s"
    if "\<exists>s. awriter_now i w = Some s \<and> awriter_ended s"
    using that returned s by auto
qed (auto simp: awriter_ended_def)

section \<open>Properties\<close>

text \<open>
  C10. An asynchronous stream or writer never runs two operations at a time, and once ended it stays
  ended. In every interleaving of starts, completions, closes, failures, unwinding operations and
  installed abort handles, at most one operation holds the native object; while one does, the core is
  busy or ended, never open, so that no second one can take it; and a busy core always has its
  operation. From the moment a core is ended, closed, failed, finished or aborted, even while an
  operation still holds the native object, it is ended for good: the late completion does not reopen
  it, and no operation takes the native object any more.
\<close>

theorem async_cores_exclusive:
  assumes "stream_now i w = Some (ArsOpen cursor)"
    and "(stream_turn api i)\<^sup>*\<^sup>* (fresh_turns w) c" and "(stream_turn api i)\<^sup>*\<^sup>* c c'"
    and "awriter_now j v = Some (AwOpen writer)"
    and "(awriter_turn api j)\<^sup>*\<^sup>* (fresh_turns v) d" and "(awriter_turn api j)\<^sup>*\<^sup>* d d'"
  shows "(\<exists>s s'. stream_now i (tn_state c) = Some s \<and> stream_now i (tn_state c') = Some s' \<and>
      one_holder c \<and> ((\<exists>k. tn_holder c k \<noteq> None) \<longrightarrow> (\<nexists>cursor'. s = ArsOpen cursor')) \<and>
      ((\<exists>abort. s = ArsBusy abort) \<longrightarrow> (\<exists>k. tn_holder c k \<noteq> None)) \<and>
      (stream_ended s \<longrightarrow> stream_ended s' \<and>
         (\<forall>k. tn_holder c' k \<noteq> None \<longrightarrow> tn_holder c' k = tn_holder c k))) \<and>
    (\<exists>s s'. awriter_now j (tn_state d) = Some s \<and> awriter_now j (tn_state d') = Some s' \<and>
      one_holder d \<and> ((\<exists>k. tn_holder d k \<noteq> None) \<longrightarrow> (\<nexists>writer'. s = AwOpen writer')) \<and>
      ((\<exists>abort. s = AwBusy abort) \<longrightarrow> (\<exists>k. tn_holder d k \<noteq> None)) \<and>
      (awriter_ended s \<longrightarrow> awriter_ended s' \<and>
         (\<forall>k. tn_holder d' k \<noteq> None \<longrightarrow> tn_holder d' k = tn_holder d k)))"
proof (intro conjI)
  have l: "stream_core.lent i c" "stream_core.lent i c'"
    using stream_core.lent_reachable [OF assms(2)] assms(1)
      stream_core.lent_reachable [OF rtranclp_trans [OF assms(2,3)]] by auto
  then obtain s s' where "stream_now i (tn_state c) = Some s" "stream_now i (tn_state c') = Some s'"
    unfolding stream_core.lent_def by blast
  with l(1) [unfolded stream_core.lent_def] stream_core.ended_keeps [OF assms(3) l(1)]
  show "\<exists>s s'. stream_now i (tn_state c) = Some s \<and> stream_now i (tn_state c') = Some s' \<and>
      one_holder c \<and> ((\<exists>k. tn_holder c k \<noteq> None) \<longrightarrow> (\<nexists>cursor'. s = ArsOpen cursor')) \<and>
      ((\<exists>abort. s = ArsBusy abort) \<longrightarrow> (\<exists>k. tn_holder c k \<noteq> None)) \<and>
      (stream_ended s \<longrightarrow> stream_ended s' \<and>
         (\<forall>k. tn_holder c' k \<noteq> None \<longrightarrow> tn_holder c' k = tn_holder c k))"
    by (intro exI [of _ s] exI [of _ s']) auto
next
  have l: "awriter_core.lent j d" "awriter_core.lent j d'"
    using awriter_core.lent_reachable [OF assms(5)] assms(4)
      awriter_core.lent_reachable [OF rtranclp_trans [OF assms(5,6)]] by auto
  then obtain s s' where "awriter_now j (tn_state d) = Some s" "awriter_now j (tn_state d') = Some s'"
    unfolding awriter_core.lent_def by blast
  with l(1) [unfolded awriter_core.lent_def] awriter_core.ended_keeps [OF assms(6) l(1)]
  show "\<exists>s s'. awriter_now j (tn_state d) = Some s \<and> awriter_now j (tn_state d') = Some s' \<and>
      one_holder d \<and> ((\<exists>k. tn_holder d k \<noteq> None) \<longrightarrow> (\<nexists>writer'. s = AwOpen writer')) \<and>
      ((\<exists>abort. s = AwBusy abort) \<longrightarrow> (\<exists>k. tn_holder d k \<noteq> None)) \<and>
      (awriter_ended s \<longrightarrow> awriter_ended s' \<and>
         (\<forall>k. tn_holder d' k \<noteq> None \<longrightarrow> tn_holder d' k = tn_holder d k))"
    by (intro exI [of _ s] exI [of _ s']) auto
qed

text \<open>A stream and a writer, both open.\<close>

definition sample_cores :: "unit async_env" where
  "sample_cores = \<lparr>ae_tasks = (\<lambda>_. None),
     ae_streams = [0 \<mapsto> \<lparr>arsc_state = \<lparr>mx_state = ArsOpen \<lparr>acur_stream = 3, acur_pending = None\<rparr>,
       mx_poisoned = False\<rparr>, arsc_chunk_size = 4\<rparr>],
     ae_writers = [1 \<mapsto> \<lparr>awc_state = \<lparr>mx_state = AwOpen 5, mx_poisoned = False\<rparr>\<rparr>],
     ae_ops = (\<lambda>_. None), ae_aborts = [], ae_notified = [], ae_next = 2, ae_back = ()\<rparr>"

text \<open>
  The stream is closed while its operation runs: the operation still holds the cursor, and when it
  completes with a chunk the stream is still ended.
\<close>

lemma async_cores_exclusive_witness:
  "\<forall>api :: unit async_api. \<exists>c c'.
    (stream_turn api 0)\<^sup>*\<^sup>* (fresh_turns (sample_world sample_cores)) c \<and> (stream_turn api 0)\<^sup>*\<^sup>* c c' \<and>
    stream_now 0 (tn_state c) = Some ArsClosed \<and> tn_holder c (1::nat) \<noteq> None \<and> one_holder c \<and>
    tn_holder c' 1 = None \<and> (\<exists>s'. stream_now 0 (tn_state c') = Some s' \<and> stream_ended s')"
proof
  fix api :: "unit async_api"
  let ?w = "sample_world sample_cores" and ?cur = "\<lparr>acur_stream = 3, acur_pending = None\<rparr>"
  have now: "stream_now 0 ?w = Some (ArsOpen ?cur)" "awriter_now 1 ?w = Some (AwOpen 5)"
    by (simp_all add: stream_now_def awriter_now_def sample_world_def sample_cores_def)
  obtain w1 where w1: "stream_take 0 SNextStart ?w = Some (?cur, w1)" "stream_now 0 w1 = Some (ArsBusy None)"
    using stream_now_section [OF now(1), of take_for_next]
    by (cases "stream_section 0 take_for_next ?w") (simp add: stream_take_def take_for_next_def)
  let ?c1 = "\<lparr>tn_state = w1, tn_holder = [1::nat \<mapsto> ?cur]\<rparr>"
  let ?c2 = "?c1\<lparr>tn_state := stream_pass api 0 SClose w1\<rparr>"
  let ?c3 = "\<lparr>tn_state = stream_return api 0 (SrCompleted ?cur NextChunk) ?cur (tn_state ?c2),
    tn_holder = (tn_holder ?c2)(1 := None)\<rparr>"
  have "stream_turn api 0 (fresh_turns ?w) ?c1"
    using turn_step.takes [of "fresh_turns ?w" "1::nat" "stream_take 0" SNextStart ?cur w1] w1(1)
    by (simp add: fresh_turns_def)
  moreover have "stream_turn api 0 ?c1 ?c2"
    using turn_step.refused [of "stream_take 0" SClose ?c1] by (simp add: stream_take_def)
  ultimately have r: "(stream_turn api 0)\<^sup>*\<^sup>* (fresh_turns ?w) ?c2" by auto
  have r': "(stream_turn api 0)\<^sup>*\<^sup>* ?c2 ?c3"
    using turn_step.puts [of ?c2 "1::nat" ?cur "stream_take 0" _ _ "SrCompleted ?cur NextChunk"]
    by (intro r_into_rtranclp) simp
  have closed: "stream_now 0 (tn_state ?c2) = Some ArsClosed"
    using stream_now_end [OF w1(2), of api] by (simp add: stream_pass_def stream_core_close_def)
  have "\<exists>s'. stream_now 0 (tn_state ?c3) = Some s' \<and> stream_ended s'" "one_holder ?c2"
    using async_cores_exclusive [OF now(1) r r' now(2) rtranclp.rtrancl_refl rtranclp.rtrancl_refl] closed
    by (auto simp: stream_ended_def)
  with r r' closed show "\<exists>c c'.
    (stream_turn api 0)\<^sup>*\<^sup>* (fresh_turns ?w) c \<and> (stream_turn api 0)\<^sup>*\<^sup>* c c' \<and>
    stream_now 0 (tn_state c) = Some ArsClosed \<and> tn_holder c (1::nat) \<noteq> None \<and> one_holder c \<and>
    tn_holder c' 1 = None \<and> (\<exists>s'. stream_now 0 (tn_state c') = Some s' \<and> stream_ended s')"
    by (intro exI [of _ ?c2] exI [of _ ?c3]) simp
qed

section \<open>Deviations\<close>

text \<open>
  The abort handle of a stream core can be the wrong one. Two threads start an operation each: the
  first one's operation completes before its abort handle is installed, the second start makes the
  core busy again, and only then is the first handle installed. A close then aborts the operation
  that is already done, and the one in flight runs on.
\<close>

lemma stale_abort_installed:
  "let s1 = snd (take_for_next (ArsOpen cursor));
       s2 = snd (complete_next cursor' NextChunk s1);
       s3 = snd (take_for_next s2);
       s4 = snd (stream_install_abort first s3);
       s5 = snd (stream_install_abort second s4)
   in stream_busy_abort s5 = Some first"
  by (simp add: take_for_next_def complete_next_def stream_install_abort_def stream_busy_abort_def)

end
