(* ===== verification/AsyncRead.thy ===== *)
theory AsyncRead
  imports Interruptible
begin

text \<open>
  An asynchronous whole read from the start to the take: the entry point spawns the operation, the
  operation collects the object, its supervisor publishes the result and announces it on the pipe,
  and the caller takes it.
\<close>

definition complete_op :: "'x async_api \<Rightarrow> nat \<Rightarrow> ('x, unit) AM" where
  \<comment> \<open>an operation that is not aborted runs to its end and is supervised\<close>
  "complete_op api n = bind (poll_op api n) (\<lambda>_. bind (resume_op api n) (\<lambda>_. supervise api n))"

section \<open>The operation\<close>

definition whole_outcome :: "Buffer list \<Rightarrow> WholeReadPlan \<Rightarrow> AsyncOutcome \<Rightarrow> bool" where
  "whole_outcome bufs plan outcome \<longleftrightarrow>
     (if length (concat (concat bufs)) \<le> unat (plan_output_limit plan)
      then outcome = outcome_success RBuffer (PayloadBuffer \<lparr>buf_bytes = concat (concat bufs)\<rparr>)
      else \<exists>msg. outcome = outcome_failure RBuffer (buffer_too_large msg))"

lemma run_whole_read:
  assumes "aa_reader api operator path (plan_reader_options plan) (ae_back (ext w)) = (XOk reader, x2)"
    and "aa_stream_items api reader (plan_range plan) x2 = (XOk (map XOk bufs), x3)"
  shows "\<exists>outcome. run_async_whole_read api operator path plan w =
      (Ok outcome, w\<lparr>ext := (ext w)\<lparr>ae_back := x3\<rparr>\<rparr>) \<and> whole_outcome bufs plan outcome"
proof -
  let ?b = "(back_world w)\<lparr>ext := x3\<rparr>"
  let ?collect = "collect_bounded_read_chunks (aa_grow api) (map XOk bufs) (plan_output_limit plan)
      ''read result'' ?b"
  have run: "run_async_whole_read api operator path plan w =
      bind (closure (\<lambda>_. case ?collect of (r, w') \<Rightarrow> (r, front_world (ext w) w'))) (\<lambda>result.
       case result of
         Inr buffer \<Rightarrow> ret (outcome_success RBuffer (PayloadBuffer buffer))
       | Inl failure \<Rightarrow> ret (outcome_failure RBuffer failure)) w"
    using assms
    by (simp add: run_async_whole_read_def bind_def closure_def in_backend_def ext_call_def Let_def)
  show ?thesis
  proof (cases "length (concat (concat bufs)) \<le> unat (plan_output_limit plan)")
    case True
    then show ?thesis
      unfolding run by (simp add: collect_fits bind_def closure_def run_simps whole_outcome_def)
  next
    case False
    then obtain msg where "?collect = (Err (buffer_too_large msg), ?b)"
      using collect_too_large by blast
    with False show ?thesis
      unfolding run by (auto simp: bind_def closure_def run_simps whole_outcome_def)
  qed
qed

lemma notify_in_backend:
  assumes "\<And>u. \<exists>x. notify os fd u = (Ok (), u\<lparr>ext := x\<rparr>)"
  shows "\<exists>x. in_backend (notify os fd) w = (Ok (), w\<lparr>ext := (ext w)\<lparr>ae_back := x\<rparr>\<rparr>)"
proof -
  obtain x where "notify os fd (back_world w) = (Ok (), (back_world w)\<lparr>ext := x\<rparr>)" using assms by blast
  then show ?thesis by (auto simp: in_backend_def)
qed

definition task_shared :: "AsyncTaskShared \<Rightarrow> AsyncTaskState \<Rightarrow> AsyncTaskShared" where
  "task_shared shared state =
     shared\<lparr>ats_inner := \<lparr>mx_state = \<lparr>ati_state = state, ati_signal = None\<rparr>, mx_poisoned = False\<rparr>\<rparr>"

text \<open>
  An operation that is not disturbed: it awaits its call, finishes its work, and its supervisor
  publishes the outcome and announces it once. \<open>P\<close> is what notifying keeps of the backend's state.
\<close>

lemma run_complete_op:
  assumes "ae_ops (ext w) n = Some (kind, Spawned f)"
    and "await_future api f w = (Ok work, w\<lparr>ext := e1\<rparr>)"
    and "finish_work api work (w\<lparr>ext := e1\<lparr>ae_ops := (ae_ops e1)(n \<mapsto> (kind, Resumed work))\<rparr>\<rparr>) =
      (Ok outcome, w\<lparr>ext := e2\<rparr>)"
    and "ae_tasks e2 n = Some shared"
    and "mx_state (ats_inner shared) = \<lparr>ati_state = Running a, ati_signal = Some fd\<rparr>"
    and "\<And>u. P (ext u) \<Longrightarrow> \<exists>x. notify (aa_os api) fd u = (Ok (), u\<lparr>ext := x\<rparr>) \<and> P x" and "P (ae_back e2)"
  shows "\<exists>e. complete_op api n w = (Ok (), w\<lparr>ext := e\<rparr>) \<and> ae_notified e = fd # ae_notified e2 \<and>
    ae_tasks e n = Some (task_shared shared (Completed outcome)) \<and> ae_streams e = ae_streams e2 \<and>
    ae_writers e = ae_writers e2 \<and> ae_next e = ae_next e2 \<and> P (ae_back e)"
proof -
  let ?e2 = "e2\<lparr>ae_ops := (ae_ops e2)(n \<mapsto> (kind, Joined (JoinOutcome outcome)))\<rparr>"
  have "poll_op api n w = (Ok (), w\<lparr>ext := e1\<lparr>ae_ops := (ae_ops e1)(n \<mapsto> (kind, Resumed work))\<rparr>\<rparr>)"
    using assms(1,2) by (simp add: poll_op_def bind_def lookup_env_def catch_unwind_def op_state_def env_do_def)
  moreover have "resume_op api n (w\<lparr>ext := e1\<lparr>ae_ops := (ae_ops e1)(n \<mapsto> (kind, Resumed work))\<rparr>\<rparr>) =
      (Ok (), w\<lparr>ext := ?e2\<rparr>)"
    using assms(3) by (simp add: resume_op_def bind_def lookup_env_def catch_unwind_def op_state_def env_do_def)
  moreover have "\<exists>e. supervise api n (w\<lparr>ext := ?e2\<rparr>) = (Ok (), w\<lparr>ext := e\<rparr>) \<and> ae_notified e = fd # ae_notified e2 \<and>
    ae_tasks e n = Some (task_shared shared (Completed outcome)) \<and> ae_streams e = ae_streams e2 \<and>
    ae_writers e = ae_writers e2 \<and> ae_next e = ae_next e2 \<and> P (ae_back e)"
  proof -
    let ?e3 = "?e2\<lparr>ae_ops := (ae_ops ?e2)(n := None),
        ae_tasks := (ae_tasks e2)(n \<mapsto> task_shared shared (Completed outcome)), ae_notified := fd # ae_notified e2\<rparr>"
    obtain x4 where "notify (aa_os api) fd (back_world (w\<lparr>ext := ?e3\<rparr>)) = (Ok (), (back_world (w\<lparr>ext := ?e3\<rparr>))\<lparr>ext := x4\<rparr>)"
      and P: "P x4" using assms(6) [of "back_world (w\<lparr>ext := ?e3\<rparr>)"] assms(7) by auto
    from run_in_backend [where m = "notify (aa_os api) fd", OF this(1)]
    have x4: "in_backend (notify (aa_os api) fd) (w\<lparr>ext := ?e3\<rparr>) = (Ok (), w\<lparr>ext := ?e3\<lparr>ae_back := x4\<rparr>\<rparr>)" by simp
    have "supervise api n (w\<lparr>ext := ?e2\<rparr>) = (Ok (), w\<lparr>ext := ?e3\<lparr>ae_back := x4\<rparr>\<rparr>)"
      using assms(4,5) x4
      by (simp add: supervise_def bind_def lookup_env_def env_do_def run_simps publish_def
          publish_state_def put_task_def notify_signal_def task_shared_def)
    then show ?thesis using P by (intro exI [of _ "?e3\<lparr>ae_back := x4\<rparr>"]) simp
  qed
  ultimately show ?thesis by (auto simp: complete_op_def bind_def)
qed

lemma run_complete_whole_read:
  assumes "ae_ops (ext w) n = Some (RBuffer, Spawned (FWholeRead operator path plan))"
    and "ae_tasks (ext w) n = Some shared"
    and "mx_state (ats_inner shared) = \<lparr>ati_state = Running a, ati_signal = Some fd\<rparr>"
    and "aa_reader api operator path (plan_reader_options plan) (ae_back (ext w)) = (XOk reader, x2)"
    and "aa_stream_items api reader (plan_range plan) x2 = (XOk (map XOk bufs), x3)"
    and "\<And>u. \<exists>x. notify (aa_os api) fd u = (Ok (), u\<lparr>ext := x\<rparr>)"
  shows "\<exists>outcome e. complete_op api n w = (Ok (), w\<lparr>ext := e\<rparr>) \<and> whole_outcome bufs plan outcome \<and>
    ae_notified e = fd # ae_notified (ext w) \<and>
    ae_tasks e n = Some (task_shared shared (Completed outcome))"
proof -
  obtain outcome where o: "run_async_whole_read api operator path plan w =
      (Ok outcome, w\<lparr>ext := (ext w)\<lparr>ae_back := x3\<rparr>\<rparr>)" "whole_outcome bufs plan outcome"
    using run_whole_read [OF assms(4,5)] by blast
  let ?e1 = "(ext w)\<lparr>ae_back := x3\<rparr>"
  have "await_future api (FWholeRead operator path plan) w = (Ok (WReady outcome), w\<lparr>ext := ?e1\<rparr>)"
    using o(1) by (simp add: await_future_def bind_def run_simps)
  from run_complete_op [OF assms(1) this, where P = "\<lambda>_. True", of outcome
      "?e1\<lparr>ae_ops := (ae_ops ?e1)(n \<mapsto> (RBuffer, Resumed (WReady outcome)))\<rparr>" shared a fd]
  show ?thesis using o(2) assms(2,3,6) by (auto simp: finish_work_def run_simps)
qed

section \<open>Starting\<close>

lemma run_launch_prepare:
  assumes "runtime_cell w = Some (Inr ())"
    and "\<And>u. ext u = ae_back (ext w) \<Longrightarrow> duplicate (aa_os api) fd u = (Ok signal, u\<lparr>ext := x1\<rparr>)"
  shows "launch_prepare api fd w = (Ok signal, w\<lparr>ext := (ext w)\<lparr>ae_back := x1\<rparr>\<rparr>)"
  using assms(1) assms(2) [of "back_world w"]
  by (simp add: launch_prepare_def in_backend_def bind_def closure_def runtime_running run_simps)

lemma run_read_start:
  assumes "valid_slots slot oerr" and "live_at p (OOperator op) w"
    and "read_text (inp w) path ''path'' = Inr name"
    and "parse_read_options (inp w) options = Inr opts" and "whole_read_plan opts limit = Inr plan"
    and "is_suffix (plan_range plan) \<longrightarrow> op_read_with_suffix op"
    and "runtime_cell w = Some (Inr ())"
    and "\<And>u. ext u = ae_back (ext w) \<Longrightarrow> duplicate (aa_os api) fd u = (Ok signal, u\<lparr>ext := x1\<rparr>)"
  shows "\<exists>w1. async_operator_read_start api p path options limit fd slot oerr w = (Returned STATUS_OK, w1) \<and>
    wf_world w1 \<and> boxes w1 (o_ptr (out w1) slot) = Some (OTask \<lparr>at_shared = ae_next (ext w)\<rparr>) \<and>
    ext w1 = (ext w)\<lparr>ae_back := x1, ae_next := ae_next (ext w) + 1,
      ae_ops := (ae_ops (ext w))(ae_next (ext w) \<mapsto>
        (RBuffer, Spawned (FWholeRead (op_async_inner op) name plan))),
      ae_tasks := (ae_tasks (ext w))(ae_next (ext w) \<mapsto>
        \<lparr>ats_inner = \<lparr>mx_state = \<lparr>ati_state = Running (ae_next (ext w)), ati_signal = Some signal\<rparr>,
           mx_poisoned = False\<rparr>,
         ats_resource = None\<rparr>)\<rparr>"
proof -
  let ?w0 = "clear_slots {slot, oerr} w"
  have l: "live_at p (OOperator op) ?w0" using assms(2) by (simp add: live_at_def)
  have "launch_prepare api fd ?w0 = (Ok signal, ?w0\<lparr>ext := (ext w)\<lparr>ae_back := x1\<rparr>\<rparr>)"
    using run_launch_prepare [of ?w0 api fd signal x1] assms(7,8) by simp
  moreover have "ensure_suffix_is_native (plan_range plan) (op_read_with_suffix op) = Inr ()"
    using assms(6) by (simp add: ensure_suffix_is_native_def)
  moreover have "borrow_required as_operator p ?w0 = (Ok op, ?w0)"
    using live_atD [OF l] by (intro run_borrow_live) auto
  ultimately have run: "async_operator_read_start api p path options limit fd slot oerr w =
      (Returned STATUS_OK, snd (async_operator_read_start api p path options limit fd slot oerr w)) \<and>
      boxes (snd (async_operator_read_start api p path options limit fd slot oerr w)) =
        (boxes w)(next_box w \<mapsto> OTask \<lparr>at_shared = ae_next (ext w)\<rparr>) \<and>
      next_box (snd (async_operator_read_start api p path options limit fd slot oerr w)) = next_box w + 16 \<and>
      o_ptr (out (snd (async_operator_read_start api p path options limit fd slot oerr w))) slot =
        next_box w \<and>
      ext (snd (async_operator_read_start api p path options limit fd slot oerr w)) =
        (ext w)\<lparr>ae_back := x1, ae_next := ae_next (ext w) + 1,
      ae_ops := (ae_ops (ext w))(ae_next (ext w) \<mapsto>
        (RBuffer, Spawned (FWholeRead (op_async_inner op) name plan))),
      ae_tasks := (ae_tasks (ext w))(ae_next (ext w) \<mapsto>
        \<lparr>ats_inner = \<lparr>mx_state = \<lparr>ati_state = Running (ae_next (ext w)), ati_signal = Some signal\<rparr>,
           mx_poisoned = False\<rparr>,
         ats_resource = None\<rparr>)\<rparr>"
    using assms(1,3-5)
    by (simp add: async_operator_read_start_def begin_task_def catch_status_def run_with_handle_outputs
        valid_slots_def run_deliver async_operator_read_start_body_def bind_def with_inputs_def run_simps
        spawn_def Let_def run_write_handle)
  then show ?thesis
    using assms(2) by (auto intro: wf_world_new simp: live_at_def)
qed

section \<open>Taking\<close>

definition task_at :: "addr \<Rightarrow> nat \<Rightarrow> AsyncTaskShared \<Rightarrow> 'x async_env world \<Rightarrow> bool" where
  "task_at t n shared w \<longleftrightarrow> live_at t (OTask \<lparr>at_shared = n\<rparr>) w \<and> ae_tasks (ext w) n = Some shared"

lemma clear_slots_same_ext: "(clear_slots S w)\<lparr>ext := ext w\<rparr> = clear_slots S w"
  by (simp add: clear_slots_def)

lemma run_take_error:
  assumes "valid_slots slot oerr" and "task_at t n (task_shared shared s) w"
    and "take_state kind \<lparr>ati_state = s, ati_signal = None\<rparr> =
      (Inl f, \<lparr>ati_state = s, ati_signal = None\<rparr>)" and "f \<noteq> AbiMismatch"
  shows "\<exists>w'. catch_status (finish_async_payload_take api t kind slot oerr sel) w =
      (Returned STATUS_ERROR, w') \<and> o_ptr (out w') slot = 0 \<and> task_at t n (task_shared shared s) w'"
proof -
  let ?w0 = "clear_slots {slot, oerr} w"
  have l: "live_at t (OTask \<lparr>at_shared = n\<rparr>) ?w0" using assms(2) by (simp add: task_at_def live_at_def)
  have e: "(ext w)\<lparr>ae_tasks := (ae_tasks (ext w))(n \<mapsto> task_shared shared s)\<rparr> = ext w"
    using assms(2) by (simp add: task_at_def fun_upd_idem)
  have run: "catch_status (finish_async_payload_take api t kind slot oerr sel) w =
      catch_status (finish_failure f oerr) ?w0"
    using assms(1,2,3) live_atD [OF l] e
    by (simp add: catch_status_def finish_async_payload_take_def run_with_handle_outputs valid_slots_def
        with_handle_def finish_or_def bind_def closure_def run_simps task_at_def take_task_def
        lookup_env_def put_task_def env_do_def task_shared_def clear_slots_same_ext)
  obtain w' where w': "finish_failure f oerr ?w0 = (Ok STATUS_ERROR, w')"
    "ext w' = ext ?w0" "wf_world w'" "boxes w' t = Some (OTask \<lparr>at_shared = n\<rparr>)"
    "o_ptr (out w') slot = o_ptr (out ?w0) slot"
    using run_finish_failure_frame [of f oerr ?w0] assms(1,4) l
    by (cases f) (auto simp: live_at_def valid_slots_def)
  moreover have "o_ptr (out ?w0) slot = 0"
    using assms(1) by (simp add: o_ptr_clear_slots valid_slots_def)
  ultimately show ?thesis
    using assms(2) unfolding run by (auto simp: catch_status_def task_at_def live_at_def)
qed

text \<open>A completed task is taken: its state, the environment and the world the caller keeps.\<close>

definition took :: "nat \<Rightarrow> AsyncTaskShared \<Rightarrow> 'x async_env world \<Rightarrow> 'x async_env world \<Rightarrow> bool" where
  "took n shared w w' \<longleftrightarrow>
     ext w' = (ext w)\<lparr>ae_tasks := (ae_tasks (ext w))(n \<mapsto> task_shared shared Taken)\<rparr> \<and>
     inp w' = inp w \<and> runtime_cell w' = runtime_cell w"

lemmas take_run = catch_status_def finish_async_payload_take_def run_with_handle_outputs with_handle_def
  finish_or_def bind_def closure_def run_simps take_task_def lookup_env_def put_task_def env_do_def
  task_shared_def take_state_def Let_def

lemma slotsD: "valid_slots slot oerr \<Longrightarrow> slot \<noteq> 0 \<and> 8 dvd slot \<and> 8 dvd oerr \<and> slot \<noteq> oerr"
  by (simp add: valid_slots_def)

lemma run_payload_take:
  assumes "valid_slots slot oerr" and at: "task_at t n (task_shared shared (Completed (outcome_success kind payload))) w"
    and "sel payload = Some ob"
  shows "\<exists>w'. catch_status (finish_async_payload_take api t kind slot oerr sel) w = (Returned STATUS_OK, w') \<and>
    took n shared w w' \<and> boxes w' = (boxes w)(next_box w \<mapsto> ob) \<and> next_box w' = next_box w + 16 \<and>
    o_ptr (out w') slot = next_box w"
  using slotsD [OF assms(1)] at assms(3) live_atD [OF conjunct1 [OF at [unfolded task_at_def]]]
  by (simp add: take_run task_at_def outcome_success_def run_write_handle took_def)

definition handed :: "addr \<Rightarrow> obj \<Rightarrow> 'x world \<Rightarrow> 'x world \<Rightarrow> bool" where
  "handed slot ob w w' \<longleftrightarrow>
     boxes w' = (boxes w)(next_box w \<mapsto> ob) \<and> next_box w' = next_box w + 16 \<and> o_ptr (out w') slot = next_box w"

lemma run_take:
  assumes "valid_slots slot oerr"
  shows "task_at t n (task_shared shared (Completed (outcome_success RBuffer (PayloadBuffer b)))) w \<Longrightarrow>
      \<exists>w'. async_task_take_buffer api t slot oerr w = (Returned STATUS_OK, w') \<and> took n shared w w' \<and> handed slot (OBuffer b) w w'"
    and "task_at t n (task_shared shared (Completed (outcome_success RMetadata (PayloadMetadata m)))) w \<Longrightarrow>
      \<exists>w'. async_task_take_metadata api t slot oerr w = (Returned STATUS_OK, w') \<and> took n shared w w' \<and> handed slot (OMetadata m) w w'"
  unfolding async_task_take_buffer_def async_task_take_metadata_def handed_def
  by - (rule run_payload_take [OF assms], assumption, simp)+

lemma run_take_end:
  assumes "valid_slots slot oerr" and at: "task_at t n (task_shared shared (Completed (outcome_end RBuffer))) w"
  shows "\<exists>w'. async_task_take_buffer api t slot oerr w = (Returned STATUS_END, w') \<and>
    took n shared w w' \<and> boxes w' = boxes w \<and> next_box w' = next_box w \<and> o_ptr (out w') slot = 0"
  using slotsD [OF assms(1)] at live_atD [OF conjunct1 [OF at [unfolded task_at_def]]]
  by (simp add: take_run async_task_take_buffer_def task_at_def outcome_end_def took_def o_ptr_clear_slots)

lemma finish_failure_frame:
  "inp (snd (finish_failure f oerr w)) = inp w" "runtime_cell (snd (finish_failure f oerr w)) = runtime_cell w"
  by (cases f; cases "oerr = 0"; simp add: run_finish_failure)+

lemma run_take_failure:
  assumes "valid_slots slot oerr" and at: "task_at t n (task_shared shared (Completed (outcome_failure kind (Error e)))) w"
  shows "\<exists>w'. catch_status (finish_async_payload_take api t kind slot oerr sel) w = (Returned STATUS_ERROR, w') \<and>
    took n shared w w' \<and> wf_world w' \<and> boxes w' t = boxes w t \<and> o_ptr (out w') slot = 0"
proof -
  let ?w1 = "(clear_slots {slot, oerr} w)\<lparr>ext := (ext w)\<lparr>ae_tasks := (ae_tasks (ext w))(n \<mapsto> task_shared shared Taken)\<rparr>\<rparr>"
  have v: "slot \<noteq> 0" "8 dvd slot" "8 dvd oerr" "slot \<noteq> oerr" using slotsD [OF assms(1)] by auto
  note l = live_atD [OF conjunct1 [OF at [unfolded task_at_def]]]
  have "catch_status (finish_async_payload_take api t kind slot oerr sel) w =
      (case finish_failure (Error e) oerr ?w1 of (r, w') \<Rightarrow> (Returned STATUS_ERROR, w'))"
    using v l at
    by (simp add: take_run task_at_def outcome_failure_def report_outcome_error_def drop_payload_def
        run_write_handle run_finish_failure null_ptr_def)
  moreover have "wf_world ?w1" using l(5) by (simp add: wf_world_def)
  moreover from this obtain w' where "finish_failure (Error e) oerr ?w1 = (Ok STATUS_ERROR, w')" "ext w' = ext ?w1"
    "wf_world w'" "boxes w' t = boxes w t" "o_ptr (out w') slot = o_ptr (out ?w1) slot"
    using run_finish_failure_frame [of "Error e" oerr ?w1] v l by auto
  moreover from this(1) have "inp w' = inp w" "runtime_cell w' = runtime_cell w"
    using finish_failure_frame [of "Error e" oerr ?w1] by simp_all
  ultimately show ?thesis using v by (auto simp: took_def o_ptr_clear_slots)
qed

lemma run_take_whole:
  assumes "valid_slots slot oerr" and "task_at t n (task_shared shared (Completed outcome)) w"
    and "whole_outcome bufs plan outcome"
  shows "\<exists>w'. let fits = length (concat (concat bufs)) \<le> unat (plan_output_limit plan) in
    async_task_take_buffer api t slot oerr w =
      (Returned (if fits then STATUS_OK else STATUS_ERROR), w') \<and>
    (if fits then boxes w' (o_ptr (out w') slot) = Some (OBuffer \<lparr>buf_bytes = concat (concat bufs)\<rparr>)
     else o_ptr (out w') slot = 0) \<and>
    task_at t n (task_shared shared Taken) w'"
proof (cases "length (concat (concat bufs)) \<le> unat (plan_output_limit plan)")
  case True
  let ?b = "\<lparr>buf_bytes = concat (concat bufs)\<rparr>"
  have o: "outcome = outcome_success RBuffer (PayloadBuffer ?b)" using assms(3) True by (simp add: whole_outcome_def)
  obtain w' where w': "async_task_take_buffer api t slot oerr w = (Returned STATUS_OK, w')"
    "took n shared w w'" "handed slot (OBuffer ?b) w w'"
    using run_take(1) [OF assms(1) assms(2) [unfolded o], of api] by blast
  moreover have "task_at t n (task_shared shared Taken) w'"
    using w' assms(2) live_atD [OF conjunct1 [OF assms(2) [unfolded task_at_def]]] wf_world_new [of w w']
    by (simp add: task_at_def live_at_def took_def handed_def)
  ultimately show ?thesis using True by (intro exI [of _ w']) (simp add: handed_def)
next
  case False
  then obtain msg where o: "outcome = outcome_failure RBuffer (buffer_too_large msg)"
    using assms(3) by (auto simp: whole_outcome_def)
  obtain e where e: "buffer_too_large msg = Error e" by (cases "buffer_too_large msg") simp_all
  obtain w' where w': "async_task_take_buffer api t slot oerr w = (Returned STATUS_ERROR, w')"
    "took n shared w w'" "wf_world w'" "boxes w' t = boxes w t" "o_ptr (out w') slot = 0"
    using run_take_failure [OF assms(1) assms(2) [unfolded o e], of api] unfolding async_task_take_buffer_def by blast
  moreover have "task_at t n (task_shared shared Taken) w'"
    using w' assms(2) by (simp add: task_at_def live_at_def took_def)
  ultimately show ?thesis using False by (intro exI [of _ w']) simp
qed

section \<open>Properties\<close>

text \<open>
  C6. An asynchronous read delivers the object. The start reports success and hands out a task; once
  the operation has run and its supervisor has published, the pipe has been signalled exactly once;
  the take then hands out exactly the concatenation of the backend's buffers when it fits the
  negotiated limit, and otherwise an error and no buffer; a second take reports an error.
\<close>

theorem async_read_delivers:
  assumes "valid_slots slot oerr" and "live_at p (OOperator op) w"
    and "read_text (inp w) path ''path'' = Inr name"
    and "parse_read_options (inp w) options = Inr opts" and "whole_read_plan opts limit = Inr plan"
    and "is_suffix (plan_range plan) \<longrightarrow> op_read_with_suffix op"
    and "runtime_cell w = Some (Inr ())"
    and "\<And>u. ext u = ae_back (ext w) \<Longrightarrow> duplicate (aa_os api) fd u = (Ok signal, u\<lparr>ext := x1\<rparr>)"
    and "aa_reader api (op_async_inner op) name (plan_reader_options plan) x1 = (XOk reader, x2)"
    and "aa_stream_items api reader (plan_range plan) x2 = (XOk (map XOk bufs), x3)"
    and "\<And>u. \<exists>x. notify (aa_os api) signal u = (Ok (), u\<lparr>ext := x\<rparr>)"
  shows "\<exists>w1 w2 w3 w4. let fits = length (concat (concat bufs)) \<le> unat (plan_output_limit plan);
      task = o_ptr (out w1) slot in
    async_operator_read_start api p path options limit fd slot oerr w = (Returned STATUS_OK, w1) \<and>
    complete_op api (ae_next (ext w)) w1 = (Ok (), w2) \<and>
    ae_notified (ext w2) = signal # ae_notified (ext w) \<and>
    async_task_take_buffer api task slot oerr w2 =
      (Returned (if fits then STATUS_OK else STATUS_ERROR), w3) \<and>
    (if fits then boxes w3 (o_ptr (out w3) slot) = Some (OBuffer \<lparr>buf_bytes = concat (concat bufs)\<rparr>)
     else o_ptr (out w3) slot = 0) \<and>
    async_task_take_buffer api task slot oerr w3 = (Returned STATUS_ERROR, w4) \<and>
    o_ptr (out w4) slot = 0"
proof -
  let ?n = "ae_next (ext w)"
  let ?shared = "\<lparr>ats_inner = \<lparr>mx_state = \<lparr>ati_state = Running ?n, ati_signal = Some signal\<rparr>,
      mx_poisoned = False\<rparr>, ats_resource = None\<rparr>"
  obtain w1 where w1: "async_operator_read_start api p path options limit fd slot oerr w =
      (Returned STATUS_OK, w1)" "wf_world w1"
    "boxes w1 (o_ptr (out w1) slot) = Some (OTask \<lparr>at_shared = ?n\<rparr>)"
    and e1: "ext w1 = (ext w)\<lparr>ae_back := x1, ae_next := ?n + 1,
      ae_ops := (ae_ops (ext w))(?n \<mapsto> (RBuffer, Spawned (FWholeRead (op_async_inner op) name plan))),
      ae_tasks := (ae_tasks (ext w))(?n \<mapsto> ?shared)\<rparr>"
    using run_read_start [OF assms(1-8)] by blast
  let ?t = "o_ptr (out w1) slot"
  obtain outcome e where c: "complete_op api ?n w1 = (Ok (), w1\<lparr>ext := e\<rparr>)"
    "whole_outcome bufs plan outcome" "ae_notified e = signal # ae_notified (ext w1)"
    "ae_tasks e ?n = Some (task_shared ?shared (Completed outcome))"
    using run_complete_whole_read [of w1 ?n "op_async_inner op" name plan ?shared ?n signal api reader
        x2 bufs x3] assms(9-11) e1
    by auto
  have "task_at ?t ?n (task_shared ?shared (Completed outcome)) (w1\<lparr>ext := e\<rparr>)"
    using w1(2,3) c(4) by (simp add: task_at_def live_at_def wf_world_def)
  from run_take_whole [OF assms(1) this c(2), of api] obtain w3 where
    w3: "let fits = length (concat (concat bufs)) \<le> unat (plan_output_limit plan) in
      async_task_take_buffer api ?t slot oerr (w1\<lparr>ext := e\<rparr>) =
        (Returned (if fits then STATUS_OK else STATUS_ERROR), w3) \<and>
      (if fits then boxes w3 (o_ptr (out w3) slot) = Some (OBuffer \<lparr>buf_bytes = concat (concat bufs)\<rparr>)
       else o_ptr (out w3) slot = 0)" and at3: "task_at ?t ?n (task_shared ?shared Taken) w3"
    by (auto simp: Let_def)
  obtain w4 where "async_task_take_buffer api ?t slot oerr w3 = (Returned STATUS_ERROR, w4)"
    "o_ptr (out w4) slot = 0"
    unfolding async_task_take_buffer_def
    using run_take_error [OF assms(1) at3, of RBuffer
        "resource_closed ''async task result was already taken''"]
    by (auto simp: take_state_def)
  with w1(1) c(1,3) w3 e1 show ?thesis by (auto simp: Let_def)
qed

definition sample_async_api :: "host async_api" where
  "sample_async_api = \<lparr>aa_build_runtime = (\<lambda>x. (True, x)), aa_os = sample_posix, aa_grow = (\<lambda>n. n),
     aa_split_to = (\<lambda>b n. ([take n (concat b)], [drop n (concat b)])),
     aa_reader = (\<lambda>_ _ _ x. (XOk 3, x)),
     aa_stream_items = (\<lambda>_ _ x. (XOk (map XOk [[[1, 2]], [[3]]]), x)),
     aa_into_stream = (\<lambda>_ _ x. (XOk 4, x)), aa_try_next = (\<lambda>_ x. (XOk None, x)),
     aa_drop_stream = (\<lambda>_ x. (XOk (), x)), aa_writer = (\<lambda>_ _ _ x. (XOk 5, x)),
     aa_write = (\<lambda>_ _ x. (XOk (), x)), aa_close = (\<lambda>_ x. (XOk sample_file, x)),
     aa_abort = (\<lambda>_ x. (XOk (), x)), aa_drop_writer = (\<lambda>_ x. (XOk (), x))\<rparr>"

definition sample_env :: "'x \<Rightarrow> 'x async_env" where
  "sample_env x = \<lparr>ae_tasks = Map.empty, ae_streams = Map.empty, ae_writers = Map.empty,
     ae_ops = Map.empty, ae_aborts = [], ae_notified = [], ae_next = 0, ae_back = x\<rparr>"

lemma sample_notify: "\<exists>x. notify sample_posix fd u = (Ok (), u\<lparr>ext := x\<rparr>)"
proof -
  let ?x = "(ext u)\<lparr>h_mask := h_mask (ext u) \<union> {SIGPIPE}\<rparr>"
  have "write_completion_byte sample_posix fd ?x =
      Some (if h_reader ?x then None else Some EPIPE, snd (px_write sample_posix fd [1] ?x))"
    by (subst write_completion_byte.simps) (simp add: sample_posix_def Let_def EPIPE_def EINTR_def)
  then show ?thesis
    by (simp add: notify_def notify_body_def bind_def os_read_def os_call_def os_do_def signal_byte_def
        run_simps sample_posix_def Let_def) (intro conjI impI exI; rule refl)
qed

lemma sample_duplicate:
  "ext u = sample_host \<Longrightarrow> duplicate sample_posix 5 u = (Ok 6, u\<lparr>ext := sample_host\<lparr>h_fds := [6, 5]\<rparr>\<rparr>)"
  by (simp add: duplicate_def unix_duplicate_def bind_def os_call_def run_simps sample_posix_def sample_host_def Let_def
      O_NONBLOCK_def O_ACCMODE_def O_RDONLY_def S_IFIFO_def S_IFMT_def)

lemma async_read_delivers_witness:
  "\<exists>w1 w2 w3. async_operator_read_start sample_async_api 16 8 0 100 5 64 72
      ((sample_with (OOperator sample_operator) (sample_env sample_host))\<lparr>runtime_cell := Some (Inr ())\<rparr>) =
      (Returned STATUS_OK, w1) \<and>
    complete_op sample_async_api 0 w1 = (Ok (), w2) \<and> ae_notified (ext w2) = [6] \<and>
    async_task_take_buffer sample_async_api (o_ptr (out w1) 64) 64 72 w2 = (Returned STATUS_OK, w3) \<and>
    boxes w3 (o_ptr (out w3) 64) = Some (OBuffer \<lparr>buf_bytes = [1, 2, 3]\<rparr>)"
proof -
  let ?w = "(sample_with (OOperator sample_operator) (sample_env sample_host))\<lparr>runtime_cell := Some (Inr ())\<rparr>"
  let ?x = "sample_host\<lparr>h_fds := [6, 5]\<rparr>"
  let ?plan = "\<lparr>plan_reader_options = ReaderOptions_default\<lparr>rdo_concurrent := 1\<rparr>,
      plan_range = Range 0 None, plan_output_limit = 100\<rparr>"
  have "parse_read_options (inp ?w) 0 = Inr ReadOptions_default"
    by (simp add: parse_read_options_def null_ptr_def)
  moreover have "whole_read_plan ReadOptions_default 100 = Inr ?plan"
    by (simp add: whole_read_plan_def ReadOptions_default_def ReaderOptions_default_def
        BytesRange_default_def)
  moreover have "live_at 16 (OOperator sample_operator) ?w"
    using wf_sample_with [of "OOperator sample_operator" "sample_env sample_host"]
    by (simp add: live_at_def wf_world_def)
  moreover have "read_text (inp ?w) 8 ''path'' = Inr []" by (simp add: sample_text)
  moreover have "aa_reader sample_async_api (op_async_inner sample_operator) [] (plan_reader_options ?plan)
      ?x = (XOk 3, ?x)"
    and "aa_stream_items sample_async_api 3 (plan_range ?plan) ?x = (XOk (map XOk [[[1, 2]], [[3]]]), ?x)"
    and os: "aa_os sample_async_api = sample_posix"
    by (simp_all add: sample_async_api_def)
  moreover have "duplicate (aa_os sample_async_api) 5 u = (Ok 6, u\<lparr>ext := ?x\<rparr>)"
    if "ext u = ae_back (ext ?w)" for u
    using that sample_duplicate [of u] by (simp add: os sample_env_def)
  moreover have "\<exists>x. notify (aa_os sample_async_api) 6 u = (Ok (), u\<lparr>ext := x\<rparr>)" for u
    unfolding os by (rule sample_notify)
  ultimately obtain w1 w2 w3 w4 where
    "let fits = length (concat (concat [[[1, 2]], [[3 :: u8]]])) \<le> unat (plan_output_limit ?plan);
      task = o_ptr (out w1) 64 in
    async_operator_read_start sample_async_api 16 8 0 100 5 64 72 ?w = (Returned STATUS_OK, w1) \<and>
    complete_op sample_async_api (ae_next (ext ?w)) w1 = (Ok (), w2) \<and>
    ae_notified (ext w2) = 6 # ae_notified (ext ?w) \<and>
    async_task_take_buffer sample_async_api task 64 72 w2 =
      (Returned (if fits then STATUS_OK else STATUS_ERROR), w3) \<and>
    (if fits then boxes w3 (o_ptr (out w3) 64) =
       Some (OBuffer \<lparr>buf_bytes = concat (concat [[[1, 2]], [[3 :: u8]]])\<rparr>)
     else o_ptr (out w3) 64 = 0) \<and>
    async_task_take_buffer sample_async_api task 64 72 w3 = (Returned STATUS_ERROR, w4) \<and>
    o_ptr (out w4) 64 = 0"
    using async_read_delivers [of 64 72 16 sample_operator ?w 8 "[]" 0 ReadOptions_default 100 ?plan
        sample_async_api 5 6 ?x 3 ?x "[[[1, 2]], [[3]]]" ?x]
    by (auto simp: valid_slots_def)
  then show ?thesis
    by (intro exI [of _ w1] exI [of _ w2] exI [of _ w3]) (simp add: Let_def sample_env_def)
qed

section \<open>Deviations\<close>

text \<open>
  Repeating a successful abort is documented to succeed. Cancelling, or freeing without a take, the
  task of a repeated abort fails the writer, and from then on an abort is refused.
\<close>

lemma cancelled_repeat_abort_fails_writer:
  assumes "ae_tasks (ext w) n = Some shared"
    and "mx_state (ats_inner shared) = \<lparr>ati_state = Running n, ati_signal = Some fd\<rparr>"
    and "ats_resource shared = Some (PoisonWriter i)"
    and "ae_writers (ext w) i = Some \<lparr>awc_state = \<lparr>mx_state = AwAborted, mx_poisoned = False\<rparr>\<rparr>"
    and "\<And>u. \<exists>x. notify (aa_os api) fd u = (Ok (), u\<lparr>ext := x\<rparr>)"
  shows "\<exists>w'. cancel api n w = (Ok (), w') \<and>
    ae_writers (ext w') i = Some \<lparr>awc_state = \<lparr>mx_state = AwFailed, mx_poisoned = False\<rparr>\<rparr> \<and>
    fst (take_for_call True AwFailed) = Inl (resource_closed ''async writer is closed'')"
proof -
  obtain x where "in_backend (notify (aa_os api) fd) u = (Ok (), u\<lparr>ext := (ext u)\<lparr>ae_back := x u\<rparr>\<rparr>)" for u
    using notify_in_backend [OF assms(5)] by metis
  with assms(1-4) show ?thesis
    by (simp add: cancel_def cancel_state_def bind_def lookup_env_def put_task_def env_do_def run_simps
        drop_completed_def abort_if_def abort_op_def poison_fail_def writer_core_fail_def put_writer_def
        drop_writer_value_def writer_native_def writer_busy_abort_def notify_signal_def take_for_call_def
        Let_def)
qed

end
