(* ===== verification/AsyncSession.thy ===== *)
theory AsyncSession
  imports AsyncRead
begin

text \<open>
  Whole sessions on asynchronous handles. The caller starts a call, waits for the announcement on its
  pipe and takes the result (\<open>async_round\<close>), again and again on one handle; the sessions show what the
  rounds deliver from the handle's opening to its end.
\<close>

section \<open>Rounds\<close>

definition async_round ::
  "'x async_api \<Rightarrow> ('x async_env world \<Rightarrow> exit \<times> 'x async_env world) \<Rightarrow>
   (addr \<Rightarrow> 'x async_env world \<Rightarrow> exit \<times> 'x async_env world) \<Rightarrow> addr \<Rightarrow>
   'x async_env world \<Rightarrow> exit \<times> 'x async_env world" where
  \<comment> \<open>start a call whose task is left in \<open>slot\<close>, let its operation run, and take the result\<close>
  "async_round api start take_result slot w =
     (case start w of
        (Returned s, w1) \<Rightarrow>
          if s \<noteq> STATUS_OK then (Returned s, w1)
          else
            (case complete_op api (ae_next (ext w)) w1 of
               (Ok _, w2) \<Rightarrow> take_result (o_ptr (out w1) slot) w2
             | (_, w2) \<Rightarrow> (Undefined, w2))
      | (e, w1) \<Rightarrow> (e, w1))"

definition running_task :: "nat \<Rightarrow> token \<Rightarrow> AsyncResourcePoison option \<Rightarrow> AsyncTaskShared" where
  "running_task n signal resource =
     \<lparr>ats_inner = \<lparr>mx_state = \<lparr>ati_state = Running n, ati_signal = Some signal\<rparr>, mx_poisoned = False\<rparr>,
      ats_resource = resource\<rparr>"

text \<open>
  What a session relies on of the operating system: the completion descriptor can be duplicated,
  signalled and closed as often as it takes, and none of it disturbs what the backend holds for the
  caller (\<open>P\<close>).
\<close>

definition announces :: "'x async_api \<Rightarrow> int \<Rightarrow> ('x \<Rightarrow> bool) \<Rightarrow> bool" where
  "announces api fd P \<longleftrightarrow>
     (\<forall>u. P (ext u) \<longrightarrow> (\<exists>signal x. duplicate (aa_os api) fd u = (Ok signal, u\<lparr>ext := x\<rparr>) \<and> P x)) \<and>
     (\<forall>signal u. P (ext u) \<longrightarrow> (\<exists>x. notify (aa_os api) signal u = (Ok (), u\<lparr>ext := x\<rparr>) \<and> P x)) \<and>
     (\<forall>signal x. P x \<longrightarrow> P (px_close (aa_os api) signal x))"

lemma run_announced_launch:
  assumes "announces api fd P" and "P (ae_back (ext w))" and "runtime_cell w = Some (Inr ())"
  obtains signal x where "launch_prepare api fd w = (Ok signal, w\<lparr>ext := (ext w)\<lparr>ae_back := x\<rparr>\<rparr>)" "P x"
proof -
  obtain signal x where d: "duplicate (aa_os api) fd (back_world w) = (Ok signal, (back_world w)\<lparr>ext := x\<rparr>)" "P x"
    using assms(1,2) unfolding announces_def by (metis back_world_simps(1))
  then have "launch_prepare api fd w = (Ok signal, w\<lparr>ext := (ext w)\<lparr>ae_back := x\<rparr>\<rparr>)"
    using assms(3) by (simp add: launch_prepare_def in_backend_def bind_def closure_def runtime_running run_simps)
  then show thesis using d(2) that by blast
qed

text \<open>A start whose body spawned an operation hands out its task.\<close>

lemma run_begin_task:
  assumes "valid_slots slot oerr" and "body (clear_slots {slot, oerr} w) = (Ok task, (clear_slots {slot, oerr} w)\<lparr>ext := e\<rparr>)"
  shows "\<exists>w1. begin_task body slot oerr w = (Returned STATUS_OK, w1) \<and> handed slot (OTask task) w w1 \<and> ext w1 = e \<and>
    inp w1 = inp w \<and> runtime_cell w1 = runtime_cell w"
  using slotsD [OF assms(1)] assms(2)
  by (simp add: begin_task_def catch_status_def run_with_handle_outputs run_deliver bind_def run_simps run_write_handle handed_def)

lemma handed_live:
  assumes "live_at p ob0 w" and "handed slot ob w w'"
  shows "live_at p ob0 w'" and "live_at (next_box w) ob w'" and "o_ptr (out w') slot = next_box w"
  using assms live_atD [OF assms(1)] wf_world_new [of w w' ob] by (simp_all add: live_at_def handed_def)

lemma live_at_ext: "live_at p ob (w\<lparr>ext := e\<rparr>) \<longleftrightarrow> live_at p ob w"
  by (simp add: live_at_def wf_world_def)

text \<open>Once its operation has run, the task is completed, and the caller's handle is as it was.\<close>

lemma run_round:
  assumes live: "live_at p ob w" and task: "handed slot (OTask \<lparr>at_shared = n\<rparr>) w w1"
    and P: "announces api fd P" "P (ae_back e2)" and op: "ae_ops (ext w1) n = Some (kind, Spawned f)"
    and wait: "await_future api f w1 = (Ok work, w1\<lparr>ext := e1\<rparr>)"
    and fin: "finish_work api work (w1\<lparr>ext := e1\<lparr>ae_ops := (ae_ops e1)(n \<mapsto> (kind, Resumed work))\<rparr>\<rparr>) =
      (Ok outcome, w1\<lparr>ext := e2\<rparr>)"
    and running: "ae_tasks e2 n = Some (running_task n signal resource)"
  obtains w2 where "complete_op api n w1 = (Ok (), w2)"
    "task_at (o_ptr (out w1) slot) n (task_shared (running_task n signal resource) (Completed outcome)) w2"
    "live_at p ob w2" "runtime_cell w2 = runtime_cell w1" "inp w2 = inp w1"
    "ae_streams (ext w2) = ae_streams e2" "ae_writers (ext w2) = ae_writers e2" "P (ae_back (ext w2))"
proof -
  have "mx_state (ats_inner (running_task n signal resource)) = \<lparr>ati_state = Running n, ati_signal = Some signal\<rparr>"
    by (simp add: running_task_def)
  moreover have "\<exists>x. notify (aa_os api) signal u = (Ok (), u\<lparr>ext := x\<rparr>) \<and> P x" if "P (ext u)" for u
    using P(1) that by (simp add: announces_def)
  ultimately obtain e where "complete_op api n w1 = (Ok (), w1\<lparr>ext := e\<rparr>)"
    "ae_tasks e n = Some (task_shared (running_task n signal resource) (Completed outcome))"
    "ae_streams e = ae_streams e2" "ae_writers e = ae_writers e2" "P (ae_back e)"
    using run_complete_op [OF op wait fin running, of n signal P] P(2) by blast
  with handed_live [OF live task] show thesis
    by (intro that [of "w1\<lparr>ext := e\<rparr>"]) (simp_all add: task_at_def live_at_ext)
qed

section \<open>Read streams\<close>

text \<open>
  What a session relies on of the backend: \<open>feed bs x\<close> says that in state \<open>x\<close> the stream has the buffers
  \<open>bs\<close> to deliver. Asking for the next buffer delivers the first of them, or the end, and dropping the
  stream after its end succeeds.
\<close>

definition stream_feed :: "'x async_api \<Rightarrow> int \<Rightarrow> token \<Rightarrow> (Buffer list \<Rightarrow> 'x \<Rightarrow> bool) \<Rightarrow> bool" where
  "stream_feed api fd t feed \<longleftrightarrow>
     (\<forall>bs. announces api fd (feed bs)) \<and>
     (\<forall>b bs x. feed (b # bs) x \<longrightarrow> (\<exists>x'. aa_try_next api t x = (XOk (Some b), x') \<and> feed bs x')) \<and>
     (\<forall>x. feed [] x \<longrightarrow> (\<exists>x'. aa_try_next api t x = (XOk None, x') \<and> feed [] x')) \<and>
     (\<forall>x. feed [] x \<longrightarrow> (\<exists>x'. aa_drop_stream api t x = (XOk (), x') \<and> feed [] x'))"

definition async_stream_core :: "AsyncReadStreamState \<Rightarrow> u64 \<Rightarrow> AsyncReadStreamCore" where
  "async_stream_core state n = \<lparr>arsc_state = \<lparr>mx_state = state, mx_poisoned = False\<rparr>, arsc_chunk_size = n\<rparr>"

definition stream_ready :: "addr \<Rightarrow> nat \<Rightarrow> AsyncReadStreamState \<Rightarrow> u64 \<Rightarrow> 'x async_env world \<Rightarrow> bool" where
  "stream_ready p i state n w \<longleftrightarrow>
     live_at p (OAsyncReadStream \<lparr>ars_core = i\<rparr>) w \<and> runtime_cell w = Some (Inr ()) \<and>
     ae_streams (ext w) i = Some (async_stream_core state n)"

abbreviation (input) next_round where
  "next_round api p limit fd slot oerr \<equiv>
     async_round api (async_read_stream_next_start api p limit fd slot oerr)
       (\<lambda>task. async_task_take_buffer api task slot oerr) slot"

lemmas next_start_run = async_read_stream_next_start_body_def bind_def run_simps Let_def with_launch_def closure_def
  stream_section_def lookup_env_def async_stream_core_def take_for_next_def put_stream_def env_do_def spawn_def
  stream_install_abort_def abort_if_def running_task_def lift_res_def

lemma run_next_start:
  assumes "valid_slots slot oerr" and "stream_ready p i (ArsOpen c) n w" and "announces api fd P" and "P (ae_back (ext w))"
  shows "\<exists>signal w1. async_read_stream_next_start api p limit fd slot oerr w = (Returned STATUS_OK, w1) \<and>
    handed slot (OTask \<lparr>at_shared = ae_next (ext w)\<rparr>) w w1 \<and> runtime_cell w1 = Some (Inr ()) \<and> P (ae_back (ext w1)) \<and>
    ae_ops (ext w1) (ae_next (ext w)) = Some (RBuffer, Spawned (FNext i c limit)) \<and>
    ae_tasks (ext w1) (ae_next (ext w)) = Some (running_task (ae_next (ext w)) signal (Some (PoisonReadStream i))) \<and>
    ae_streams (ext w1) i = Some (async_stream_core (ArsBusy (Some (ae_next (ext w)))) n)"
proof -
  let ?w0 = "clear_slots {slot, oerr} w"
  have live: "live_at p (OAsyncReadStream \<lparr>ars_core = i\<rparr>) ?w0" and core: "ae_streams (ext ?w0) i = Some (async_stream_core (ArsOpen c) n)"
    and rt: "runtime_cell ?w0 = Some (Inr ())" using assms(2) by (simp_all add: stream_ready_def live_at_def)
  obtain signal x where l: "launch_prepare api fd ?w0 = (Ok signal, ?w0\<lparr>ext := (ext ?w0)\<lparr>ae_back := x\<rparr>\<rparr>)" "P x"
    using run_announced_launch [OF assms(3) _ rt] assms(4) by auto
  let ?e = "ext (snd (async_read_stream_next_start_body api p limit fd ?w0))"
  have body: "async_read_stream_next_start_body api p limit fd ?w0 = (Ok \<lparr>at_shared = ae_next (ext w)\<rparr>, ?w0\<lparr>ext := ?e\<rparr>) \<and>
      ae_back ?e = x \<and> ae_ops ?e (ae_next (ext w)) = Some (RBuffer, Spawned (FNext i c limit)) \<and>
      ae_tasks ?e (ae_next (ext w)) = Some (running_task (ae_next (ext w)) signal (Some (PoisonReadStream i))) \<and>
      ae_streams ?e i = Some (async_stream_core (ArsBusy (Some (ae_next (ext w)))) n)"
    using live_atD [OF live] l(1) core
    by (simp add: next_start_run)
  from run_begin_task [where body = "async_read_stream_next_start_body api p limit fd", OF assms(1) conjunct1 [OF body]] show ?thesis
    using body l(2) rt by (fastforce simp: async_read_stream_next_start_def)
qed

text \<open>The next buffer of a cursor: the pending one, or the first the backend still has.\<close>

definition feeds_buffer ::
  "AsyncReadStreamCursor \<Rightarrow> Buffer list \<Rightarrow> Buffer \<Rightarrow> Buffer list \<Rightarrow> bool" where
  "feeds_buffer c bs b bs' \<longleftrightarrow> (case acur_pending c of Some b' \<Rightarrow> b = b' \<and> bs' = bs | None \<Rightarrow> bs = b # bs')"

lemma run_next_chunk:
  assumes "stream_feed api fd (acur_stream c) feed" and "feed bs (ae_back (ext w))" and "feeds_buffer c bs b bs'"
    and "splits_exactly (aa_split_to api)" and "n \<noteq> 0" and "unat n \<le> 2147483647" and "n \<le> limit"
    and "ae_streams (ext w) i = Some (async_stream_core state n)"
  obtains c' x where "await_future api (FNext i c limit) w =
      (Ok (WNext i c' NextChunk (outcome_success RBuffer (PayloadBuffer \<lparr>buf_bytes = take (unat n) (concat b)\<rparr>))),
       w\<lparr>ext := (ext w)\<lparr>ae_back := x\<rparr>\<rparr>)"
    "feed bs' x" "acur_stream c' = acur_stream c" "map_option concat (acur_pending c') = leftover (unat n) (concat b)"
proof -
  obtain chunk rest where split: "split_read_stream_buffer (aa_split_to api) b n = Inr (chunk, rest)"
    "concat chunk = take (unat n) (concat b)" "map_option concat rest = leftover (unat n) (concat b)"
    using split_read_stream_exact [OF assms(4), of b n] assms(5) by (auto simp: unat_eq_0)
  have chk: "checked_read_buffer chunk (min limit n) ''async read stream chunk'' = Inr \<lparr>buf_bytes = take (unat n) (concat b)\<rparr>"
    using split(2) assms(6,7) by (simp add: checked_read_buffer_Inr min_absorb2)
  obtain x where "(case acur_pending c of Some buffer \<Rightarrow> ret (Some buffer)
      | None \<Rightarrow> in_backend (ext_call opendal_error (aa_try_next api (acur_stream c)))) w =
      (Ok (Some b), w\<lparr>ext := (ext w)\<lparr>ae_back := x\<rparr>\<rparr>)" and x: "feed bs' x"
  proof (cases "acur_pending c")
    case None
    then have "feed (b # bs') (ae_back (ext w))" using assms(2,3) by (simp add: feeds_buffer_def)
    then obtain x where "aa_try_next api (acur_stream c) (ae_back (ext w)) = (XOk (Some b), x)" "feed bs' x"
      using assms(1) unfolding stream_feed_def by blast
    with that None show thesis by (simp add: in_backend_def ext_call_def Let_def)
  next
    case (Some b')
    with that [of "ae_back (ext w)"] assms(2,3) show thesis by (simp add: feeds_buffer_def run_simps)
  qed
  then have "await_future api (FNext i c limit) w =
      (Ok (WNext i (c\<lparr>acur_pending := rest\<rparr>) NextChunk (outcome_success RBuffer (PayloadBuffer \<lparr>buf_bytes = take (unat n) (concat b)\<rparr>))),
       w\<lparr>ext := (ext w)\<lparr>ae_back := x\<rparr>\<rparr>)"
    using assms(8) split(1) chk
    by (simp add: await_future_def next_future_def bind_def lookup_env_def async_stream_core_def closure_def bounded_chunk_def run_simps)
  then show thesis using x split(3) that [of "c\<lparr>acur_pending := rest\<rparr>" x] by simp
qed

lemma next_round_chunk:
  assumes slots: "valid_slots slot oerr" and ready: "stream_ready p i (ArsOpen c) n w"
    and feed: "stream_feed api fd (acur_stream c) feed" "feed bs (ae_back (ext w))" "feeds_buffer c bs b bs'"
    and chunk: "splits_exactly (aa_split_to api)" "n \<noteq> 0" "unat n \<le> 2147483647" "n \<le> limit"
  shows "\<exists>w' c'. next_round api p limit fd slot oerr w = (Returned STATUS_OK, w') \<and>
    boxes w' (o_ptr (out w') slot) = Some (OBuffer \<lparr>buf_bytes = take (unat n) (concat b)\<rparr>) \<and>
    acur_stream c' = acur_stream c \<and> map_option concat (acur_pending c') = leftover (unat n) (concat b) \<and>
    stream_ready p i (ArsOpen c') n w' \<and> feed bs' (ae_back (ext w'))"
proof -
  let ?N = "ae_next (ext w)" and ?b = "\<lparr>buf_bytes = take (unat n) (concat b)\<rparr>"
  have P: "announces api fd (feed bs)" "announces api fd (feed bs')" using feed(1) by (simp_all add: stream_feed_def)
  obtain signal w1 where w1: "async_read_stream_next_start api p limit fd slot oerr w = (Returned STATUS_OK, w1)"
    "handed slot (OTask \<lparr>at_shared = ?N\<rparr>) w w1" "runtime_cell w1 = Some (Inr ())" "feed bs (ae_back (ext w1))"
    "ae_ops (ext w1) ?N = Some (RBuffer, Spawned (FNext i c limit))"
    "ae_tasks (ext w1) ?N = Some (running_task ?N signal (Some (PoisonReadStream i)))"
    "ae_streams (ext w1) i = Some (async_stream_core (ArsBusy (Some ?N)) n)"
    using run_next_start [where P = "feed bs", OF slots ready P(1) feed(2)] by blast
  obtain c' x where a: "await_future api (FNext i c limit) w1 =
      (Ok (WNext i c' NextChunk (outcome_success RBuffer (PayloadBuffer ?b))), w1\<lparr>ext := (ext w1)\<lparr>ae_back := x\<rparr>\<rparr>)"
    "feed bs' x" "acur_stream c' = acur_stream c" "map_option concat (acur_pending c') = leftover (unat n) (concat b)"
    using run_next_chunk [OF feed(1) w1(4) feed(3) chunk w1(7)] .
  let ?work = "WNext i c' NextChunk (outcome_success RBuffer (PayloadBuffer ?b))" and ?e1 = "(ext w1)\<lparr>ae_back := x\<rparr>"
  let ?e2 = "?e1\<lparr>ae_ops := (ae_ops ?e1)(?N \<mapsto> (RBuffer, Resumed ?work)),
      ae_streams := (ae_streams ?e1)(i \<mapsto> async_stream_core (ArsOpen c') n)\<rparr>"
  have fin: "finish_work api ?work (w1\<lparr>ext := ?e1\<lparr>ae_ops := (ae_ops ?e1)(?N \<mapsto> (RBuffer, Resumed ?work))\<rparr>\<rparr>) =
      (Ok (outcome_success RBuffer (PayloadBuffer ?b)), w1\<lparr>ext := ?e2\<rparr>)"
    using w1(7)
    by (simp add: finish_work_def stream_core_complete_def stream_section_def bind_def lookup_env_def async_stream_core_def
        complete_next_def put_stream_def env_do_def drop_cursor_value_def run_simps)
  have live: "live_at p (OAsyncReadStream \<lparr>ars_core = i\<rparr>) w" using ready by (simp add: stream_ready_def)
  obtain w2 where w2: "complete_op api ?N w1 = (Ok (), w2)"
    "task_at (o_ptr (out w1) slot) ?N (task_shared (running_task ?N signal (Some (PoisonReadStream i)))
      (Completed (outcome_success RBuffer (PayloadBuffer ?b)))) w2"
    "live_at p (OAsyncReadStream \<lparr>ars_core = i\<rparr>) w2" "runtime_cell w2 = runtime_cell w1"
    "ae_streams (ext w2) = ae_streams ?e2" "feed bs' (ae_back (ext w2))"
    by (rule run_round [OF live w1(2) P(2) _ w1(5) a(1) fin]) (use a(2) w1(6) in auto)
  obtain w' where w': "async_task_take_buffer api (o_ptr (out w1) slot) slot oerr w2 = (Returned STATUS_OK, w')"
    "took ?N (running_task ?N signal (Some (PoisonReadStream i))) w2 w'" "handed slot (OBuffer ?b) w2 w'"
    using run_take(1) [OF slots w2(2), of api] by blast
  have "stream_ready p i (ArsOpen c') n w'" "feed bs' (ae_back (ext w'))"
    using handed_live(1) [OF w2(3) w'(3)] w'(2) w1(3) w2(4-6) by (simp_all add: stream_ready_def took_def)
  moreover have "boxes w' (o_ptr (out w') slot) = Some (OBuffer ?b)" using w'(3) by (simp add: handed_def)
  ultimately show ?thesis using w1(1) w2(1) w'(1) a(3,4)
    by (intro exI [of _ w'] exI [of _ c']) (simp add: async_round_def)
qed

lemma took_end_ready:
  assumes "live_at p ob w" and "took n shared w w'" and "boxes w' = boxes w" and "next_box w' = next_box w"
  shows "live_at p ob w'" and "boxes w' 0 = None"
  using assms live_atD(5) [OF assms(1)] wf_no_null [of w] by (auto simp: live_at_def wf_world_def)

lemma ended_round:
  assumes slots: "valid_slots slot oerr" and ready: "stream_ready p i state n w"
    and start: "async_read_stream_next_start api p limit fd slot oerr w = (Returned STATUS_OK, w1)"
      "handed slot (OTask \<lparr>at_shared = ae_next (ext w)\<rparr>) w w1" "runtime_cell w1 = Some (Inr ())"
    and P: "announces api fd P" "P (ae_back e2)" and op: "ae_ops (ext w1) (ae_next (ext w)) = Some (RBuffer, Spawned f)"
    and wait: "await_future api f w1 = (Ok work, w1\<lparr>ext := e1\<rparr>)"
    and fin: "finish_work api work (w1\<lparr>ext := e1\<lparr>ae_ops := (ae_ops e1)(ae_next (ext w) \<mapsto> (RBuffer, Resumed work))\<rparr>\<rparr>) =
      (Ok (outcome_end RBuffer), w1\<lparr>ext := e2\<rparr>)"
    and running: "ae_tasks e2 (ae_next (ext w)) = Some (running_task (ae_next (ext w)) signal resource)"
    and core: "ae_streams e2 i = Some (async_stream_core ArsEnd n)"
  shows "\<exists>w'. next_round api p limit fd slot oerr w = (Returned STATUS_END, w') \<and>
    boxes w' (o_ptr (out w') slot) = None \<and> stream_ready p i ArsEnd n w' \<and> P (ae_back (ext w'))"
proof -
  have live: "live_at p (OAsyncReadStream \<lparr>ars_core = i\<rparr>) w" using ready by (simp add: stream_ready_def)
  let ?N = "ae_next (ext w)"
  obtain w2 where w2: "complete_op api ?N w1 = (Ok (), w2)"
    "task_at (o_ptr (out w1) slot) ?N (task_shared (running_task ?N signal resource) (Completed (outcome_end RBuffer))) w2"
    "live_at p (OAsyncReadStream \<lparr>ars_core = i\<rparr>) w2" "runtime_cell w2 = runtime_cell w1"
    "ae_streams (ext w2) = ae_streams e2" "P (ae_back (ext w2))"
    by (rule run_round [OF live start(2) P op wait fin running]) auto
  obtain w' where w': "async_task_take_buffer api (o_ptr (out w1) slot) slot oerr w2 = (Returned STATUS_END, w')"
    "took ?N (running_task ?N signal resource) w2 w'" "boxes w' = boxes w2" "next_box w' = next_box w2" "o_ptr (out w') slot = 0"
    using run_take_end [OF slots w2(2), of api] by blast
  note l2 = took_end_ready [OF w2(3) w'(2-4)]
  have "stream_ready p i ArsEnd n w'" "P (ae_back (ext w'))"
    using l2(1) w'(2) start(3) w2(4-6) core by (simp_all add: stream_ready_def took_def)
  then show ?thesis using start(1) w2(1) w'(1,5) l2(2) by (intro exI [of _ w']) (simp add: async_round_def)
qed

lemma next_round_end:
  assumes slots: "valid_slots slot oerr" and ready: "stream_ready p i (ArsOpen c) n w" and "acur_pending c = None"
    and feed: "stream_feed api fd (acur_stream c) feed" "feed [] (ae_back (ext w))"
  shows "\<exists>w'. next_round api p limit fd slot oerr w = (Returned STATUS_END, w') \<and>
    boxes w' (o_ptr (out w') slot) = None \<and> stream_ready p i ArsEnd n w' \<and> feed [] (ae_back (ext w'))"
proof -
  let ?N = "ae_next (ext w)"
  have P: "announces api fd (feed [])" using feed(1) by (simp add: stream_feed_def)
  obtain signal w1 where w1: "async_read_stream_next_start api p limit fd slot oerr w = (Returned STATUS_OK, w1)"
    "handed slot (OTask \<lparr>at_shared = ?N\<rparr>) w w1" "runtime_cell w1 = Some (Inr ())" "feed [] (ae_back (ext w1))"
    "ae_ops (ext w1) ?N = Some (RBuffer, Spawned (FNext i c limit))"
    "ae_tasks (ext w1) ?N = Some (running_task ?N signal (Some (PoisonReadStream i)))"
    "ae_streams (ext w1) i = Some (async_stream_core (ArsBusy (Some ?N)) n)"
    using run_next_start [where P = "feed []", OF slots ready P feed(2)] by blast
  obtain x where x: "aa_try_next api (acur_stream c) (ae_back (ext w1)) = (XOk None, x)" "feed [] x"
    using feed(1) w1(4) unfolding stream_feed_def by blast
  obtain y where y: "aa_drop_stream api (acur_stream c) x = (XOk (), y)" "feed [] y"
    using feed(1) x(2) unfolding stream_feed_def by blast
  let ?work = "WNext i c NextEnd (outcome_end RBuffer)" and ?e1 = "(ext w1)\<lparr>ae_back := x\<rparr>"
  let ?e2 = "?e1\<lparr>ae_ops := (ae_ops ?e1)(?N \<mapsto> (RBuffer, Resumed ?work)),
      ae_streams := (ae_streams ?e1)(i \<mapsto> async_stream_core ArsEnd n), ae_back := y\<rparr>"
  have a: "await_future api (FNext i c limit) w1 = (Ok ?work, w1\<lparr>ext := ?e1\<rparr>)"
    using w1(7) assms(3) x(1)
    by (simp add: await_future_def next_future_def bind_def lookup_env_def closure_def in_backend_def ext_call_def
        Let_def run_simps)
  have fin: "finish_work api ?work (w1\<lparr>ext := ?e1\<lparr>ae_ops := (ae_ops ?e1)(?N \<mapsto> (RBuffer, Resumed ?work))\<rparr>\<rparr>) =
      (Ok (outcome_end RBuffer), w1\<lparr>ext := ?e2\<rparr>)"
    using w1(7) y(1)
    by (simp add: finish_work_def stream_core_complete_def stream_section_def bind_def lookup_env_def async_stream_core_def
        complete_next_def put_stream_def env_do_def drop_cursor_value_def in_backend_def drop_value_def Let_def run_simps
        back_world_def front_world_def)
  show ?thesis
    by (rule ended_round [OF slots ready w1(1,2,3) P _ w1(5) a fin]) (use y(2) w1(6) in auto)
qed

lemma next_round_ended:
  assumes slots: "valid_slots slot oerr" and ready: "stream_ready p i ArsEnd n w"
    and P: "announces api fd P" "P (ae_back (ext w))"
  shows "\<exists>w'. next_round api p limit fd slot oerr w = (Returned STATUS_END, w') \<and>
    boxes w' (o_ptr (out w') slot) = None \<and> stream_ready p i ArsEnd n w' \<and> P (ae_back (ext w'))"
proof -
  let ?w0 = "clear_slots {slot, oerr} w" and ?N = "ae_next (ext w)" and ?f = "FReady (outcome_end RBuffer)"
  have live: "live_at p (OAsyncReadStream \<lparr>ars_core = i\<rparr>) ?w0" and core: "ae_streams (ext ?w0) i = Some (async_stream_core ArsEnd n)"
    and rt: "runtime_cell ?w0 = Some (Inr ())" using ready by (simp_all add: stream_ready_def live_at_def)
  obtain signal x where l: "launch_prepare api fd ?w0 = (Ok signal, ?w0\<lparr>ext := (ext ?w0)\<lparr>ae_back := x\<rparr>\<rparr>)" "P x"
    using run_announced_launch [OF P(1) _ rt] P(2) by auto
  have "\<exists>e. async_read_stream_next_start_body api p limit fd ?w0 = (Ok \<lparr>at_shared = ?N\<rparr>, ?w0\<lparr>ext := e\<rparr>) \<and>
      ae_back e = x \<and> ae_ops e ?N = Some (RBuffer, Spawned ?f) \<and>
      ae_tasks e ?N = Some (running_task ?N signal (Some (PoisonReadStream i))) \<and>
      ae_streams e i = Some (async_stream_core ArsEnd n)"
    using live_atD [OF live] l(1) core
    by (intro exI [of _ "ext (snd (async_read_stream_next_start_body api p limit fd ?w0))"]) (simp add: next_start_run)
  then obtain e where body: "async_read_stream_next_start_body api p limit fd ?w0 = (Ok \<lparr>at_shared = ?N\<rparr>, ?w0\<lparr>ext := e\<rparr>)"
    and e: "ae_back e = x" "ae_ops e ?N = Some (RBuffer, Spawned ?f)"
      "ae_tasks e ?N = Some (running_task ?N signal (Some (PoisonReadStream i)))" "ae_streams e i = Some (async_stream_core ArsEnd n)"
    by blast
  obtain w1 where w1: "async_read_stream_next_start api p limit fd slot oerr w = (Returned STATUS_OK, w1)"
    "handed slot (OTask \<lparr>at_shared = ?N\<rparr>) w w1" "ext w1 = e" "runtime_cell w1 = Some (Inr ())"
    using run_begin_task [where body = "async_read_stream_next_start_body api p limit fd", OF slots body] rt
    unfolding async_read_stream_next_start_def by auto
  let ?work = "WReady (outcome_end RBuffer)"
  show ?thesis
  proof (rule ended_round [OF slots ready w1(1,2,4) P(1)])
    show "await_future api ?f w1 = (Ok ?work, w1\<lparr>ext := e\<rparr>)" using w1(3) by (simp add: await_future_def run_simps)
    let ?e2 = "e\<lparr>ae_ops := (ae_ops e)(?N \<mapsto> (RBuffer, Resumed ?work))\<rparr>"
    show "finish_work api ?work (w1\<lparr>ext := ?e2\<rparr>) = (Ok (outcome_end RBuffer), w1\<lparr>ext := ?e2\<rparr>)"
      by (simp add: finish_work_def run_simps)
  qed (use e l(2) w1(3) in simp_all)
qed

lemma next_drive_ended:
  assumes "valid_slots slot oerr" and "announces api fd P" and "stream_ready p i ArsEnd n w" and "P (ae_back (ext w))"
  shows "fst (drive k (next_round api p limit fd slot oerr) slot w) = replicate k (Returned STATUS_END, None)"
proof -
  let ?P = "\<lambda>w. stream_ready p i ArsEnd n w \<and> P (ae_back (ext w))"
  have "fst (drive k (next_round api p limit fd slot oerr) slot w) = replicate k (Returned STATUS_END, None) \<and>
      ?P (snd (drive k (next_round api p limit fd slot oerr) slot w))"
  proof (rule drive_stuck [where P = ?P])
    show "?P w" using assms(3,4) by simp
    show "\<exists>w1. next_round api p limit fd slot oerr w' = (Returned STATUS_END, w1) \<and> ?P w1 \<and>
        boxes w1 (o_ptr (out w1) slot) = None" if "?P w'" for w'
      using next_round_ended [OF assms(1) _ assms(2), of p i n w' limit] that by blast
  qed
  then show ?thesis by simp
qed

lemma next_drive:
  assumes slots: "valid_slots slot oerr" and split: "splits_exactly (aa_split_to api)"
    and n: "n \<noteq> 0" "unat n \<le> 2147483647" "n \<le> limit" and feed: "stream_feed api fd t feed"
  shows "stream_ready p i (ArsOpen c) n w \<Longrightarrow> acur_stream c = t \<Longrightarrow> map_option concat (acur_pending c) = pend \<Longrightarrow>
    feed bufs (ae_back (ext w)) \<Longrightarrow> map concat bufs = bss \<Longrightarrow>
    fst (drive (length (all_chunks (unat n) pend bss) + Suc k) (next_round api p limit fd slot oerr) slot w) =
      map (\<lambda>b. (Returned STATUS_OK, Some (OBuffer \<lparr>buf_bytes = b\<rparr>))) (all_chunks (unat n) pend bss) @
      replicate (Suc k) (Returned STATUS_END, None)"
proof (induction "unat n" pend bss arbitrary: c w bufs rule: all_chunks.induct)
  case (1 b bs)
  then obtain b' where b': "acur_pending c = Some b'" "concat b' = b" by auto
  then have "feeds_buffer c bufs b' bufs" by (simp add: feeds_buffer_def)
  from next_round_chunk [where feed = feed and fd = fd, OF slots 1(2) _ 1(5) this split n] feed 1(3)
  obtain w1 c1 where "next_round api p limit fd slot oerr w = (Returned STATUS_OK, w1)"
    "boxes w1 (o_ptr (out w1) slot) = Some (OBuffer \<lparr>buf_bytes = take (unat n) (concat b')\<rparr>)" "acur_stream c1 = acur_stream c"
    "map_option concat (acur_pending c1) = leftover (unat n) (concat b')" "stream_ready p i (ArsOpen c1) n w1"
    "feed bufs (ae_back (ext w1))" by blast
  with 1(1) [of c1 w1 bufs] 1(3,6) b' show ?case by (simp add: drive_Suc)
next
  case (2 b bs)
  then obtain b' bufs' where b': "bufs = b' # bufs'" "concat b' = b" "map concat bufs' = bs" by auto
  then have "feeds_buffer c bufs b' bufs'" using 2(4) by (simp add: feeds_buffer_def)
  from next_round_chunk [where feed = feed and fd = fd, OF slots 2(2) _ 2(5) this split n] feed 2(3)
  obtain w1 c1 where "next_round api p limit fd slot oerr w = (Returned STATUS_OK, w1)"
    "boxes w1 (o_ptr (out w1) slot) = Some (OBuffer \<lparr>buf_bytes = take (unat n) (concat b')\<rparr>)" "acur_stream c1 = acur_stream c"
    "map_option concat (acur_pending c1) = leftover (unat n) (concat b')" "stream_ready p i (ArsOpen c1) n w1"
    "feed bufs' (ae_back (ext w1))" by blast
  with 2(1) [of c1 w1 bufs'] 2(3) b' show ?case by (simp add: drive_Suc)
next
  case 3
  then obtain w1 where "next_round api p limit fd slot oerr w = (Returned STATUS_END, w1)" "boxes w1 (o_ptr (out w1) slot) = None"
    "stream_ready p i ArsEnd n w1" "feed [] (ae_back (ext w1))"
    using next_round_end [OF slots 3(1), of api fd feed limit] feed by auto
  moreover have "announces api fd (feed [])" using feed by (simp add: stream_feed_def)
  ultimately show ?case
    using next_drive_ended [OF slots, of api fd "feed []" p i n w1 k limit] by (simp add: drive_Suc)
qed

text \<open>
  C7. An asynchronous stream delivers the object unchanged. On an open stream, starting a read, waiting for
  its announcement and taking its result, again and again, hands out chunks of at most the negotiated
  size whose concatenation is exactly what the backend yields, then the end at every later round.
\<close>

theorem async_stream_delivers:
  assumes "valid_slots slot oerr" and "splits_exactly (aa_split_to api)"
    and "n \<noteq> 0" and "unat n \<le> 2147483647" and "n \<le> limit" and "stream_feed api fd t feed"
    and "stream_ready p i (ArsOpen \<lparr>acur_stream = t, acur_pending = None\<rparr>) n w" and "feed bufs (ae_back (ext w))"
  shows "\<exists>chunks. concat chunks = concat (concat bufs) \<and> (\<forall>c \<in> set chunks. length c \<le> unat n) \<and>
    (\<forall>k. fst (drive (length chunks + Suc k)
           (async_round api (async_read_stream_next_start api p limit fd slot oerr)
              (\<lambda>task. async_task_take_buffer api task slot oerr) slot) slot w) =
      map (\<lambda>b. (Returned STATUS_OK, Some (OBuffer \<lparr>buf_bytes = b\<rparr>))) chunks @
      replicate (Suc k) (Returned STATUS_END, None))"
proof -
  let ?chunks = "all_chunks (unat n) None (map concat bufs)"
  have "concat ?chunks = concat (concat bufs)"
    using assms(3) by (simp add: all_chunks_concat unat_gt_0 concat_map_concat)
  moreover have "\<forall>c \<in> set ?chunks. length c \<le> unat n" using all_chunks_bound by blast
  ultimately show ?thesis
    using next_drive [OF assms(1-7) _ _ assms(8) refl] by (intro exI [of _ ?chunks]) simp
qed

text \<open>A host whose pipe always works, with a backend whose state is the buffers it has left.\<close>

definition still_posix :: "'x posix" where
  "still_posix = \<lparr>px_dup = (\<lambda>fd x. (Inr 6, x)), px_close = (\<lambda>t x. x), px_getfl = (\<lambda>t x. (O_NONBLOCK OR 1, x)),
     px_fstat = (\<lambda>t x. (Some S_IFIFO, x)), px_errno = (\<lambda>x. None), px_error_text = (\<lambda>x. []),
     px_sigset = (\<lambda>x. Some {SIGPIPE}), px_block = (\<lambda>S x. (Some {}, x)), px_setmask = (\<lambda>S x. x),
     px_sigpending = (\<lambda>x. (Some {}, x)), px_sigtimedwait = (\<lambda>S x. x), px_write = (\<lambda>t bs x. (1, x))\<rparr>"

definition feeding_api :: "Buffer list async_api" where
  "feeding_api = \<lparr>aa_build_runtime = (\<lambda>x. (True, x)), aa_os = still_posix, aa_grow = (\<lambda>n. n),
     aa_split_to = (\<lambda>b n. ([take n (concat b)], [drop n (concat b)])),
     aa_reader = (\<lambda>_ _ _ x. (XOk 3, x)), aa_stream_items = (\<lambda>_ _ x. (XOk (map XOk x), [])),
     aa_into_stream = (\<lambda>_ _ x. (XOk 4, x)),
     aa_try_next = (\<lambda>_ x. case x of [] \<Rightarrow> (XOk None, []) | b # bs \<Rightarrow> (XOk (Some b), bs)),
     aa_drop_stream = (\<lambda>_ x. (XOk (), x)), aa_writer = (\<lambda>_ _ _ x. (XOk 5, x)),
     aa_write = (\<lambda>_ piece x. (XOk (), x @ [[piece]])), aa_close = (\<lambda>_ x. (XOk sample_file, x)),
     aa_abort = (\<lambda>_ x. (XOk (), x)), aa_drop_writer = (\<lambda>_ x. (XOk (), x))\<rparr>"

lemma still_announces: "aa_os api = still_posix \<Longrightarrow> announces api 5 P"
proof -
  have "write_completion_byte still_posix signal x = Some (None, x)" for signal and x :: 'a
    by (subst write_completion_byte.simps) (simp add: still_posix_def)
  then have "notify still_posix signal u = (Ok (), u\<lparr>ext := ext u\<rparr>)" for signal and u :: "'a world"
    by (simp add: notify_def notify_body_def bind_def os_read_def os_call_def os_do_def signal_byte_def run_simps
        still_posix_def Let_def)
  moreover have "duplicate still_posix 5 u = (Ok 6, u\<lparr>ext := ext u\<rparr>)" for u :: "'a world"
    by (simp add: duplicate_def unix_duplicate_def bind_def os_call_def run_simps still_posix_def Let_def
        O_NONBLOCK_def O_ACCMODE_def O_RDONLY_def S_IFIFO_def S_IFMT_def)
  moreover have "\<exists>x. u = u\<lparr>ext := x\<rparr> \<and> P x" if "P (ext u)" for u :: "'a world"
    using that by (intro exI [of _ "ext u"]) simp
  ultimately show "announces api 5 P" if "aa_os api = still_posix" using that
    by (auto simp: announces_def) (simp add: still_posix_def)
qed

theorem async_stream_delivers_witness:
  "\<exists>chunks. concat chunks = [1, 2, 3, 4] \<and> (\<forall>c \<in> set chunks. length c \<le> 2) \<and>
    (\<forall>k. fst (drive (length chunks + Suc k)
        (async_round feeding_api (async_read_stream_next_start feeding_api 16 9 5 64 72)
           (\<lambda>task. async_task_take_buffer feeding_api task 64 72) 64) 64
        ((sample_with (OAsyncReadStream \<lparr>ars_core = 7\<rparr>) ((sample_env [[[1, 2, 3]], [[4]]])\<lparr>ae_streams :=
           [7 \<mapsto> async_stream_core (ArsOpen \<lparr>acur_stream = 4, acur_pending = None\<rparr>) 2]\<rparr>))\<lparr>runtime_cell := Some (Inr ())\<rparr>)) =
      map (\<lambda>b. (Returned STATUS_OK, Some (OBuffer \<lparr>buf_bytes = b\<rparr>))) chunks @
      replicate (Suc k) (Returned STATUS_END, None))"
proof -
  let ?e = "(sample_env [[[1, 2, 3]], [[4]]])\<lparr>ae_streams :=
      [7 \<mapsto> async_stream_core (ArsOpen \<lparr>acur_stream = 4, acur_pending = None\<rparr>) 2]\<rparr>"
  let ?w = "(sample_with (OAsyncReadStream \<lparr>ars_core = 7\<rparr>) ?e)\<lparr>runtime_cell := Some (Inr ())\<rparr>"
  have "stream_feed feeding_api 5 4 (\<lambda>bs x. x = bs)"
    using still_announces [of feeding_api] by (simp add: stream_feed_def feeding_api_def)
  moreover have "stream_ready 16 7 (ArsOpen \<lparr>acur_stream = 4, acur_pending = None\<rparr>) 2 ?w"
    using wf_sample_with [of "OAsyncReadStream \<lparr>ars_core = 7\<rparr>" ?e]
    by (simp add: stream_ready_def live_at_def wf_world_def)
  moreover have "ae_back (ext ?w) = [[[1, 2, 3]], [[4]]]" by (simp add: sample_env_def)
  ultimately show ?thesis
    using async_stream_delivers [of 64 72 feeding_api 2 9 5 4 "\<lambda>bs x. x = bs" 16 7 ?w "[[[1, 2, 3]], [[4]]]"]
    by (simp add: valid_slots_def splits_exactly_def feeding_api_def)
qed

end
