(* ===== verification/AsyncWriterSession.thy ===== *)
theory AsyncWriterSession
  imports AsyncSession
begin

text \<open>
  A whole session on an asynchronous writer: pieces are written one after the other, each with its own
  start, announcement and take; the writer is finished and hands out the metadata; what is started on
  it afterwards is refused and does not reach the backend.
\<close>

section \<open>The writer and its backend\<close>

text \<open>
  What a session relies on of the backend: \<open>sink ds x\<close> says that in state \<open>x\<close> the writer was given the
  pieces \<open>ds\<close>. Writing adds a piece, closing yields the metadata, and dropping the writer succeeds.
\<close>

definition writer_sink :: "'x async_api \<Rightarrow> int \<Rightarrow> token \<Rightarrow> Metadata \<Rightarrow> (u8 list list \<Rightarrow> 'x \<Rightarrow> bool) \<Rightarrow> bool" where
  "writer_sink api fd t metadata sink \<longleftrightarrow>
     (\<forall>ds. announces api fd (sink ds)) \<and>
     (\<forall>ds d x. sink ds x \<longrightarrow> (\<exists>x'. aa_write api t d x = (XOk (), x') \<and> sink (ds @ [d]) x')) \<and>
     (\<forall>ds x. sink ds x \<longrightarrow> (\<exists>x'. aa_close api t x = (XOk metadata, x') \<and> sink ds x')) \<and>
     (\<forall>ds x. sink ds x \<longrightarrow> (\<exists>x'. aa_drop_writer api t x = (XOk (), x') \<and> sink ds x'))"

definition async_writer_core :: "AsyncWriterState \<Rightarrow> AsyncWriterCore" where
  "async_writer_core state = \<lparr>awc_state = \<lparr>mx_state = state, mx_poisoned = False\<rparr>\<rparr>"

definition writer_ready :: "addr \<Rightarrow> nat \<Rightarrow> AsyncWriterState \<Rightarrow> inputs \<Rightarrow> 'x async_env world \<Rightarrow> bool" where
  "writer_ready p i state m w \<longleftrightarrow>
     live_at p (OAsyncWriter \<lparr>aw_core = i\<rparr>) w \<and> runtime_cell w = Some (Inr ()) \<and> inp w = m \<and>
     ae_writers (ext w) i = Some (async_writer_core state)"

lemmas writer_start_run = async_writer_write_start_body_def async_writer_finish_start_body_def own_writer_def
  spawn_writer_op_def bind_def run_simps Let_def with_launch_def closure_def writer_section_def lookup_env_def
  async_writer_core_def take_for_call_def put_writer_def env_do_def spawn_def writer_install_abort_def abort_if_def
  running_task_def lift_res_def with_inputs_def

text \<open>A start on an open writer spawns its future and leaves the writer busy.\<close>

lemma run_writer_start:
  assumes slots: "valid_slots slot oerr" and ready: "writer_ready p i state m w" and P: "announces api fd P" "P (ae_back (ext w))"
    and start: "\<And>signal x. P x \<Longrightarrow> launch_prepare api fd (clear_slots {slot, oerr} w) =
        (Ok signal, (clear_slots {slot, oerr} w)\<lparr>ext := (ext w)\<lparr>ae_back := x\<rparr>\<rparr>) \<Longrightarrow>
      \<exists>e. body (clear_slots {slot, oerr} w) = (Ok \<lparr>at_shared = ae_next (ext w)\<rparr>, (clear_slots {slot, oerr} w)\<lparr>ext := e\<rparr>) \<and>
        ae_back e = x \<and> ae_ops e (ae_next (ext w)) = Some (kind, Spawned f) \<and>
        ae_tasks e (ae_next (ext w)) = Some (running_task (ae_next (ext w)) signal (Some (PoisonWriter i))) \<and>
        ae_writers e i = Some (async_writer_core (AwBusy (Some (ae_next (ext w)))))"
  obtains signal w1 where "begin_task body slot oerr w = (Returned STATUS_OK, w1)"
    "handed slot (OTask \<lparr>at_shared = ae_next (ext w)\<rparr>) w w1" "runtime_cell w1 = Some (Inr ())" "inp w1 = m" "P (ae_back (ext w1))"
    "ae_ops (ext w1) (ae_next (ext w)) = Some (kind, Spawned f)"
    "ae_tasks (ext w1) (ae_next (ext w)) = Some (running_task (ae_next (ext w)) signal (Some (PoisonWriter i)))"
    "ae_writers (ext w1) i = Some (async_writer_core (AwBusy (Some (ae_next (ext w)))))"
proof -
  let ?w0 = "clear_slots {slot, oerr} w"
  have rt: "runtime_cell ?w0 = Some (Inr ())" using ready by (simp add: writer_ready_def)
  obtain signal x where l: "launch_prepare api fd ?w0 = (Ok signal, ?w0\<lparr>ext := (ext ?w0)\<lparr>ae_back := x\<rparr>\<rparr>)" "P x"
    using run_announced_launch [OF P(1) _ rt] P(2) by auto
  then have l': "launch_prepare api fd ?w0 = (Ok signal, ?w0\<lparr>ext := (ext w)\<lparr>ae_back := x\<rparr>\<rparr>)" by simp
  from start [OF l(2) l'] obtain e where body: "body ?w0 = (Ok \<lparr>at_shared = ae_next (ext w)\<rparr>, ?w0\<lparr>ext := e\<rparr>)"
    and e: "ae_back e = x" "ae_ops e (ae_next (ext w)) = Some (kind, Spawned f)"
      "ae_tasks e (ae_next (ext w)) = Some (running_task (ae_next (ext w)) signal (Some (PoisonWriter i)))"
      "ae_writers e i = Some (async_writer_core (AwBusy (Some (ae_next (ext w)))))" by blast
  obtain w1 where "begin_task body slot oerr w = (Returned STATUS_OK, w1)"
    "handed slot (OTask \<lparr>at_shared = ae_next (ext w)\<rparr>) w w1" "ext w1 = e" "inp w1 = inp w" "runtime_cell w1 = runtime_cell w"
    using run_begin_task [where body = body, OF slots body] by blast
  then show thesis using e l(2) ready by (intro that [of w1 signal]) (auto simp: writer_ready_def)
qed

section \<open>Writing\<close>

abbreviation (input) async_write_round where
  "async_write_round api p fd slot oerr data \<equiv>
     async_round api (async_writer_write_start api p data fd slot oerr) (\<lambda>task. async_task_take_unit api task oerr) slot"

abbreviation (input) async_finish_round where
  "async_finish_round api p fd slot oerr \<equiv>
     async_round api (async_writer_finish_start api p fd slot oerr) (\<lambda>task. async_task_take_metadata api task slot oerr) slot"

lemma run_take_unit:
  assumes "8 dvd oerr" and at: "task_at t n (task_shared shared (Completed (outcome_success RUnit PayloadUnit))) w"
  shows "\<exists>w'. async_task_take_unit api t oerr w = (Returned STATUS_OK, w') \<and> took n shared w w' \<and>
    boxes w' = boxes w \<and> next_box w' = next_box w"
  using assms live_atD [OF conjunct1 [OF at [unfolded task_at_def]]]
  by (simp add: async_task_take_unit_def take_run run_with_error_output task_at_def outcome_success_def drop_payload_def took_def)

lemma write_round_accepts:
  assumes slots: "valid_slots slot oerr" and ready: "writer_ready p i (AwOpen t) m w"
    and sink: "writer_sink api fd t metadata sink" "sink ds (ae_back (ext w))" and d: "read_binary m data = Inr d"
  shows "\<exists>w'. async_write_round api p fd slot oerr data w = (Returned STATUS_OK, w') \<and>
    writer_ready p i (AwOpen t) m w' \<and> sink (ds @ [d]) (ae_back (ext w'))"
proof -
  let ?N = "ae_next (ext w)" and ?w0 = "clear_slots {slot, oerr} w" and ?res = "Some (PoisonWriter i)"
  have live: "live_at p (OAsyncWriter \<lparr>aw_core = i\<rparr>) w" and core: "ae_writers (ext w) i = Some (async_writer_core (AwOpen t))"
    and m: "inp w = m" using ready by (simp_all add: writer_ready_def)
  have P: "announces api fd (sink ds)" "announces api fd (sink (ds @ [d]))" using sink(1) by (simp_all add: writer_sink_def)
  obtain signal w1 where w1: "begin_task (async_writer_write_start_body api p data fd) slot oerr w = (Returned STATUS_OK, w1)"
    "handed slot (OTask \<lparr>at_shared = ?N\<rparr>) w w1" "runtime_cell w1 = Some (Inr ())" "inp w1 = m" "sink ds (ae_back (ext w1))"
    "ae_ops (ext w1) ?N = Some (RUnit, Spawned (FWrite i t d))" "ae_tasks (ext w1) ?N = Some (running_task ?N signal ?res)"
    "ae_writers (ext w1) i = Some (async_writer_core (AwBusy (Some ?N)))"
  proof (rule run_writer_start [OF slots ready, where P = "sink ds" and body = "async_writer_write_start_body api p data fd"
        and kind = RUnit and f = "FWrite i t d"])
    fix signal x
    assume "launch_prepare api fd ?w0 = (Ok signal, ?w0\<lparr>ext := (ext w)\<lparr>ae_back := x\<rparr>\<rparr>)"
    then show "\<exists>e. async_writer_write_start_body api p data fd ?w0 = (Ok \<lparr>at_shared = ?N\<rparr>, ?w0\<lparr>ext := e\<rparr>) \<and> ae_back e = x \<and>
        ae_ops e ?N = Some (RUnit, Spawned (FWrite i t d)) \<and> ae_tasks e ?N = Some (running_task ?N signal ?res) \<and>
        ae_writers e i = Some (async_writer_core (AwBusy (Some ?N)))"
      using live_atD [OF live] core d m
      by (intro exI [of _ "ext (snd (async_writer_write_start_body api p data fd ?w0))"]) (simp add: writer_start_run)
  qed (use P(1) sink(2) in auto)
  obtain x where x: "aa_write api t d (ae_back (ext w1)) = (XOk (), x)" "sink (ds @ [d]) x"
    using sink(1) w1(5) unfolding writer_sink_def by blast
  let ?work = "WWriter i t CompOpen (outcome_success RUnit PayloadUnit)" and ?e1 = "(ext w1)\<lparr>ae_back := x\<rparr>"
  let ?e2 = "?e1\<lparr>ae_ops := (ae_ops ?e1)(?N \<mapsto> (RUnit, Resumed ?work)),
      ae_writers := (ae_writers ?e1)(i \<mapsto> async_writer_core (AwOpen t))\<rparr>"
  have a: "await_future api (FWrite i t d) w1 = (Ok ?work, w1\<lparr>ext := ?e1\<rparr>)"
    using x(1) by (simp add: await_future_def unit_future_def bind_def closure_def in_backend_def ext_call_def Let_def run_simps)
  have fin: "finish_work api ?work (w1\<lparr>ext := ?e1\<lparr>ae_ops := (ae_ops ?e1)(?N \<mapsto> (RUnit, Resumed ?work))\<rparr>\<rparr>) =
      (Ok (outcome_success RUnit PayloadUnit), w1\<lparr>ext := ?e2\<rparr>)"
    using w1(8)
    by (simp add: finish_work_def writer_core_complete_def writer_section_def bind_def lookup_env_def async_writer_core_def
        complete_writer_def put_writer_def env_do_def drop_writer_value_def run_simps)
  obtain w2 where w2: "complete_op api ?N w1 = (Ok (), w2)"
    "task_at (o_ptr (out w1) slot) ?N (task_shared (running_task ?N signal ?res) (Completed (outcome_success RUnit PayloadUnit))) w2"
    "live_at p (OAsyncWriter \<lparr>aw_core = i\<rparr>) w2" "runtime_cell w2 = runtime_cell w1" "inp w2 = inp w1"
    "ae_writers (ext w2) = ae_writers ?e2" "sink (ds @ [d]) (ae_back (ext w2))"
    by (rule run_round [OF live w1(2) P(2) _ w1(6) a fin]) (use x(2) w1(7) in auto)
  have oerr: "8 dvd oerr" using slots by (simp add: valid_slots_def)
  obtain w' where w': "async_task_take_unit api (o_ptr (out w1) slot) oerr w2 = (Returned STATUS_OK, w')"
    "took ?N (running_task ?N signal ?res) w2 w'" "boxes w' = boxes w2" "next_box w' = next_box w2"
    using run_take_unit [OF oerr w2(2), of api] by blast
  have "writer_ready p i (AwOpen t) m w'" "sink (ds @ [d]) (ae_back (ext w'))"
    using took_end_ready(1) [OF w2(3) w'(2-4)] w'(2) w1(3,4) w2(4-7) by (simp_all add: writer_ready_def took_def)
  then show ?thesis using w1(1) w2(1) w'(1)
    by (intro exI [of _ w']) (simp add: async_round_def async_writer_write_start_def)
qed

section \<open>Finishing\<close>

lemma finish_round_accepts:
  assumes slots: "valid_slots slot oerr" and ready: "writer_ready p i (AwOpen t) m w"
    and sink: "writer_sink api fd t metadata sink" "sink ds (ae_back (ext w))" and v: "checked_metadata metadata = Inr v"
  shows "\<exists>w'. async_finish_round api p fd slot oerr w = (Returned STATUS_OK, w') \<and>
    boxes w' (o_ptr (out w') slot) = Some (OMetadata v) \<and>
    writer_ready p i AwFinished m w' \<and> sink ds (ae_back (ext w'))"
proof -
  let ?N = "ae_next (ext w)" and ?w0 = "clear_slots {slot, oerr} w" and ?res = "Some (PoisonWriter i)"
  let ?out = "outcome_success RMetadata (PayloadMetadata v)"
  have live: "live_at p (OAsyncWriter \<lparr>aw_core = i\<rparr>) w" and core: "ae_writers (ext w) i = Some (async_writer_core (AwOpen t))"
    using ready by (simp_all add: writer_ready_def)
  have P: "announces api fd (sink ds)" using sink(1) by (simp add: writer_sink_def)
  obtain signal w1 where w1: "begin_task (async_writer_finish_start_body api p fd) slot oerr w = (Returned STATUS_OK, w1)"
    "handed slot (OTask \<lparr>at_shared = ?N\<rparr>) w w1" "runtime_cell w1 = Some (Inr ())" "inp w1 = m" "sink ds (ae_back (ext w1))"
    "ae_ops (ext w1) ?N = Some (RMetadata, Spawned (FFinish i t))" "ae_tasks (ext w1) ?N = Some (running_task ?N signal ?res)"
    "ae_writers (ext w1) i = Some (async_writer_core (AwBusy (Some ?N)))"
  proof (rule run_writer_start [OF slots ready, where P = "sink ds" and body = "async_writer_finish_start_body api p fd"
        and kind = RMetadata and f = "FFinish i t"])
    fix signal x
    assume "launch_prepare api fd ?w0 = (Ok signal, ?w0\<lparr>ext := (ext w)\<lparr>ae_back := x\<rparr>\<rparr>)"
    then show "\<exists>e. async_writer_finish_start_body api p fd ?w0 = (Ok \<lparr>at_shared = ?N\<rparr>, ?w0\<lparr>ext := e\<rparr>) \<and> ae_back e = x \<and>
        ae_ops e ?N = Some (RMetadata, Spawned (FFinish i t)) \<and> ae_tasks e ?N = Some (running_task ?N signal ?res) \<and>
        ae_writers e i = Some (async_writer_core (AwBusy (Some ?N)))"
      using live_atD [OF live] core
      by (intro exI [of _ "ext (snd (async_writer_finish_start_body api p fd ?w0))"]) (simp add: writer_start_run)
  qed (use P sink(2) in auto)
  obtain x where x: "aa_close api t (ae_back (ext w1)) = (XOk metadata, x)" "sink ds x"
    using sink(1) w1(5) unfolding writer_sink_def by blast
  obtain y where y: "aa_drop_writer api t x = (XOk (), y)" "sink ds y"
    using sink(1) x(2) unfolding writer_sink_def by blast
  let ?work = "WWriter i t CompFinished ?out" and ?e1 = "(ext w1)\<lparr>ae_back := x\<rparr>"
  let ?e2 = "?e1\<lparr>ae_ops := (ae_ops ?e1)(?N \<mapsto> (RMetadata, Resumed ?work)),
      ae_writers := (ae_writers ?e1)(i \<mapsto> async_writer_core AwFinished), ae_back := y\<rparr>"
  have a: "await_future api (FFinish i t) w1 = (Ok ?work, w1\<lparr>ext := ?e1\<rparr>)"
    using x(1) v
    by (simp add: await_future_def finish_future_def bind_def closure_def in_backend_def ext_call_def Let_def run_simps lift_res_def)
  have fin: "finish_work api ?work (w1\<lparr>ext := ?e1\<lparr>ae_ops := (ae_ops ?e1)(?N \<mapsto> (RMetadata, Resumed ?work))\<rparr>\<rparr>) =
      (Ok ?out, w1\<lparr>ext := ?e2\<rparr>)"
    using w1(8) y(1)
    by (simp add: finish_work_def writer_core_complete_def writer_section_def bind_def lookup_env_def async_writer_core_def
        complete_writer_def put_writer_def env_do_def drop_writer_value_def in_backend_def drop_value_def Let_def run_simps
        back_world_def front_world_def)
  obtain w2 where w2: "complete_op api ?N w1 = (Ok (), w2)"
    "task_at (o_ptr (out w1) slot) ?N (task_shared (running_task ?N signal ?res) (Completed ?out)) w2"
    "live_at p (OAsyncWriter \<lparr>aw_core = i\<rparr>) w2" "runtime_cell w2 = runtime_cell w1" "inp w2 = inp w1"
    "ae_writers (ext w2) = ae_writers ?e2" "sink ds (ae_back (ext w2))"
    by (rule run_round [OF live w1(2) P _ w1(6) a fin]) (use y(2) w1(7) in auto)
  obtain w' where w': "async_task_take_metadata api (o_ptr (out w1) slot) slot oerr w2 = (Returned STATUS_OK, w')"
    "took ?N (running_task ?N signal ?res) w2 w'" "handed slot (OMetadata v) w2 w'"
    using run_take(2) [OF slots w2(2), of api] by blast
  have "writer_ready p i AwFinished m w'" "sink ds (ae_back (ext w'))"
    using handed_live(1) [OF w2(3) w'(3)] w'(2) w1(3,4) w2(4-7) by (simp_all add: writer_ready_def took_def)
  moreover have "boxes w' (o_ptr (out w') slot) = Some (OMetadata v)" using w'(3) by (simp add: handed_def)
  ultimately show ?thesis using w1(1) w2(1) w'(1)
    by (intro exI [of _ w']) (simp add: async_round_def async_writer_finish_start_def)
qed

section \<open>After the end\<close>

text \<open>A start that is refused gives its completion descriptor back and changes nothing else.\<close>

lemma run_refused_start:
  assumes slots: "valid_slots slot oerr" and ready: "writer_ready p i AwFinished m w"
    and P: "announces api fd P" "P (ae_back (ext w))"
    and body: "\<And>signal x. launch_prepare api fd (clear_slots {slot, oerr} w) =
        (Ok signal, (clear_slots {slot, oerr} w)\<lparr>ext := (ext w)\<lparr>ae_back := x\<rparr>\<rparr>) \<Longrightarrow>
      body (clear_slots {slot, oerr} w) = (Err (resource_closed ''async writer is closed''),
        (clear_slots {slot, oerr} w)\<lparr>ext := (ext w)\<lparr>ae_back := px_close (aa_os api) signal x\<rparr>\<rparr>)"
  shows "\<exists>w'. begin_task body slot oerr w = (Returned STATUS_ERROR, w') \<and> o_ptr (out w') slot = 0 \<and>
    writer_ready p i AwFinished m w' \<and> P (ae_back (ext w'))"
proof -
  let ?w0 = "clear_slots {slot, oerr} w"
  have rt: "runtime_cell ?w0 = Some (Inr ())" using ready by (simp add: writer_ready_def)
  obtain signal x where l: "launch_prepare api fd ?w0 = (Ok signal, ?w0\<lparr>ext := (ext ?w0)\<lparr>ae_back := x\<rparr>\<rparr>)" "P x"
    using run_announced_launch [OF P(1) _ rt] P(2) by auto
  then have l': "launch_prepare api fd ?w0 = (Ok signal, ?w0\<lparr>ext := (ext w)\<lparr>ae_back := x\<rparr>\<rparr>)" by simp
  let ?w1 = "?w0\<lparr>ext := (ext w)\<lparr>ae_back := px_close (aa_os api) signal x\<rparr>\<rparr>" and ?f = "resource_closed ''async writer is closed''"
  have wf: "wf_world ?w1" "boxes ?w1 p = Some (OAsyncWriter \<lparr>aw_core = i\<rparr>)"
    using ready by (simp_all add: writer_ready_def live_at_def wf_world_def)
  obtain err where f: "?f = Error err" by (cases ?f) (simp_all add: resource_closed_def binding_error_def)
  obtain w' where w': "finish_failure ?f oerr ?w1 = (Ok STATUS_ERROR, w')" "ext w' = ext ?w1" "wf_world w'"
    "boxes w' p = Some (OAsyncWriter \<lparr>aw_core = i\<rparr>)" "o_ptr (out w') slot = o_ptr (out ?w1) slot"
    using run_finish_failure_frame [of ?f oerr ?w1] wf slotsD [OF slots] by (auto simp: f)
  have "inp w' = m" "runtime_cell w' = Some (Inr ())"
    using finish_failure_frame [of ?f oerr ?w1] w'(1) ready by (simp_all add: writer_ready_def)
  moreover have "P (px_close (aa_os api) signal x)" using P(1) l(2) by (simp add: announces_def)
  moreover have "begin_task body slot oerr w = (Returned STATUS_ERROR, w')"
    using slotsD [OF slots] body [OF l'] w'(1)
    by (simp add: begin_task_def catch_status_def run_with_handle_outputs run_deliver)
  ultimately show ?thesis using w' slotsD [OF slots] ready
    by (intro exI [of _ w']) (simp add: writer_ready_def live_at_def o_ptr_clear_slots)
qed

lemma refused_after_finish:
  assumes slots: "valid_slots slot oerr" and ready: "writer_ready p i AwFinished m w"
    and P: "announces api fd P" "P (ae_back (ext w))"
  shows "read_binary m data = Inr d \<Longrightarrow> \<exists>w'. async_writer_write_start api p data fd slot oerr w = (Returned STATUS_ERROR, w') \<and>
      o_ptr (out w') slot = 0 \<and> writer_ready p i AwFinished m w' \<and> P (ae_back (ext w'))"
    and "\<exists>w'. async_writer_finish_start api p fd slot oerr w = (Returned STATUS_ERROR, w') \<and>
      o_ptr (out w') slot = 0 \<and> writer_ready p i AwFinished m w' \<and> P (ae_back (ext w'))"
    and "\<exists>w'. async_writer_abort_start api p fd slot oerr w = (Returned STATUS_ERROR, w') \<and>
      o_ptr (out w') slot = 0 \<and> writer_ready p i AwFinished m w' \<and> P (ae_back (ext w'))"
proof -
  have live: "live_at p (OAsyncWriter \<lparr>aw_core = i\<rparr>) w" and core: "ae_writers (ext w) i = Some (async_writer_core AwFinished)"
    and m: "inp w = m" using ready by (simp_all add: writer_ready_def)
  have e: "(ext w)\<lparr>ae_back := x, ae_writers := (ae_writers (ext w))(i \<mapsto> async_writer_core AwFinished)\<rparr> = (ext w)\<lparr>ae_back := x\<rparr>" for x
    using core by (simp add: fun_upd_idem)
  note run = writer_start_run async_writer_abort_start_body_def in_backend_def fail_closing_def os_do_def back_world_def front_world_def
  show "\<exists>w'. async_writer_write_start api p data fd slot oerr w = (Returned STATUS_ERROR, w') \<and>
      o_ptr (out w') slot = 0 \<and> writer_ready p i AwFinished m w' \<and> P (ae_back (ext w'))" if "read_binary m data = Inr d"
    unfolding async_writer_write_start_def
    by (rule run_refused_start [OF slots ready P]) (use that live_atD [OF live] core m e in \<open>simp add: run\<close>)
  show "\<exists>w'. async_writer_finish_start api p fd slot oerr w = (Returned STATUS_ERROR, w') \<and>
      o_ptr (out w') slot = 0 \<and> writer_ready p i AwFinished m w' \<and> P (ae_back (ext w'))"
    unfolding async_writer_finish_start_def
    by (rule run_refused_start [OF slots ready P]) (use live_atD [OF live] core m e in \<open>simp add: run\<close>)
  show "\<exists>w'. async_writer_abort_start api p fd slot oerr w = (Returned STATUS_ERROR, w') \<and>
      o_ptr (out w') slot = 0 \<and> writer_ready p i AwFinished m w' \<and> P (ae_back (ext w'))"
    unfolding async_writer_abort_start_def
    by (rule run_refused_start [OF slots ready P]) (use live_atD [OF live] core m e in \<open>simp add: run\<close>)
qed

section \<open>The session\<close>

fun async_write_rounds ::
  "'x async_api \<Rightarrow> addr \<Rightarrow> int \<Rightarrow> addr \<Rightarrow> addr \<Rightarrow> addr list \<Rightarrow> 'x async_env world \<Rightarrow> exit list \<times> 'x async_env world" where
  "async_write_rounds api p fd slot oerr [] w = ([], w)"
| "async_write_rounds api p fd slot oerr (data # rest) w =
     (case async_round api (async_writer_write_start api p data fd slot oerr) (\<lambda>task. async_task_take_unit api task oerr) slot w of
        (e, w1) \<Rightarrow> case async_write_rounds api p fd slot oerr rest w1 of (es, w2) \<Rightarrow> (e # es, w2))"

lemma async_write_rounds_accept:
  assumes slots: "valid_slots slot oerr" and sink: "writer_sink api fd t metadata sink"
  shows "list_all2 (\<lambda>data d. read_binary m data = Inr d) dps ds \<Longrightarrow> writer_ready p i (AwOpen t) m w \<Longrightarrow>
    sink ds0 (ae_back (ext w)) \<Longrightarrow>
    \<exists>w'. async_write_rounds api p fd slot oerr dps w = (replicate (length dps) (Returned STATUS_OK), w') \<and>
      writer_ready p i (AwOpen t) m w' \<and> sink (ds0 @ ds) (ae_back (ext w'))"
proof (induction arbitrary: w ds0 rule: list_all2_induct)
  case (Cons data dps d ds)
  obtain w1 where w1: "async_write_round api p fd slot oerr data w = (Returned STATUS_OK, w1)"
    "writer_ready p i (AwOpen t) m w1" "sink (ds0 @ [d]) (ae_back (ext w1))"
    using write_round_accepts [OF slots Cons(4) sink Cons(5,1)] by blast
  from Cons.IH [OF w1(2,3)] w1(1) show ?case by auto
qed auto

text \<open>
  C8. An asynchronous writer delivers what it is given. Writing pieces one after the other, each started,
  announced and taken, and then finishing, hands exactly these pieces to the backend in order; every
  write succeeds, finishing hands out the backend's metadata, and every later write, finish or abort is
  refused at its start, hands out no task, and leaves what was written untouched.
\<close>

theorem async_writer_delivers:
  assumes "valid_slots slot oerr" and "writer_sink api fd t metadata sink"
    and "writer_ready p i (AwOpen t) m w" and "sink [] (ae_back (ext w))"
    and "list_all2 (\<lambda>data d. read_binary m data = Inr d) dps ds" and "checked_metadata metadata = Inr v"
    and "read_binary m data = Inr d"
  shows "\<exists>w1 w2 w3 w4 w5.
    async_write_rounds api p fd slot oerr dps w = (replicate (length dps) (Returned STATUS_OK), w1) \<and>
    async_round api (async_writer_finish_start api p fd slot oerr)
      (\<lambda>task. async_task_take_metadata api task slot oerr) slot w1 = (Returned STATUS_OK, w2) \<and>
    boxes w2 (o_ptr (out w2) slot) = Some (OMetadata v) \<and> sink ds (ae_back (ext w2)) \<and>
    async_writer_write_start api p data fd slot oerr w2 = (Returned STATUS_ERROR, w3) \<and> o_ptr (out w3) slot = 0 \<and>
    async_writer_finish_start api p fd slot oerr w3 = (Returned STATUS_ERROR, w4) \<and> o_ptr (out w4) slot = 0 \<and>
    async_writer_abort_start api p fd slot oerr w4 = (Returned STATUS_ERROR, w5) \<and> o_ptr (out w5) slot = 0 \<and>
    sink ds (ae_back (ext w5))"
proof -
  have P: "announces api fd (sink ds)" using assms(2) by (simp add: writer_sink_def)
  obtain w1 where w1: "async_write_rounds api p fd slot oerr dps w = (replicate (length dps) (Returned STATUS_OK), w1)"
    "writer_ready p i (AwOpen t) m w1" "sink ds (ae_back (ext w1))"
    using async_write_rounds_accept [where sink = sink, OF assms(1,2,5,3,4)] by auto
  obtain w2 where w2: "async_finish_round api p fd slot oerr w1 = (Returned STATUS_OK, w2)"
    "boxes w2 (o_ptr (out w2) slot) = Some (OMetadata v)" "writer_ready p i AwFinished m w2" "sink ds (ae_back (ext w2))"
    using finish_round_accepts [where sink = sink, OF assms(1) w1(2) assms(2) w1(3) assms(6)] by blast
  obtain w3 where w3: "async_writer_write_start api p data fd slot oerr w2 = (Returned STATUS_ERROR, w3)"
    "o_ptr (out w3) slot = 0" "writer_ready p i AwFinished m w3" "sink ds (ae_back (ext w3))"
    using refused_after_finish(1) [where P = "sink ds", OF assms(1) w2(3) P w2(4) assms(7)] by blast
  obtain w4 where w4: "async_writer_finish_start api p fd slot oerr w3 = (Returned STATUS_ERROR, w4)"
    "o_ptr (out w4) slot = 0" "writer_ready p i AwFinished m w4" "sink ds (ae_back (ext w4))"
    using refused_after_finish(2) [where P = "sink ds", OF assms(1) w3(3) P w3(4)] by blast
  obtain w5 where "async_writer_abort_start api p fd slot oerr w4 = (Returned STATUS_ERROR, w5)"
    "o_ptr (out w5) slot = 0" "sink ds (ae_back (ext w5))"
    using refused_after_finish(3) [where P = "sink ds", OF assms(1) w4(3) P w4(4)] by blast
  with w1(1) w2(1,2,4) w3(1,2) w4(1,2) show ?thesis by blast
qed

theorem async_writer_delivers_witness:
  "\<exists>w1 w2.
    async_write_rounds feeding_api 16 5 64 72 [8, 8]
      ((sample_with (OAsyncWriter \<lparr>aw_core = 7\<rparr>) ((sample_env [])\<lparr>ae_writers := [7 \<mapsto> async_writer_core (AwOpen 5)]\<rparr>))
        \<lparr>runtime_cell := Some (Inr ())\<rparr>) = ([Returned STATUS_OK, Returned STATUS_OK], w1) \<and>
    async_round feeding_api (async_writer_finish_start feeding_api 16 5 64 72)
      (\<lambda>task. async_task_take_metadata feeding_api task 64 72) 64 w1 = (Returned STATUS_OK, w2) \<and>
    boxes w2 (o_ptr (out w2) 64) = Some (OMetadata \<lparr>mdv_metadata = sample_file\<rparr>) \<and> ae_back (ext w2) = [[[]], [[]]]"
proof -
  let ?e = "(sample_env [])\<lparr>ae_writers := [7 \<mapsto> async_writer_core (AwOpen 5)]\<rparr>"
  let ?w = "(sample_with (OAsyncWriter \<lparr>aw_core = 7\<rparr>) ?e)\<lparr>runtime_cell := Some (Inr ())\<rparr>"
  let ?sink = "\<lambda>ds x. x = map (\<lambda>d. [d]) ds"
  have b: "read_binary sample_inputs 8 = Inr []"
    by (simp add: read_binary_def read_required_def null_ptr_def is_aligned_def sample_inputs_def
        borrowed_bytes_def checked_len_def isize_max_def no_view_def)
  moreover have "writer_sink feeding_api 5 5 sample_file ?sink"
    using still_announces [of feeding_api] by (simp add: writer_sink_def feeding_api_def)
  moreover have "writer_ready 16 7 (AwOpen 5) sample_inputs ?w"
    using wf_sample_with [of "OAsyncWriter \<lparr>aw_core = 7\<rparr>" ?e]
    by (simp add: writer_ready_def live_at_def wf_world_def)
  moreover have "checked_metadata sample_file = Inr \<lparr>mdv_metadata = sample_file\<rparr>"
    by (simp add: checked_metadata_def check_output_string_def sample_file_def)
  moreover have "ae_back (ext ?w) = []" "valid_slots 64 72" by (simp_all add: sample_env_def valid_slots_def)
  ultimately show ?thesis
    using async_writer_delivers [of 64 72 feeding_api 5 5 sample_file ?sink 16 7 sample_inputs ?w "[8, 8]" "[[], []]"
        "\<lparr>mdv_metadata = sample_file\<rparr>" 8 "[]"] by (auto simp del: async_write_rounds.simps)
qed

end
