(* ===== verification/ApiTable.thy ===== *)
theory ApiTable
  imports World
begin

text \<open>
  Negotiation of the function table (\<open>ApiV1\<close> of \<open>abi.rs\<close>; \<open>stage_api\<close>, \<open>install_api\<close> and
  \<open>opendal_mbt_get_api\<close> of \<open>lib.rs\<close>). Here the caller's memory is bytes: the caller declares how much
  of the table it knows, and the library fills exactly that much.

  The table is the list of its fields with their sizes, laid out as \<open>repr(C)\<close> demands on a 64-bit
  little-endian target. \<open>entry\<close> gives the address of a function. The build configuration is a record
  of the Cargo features and target properties the source asks about.
\<close>

section \<open>The table\<close>

type_synonym mem = "addr \<Rightarrow> u8"

record build_config =
  bc_profile_standard :: bool
  bc_layers_timeout_retry :: bool
  bc_layers_concurrent_limit :: bool
  bc_unix :: bool

text \<open>The function pointers, by feature group in table order.\<close>

definition base_entries :: "string list" where
  "base_entries =
     [''library_info'', ''error_view'', ''error_free'', ''buffer_len'', ''buffer_copy'',
      ''buffer_free'', ''metadata_view'', ''metadata_free'', ''entry_view'',
      ''entry_metadata_view'', ''entry_free'', ''operator_info_view'', ''operator_info_free'',
      ''operator_new'', ''operator_free'']"

definition whole_object_entries :: "string list" where
  "whole_object_entries =
     [''operator_check'', ''operator_exists'', ''operator_stat'', ''operator_read'',
      ''operator_write'', ''operator_create_dir'', ''operator_delete'', ''operator_copy'',
      ''operator_rename'']"

definition listing_entries :: "string list" where
  "listing_entries =
     [''operator_lister'', ''lister_next'', ''lister_close'', ''lister_free'']"

definition random_reader_entries :: "string list" where
  "random_reader_entries =
     [''operator_reader'', ''reader_read'', ''reader_close'', ''reader_free'']"

definition chunked_writer_entries :: "string list" where
  "chunked_writer_entries =
     [''operator_writer'', ''writer_write'', ''writer_close'', ''writer_free'']"

definition read_stream_entries :: "string list" where
  "read_stream_entries =
     [''operator_read_stream'', ''read_stream_next'', ''read_stream_close'', ''read_stream_free'']"

definition writer_abort_entries :: "string list" where
  "writer_abort_entries =
     [''writer_abort'']"

definition s3_entries :: "string list" where
  "s3_entries =
     [''operator_s3'']"

definition presign_entries :: "string list" where
  "presign_entries =
     [''operator_presign_read'', ''operator_presign_write'', ''operator_presign_stat'',
      ''presigned_request_view'', ''presigned_request_header_view'', ''presigned_request_free'']"

definition layers_entries :: "string list" where
  "layers_entries =
     [''operator_with_timeout'', ''operator_with_retry'']"

definition concurrency_limit_entries :: "string list" where
  "concurrency_limit_entries =
     [''operator_with_concurrency_limit'']"

definition batch_delete_entries :: "string list" where
  "batch_delete_entries =
     [''operator_delete_many'']"

definition copier_entries :: "string list" where
  "copier_entries =
     [''operator_copier'', ''copier_next'', ''copier_finish'', ''copier_abort'', ''copier_free'']"

definition async_entries :: "string list" where
  "async_entries =
     [''async_operator_read_start'', ''async_operator_read_stream_start'',
      ''async_read_stream_next_start'', ''async_read_stream_close'', ''async_read_stream_free'',
      ''async_operator_writer_start'', ''async_writer_write_start'',
      ''async_writer_finish_start'', ''async_writer_abort_start'', ''async_writer_free'',
      ''async_task_cancel'', ''async_task_take_buffer'', ''async_task_take_metadata'',
      ''async_task_take_read_stream'', ''async_task_take_writer'', ''async_task_take_unit'',
      ''async_task_free'']"

definition entry_names :: "string list" where
  "entry_names = base_entries @ whole_object_entries @ listing_entries @ random_reader_entries @ chunked_writer_entries @ read_stream_entries @ writer_abort_entries @ s3_entries @ presign_entries @ layers_entries @ concurrency_limit_entries @ batch_delete_entries @ copier_entries @ async_entries"

definition ApiV1 :: "(string \<times> nat) list" where
  "ApiV1 =
     [(''struct_size'', 4), (''requested_major'', 4), (''library_struct_size'', 4),
      (''library_minor'', 4), (''library_patch'', 4), (''reserved0'', 4), (''feature_bits'', 8),
      (''max_output_bytes'', 8)] @ map (\<lambda>name. (name, 8)) entry_names"

fun layout :: "nat \<Rightarrow> (string \<times> nat) list \<Rightarrow> (string \<times> nat \<times> nat) list" where
  \<comment> \<open>name, offset and size; a field is aligned to its size\<close>
  "layout k [] = []"
| "layout k ((name, len) # rest) =
     (let offset = (k + len - 1) div len * len
      in (name, offset, len) # layout (offset + len) rest)"

definition api_layout :: "(string \<times> nat \<times> nat) list" where
  "api_layout = layout 0 ApiV1"

definition offset_of :: "string \<Rightarrow> nat" where
  "offset_of name = (case map_of api_layout name of Some (offset, _) \<Rightarrow> offset | None \<Rightarrow> 0)"

definition size_of_ApiV1 :: nat where
  "size_of_ApiV1 = (case last api_layout of (_, offset, len) \<Rightarrow> offset + len)"

definition API_INPUT_SIZE :: nat where
  "API_INPUT_SIZE = offset_of ''requested_major'' + 4"

definition API_PREFIX_SIZE :: nat where
  "API_PREFIX_SIZE = offset_of ''max_output_bytes'' + 8"

definition TIMEOUT_RETRY_FEATURE_BITS :: "build_config \<Rightarrow> u64" where
  "TIMEOUT_RETRY_FEATURE_BITS cfg = (if bc_layers_timeout_retry cfg then FEATURE_LAYERS else 0)"

definition CONCURRENCY_LIMIT_FEATURE_BITS :: "build_config \<Rightarrow> u64" where
  "CONCURRENCY_LIMIT_FEATURE_BITS cfg =
     (if bc_layers_concurrent_limit cfg then FEATURE_CONCURRENCY_LIMIT else 0)"

definition PROFILE_FEATURE_BITS :: "build_config \<Rightarrow> u64" where
  "PROFILE_FEATURE_BITS cfg = (if bc_profile_standard cfg then FEATURE_S3 else 0)"

definition feature_bits :: "build_config \<Rightarrow> u64" where
  "feature_bits cfg =
     FEATURE_BASE OR FEATURE_WHOLE_OBJECT OR FEATURE_LISTING OR FEATURE_RANDOM_READER OR
     FEATURE_CHUNKED_WRITER OR FEATURE_READ_STREAM OR FEATURE_WRITER_ABORT OR FEATURE_PRESIGN OR
     PROFILE_FEATURE_BITS cfg OR TIMEOUT_RETRY_FEATURE_BITS cfg OR
     CONCURRENCY_LIMIT_FEATURE_BITS cfg OR FEATURE_BATCH_DELETE OR FEATURE_COPIER OR
     (if bc_unix cfg then FEATURE_ASYNC else 0)"

definition compiled_out :: "build_config \<Rightarrow> string \<Rightarrow> bool" where
  "compiled_out cfg name \<longleftrightarrow>
     \<not> bc_profile_standard cfg \<and> name = ''operator_s3'' \<or>
     \<not> bc_layers_timeout_retry cfg \<and> name \<in> {''operator_with_timeout'', ''operator_with_retry''} \<or>
     \<not> bc_layers_concurrent_limit cfg \<and> name = ''operator_with_concurrency_limit''"

definition stage_api :: "build_config \<Rightarrow> (string \<Rightarrow> u64) \<Rightarrow> (string \<Rightarrow> u64) option" where
  \<comment> \<open>the value of every field; a function that is compiled out is a null pointer\<close>
  "stage_api cfg entry =
     (if size_of_ApiV1 \<le> 4294967295 then Some (\<lambda>name.
        if name = ''struct_size'' then 0
        else if name = ''requested_major'' then 0
        else if name = ''library_struct_size'' then word_of_nat size_of_ApiV1
        else if name = ''library_minor'' then ucast ABI_MINOR
        else if name = ''library_patch'' then ucast ABI_PATCH
        else if name = ''reserved0'' then 0
        else if name = ''feature_bits'' then feature_bits cfg
        else if name = ''max_output_bytes'' then MAX_OUTPUT_BYTES
        else if compiled_out cfg name then 0
        else entry name)
      else None)"

section \<open>Installing\<close>

definition byte_of :: "u64 \<Rightarrow> nat \<Rightarrow> u8" where
  "byte_of v i = ucast (drop_bit (8 * i) v)"

definition write_bytes_at :: "addr \<Rightarrow> nat \<Rightarrow> (nat \<Rightarrow> u8) \<Rightarrow> mem \<Rightarrow> mem" where
  "write_bytes_at start n f m = (\<lambda>a. if start \<le> a \<and> a < start + n then f (a - start) else m a)"

definition install_field ::
  "addr \<Rightarrow> nat \<Rightarrow> (string \<Rightarrow> u64) \<Rightarrow> string \<times> nat \<times> nat \<Rightarrow> mem \<Rightarrow> mem" where
  "install_field base limit staged field m =
     (case field of (name, offset, len) \<Rightarrow>
        if offset + len \<le> limit
        then write_bytes_at (base + offset) len (byte_of (staged name)) m
        else m)"

definition install_api :: "addr \<Rightarrow> nat \<Rightarrow> (string \<Rightarrow> u64) \<Rightarrow> mem \<Rightarrow> mem" where
  \<comment> \<open>clear the covered payload, then install every field after the two input fields\<close>
  "install_api base caller_size staged m =
     (let limit = min caller_size size_of_ApiV1
      in fold (install_field base limit staged) (drop 2 api_layout)
           (write_bytes_at (base + API_INPUT_SIZE) (limit - API_INPUT_SIZE) (\<lambda>_. 0) m))"

definition read_u32_at :: "mem \<Rightarrow> addr \<Rightarrow> u32" where
  "read_u32_at m a =
     ucast (m a) OR push_bit 8 (ucast (m (a + 1))) OR push_bit 16 (ucast (m (a + 2))) OR
     push_bit 24 (ucast (m (a + 3)))"

definition opendal_mbt_get_api ::
  "build_config \<Rightarrow> (string \<Rightarrow> u64) \<Rightarrow> addr \<Rightarrow> mem \<Rightarrow> u32 \<times> mem" where
  "opendal_mbt_get_api cfg entry inout_api m =
     (if inout_api = null_ptr \<or> \<not> is_aligned 8 inout_api then (STATUS_ABI_MISMATCH, m)
      else
        let caller_size = unat (read_u32_at m inout_api);
            requested_major = read_u32_at m (inout_api + 4)
        in
        if caller_size > isize_max then (STATUS_ABI_MISMATCH, m)
        else if caller_size < API_PREFIX_SIZE \<or> requested_major \<noteq> ABI_MAJOR \<or>
          checked_add_usize inout_api caller_size = None
        then (STATUS_ABI_MISMATCH, m)
        else
          (case stage_api cfg entry of
             None \<Rightarrow> (STATUS_PANIC, m)
           | Some staged \<Rightarrow> (STATUS_OK, install_api inout_api caller_size staged m)))"

section \<open>Layout\<close>

lemmas entry_defs = base_entries_def whole_object_entries_def listing_entries_def
  random_reader_entries_def chunked_writer_entries_def read_stream_entries_def
  writer_abort_entries_def s3_entries_def presign_entries_def layers_entries_def
  concurrency_limit_entries_def batch_delete_entries_def copier_entries_def async_entries_def

lemma length_entry_names: "length entry_names = 74"
  by (simp add: entry_names_def entry_defs)

definition fn_layout :: "nat \<Rightarrow> string list \<Rightarrow> (string \<times> nat \<times> nat) list" where
  "fn_layout k names = map (\<lambda>(i, name). (name, k + 8 * i, 8)) (List.enumerate 0 names)"

lemma fn_layout_Cons: "fn_layout k (name # names) = (name, k, 8) # fn_layout (k + 8) names"
proof -
  have "List.enumerate (Suc 0) names = map (\<lambda>(i, n). (Suc i, n)) (List.enumerate 0 names)"
    by (simp add: enumerate_Suc_eq case_prod_beta' map_prod_def apfst_def)
  then show ?thesis by (simp add: fn_layout_def case_prod_beta)
qed

lemma layout_fns: "8 dvd k \<Longrightarrow> layout k (map (\<lambda>name. (name, 8)) names) = fn_layout k names"
proof (induction names arbitrary: k)
  case (Cons name names)
  then obtain j where j: "k = 8 * j" by (auto simp: dvd_def)
  have "(k + 8 - 1) div 8 * 8 = k" by (simp add: j)
  then show ?case using Cons.IH [of "k + 8"] Cons.prems by (simp add: Let_def fn_layout_Cons)
qed (simp add: fn_layout_def)

lemma api_layout_eq:
  "api_layout = [(''struct_size'', 0, 4), (''requested_major'', 4, 4), (''library_struct_size'', 8, 4),
     (''library_minor'', 12, 4), (''library_patch'', 16, 4), (''reserved0'', 20, 4),
     (''feature_bits'', 24, 8), (''max_output_bytes'', 32, 8)] @ fn_layout 40 entry_names"
  by (simp add: api_layout_def ApiV1_def layout_fns Let_def)

lemma size_of_ApiV1_eq: "size_of_ApiV1 = 632"
proof -
  have len: "length (fn_layout 40 entry_names) = 74"
    by (simp add: fn_layout_def length_entry_names)
  then have ne: "fn_layout 40 entry_names \<noteq> []" by auto
  moreover have "last (fn_layout 40 entry_names) = (entry_names ! 73, 624, 8)"
    unfolding last_conv_nth [OF ne] len by (simp add: fn_layout_def nth_enumerate_eq length_entry_names)
  ultimately show ?thesis by (simp add: size_of_ApiV1_def api_layout_eq)
qed

lemma api_sizes: "API_INPUT_SIZE = 8" "API_PREFIX_SIZE = 40"
  by (simp_all add: API_INPUT_SIZE_def API_PREFIX_SIZE_def offset_of_def api_layout_eq)

text \<open>The documented ranges of the feature groups.\<close>

definition feature_groups :: "(u64 \<times> string list) list" where
  "feature_groups =
     [
      (FEATURE_BASE, base_entries),
      (FEATURE_WHOLE_OBJECT, whole_object_entries),
      (FEATURE_LISTING, listing_entries),
      (FEATURE_RANDOM_READER, random_reader_entries),
      (FEATURE_CHUNKED_WRITER, chunked_writer_entries),
      (FEATURE_READ_STREAM, read_stream_entries),
      (FEATURE_WRITER_ABORT, writer_abort_entries),
      (FEATURE_S3, s3_entries),
      (FEATURE_PRESIGN, presign_entries),
      (FEATURE_LAYERS, layers_entries),
      (FEATURE_CONCURRENCY_LIMIT, concurrency_limit_entries),
      (FEATURE_BATCH_DELETE, batch_delete_entries),
      (FEATURE_COPIER, copier_entries),
      (FEATURE_ASYNC, async_entries)]"

section \<open>Installing fields that do not overlap\<close>

definition field_covers :: "addr \<Rightarrow> nat \<Rightarrow> addr \<Rightarrow> string \<times> nat \<times> nat \<Rightarrow> bool" where
  "field_covers base limit a f \<longleftrightarrow>
     (case f of (_, offset, len) \<Rightarrow>
        offset + len \<le> limit \<and> base + offset \<le> a \<and> a < base + offset + len)"

definition in_order :: "(string \<times> nat \<times> nat) list \<Rightarrow> bool" where
  "in_order fs \<longleftrightarrow> sorted_wrt (\<lambda>f g. fst (snd f) + snd (snd f) \<le> fst (snd g)) fs"

lemma install_untouched:
  assumes "\<forall>f \<in> set fs. \<not> field_covers base limit a f"
  shows "fold (install_field base limit staged) fs m a = m a"
  using assms
  by (induction fs arbitrary: m)
    (auto simp: install_field_def field_covers_def write_bytes_at_def split: prod.splits)

lemma disjoint_fields:
  assumes "in_order fs" and "f \<in> set fs" and "g \<in> set fs"
  shows "f = g \<or> fst (snd f) + snd (snd f) \<le> fst (snd g) \<or> fst (snd g) + snd (snd g) \<le> fst (snd f)"
  using assms by (induction fs) (auto simp: in_order_def)

lemma install_covered:
  assumes "in_order fs" and "(name, offset, len) \<in> set fs"
    and "field_covers base limit a (name, offset, len)"
  shows "fold (install_field base limit staged) fs m a = byte_of (staged name) (a - (base + offset))"
  using assms(1,2)
proof (induction fs arbitrary: m)
  case (Cons f fs)
  show ?case
  proof (cases "f = (name, offset, len)")
    case True
    have "\<not> field_covers base limit a g" if "g \<in> set fs" for g
      using that Cons.prems(1) assms(3) True
      by (cases g) (auto simp: in_order_def field_covers_def)
    then have "fold (install_field base limit staged) (f # fs) m a = install_field base limit staged f m a"
      using install_untouched [of fs base limit a staged "install_field base limit staged f m"] by simp
    also have "\<dots> = byte_of (staged name) (a - (base + offset))"
      using assms(3) True by (simp add: install_field_def field_covers_def write_bytes_at_def)
    finally show ?thesis .
  next
    case False
    with Cons.prems have "in_order fs" "(name, offset, len) \<in> set fs" by (auto simp: in_order_def)
    with Cons.IH show ?thesis by simp
  qed
qed simp

text \<open>The offsets that \<open>abi.rs\<close> asserts at compile time.\<close>

lemma api_offsets:
  "offset_of ''operator_s3'' = 368"
  "offset_of ''operator_presign_read'' = 376"
  "offset_of ''operator_with_timeout'' = 424"
  "offset_of ''operator_with_retry'' = 432"
  "offset_of ''operator_with_concurrency_limit'' = 440"
  "offset_of ''operator_delete_many'' = 448"
  "offset_of ''operator_copier'' = 456"
  "offset_of ''copier_next'' = 464"
  "offset_of ''copier_finish'' = 472"
  "offset_of ''copier_abort'' = 480"
  "offset_of ''copier_free'' = 488"
  "offset_of ''async_operator_read_start'' = 496"
  "offset_of ''async_task_free'' = 624"
  by (simp_all add: offset_of_def api_layout_eq entry_names_def entry_defs fn_layout_Cons)

lemma fn_layout_bounds:
  "(n, offset, len) \<in> set (fn_layout k names) \<Longrightarrow>
     k \<le> offset \<and> len = 8 \<and> offset + 8 \<le> k + 8 * length names"
  by (auto simp: fn_layout_def in_set_enumerate_eq)

lemma in_order_fn_layout: "in_order (fn_layout k names)"
proof (induction names arbitrary: k)
  case (Cons name names)
  have "\<forall>g \<in> set (fn_layout (k + 8) names). k + 8 \<le> fst (snd g)"
    using fn_layout_bounds by fastforce
  with Cons show ?case by (simp add: fn_layout_Cons in_order_def)
qed (simp add: fn_layout_def in_order_def)

lemma in_order_payload: "in_order (drop 2 api_layout)"
proof -
  have "\<forall>g \<in> set (fn_layout 40 entry_names). 40 \<le> fst (snd g)"
    using fn_layout_bounds by fastforce
  then show ?thesis
    using in_order_fn_layout [of 40 entry_names]
    by (auto simp: api_layout_eq in_order_def numeral_2_eq_2 intro: order_trans)
qed

lemma payload_bounds:
  assumes "(name, offset, len) \<in> set (drop 2 api_layout)"
  shows "8 \<le> offset \<and> offset + len \<le> 632"
  using assms fn_layout_bounds [of name offset len 40 entry_names] length_entry_names
  by (auto simp: api_layout_eq numeral_2_eq_2)

lemma stage_api_Some: "\<exists>staged. stage_api cfg entry = Some staged"
  by (simp add: stage_api_def size_of_ApiV1_eq)

section \<open>Properties\<close>

definition accepts_table :: "addr \<Rightarrow> mem \<Rightarrow> bool" where
  "accepts_table base m \<longleftrightarrow> base \<noteq> 0 \<and> 8 dvd base \<and> 40 \<le> unat (read_u32_at m base) \<and>
     read_u32_at m (base + 4) = ABI_MAJOR \<and> base + unat (read_u32_at m base) \<le> usize_max"

text \<open>
  C35. Negotiation fills exactly what the caller knows of the table. A pointer or a prefix that is not
  acceptable is reported with the memory untouched. Otherwise every field that lies wholly within the
  declared size holds the library's value, a field that is cut off is zero, and neither the caller's
  input fields nor anything behind the declared size or the library's table changes.
\<close>

theorem get_api_exact:
  "case opendal_mbt_get_api cfg entry base m of (status, m') \<Rightarrow>
     if accepts_table base m then
       status = STATUS_OK \<and>
       (let limit = min (unat (read_u32_at m base)) 632 in
         (\<forall>a. a < base + 8 \<or> base + limit \<le> a \<longrightarrow> m' a = m a) \<and>
         (\<forall>(name, offset, len) \<in> set (drop 2 api_layout).
            (\<forall>i < len. offset + i < limit \<longrightarrow>
               m' (base + offset + i) =
                 (if offset + len \<le> limit
                  then byte_of (the (stage_api cfg entry) name) i else 0))))
     else status = STATUS_ABI_MISMATCH \<and> m' = m"
proof -
  obtain staged where staged: "stage_api cfg entry = Some staged" using stage_api_Some by blast
  let ?size = "unat (read_u32_at m base)" and ?limit = "min (unat (read_u32_at m base)) 632"
  have small: "?size \<le> isize_max"
  proof -
    have "?size < 2 ^ 32" using unsigned_less [where 'a = nat, of "read_u32_at m base"] by simp
    then show ?thesis by (simp add: isize_max_def)
  qed
  show ?thesis
  proof (cases "accepts_table base m")
    case False
    then show ?thesis
      using small
      by (auto simp: opendal_mbt_get_api_def accepts_table_def api_sizes null_ptr_def is_aligned_def
          mod_eq_0_iff_dvd checked_add_usize_def Let_def staged)
  next
    case True
    let ?cleared = "write_bytes_at (base + 8) (?limit - 8) (\<lambda>_. 0) m"
    let ?m' = "fold (install_field base ?limit staged) (drop 2 api_layout) ?cleared"
    have run: "opendal_mbt_get_api cfg entry base m = (STATUS_OK, ?m')"
      using True small
      by (auto simp: opendal_mbt_get_api_def accepts_table_def api_sizes null_ptr_def is_aligned_def
          mod_eq_0_iff_dvd checked_add_usize_def Let_def staged install_api_def size_of_ApiV1_eq)
    have outside: "?m' a = m a" if "a < base + 8 \<or> base + ?limit \<le> a" for a
    proof -
      have "\<forall>f \<in> set (drop 2 api_layout). \<not> field_covers base ?limit a f"
        using that payload_bounds by (fastforce simp: field_covers_def)
      then show ?thesis using that by (auto simp: install_untouched write_bytes_at_def)
    qed
    have field: "?m' (base + offset + i) = (if offset + len \<le> ?limit then byte_of (staged name) i else 0)"
      if f: "(name, offset, len) \<in> set (drop 2 api_layout)" "i < len" "offset + i < ?limit"
      for name offset len i
    proof (cases "offset + len \<le> ?limit")
      case True
      then have "field_covers base ?limit (base + offset + i) (name, offset, len)"
        using f(2) by (simp add: field_covers_def)
      from install_covered [OF in_order_payload f(1) this] True show ?thesis by simp
    next
      case False
      have "\<not> field_covers base ?limit (base + offset + i) g" if g: "g \<in> set (drop 2 api_layout)" for g
      proof
        assume "field_covers base ?limit (base + offset + i) g"
        then show False
          using disjoint_fields [OF in_order_payload f(1) g] f(2) False
          by (cases g) (auto simp: field_covers_def)
      qed
      then have "?m' (base + offset + i) = ?cleared (base + offset + i)" by (simp add: install_untouched)
      with False f payload_bounds [OF f(1)] show ?thesis by (simp add: write_bytes_at_def)
    qed
    show ?thesis using True outside field by (auto simp: run Let_def staged)
  qed
qed

definition sample_table :: "nat \<Rightarrow> mem" where
  \<comment> \<open>a caller at address 8 that knows \<open>n\<close> bytes of version 1, with a marker everywhere else\<close>
  "sample_table n a = (if a = 8 then word_of_nat n else if a = 12 then 1
     else if a \<in> {9, 10, 11, 13, 14, 15} then 0 else 170)"

definition sample_entry :: "string \<Rightarrow> u64" where
  "sample_entry name = 4096"

lemma sample_table_accepted: "accepts_table 8 (sample_table 44)"
  by (simp add: accepts_table_def sample_table_def read_u32_at_def usize_max_def)

lemma sample_table_size: "unat (read_u32_at (sample_table 44) 8) = 44"
  by (simp add: sample_table_def read_u32_at_def)

definition sample_build :: build_config where
  "sample_build = \<lparr>bc_profile_standard = False, bc_layers_timeout_retry = True,
     bc_layers_concurrent_limit = True, bc_unix = True\<rparr>"

text \<open>A caller that knows 44 bytes: the limit is complete, the first function pointer is cut off.\<close>

theorem get_api_exact_witness:
  "case opendal_mbt_get_api sample_build sample_entry 8 (sample_table 44) of (status, m') \<Rightarrow>
     accepts_table 8 (sample_table 44) \<and> status = STATUS_OK \<and> m' 8 = 44 \<and> m' 52 = 170 \<and>
     m' 43 = 127 \<and> m' 48 = 0"
proof -
  obtain status m' where run:
    "opendal_mbt_get_api sample_build sample_entry 8 (sample_table 44) = (status, m')" by force
  have limit: "(''max_output_bytes'', 32, 8) \<in> set (drop 2 api_layout)"
    "(''library_info'', 40, 8) \<in> set (drop 2 api_layout)"
    by (auto simp: api_layout_eq entry_names_def base_entries_def fn_layout_Cons numeral_2_eq_2)
  have ok: "status = STATUS_OK"
    and outside: "\<forall>a. a < 16 \<or> 52 \<le> a \<longrightarrow> m' a = sample_table 44 a"
    and inside: "\<forall>(name, offset, len) \<in> set (drop 2 api_layout).
            (\<forall>i < len. offset + i < 44 \<longrightarrow>
               m' (8 + offset + i) =
                 (if offset + len \<le> 44
                  then byte_of (the (stage_api sample_build sample_entry) name) i else 0))"
    using get_api_exact [where cfg = sample_build and entry = sample_entry and base = 8 and m = "sample_table 44"]
    by (simp_all add: run sample_table_accepted sample_table_size)
  have "m' 43 = byte_of (the (stage_api sample_build sample_entry) ''max_output_bytes'') 3"
    using bspec [OF inside limit(1), simplified, THEN spec, of 3] by simp
  moreover have "m' 48 = 0" using bspec [OF inside limit(2), simplified, THEN spec, of 0] by simp
  moreover have "m' 8 = 44" "m' 52 = 170" using outside by (simp_all add: sample_table_def)
  ultimately show ?thesis
    using ok sample_table_accepted
    by (simp add: run stage_api_def size_of_ApiV1_eq byte_of_def)
qed

definition prefix_names :: "string list" where
  "prefix_names = [''struct_size'', ''requested_major'', ''library_struct_size'', ''library_minor'',
     ''library_patch'', ''reserved0'', ''feature_bits'', ''max_output_bytes'']"

definition optional_names :: "string list" where
  "optional_names = [''operator_s3'', ''operator_with_timeout'', ''operator_with_retry'',
     ''operator_with_concurrency_limit'']"

lemma entries_not_prefix: "list_all (\<lambda>name. name \<notin> set prefix_names) entry_names"
  by (simp add: entry_names_def entry_defs prefix_names_def)

lemma entries_not_optional:
  "list_all (\<lambda>name. name \<notin> set optional_names)
     (base_entries @ whole_object_entries @ listing_entries @ random_reader_entries @
      chunked_writer_entries @ read_stream_entries @ writer_abort_entries @ presign_entries @
      batch_delete_entries @ copier_entries @ async_entries)"
  by (simp add: entry_defs optional_names_def)

lemma staged_entry:
  assumes "name \<in> set entry_names"
  shows "the (stage_api cfg entry) name = (if compiled_out cfg name then 0 else entry name)"
proof -
  have "name \<notin> set prefix_names" using entries_not_prefix assms by (auto simp: list_all_iff)
  then show ?thesis by (simp add: stage_api_def size_of_ApiV1_eq prefix_names_def)
qed

definition flag_set :: "build_config \<Rightarrow> u64 \<Rightarrow> bool" where
  "flag_set cfg flag \<longleftrightarrow>
     (if flag = FEATURE_S3 then bc_profile_standard cfg
      else if flag = FEATURE_LAYERS then bc_layers_timeout_retry cfg
      else if flag = FEATURE_CONCURRENCY_LIMIT then bc_layers_concurrent_limit cfg
      else if flag = FEATURE_ASYNC then bc_unix cfg
      else True)"

lemma feature_bit: "list_all (\<lambda>(flag, _). (feature_bits cfg AND flag \<noteq> 0) = flag_set cfg flag) feature_groups"
  by (cases "bc_profile_standard cfg"; cases "bc_layers_timeout_retry cfg";
      cases "bc_layers_concurrent_limit cfg"; cases "bc_unix cfg")
    (simp_all add: feature_groups_def flag_set_def feature_bits_def PROFILE_FEATURE_BITS_def
        TIMEOUT_RETRY_FEATURE_BITS_def CONCURRENCY_LIMIT_FEATURE_BITS_def)

lemma feature_bitD:
  "(flag, names) \<in> set feature_groups \<Longrightarrow> (feature_bits cfg AND flag \<noteq> 0) = flag_set cfg flag"
  using feature_bit [of cfg] by (auto simp: list_all_iff)

lemma plain_group:
  assumes "name \<notin> set optional_names"
  shows "\<not> compiled_out cfg name"
  using assms by (auto simp: compiled_out_def optional_names_def)

lemma group_availability:
  assumes "(flag, names) \<in> set feature_groups" and "name \<in> set names"
  shows "if compiled_out cfg name then feature_bits cfg AND flag = 0
    else feature_bits cfg AND flag \<noteq> 0 \<or> flag = FEATURE_ASYNC"
proof (cases "name \<in> set optional_names")
  case False
  then have "flag \<noteq> FEATURE_S3" "flag \<noteq> FEATURE_LAYERS" "flag \<noteq> FEATURE_CONCURRENCY_LIMIT"
    using assms
    by (auto simp: feature_groups_def s3_entries_def layers_entries_def concurrency_limit_entries_def
        optional_names_def)
  then have "feature_bits cfg AND flag \<noteq> 0 \<or> flag = FEATURE_ASYNC"
    using feature_bitD [OF assms(1), of cfg] by (auto simp: flag_set_def)
  with plain_group [OF False] show ?thesis by simp
next
  case True
  then have "(flag, names) \<in> {(FEATURE_S3, s3_entries), (FEATURE_LAYERS, layers_entries),
      (FEATURE_CONCURRENCY_LIMIT, concurrency_limit_entries)}"
    using assms entries_not_optional by (auto simp: feature_groups_def list_all_iff)
  with assms(2) feature_bitD [OF assms(1), of cfg] show ?thesis
    by (auto simp: flag_set_def compiled_out_def s3_entries_def layers_entries_def
        concurrency_limit_entries_def)
qed

text \<open>
  A set feature bit guarantees its functions. Whatever the build configuration, when a feature bit
  is set every entry of its documented group is a real function pointer; and the groups that a build
  leaves out have their bit clear and null entries.
\<close>

theorem features_match_entries:
  assumes "\<forall>name \<in> set entry_names. entry name \<noteq> 0"
  shows "\<forall>(flag, names) \<in> set feature_groups. \<forall>name \<in> set names.
      (feature_bits cfg AND flag \<noteq> 0 \<longrightarrow> the (stage_api cfg entry) name \<noteq> 0) \<and>
      (feature_bits cfg AND flag = 0 \<longrightarrow> flag \<noteq> FEATURE_ASYNC \<longrightarrow>
         the (stage_api cfg entry) name = 0)"
proof (intro ballI, clarify)
  fix flag names name
  assume g: "(flag, names) \<in> set feature_groups" and n: "name \<in> set names"
  have "name \<in> set entry_names" using g n by (auto simp: feature_groups_def entry_names_def)
  then have v: "the (stage_api cfg entry) name = (if compiled_out cfg name then 0 else entry name)"
    "entry name \<noteq> 0"
    using staged_entry assms by blast+
  have "if compiled_out cfg name then feature_bits cfg AND flag = 0
        else feature_bits cfg AND flag \<noteq> 0 \<or> flag = FEATURE_ASYNC"
    by (rule group_availability [OF g n])
  with v show "(feature_bits cfg AND flag \<noteq> 0 \<longrightarrow> the (stage_api cfg entry) name \<noteq> 0) \<and>
      (feature_bits cfg AND flag = 0 \<longrightarrow> flag \<noteq> FEATURE_ASYNC \<longrightarrow>
         the (stage_api cfg entry) name = 0)"
    by (auto split: if_splits)
qed

theorem features_match_entries_witness:
  "the (stage_api sample_build sample_entry) ''operator_with_retry'' \<noteq> 0 \<and>
   the (stage_api sample_build sample_entry) ''operator_s3'' = 0"
proof -
  have "(FEATURE_LAYERS, layers_entries) \<in> set feature_groups" "(FEATURE_S3, s3_entries) \<in> set feature_groups"
    by (simp_all add: feature_groups_def)
  moreover have "\<forall>name \<in> set entry_names. sample_entry name \<noteq> 0" by (simp add: sample_entry_def)
  ultimately show ?thesis
    using features_match_entries [where cfg = sample_build and entry = sample_entry]
      feature_bitD [of FEATURE_LAYERS layers_entries sample_build]
      feature_bitD [of FEATURE_S3 s3_entries sample_build]
    by (fastforce simp: flag_set_def sample_build_def layers_entries_def s3_entries_def)
qed

end
