(* ===== verification/Presign.thy ===== *)
theory Presign
  imports Operator Turns
begin

text \<open>
  Presigned requests (\<open>checked_presigned_request\<close>, \<open>presign_expiry\<close>, the \<open>operator_presign_*\<close> entry
  points and the views of \<open>PresignedRequestV1\<close> of \<open>lib.rs\<close>). OpenDAL's presigning is outside the
  repository: \<open>presign_api\<close> holds the three functions that are called, and \<open>PresignedRequest\<close> what
  the bridge reads of their result, the headers in the order of the header map's iterator.
\<close>

section \<open>Requests\<close>

record PresignedRequest =
  prq_method :: string
  prq_uri :: string
  prq_header :: "(string \<times> u8 list) list"

record 'x presign_api =
  pa_read :: "token \<Rightarrow> string \<Rightarrow> u64 \<Rightarrow> ReadOptions \<Rightarrow> ('x, PresignedRequest) xcall"
  pa_write :: "token \<Rightarrow> string \<Rightarrow> u64 \<Rightarrow> WriteOptions \<Rightarrow> ('x, PresignedRequest) xcall"
  pa_stat :: "token \<Rightarrow> string \<Rightarrow> u64 \<Rightarrow> StatOptions \<Rightarrow> ('x, PresignedRequest) xcall"

definition presign_too_large :: CallFailure where
  "presign_too_large = buffer_too_large ''presigned request exceeds the binding output limit''"

fun copy_headers ::
  "usize \<Rightarrow> PresignedHeaderV1 list \<Rightarrow> (string \<times> u8 list) list \<Rightarrow>
   (usize \<times> PresignedHeaderV1 list) CallResult" where
  \<comment> \<open>the loop over the headers, with the total length so far\<close>
  "copy_headers total_len headers [] = Inr (total_len, headers)"
| "copy_headers total_len headers ((name, value) # rest) =
     (case Option.bind (checked_add_usize total_len (length name)) (\<lambda>len.
             checked_add_usize len (length value)) of
        None \<Rightarrow> Inl presign_too_large
      | Some total_len' \<Rightarrow>
          copy_headers total_len' (headers @ [\<lparr>ph_name = name, ph_value = value\<rparr>]) rest)"

definition checked_presigned_request :: "PresignedRequest \<Rightarrow> PresignedRequestV1 CallResult" where
  "checked_presigned_request request =
     (let method = prq_method request; uri = prq_uri request in
      case checked_add_usize (length method) (length uri) of
        None \<Rightarrow> Inl presign_too_large
      | Some total_len \<Rightarrow>
          res_bind (copy_headers total_len [] (prq_header request)) (\<lambda>(total_len, headers).
            if exceeds_output_limit total_len \<or> exceeds_output_limit (length headers)
            then Inl presign_too_large
            else Inr \<lparr>pr_method = method, pr_uri = uri, pr_headers = headers\<rparr>))"

definition presign_expiry :: "u64 \<Rightarrow> u64 CallResult" where
  \<comment> \<open>the duration, in seconds\<close>
  "presign_expiry seconds =
     (if seconds = 0
      then Inl (invalid_argument ''presign expires_in_seconds must be greater than zero'')
      else Inr seconds)"

section \<open>Entry points\<close>

definition operator_presign_read_body ::
  "'x presign_api \<Rightarrow> addr \<Rightarrow> addr \<Rightarrow> addr \<Rightarrow> u64 \<Rightarrow> ('x, PresignedRequestV1) M" where
  "operator_presign_read_body api operator path options expires_in_seconds =
     bind (borrow_required as_operator operator) (\<lambda>operator.
     bind (with_inputs (\<lambda>m. read_text m path ''path'')) (\<lambda>path.
     bind (with_inputs (\<lambda>m. parse_read_options m options)) (\<lambda>options.
     bind (lift_res (presign_expiry expires_in_seconds)) (\<lambda>expiry.
     bind (ext_call opendal_error (pa_read api (op_inner operator) path expiry options)) (\<lambda>request.
       lift_res (checked_presigned_request request))))))"

definition operator_presign_read ::
  "'x presign_api \<Rightarrow> addr \<Rightarrow> addr \<Rightarrow> addr \<Rightarrow> u64 \<Rightarrow> addr \<Rightarrow> addr \<Rightarrow> 'x world \<Rightarrow> exit \<times> 'x world" where
  "operator_presign_read api operator path options expires_in_seconds out_request out_error =
     catch_status (with_outputs [clear_ptr_output out_request, clear_error_output out_error] out_error
       (deliver (operator_presign_read_body api operator path options expires_in_seconds)
          (\<lambda>a. write_handle out_request (ORequest a)) out_error))"

definition operator_presign_write_body ::
  "'x presign_api \<Rightarrow> addr \<Rightarrow> addr \<Rightarrow> addr \<Rightarrow> u64 \<Rightarrow> ('x, PresignedRequestV1) M" where
  "operator_presign_write_body api operator path options expires_in_seconds =
     bind (borrow_required as_operator operator) (\<lambda>operator.
     bind (with_inputs (\<lambda>m. read_text m path ''path'')) (\<lambda>path.
     bind (with_inputs (\<lambda>m. parse_write_options m options)) (\<lambda>options.
     bind (lift_res (presign_expiry expires_in_seconds)) (\<lambda>expiry.
     bind (ext_call opendal_error (pa_write api (op_inner operator) path expiry options)) (\<lambda>request.
       lift_res (checked_presigned_request request))))))"

definition operator_presign_write ::
  "'x presign_api \<Rightarrow> addr \<Rightarrow> addr \<Rightarrow> addr \<Rightarrow> u64 \<Rightarrow> addr \<Rightarrow> addr \<Rightarrow> 'x world \<Rightarrow> exit \<times> 'x world" where
  "operator_presign_write api operator path options expires_in_seconds out_request out_error =
     catch_status (with_outputs [clear_ptr_output out_request, clear_error_output out_error] out_error
       (deliver (operator_presign_write_body api operator path options expires_in_seconds)
          (\<lambda>a. write_handle out_request (ORequest a)) out_error))"

definition operator_presign_stat_body ::
  "'x presign_api \<Rightarrow> addr \<Rightarrow> addr \<Rightarrow> addr \<Rightarrow> u64 \<Rightarrow> ('x, PresignedRequestV1) M" where
  "operator_presign_stat_body api operator path options expires_in_seconds =
     bind (borrow_required as_operator operator) (\<lambda>operator.
     bind (with_inputs (\<lambda>m. read_text m path ''path'')) (\<lambda>path.
     bind (with_inputs (\<lambda>m. parse_stat_options m options)) (\<lambda>options.
     bind (lift_res (presign_expiry expires_in_seconds)) (\<lambda>expiry.
     bind (ext_call opendal_error (pa_stat api (op_inner operator) path expiry options)) (\<lambda>request.
       lift_res (checked_presigned_request request))))))"

definition operator_presign_stat ::
  "'x presign_api \<Rightarrow> addr \<Rightarrow> addr \<Rightarrow> addr \<Rightarrow> u64 \<Rightarrow> addr \<Rightarrow> addr \<Rightarrow> 'x world \<Rightarrow> exit \<times> 'x world" where
  "operator_presign_stat api operator path options expires_in_seconds out_request out_error =
     catch_status (with_outputs [clear_ptr_output out_request, clear_error_output out_error] out_error
       (deliver (operator_presign_stat_body api operator path options expires_in_seconds)
          (\<lambda>a. write_handle out_request (ORequest a)) out_error))"

definition request_view_type :: "PresignedRequestViewV1 view_type" where
  "request_view_type =
     \<lparr>vt_get = o_request_view, vt_put = (\<lambda>f os. os\<lparr>o_request_view := f\<rparr>),
      vt_header = (\<lambda>v. \<lparr>hdr_struct_size = pv_struct_size v,
                         hdr_struct_version = pv_struct_version v\<rparr>),
      vt_zeroed = (\<lambda>h. \<lparr>pv_struct_size = hdr_struct_size h,
                         pv_struct_version = hdr_struct_version h, pv_reserved0 = 0,
                         pv_method = empty_view, pv_uri = empty_view, pv_header_count = 0\<rparr>),
      vt_size = size_of_PresignedRequestViewV1\<rparr>"

definition header_view_type :: "PresignedHeaderViewV1 view_type" where
  "header_view_type =
     \<lparr>vt_get = o_header_view, vt_put = (\<lambda>f os. os\<lparr>o_header_view := f\<rparr>),
      vt_header = (\<lambda>v. \<lparr>hdr_struct_size = phv_struct_size v,
                         hdr_struct_version = phv_struct_version v\<rparr>),
      vt_zeroed = (\<lambda>h. \<lparr>phv_struct_size = hdr_struct_size h,
                         phv_struct_version = hdr_struct_version h, phv_reserved0 = 0,
                         phv_name = empty_view, phv_value = empty_view\<rparr>),
      vt_size = size_of_PresignedHeaderViewV1\<rparr>"

definition presigned_request_view ::
  "(addr \<Rightarrow> nat \<Rightarrow> addr) \<Rightarrow> addr \<Rightarrow> addr \<Rightarrow> 'x world \<Rightarrow> exit \<times> 'x world" where
  "presigned_request_view heap request output =
     catch_status (finish_or (prepare_view request_view_type output) null_ptr (\<lambda>header.
       with_handle as_request request null_ptr (\<lambda>r.
         case u64_try_from (length (pr_headers r)) of
           None \<Rightarrow> ret STATUS_PANIC
         | Some header_count \<Rightarrow>
             bind (write_view request_view_type output
               \<lparr>pv_struct_size = hdr_struct_size header, pv_struct_version = hdr_struct_version header,
                pv_reserved0 = 0, pv_method = string_view (heap request 0) (pr_method r),
                pv_uri = string_view (heap request 1) (pr_uri r),
                pv_header_count = header_count\<rparr>) (\<lambda>_.
               ret STATUS_OK))))"

definition presigned_request_header_view ::
  "(addr \<Rightarrow> nat \<Rightarrow> addr) \<Rightarrow> addr \<Rightarrow> u64 \<Rightarrow> addr \<Rightarrow> 'x world \<Rightarrow> exit \<times> 'x world" where
  "presigned_request_header_view heap request index output =
     catch_status (finish_or (prepare_view header_view_type output) null_ptr (\<lambda>view_header.
       with_handle as_request request null_ptr (\<lambda>r.
         case (if unat index < length (pr_headers r) then Some (pr_headers r ! unat index) else None) of
           None \<Rightarrow> ret STATUS_END
         | Some header \<Rightarrow>
             bind (write_view header_view_type output
               \<lparr>phv_struct_size = hdr_struct_size view_header,
                phv_struct_version = hdr_struct_version view_header, phv_reserved0 = 0,
                phv_name = string_view (heap request (2 + 2 * unat index)) (ph_name header),
                phv_value = bytes_view (heap request (3 + 2 * unat index)) (ph_value header)\<rparr>) (\<lambda>_.
               ret STATUS_OK))))"

definition presigned_request_free :: "addr \<Rightarrow> ('x, unit) M" where
  "presigned_request_free = free_box as_request"

section \<open>Sizes\<close>

fun header_bytes :: "(string \<times> u8 list) list \<Rightarrow> nat" where
  "header_bytes [] = 0"
| "header_bytes ((name, value) # rest) = length name + length value + header_bytes rest"

definition request_bytes :: "PresignedRequest \<Rightarrow> nat" where
  "request_bytes r = length (prq_method r) + length (prq_uri r) + header_bytes (prq_header r)"

lemma copy_headers_eq:
  assumes "n \<le> usize_max"
  shows "copy_headers n hs rest =
    (if n + header_bytes rest \<le> usize_max
     then Inr (n + header_bytes rest, hs @ map (\<lambda>(name, v). \<lparr>ph_name = name, ph_value = v\<rparr>) rest)
     else Inl presign_too_large)"
  using assms
proof (induction n hs rest rule: copy_headers.induct)
  case (2 n hs name val rest)
  show ?case
  proof (cases "n + length name + length val \<le> usize_max")
    case True
    then have "Option.bind (checked_add_usize n (length name)) (\<lambda>len. checked_add_usize len (length val)) =
        Some (n + length name + length val)"
      by (simp add: checked_add_usize_def)
    with 2(1) True show ?thesis by (simp add: add.assoc)
  qed (auto simp: checked_add_usize_def)
qed simp

lemma checked_presigned_eq:
  "checked_presigned_request r =
    (if request_bytes r \<le> 2147483647 \<and> length (prq_header r) \<le> 2147483647
     then Inr \<lparr>pr_method = prq_method r, pr_uri = prq_uri r,
       pr_headers = map (\<lambda>(n, v). \<lparr>ph_name = n, ph_value = v\<rparr>) (prq_header r)\<rparr>
     else Inl presign_too_large)"
proof (cases "length (prq_method r) + length (prq_uri r) \<le> usize_max")
  case True
  then show ?thesis
    by (auto simp: checked_presigned_request_def checked_add_usize_def copy_headers_eq request_bytes_def
        exceeds_output_limit_iff res_bind_def usize_max_def Let_def)
next
  case False
  then show ?thesis
    by (simp add: checked_presigned_request_def checked_add_usize_def request_bytes_def usize_max_def Let_def)
qed

section \<open>Views\<close>

interpretation request_views: view_layout request_view_type
  by unfold_locales (simp_all add: request_view_type_def)

interpretation header_views: view_layout header_view_type
  by unfold_locales (simp_all add: header_view_type_def)

lemma quiet_presign_bodies:
  "quiet (operator_presign_read_body api p path rop secs)"
  "quiet (operator_presign_write_body api p path wo secs)"
  "quiet (operator_presign_stat_body api p path so secs)"
  unfolding operator_presign_read_body_def operator_presign_write_body_def
    operator_presign_stat_body_def
  by (intro quiet_intros)+

interpretation presign_read_call: quiet_body "operator_presign_read_body api p path rop secs"
  for api p path rop secs by unfold_locales (rule quiet_presign_bodies)

interpretation presign_write_call: quiet_body "operator_presign_write_body api p path wo secs"
  for api p path wo secs by unfold_locales (rule quiet_presign_bodies)

interpretation presign_stat_call: quiet_body "operator_presign_stat_body api p path so secs"
  for api p path so secs by unfold_locales (rule quiet_presign_bodies)

text \<open>How a caller reads the bytes of a view, and the headers one after the other.\<close>

definition view_bytes :: "(addr \<Rightarrow> u8) \<Rightarrow> BytesViewV1 \<Rightarrow> u8 list" where
  "view_bytes mem v = map (\<lambda>i. mem (bv_data v + i)) [0..<unat (bv_len v)]"

fun read_headers ::
  "(addr \<Rightarrow> nat \<Rightarrow> addr) \<Rightarrow> (addr \<Rightarrow> u8) \<Rightarrow> addr \<Rightarrow> addr \<Rightarrow> nat \<Rightarrow> nat \<Rightarrow> 'x world \<Rightarrow>
   (string \<times> u8 list) list \<times> exit" where
  \<comment> \<open>call \<open>presigned_request_header_view\<close> for the indices from \<open>i\<close>, \<open>fuel\<close> times at most\<close>
  "read_headers heap mem p output 0 i w = ([], Returned STATUS_OK)"
| "read_headers heap mem p output (Suc fuel) i w =
     (case presigned_request_header_view heap p (word_of_nat i) output w of
        (status, w') \<Rightarrow>
          if status = Returned STATUS_OK then
            (let v = o_header_view (out w') output;
                 r = read_headers heap mem p output fuel (Suc i) w'
             in ((view_text mem (phv_name v), view_bytes mem (phv_value v)) # fst r, snd r))
          else ([], status))"

definition bytes_at :: "(addr \<Rightarrow> u8) \<Rightarrow> addr \<Rightarrow> u8 list \<Rightarrow> bool" where
  "bytes_at mem a bytes \<longleftrightarrow> (\<forall>i < length bytes. mem (a + i) = bytes ! i)"

definition request_owned :: "(addr \<Rightarrow> u8) \<Rightarrow> (nat \<Rightarrow> addr) \<Rightarrow> PresignedRequestV1 \<Rightarrow> bool" where
  "request_owned mem heap r \<longleftrightarrow>
     bytes_at mem (heap 0) (bytes_of_text (pr_method r)) \<and> bytes_at mem (heap 1) (bytes_of_text (pr_uri r)) \<and>
     (\<forall>i < length (pr_headers r).
        bytes_at mem (heap (2 + 2 * i)) (bytes_of_text (ph_name (pr_headers r ! i))) \<and>
        bytes_at mem (heap (3 + 2 * i)) (ph_value (pr_headers r ! i)))"

lemma view_bytes_of:
  assumes "bytes_at mem a bytes" and "length bytes \<le> u64_max"
  shows "view_bytes mem (bytes_view a bytes) = bytes"
proof (cases "bytes = []")
  case False
  then have "bytes_view a bytes = \<lparr>bv_data = a, bv_len = word_of_nat (length bytes)\<rparr>"
    using assms(2) by (simp add: bytes_view_def u64_try_from_def)
  then show ?thesis
    using assms by (intro nth_equalityI) (simp_all add: view_bytes_def unat_u64_of_nat bytes_at_def)
qed (simp add: view_bytes_def bytes_view_def)

lemma view_text_of:
  assumes "bytes_at mem a (bytes_of_text s)" and "length s \<le> u64_max"
  shows "view_text mem (string_view a s) = s"
  using assms by (intro view_text_string_view) (simp_all add: owned_at_def bytes_at_def)

lemma request_view_live:
  assumes "view_ready request_view_type output w" and "boxes w p = Some (ORequest r)"
    and "0 < p" and "8 dvd p" and "length (pr_headers r) \<le> u64_max"
  shows "presigned_request_view heap p output w =
    (Returned STATUS_OK, set_view request_view_type output
       \<lparr>pv_struct_size = pv_struct_size (o_request_view (out w) output),
        pv_struct_version = pv_struct_version (o_request_view (out w) output), pv_reserved0 = 0,
        pv_method = string_view (heap p 0) (pr_method r), pv_uri = string_view (heap p 1) (pr_uri r),
        pv_header_count = word_of_nat (length (pr_headers r))\<rparr> w)"
  using assms request_views.prepare_ready [OF assms(1)]
  by (simp add: presigned_request_view_def catch_status_def finish_or_def with_handle_def bind_def
      closure_def run_borrow_live [where ob = "ORequest r"] u64_try_from_def write_view_def run_simps
      set_view_def request_view_type_def)

lemma header_view_live:
  assumes "view_ready header_view_type output w" and "boxes w p = Some (ORequest r)"
    and "0 < p" and "8 dvd p"
  shows "presigned_request_header_view heap p index output w =
    (if unat index < length (pr_headers r) then
       (Returned STATUS_OK, set_view header_view_type output
         \<lparr>phv_struct_size = phv_struct_size (o_header_view (out w) output),
          phv_struct_version = phv_struct_version (o_header_view (out w) output), phv_reserved0 = 0,
          phv_name = string_view (heap p (2 + 2 * unat index)) (ph_name (pr_headers r ! unat index)),
          phv_value = bytes_view (heap p (3 + 2 * unat index)) (ph_value (pr_headers r ! unat index))\<rparr> w)
     else (Returned STATUS_END, set_view header_view_type output
       (vt_zeroed header_view_type (vt_header header_view_type (o_header_view (out w) output))) w))"
proof -
  have get: "vt_get header_view_type = o_header_view" by (simp add: header_view_type_def)
  show ?thesis
    using assms header_views.prepare_ready [OF assms(1)]
    by (simp add: presigned_request_header_view_def catch_status_def finish_or_def with_handle_def bind_def
        closure_def run_borrow_live [where ob = "ORequest r"] write_view_def run_simps get
        set_view_def header_view_type_def)
qed

lemma header_view_ready_again:
  assumes "view_ready header_view_type output w"
    and "phv_struct_size v = phv_struct_size (o_header_view (out w) output)"
    and "phv_struct_version v = phv_struct_version (o_header_view (out w) output)"
  shows "view_ready header_view_type output (set_view header_view_type output v w)"
  using assms by (simp add: view_ready_def set_view_def header_view_type_def)

lemma header_ready_after_request:
  "view_ready header_view_type output (set_view request_view_type output' v w) =
     view_ready header_view_type output w"
  by (simp add: view_ready_def set_view_def request_view_type_def header_view_type_def)

definition small_headers :: "PresignedHeaderV1 list \<Rightarrow> bool" where
  "small_headers hs \<longleftrightarrow> length hs \<le> 2147483647 \<and>
     (\<forall>h \<in> set hs. length (ph_name h) \<le> u64_max \<and> length (ph_value h) \<le> u64_max)"

lemma header_bytes_le:
  "(name, v) \<in> set hs \<Longrightarrow> length name \<le> header_bytes hs \<and> length v \<le> header_bytes hs"
  by (induction hs rule: header_bytes.induct) auto

lemma read_headers_from:
  assumes "view_ready header_view_type output w" and "boxes w p = Some (ORequest r)"
    and "0 < p" and "8 dvd p" and "request_owned mem (heap p) r" and "small_headers (pr_headers r)"
    and "i \<le> length (pr_headers r)"
  shows "read_headers heap mem p output (Suc (length (pr_headers r) - i)) i w =
    (map (\<lambda>h. (ph_name h, ph_value h)) (drop i (pr_headers r)), Returned STATUS_END)"
  using assms(1,2,7)
proof (induction "length (pr_headers r) - i" arbitrary: i w)
  case 0
  then have "unat (word_of_nat i :: u64) = length (pr_headers r)"
    using assms(6) by (simp add: small_headers_def unat_u64_of_nat u64_max_def)
  with 0 assms(3,4) show ?case by (simp add: header_view_live)
next
  case (Suc n)
  then have i: "i < length (pr_headers r)" by simp
  then have u: "unat (word_of_nat i :: u64) = i"
    using assms(6) by (simp add: small_headers_def unat_u64_of_nat u64_max_def)
  let ?h = "pr_headers r ! i"
  have own: "bytes_at mem (heap p (2 + 2 * i)) (bytes_of_text (ph_name ?h))"
    "bytes_at mem (heap p (3 + 2 * i)) (ph_value ?h)"
    using assms(5) i by (simp_all add: request_owned_def)
  have len: "length (ph_name ?h) \<le> u64_max" "length (ph_value ?h) \<le> u64_max"
    using assms(6) i by (simp_all add: small_headers_def)
  define v where "v = \<lparr>phv_struct_size = phv_struct_size (o_header_view (out w) output),
          phv_struct_version = phv_struct_version (o_header_view (out w) output), phv_reserved0 = 0,
          phv_name = string_view (heap p (2 + 2 * i)) (ph_name ?h),
          phv_value = bytes_view (heap p (3 + 2 * i)) (ph_value ?h)\<rparr>"
  let ?w' = "set_view header_view_type output v w"
  have run: "presigned_request_header_view heap p (word_of_nat i) output w = (Returned STATUS_OK, ?w')"
    using header_view_live [OF Suc.prems(1,2) assms(3,4), of heap "word_of_nat i"] i u
    by (simp add: v_def)
  have got: "o_header_view (out ?w') output = v" by (simp add: set_view_def header_view_type_def)
  have "view_ready header_view_type output ?w'"
    by (rule header_view_ready_again [OF Suc.prems(1)]) (simp_all add: v_def)
  then have rest: "read_headers heap mem p output (Suc (length (pr_headers r) - Suc i)) (Suc i) ?w' =
      (map (\<lambda>h. (ph_name h, ph_value h)) (drop (Suc i) (pr_headers r)), Returned STATUS_END)"
    using Suc.hyps(1) [of "Suc i" ?w'] Suc.hyps(2) Suc.prems(2) i by simp
  have vals: "view_text mem (phv_name v) = ph_name ?h" "view_bytes mem (phv_value v) = ph_value ?h"
    using own len by (simp_all add: v_def view_text_of view_bytes_of)
  have "length (pr_headers r) - i = Suc (length (pr_headers r) - Suc i)" using i by simp
  then show ?case
    using run rest got vals Cons_nth_drop_Suc [OF i, symmetric] by (simp add: Let_def)
qed

section \<open>Properties\<close>

text \<open>
  C31. What was presigned can be read back. A request that was accepted and is still alive shows its
  method, its URI and the number of its headers; asking for the headers one after the other yields
  exactly the headers of the signed request in order, and the index after the last one is
  reported as the end, with nothing else.
\<close>

theorem presigned_request_roundtrip:
  assumes "checked_presigned_request req = Inr r"
    and "boxes w p = Some (ORequest r)" and "0 < p" and "8 dvd p"
    and "view_ready request_view_type rout w" and "view_ready header_view_type hout w"
    and "request_owned mem (heap p) r"
  shows "\<exists>w'. presigned_request_view heap p rout w = (Returned STATUS_OK, w') \<and>
    view_text mem (pv_method (o_request_view (out w') rout)) = prq_method req \<and>
    view_text mem (pv_uri (o_request_view (out w') rout)) = prq_uri req \<and>
    unat (pv_header_count (o_request_view (out w') rout)) = length (prq_header req) \<and>
    read_headers heap mem p hout (Suc (length (prq_header req))) 0 w' =
      (prq_header req, Returned STATUS_END)"
proof -
  have small: "request_bytes req \<le> 2147483647" "length (prq_header req) \<le> 2147483647"
    and r: "pr_method r = prq_method req" "pr_uri r = prq_uri req"
      "pr_headers r = map (\<lambda>(n, v). \<lparr>ph_name = n, ph_value = v\<rparr>) (prq_header req)"
    using assms(1) unfolding checked_presigned_eq by (auto split: if_splits)
  have hs: "small_headers (pr_headers r)"
    using small header_bytes_le [of _ _ "prq_header req"]
    by (fastforce simp: small_headers_def r request_bytes_def u64_max_def)
  have same: "map (\<lambda>h. (ph_name h, ph_value h)) (pr_headers r) = prq_header req"
    by (simp add: r comp_def case_prod_beta')
  have count: "unat (word_of_nat (length (prq_header req)) :: u64) = length (prq_header req)"
    using small by (simp add: unat_u64_of_nat u64_max_def)
  let ?v = "\<lparr>pv_struct_size = pv_struct_size (o_request_view (out w) rout),
        pv_struct_version = pv_struct_version (o_request_view (out w) rout), pv_reserved0 = 0,
        pv_method = string_view (heap p 0) (pr_method r), pv_uri = string_view (heap p 1) (pr_uri r),
        pv_header_count = word_of_nat (length (pr_headers r))\<rparr>"
  let ?w' = "set_view request_view_type rout ?v w"
  have len: "length (pr_headers r) \<le> u64_max" using small by (simp add: r u64_max_def)
  have run: "presigned_request_view heap p rout w = (Returned STATUS_OK, ?w')"
    using request_view_live [OF assms(5,2-4) len] .
  have got: "o_request_view (out (set_view request_view_type rout v w)) rout = v" for v
    by (simp add: set_view_def request_view_type_def)
  have ready: "view_ready header_view_type hout ?w'" using assms(6) by (simp add: header_ready_after_request)
  have "read_headers heap mem p hout (Suc (length (pr_headers r) - 0)) 0 ?w' =
      (map (\<lambda>h. (ph_name h, ph_value h)) (drop 0 (pr_headers r)), Returned STATUS_END)"
    by (rule read_headers_from) (use ready assms(2-4,7) hs in simp_all)
  moreover have "view_text mem (string_view (heap p 0) (pr_method r)) = pr_method r"
    "view_text mem (string_view (heap p 1) (pr_uri r)) = pr_uri r"
    using assms(7) small by (auto intro!: view_text_of simp: request_owned_def r request_bytes_def u64_max_def)
  ultimately show ?thesis
    using run same count by (intro exI [of _ ?w']) (simp add: got r)
qed

definition sample_request :: PresignedRequest where
  "sample_request = \<lparr>prq_method = ''G'', prq_uri = ''/'', prq_header = [(''h'', [7]), (''h'', [])]\<rparr>"

definition sample_request_box :: PresignedRequestV1 where
  "sample_request_box = \<lparr>pr_method = ''G'', pr_uri = ''/'',
     pr_headers = [\<lparr>ph_name = ''h'', ph_value = [7]\<rparr>, \<lparr>ph_name = ''h'', ph_value = []\<rparr>]\<rparr>"

definition sample_request_memory :: "addr \<Rightarrow> u8" where
  "sample_request_memory a = (if a = 100 then 71 else if a = 101 then 47 else if a = 103 then 7 else 104)"

theorem presigned_request_roundtrip_witness:
  "\<exists>w'. presigned_request_view (\<lambda>_ k. 100 + k) 16 64 (sample_with (ORequest sample_request_box) ()) =
      (Returned STATUS_OK, w') \<and>
    unat (pv_header_count (o_request_view (out w') 64)) = 2 \<and>
    read_headers (\<lambda>_ k. 100 + k) sample_request_memory 16 128 3 0 w' =
      ([(''h'', [7]), (''h'', [])], Returned STATUS_END)"
proof -
  have "checked_presigned_request sample_request = Inr sample_request_box"
    by (simp add: checked_presigned_eq request_bytes_def sample_request_def sample_request_box_def)
  moreover have "request_owned sample_request_memory ((+) 100) sample_request_box"
    by (auto simp: request_owned_def bytes_at_def sample_request_box_def sample_request_memory_def
        bytes_of_text_def less_Suc_eq)
  moreover have "view_ready request_view_type 64 (sample_with (ORequest sample_request_box) ())"
    "view_ready header_view_type 128 (sample_with (ORequest sample_request_box) ())"
    by (simp_all add: view_ready_def request_view_type_def header_view_type_def sample_outputs_def
        size_of_PresignedRequestViewV1_def size_of_PresignedHeaderViewV1_def)
  ultimately show ?thesis
    using presigned_request_roundtrip [of sample_request sample_request_box
        "sample_with (ORequest sample_request_box) ()" 16 64 128 sample_request_memory "\<lambda>_ k. 100 + k"]
    by (auto simp: sample_request_def numeral_3_eq_3)
qed

text \<open>
  The entry points that presign obey the output contract of the whole-object entry points.
\<close>

lemma presign_contracts:
  assumes "valid_slots slot oerr"
  shows "handle_contract ORequest slot oerr
      (fst (operator_presign_read_body api p path rop secs (clear_slots {slot, oerr} w))) w
      (operator_presign_read api p path rop secs slot oerr w)"
    and "handle_contract ORequest slot oerr
      (fst (operator_presign_write_body api p path wo secs (clear_slots {slot, oerr} w))) w
      (operator_presign_write api p path wo secs slot oerr w)"
    and "handle_contract ORequest slot oerr
      (fst (operator_presign_stat_body api p path so secs (clear_slots {slot, oerr} w))) w
      (operator_presign_stat api p path so secs slot oerr w)"
  unfolding operator_presign_read_def operator_presign_write_def operator_presign_stat_def
  by (intro presign_read_call.handle_entry presign_write_call.handle_entry
      presign_stat_call.handle_entry assms)+

end
