(* ===== verification/WasmAbi.thy ===== *)
theory WasmAbi
  imports Failure
begin

text \<open>
  The constants of the browser bridge (\<open>wasm/browser-bridge/src/lib.rs\<close>). A constant whose name the
  native ABI also uses carries the suffix \<open>_w\<close>. The bridge runs on \<open>wasm32\<close>, where \<open>usize\<close> has 32 bits;
  the text encoders below are the little-endian \<open>to_le_bytes\<close>.
\<close>

section \<open>Constants\<close>

abbreviation (input) ABI_VERSION :: u32 where
  "ABI_VERSION \<equiv> 65543"

abbreviation (input) FEATURE_MEMORY_SERVICE :: u32 where
  "FEATURE_MEMORY_SERVICE \<equiv> push_bit 0 1"

abbreviation (input) FEATURE_POLL_ONCE_CANARY :: u32 where
  "FEATURE_POLL_ONCE_CANARY \<equiv> push_bit 1 1"

abbreviation (input) FEATURE_GENERATION_HANDLES :: u32 where
  "FEATURE_GENERATION_HANDLES \<equiv> push_bit 2 1"

abbreviation (input) FEATURE_BINARY_BUFFERS :: u32 where
  "FEATURE_BINARY_BUFFERS \<equiv> push_bit 3 1"

abbreviation (input) FEATURE_TASK_ABI :: u32 where
  "FEATURE_TASK_ABI \<equiv> push_bit 4 1"

abbreviation (input) FEATURE_GENERIC_OPERATOR :: u32 where
  "FEATURE_GENERIC_OPERATOR \<equiv> push_bit 5 1"

abbreviation (input) FEATURE_CORE_MUTATIONS :: u32 where
  "FEATURE_CORE_MUTATIONS \<equiv> push_bit 6 1"

abbreviation (input) FEATURE_BOUNDED_LIST :: u32 where
  "FEATURE_BOUNDED_LIST \<equiv> push_bit 7 1"

abbreviation (input) FEATURE_BULK_TRANSFER :: u32 where
  "FEATURE_BULK_TRANSFER \<equiv> push_bit 8 1"

abbreviation (input) FEATURE_STRUCTURED_ERRORS :: u32 where
  "FEATURE_STRUCTURED_ERRORS \<equiv> push_bit 9 1"

abbreviation (input) FEATURE_METADATA_OPTIONS :: u32 where
  "FEATURE_METADATA_OPTIONS \<equiv> push_bit 10 1"

abbreviation (input) FEATURE_COPY_RENAME :: u32 where
  "FEATURE_COPY_RENAME \<equiv> push_bit 11 1"

abbreviation (input) FEATURE_STATEFUL_READER :: u32 where
  "FEATURE_STATEFUL_READER \<equiv> push_bit 12 1"

abbreviation (input) FEATURE_STATEFUL_WRITER :: u32 where
  "FEATURE_STATEFUL_WRITER \<equiv> push_bit 13 1"

abbreviation (input) FEATURE_STATEFUL_LISTER :: u32 where
  "FEATURE_STATEFUL_LISTER \<equiv> push_bit 14 1"

abbreviation (input) FEATURE_EXPLICIT_EOF :: u32 where
  "FEATURE_EXPLICIT_EOF \<equiv> push_bit 15 1"

abbreviation (input) MAX_SLOTS :: nat where
  "MAX_SLOTS \<equiv> 65535"

abbreviation (input) MAX_GENERATION :: "16 word" where
  "MAX_GENERATION \<equiv> 32767"

abbreviation (input) MAX_BUFFER_LENGTH :: nat where
  "MAX_BUFFER_LENGTH \<equiv> 67108864"

abbreviation (input) MAX_TRANSFER_CHUNK :: nat where
  "MAX_TRANSFER_CHUNK \<equiv> 262144"

abbreviation (input) MAX_LIST_ENTRIES :: nat where
  "MAX_LIST_ENTRIES \<equiv> 65536"

abbreviation (input) MAX_LIST_OUTPUT_BYTES :: nat where
  "MAX_LIST_OUTPUT_BYTES \<equiv> 16777216"

abbreviation (input) MAX_CONFIG_ENTRIES :: nat where
  "MAX_CONFIG_ENTRIES \<equiv> 1024"

abbreviation (input) MAX_CONFIG_BYTES :: nat where
  "MAX_CONFIG_BYTES \<equiv> 1048576"

abbreviation (input) STATUS_OK_w :: u32 where
  "STATUS_OK_w \<equiv> 0"

abbreviation (input) SCALAR_ERROR :: int where
  "SCALAR_ERROR \<equiv> - 1"

abbreviation (input) ERROR_UNEXPECTED_w :: u32 where
  "ERROR_UNEXPECTED_w \<equiv> 1"

abbreviation (input) ERROR_UNSUPPORTED_w :: u32 where
  "ERROR_UNSUPPORTED_w \<equiv> 2"

abbreviation (input) ERROR_CONFIG_INVALID_w :: u32 where
  "ERROR_CONFIG_INVALID_w \<equiv> 3"

abbreviation (input) ERROR_NOT_FOUND_w :: u32 where
  "ERROR_NOT_FOUND_w \<equiv> 4"

abbreviation (input) ERROR_PERMISSION_DENIED_w :: u32 where
  "ERROR_PERMISSION_DENIED_w \<equiv> 5"

abbreviation (input) ERROR_IS_A_DIRECTORY_w :: u32 where
  "ERROR_IS_A_DIRECTORY_w \<equiv> 6"

abbreviation (input) ERROR_NOT_A_DIRECTORY_w :: u32 where
  "ERROR_NOT_A_DIRECTORY_w \<equiv> 7"

abbreviation (input) ERROR_ALREADY_EXISTS_w :: u32 where
  "ERROR_ALREADY_EXISTS_w \<equiv> 8"

abbreviation (input) ERROR_RATE_LIMITED_w :: u32 where
  "ERROR_RATE_LIMITED_w \<equiv> 9"

abbreviation (input) ERROR_IS_SAME_FILE_w :: u32 where
  "ERROR_IS_SAME_FILE_w \<equiv> 10"

abbreviation (input) ERROR_CONDITION_NOT_MATCH_w :: u32 where
  "ERROR_CONDITION_NOT_MATCH_w \<equiv> 11"

abbreviation (input) ERROR_RANGE_NOT_SATISFIED_w :: u32 where
  "ERROR_RANGE_NOT_SATISFIED_w \<equiv> 12"

abbreviation (input) ERROR_INVALID_ARGUMENT_w :: u32 where
  "ERROR_INVALID_ARGUMENT_w \<equiv> 4097"

abbreviation (input) ERROR_RESOURCE_CLOSED_w :: u32 where
  "ERROR_RESOURCE_CLOSED_w \<equiv> 4098"

abbreviation (input) ERROR_BUFFER_TOO_LARGE_w :: u32 where
  "ERROR_BUFFER_TOO_LARGE_w \<equiv> 4099"

abbreviation (input) ERROR_ABI_MISMATCH_w :: u32 where
  "ERROR_ABI_MISMATCH_w \<equiv> 4100"

abbreviation (input) ERROR_RESOURCE_BUSY :: u32 where
  "ERROR_RESOURCE_BUSY \<equiv> 4102"

abbreviation (input) ERROR_STATUS_PERMANENT_w :: u32 where
  "ERROR_STATUS_PERMANENT_w \<equiv> 1"

abbreviation (input) ERROR_STATUS_TEMPORARY_w :: u32 where
  "ERROR_STATUS_TEMPORARY_w \<equiv> 2"

abbreviation (input) ERROR_STATUS_PERSISTENT_w :: u32 where
  "ERROR_STATUS_PERSISTENT_w \<equiv> 3"

abbreviation (input) ERROR_SNAPSHOT_MAGIC :: "u8 list" where
  "ERROR_SNAPSHOT_MAGIC \<equiv> [79, 68, 69, 49]"

abbreviation (input) ERROR_SNAPSHOT_SCHEMA :: u32 where
  "ERROR_SNAPSHOT_SCHEMA \<equiv> 1"

abbreviation (input) ERROR_SNAPSHOT_HEADER_LENGTH :: nat where
  "ERROR_SNAPSHOT_HEADER_LENGTH \<equiv> 24"

abbreviation (input) METADATA_SNAPSHOT_MAGIC :: "u8 list" where
  "METADATA_SNAPSHOT_MAGIC \<equiv> [79, 68, 77, 49]"

abbreviation (input) METADATA_SNAPSHOT_SCHEMA :: u32 where
  "METADATA_SNAPSHOT_SCHEMA \<equiv> 1"

abbreviation (input) METADATA_SNAPSHOT_HEADER_LENGTH :: nat where
  "METADATA_SNAPSHOT_HEADER_LENGTH \<equiv> 84"

abbreviation (input) METADATA_IS_CURRENT_PRESENT_w :: u64 where
  "METADATA_IS_CURRENT_PRESENT_w \<equiv> push_bit 0 1"

abbreviation (input) METADATA_LAST_MODIFIED_PRESENT_w :: u64 where
  "METADATA_LAST_MODIFIED_PRESENT_w \<equiv> push_bit 1 1"

abbreviation (input) METADATA_CACHE_CONTROL_PRESENT_w :: u64 where
  "METADATA_CACHE_CONTROL_PRESENT_w \<equiv> push_bit 2 1"

abbreviation (input) METADATA_CONTENT_DISPOSITION_PRESENT_w :: u64 where
  "METADATA_CONTENT_DISPOSITION_PRESENT_w \<equiv> push_bit 3 1"

abbreviation (input) METADATA_CONTENT_ENCODING_PRESENT_w :: u64 where
  "METADATA_CONTENT_ENCODING_PRESENT_w \<equiv> push_bit 4 1"

abbreviation (input) METADATA_CONTENT_MD5_PRESENT_w :: u64 where
  "METADATA_CONTENT_MD5_PRESENT_w \<equiv> push_bit 5 1"

abbreviation (input) METADATA_CONTENT_TYPE_PRESENT_w :: u64 where
  "METADATA_CONTENT_TYPE_PRESENT_w \<equiv> push_bit 6 1"

abbreviation (input) METADATA_ETAG_PRESENT_w :: u64 where
  "METADATA_ETAG_PRESENT_w \<equiv> push_bit 7 1"

abbreviation (input) METADATA_VERSION_PRESENT_w :: u64 where
  "METADATA_VERSION_PRESENT_w \<equiv> push_bit 8 1"

abbreviation (input) RANGE_FULL_w :: u32 where
  "RANGE_FULL_w \<equiv> 0"

abbreviation (input) RANGE_FROM_w :: u32 where
  "RANGE_FROM_w \<equiv> 1"

abbreviation (input) RANGE_OFFSET_LENGTH_w :: u32 where
  "RANGE_OFFSET_LENGTH_w \<equiv> 2"

abbreviation (input) RANGE_SUFFIX_w :: u32 where
  "RANGE_SUFFIX_w \<equiv> 3"

abbreviation (input) TASK_PENDING :: u32 where
  "TASK_PENDING \<equiv> 1"

abbreviation (input) TASK_READY :: u32 where
  "TASK_READY \<equiv> 2"

abbreviation (input) TASK_CANCELLED :: u32 where
  "TASK_CANCELLED \<equiv> 3"

abbreviation (input) TASK_CONSUMED :: u32 where
  "TASK_CONSUMED \<equiv> 4"

abbreviation (input) COMPLETION_WRITE :: u32 where
  "COMPLETION_WRITE \<equiv> 1"

abbreviation (input) COMPLETION_READ :: u32 where
  "COMPLETION_READ \<equiv> 2"

abbreviation (input) COMPLETION_STAT :: u32 where
  "COMPLETION_STAT \<equiv> 3"

abbreviation (input) COMPLETION_CREATE_DIR :: u32 where
  "COMPLETION_CREATE_DIR \<equiv> 4"

abbreviation (input) COMPLETION_DELETE :: u32 where
  "COMPLETION_DELETE \<equiv> 5"

abbreviation (input) COMPLETION_LIST :: u32 where
  "COMPLETION_LIST \<equiv> 6"

abbreviation (input) COMPLETION_COPY :: u32 where
  "COMPLETION_COPY \<equiv> 7"

abbreviation (input) COMPLETION_RENAME :: u32 where
  "COMPLETION_RENAME \<equiv> 8"

abbreviation (input) COMPLETION_OPEN_READER :: u32 where
  "COMPLETION_OPEN_READER \<equiv> 9"

abbreviation (input) COMPLETION_READER_NEXT :: u32 where
  "COMPLETION_READER_NEXT \<equiv> 10"

abbreviation (input) COMPLETION_OPEN_WRITER :: u32 where
  "COMPLETION_OPEN_WRITER \<equiv> 11"

abbreviation (input) COMPLETION_WRITER_WRITE :: u32 where
  "COMPLETION_WRITER_WRITE \<equiv> 12"

abbreviation (input) COMPLETION_WRITER_FINISH :: u32 where
  "COMPLETION_WRITER_FINISH \<equiv> 13"

abbreviation (input) COMPLETION_WRITER_ABORT :: u32 where
  "COMPLETION_WRITER_ABORT \<equiv> 14"

abbreviation (input) COMPLETION_OPEN_LISTER :: u32 where
  "COMPLETION_OPEN_LISTER \<equiv> 15"

abbreviation (input) COMPLETION_LISTER_NEXT :: u32 where
  "COMPLETION_LISTER_NEXT \<equiv> 16"

abbreviation (input) ENTRY_MODE_UNKNOWN_w :: u32 where
  "ENTRY_MODE_UNKNOWN_w \<equiv> 0"

abbreviation (input) ENTRY_MODE_FILE_w :: u32 where
  "ENTRY_MODE_FILE_w \<equiv> 1"

abbreviation (input) ENTRY_MODE_DIRECTORY_w :: u32 where
  "ENTRY_MODE_DIRECTORY_w \<equiv> 2"

abbreviation (input) CAP_STAT_w :: u64 where
  "CAP_STAT_w \<equiv> push_bit 0 1"

abbreviation (input) CAP_READ_w :: u64 where
  "CAP_READ_w \<equiv> push_bit 1 1"

abbreviation (input) CAP_WRITE_w :: u64 where
  "CAP_WRITE_w \<equiv> push_bit 2 1"

abbreviation (input) CAP_CREATE_DIR_w :: u64 where
  "CAP_CREATE_DIR_w \<equiv> push_bit 3 1"

abbreviation (input) CAP_DELETE_w :: u64 where
  "CAP_DELETE_w \<equiv> push_bit 4 1"

abbreviation (input) CAP_LIST_w :: u64 where
  "CAP_LIST_w \<equiv> push_bit 5 1"

abbreviation (input) CAP_COPY_w :: u64 where
  "CAP_COPY_w \<equiv> push_bit 6 1"

abbreviation (input) CAP_RENAME_w :: u64 where
  "CAP_RENAME_w \<equiv> push_bit 7 1"

abbreviation (input) CAP_READ_SUFFIX_w :: u64 where
  "CAP_READ_SUFFIX_w \<equiv> push_bit 8 1"

abbreviation (input) CAP_WRITE_APPEND_w :: u64 where
  "CAP_WRITE_APPEND_w \<equiv> push_bit 9 1"

abbreviation (input) CAP_LIST_LIMIT_w :: u64 where
  "CAP_LIST_LIMIT_w \<equiv> push_bit 10 1"

abbreviation (input) CAP_LIST_START_AFTER_w :: u64 where
  "CAP_LIST_START_AFTER_w \<equiv> push_bit 11 1"

abbreviation (input) CAP_LIST_RECURSIVE_w :: u64 where
  "CAP_LIST_RECURSIVE_w \<equiv> push_bit 12 1"

abbreviation (input) CAP_PRESIGN_STAT_w :: u64 where
  "CAP_PRESIGN_STAT_w \<equiv> push_bit 13 1"

abbreviation (input) CAP_PRESIGN_READ_w :: u64 where
  "CAP_PRESIGN_READ_w \<equiv> push_bit 14 1"

abbreviation (input) CAP_PRESIGN_WRITE_w :: u64 where
  "CAP_PRESIGN_WRITE_w \<equiv> push_bit 15 1"

section \<open>Machine integers of the target\<close>

type_synonym u16 = "16 word"

definition usize32_max :: nat where
  "usize32_max = 4294967295"

definition checked_add_usize32 :: "usize \<Rightarrow> usize \<Rightarrow> usize option" where
  "checked_add_usize32 a b = (if a + b \<le> usize32_max then Some (a + b) else None)"

definition u32_try_from_usize :: "usize \<Rightarrow> u32 option" where
  "u32_try_from_usize n = (if n \<le> usize32_max then Some (word_of_nat n) else None)"

lemma unat_u32_of_nat: "n \<le> usize32_max \<Longrightarrow> unat (word_of_nat n :: u32) = n"
  by (simp add: usize32_max_def unat_of_nat)

section \<open>Little-endian bytes\<close>

definition le32 :: "u32 \<Rightarrow> u8 list" where
  "le32 w = [ucast w, ucast (drop_bit 8 w), ucast (drop_bit 16 w), ucast (drop_bit 24 w)]"

definition le64 :: "u64 \<Rightarrow> u8 list" where
  "le64 w = le32 (ucast w) @ le32 (ucast (drop_bit 32 w))"

fun of_le32 :: "u8 list \<Rightarrow> u32" where
  "of_le32 [a, b, c, d] =
     ucast a OR push_bit 8 (ucast b) OR push_bit 16 (ucast c) OR push_bit 24 (ucast d)"
| "of_le32 _ = 0"

definition of_le64 :: "u8 list \<Rightarrow> u64" where
  "of_le64 bs = ucast (of_le32 (take 4 bs)) OR push_bit 32 (ucast (of_le32 (drop 4 bs)))"

lemma length_le [simp]: "length (le32 w) = 4" "length (le64 v) = 8"
  by (simp_all add: le32_def le64_def)

lemma of_le32_le32 [simp]: "of_le32 (le32 w) = w"
proof (rule bit_word_eqI)
  fix n
  assume "n < LENGTH(32)"
  then have "n < 32" by simp
  then consider "n < 8" | "8 \<le> n" "n < 16" | "16 \<le> n" "n < 24" | "24 \<le> n" "n < 32" by linarith
  then show "bit (of_le32 (le32 w)) n = bit w n"
    by cases (auto simp: le32_def bit_simps)
qed

lemma of_le64_le64 [simp]: "of_le64 (le64 w) = w"
proof (rule bit_word_eqI)
  fix n
  assume "n < LENGTH(64)"
  then have "n < 64" by simp
  then consider "n < 32" | "32 \<le> n" "n < 64" by linarith
  then show "bit (of_le64 (le64 w)) n = bit w n"
    by cases (auto simp: of_le64_def le64_def bit_simps)
qed

end
