(* ===== verification/WasmError.thy ===== *)
theory WasmError
  imports WasmAbi
begin

text \<open>
  Errors of the browser bridge: \<open>BridgeError\<close> with its codes, kinds and texts, the conversion of
  OpenDAL errors, and the versioned binary snapshot \<open>ODE1\<close> through which JavaScript reads an error.

  An allocation that the code asks for with \<open>try_reserve\<close> is a call of the allocator \<open>alloc\<close>, which
  may refuse; the allocator's state is part of the external state \<open>'x\<close>.
\<close>

section \<open>BridgeError\<close>

datatype BridgeError =
    InvalidHandle u32
  | WrongResourceType u32 string string
  | BufferTooLarge
  | IndexOutOfBounds u32 usize
  | InvalidByte u32
  | InvalidUtf8
  | OpenDal u32 u32 string string
  | AsyncPending
  | HandleLimit
  | LengthOverflow
  | TaskNotReady u32
  | TaskConsumed u32
  | TornDown
  | ResourceClosed u32
  | ResourceBusy u32
  | ListTooLarge
  | AllocationFailed
  | InvalidArgument string

fun code :: "BridgeError \<Rightarrow> u32" where
  "code (InvalidHandle _) = 1"
| "code (WrongResourceType _ _ _) = 2"
| "code BufferTooLarge = 3"
| "code (IndexOutOfBounds _ _) = 4"
| "code (InvalidByte _) = 5"
| "code InvalidUtf8 = 6"
| "code (OpenDal kind _ _ _) = (if kind = ERROR_NOT_FOUND_w then 7 else 8)"
| "code AsyncPending = 9"
| "code HandleLimit = 10"
| "code LengthOverflow = 11"
| "code (TaskNotReady _) = 12"
| "code (TaskConsumed _) = 13"
| "code TornDown = 14"
| "code ListTooLarge = 15"
| "code AllocationFailed = 16"
| "code (InvalidArgument _) = 17"
| "code (ResourceClosed _) = 1"
| "code (ResourceBusy _) = 18"

fun kind :: "BridgeError \<Rightarrow> u32" where
  "kind (InvalidHandle _) = ERROR_RESOURCE_CLOSED_w"
| "kind (TaskNotReady _) = ERROR_RESOURCE_CLOSED_w"
| "kind (TaskConsumed _) = ERROR_RESOURCE_CLOSED_w"
| "kind TornDown = ERROR_RESOURCE_CLOSED_w"
| "kind (ResourceClosed _) = ERROR_RESOURCE_CLOSED_w"
| "kind (ResourceBusy _) = ERROR_RESOURCE_BUSY"
| "kind (WrongResourceType _ _ _) = ERROR_ABI_MISMATCH_w"
| "kind (IndexOutOfBounds _ _) = ERROR_INVALID_ARGUMENT_w"
| "kind (InvalidByte _) = ERROR_INVALID_ARGUMENT_w"
| "kind InvalidUtf8 = ERROR_INVALID_ARGUMENT_w"
| "kind (InvalidArgument _) = ERROR_INVALID_ARGUMENT_w"
| "kind BufferTooLarge = ERROR_BUFFER_TOO_LARGE_w"
| "kind LengthOverflow = ERROR_BUFFER_TOO_LARGE_w"
| "kind ListTooLarge = ERROR_BUFFER_TOO_LARGE_w"
| "kind (OpenDal k _ _ _) = k"
| "kind AsyncPending = ERROR_UNEXPECTED_w"
| "kind HandleLimit = ERROR_UNEXPECTED_w"
| "kind AllocationFailed = ERROR_UNEXPECTED_w"

fun error_status :: "BridgeError \<Rightarrow> u32" where
  "error_status (OpenDal _ status _ _) = status"
| "error_status _ = ERROR_STATUS_PERMANENT_w"

fun kind_name :: "BridgeError \<Rightarrow> string" where
  "kind_name (InvalidHandle _) = ''ResourceClosed''"
| "kind_name (TaskNotReady _) = ''ResourceClosed''"
| "kind_name (TaskConsumed _) = ''ResourceClosed''"
| "kind_name TornDown = ''ResourceClosed''"
| "kind_name (ResourceClosed _) = ''ResourceClosed''"
| "kind_name (ResourceBusy _) = ''ResourceBusy''"
| "kind_name (WrongResourceType _ _ _) = ''AbiMismatch''"
| "kind_name (IndexOutOfBounds _ _) = ''InvalidArgument''"
| "kind_name (InvalidByte _) = ''InvalidArgument''"
| "kind_name InvalidUtf8 = ''InvalidArgument''"
| "kind_name (InvalidArgument _) = ''InvalidArgument''"
| "kind_name BufferTooLarge = ''BufferTooLarge''"
| "kind_name LengthOverflow = ''BufferTooLarge''"
| "kind_name ListTooLarge = ''BufferTooLarge''"
| "kind_name (OpenDal _ _ name _) = name"
| "kind_name AsyncPending = ''Unexpected''"
| "kind_name HandleLimit = ''Unexpected''"
| "kind_name AllocationFailed = ''Unexpected''"

text \<open>The decimal digits of a number, as Rust's \<open>Display\<close> writes them.\<close>

fun dec :: "nat \<Rightarrow> string" where
  "dec n = (if n < 10 then [char_of (48 + n)] else dec (n div 10) @ [char_of (48 + n mod 10)])"

declare dec.simps [simp del]

fun to_string :: "BridgeError \<Rightarrow> string" where
  \<comment> \<open>the \<open>#[error(..)]\<close> texts\<close>
  "to_string (InvalidHandle handle) = ''invalid or stale handle '' @ dec (unat handle)"
| "to_string (WrongResourceType handle expected actual) =
     ''handle '' @ dec (unat handle) @ '' contains '' @ actual @ '', expected '' @ expected"
| "to_string BufferTooLarge =
     ''buffer cannot grow beyond '' @ dec MAX_BUFFER_LENGTH @ '' bytes in ABI v1''"
| "to_string (IndexOutOfBounds index len) =
     ''buffer index '' @ dec (unat index) @ '' is out of bounds for length '' @ dec len"
| "to_string (InvalidByte value) = dec (unat value) @ '' is not an unsigned byte''"
| "to_string InvalidUtf8 = ''path buffer is not valid UTF-8''"
| "to_string (OpenDal _ _ _ message) = ''OpenDAL operation failed: '' @ message"
| "to_string AsyncPending = ''OpenDAL future returned Pending in the poll-once canary adapter''"
| "to_string HandleLimit =
     ''the bridge has reached its '' @ dec MAX_SLOTS @ ''-handle capacity''"
| "to_string LengthOverflow = ''value cannot be represented by the scalar ABI''"
| "to_string (TaskNotReady handle) = ''task '' @ dec (unat handle) @ '' is not ready''"
| "to_string (TaskConsumed handle) = ''task '' @ dec (unat handle) @ '' has already been consumed''"
| "to_string TornDown = ''the bridge instance has been torn down''"
| "to_string (ResourceClosed handle) = ''resource '' @ dec (unat handle) @ '' is closed''"
| "to_string (ResourceBusy handle) =
     ''resource '' @ dec (unat handle) @ '' already has an operation in flight''"
| "to_string ListTooLarge =
     ''list exceeds the binding limits of '' @ dec MAX_LIST_ENTRIES @ '' entries or '' @
     dec MAX_LIST_OUTPUT_BYTES @ '' UTF-8 bytes''"
| "to_string AllocationFailed = ''the bridge could not reserve memory for an owned result''"
| "to_string (InvalidArgument message) = ''invalid scalar argument: '' @ message"

fun diagnostic_message :: "BridgeError \<Rightarrow> string" where
  "diagnostic_message (OpenDal _ _ _ message) = message"
| "diagnostic_message error = to_string error"

fun wasm_error_code :: "ErrorKind \<Rightarrow> u32" where
  "wasm_error_code KUnexpected = ERROR_UNEXPECTED_w"
| "wasm_error_code KUnsupported = ERROR_UNSUPPORTED_w"
| "wasm_error_code KConfigInvalid = ERROR_CONFIG_INVALID_w"
| "wasm_error_code KNotFound = ERROR_NOT_FOUND_w"
| "wasm_error_code KPermissionDenied = ERROR_PERMISSION_DENIED_w"
| "wasm_error_code KIsADirectory = ERROR_IS_A_DIRECTORY_w"
| "wasm_error_code KNotADirectory = ERROR_NOT_A_DIRECTORY_w"
| "wasm_error_code KAlreadyExists = ERROR_ALREADY_EXISTS_w"
| "wasm_error_code KRateLimited = ERROR_RATE_LIMITED_w"
| "wasm_error_code KIsSameFile = ERROR_IS_SAME_FILE_w"
| "wasm_error_code KConditionNotMatch = ERROR_CONDITION_NOT_MATCH_w"
| "wasm_error_code KRangeNotSatisfied = ERROR_RANGE_NOT_SATISFIED_w"
| "wasm_error_code KOther = ERROR_UNEXPECTED_w"

definition from_opendal :: "opendal_Error \<Rightarrow> BridgeError" where
  \<comment> \<open>\<open>impl From<opendal::Error> for BridgeError\<close>\<close>
  "from_opendal error =
     OpenDal (wasm_error_code (oe_kind error))
       (if oe_is_temporary error then ERROR_STATUS_TEMPORARY_w
        else if oe_is_persistent error then ERROR_STATUS_PERSISTENT_w
        else ERROR_STATUS_PERMANENT_w)
       (oe_kind_static error) (oe_message error)"

definition from_construction_error :: "opendal_Error \<Rightarrow> BridgeError" where
  "from_construction_error error =
     (case from_opendal error of
        OpenDal k status name _ \<Rightarrow> OpenDal k status name ''operator construction failed''
      | other \<Rightarrow> other)"

section \<open>Snapshots\<close>

definition try_reserve :: "(usize \<Rightarrow> 'x \<Rightarrow> bool \<times> 'x) \<Rightarrow> usize \<Rightarrow> ('x, BridgeError, unit) comp" where
  "try_reserve alloc n x =
     (case alloc n x of
        (True, x') \<Rightarrow> (Ok (), x')
      | (False, x') \<Rightarrow> (Err AllocationFailed, x'))"

definition error_snapshot_bytes ::
  "(usize \<Rightarrow> 'x \<Rightarrow> bool \<times> 'x) \<Rightarrow> BridgeError \<Rightarrow> ('x, BridgeError, u8 list) comp" where
  "error_snapshot_bytes alloc error =
     (let name = bytes_of_text (kind_name error);
          message = bytes_of_text (diagnostic_message error)
      in
      case u32_try_from_usize (length name) of
        None \<Rightarrow> throw BufferTooLarge
      | Some kind_name_length \<Rightarrow>
          (case u32_try_from_usize (length message) of
             None \<Rightarrow> throw BufferTooLarge
           | Some message_length \<Rightarrow>
               (case Option.bind (checked_add_usize32 ERROR_SNAPSHOT_HEADER_LENGTH (length name))
                       (\<lambda>len. checked_add_usize32 len (length message)) of
                  None \<Rightarrow> throw BufferTooLarge
                | Some total_length \<Rightarrow>
                    if total_length > MAX_BUFFER_LENGTH then throw BufferTooLarge
                    else bind (try_reserve alloc total_length) (\<lambda>_.
                      ret (ERROR_SNAPSHOT_MAGIC @ le32 ERROR_SNAPSHOT_SCHEMA @ le32 (kind error) @
                        le32 (error_status error) @ le32 kind_name_length @ le32 message_length @
                        name @ message)))))"

text \<open>How a reader of the documented layout decodes a snapshot.\<close>

definition word_at :: "nat \<Rightarrow> u8 list \<Rightarrow> u32" where
  "word_at k bs = of_le32 (take 4 (drop k bs))"

definition long_at :: "nat \<Rightarrow> u8 list \<Rightarrow> u64" where
  "long_at k bs = of_le64 (take 8 (drop k bs))"

definition decode_error :: "u8 list \<Rightarrow> (u32 \<times> u32 \<times> string \<times> string) option" where
  "decode_error bs =
     (let n = unat (word_at 16 bs); m = unat (word_at 20 bs) in
      if take 4 bs = ERROR_SNAPSHOT_MAGIC \<and> word_at 4 bs = ERROR_SNAPSHOT_SCHEMA \<and>
         length bs = 24 + n + m
      then Some (word_at 8 bs, word_at 12 bs, text_of_bytes (take n (drop 24 bs)),
             text_of_bytes (drop n (drop 24 bs)))
      else None)"

lemma decode_error_layout:
  assumes "length n \<le> usize32_max" and "length m \<le> usize32_max"
  shows "decode_error (ERROR_SNAPSHOT_MAGIC @ le32 ERROR_SNAPSHOT_SCHEMA @ le32 k @ le32 s @
    le32 (word_of_nat (length n)) @ le32 (word_of_nat (length m)) @ n @ m) =
    Some (k, s, text_of_bytes n, text_of_bytes m)"
  using assms by (simp add: decode_error_def word_at_def unat_u32_of_nat Let_def)

section \<open>Properties\<close>

text \<open>
  C26. An error snapshot carries the whole error. Whatever the error, the snapshot is either the
  \<open>ODE1\<close> encoding from which a reader recovers the kind, the status, the kind's name and the
  diagnostic message exactly, within the buffer limit; or it is refused, as too large exactly when
  the encoding would exceed the limit, and otherwise only because the allocator refused.
\<close>

theorem error_snapshot_roundtrip:
  "(let n = 24 + length (kind_name e) + length (diagnostic_message e) in
    case error_snapshot_bytes alloc e x of
      (Ok bs, x') \<Rightarrow>
        decode_error bs = Some (kind e, error_status e, kind_name e, diagnostic_message e) \<and>
        length bs = n \<and> n \<le> MAX_BUFFER_LENGTH \<and> alloc n x = (True, x')
    | (Err f, x') \<Rightarrow>
        if n > MAX_BUFFER_LENGTH then f = BufferTooLarge \<and> x' = x
        else f = AllocationFailed \<and> alloc n x = (False, x')
    | _ \<Rightarrow> False)"
proof -
  let ?n = "24 + length (kind_name e) + length (diagnostic_message e)"
  have small: "length (kind_name e) \<le> usize32_max" "length (diagnostic_message e) \<le> usize32_max"
    "?n \<le> usize32_max" if "?n \<le> 67108864"
    using that by (simp_all add: usize32_max_def)
  show ?thesis
  proof (cases "?n \<le> 67108864")
    case True
    obtain ok x' where alloc: "alloc ?n x = (ok, x')" by force
    show ?thesis
      using True small [OF True] alloc decode_error_layout [of "bytes_of_text (kind_name e)"
          "bytes_of_text (diagnostic_message e)" "kind e" "error_status e"]
      by (cases ok)
        (simp_all add: error_snapshot_bytes_def u32_try_from_usize_def checked_add_usize32_def Let_def
          bind_def try_reserve_def run_simps)
  next
    case False
    then show ?thesis
      by (auto simp: error_snapshot_bytes_def u32_try_from_usize_def checked_add_usize32_def Let_def
          run_simps)
  qed
qed

end
