(* ===== verification/WasmMetadata.thy ===== *)
theory WasmMetadata
  imports WasmError Views
begin

text \<open>
  The versioned binary snapshot \<open>ODM1\<close> of OpenDAL metadata (\<open>MetadataSnapshotView\<close> and
  \<open>metadata_snapshot_bytes\<close> of the browser bridge), and a reader of its documented layout.
\<close>

section \<open>Encoding\<close>

record MetadataSnapshotView =
  msv_present_bits :: u64
  msv_mode :: u32
  msv_is_current :: u32
  msv_is_deleted :: u32
  msv_content_length :: u64
  msv_last_modified_seconds :: int
  msv_last_modified_nanoseconds :: u32
  msv_strings :: "string option list"
  msv_lengths :: "u32 list"
  msv_encoded_length :: usize

fun wasm_mode :: "EntryMode \<Rightarrow> u32" where
  "wasm_mode FILE = ENTRY_MODE_FILE_w"
| "wasm_mode DIR = ENTRY_MODE_DIRECTORY_w"
| "wasm_mode UnknownMode = ENTRY_MODE_UNKNOWN_w"

definition i64_min :: int where
  "i64_min = - 9223372036854775808"

definition checked_sub_i64 :: "int \<Rightarrow> int \<Rightarrow> int option" where
  "checked_sub_i64 a b = (if i64_min \<le> a - b then Some (a - b) else None)"

definition normalise_time :: "int \<Rightarrow> int \<Rightarrow> BridgeError + (int \<times> u32)" where
  \<comment> \<open>seconds rounded down, with non-negative nanoseconds\<close>
  "normalise_time seconds subseconds =
     (if subseconds < 0 then
        (case checked_sub_i64 seconds 1 of
           None \<Rightarrow> Inl LengthOverflow
         | Some s \<Rightarrow>
             (case u32_try_from_i32 (1000000000 + subseconds) of
                None \<Rightarrow> Inl LengthOverflow
              | Some n \<Rightarrow> Inr (s, n)))
      else
        (case u32_try_from_i32 subseconds of
           None \<Rightarrow> Inl LengthOverflow
         | Some n \<Rightarrow> Inr (seconds, n)))"

fun scan_strings ::
  "(u64 \<times> string option) list \<Rightarrow> u64 \<Rightarrow> usize \<Rightarrow> BridgeError + (u64 \<times> u32 list \<times> usize)" where
  \<comment> \<open>the loop over the seven optional strings\<close>
  "scan_strings [] present_bits encoded_length = Inr (present_bits, [], encoded_length)"
| "scan_strings ((flag, None) # rest) present_bits encoded_length =
     res_bind (scan_strings rest present_bits encoded_length) (\<lambda>(bits, lengths, len).
       Inr (bits, 0 # lengths, len))"
| "scan_strings ((flag, Some s) # rest) present_bits encoded_length =
     (case u32_try_from_usize (length s) of
        None \<Rightarrow> Inl BufferTooLarge
      | Some l \<Rightarrow>
          (case checked_add_usize32 encoded_length (length s) of
             None \<Rightarrow> Inl BufferTooLarge
           | Some n \<Rightarrow>
               if n > MAX_BUFFER_LENGTH then Inl BufferTooLarge
               else res_bind (scan_strings rest (present_bits OR flag) n) (\<lambda>(bits, lengths, len).
                 Inr (bits, l # lengths, len))))"

definition metadata_strings :: "Metadata \<Rightarrow> string option list" where
  "metadata_strings metadata =
     [md_cache_control metadata, md_content_disposition metadata, md_content_encoding metadata,
      md_content_md5 metadata, md_content_type metadata, md_etag metadata, md_version metadata]"

definition string_bits :: "u64 list" where
  "string_bits =
     [METADATA_CACHE_CONTROL_PRESENT_w, METADATA_CONTENT_DISPOSITION_PRESENT_w,
      METADATA_CONTENT_ENCODING_PRESENT_w, METADATA_CONTENT_MD5_PRESENT_w,
      METADATA_CONTENT_TYPE_PRESENT_w, METADATA_ETAG_PRESENT_w, METADATA_VERSION_PRESENT_w]"

definition new_snapshot_view :: "Metadata \<Rightarrow> BridgeError + MetadataSnapshotView" where
  "new_snapshot_view metadata =
     res_bind
       (case md_last_modified metadata of
          Some (s, n) \<Rightarrow> res_bind (normalise_time s n) (\<lambda>(s, n). Inr (s, n, True))
        | None \<Rightarrow> Inr (0, 0, False)) (\<lambda>(seconds, nanoseconds, modified_present).
     let present_bits = flag_word
           [(METADATA_IS_CURRENT_PRESENT_w, md_is_current metadata \<noteq> None),
            (METADATA_LAST_MODIFIED_PRESENT_w, modified_present)]
     in
     res_bind (scan_strings (zip string_bits (metadata_strings metadata)) present_bits
                 METADATA_SNAPSHOT_HEADER_LENGTH) (\<lambda>(bits, lengths, len).
       Inr \<lparr>msv_present_bits = bits, msv_mode = wasm_mode (md_mode metadata),
            msv_is_current = (case md_is_current metadata of Some b \<Rightarrow> of_bool b | None \<Rightarrow> 0),
            msv_is_deleted = of_bool (md_is_deleted metadata),
            msv_content_length = md_content_length metadata,
            msv_last_modified_seconds = seconds, msv_last_modified_nanoseconds = nanoseconds,
            msv_strings = metadata_strings metadata, msv_lengths = lengths,
            msv_encoded_length = len\<rparr>))"

definition flatten_strings :: "string option list \<Rightarrow> u8 list" where
  "flatten_strings xs = concat (map (\<lambda>x. case x of Some s \<Rightarrow> bytes_of_text s | None \<Rightarrow> []) xs)"

definition snapshot_layout :: "MetadataSnapshotView \<Rightarrow> u8 list" where
  "snapshot_layout v =
     METADATA_SNAPSHOT_MAGIC @ le32 METADATA_SNAPSHOT_SCHEMA @ le64 (msv_present_bits v) @
     le32 (msv_mode v) @ le32 (msv_is_current v) @ le32 (msv_is_deleted v) @ le32 0 @
     le64 (msv_content_length v) @ le64 (word_of_int (msv_last_modified_seconds v)) @
     le32 (msv_last_modified_nanoseconds v) @ le32 0 @ concat (map le32 (msv_lengths v)) @
     flatten_strings (msv_strings v)"

definition encode :: "(usize \<Rightarrow> 'x \<Rightarrow> bool \<times> 'x) \<Rightarrow> MetadataSnapshotView \<Rightarrow> ('x, BridgeError, u8 list) comp" where
  "encode alloc v = bind (try_reserve alloc (msv_encoded_length v)) (\<lambda>_. ret (snapshot_layout v))"

definition metadata_snapshot_bytes ::
  "(usize \<Rightarrow> 'x \<Rightarrow> bool \<times> 'x) \<Rightarrow> Metadata \<Rightarrow> ('x, BridgeError, u8 list) comp" where
  "metadata_snapshot_bytes alloc metadata =
     bind (lift_res (new_snapshot_view metadata)) (encode alloc)"

section \<open>Decoding\<close>

fun split_texts :: "bool list \<Rightarrow> nat list \<Rightarrow> u8 list \<Rightarrow> string option list" where
  "split_texts (p # ps) (n # ns) bs =
     (if p then Some (text_of_bytes (take n bs)) else None) # split_texts ps ns (drop n bs)"
| "split_texts _ _ bs = []"

definition decode_snapshot :: "u8 list \<Rightarrow> Metadata option" where
  "decode_snapshot bs =
     (let bits = long_at 8 bs;
          lengths = map (\<lambda>i. unat (word_at (56 + 4 * i) bs)) [0..<7];
          texts = split_texts (map (\<lambda>i. bits AND push_bit (i + 2) 1 \<noteq> 0) [0..<7]) lengths (drop 84 bs)
      in
      if take 4 bs = METADATA_SNAPSHOT_MAGIC \<and> word_at 4 bs = METADATA_SNAPSHOT_SCHEMA \<and>
         length bs = 84 + sum_list lengths
      then Some
        \<lparr>md_mode = decode_mode (word_at 16 bs),
         md_is_current = (if bits AND push_bit 0 1 \<noteq> 0 then Some (word_at 20 bs \<noteq> 0) else None),
         md_is_deleted = (word_at 24 bs \<noteq> 0),
         md_content_length = long_at 32 bs,
         md_last_modified = (if bits AND push_bit 1 1 \<noteq> 0
                             then Some (sint (long_at 40 bs), uint (word_at 48 bs)) else None),
         md_cache_control = texts ! 0, md_content_disposition = texts ! 1,
         md_content_encoding = texts ! 2, md_content_md5 = texts ! 3, md_content_type = texts ! 4,
         md_etag = texts ! 5, md_version = texts ! 6\<rparr>
      else None)"

text \<open>The time a snapshot shows: the same instant, with non-negative nanoseconds.\<close>

definition shown_time :: "int \<times> int \<Rightarrow> int \<times> int" where
  "shown_time t = (if snd t < 0 then (fst t - 1, 1000000000 + snd t) else t)"

definition time_in_range :: "Metadata \<Rightarrow> bool" where
  \<comment> \<open>what the timestamp type guarantees: an \<open>i64\<close> of seconds and less than a second besides\<close>
  "time_in_range m \<longleftrightarrow>
     (case md_last_modified m of None \<Rightarrow> True
      | Some (s, n) \<Rightarrow> i64_min < s \<and> s < 9223372036854775808 \<and> \<bar>n\<bar> < 1000000000)"

definition strings_len :: "string option list \<Rightarrow> nat" where
  "strings_len xs = sum_list (map (\<lambda>x. case x of Some s \<Rightarrow> length s | None \<Rightarrow> 0) xs)"

lemma strings_len_simps [simp]:
  "strings_len [] = 0" "strings_len (None # xs) = strings_len xs"
  "strings_len (Some s # xs) = length s + strings_len xs"
  by (simp_all add: strings_len_def)

lemma flatten_strings_simps [simp]:
  "flatten_strings [] = []" "flatten_strings (None # xs) = flatten_strings xs"
  "flatten_strings (Some s # xs) = bytes_of_text s @ flatten_strings xs"
  by (simp_all add: flatten_strings_def)

lemma length_flatten_strings: "length (flatten_strings xs) = strings_len xs"
  by (induction xs) (auto simp: flatten_strings_def strings_len_def split: option.splits)

definition text_lengths :: "string option list \<Rightarrow> u32 list" where
  "text_lengths xs = map (\<lambda>x. case x of Some s \<Rightarrow> word_of_nat (length s) | None \<Rightarrow> 0) xs"

lemma scan_strings_eq:
  assumes "n \<le> 67108864"
  shows "scan_strings fs bits n =
    (if n + strings_len (map snd fs) \<le> 67108864
     then Inr (fold (\<lambda>(flag, p) w. if p then w OR flag else w)
                 (map (\<lambda>(flag, x). (flag, x \<noteq> None)) fs) bits,
               text_lengths (map snd fs), n + strings_len (map snd fs))
     else Inl BufferTooLarge)"
  using assms
proof (induction fs bits n rule: scan_strings.induct)
  case (3 flag s rest bits n)
  show ?case
  proof (cases "n + length s \<le> 67108864")
    case True
    then have "checked_add_usize32 n (length s) = Some (n + length s)"
      "u32_try_from_usize (length s) = Some (word_of_nat (length s))"
      by (simp_all add: checked_add_usize32_def u32_try_from_usize_def usize32_max_def)
    then show ?thesis using 3 True by (simp add: text_lengths_def add.assoc)
  next
    case False
    then show ?thesis
      by (auto simp: checked_add_usize32_def u32_try_from_usize_def split: option.splits)
  qed
qed (simp_all add: text_lengths_def)

lemma split_texts_flatten:
  assumes "\<forall>x \<in> set xs. \<forall>s. x = Some s \<longrightarrow> length s \<le> usize32_max"
  shows "split_texts (map (\<lambda>x. x \<noteq> None) xs) (map unat (text_lengths xs)) (flatten_strings xs) = xs"
  using assms
proof (induction xs)
  case (Cons x xs)
  then show ?case by (cases x) (simp_all add: text_lengths_def unat_u32_of_nat)
qed simp

lemma sum_text_lengths:
  assumes "\<forall>x \<in> set xs. \<forall>s. x = Some s \<longrightarrow> length s \<le> usize32_max"
  shows "sum_list (map unat (text_lengths xs)) = strings_len xs"
  using assms
proof (induction xs)
  case (Cons x xs)
  then show ?case by (cases x) (simp_all add: text_lengths_def unat_u32_of_nat)
qed (simp add: text_lengths_def)

lemma strings_small:
  assumes "strings_len xs \<le> 67108864"
  shows "\<forall>x \<in> set xs. \<forall>s. x = Some s \<longrightarrow> length s \<le> usize32_max"
  using assms
proof (induction xs)
  case (Cons x xs)
  then show ?case by (cases x) (auto simp: usize32_max_def)
qed simp

section \<open>Round trip\<close>

definition snapshot_bits :: "Metadata \<Rightarrow> u64" where
  "snapshot_bits m = flag_word (map (\<lambda>k. (push_bit k 1, metadata_flag m k)) [0..<9])"

lemma snapshot_bit: "k < 9 \<Longrightarrow> (snapshot_bits m AND push_bit k 1 \<noteq> 0) = metadata_flag m k"
  using metadata_bits.flag_iff [of k m] unfolding snapshot_bits_def and_push_bit_eq_0_iff by simp

lemma scanned_bits:
  "fold (\<lambda>(flag, p) w. if p then w OR flag else w)
     (map (\<lambda>(flag, x). (flag, x \<noteq> None)) (zip string_bits (metadata_strings m)))
     (flag_word [(METADATA_IS_CURRENT_PRESENT_w, md_is_current m \<noteq> None),
        (METADATA_LAST_MODIFIED_PRESENT_w, md_last_modified m \<noteq> None)]) = snapshot_bits m"
  by (simp add: snapshot_bits_def flag_word_def metadata_flag_def string_bits_def metadata_strings_def
      upt_rec)

lemma normalise_time_ok:
  assumes "i64_min < s" and "\<bar>n\<bar> < 1000000000"
  shows "normalise_time s n = Inr (fst (shown_time (s, n)), word_of_int (snd (shown_time (s, n))))"
  using assms
  by (auto simp: normalise_time_def checked_sub_i64_def u32_try_from_i32_def shown_time_def)

definition good_view :: "Metadata \<Rightarrow> MetadataSnapshotView \<Rightarrow> bool" where
  "good_view m v \<longleftrightarrow>
     msv_present_bits v = snapshot_bits m \<and> msv_mode v = wasm_mode (md_mode m) \<and>
     msv_is_current v = (case md_is_current m of Some b \<Rightarrow> of_bool b | None \<Rightarrow> 0) \<and>
     msv_is_deleted v = of_bool (md_is_deleted m) \<and> msv_content_length v = md_content_length m \<and>
     (case md_last_modified m of
        Some t \<Rightarrow> msv_last_modified_seconds v = fst (shown_time t) \<and>
          msv_last_modified_nanoseconds v = word_of_int (snd (shown_time t))
      | None \<Rightarrow> True) \<and>
     msv_strings v = metadata_strings m \<and> msv_lengths v = text_lengths (metadata_strings m) \<and>
     msv_encoded_length v = 84 + strings_len (metadata_strings m)"

lemma map_snd_zip_strings: "map snd (zip string_bits (metadata_strings m)) = metadata_strings m"
  by (simp add: string_bits_def metadata_strings_def)

lemma new_snapshot_view_ok:
  assumes "time_in_range m"
  shows "if 84 + strings_len (metadata_strings m) \<le> 67108864
    then \<exists>v. new_snapshot_view m = Inr v \<and> good_view m v
    else new_snapshot_view m = Inl BufferTooLarge"
proof (cases "md_last_modified m")
  case None
  then show ?thesis
    using scanned_bits [of m]
    by (simp add: new_snapshot_view_def scan_strings_eq map_snd_zip_strings good_view_def Let_def)
next
  case (Some t)
  obtain s n where t: "t = (s, n)" by force
  have "i64_min < s" "\<bar>n\<bar> < 1000000000" using assms by (auto simp: time_in_range_def Some t)
  from normalise_time_ok [OF this] show ?thesis
    using scanned_bits [of m]
    by (simp add: new_snapshot_view_def scan_strings_eq map_snd_zip_strings good_view_def Let_def Some t)
qed

lemma seven: "length xs = 7 \<Longrightarrow> \<exists>a b c d e f g. xs = [a, b, c, d, e, f, g]"
  by (auto simp: eval_nat_numeral length_Suc_conv)

lemma layout_fields:
  assumes "length (msv_lengths v) = 7"
  shows "take 4 (snapshot_layout v) = METADATA_SNAPSHOT_MAGIC"
    and "word_at 4 (snapshot_layout v) = METADATA_SNAPSHOT_SCHEMA"
    and "long_at 8 (snapshot_layout v) = msv_present_bits v"
    and "word_at 16 (snapshot_layout v) = msv_mode v"
    and "word_at 20 (snapshot_layout v) = msv_is_current v"
    and "word_at 24 (snapshot_layout v) = msv_is_deleted v"
    and "long_at 32 (snapshot_layout v) = msv_content_length v"
    and "long_at 40 (snapshot_layout v) = word_of_int (msv_last_modified_seconds v)"
    and "word_at 48 (snapshot_layout v) = msv_last_modified_nanoseconds v"
    and "map (\<lambda>i. unat (word_at (56 + 4 * i) (snapshot_layout v))) [0..<7] = map unat (msv_lengths v)"
    and "drop 84 (snapshot_layout v) = flatten_strings (msv_strings v)"
    and "length (snapshot_layout v) = 84 + strings_len (msv_strings v)"
  using seven [OF assms]
  by (auto simp: snapshot_layout_def word_at_def long_at_def length_flatten_strings upt_rec)

lemma wasm_mode_decode [simp]: "decode_mode (wasm_mode k) = k"
  by (cases k) (simp_all add: decode_mode_def)

lemma shown_seconds:
  assumes "time_in_range m" and "md_last_modified m = Some t"
  shows "sint (word_of_int (fst (shown_time t)) :: u64) = fst (shown_time t)"
    and "uint (word_of_int (snd (shown_time t)) :: u32) = snd (shown_time t)"
proof -
  obtain s n where t: "t = (s, n)" by force
  have r: "i64_min < s" "s < 9223372036854775808" "\<bar>n\<bar> < 1000000000"
    using assms by (auto simp: time_in_range_def t)
  then have "- 9223372036854775808 \<le> fst (shown_time t)" "fst (shown_time t) < 9223372036854775808"
    by (auto simp: shown_time_def t i64_min_def)
  then show "sint (word_of_int (fst (shown_time t)) :: u64) = fst (shown_time t)"
    by (simp add: sint_sbintrunc' signed_take_bit_int_eq_self)
  have "0 \<le> snd (shown_time t)" "snd (shown_time t) < 1000000000"
    using r by (auto simp: shown_time_def t)
  then show "uint (word_of_int (snd (shown_time t)) :: u32) = snd (shown_time t)"
    by (simp add: uint_word_of_int take_bit_int_eq_self)
qed

lemma present_texts:
  "map (\<lambda>i. snapshot_bits m AND push_bit (i + 2) 1 \<noteq> 0) [0..<7] =
     map (\<lambda>x. x \<noteq> None) (metadata_strings m)"
proof -
  have "map (\<lambda>i. snapshot_bits m AND push_bit (i + 2) 1 \<noteq> 0) [0..<7] =
      map (\<lambda>i. metadata_flag m (i + 2)) [0..<7]"
    by (intro map_cong refl) (rule snapshot_bit, simp)
  then show ?thesis by (simp add: upt_rec metadata_flag_def metadata_strings_def)
qed

lemma decode_layout:
  assumes "good_view m v" and "time_in_range m" and "strings_len (metadata_strings m) \<le> 67108864"
  shows "decode_snapshot (snapshot_layout v) =
    Some (m\<lparr>md_last_modified := map_option shown_time (md_last_modified m)\<rparr>)"
proof -
  note g = assms(1) [unfolded good_view_def]
  have "length (msv_lengths v) = 7" using g by (simp add: text_lengths_def metadata_strings_def)
  note f = layout_fields [OF this]
  note small = strings_small [OF assms(3)]
  have texts: "split_texts (map (\<lambda>i. snapshot_bits m AND push_bit (i + 2) 1 \<noteq> 0) [0..<7])
      (map unat (text_lengths (metadata_strings m))) (flatten_strings (metadata_strings m)) =
      metadata_strings m"
    unfolding present_texts by (rule split_texts_flatten [OF small])
  note len = sum_text_lengths [OF small, symmetric]
  have current: "(if snapshot_bits m AND push_bit 0 1 \<noteq> 0 then Some (msv_is_current v \<noteq> 0) else None) =
      md_is_current m"
    using g snapshot_bit [of 0 m] by (cases "md_is_current m") (simp_all add: metadata_flag_def)
  have time: "(if snapshot_bits m AND push_bit 1 1 \<noteq> 0
        then Some (sint (word_of_int (msv_last_modified_seconds v) :: u64),
          uint (msv_last_modified_nanoseconds v)) else None) =
      map_option shown_time (md_last_modified m)"
    using g snapshot_bit [of 1 m] shown_seconds [OF assms(2)]
    by (cases "md_last_modified m") (simp_all add: metadata_flag_def)
  have bits: "msv_present_bits v = snapshot_bits m"
    and strs: "msv_strings v = metadata_strings m" "msv_lengths v = text_lengths (metadata_strings m)"
    and other: "msv_mode v = wasm_mode (md_mode m)" "msv_content_length v = md_content_length m"
      "msv_is_deleted v = of_bool (md_is_deleted m)"
    using g by simp_all
  show ?thesis
    unfolding decode_snapshot_def Let_def f bits strs
    using len texts current time strs other by (simp add: metadata_strings_def)
qed

lemma metadata_snapshot_decodes:
  assumes "time_in_range m"
  shows "(let n = 84 + strings_len (metadata_strings m) in
    case metadata_snapshot_bytes alloc m x of
      (Ok bs, x') \<Rightarrow>
        decode_snapshot bs = Some (m\<lparr>md_last_modified := map_option shown_time (md_last_modified m)\<rparr>) \<and>
        length bs = n \<and> n \<le> MAX_BUFFER_LENGTH \<and> alloc n x = (True, x')
    | (Err f, x') \<Rightarrow>
        if n > MAX_BUFFER_LENGTH then f = BufferTooLarge \<and> x' = x
        else f = AllocationFailed \<and> alloc n x = (False, x')
    | _ \<Rightarrow> False)"
proof (cases "84 + strings_len (metadata_strings m) \<le> 67108864")
  case True
  with new_snapshot_view_ok [OF assms] obtain v where v: "new_snapshot_view m = Inr v" "good_view m v"
    by auto
  have len: "msv_encoded_length v = 84 + strings_len (metadata_strings m)"
    "length (snapshot_layout v) = 84 + strings_len (metadata_strings m)"
    using v(2) layout_fields(12) [of v]
    by (simp_all add: good_view_def text_lengths_def metadata_strings_def)
  obtain ok x' where "alloc (84 + strings_len (metadata_strings m)) x = (ok, x')" by force
  then show ?thesis
    using True v(1) len decode_layout [OF v(2) assms]
    by (cases ok)
      (simp_all add: metadata_snapshot_bytes_def encode_def bind_def run_simps try_reserve_def Let_def)
next
  case False
  with new_snapshot_view_ok [OF assms] show ?thesis
    by (simp add: metadata_snapshot_bytes_def bind_def run_simps Let_def)
qed

section \<open>Properties\<close>

text \<open>
  C25. A metadata snapshot carries the whole metadata. For every metadata OpenDAL can produce, the
  \<open>ODM1\<close> encoding is refused as too large exactly when it would exceed the buffer limit, and
  otherwise, unless the allocator refuses, a reader recovers every field: absent fields told apart
  from empty ones, and the same instant of modification with nanoseconds made non-negative.
\<close>

theorem metadata_snapshot_roundtrip:
  assumes "time_in_range m"
  shows "(let n = 84 + strings_len (metadata_strings m) in
    case metadata_snapshot_bytes alloc m x of
      (Ok bs, x') \<Rightarrow>
        decode_snapshot bs = Some (m\<lparr>md_last_modified := map_option shown_time (md_last_modified m)\<rparr>) \<and>
        length bs = n \<and> n \<le> MAX_BUFFER_LENGTH \<and> alloc n x = (True, x')
    | (Err f, x') \<Rightarrow>
        if n > MAX_BUFFER_LENGTH then f = BufferTooLarge \<and> x' = x
        else f = AllocationFailed \<and> alloc n x = (False, x')
    | _ \<Rightarrow> False)"
  using assms by (rule metadata_snapshot_decodes)

theorem metadata_snapshot_roundtrip_witness:
  "(let m = sample_metadata\<lparr>md_last_modified := Some (7, - 1), md_etag := Some ''e''\<rparr> in
    case metadata_snapshot_bytes (\<lambda>n x. (True, x)) m () of
      (Ok bs, x') \<Rightarrow> decode_snapshot bs = Some (m\<lparr>md_last_modified := Some (6, 999999999)\<rparr>) \<and>
        length bs = 85
    | _ \<Rightarrow> False)"
proof -
  let ?m = "sample_metadata\<lparr>md_last_modified := Some (7, - 1), md_etag := Some ''e''\<rparr>"
  have "time_in_range ?m" "strings_len (metadata_strings ?m) = 1"
    "shown_time (7, - 1) = (6, 999999999)"
    by (simp_all add: time_in_range_def i64_min_def metadata_strings_def sample_metadata_def shown_time_def)
  then show ?thesis
    using metadata_snapshot_roundtrip [of ?m "\<lambda>n x. (True, x)" "()"]
    by (auto simp: Let_def split: prod.splits outcome.splits)
qed

end
