(* ===== verification/WasmArena.thy ===== *)
theory WasmArena
  imports WasmMetadata
begin

text \<open>
  Resources of the browser bridge and the arena that owns them behind generation-checked handles
  (\<open>Resource\<close>, \<open>Task\<close>, \<open>Completion\<close>, \<open>Slot\<close>, \<open>Arena\<close>). A handle packs a slot number and the slot's
  generation; removing a resource advances the generation, and a slot whose generations are used up
  is retired.

  A mutable reference is modelled as the value it points to together with the function that stores
  a new value there.
\<close>

section \<open>Resources\<close>

datatype ResourceKind =
    BufferK | OperatorBuilderK | OperatorK | MetadataK | ErrorK | TaskK | CompletionK | EntryListK
  | ReadStreamK | WriterK | ListerK

fun resource_kind_name :: "ResourceKind \<Rightarrow> string" where
  "resource_kind_name BufferK = ''buffer''"
| "resource_kind_name OperatorBuilderK = ''operator builder''"
| "resource_kind_name OperatorK = ''operator''"
| "resource_kind_name MetadataK = ''metadata''"
| "resource_kind_name ErrorK = ''error''"
| "resource_kind_name TaskK = ''task''"
| "resource_kind_name CompletionK = ''completion''"
| "resource_kind_name EntryListK = ''entry list''"
| "resource_kind_name ReadStreamK = ''read stream''"
| "resource_kind_name WriterK = ''writer''"
| "resource_kind_name ListerK = ''lister''"

record OperatorBuilder =
  ob_scheme :: string
  ob_config :: "(string \<times> string) list"
  ob_config_bytes :: usize

record EntrySnapshot =
  es_path :: string
  es_name :: string
  es_mode :: u32
  es_content_length :: u64
  es_metadata_snapshot :: "u8 list"

record ReadStreamCursor =
  rsc_stream :: token
  rsc_pending :: "Buffer option"
  rsc_max_chunk :: usize

datatype ReadStreamState = RsOpen ReadStreamCursor u64 | RsBusy u64 | RsEnd | RsFailed

datatype WriterState =
    WrOpen token u64 | WrBusy u64 | WrFinished Metadata | WrAborted | WrFailed

datatype ListerState = LsOpen token u64 | LsBusy u64 | LsEnd | LsFailed

record ResourceLease =
  ls_handle :: u32
  ls_kind :: ResourceKind
  ls_operation :: u64

datatype Completion =
    CWrite "BridgeError + Metadata"
  | CRead "BridgeError + u8 list"
  | CStat "BridgeError + Metadata"
  | CCreateDir "BridgeError + unit"
  | CDelete "BridgeError + unit"
  | CList "BridgeError + EntrySnapshot list"
  | CCopy "BridgeError + Metadata"
  | CRename "BridgeError + unit"
  | COpenReadStream "BridgeError + ReadStreamCursor"
  | CReadStreamNext "BridgeError + u8 list option"
  | COpenWriter "BridgeError + token"
  | CWriterWrite "BridgeError + unit"
  | CWriterFinish "BridgeError + Metadata"
  | CWriterAbort "BridgeError + unit"
  | COpenLister "BridgeError + token"
  | CListerNext "BridgeError + EntrySnapshot option"

fun completion_kind :: "Completion \<Rightarrow> u32" where
  "completion_kind (CWrite _) = COMPLETION_WRITE"
| "completion_kind (CRead _) = COMPLETION_READ"
| "completion_kind (CStat _) = COMPLETION_STAT"
| "completion_kind (CCreateDir _) = COMPLETION_CREATE_DIR"
| "completion_kind (CDelete _) = COMPLETION_DELETE"
| "completion_kind (CList _) = COMPLETION_LIST"
| "completion_kind (CCopy _) = COMPLETION_COPY"
| "completion_kind (CRename _) = COMPLETION_RENAME"
| "completion_kind (COpenReadStream _) = COMPLETION_OPEN_READER"
| "completion_kind (CReadStreamNext _) = COMPLETION_READER_NEXT"
| "completion_kind (COpenWriter _) = COMPLETION_OPEN_WRITER"
| "completion_kind (CWriterWrite _) = COMPLETION_WRITER_WRITE"
| "completion_kind (CWriterFinish _) = COMPLETION_WRITER_FINISH"
| "completion_kind (CWriterAbort _) = COMPLETION_WRITER_ABORT"
| "completion_kind (COpenLister _) = COMPLETION_OPEN_LISTER"
| "completion_kind (CListerNext _) = COMPLETION_LISTER_NEXT"

definition err_of :: "'e + 'a \<Rightarrow> 'e option" where
  "err_of r = (case r of Inl e \<Rightarrow> Some e | Inr _ \<Rightarrow> None)"

fun completion_error :: "Completion \<Rightarrow> BridgeError option" where
  "completion_error (CWrite r) = err_of r"
| "completion_error (CRead r) = err_of r"
| "completion_error (CStat r) = err_of r"
| "completion_error (CCreateDir r) = err_of r"
| "completion_error (CDelete r) = err_of r"
| "completion_error (CList r) = err_of r"
| "completion_error (CCopy r) = err_of r"
| "completion_error (CRename r) = err_of r"
| "completion_error (COpenReadStream r) = err_of r"
| "completion_error (CReadStreamNext r) = err_of r"
| "completion_error (COpenWriter r) = err_of r"
| "completion_error (CWriterWrite r) = err_of r"
| "completion_error (CWriterFinish r) = err_of r"
| "completion_error (CWriterAbort r) = err_of r"
| "completion_error (COpenLister r) = err_of r"
| "completion_error (CListerNext r) = err_of r"

datatype Task =
    PendingTask "ResourceLease option"
  | ReadyTask Completion "ResourceLease option"
  | CancelledTask
  | ConsumedTask

datatype Resource =
    ResBuffer "u8 list"
  | ResOperatorBuilder OperatorBuilder
  | ResOperator token
  | ResMetadata Metadata
  | ResError BridgeError
  | ResTask Task
  | ResCompletion Completion
  | ResEntryList "EntrySnapshot list"
  | ResReadStream ReadStreamState
  | ResWriter WriterState
  | ResLister ListerState

fun resource_kind :: "Resource \<Rightarrow> ResourceKind" where
  "resource_kind (ResBuffer _) = BufferK"
| "resource_kind (ResOperatorBuilder _) = OperatorBuilderK"
| "resource_kind (ResOperator _) = OperatorK"
| "resource_kind (ResMetadata _) = MetadataK"
| "resource_kind (ResError _) = ErrorK"
| "resource_kind (ResTask _) = TaskK"
| "resource_kind (ResCompletion _) = CompletionK"
| "resource_kind (ResEntryList _) = EntryListK"
| "resource_kind (ResReadStream _) = ReadStreamK"
| "resource_kind (ResWriter _) = WriterK"
| "resource_kind (ResLister _) = ListerK"

section \<open>Handles\<close>

definition encode_handle :: "usize \<Rightarrow> u16 \<Rightarrow> u32" where
  "encode_handle index generation = push_bit 16 (ucast generation) OR (word_of_nat index + 1)"

definition decode_handle :: "u32 \<Rightarrow> BridgeError + (usize \<times> u16)" where
  "decode_handle handle =
     (let slot = ucast (handle AND 65535) :: u16; generation = ucast (drop_bit 16 handle) :: u16 in
      if slot = 0 \<or> generation = 0 then Inl (InvalidHandle handle)
      else Inr (unat (slot - 1), generation))"

definition next_generation :: "u16 \<Rightarrow> u16" where
  "next_generation generation = (if generation = MAX_GENERATION then 0 else generation + 1)"

definition wrong_resource_type :: "u32 \<Rightarrow> ResourceKind \<Rightarrow> Resource \<Rightarrow> BridgeError" where
  "wrong_resource_type handle expected actual =
     WrongResourceType handle (resource_kind_name expected) (resource_kind_name (resource_kind actual))"

section \<open>The arena\<close>

record Slot =
  sl_generation :: u16
  sl_resource :: "Resource option"

record Arena =
  ar_slots :: "Slot list"
  ar_live :: u32

definition slot_free :: "Slot \<Rightarrow> bool" where
  "slot_free s \<longleftrightarrow> sl_resource s = None \<and> sl_generation s \<noteq> 0"

definition can_insert :: "Arena \<Rightarrow> bool" where
  "can_insert a \<longleftrightarrow> list_ex slot_free (ar_slots a) \<or> length (ar_slots a) < MAX_SLOTS"

definition arena_insert :: "Resource \<Rightarrow> Arena \<Rightarrow> (BridgeError + u32) \<times> Arena" where
  "arena_insert r a =
     (case find (\<lambda>i. slot_free (ar_slots a ! i)) [0..<length (ar_slots a)] of
        Some index \<Rightarrow>
          (Inr (encode_handle index (sl_generation (ar_slots a ! index))),
           a\<lparr>ar_slots := (ar_slots a)[index := (ar_slots a ! index)\<lparr>sl_resource := Some r\<rparr>],
             ar_live := ar_live a + 1\<rparr>)
      | None \<Rightarrow>
          if length (ar_slots a) = MAX_SLOTS then (Inl HandleLimit, a)
          else
            (Inr (encode_handle (length (ar_slots a)) 1),
             a\<lparr>ar_slots := ar_slots a @ [\<lparr>sl_generation = 1, sl_resource = Some r\<rparr>],
               ar_live := ar_live a + 1\<rparr>))"

definition resource :: "Arena \<Rightarrow> u32 \<Rightarrow> BridgeError + Resource" where
  "resource a handle =
     res_bind (decode_handle handle) (\<lambda>(index, generation).
       if index < length (ar_slots a) then
         (let slot = ar_slots a ! index in
          if sl_generation slot \<noteq> generation then Inl (InvalidHandle handle)
          else (case sl_resource slot of None \<Rightarrow> Inl (InvalidHandle handle) | Some r \<Rightarrow> Inr r))
       else Inl (InvalidHandle handle))"

definition resource_mut :: "Arena \<Rightarrow> u32 \<Rightarrow> BridgeError + (Resource \<times> (Resource \<Rightarrow> Arena))" where
  "resource_mut a handle =
     res_bind (decode_handle handle) (\<lambda>(index, generation).
       if index < length (ar_slots a) then
         (let slot = ar_slots a ! index in
          if sl_generation slot \<noteq> generation then Inl (InvalidHandle handle)
          else (case sl_resource slot of
                  None \<Rightarrow> Inl (InvalidHandle handle)
                | Some r \<Rightarrow>
                    Inr (r, \<lambda>r'. a\<lparr>ar_slots := (ar_slots a)[index := slot\<lparr>sl_resource := Some r'\<rparr>]\<rparr>)))
       else Inl (InvalidHandle handle))"

definition arena_take :: "u32 \<Rightarrow> ResourceKind \<Rightarrow> Arena \<Rightarrow> (BridgeError + Resource) \<times> Arena" where
  "arena_take handle expected a =
     (case decode_handle handle of
        Inl e \<Rightarrow> (Inl e, a)
      | Inr (index, generation) \<Rightarrow>
          if index < length (ar_slots a) then
            (let slot = ar_slots a ! index in
             if sl_generation slot \<noteq> generation then (Inl (InvalidHandle handle), a)
             else
               (case sl_resource slot of
                  None \<Rightarrow> (Inl (InvalidHandle handle), a)
                | Some r \<Rightarrow>
                    if resource_kind r \<noteq> expected then (Inl (wrong_resource_type handle expected r), a)
                    else
                      (Inr r,
                       a\<lparr>ar_slots := (ar_slots a)[index := \<lparr>sl_generation = next_generation (sl_generation slot),
                                                      sl_resource = None\<rparr>],
                         ar_live := ar_live a - 1\<rparr>)))
          else (Inl (InvalidHandle handle), a))"

definition arena_release :: "u32 \<Rightarrow> ResourceKind \<Rightarrow> Arena \<Rightarrow> (BridgeError + unit) \<times> Arena" where
  "arena_release handle expected a =
     (case arena_take handle expected a of (r, a') \<Rightarrow> (res_bind r (\<lambda>_. Inr ()), a'))"

definition ensure_insert_capacity_after_take :: "Arena \<Rightarrow> u32 \<Rightarrow> ResourceKind \<Rightarrow> BridgeError + unit" where
  "ensure_insert_capacity_after_take a handle expected =
     res_bind (decode_handle handle) (\<lambda>(index, generation).
       case (if index < length (ar_slots a) \<and> sl_generation (ar_slots a ! index) = generation
             then sl_resource (ar_slots a ! index) else None) of
         None \<Rightarrow> Inl (InvalidHandle handle)
       | Some r \<Rightarrow>
           if resource_kind r \<noteq> expected then Inl (wrong_resource_type handle expected r)
           else if generation = MAX_GENERATION \<and> \<not> can_insert a then Inl HandleLimit
           else Inr ())"

definition arena_clear :: "Arena \<Rightarrow> Arena" where
  "arena_clear a = a\<lparr>ar_slots := [], ar_live := 0\<rparr>"

section \<open>Typed access\<close>

fun get_buffer where "get_buffer (ResBuffer b) = Some b" | "get_buffer _ = None"
fun get_builder where "get_builder (ResOperatorBuilder b) = Some b" | "get_builder _ = None"
fun get_operator where "get_operator (ResOperator t) = Some t" | "get_operator _ = None"
fun get_metadata where "get_metadata (ResMetadata m) = Some m" | "get_metadata _ = None"
fun get_error where "get_error (ResError e) = Some e" | "get_error _ = None"
fun get_task where "get_task (ResTask t) = Some t" | "get_task _ = None"
fun get_completion where "get_completion (ResCompletion c) = Some c" | "get_completion _ = None"
fun get_entries where "get_entries (ResEntryList es) = Some es" | "get_entries _ = None"
fun get_stream where "get_stream (ResReadStream s) = Some s" | "get_stream _ = None"
fun get_writer where "get_writer (ResWriter s) = Some s" | "get_writer _ = None"
fun get_lister where "get_lister (ResLister s) = Some s" | "get_lister _ = None"

definition typed ::
  "(Resource \<Rightarrow> 'a option) \<Rightarrow> ResourceKind \<Rightarrow> Arena \<Rightarrow> u32 \<Rightarrow> BridgeError + 'a" where
  "typed sel expected a handle =
     res_bind (resource a handle) (\<lambda>r.
       case sel r of Some v \<Rightarrow> Inr v | None \<Rightarrow> Inl (wrong_resource_type handle expected r))"

definition typed_mut ::
  "(Resource \<Rightarrow> 'a option) \<Rightarrow> ('a \<Rightarrow> Resource) \<Rightarrow> ResourceKind \<Rightarrow> Arena \<Rightarrow> u32 \<Rightarrow>
   BridgeError + ('a \<times> ('a \<Rightarrow> Arena))" where
  "typed_mut sel mk expected a handle =
     res_bind (resource_mut a handle) (\<lambda>(r, put).
       case sel r of
         Some v \<Rightarrow> Inr (v, \<lambda>v'. put (mk v'))
       | None \<Rightarrow> Inl (wrong_resource_type handle expected r))"

definition arena_buffer :: "Arena \<Rightarrow> u32 \<Rightarrow> BridgeError + u8 list" where
  "arena_buffer = typed get_buffer BufferK"

definition arena_buffer_mut :: "Arena \<Rightarrow> u32 \<Rightarrow> BridgeError + (u8 list \<times> (u8 list \<Rightarrow> Arena))" where
  "arena_buffer_mut = typed_mut get_buffer ResBuffer BufferK"

definition arena_operator_builder :: "Arena \<Rightarrow> u32 \<Rightarrow> BridgeError + OperatorBuilder" where
  "arena_operator_builder = typed get_builder OperatorBuilderK"

definition arena_operator_builder_mut ::
  "Arena \<Rightarrow> u32 \<Rightarrow> BridgeError + (OperatorBuilder \<times> (OperatorBuilder \<Rightarrow> Arena))" where
  "arena_operator_builder_mut = typed_mut get_builder ResOperatorBuilder OperatorBuilderK"

definition arena_operator :: "Arena \<Rightarrow> u32 \<Rightarrow> BridgeError + token" where
  "arena_operator = typed get_operator OperatorK"

definition arena_metadata :: "Arena \<Rightarrow> u32 \<Rightarrow> BridgeError + Metadata" where
  "arena_metadata = typed get_metadata MetadataK"

definition arena_error :: "Arena \<Rightarrow> u32 \<Rightarrow> BridgeError + BridgeError" where
  "arena_error = typed get_error ErrorK"

definition arena_task :: "Arena \<Rightarrow> u32 \<Rightarrow> BridgeError + Task" where
  "arena_task = typed get_task TaskK"

definition arena_task_mut :: "Arena \<Rightarrow> u32 \<Rightarrow> BridgeError + (Task \<times> (Task \<Rightarrow> Arena))" where
  "arena_task_mut = typed_mut get_task ResTask TaskK"

definition arena_completion :: "Arena \<Rightarrow> u32 \<Rightarrow> BridgeError + Completion" where
  "arena_completion = typed get_completion CompletionK"

definition arena_entry_list :: "Arena \<Rightarrow> u32 \<Rightarrow> BridgeError + EntrySnapshot list" where
  "arena_entry_list = typed get_entries EntryListK"

definition arena_entry_list_mut ::
  "Arena \<Rightarrow> u32 \<Rightarrow> BridgeError + (EntrySnapshot list \<times> (EntrySnapshot list \<Rightarrow> Arena))" where
  "arena_entry_list_mut = typed_mut get_entries ResEntryList EntryListK"

definition arena_read_stream_mut ::
  "Arena \<Rightarrow> u32 \<Rightarrow> BridgeError + (ReadStreamState \<times> (ReadStreamState \<Rightarrow> Arena))" where
  "arena_read_stream_mut = typed_mut get_stream ResReadStream ReadStreamK"

definition arena_writer_mut :: "Arena \<Rightarrow> u32 \<Rightarrow> BridgeError + (WriterState \<times> (WriterState \<Rightarrow> Arena))" where
  "arena_writer_mut = typed_mut get_writer ResWriter WriterK"

definition arena_lister_mut :: "Arena \<Rightarrow> u32 \<Rightarrow> BridgeError + (ListerState \<times> (ListerState \<Rightarrow> Arena))" where
  "arena_lister_mut = typed_mut get_lister ResLister ListerK"

section \<open>Handles are numbers\<close>

lemma unat_encode_handle:
  assumes "i < 65535"
  shows "unat (encode_handle i g) = unat g * 65536 + (i + 1)"
proof -
  let ?hi = "push_bit 16 (ucast g) :: u32" and ?lo = "word_of_nat (i + 1) :: u32"
  have lo: "unat ?lo = i + 1" using assms by (simp add: unat_of_nat del: of_nat_Suc)
  have low: "bit ?lo n \<Longrightarrow> n < 16" for n
  proof (rule ccontr)
    assume b: "bit ?lo n" and "\<not> n < 16"
    then have "2 ^ 16 \<le> (2 ^ n :: nat)" by (intro power_increasing) auto
    then have "(i + 1) div 2 ^ n = 0" using assms by simp
    moreover have "bit (unat ?lo) n" using b by (simp add: bit_unsigned_iff)
    ultimately show False using lo by (simp add: bit_iff_odd)
  qed
  have disj: "?hi AND ?lo = 0"
  proof (rule bit_word_eqI)
    fix n
    show "bit (?hi AND ?lo) n = bit (0 :: u32) n"
      using low [of n] by (cases "bit ?lo n") (simp_all add: bit_simps del: of_nat_add of_nat_Suc)
  qed
  have hi: "unat ?hi = unat g * 65536"
  proof -
    have "unat g < 65536" using unsigned_less [where 'a = nat, of g] by simp
    then show ?thesis
      unfolding unsigned_push_bit_eq unsigned_ucast_eq by (simp add: push_bit_eq_mult take_bit_eq_mod)
  qed
  have "unat (?hi OR ?lo) = unat ?hi + unat ?lo"
  proof -
    have "unat (?hi + ?lo) = unat ?hi + unat ?lo"
    proof (subst unat_add_lem [symmetric])
      have "unat g < 65536" using unsigned_less [where 'a = nat, of g] by simp
      then show "unat ?hi + unat ?lo < 2 ^ LENGTH(32)" unfolding hi lo using assms by simp
    qed
    then show ?thesis using disjunctive_add_eq_or [OF disj] by simp
  qed
  then show ?thesis unfolding hi lo by (simp add: encode_handle_def add.commute)
qed

lemma decode_handle_nat:
  "decode_handle h =
    (let s = unat h mod 65536; g = unat h div 65536 in
     if s = 0 \<or> g = 0 then Inl (InvalidHandle h) else Inr (s - 1, word_of_nat g))"
proof -
  let ?slot = "ucast (h AND 65535) :: u16" and ?gen = "ucast (drop_bit 16 h) :: u16"
  have mask: "h AND 65535 = take_bit 16 h" by (simp add: take_bit_eq_mask mask_numeral)
  have "unat (h AND 65535) = unat h mod 65536"
    unfolding mask unsigned_take_bit_eq by (simp add: take_bit_eq_mod)
  then have s: "unat ?slot = unat h mod 65536" by (simp add: unsigned_ucast_eq take_bit_eq_mod)
  have "unat h div 65536 < 65536" using unsigned_less [where 'a = nat, of h] by auto
  then have g: "unat ?gen = unat h div 65536"
    unfolding unsigned_ucast_eq unsigned_drop_bit_eq by (simp add: take_bit_eq_mod drop_bit_eq_div)
  have "?gen = word_of_nat (unat h div 65536)" unfolding g [symmetric] by simp
  moreover have "?slot = 0 \<longleftrightarrow> unat h mod 65536 = 0" unfolding s [symmetric] by (simp add: unat_eq_0)
  moreover have "?gen = 0 \<longleftrightarrow> unat h div 65536 = 0" unfolding g [symmetric] by (simp add: unat_eq_0)
  moreover have "?slot \<noteq> 0 \<Longrightarrow> unat (?slot - 1) = unat h mod 65536 - 1"
    using s by (simp add: unat_minus_one)
  ultimately show ?thesis by (auto simp: decode_handle_def Let_def)
qed

end
