(* ===== verification/WasmHandles.thy ===== *)
theory WasmHandles
  imports WasmArena
begin

text \<open>
  What the arena of the browser bridge promises. \<open>handle_store\<close> is the interface its clients rely on:
  a finite map from handles to resources, whose handles, once removed, are spent for good. The arena
  implements it under the invariant \<open>arena_wf\<close>.
\<close>

section \<open>The interface\<close>

datatype ('h, 'k, 'r) store_op = Ins 'r | Rem 'h 'k | Upd 'h 'r

fun run_store ::
  "('r \<Rightarrow> 'a \<Rightarrow> 'h option \<times> 'a) \<Rightarrow> ('h \<Rightarrow> 'k \<Rightarrow> 'a \<Rightarrow> 'r option \<times> 'a) \<Rightarrow> ('h \<Rightarrow> 'r \<Rightarrow> 'a \<Rightarrow> 'a) \<Rightarrow>
   ('h, 'k, 'r) store_op list \<Rightarrow> 'a \<Rightarrow> 'a" where
  "run_store ins rem upd [] a = a"
| "run_store ins rem upd (Ins r # ops) a = run_store ins rem upd ops (snd (ins r a))"
| "run_store ins rem upd (Rem h k # ops) a = run_store ins rem upd ops (snd (rem h k a))"
| "run_store ins rem upd (Upd h r # ops) a = run_store ins rem upd ops (upd h r a)"

locale handle_store =
  fixes inv :: "'a \<Rightarrow> bool"
    and look :: "'a \<Rightarrow> 'h \<Rightarrow> 'r option"
    and spent :: "'a \<Rightarrow> 'h \<Rightarrow> bool"
    and ins :: "'r \<Rightarrow> 'a \<Rightarrow> 'h option \<times> 'a"
    and rem :: "'h \<Rightarrow> 'k \<Rightarrow> 'a \<Rightarrow> 'r option \<times> 'a"
    and upd :: "'h \<Rightarrow> 'r \<Rightarrow> 'a \<Rightarrow> 'a"
    and kind_of :: "'r \<Rightarrow> 'k"
  assumes ins_ok: "inv a \<Longrightarrow> ins r a = (Some h, a') \<Longrightarrow>
      look a h = None \<and> look a' = (look a)(h \<mapsto> r)"
    and ins_full: "ins r a = (None, a') \<Longrightarrow> a' = a"
    and rem_ok: "inv a \<Longrightarrow> rem h k a = (Some r, a') \<Longrightarrow>
      look a h = Some r \<and> kind_of r = k \<and> look a' = (look a)(h := None) \<and> spent a' h"
    and rem_no: "rem h k a = (None, a') \<Longrightarrow> a' = a \<and> (look a h = None \<or> kind_of (the (look a h)) \<noteq> k)"
    and upd_ok: "inv a \<Longrightarrow> look (upd h r a) = (if look a h = None then look a else (look a)(h \<mapsto> r))"
    and inv_ins: "inv a \<Longrightarrow> inv (snd (ins r a))"
    and inv_rem: "inv a \<Longrightarrow> inv (snd (rem h k a))"
    and inv_upd: "inv a \<Longrightarrow> inv (upd h r a)"
    and spent_dead: "spent a h \<Longrightarrow> look a h = None"
    and spent_ins: "inv a \<Longrightarrow> spent a h \<Longrightarrow> spent (snd (ins r a)) h"
    and spent_rem: "inv a \<Longrightarrow> spent a h \<Longrightarrow> spent (snd (rem h' k a)) h"
    and spent_upd: "inv a \<Longrightarrow> spent a h \<Longrightarrow> spent (upd h' r a) h"
begin

lemma run_inv: "inv a \<Longrightarrow> inv (run_store ins rem upd ops a)"
proof (induction ops arbitrary: a)
  case (Cons op ops)
  then show ?case by (cases op) (auto intro: inv_ins inv_rem inv_upd)
qed simp

lemma run_spent: "inv a \<Longrightarrow> spent a h \<Longrightarrow> spent (run_store ins rem upd ops a) h"
proof (induction ops arbitrary: a)
  case (Cons op ops)
  then show ?case
    by (cases op) (auto intro: inv_ins inv_rem inv_upd spent_ins spent_rem spent_upd)
qed simp

lemma removed_forever:
  assumes "inv a" and "rem h k a = (Some r, a')"
  shows "look (run_store ins rem upd ops a') h = None"
proof -
  have "inv a'" using inv_rem [OF assms(1), of h k] assms(2) by simp
  then show ?thesis using run_spent [of a' h ops] rem_ok [OF assms] spent_dead by blast
qed

lemma fresh_not_spent:
  assumes "inv a" and "ins r a = (Some h, a')"
  shows "\<not> spent a h"
  using ins_ok [OF assms] spent_ins [OF assms(1), of h r] spent_dead [of a' h] assms(2) by auto

end

section \<open>Decoding handles\<close>

lemma decode_encode_handle:
  assumes "i < 65535" and "g \<noteq> 0"
  shows "decode_handle (encode_handle i g) = Inr (i, g)"
proof -
  have "unat g \<noteq> 0" using assms(2) by (simp add: unat_eq_0)
  moreover have "(unat g * 65536 + (i + 1)) mod 65536 = i + 1"
    "(unat g * 65536 + (i + 1)) div 65536 = unat g"
    using assms(1) by simp_all
  ultimately show ?thesis by (simp add: decode_handle_nat unat_encode_handle assms(1))
qed

lemma decode_handleD:
  assumes "decode_handle h = Inr (i, g)"
  shows "i < 65535" and "g \<noteq> 0" and "encode_handle i g = h"
proof -
  let ?s = "unat h mod 65536" and ?g = "unat h div 65536"
  have nz: "?s \<noteq> 0" "?g \<noteq> 0" and i: "i = ?s - 1" and g: "g = word_of_nat ?g"
    using assms by (auto simp: decode_handle_nat Let_def split: if_splits)
  have "?g < 65536" using unsigned_less [where 'a = nat, of h] by auto
  then have ug: "unat g = ?g" by (simp add: g unat_of_nat)
  show "i < 65535" using i nz by linarith
  show "g \<noteq> 0" using ug nz by auto
  have "unat (encode_handle i g) = unat h"
    using unat_encode_handle [OF \<open>i < 65535\<close>, of g] nz by (simp add: ug i)
  then show "encode_handle i g = h" by (rule unsigned_word_eqI)
qed

lemma decode_handle_Inl: "decode_handle h = Inl e \<Longrightarrow> e = InvalidHandle h"
  by (auto simp: decode_handle_nat Let_def split: if_splits)

section \<open>The arena as a store\<close>

definition occupied :: "Slot \<Rightarrow> bool" where
  "occupied s \<longleftrightarrow> sl_resource s \<noteq> None"

definition arena_wf :: "Arena \<Rightarrow> bool" where
  "arena_wf a \<longleftrightarrow> length (ar_slots a) \<le> MAX_SLOTS \<and>
     (\<forall>s \<in> set (ar_slots a). unat (sl_generation s) \<le> 32767 \<and>
        (sl_generation s = 0 \<longrightarrow> sl_resource s = None)) \<and>
     unat (ar_live a) = length (filter occupied (ar_slots a))"

definition live_map :: "Arena \<Rightarrow> u32 \<Rightarrow> Resource option" where
  "live_map a h = (case resource a h of Inl _ \<Rightarrow> None | Inr r \<Rightarrow> Some r)"

definition age :: "u16 \<Rightarrow> nat" where
  \<comment> \<open>generations in the order in which a slot goes through them; 0 is the retired slot\<close>
  "age g = (if g = 0 then 32768 else unat g)"

definition spent_handle :: "Arena \<Rightarrow> u32 \<Rightarrow> bool" where
  "spent_handle a h \<longleftrightarrow>
     (case decode_handle h of
        Inl _ \<Rightarrow> False
      | Inr (i, g) \<Rightarrow> i < length (ar_slots a) \<and> unat g < age (sl_generation (ar_slots a ! i)))"

definition store_insert :: "Resource \<Rightarrow> Arena \<Rightarrow> u32 option \<times> Arena" where
  "store_insert r a = (case arena_insert r a of (Inr h, a') \<Rightarrow> (Some h, a') | (Inl _, a') \<Rightarrow> (None, a'))"

definition store_take :: "u32 \<Rightarrow> ResourceKind \<Rightarrow> Arena \<Rightarrow> Resource option \<times> Arena" where
  "store_take h k a = (case arena_take h k a of (Inr r, a') \<Rightarrow> (Some r, a') | (Inl _, a') \<Rightarrow> (None, a'))"

definition store_put :: "u32 \<Rightarrow> Resource \<Rightarrow> Arena \<Rightarrow> Arena" where
  "store_put h r a = (case resource_mut a h of Inr (_, put) \<Rightarrow> put r | Inl _ \<Rightarrow> a)"

lemma live_map_eq:
  "live_map a h =
    (case decode_handle h of
       Inl _ \<Rightarrow> None
     | Inr (i, g) \<Rightarrow>
         if i < length (ar_slots a) \<and> sl_generation (ar_slots a ! i) = g
         then sl_resource (ar_slots a ! i) else None)"
  by (auto simp: live_map_def resource_def Let_def split: sum.splits prod.splits option.splits)

lemma resource_eq: "resource a h = (case live_map a h of Some r \<Rightarrow> Inr r | None \<Rightarrow> Inl (InvalidHandle h))"
  using decode_handle_Inl [of h]
  by (cases "decode_handle h")
    (auto simp: live_map_def resource_def Let_def split: sum.splits prod.splits option.splits)

lemma spent_dead: "spent_handle a h \<Longrightarrow> live_map a h = None"
proof -
  assume "spent_handle a h"
  then obtain i g where d: "decode_handle h = Inr (i, g)" and "i < length (ar_slots a)"
    "unat g < age (sl_generation (ar_slots a ! i))"
    by (auto simp: spent_handle_def split: sum.splits)
  with decode_handleD(2) [OF d] have "sl_generation (ar_slots a ! i) \<noteq> g"
    by (auto simp: age_def)
  then show ?thesis by (simp add: live_map_eq d)
qed

lemma arena_wf_slot:
  "arena_wf a \<Longrightarrow> i < length (ar_slots a) \<Longrightarrow> unat (sl_generation (ar_slots a ! i)) \<le> 32767 \<and>
     (sl_generation (ar_slots a ! i) = 0 \<longrightarrow> sl_resource (ar_slots a ! i) = None)"
  by (simp add: arena_wf_def)

lemma length_filter_update:
  "i < length xs \<Longrightarrow>
     length (filter P (xs[i := y])) + of_bool (P (xs ! i)) = length (filter P xs) + of_bool (P y)"
proof (induction xs arbitrary: i)
  case (Cons x xs)
  then show ?case by (cases i) auto
qed simp

lemma live_bound: "arena_wf a \<Longrightarrow> unat (ar_live a) \<le> 65535"
  using length_filter_le [of occupied "ar_slots a"] unfolding arena_wf_def by linarith

text \<open>Insertion fills the first free slot or appends one.\<close>

lemma find_free:
  "find (\<lambda>i. slot_free (ar_slots a ! i)) [0..<length (ar_slots a)] = Some i \<Longrightarrow>
     i < length (ar_slots a) \<and> slot_free (ar_slots a ! i)"
  by (auto simp: find_Some_iff)

lemma find_no_free:
  "find (\<lambda>i. slot_free (ar_slots a ! i)) [0..<length (ar_slots a)] = None \<longleftrightarrow>
     \<not> list_ex slot_free (ar_slots a)"
  by (simp add: find_None_iff list_ex_iff) (metis in_set_conv_nth)

lemma insert_cases:
  assumes "arena_wf a"
  obtains (reuse) i where "i < length (ar_slots a)" "slot_free (ar_slots a ! i)"
      "arena_insert r a = (Inr (encode_handle i (sl_generation (ar_slots a ! i))),
         a\<lparr>ar_slots := (ar_slots a)[i := (ar_slots a ! i)\<lparr>sl_resource := Some r\<rparr>],
           ar_live := ar_live a + 1\<rparr>)"
  | (append) "length (ar_slots a) < 65535"
      "arena_insert r a = (Inr (encode_handle (length (ar_slots a)) 1),
         a\<lparr>ar_slots := ar_slots a @ [\<lparr>sl_generation = 1, sl_resource = Some r\<rparr>],
           ar_live := ar_live a + 1\<rparr>)"
  | (full) "\<not> can_insert a" "arena_insert r a = (Inl HandleLimit, a)"
proof (cases "find (\<lambda>i. slot_free (ar_slots a ! i)) [0..<length (ar_slots a)]")
  case (Some i)
  then show ?thesis using find_free [OF Some] by (intro reuse [of i]) (simp_all add: arena_insert_def)
next
  case None
  then show ?thesis
    using append full assms find_no_free [of a]
    by (cases "length (ar_slots a) = 65535") (auto simp: arena_insert_def can_insert_def arena_wf_def)
qed

lemma insert_can: "arena_wf a \<Longrightarrow> (\<exists>h. fst (arena_insert r a) = Inr h) \<longleftrightarrow> can_insert a"
proof -
  assume "arena_wf a"
  then show ?thesis
  proof (cases rule: insert_cases [where r = r])
    case (reuse i)
    then have "list_ex slot_free (ar_slots a)" unfolding list_ex_iff using nth_mem by blast
    with reuse show ?thesis by (simp add: can_insert_def)
  next
    case append
    then show ?thesis by (simp add: can_insert_def)
  next
    case full
    then show ?thesis by simp
  qed
qed

lemma wf_insert: "arena_wf a \<Longrightarrow> arena_wf (snd (arena_insert r a))"
proof -
  assume wf: "arena_wf a"
  have live: "unat (ar_live a + 1) = Suc (unat (ar_live a))"
    using live_bound [OF wf] by (simp add: unat_word_ariths)
  from wf show ?thesis
  proof (cases rule: insert_cases [where r = r])
    case (reuse i)
    let ?s = "(ar_slots a ! i)\<lparr>sl_resource := Some r\<rparr>"
    have "length (filter occupied ((ar_slots a)[i := ?s])) = Suc (length (filter occupied (ar_slots a)))"
      using length_filter_update [OF reuse(1), of occupied ?s] reuse(2)
      by (simp add: occupied_def slot_free_def)
    moreover have "unat (sl_generation s) \<le> 32767 \<and> (sl_generation s = 0 \<longrightarrow> sl_resource s = None)"
      if "s \<in> set ((ar_slots a)[i := ?s])" for s
      using subsetD [OF set_update_subset_insert that] wf reuse(1,2)
      by (auto simp: arena_wf_def slot_free_def)
    ultimately show ?thesis using wf reuse live by (simp add: arena_wf_def)
  next
    case append
    then show ?thesis using wf live by (auto simp: arena_wf_def occupied_def)
  next
    case full
    then show ?thesis using wf by simp
  qed
qed

lemma insert_live_map:
  assumes wf: "arena_wf a" and ins: "arena_insert r a = (Inr h, a')"
  shows "live_map a h = None \<and> live_map a' = (live_map a)(h \<mapsto> r)"
  using wf
proof (cases rule: insert_cases [where r = r])
  case (reuse i)
  let ?g = "sl_generation (ar_slots a ! i)"
  have i: "i < 65535" "?g \<noteq> 0" using reuse wf by (auto simp: arena_wf_def slot_free_def)
  have h: "h = encode_handle i ?g"
    and a': "a' = a\<lparr>ar_slots := (ar_slots a)[i := (ar_slots a ! i)\<lparr>sl_resource := Some r\<rparr>], ar_live := ar_live a + 1\<rparr>"
    using ins reuse(3) by auto
  have d: "decode_handle h = Inr (i, ?g)" using decode_encode_handle i by (simp add: h)
  have "live_map a' x = ((live_map a)(h \<mapsto> r)) x" for x
  proof (cases "x = h")
    case True
    then show ?thesis using reuse(1) by (simp add: live_map_eq d a')
  next
    case False
    then have "decode_handle x \<noteq> Inr (i, ?g)" using decode_handleD(3) h by metis
    then show ?thesis
      using False by (auto simp: live_map_eq a' nth_list_update split: sum.splits)
  qed
  moreover have "live_map a h = None" using reuse by (simp add: live_map_eq d slot_free_def)
  ultimately show ?thesis by blast
next
  case append
  have h: "h = encode_handle (length (ar_slots a)) 1"
    and a': "a' = a\<lparr>ar_slots := ar_slots a @ [\<lparr>sl_generation = 1, sl_resource = Some r\<rparr>], ar_live := ar_live a + 1\<rparr>"
    using ins append(2) by auto
  have d: "decode_handle h = Inr (length (ar_slots a), 1)"
    using decode_encode_handle append(1) by (simp add: h)
  have "live_map a' x = ((live_map a)(h \<mapsto> r)) x" for x
  proof (cases "x = h")
    case True
    then show ?thesis by (simp add: live_map_eq d a')
  next
    case False
    then have "decode_handle x \<noteq> Inr (length (ar_slots a), 1)" using decode_handleD(3) h by metis
    then show ?thesis
      using False by (auto simp: live_map_eq a' nth_append less_Suc_eq split: sum.splits)
  qed
  moreover have "live_map a h = None" by (simp add: live_map_eq d)
  ultimately show ?thesis by blast
next
  case full
  with ins show ?thesis by simp
qed

text \<open>Removal and mutation of the resource of a live handle.\<close>

lemma live_mapE:
  assumes "live_map a h = Some r"
  obtains i where "decode_handle h = Inr (i, sl_generation (ar_slots a ! i))"
    "i < length (ar_slots a)" "sl_resource (ar_slots a ! i) = Some r"
  using assms by (auto simp: live_map_eq split: sum.splits if_splits)

definition remove_slot :: "nat \<Rightarrow> Arena \<Rightarrow> Arena" where
  "remove_slot i a = a\<lparr>ar_slots := (ar_slots a)[i :=
     \<lparr>sl_generation = next_generation (sl_generation (ar_slots a ! i)), sl_resource = None\<rparr>],
     ar_live := ar_live a - 1\<rparr>"

definition fill_slot :: "nat \<Rightarrow> Resource \<Rightarrow> Arena \<Rightarrow> Arena" where
  "fill_slot i r a = a\<lparr>ar_slots := (ar_slots a)[i := (ar_slots a ! i)\<lparr>sl_resource := Some r\<rparr>]\<rparr>"

lemma take_eq:
  "arena_take h k a =
    (case live_map a h of
       None \<Rightarrow> (Inl (InvalidHandle h), a)
     | Some r \<Rightarrow>
         if resource_kind r = k
         then (Inr r, remove_slot (case decode_handle h of Inr (i, _) \<Rightarrow> i | Inl _ \<Rightarrow> 0) a)
         else (Inl (wrong_resource_type h k r), a))"
  using decode_handle_Inl [of h]
  by (cases "decode_handle h")
    (auto simp: arena_take_def live_map_eq Let_def remove_slot_def split: option.splits if_splits)

lemma resource_mut_eq:
  "resource_mut a h =
    (case live_map a h of
       None \<Rightarrow> Inl (InvalidHandle h)
     | Some r \<Rightarrow> Inr (r, \<lambda>r'. store_put h r' a))"
  using decode_handle_Inl [of h]
  by (cases "decode_handle h")
    (auto simp: resource_mut_def live_map_eq store_put_def Let_def split: option.splits if_splits)

lemma store_put_eq:
  "store_put h r a =
    (case live_map a h of
       None \<Rightarrow> a
     | Some _ \<Rightarrow> fill_slot (case decode_handle h of Inr (i, _) \<Rightarrow> i | Inl _ \<Rightarrow> 0) r a)"
  by (cases "decode_handle h")
    (auto simp: resource_mut_def live_map_eq store_put_def fill_slot_def Let_def split: option.splits if_splits)

lemma age_next:
  assumes "g \<noteq> 0" and "unat g \<le> 32767"
  shows "age (next_generation g) = Suc (unat g)" and "unat (next_generation g) \<le> 32767"
proof -
  have *: "unat (g + 1) = Suc (unat g)" using assms(2) by (simp add: unat_word_ariths)
  show "age (next_generation g) = Suc (unat g)"
  proof (cases "g = 32767")
    case False
    then have "g + 1 \<noteq> 0" using * by (metis Zero_not_Suc unsigned_0)
    with False * show ?thesis by (simp add: age_def next_generation_def)
  qed (simp add: age_def next_generation_def)
  have "g \<noteq> 32767 \<Longrightarrow> unat g \<noteq> 32767" by (simp add: word_unat_eq_iff)
  then show "unat (next_generation g) \<le> 32767" using * assms by (auto simp: next_generation_def)
qed

lemma wf_remove_slot:
  assumes wf: "arena_wf a" and i: "i < length (ar_slots a)" "sl_resource (ar_slots a ! i) = Some r"
  shows "arena_wf (remove_slot i a)"
proof -
  let ?g = "sl_generation (ar_slots a ! i)"
  let ?s = "\<lparr>sl_generation = next_generation ?g, sl_resource = None\<rparr>"
  have g: "?g \<noteq> 0" "unat ?g \<le> 32767" using arena_wf_slot [OF wf i(1)] i(2) by auto
  have len: "length (filter occupied (ar_slots a)) = Suc (length (filter occupied ((ar_slots a)[i := ?s])))"
    using length_filter_update [OF i(1), of occupied ?s] i(2) by (simp add: occupied_def)
  moreover have "unat (ar_live a - 1) = unat (ar_live a) - 1"
    using len wf by (intro unat_minus_one) (auto simp: arena_wf_def)
  moreover have "unat (sl_generation s) \<le> 32767 \<and> (sl_generation s = 0 \<longrightarrow> sl_resource s = None)"
    if "s \<in> set ((ar_slots a)[i := ?s])" for s
    using subsetD [OF set_update_subset_insert that] wf age_next(2) [OF g] by (auto simp: arena_wf_def)
  ultimately show ?thesis using wf by (simp add: arena_wf_def remove_slot_def)
qed

lemma wf_fill_slot:
  assumes wf: "arena_wf a" and i: "i < length (ar_slots a)" "sl_resource (ar_slots a ! i) = Some r"
  shows "arena_wf (fill_slot i r' a)"
proof -
  let ?s = "(ar_slots a ! i)\<lparr>sl_resource := Some r'\<rparr>"
  have "length (filter occupied (ar_slots a)) = length (filter occupied ((ar_slots a)[i := ?s]))"
    using length_filter_update [OF i(1), of occupied ?s] i(2) by (simp add: occupied_def)
  moreover have "unat (sl_generation s) \<le> 32767 \<and> (sl_generation s = 0 \<longrightarrow> sl_resource s = None)"
    if "s \<in> set ((ar_slots a)[i := ?s])" for s
    using subsetD [OF set_update_subset_insert that] wf arena_wf_slot [OF wf i(1)] i(2)
    by (auto simp: arena_wf_def)
  ultimately show ?thesis using wf by (simp add: arena_wf_def fill_slot_def)
qed

lemma live_map_remove:
  assumes "arena_wf a" and "live_map a h = Some r" and "decode_handle h = Inr (i, g)"
  shows "live_map (remove_slot i a) = (live_map a)(h := None)" and "spent_handle (remove_slot i a) h"
proof -
  have i: "i < length (ar_slots a)" "g = sl_generation (ar_slots a ! i)"
    "sl_resource (ar_slots a ! i) = Some r"
    using assms(2,3) by (auto simp: live_map_eq split: if_splits)
  have g: "g \<noteq> 0" "unat g \<le> 32767" using arena_wf_slot [OF assms(1) i(1)] i by auto
  show "spent_handle (remove_slot i a) h"
    using age_next [OF g] i(1,2) by (simp add: spent_handle_def assms(3) remove_slot_def)
  have "live_map (remove_slot i a) x = ((live_map a)(h := None)) x" for x
  proof (cases "x = h")
    case True
    then show ?thesis using spent_dead [OF \<open>spent_handle (remove_slot i a) h\<close>] by simp
  next
    case False
    then have "decode_handle x \<noteq> Inr (i, g)" using decode_handleD(3) assms(3) by metis
    then show ?thesis
      using False i by (auto simp: live_map_eq remove_slot_def nth_list_update split: sum.splits)
  qed
  then show "live_map (remove_slot i a) = (live_map a)(h := None)" by blast
qed

lemma live_map_fill:
  assumes "live_map a h = Some r" and "decode_handle h = Inr (i, g)"
  shows "live_map (fill_slot i r' a) = (live_map a)(h \<mapsto> r')"
proof
  fix x
  have i: "i < length (ar_slots a)" "g = sl_generation (ar_slots a ! i)"
    "sl_resource (ar_slots a ! i) = Some r"
    using assms by (auto simp: live_map_eq split: if_splits)
  show "live_map (fill_slot i r' a) x = ((live_map a)(h \<mapsto> r')) x"
  proof (cases "x = h")
    case True
    then show ?thesis using i by (simp add: live_map_eq assms(2) fill_slot_def)
  next
    case False
    then have "decode_handle x \<noteq> Inr (i, g)" using decode_handleD(3) assms(2) by metis
    then show ?thesis
      using False i by (auto simp: live_map_eq fill_slot_def nth_list_update split: sum.splits)
  qed
qed

lemma put_live:
  assumes "live_map a h = Some r"
  shows "live_map (store_put h r' a) = (live_map a)(h \<mapsto> r')"
proof -
  obtain i where d: "decode_handle h = Inr (i, sl_generation (ar_slots a ! i))" using assms by (rule live_mapE)
  show ?thesis by (simp add: store_put_eq assms d live_map_fill [OF assms d])
qed

lemma take_live:
  assumes "arena_wf a" and "live_map a h = Some r" and "resource_kind r = k"
  obtains a' where "arena_take h k a = (Inr r, a')" "live_map a' = (live_map a)(h := None)"
    "spent_handle a' h" "arena_wf a'"
proof -
  obtain i where d: "decode_handle h = Inr (i, sl_generation (ar_slots a ! i))"
    and i: "i < length (ar_slots a)" "sl_resource (ar_slots a ! i) = Some r"
    using assms(2) by (rule live_mapE)
  have "arena_take h k a = (Inr r, remove_slot i a)" by (simp add: take_eq assms(2,3) d)
  then show thesis
    using that live_map_remove [OF assms(1,2) d] wf_remove_slot [OF assms(1) i] by blast
qed

lemma spent_mono:
  assumes "spent_handle a h" and "length (ar_slots a) \<le> length (ar_slots b)"
    and "\<And>i. i < length (ar_slots a) \<Longrightarrow>
      age (sl_generation (ar_slots a ! i)) \<le> age (sl_generation (ar_slots b ! i))"
  shows "spent_handle b h"
  using assms by (fastforce simp: spent_handle_def split: sum.splits)

lemma store_laws:
  assumes wf: "arena_wf a"
  shows "arena_wf (snd (store_take h k a))" and "arena_wf (store_put h r a)"
    and "spent_handle a h' \<Longrightarrow> spent_handle (snd (arena_insert r a)) h'"
    and "spent_handle a h' \<Longrightarrow> spent_handle (snd (store_take h k a)) h'"
    and "spent_handle a h' \<Longrightarrow> spent_handle (store_put h r a) h'"
proof -
  show "arena_wf (snd (store_take h k a))"
    using wf wf_remove_slot by (auto simp: store_take_def take_eq elim!: live_mapE split: option.splits)
  show "arena_wf (store_put h r a)"
    using wf wf_fill_slot by (auto simp: store_put_eq elim!: live_mapE split: option.splits)
  show "spent_handle a h' \<Longrightarrow> spent_handle (snd (arena_insert r a)) h'"
    by (cases rule: insert_cases [OF wf, of r])
      (auto elim!: spent_mono simp: nth_list_update nth_append)
  show "spent_handle a h' \<Longrightarrow> spent_handle (store_put h r a) h'"
    by (auto elim!: spent_mono live_mapE simp: store_put_eq fill_slot_def nth_list_update
        split: option.splits)
  have "age (sl_generation (ar_slots a ! i)) \<le> age (next_generation (sl_generation (ar_slots a ! i)))"
    if "i < length (ar_slots a)" "sl_resource (ar_slots a ! i) = Some r'" for i r'
  proof -
    have g: "sl_generation (ar_slots a ! i) \<noteq> 0" "unat (sl_generation (ar_slots a ! i)) \<le> 32767"
      using arena_wf_slot [OF wf that(1)] that(2) by auto
    then show ?thesis using age_next(1) [OF g] by (simp add: age_def)
  qed
  then show "spent_handle a h' \<Longrightarrow> spent_handle (snd (store_take h k a)) h'"
    by (auto elim!: spent_mono live_mapE simp: store_take_def take_eq remove_slot_def nth_list_update
        split: option.splits)
qed

interpretation arena: handle_store arena_wf live_map spent_handle store_insert store_take store_put
  resource_kind
proof unfold_locales
  fix a a' :: Arena and h h' :: u32 and r :: Resource and k :: ResourceKind
  show "live_map a h = None \<and> live_map a' = (live_map a)(h \<mapsto> r)"
    if "arena_wf a" "store_insert r a = (Some h, a')"
    using that insert_live_map by (auto simp: store_insert_def split: prod.splits sum.splits)
  show "a' = a" if "store_insert r a = (None, a')"
    using that by (auto simp: store_insert_def arena_insert_def split: prod.splits sum.splits option.splits if_splits)
  show "live_map a h = Some r \<and> resource_kind r = k \<and> live_map a' = (live_map a)(h := None) \<and> spent_handle a' h"
    if wf: "arena_wf a" and run: "store_take h k a = (Some r, a')"
  proof -
    from run have r: "live_map a h = Some r" "resource_kind r = k"
      by (auto simp: store_take_def take_eq split: option.splits if_splits)
    obtain b where b: "arena_take h k a = (Inr r, b)" "live_map b = (live_map a)(h := None)"
      "spent_handle b h" using take_live [OF wf r] by blast
    then have "a' = b" using run by (simp add: store_take_def)
    with b r show ?thesis by simp
  qed
  show "a' = a \<and> (live_map a h = None \<or> resource_kind (the (live_map a h)) \<noteq> k)"
    if "store_take h k a = (None, a')"
    using that by (auto simp: store_take_def take_eq split: option.splits if_splits)
  show "live_map (store_put h r a) = (if live_map a h = None then live_map a else (live_map a)(h \<mapsto> r))"
    if "arena_wf a"
    by (cases "live_map a h") (simp_all add: put_live, simp add: store_put_eq)
  show "arena_wf (snd (store_insert r a))" if "arena_wf a"
    using wf_insert [OF that, of r] by (auto simp: store_insert_def split: prod.splits sum.splits)
  show "arena_wf (snd (store_take h k a))" "arena_wf (store_put h r a)" if "arena_wf a"
    using store_laws(1,2) [OF that] by auto
  show "live_map a h = None" if "spent_handle a h" using that by (rule spent_dead)
  show "spent_handle (snd (store_insert r a)) h" if "arena_wf a" "spent_handle a h"
    using store_laws(3) [OF that, of r] by (auto simp: store_insert_def split: prod.splits sum.splits)
  show "spent_handle (snd (store_take h' k a)) h" "spent_handle (store_put h' r a) h"
    if "arena_wf a" "spent_handle a h"
    using store_laws(4,5) [OF that(1,2)] by auto
qed

section \<open>Counting and replacing\<close>

lemma dom_live_map:
  assumes "arena_wf a"
  shows "dom (live_map a) = (\<lambda>i. encode_handle i (sl_generation (ar_slots a ! i))) `
    {i. i < length (ar_slots a) \<and> occupied (ar_slots a ! i)}"
proof (intro set_eqI iffI)
  fix h
  assume "h \<in> dom (live_map a)"
  then obtain r where "live_map a h = Some r" by blast
  then show "h \<in> (\<lambda>i. encode_handle i (sl_generation (ar_slots a ! i))) `
    {i. i < length (ar_slots a) \<and> occupied (ar_slots a ! i)}"
    by (elim live_mapE) (force simp: occupied_def dest: decode_handleD(3))
next
  fix h
  assume "h \<in> (\<lambda>i. encode_handle i (sl_generation (ar_slots a ! i))) `
    {i. i < length (ar_slots a) \<and> occupied (ar_slots a ! i)}"
  then obtain i where i: "i < length (ar_slots a)" "occupied (ar_slots a ! i)"
    and h: "h = encode_handle i (sl_generation (ar_slots a ! i))" by blast
  have "sl_generation (ar_slots a ! i) \<noteq> 0" "i < 65535"
    using arena_wf_slot [OF assms i(1)] i assms by (auto simp: occupied_def arena_wf_def)
  then have "decode_handle h = Inr (i, sl_generation (ar_slots a ! i))"
    by (simp add: h decode_encode_handle)
  then show "h \<in> dom (live_map a)" using i by (auto simp: live_map_eq occupied_def)
qed

lemma card_live_map:
  assumes "arena_wf a"
  shows "finite (dom (live_map a)) \<and> card (dom (live_map a)) = unat (ar_live a)"
proof -
  let ?I = "{i. i < length (ar_slots a) \<and> occupied (ar_slots a ! i)}"
  let ?f = "\<lambda>i. encode_handle i (sl_generation (ar_slots a ! i))"
  have "inj_on ?f ?I"
  proof (rule inj_onI)
    fix i j
    assume ij: "i \<in> ?I" "j \<in> ?I" and eq: "?f i = ?f j"
    have ok: "k < 65535 \<and> sl_generation (ar_slots a ! k) \<noteq> 0" if "k \<in> ?I" for k
      using that arena_wf_slot [OF assms, of k] assms by (auto simp: occupied_def arena_wf_def)
    have "decode_handle (?f i) = Inr (i, sl_generation (ar_slots a ! i))"
      "decode_handle (?f j) = Inr (j, sl_generation (ar_slots a ! j))"
      using ok [OF ij(1)] ok [OF ij(2)] by (simp_all add: decode_encode_handle)
    with arg_cong [OF eq, of decode_handle] show "i = j" by (simp only: sum.inject prod.inject)
  qed
  then have "card (?f ` ?I) = card ?I" by (rule card_image)
  also have "\<dots> = length (filter occupied (ar_slots a))" by (simp add: length_filter_conv_card)
  finally show ?thesis using assms unfolding dom_live_map [OF assms] by (simp add: arena_wf_def)
qed

lemma handle_positive:
  assumes "arena_wf a" and "live_map a h = Some r"
  shows "0 < unat h \<and> unat h < 2147483648"
proof -
  obtain i where d: "decode_handle h = Inr (i, sl_generation (ar_slots a ! i))"
    and i: "i < length (ar_slots a)" using assms(2) by (rule live_mapE)
  note e = decode_handleD [OF d]
  have "unat (sl_generation (ar_slots a ! i)) \<le> 32767" using arena_wf_slot [OF assms(1) i] by simp
  moreover have "unat h = unat (sl_generation (ar_slots a ! i)) * 65536 + (i + 1)"
    by (metis e(3) unat_encode_handle [OF e(1)])
  ultimately show ?thesis using e(1) by simp
qed

lemma replace_capacity:
  assumes wf: "arena_wf a" and ok: "ensure_insert_capacity_after_take a h k = Inr ()"
  obtains r a' where "arena_take h k a = (Inr r, a')" "resource_kind r = k" "arena_wf a'" "can_insert a'"
proof -
  obtain i g where d: "decode_handle h = Inr (i, g)"
    using ok by (cases "decode_handle h") (auto simp: ensure_insert_capacity_after_take_def)
  obtain r where i: "i < length (ar_slots a)" "sl_generation (ar_slots a ! i) = g"
    "sl_resource (ar_slots a ! i) = Some r" "resource_kind r = k"
    and cap: "g = 32767 \<longrightarrow> can_insert a"
    using ok by (auto simp: ensure_insert_capacity_after_take_def d split: option.splits if_splits)
  have live: "live_map a h = Some r" using i by (simp add: live_map_eq d)
  have g: "g \<noteq> 0" "unat g \<le> 32767" using arena_wf_slot [OF wf i(1)] i(2,3) by auto
  have take: "arena_take h k a = (Inr r, remove_slot i a)" using i by (simp add: take_eq live d)
  have "can_insert (remove_slot i a)"
  proof (cases "g = 32767")
    case False
    have "next_generation g \<noteq> 0"
    proof
      assume "next_generation g = 0"
      then have "unat g = 32767" using age_next(1) [OF g] by (simp add: age_def)
      then show False using False by (simp add: word_unat_eq_iff)
    qed
    then have "slot_free (ar_slots (remove_slot i a) ! i)"
      using i by (simp add: slot_free_def remove_slot_def)
    moreover have "i < length (ar_slots (remove_slot i a))" using i by (simp add: remove_slot_def)
    ultimately show ?thesis unfolding can_insert_def list_ex_iff using nth_mem by blast
  next
    case True
    then have "can_insert a" using cap by simp
    then consider (room) "length (ar_slots a) < 65535"
      | (free) j where "j < length (ar_slots a)" "slot_free (ar_slots a ! j)"
      by (auto simp: can_insert_def list_ex_iff in_set_conv_nth)
    then show ?thesis
    proof cases
      case free
      then have "j \<noteq> i" using i by (auto simp: slot_free_def)
      then have "slot_free (ar_slots (remove_slot i a) ! j)" using free by (simp add: remove_slot_def)
      moreover have "j < length (ar_slots (remove_slot i a))" using free by (simp add: remove_slot_def)
      ultimately show ?thesis unfolding can_insert_def list_ex_iff using nth_mem by blast
    qed (simp add: can_insert_def remove_slot_def)
  qed
  then show thesis using that take i(4) wf_remove_slot [OF wf i(1,3)] by blast
qed

section \<open>Properties\<close>

text \<open>
  C18. The arena is a map from handles to resources. On a well-formed arena, inserting adds the
  resource under a handle that was not in use and is positive as a 32-bit signed number, and is
  refused exactly when no slot is left; taking removes exactly the named resource, when it has the
  expected kind, and otherwise changes nothing; a mutable reference reaches exactly the named
  resource; every operation keeps the arena well-formed and the count of live handles exact.
\<close>

theorem arena_refines_map:
  assumes "arena_wf a"
  shows "(case arena_insert r a of
       (Inr h, a') \<Rightarrow> can_insert a \<and> live_map a h = None \<and> live_map a' = (live_map a)(h \<mapsto> r) \<and>
         0 < unat h \<and> unat h < 2147483648 \<and> arena_wf a'
     | (Inl e, a') \<Rightarrow> \<not> can_insert a \<and> e = HandleLimit \<and> a' = a) \<and>
   (case (live_map a h, arena_take h k a) of
       (None, (x, a')) \<Rightarrow> x = Inl (InvalidHandle h) \<and> a' = a
     | (Some r, (x, a')) \<Rightarrow>
         if resource_kind r = k
         then x = Inr r \<and> live_map a' = (live_map a)(h := None) \<and> arena_wf a'
         else x = Inl (wrong_resource_type h k r) \<and> a' = a) \<and>
   (case (live_map a h, resource_mut a h) of
       (None, x) \<Rightarrow> x = Inl (InvalidHandle h)
     | (Some r, Inr (r0, put)) \<Rightarrow> r0 = r \<and> live_map (put r') = (live_map a)(h \<mapsto> r') \<and> arena_wf (put r')
     | (Some r, Inl e) \<Rightarrow> False) \<and>
   card (dom (live_map a)) = unat (ar_live a)"
proof (intro conjI)
  show "case arena_insert r a of
       (Inr h, a') \<Rightarrow> can_insert a \<and> live_map a h = None \<and> live_map a' = (live_map a)(h \<mapsto> r) \<and>
         0 < unat h \<and> unat h < 2147483648 \<and> arena_wf a'
     | (Inl e, a') \<Rightarrow> \<not> can_insert a \<and> e = HandleLimit \<and> a' = a"
  proof (cases "arena_insert r a")
    case (Pair x a')
    show ?thesis
    proof (cases x)
      case (Inl e)
      then show ?thesis
        using insert_can [OF assms, of r] Pair insert_cases [OF assms, of r] by (cases rule: insert_cases [OF assms, of r]) auto
    next
      case (Inr h)
      have "arena_wf a'" using wf_insert [OF assms, of r] Pair by simp
      moreover have m: "live_map a h = None \<and> live_map a' = (live_map a)(h \<mapsto> r)"
        using insert_live_map [OF assms] Pair Inr by simp
      ultimately have "0 < unat h \<and> unat h < 2147483648" by (intro handle_positive) auto
      then show ?thesis using m \<open>arena_wf a'\<close> insert_can [OF assms, of r] Pair Inr by auto
    qed
  qed
  show "case (live_map a h, arena_take h k a) of
       (None, (x, a')) \<Rightarrow> x = Inl (InvalidHandle h) \<and> a' = a
     | (Some r, (x, a')) \<Rightarrow>
         if resource_kind r = k
         then x = Inr r \<and> live_map a' = (live_map a)(h := None) \<and> arena_wf a'
         else x = Inl (wrong_resource_type h k r) \<and> a' = a"
  proof (cases "live_map a h")
    case (Some r)
    show ?thesis
    proof (cases "resource_kind r = k")
      case True
      obtain b where b: "arena_take h k a = (Inr r, b)" "live_map b = (live_map a)(h := None)"
        "arena_wf b" using take_live [OF assms Some True] by blast
      show ?thesis unfolding Some b(1) using b(2,3) True by simp
    qed (simp add: Some take_eq)
  qed (simp add: take_eq)
  show "case (live_map a h, resource_mut a h) of
       (None, x) \<Rightarrow> x = Inl (InvalidHandle h)
     | (Some r, Inr (r0, put)) \<Rightarrow> r0 = r \<and> live_map (put r') = (live_map a)(h \<mapsto> r') \<and> arena_wf (put r')
     | (Some r, Inl e) \<Rightarrow> False"
    using arena.upd_ok [OF assms, of h r'] store_laws(2) [OF assms, of h r']
    by (auto simp: resource_mut_eq split: option.splits)
  show "card (dom (live_map a)) = unat (ar_live a)" using card_live_map [OF assms] by simp
qed

text \<open>
  C19. A released handle never comes back. After a resource was taken out of a well-formed arena,
  its handle is rejected as invalid whatever is inserted, taken or changed afterwards, even when its
  slot is reused.
\<close>

theorem handles_never_revive:
  assumes "arena_wf a" and "arena_take h k a = (Inr r, a')"
  shows "resource (run_store store_insert store_take store_put ops a') h = Inl (InvalidHandle h)"
  using arena.removed_forever [OF assms(1), of h k r a' ops] assms(2)
  by (simp add: store_take_def resource_eq)

definition empty_arena :: Arena where
  "empty_arena = \<lparr>ar_slots = [], ar_live = 0\<rparr>"

lemma wf_empty_arena: "arena_wf empty_arena"
  by (simp add: arena_wf_def empty_arena_def)

definition one_buffer :: Arena where
  "one_buffer = \<lparr>ar_slots = [\<lparr>sl_generation = 1, sl_resource = Some (ResBuffer [])\<rparr>], ar_live = 1\<rparr>"

lemma wf_one_buffer: "arena_wf one_buffer"
  by (simp add: arena_wf_def one_buffer_def occupied_def)

theorem arena_refines_map_witness:
  "(case arena_insert (ResBuffer [7]) one_buffer of
       (Inr h, a') \<Rightarrow> live_map a' = (live_map one_buffer)(h \<mapsto> ResBuffer [7]) \<and> h = 65538
     | (Inl e, a') \<Rightarrow> False)"
  using arena_refines_map [OF wf_one_buffer, of "ResBuffer [7]" 65537 BufferK "ResBuffer []"]
  by (simp add: arena_insert_def one_buffer_def slot_free_def encode_handle_def)

theorem handles_never_revive_witness:
  "resource (run_store store_insert store_take store_put [Ins (ResBuffer [1]), Ins (ResBuffer [2])]
     (snd (arena_take 65537 BufferK one_buffer))) 65537 = Inl (InvalidHandle 65537)"
proof -
  have "decode_handle 65537 = Inr (0, 1)" by (simp add: decode_handle_def)
  then have "arena_take 65537 BufferK one_buffer =
      (Inr (ResBuffer []), snd (arena_take 65537 BufferK one_buffer))"
    by (simp add: arena_take_def one_buffer_def)
  from handles_never_revive [OF wf_one_buffer this] show ?thesis .
qed

end
