(* ===== verification/WasmFutures.thy ===== *)
theory WasmFutures
  imports WasmHandles Operator
begin

text \<open>
  The asynchronous work of the browser bridge: what its futures compute against OpenDAL
  (\<open>try_owned_*\<close>, \<open>entry_snapshot\<close>, \<open>push_entry_snapshot\<close>, \<open>collect_list\<close>, \<open>read_stream_next\<close> and the
  \<open>async\<close> blocks of the \<open>*_start\<close> functions). Nothing here touches the bridge's own state; a future
  reads and changes only the external state \<open>'x\<close>, where OpenDAL and the allocator live.

  \<open>wasm_api\<close> holds the functions of OpenDAL, the allocator and the JavaScript host that are called.
\<close>

section \<open>Interface to OpenDAL and the allocator\<close>

type_synonym ('x, 'a) fut = "('x, BridgeError, 'a) comp"

type_synonym ('x, 'a) poll = "'x \<Rightarrow> 'a ext_result option \<times> 'x"

record 'x wasm_api =
  wa_alloc :: "usize \<Rightarrow> 'x \<Rightarrow> bool \<times> 'x"
  wa_buffer_address :: "u32 \<Rightarrow> usize"
  wa_split_to :: "Buffer \<Rightarrow> usize \<Rightarrow> Buffer \<times> Buffer"
  wa_schemes :: "string list"
  wa_new_error :: "ErrorKind \<Rightarrow> string \<Rightarrow> opendal_Error"
  wa_new_memory :: "('x, token) xcall"
  wa_via_iter :: "string \<Rightarrow> (string \<times> string) list \<Rightarrow> ('x, token) xcall"
  wa_info :: "token \<Rightarrow> opendal_info"
  wa_native_suffix :: "token \<Rightarrow> bool"
  wa_poll_write :: "token \<Rightarrow> string \<Rightarrow> u8 list \<Rightarrow> ('x, Metadata) poll"
  wa_poll_read :: "token \<Rightarrow> string \<Rightarrow> ('x, Buffer) poll"
  wa_poll_stat :: "token \<Rightarrow> string \<Rightarrow> ('x, Metadata) poll"
  wa_write :: "token \<Rightarrow> string \<Rightarrow> u8 list \<Rightarrow> WriteOptions \<Rightarrow> ('x, Metadata) xcall"
  wa_read :: "token \<Rightarrow> string \<Rightarrow> ReadOptions \<Rightarrow> ('x, Buffer) xcall"
  wa_stat :: "token \<Rightarrow> string \<Rightarrow> StatOptions \<Rightarrow> ('x, Metadata) xcall"
  wa_create_dir :: "token \<Rightarrow> string \<Rightarrow> ('x, unit) xcall"
  wa_delete :: "token \<Rightarrow> string \<Rightarrow> DeleteOptions \<Rightarrow> ('x, unit) xcall"
  wa_copy :: "token \<Rightarrow> string \<Rightarrow> string \<Rightarrow> ('x, Metadata) xcall"
  wa_rename :: "token \<Rightarrow> string \<Rightarrow> string \<Rightarrow> ('x, unit) xcall"
  wa_reader :: "token \<Rightarrow> string \<Rightarrow> ReaderOptions \<Rightarrow> ('x, token) xcall"
  wa_into_stream :: "token \<Rightarrow> BytesRange \<Rightarrow> ('x, token) xcall"
  wa_stream_next :: "token \<Rightarrow> ('x, Buffer option) xcall"
  wa_writer :: "token \<Rightarrow> string \<Rightarrow> WriteOptions \<Rightarrow> ('x, token) xcall"
  wa_writer_write :: "token \<Rightarrow> u8 list \<Rightarrow> ('x, unit) xcall"
  wa_writer_close :: "token \<Rightarrow> ('x, Metadata) xcall"
  wa_writer_abort :: "token \<Rightarrow> ('x, unit) xcall"
  wa_lister :: "token \<Rightarrow> string \<Rightarrow> bool \<Rightarrow> usize option \<Rightarrow> string option \<Rightarrow> ('x, token) xcall"
  wa_lister_next :: "token \<Rightarrow> ('x, opendal_Entry option) xcall"

definition call_ext :: "(opendal_Error \<Rightarrow> BridgeError) \<Rightarrow> ('x, 'a) xcall \<Rightarrow> ('x, 'a) fut" where
  \<comment> \<open>a call followed by \<open>.map_err(f)\<close>\<close>
  "call_ext f c x =
     (case c x of (XOk a, x') \<Rightarrow> (Ok a, x') | (XErr e, x') \<Rightarrow> (Err (f e), x') | (XPanic, x') \<Rightarrow> (Panic, x'))"

section \<open>Owned copies\<close>

definition try_owned_string :: "'x wasm_api \<Rightarrow> string \<Rightarrow> ('x, string) fut" where
  "try_owned_string api s = bind (try_reserve (wa_alloc api) (length s)) (\<lambda>_. ret s)"

definition try_owned_bytes :: "'x wasm_api \<Rightarrow> u8 list \<Rightarrow> ('x, u8 list) fut" where
  "try_owned_bytes api bytes =
     (if length bytes > MAX_BUFFER_LENGTH then throw BufferTooLarge
      else bind (try_reserve (wa_alloc api) (length bytes)) (\<lambda>_. ret bytes))"

definition try_owned_opendal_buffer :: "'x wasm_api \<Rightarrow> Buffer \<Rightarrow> ('x, u8 list) fut" where
  "try_owned_opendal_buffer api buffer =
     (if buffer_len_of buffer > MAX_BUFFER_LENGTH then throw BufferTooLarge
      else bind (try_reserve (wa_alloc api) (buffer_len_of buffer)) (\<lambda>_. ret (concat buffer)))"

definition zeroed_buffer :: "'x wasm_api \<Rightarrow> u32 \<Rightarrow> ('x, u8 list) fut" where
  "zeroed_buffer api len =
     (if unat len > MAX_BUFFER_LENGTH then throw BufferTooLarge
      else bind (try_reserve (wa_alloc api) (unat len)) (\<lambda>_. ret (replicate (unat len) 0)))"

section \<open>Listings\<close>

record ListBounds =
  lb_max_entries :: usize
  lb_max_bytes :: usize

definition PRODUCTION_LIST_BOUNDS :: ListBounds where
  "PRODUCTION_LIST_BOUNDS = \<lparr>lb_max_entries = MAX_LIST_ENTRIES, lb_max_bytes = MAX_LIST_OUTPUT_BYTES\<rparr>"

definition push_entry_snapshot ::
  "'x wasm_api \<Rightarrow> EntrySnapshot list \<Rightarrow> usize \<Rightarrow> EntrySnapshot \<Rightarrow> ListBounds \<Rightarrow>
   ('x, EntrySnapshot list \<times> usize) fut" where
  "push_entry_snapshot api entries total_bytes entry bounds =
     (case Option.bind (checked_add_usize32 total_bytes (length (es_path entry))) (\<lambda>v.
           Option.bind (checked_add_usize32 v (length (es_name entry))) (\<lambda>v.
             checked_add_usize32 v (length (es_metadata_snapshot entry)))) of
        None \<Rightarrow> throw ListTooLarge
      | Some next_bytes \<Rightarrow>
          if length entries \<ge> lb_max_entries bounds \<or> next_bytes > lb_max_bytes bounds
          then throw ListTooLarge
          else bind (try_reserve (wa_alloc api) 1) (\<lambda>_. ret (entries @ [entry], next_bytes)))"

definition entry_snapshot :: "'x wasm_api \<Rightarrow> opendal_Entry \<Rightarrow> ('x, EntrySnapshot) fut" where
  "entry_snapshot api entry =
     bind (try_owned_string api (oen_name entry)) (\<lambda>name.
     let path = oen_path entry; metadata = oen_metadata entry in
     bind (metadata_snapshot_bytes (wa_alloc api) metadata) (\<lambda>metadata_snapshot.
       case Option.bind (checked_add_usize32 (length path) (length name)) (\<lambda>len.
              checked_add_usize32 len (length metadata_snapshot)) of
         None \<Rightarrow> throw ListTooLarge
       | Some len \<Rightarrow>
           if len > MAX_LIST_OUTPUT_BYTES then throw ListTooLarge
           else ret \<lparr>es_path = path, es_name = name, es_mode = wasm_mode (md_mode metadata),
                     es_content_length = md_content_length metadata,
                     es_metadata_snapshot = metadata_snapshot\<rparr>))"

fun collect_entries ::
  "'x wasm_api \<Rightarrow> token \<Rightarrow> nat \<Rightarrow> EntrySnapshot list \<Rightarrow> usize \<Rightarrow> ('x, EntrySnapshot list) fut" where
  \<comment> \<open>the loop of \<open>collect_list\<close>; \<open>fuel\<close> bounds the number of rounds, see \<open>collect_loop_bounded\<close>\<close>
  "collect_entries api lister 0 entries total_bytes = panic"
| "collect_entries api lister (Suc fuel) entries total_bytes =
     bind (call_ext from_opendal (wa_lister_next api lister)) (\<lambda>next.
       case next of
         None \<Rightarrow> ret entries
       | Some entry \<Rightarrow>
           bind (entry_snapshot api entry) (\<lambda>snapshot.
           bind (push_entry_snapshot api entries total_bytes snapshot PRODUCTION_LIST_BOUNDS)
             (\<lambda>(entries', total_bytes').
             collect_entries api lister fuel entries' total_bytes')))"

text \<open>
  The same loop as the code has it, with no bound on its rounds: a round asks the lister once and goes
  on with the collected entries (\<open>Inl\<close>) or ends with them (\<open>Inr\<close>); not returning is \<open>None\<close>.
\<close>

definition collect_round ::
  "'x wasm_api \<Rightarrow> token \<Rightarrow> EntrySnapshot list \<Rightarrow> usize \<Rightarrow>
   ('x, (EntrySnapshot list \<times> usize) + EntrySnapshot list) fut" where
  "collect_round api lister entries total_bytes =
     bind (call_ext from_opendal (wa_lister_next api lister)) (\<lambda>next.
       case next of
         None \<Rightarrow> ret (Inr entries)
       | Some entry \<Rightarrow>
           bind (entry_snapshot api entry) (\<lambda>snapshot.
           bind (push_entry_snapshot api entries total_bytes snapshot PRODUCTION_LIST_BOUNDS)
             (\<lambda>state. ret (Inl state))))"

partial_function (option) collect_loop ::
  "'x wasm_api \<Rightarrow> token \<Rightarrow> EntrySnapshot list \<Rightarrow> usize \<Rightarrow> 'x \<Rightarrow>
   ((BridgeError, EntrySnapshot list) outcome \<times> 'x) option" where
  "collect_loop api lister entries total_bytes x =
     (case collect_round api lister entries total_bytes x of
        (Ok (Inl state), x') \<Rightarrow> collect_loop api lister (fst state) (snd state) x'
      | (Ok (Inr entries), x') \<Rightarrow> Some (Ok entries, x')
      | (Err e, x') \<Rightarrow> Some (Err e, x')
      | (Panic, x') \<Rightarrow> Some (Panic, x')
      | (UB, x') \<Rightarrow> Some (UB, x')
      | (Blocked, x') \<Rightarrow> Some (Blocked, x'))"

definition collect_list ::
  "'x wasm_api \<Rightarrow> token \<Rightarrow> string \<Rightarrow> bool \<Rightarrow> usize option \<Rightarrow> string option \<Rightarrow>
   ('x, EntrySnapshot list) fut" where
  "collect_list api operator path recursive limit start_after =
     bind (call_ext from_opendal (wa_lister api operator path recursive limit start_after)) (\<lambda>lister.
       collect_entries api lister (MAX_LIST_ENTRIES + 2) [] 0)"

section \<open>Read streams\<close>

definition copy_stream_chunk ::
  "'x wasm_api \<Rightarrow> Buffer \<Rightarrow> usize \<Rightarrow> ('x, u8 list \<times> Buffer option) fut" where
  "copy_stream_chunk api buffer max_chunk =
     (case wa_split_to api buffer (min (buffer_len_of buffer) max_chunk) of
        (chunk, rest) \<Rightarrow>
          let remainder = (if buffer_len_of rest = 0 then None else Some rest) in
          bind (try_owned_opendal_buffer api chunk) (\<lambda>bytes. ret (bytes, remainder)))"

datatype ReadStreamUpdate = StreamToOpen ReadStreamCursor | StreamToEnd | StreamToFailed

datatype WriterUpdate =
    WriterToOpen token | WriterToFinished Metadata | WriterToAborted | WriterToFailed

datatype ListerUpdate = ListerToOpen token | ListerToEnd | ListerToFailed

datatype ResourceUpdate =
    StreamChange ReadStreamUpdate | WriterChange WriterUpdate | ListerChange ListerUpdate

fun update_kind :: "ResourceUpdate \<Rightarrow> ResourceKind" where
  "update_kind (StreamChange _) = ReadStreamK"
| "update_kind (WriterChange _) = WriterK"
| "update_kind (ListerChange _) = ListerK"

definition wasm_read_stream_next ::
  "'x wasm_api \<Rightarrow> ReadStreamCursor \<Rightarrow> ('x, ResourceUpdate \<times> Completion) fut" where
  "wasm_read_stream_next api cursor =
     bind (case rsc_pending cursor of
             Some buffer \<Rightarrow> ret (Inr (Some buffer))
           | None \<Rightarrow> closure (call_ext from_opendal (wa_stream_next api (rsc_stream cursor)))) (\<lambda>next.
       let cursor = cursor\<lparr>rsc_pending := None\<rparr> in
       case next of
         Inr (Some buffer) \<Rightarrow>
           bind (closure (copy_stream_chunk api buffer (rsc_max_chunk cursor))) (\<lambda>r.
             case r of
               Inr (chunk, remainder) \<Rightarrow>
                 ret (StreamChange (StreamToOpen (cursor\<lparr>rsc_pending := remainder\<rparr>)),
                      CReadStreamNext (Inr (Some chunk)))
             | Inl error \<Rightarrow> ret (StreamChange StreamToFailed, CReadStreamNext (Inl error)))
       | Inr None \<Rightarrow> ret (StreamChange StreamToEnd, CReadStreamNext (Inr None))
       | Inl error \<Rightarrow> ret (StreamChange StreamToFailed, CReadStreamNext (Inl error)))"

section \<open>Futures\<close>

datatype WasmFuture =
    FutWrite token string "u8 list" WriteOptions
  | FutRead token string ReadOptions
  | FutStat token string StatOptions
  | FutCreateDir token string
  | FutDelete token string DeleteOptions
  | FutList token string bool "usize option" "string option"
  | FutCopy token string string
  | FutRename token string string
  | FutOpenReadStream token string ReaderOptions BytesRange usize
  | FutOpenWriter token string WriteOptions
  | FutOpenLister token string bool "usize option" "string option"
  | FutReady Completion

definition map_completion :: "(BridgeError + 'a \<Rightarrow> Completion) \<Rightarrow> ('x, 'a) fut \<Rightarrow> ('x, Completion) fut" where
  "map_completion mk m = bind (closure m) (\<lambda>r. ret (mk r))"

fun run_future :: "'x wasm_api \<Rightarrow> WasmFuture \<Rightarrow> ('x, Completion) fut" where
  "run_future api (FutWrite operator path data options) =
     map_completion CWrite (call_ext from_opendal (wa_write api operator path data options))"
| "run_future api (FutRead operator path options) =
     map_completion CRead (bind (call_ext from_opendal (wa_read api operator path options))
       (try_owned_opendal_buffer api))"
| "run_future api (FutStat operator path options) =
     map_completion CStat (call_ext from_opendal (wa_stat api operator path options))"
| "run_future api (FutCreateDir operator path) =
     map_completion CCreateDir (call_ext from_opendal (wa_create_dir api operator path))"
| "run_future api (FutDelete operator path options) =
     map_completion CDelete (call_ext from_opendal (wa_delete api operator path options))"
| "run_future api (FutList operator path recursive limit start_after) =
     map_completion CList (collect_list api operator path recursive limit start_after)"
| "run_future api (FutCopy operator from to) =
     map_completion CCopy (call_ext from_opendal (wa_copy api operator from to))"
| "run_future api (FutRename operator from to) =
     map_completion CRename (call_ext from_opendal (wa_rename api operator from to))"
| "run_future api (FutOpenReadStream operator path options rng max_chunk) =
     map_completion COpenReadStream
       (bind (call_ext from_opendal (wa_reader api operator path options)) (\<lambda>reader.
        bind (call_ext from_opendal (wa_into_stream api reader rng)) (\<lambda>stream.
          ret \<lparr>rsc_stream = stream, rsc_pending = None, rsc_max_chunk = max_chunk\<rparr>)))"
| "run_future api (FutOpenWriter operator path options) =
     map_completion COpenWriter (call_ext from_opendal (wa_writer api operator path options))"
| "run_future api (FutOpenLister operator path recursive limit start_after) =
     map_completion COpenLister
       (call_ext from_opendal (wa_lister api operator path recursive limit start_after))"
| "run_future api (FutReady completion) = ret completion"

text \<open>The futures of operations on a stream, writer or lister that is already open.\<close>

datatype ResourceFuture =
    FutStreamNext ReadStreamCursor
  | FutWriterWrite token "u8 list"
  | FutWriterFinish token
  | FutWriterAbort token
  | FutListerNext token

fun run_resource_future ::
  "'x wasm_api \<Rightarrow> ResourceFuture \<Rightarrow> ('x, ResourceUpdate \<times> Completion) fut" where
  "run_resource_future api (FutStreamNext cursor) = wasm_read_stream_next api cursor"
| "run_resource_future api (FutWriterWrite writer data) =
     bind (closure (call_ext from_opendal (wa_writer_write api writer data))) (\<lambda>r.
       case r of
         Inr _ \<Rightarrow> ret (WriterChange (WriterToOpen writer), CWriterWrite (Inr ()))
       | Inl error \<Rightarrow> ret (WriterChange WriterToFailed, CWriterWrite (Inl error)))"
| "run_resource_future api (FutWriterFinish writer) =
     bind (closure (call_ext from_opendal (wa_writer_close api writer))) (\<lambda>r.
       case r of
         Inr metadata \<Rightarrow> ret (WriterChange (WriterToFinished metadata), CWriterFinish (Inr metadata))
       | Inl error \<Rightarrow> ret (WriterChange WriterToFailed, CWriterFinish (Inl error)))"
| "run_resource_future api (FutWriterAbort writer) =
     bind (closure (call_ext from_opendal (wa_writer_abort api writer))) (\<lambda>r.
       case r of
         Inr _ \<Rightarrow> ret (WriterChange WriterToAborted, CWriterAbort (Inr ()))
       | Inl error \<Rightarrow> ret (WriterChange WriterToFailed, CWriterAbort (Inl error)))"
| "run_resource_future api (FutListerNext lister) =
     bind (closure (call_ext from_opendal (wa_lister_next api lister))) (\<lambda>r.
       case r of
         Inr (Some entry) \<Rightarrow>
           bind (closure (entry_snapshot api entry)) (\<lambda>s.
             case s of
               Inr snapshot \<Rightarrow>
                 ret (ListerChange (ListerToOpen lister), CListerNext (Inr (Some snapshot)))
             | Inl error \<Rightarrow> ret (ListerChange ListerToFailed, CListerNext (Inl error)))
       | Inr None \<Rightarrow> ret (ListerChange ListerToEnd, CListerNext (Inr None))
       | Inl error \<Rightarrow> ret (ListerChange ListerToFailed, CListerNext (Inl error)))"

section \<open>What a listing collects\<close>

definition snapshot_bytes :: "EntrySnapshot \<Rightarrow> nat" where
  "snapshot_bytes e = length (es_path e) + length (es_name e) + length (es_metadata_snapshot e)"

definition listing_bytes :: "EntrySnapshot list \<Rightarrow> nat" where
  "listing_bytes es = (\<Sum>e\<leftarrow>es. snapshot_bytes e)"

lemma listing_bytes_simps [simp]:
  "listing_bytes [] = 0"
  "listing_bytes (e # es) = snapshot_bytes e + listing_bytes es"
  "listing_bytes (es @ fs) = listing_bytes es + listing_bytes fs"
  by (simp_all add: listing_bytes_def)

text \<open>
  \<open>listing api lister x es x'\<close>: from state \<open>x\<close>, the lister yields entries whose snapshots are \<open>es\<close>,
  then reports its end in \<open>x'\<close>, and every allocation on the way succeeds.
\<close>

inductive listing :: "'x wasm_api \<Rightarrow> token \<Rightarrow> 'x \<Rightarrow> EntrySnapshot list \<Rightarrow> 'x \<Rightarrow> bool"
  for api lister where
  listing_end: "wa_lister_next api lister x = (XOk None, x') \<Longrightarrow> listing api lister x [] x'"
| listing_more:
    "wa_lister_next api lister x = (XOk (Some e), x1) \<Longrightarrow> entry_snapshot api e x1 = (Ok s, x2) \<Longrightarrow>
     wa_alloc api 1 x2 = (True, x3) \<Longrightarrow> listing api lister x3 ss x' \<Longrightarrow>
     listing api lister x (s # ss) x'"

inductive_cases listing_NilE: "listing api lister x [] x'"
inductive_cases listing_ConsE: "listing api lister x (s # ss) x'"

lemma call_ext_Ok: "call_ext f c x = (Ok a, x') \<longleftrightarrow> c x = (XOk a, x')"
  by (auto simp: call_ext_def split: prod.splits ext_result.splits)

lemma push_entry_Ok:
  "push_entry_snapshot api es tb s PRODUCTION_LIST_BOUNDS x = (Ok (es', tb'), x') \<longleftrightarrow>
     length es < MAX_LIST_ENTRIES \<and> tb + snapshot_bytes s \<le> MAX_LIST_OUTPUT_BYTES \<and>
     wa_alloc api 1 x = (True, x') \<and> es' = es @ [s] \<and> tb' = tb + snapshot_bytes s"
  by (auto simp: push_entry_snapshot_def PRODUCTION_LIST_BOUNDS_def snapshot_bytes_def
      checked_add_usize32_def usize32_max_def bind_def ret_def throw_def
      try_reserve_def split: if_splits option.splits prod.splits outcome.splits bool.splits)

lemma collect_step:
  "collect_entries api lister (Suc fuel) es tb x = (Ok res, x') \<longleftrightarrow>
     (wa_lister_next api lister x = (XOk None, x') \<and> res = es) \<or>
     (\<exists>e x1 s x2 x3. wa_lister_next api lister x = (XOk (Some e), x1) \<and>
        entry_snapshot api e x1 = (Ok s, x2) \<and> length es < MAX_LIST_ENTRIES \<and>
        tb + snapshot_bytes s \<le> MAX_LIST_OUTPUT_BYTES \<and> wa_alloc api 1 x2 = (True, x3) \<and>
        collect_entries api lister fuel (es @ [s]) (tb + snapshot_bytes s) x3 = (Ok res, x'))"
proof -
  obtain r x1 where r: "wa_lister_next api lister x = (r, x1)" by (cases "wa_lister_next api lister x")
  consider (none) "r = XOk None" | (some) e where "r = XOk (Some e)" | (fail) "\<forall>v. r \<noteq> XOk v"
    by (metis option.exhaust)
  then show ?thesis
    by cases (auto simp: r bind_eq_Ok call_ext_Ok push_entry_Ok run_basic)
qed

declare collect_entries.simps [simp del]

lemma collect_entries_sound:
  assumes "collect_entries api lister fuel es tb x = (Ok res, x')" and "tb = listing_bytes es"
    and "length es \<le> MAX_LIST_ENTRIES" and "tb \<le> MAX_LIST_OUTPUT_BYTES"
  shows "\<exists>ss. res = es @ ss \<and> listing api lister x ss x' \<and> length res \<le> MAX_LIST_ENTRIES \<and>
    listing_bytes res \<le> MAX_LIST_OUTPUT_BYTES"
  using assms
proof (induction fuel arbitrary: es tb x)
  case 0
  then show ?case by (simp add: collect_entries.simps run_basic)
next
  case (Suc fuel)
  from Suc.prems(1) consider (finish) "wa_lister_next api lister x = (XOk None, x')" "res = es"
    | (more) e x1 s x2 x3 where "wa_lister_next api lister x = (XOk (Some e), x1)"
        "entry_snapshot api e x1 = (Ok s, x2)" "length es < MAX_LIST_ENTRIES"
        "tb + snapshot_bytes s \<le> MAX_LIST_OUTPUT_BYTES" "wa_alloc api 1 x2 = (True, x3)"
        "collect_entries api lister fuel (es @ [s]) (tb + snapshot_bytes s) x3 = (Ok res, x')"
    unfolding collect_step by blast
  then show ?case
  proof cases
    case finish
    then show ?thesis using Suc.prems by (auto intro: listing_end)
  next
    case more
    then obtain ss where "res = (es @ [s]) @ ss" "listing api lister x3 ss x'"
      "length res \<le> MAX_LIST_ENTRIES" "listing_bytes res \<le> MAX_LIST_OUTPUT_BYTES"
      using Suc.IH [of "es @ [s]" "tb + snapshot_bytes s" x3] Suc.prems by auto
    then show ?thesis using more listing_more by (intro exI [of _ "s # ss"]) auto
  qed
qed

lemma collect_entries_complete:
  assumes "listing api lister x ss x'" and "tb = listing_bytes es"
    and "length (es @ ss) \<le> MAX_LIST_ENTRIES" and "listing_bytes (es @ ss) \<le> MAX_LIST_OUTPUT_BYTES"
    and "length ss < fuel"
  shows "collect_entries api lister fuel es tb x = (Ok (es @ ss), x')"
  using assms
proof (induction arbitrary: es tb fuel rule: listing.induct)
  case (listing_end x x')
  then obtain f where "fuel = Suc f" by (cases fuel) auto
  then show ?case using listing_end by (simp add: collect_step)
next
  case (listing_more x e x1 s x2 x3 ss x')
  obtain f where f: "fuel = Suc f" using listing_more.prems by (cases fuel) auto
  have "collect_entries api lister f (es @ [s]) (tb + snapshot_bytes s) x3 = (Ok ((es @ [s]) @ ss), x')"
    using listing_more.prems f by (intro listing_more.IH) auto
  then show ?case using listing_more.hyps listing_more.prems f by (auto simp: collect_step)
qed

text \<open>
  The fuel of \<open>collect_list\<close> is never what stops the loop: once \<open>MAX_LIST_ENTRIES\<close> entries have
  been kept, the next one is refused, so more fuel gives the same result.
\<close>

lemma push_entry_length:
  "push_entry_snapshot api es tb s PRODUCTION_LIST_BOUNDS x = (Ok (es', tb'), x') \<Longrightarrow>
     length es' = Suc (length es) \<and> length es < MAX_LIST_ENTRIES"
  by (simp add: push_entry_Ok)

lemma collect_entries_round:
  "collect_entries api lister (Suc fuel) es tb x =
     (case collect_round api lister es tb x of
        (Ok (Inl (es', tb')), x') \<Rightarrow> collect_entries api lister fuel es' tb' x'
      | (Ok (Inr res), x') \<Rightarrow> (Ok res, x')
      | (Err e, x') \<Rightarrow> (Err e, x')
      | (Panic, x') \<Rightarrow> (Panic, x')
      | (UB, x') \<Rightarrow> (UB, x')
      | (Blocked, x') \<Rightarrow> (Blocked, x'))"
  by (auto simp: collect_entries.simps collect_round_def bind_def run_basic split: prod.splits outcome.splits option.splits)

lemma collect_round_length:
  "collect_round api lister es tb x = (Ok (Inl (es', tb')), x') \<Longrightarrow>
     length es' = Suc (length es) \<and> length es < MAX_LIST_ENTRIES"
  by (auto simp: collect_round_def bind_eq_Ok run_basic push_entry_Ok split: option.splits)

lemma collect_loop_bounded:
  assumes "MAX_LIST_ENTRIES < length es + fuel" and "length es \<le> MAX_LIST_ENTRIES"
  shows "collect_loop api lister es tb x = Some (collect_entries api lister fuel es tb x)"
  using assms
proof (induction fuel arbitrary: es tb x)
  case (Suc fuel)
  have "collect_loop api lister es' tb' x' = Some (collect_entries api lister fuel es' tb' x')"
    if "collect_round api lister es tb x = (Ok (Inl (es', tb')), x')" for es' tb' x'
    using Suc collect_round_length [OF that] by simp
  then show ?case
    by (subst collect_loop.simps) (auto simp: collect_entries_round split: prod.splits outcome.splits sum.splits)
qed simp

text \<open>
  C23. \<open>collect_list\<close> succeeds exactly when the lister opens, yields its entries to the end without
  an error, and they number at most \<open>MAX_LIST_ENTRIES\<close> with at most \<open>MAX_LIST_OUTPUT_BYTES\<close> bytes of
  paths, names and metadata; it then returns their snapshots, all of them and in order.
\<close>

theorem collect_list_exact:
  "collect_list api operator path recursive limit start_after x = (Ok entries, x'') \<longleftrightarrow>
     (\<exists>lister x'. wa_lister api operator path recursive limit start_after x = (XOk lister, x') \<and>
        listing api lister x' entries x'' \<and> length entries \<le> MAX_LIST_ENTRIES \<and>
        listing_bytes entries \<le> MAX_LIST_OUTPUT_BYTES)"
  using collect_entries_sound [where es = "[]" and tb = 0]
    collect_entries_complete [where es = "[]" and tb = 0]
  by (fastforce simp: collect_list_def bind_eq_Ok call_ext_Ok)

text \<open>
  C24. Collecting a listing always ends, even when the backend's lister never reports its end: the loop of
  \<open>collect_list\<close>, started with no entries, returns within \<open>MAX_LIST_ENTRIES + 1\<close> rounds, whatever
  the lister, the allocator and the external state do, so that no larger bound on the rounds, such as
  the one \<open>collect_list\<close> is given, changes its result.
\<close>

theorem collect_list_terminates:
  "(\<exists>r x'. collect_loop api lister [] 0 x = Some (r, x')) \<and>
   collect_loop api lister [] 0 x = Some (collect_entries api lister (MAX_LIST_ENTRIES + 1 + k) [] 0 x)"
  using collect_loop_bounded [of "[]" "MAX_LIST_ENTRIES + 1 + k" api lister 0 x] by (simp add: split_paired_Ex [symmetric])

end
