(* ===== verification/WasmState.thy ===== *)
theory WasmState
  imports WasmFutures
begin

text \<open>
  The state of a browser bridge instance and everything below the exported functions: the sticky
  last error, the arena, tasks and their spawned futures, leases on stateful resources, the scalar
  option encodings and the reservation of a stream, writer or lister for one operation.

  A \<open>browser\<close> is the bridge's thread-local \<open>STATE\<close>, the futures handed to \<open>spawn_local\<close> that have not
  finished, and the external state. A function that returns \<open>Result\<close> is a computation on a \<open>browser\<close>
  whose errors are \<open>Err\<close>; \<open>panic\<close> is a Rust panic.
\<close>

section \<open>State\<close>

record State =
  st_arena :: Arena
  st_last_error :: "BridgeError option"
  st_next_resource_operation :: u64
  st_forced_pending_poll_count :: u32
  st_force_pending_for_canary :: bool
  st_torn_down :: bool

definition State_default :: State where
  "State_default = \<lparr>st_arena = empty_arena, st_last_error = None, st_next_resource_operation = 0,
     st_forced_pending_poll_count = 0, st_force_pending_for_canary = False, st_torn_down = False\<rparr>"

datatype Job = TaskJob u32 WasmFuture | ResourceJob u32 ResourceLease ResourceFuture

record Spawned =
  sp_job :: Job
  sp_force_pending :: bool
  sp_pending_seen :: bool

record 'x browser =
  br_state :: State
  br_spawned :: "Spawned list"
  br_ext :: 'x

type_synonym ('x, 'a) W = "('x browser, BridgeError, 'a) comp"

section \<open>Access to the state\<close>

definition state_of :: "(State \<Rightarrow> 'a) \<Rightarrow> ('x, 'a) W" where
  "state_of f b = (Ok (f (br_state b)), b)"

definition state_update :: "(State \<Rightarrow> State) \<Rightarrow> ('x, unit) W" where
  "state_update f b = (Ok (), b\<lparr>br_state := f (br_state b)\<rparr>)"

definition arena_read :: "(Arena \<Rightarrow> BridgeError + 'a) \<Rightarrow> ('x, 'a) W" where
  "arena_read f b = lift_res (f (st_arena (br_state b))) b"

definition set_arena :: "Arena \<Rightarrow> ('x, unit) W" where
  "set_arena a = state_update (\<lambda>s. s\<lparr>st_arena := a\<rparr>)"

definition arena_call :: "(Arena \<Rightarrow> (BridgeError + 'a) \<times> Arena) \<Rightarrow> ('x, 'a) W" where
  "arena_call f = bind (state_of st_arena) (\<lambda>a.
     case f a of (r, a') \<Rightarrow> bind (set_arena a') (\<lambda>_. lift_res r))"

definition on_ext :: "('x, 'a) fut \<Rightarrow> ('x, 'a) W" where
  "on_ext m b = (case m (br_ext b) of (r, x) \<Rightarrow> (r, b\<lparr>br_ext := x\<rparr>))"

section \<open>Errors\<close>

definition record_error :: "BridgeError \<Rightarrow> ('x, u32) W" where
  "record_error error =
     bind (state_update (\<lambda>s. s\<lparr>st_last_error := Some error\<rparr>)) (\<lambda>_. ret (code error))"

definition status :: "('x, unit) W \<Rightarrow> ('x, u32) W" where
  "status m = bind (closure m) (\<lambda>r. case r of Inr _ \<Rightarrow> ret STATUS_OK_w | Inl error \<Rightarrow> record_error error)"

definition or_record :: "'a \<Rightarrow> ('x, 'a) W \<Rightarrow> ('x, 'a) W" where
  \<comment> \<open>the \<open>match result\<close> with which a scalar export ends: record the error, return the sentinel\<close>
  "or_record sentinel m = bind (closure m) (\<lambda>r.
     case r of Inr a \<Rightarrow> ret a | Inl error \<Rightarrow> bind (record_error error) (\<lambda>_. ret sentinel))"

definition handle_or_record_error :: "('x, u32) W \<Rightarrow> ('x, u32) W" where
  "handle_or_record_error m = or_record 0 m"

section \<open>Resources\<close>

definition insert_resource :: "Resource \<Rightarrow> ('x, u32) W" where
  "insert_resource r =
     bind (state_of st_torn_down) (\<lambda>torn_down.
       if torn_down then throw TornDown else arena_call (arena_insert r))"

definition release_resource :: "u32 \<Rightarrow> ResourceKind \<Rightarrow> ('x, u32) W" where
  "release_resource handle expected = status (arena_call (arena_release handle expected))"

definition insert_buffer :: "u8 list \<Rightarrow> ('x, u32) W" where
  "insert_buffer buffer =
     (if length buffer > MAX_BUFFER_LENGTH then throw BufferTooLarge
      else insert_resource (ResBuffer buffer))"

definition allocate_resource_operation :: "('x, u64) W" where
  "allocate_resource_operation =
     bind (state_of st_next_resource_operation) (\<lambda>n.
       case checked_add_u64 n 1 of
         None \<Rightarrow> throw LengthOverflow
       | Some operation \<Rightarrow>
           bind (state_update (\<lambda>s. s\<lparr>st_next_resource_operation := operation\<rparr>)) (\<lambda>_. ret operation))"

section \<open>Tasks\<close>

definition spawn_local :: "Job \<Rightarrow> ('x, unit) W" where
  \<comment> \<open>\<open>spawn_local\<close> runs the future later; \<open>force_pending\<close> is read when the task starts\<close>
  "spawn_local job =
     bind (state_of st_force_pending_for_canary) (\<lambda>force_pending b.
       (Ok (), b\<lparr>br_spawned := br_spawned b @
          [\<lparr>sp_job = job, sp_force_pending = force_pending, sp_pending_seen = False\<rparr>]\<rparr>))"

definition start_task :: "WasmFuture \<Rightarrow> ('x, u32) W" where
  "start_task future =
     bind (insert_resource (ResTask (PendingTask None))) (\<lambda>handle.
     bind (spawn_local (TaskJob handle future)) (\<lambda>_. ret handle))"

definition publish_task :: "u32 \<Rightarrow> Completion \<Rightarrow> Arena \<Rightarrow> Arena" where
  "publish_task handle completion a =
     (case arena_task_mut a handle of
        Inr (task, put) \<Rightarrow> if task = PendingTask None then put (ReadyTask completion None) else a
      | Inl _ \<Rightarrow> a)"

definition spawn_resource_task :: "u32 \<Rightarrow> ResourceLease \<Rightarrow> ResourceFuture \<Rightarrow> ('x, unit) W" where
  "spawn_resource_task handle lease future = spawn_local (ResourceJob handle lease future)"

fun update_stream :: "u64 \<Rightarrow> ReadStreamUpdate \<Rightarrow> ReadStreamState" where
  "update_stream operation (StreamToOpen cursor) = RsOpen cursor operation"
| "update_stream operation StreamToEnd = RsEnd"
| "update_stream operation StreamToFailed = RsFailed"

fun update_writer :: "u64 \<Rightarrow> WriterUpdate \<Rightarrow> WriterState" where
  "update_writer operation (WriterToOpen writer) = WrOpen writer operation"
| "update_writer operation (WriterToFinished metadata) = WrFinished metadata"
| "update_writer operation WriterToAborted = WrAborted"
| "update_writer operation WriterToFailed = WrFailed"

fun update_lister :: "u64 \<Rightarrow> ListerUpdate \<Rightarrow> ListerState" where
  "update_lister operation (ListerToOpen lister) = LsOpen lister operation"
| "update_lister operation ListerToEnd = LsEnd"
| "update_lister operation ListerToFailed = LsFailed"

fun apply_update :: "ResourceLease \<Rightarrow> ResourceUpdate \<Rightarrow> Arena \<Rightarrow> Arena" where
  \<comment> \<open>the \<open>match update\<close> of \<open>publish_resource_task\<close>\<close>
  "apply_update lease (StreamChange update) a =
     (case arena_read_stream_mut a (ls_handle lease) of
        Inr (current, put) \<Rightarrow>
          if current = RsBusy (ls_operation lease) then put (update_stream (ls_operation lease) update) else a
      | Inl _ \<Rightarrow> a)"
| "apply_update lease (WriterChange update) a =
     (case arena_writer_mut a (ls_handle lease) of
        Inr (current, put) \<Rightarrow>
          if current = WrBusy (ls_operation lease) then put (update_writer (ls_operation lease) update) else a
      | Inl _ \<Rightarrow> a)"
| "apply_update lease (ListerChange update) a =
     (case arena_lister_mut a (ls_handle lease) of
        Inr (current, put) \<Rightarrow>
          if current = LsBusy (ls_operation lease) then put (update_lister (ls_operation lease) update) else a
      | Inl _ \<Rightarrow> a)"

definition publish_resource_task ::
  "u32 \<Rightarrow> ResourceLease \<Rightarrow> ResourceUpdate \<Rightarrow> Completion \<Rightarrow> Arena \<Rightarrow> Arena" where
  "publish_resource_task task_handle lease update completion a =
     (if arena_task a task_handle \<noteq> Inr (PendingTask (Some lease)) \<or> update_kind update \<noteq> ls_kind lease
      then a
      else
        let a = apply_update lease update a in
        case arena_task_mut a task_handle of
          Inr (task, put) \<Rightarrow>
            if task = PendingTask (Some lease) then put (ReadyTask completion (Some lease)) else a
        | Inl _ \<Rightarrow> a)"

definition poll_spawned :: "'x wasm_api \<Rightarrow> bool \<Rightarrow> nat \<Rightarrow> ('x, unit) W" where
  \<comment> \<open>one wake-up of the \<open>i\<close>-th spawned future; \<open>ForcePending::poll\<close> first asks its timer\<close>
  "poll_spawned api delay_is_pending i b =
     (if \<not> i < length (br_spawned b) then (Ok (), b)
      else
        let sp = br_spawned b ! i;
            finished = b\<lparr>br_spawned := take i (br_spawned b) @ drop (Suc i) (br_spawned b)\<rparr> in
        if sp_force_pending sp \<and> delay_is_pending then
          if sp_pending_seen sp then (Ok (), b)
          else
            bind (state_update (\<lambda>s. s\<lparr>st_forced_pending_poll_count :=
                    (if st_forced_pending_poll_count s = - 1 then - 1
                     else st_forced_pending_poll_count s + 1)\<rparr>))
              (\<lambda>_. ret ()) (b\<lparr>br_spawned := (br_spawned b)[i := sp\<lparr>sp_pending_seen := True\<rparr>]\<rparr>)
        else
          case sp_job sp of
            TaskJob handle future \<Rightarrow>
              bind (on_ext (run_future api future)) (\<lambda>completion.
                state_update (\<lambda>s. s\<lparr>st_arena := publish_task handle completion (st_arena s)\<rparr>)) finished
          | ResourceJob handle lease future \<Rightarrow>
              bind (on_ext (run_resource_future api future)) (\<lambda>(update, completion).
                state_update (\<lambda>s. s\<lparr>st_arena :=
                  publish_resource_task handle lease update completion (st_arena s)\<rparr>)) finished)"

definition terminalize_lease :: "ResourceLease \<Rightarrow> Arena \<Rightarrow> Arena" where
  "terminalize_lease lease a =
     (case ls_kind lease of
        ReadStreamK \<Rightarrow>
          (case arena_read_stream_mut a (ls_handle lease) of
             Inr (RsOpen _ operation, put) \<Rightarrow> if operation = ls_operation lease then put RsFailed else a
           | Inr (RsBusy operation, put) \<Rightarrow> if operation = ls_operation lease then put RsFailed else a
           | _ \<Rightarrow> a)
      | WriterK \<Rightarrow>
          (case arena_writer_mut a (ls_handle lease) of
             Inr (WrOpen _ operation, put) \<Rightarrow> if operation = ls_operation lease then put WrFailed else a
           | Inr (WrBusy operation, put) \<Rightarrow> if operation = ls_operation lease then put WrFailed else a
           | _ \<Rightarrow> a)
      | ListerK \<Rightarrow>
          (case arena_lister_mut a (ls_handle lease) of
             Inr (LsOpen _ operation, put) \<Rightarrow> if operation = ls_operation lease then put LsFailed else a
           | Inr (LsBusy operation, put) \<Rightarrow> if operation = ls_operation lease then put LsFailed else a
           | _ \<Rightarrow> a)
      | _ \<Rightarrow> a)"

fun task_lease :: "Task \<Rightarrow> ResourceLease option" where
  "task_lease (PendingTask lease) = lease"
| "task_lease (ReadyTask _ lease) = lease"
| "task_lease CancelledTask = None"
| "task_lease ConsumedTask = None"

end
