(* ===== verification/WasmInputs.thy ===== *)
theory WasmInputs
  imports WasmState
begin

text \<open>
  What the exported functions do with their scalar arguments: owned copies of paths and texts, the
  option encodings, the \<open>start_*_task\<close> functions, reservations of stateful resources, and operator
  builders with their configuration.
\<close>

section \<open>Texts and flags\<close>

definition utf8_of :: "u8 list \<Rightarrow> BridgeError + string" where
  "utf8_of bytes = (case from_utf8 bytes of Inl _ \<Rightarrow> Inl InvalidUtf8 | Inr s \<Rightarrow> Inr s)"

definition owned_utf8_buffer :: "'x wasm_api \<Rightarrow> u32 \<Rightarrow> ('x, string) W" where
  "owned_utf8_buffer api handle =
     bind (arena_read (\<lambda>a. res_bind (arena_buffer a handle) utf8_of)) (\<lambda>s. on_ext (try_owned_string api s))"

definition path_and_operator :: "'x wasm_api \<Rightarrow> u32 \<Rightarrow> u32 \<Rightarrow> ('x, token \<times> string) W" where
  "path_and_operator api operator_handle path_handle =
     bind (arena_read (\<lambda>a. arena_operator a operator_handle)) (\<lambda>operator.
     bind (owned_utf8_buffer api path_handle) (\<lambda>path. ret (operator, path)))"

definition optional_owned_utf8_buffer :: "'x wasm_api \<Rightarrow> u32 \<Rightarrow> ('x, string option) W" where
  "optional_owned_utf8_buffer api handle =
     (if handle = 0 then ret None else bind (owned_utf8_buffer api handle) (\<lambda>s. ret (Some s)))"

definition scalar_bool :: "u32 \<Rightarrow> string \<Rightarrow> BridgeError + bool" where
  "scalar_bool v name =
     (if v = 0 then Inr False else if v = 1 then Inr True
      else Inl (InvalidArgument (name @ '' must be 0 or 1, found '' @ dec (unat v))))"

definition optional_list_limit :: "u32 \<Rightarrow> u64 \<Rightarrow> BridgeError + usize option" where
  "optional_list_limit has_limit limit =
     res_bind (scalar_bool has_limit ''has_limit'') (\<lambda>has.
       if \<not> has then Inr None
       else if unat limit \<le> usize32_max then Inr (Some (unat limit)) else Inl LengthOverflow)"

definition byte_range :: "u32 \<Rightarrow> u64 \<Rightarrow> u64 \<Rightarrow> BridgeError + BytesRange" where
  "byte_range k offset len =
     (if k = RANGE_FULL_w \<and> offset = 0 \<and> len = 0 then Inr BytesRange_default
      else if k = RANGE_FROM_w \<and> len = 0 then Inr (Range offset None)
      else if k = RANGE_OFFSET_LENGTH_w \<and> checked_add_u64 offset len \<noteq> None then Inr (Range offset (Some len))
      else if k = RANGE_SUFFIX_w \<and> offset = 0 then Inr (Suffix len)
      else Inl (InvalidArgument ''invalid byte-range scalar encoding''))"

section \<open>Options\<close>

definition read_options_from_scalars ::
  "'x wasm_api \<Rightarrow> u32 \<Rightarrow> u64 \<Rightarrow> u64 \<Rightarrow> u32 \<Rightarrow> u32 \<Rightarrow> u32 \<Rightarrow> ('x, ReadOptions) W" where
  "read_options_from_scalars api range_kind range_offset range_length version_handle if_match_handle
     if_none_match_handle =
     bind (lift_res (byte_range range_kind range_offset range_length)) (\<lambda>r.
     bind (optional_owned_utf8_buffer api version_handle) (\<lambda>version.
     bind (optional_owned_utf8_buffer api if_match_handle) (\<lambda>if_match.
     bind (optional_owned_utf8_buffer api if_none_match_handle) (\<lambda>if_none_match.
       ret (ReadOptions_default\<lparr>rop_range := r, rop_version := version, rop_if_match := if_match,
              rop_if_none_match := if_none_match\<rparr>)))))"

definition stat_options_from_scalars :: "'x wasm_api \<Rightarrow> u32 \<Rightarrow> u32 \<Rightarrow> u32 \<Rightarrow> ('x, StatOptions) W" where
  "stat_options_from_scalars api version_handle if_match_handle if_none_match_handle =
     bind (optional_owned_utf8_buffer api version_handle) (\<lambda>version.
     bind (optional_owned_utf8_buffer api if_match_handle) (\<lambda>if_match.
     bind (optional_owned_utf8_buffer api if_none_match_handle) (\<lambda>if_none_match.
       ret (StatOptions_default\<lparr>sop_version := version, sop_if_match := if_match,
              sop_if_none_match := if_none_match\<rparr>))))"

definition write_options_from_scalars ::
  "'x wasm_api \<Rightarrow> u32 \<Rightarrow> u32 \<Rightarrow> u32 \<Rightarrow> u32 \<Rightarrow> u32 \<Rightarrow> u32 \<Rightarrow> u32 \<Rightarrow> ('x, WriteOptions) W" where
  "write_options_from_scalars api append_flag content_type_handle content_disposition_handle
     content_encoding_handle cache_control_handle if_match_handle if_none_match_handle =
     bind (lift_res (scalar_bool append_flag ''append'')) (\<lambda>app.
     bind (optional_owned_utf8_buffer api content_type_handle) (\<lambda>content_type.
     bind (optional_owned_utf8_buffer api content_disposition_handle) (\<lambda>content_disposition.
     bind (optional_owned_utf8_buffer api content_encoding_handle) (\<lambda>content_encoding.
     bind (optional_owned_utf8_buffer api cache_control_handle) (\<lambda>cache_control.
     bind (optional_owned_utf8_buffer api if_match_handle) (\<lambda>if_match.
     bind (optional_owned_utf8_buffer api if_none_match_handle) (\<lambda>if_none_match.
       ret (WriteOptions_default\<lparr>wop_append := app, wop_content_type := content_type,
              wop_content_disposition := content_disposition, wop_content_encoding := content_encoding,
              wop_cache_control := cache_control, wop_if_match := if_match,
              wop_if_none_match := if_none_match\<rparr>))))))))"

definition read_stream_options_from_scalars ::
  "'x wasm_api \<Rightarrow> u32 \<Rightarrow> u32 \<Rightarrow> u64 \<Rightarrow> u64 \<Rightarrow> u32 \<Rightarrow> u32 \<Rightarrow> u32 \<Rightarrow>
   ('x, ReaderOptions \<times> BytesRange \<times> usize) W" where
  "read_stream_options_from_scalars api chunk_size range_kind range_offset range_length version_handle
     if_match_handle if_none_match_handle =
     (if \<not> (1 \<le> unat chunk_size \<and> unat chunk_size \<le> MAX_TRANSFER_CHUNK)
      then throw (InvalidArgument (''read stream chunk size must be 1..='' @ dec MAX_TRANSFER_CHUNK @
             '', found '' @ dec (unat chunk_size)))
      else
        bind (optional_owned_utf8_buffer api version_handle) (\<lambda>version.
        bind (optional_owned_utf8_buffer api if_match_handle) (\<lambda>if_match.
        bind (optional_owned_utf8_buffer api if_none_match_handle) (\<lambda>if_none_match.
        bind (lift_res (byte_range range_kind range_offset range_length)) (\<lambda>r.
          ret (ReaderOptions_default\<lparr>rdo_version := version, rdo_if_match := if_match,
                 rdo_if_none_match := if_none_match, rdo_chunk := Some (unat chunk_size)\<rparr>,
               r, unat chunk_size))))))"

definition wasm_ensure_suffix_is_native :: "'x wasm_api \<Rightarrow> token \<Rightarrow> BytesRange \<Rightarrow> BridgeError + unit" where
  "wasm_ensure_suffix_is_native api operator r =
     (if is_suffix r \<and> \<not> wa_native_suffix api operator
      then Inl (from_opendal (wa_new_error api KUnsupported
             ''suffix reads require native backend range support''))
      else Inr ())"

section \<open>Starting tasks\<close>

definition start_read_task :: "'x wasm_api \<Rightarrow> u32 \<Rightarrow> u32 \<Rightarrow> ReadOptions \<Rightarrow> ('x, u32) W" where
  "start_read_task api operator_handle path_handle read_options =
     bind (path_and_operator api operator_handle path_handle) (\<lambda>(operator, path).
     bind (lift_res (wasm_ensure_suffix_is_native api operator (rop_range read_options))) (\<lambda>_.
       start_task (FutRead operator path read_options)))"

definition start_stat_task :: "'x wasm_api \<Rightarrow> u32 \<Rightarrow> u32 \<Rightarrow> StatOptions \<Rightarrow> ('x, u32) W" where
  "start_stat_task api operator_handle path_handle stat_options =
     bind (path_and_operator api operator_handle path_handle) (\<lambda>(operator, path).
       start_task (FutStat operator path stat_options))"

definition write_inputs :: "'x wasm_api \<Rightarrow> u32 \<Rightarrow> u32 \<Rightarrow> u32 \<Rightarrow> ('x, token \<times> string \<times> u8 list) W" where
  \<comment> \<open>the inputs that \<open>start_write_task\<close> and the polled write copy first\<close>
  "write_inputs api operator_handle path_handle data_handle =
     bind (path_and_operator api operator_handle path_handle) (\<lambda>(operator, path).
     bind (arena_read (\<lambda>a. arena_buffer a data_handle)) (\<lambda>bytes.
     bind (on_ext (try_owned_bytes api bytes)) (\<lambda>data. ret (operator, path, data))))"

definition start_write_task :: "'x wasm_api \<Rightarrow> u32 \<Rightarrow> u32 \<Rightarrow> u32 \<Rightarrow> WriteOptions \<Rightarrow> ('x, u32) W" where
  "start_write_task api operator_handle path_handle data_handle write_options =
     bind (write_inputs api operator_handle path_handle data_handle) (\<lambda>(operator, path, data).
       start_task (FutWrite operator path data write_options))"

definition two_paths :: "'x wasm_api \<Rightarrow> u32 \<Rightarrow> u32 \<Rightarrow> u32 \<Rightarrow> ('x, token \<times> string \<times> string) W" where
  "two_paths api operator_handle from_handle to_handle =
     bind (path_and_operator api operator_handle from_handle) (\<lambda>(operator, from).
     bind (owned_utf8_buffer api to_handle) (\<lambda>to. ret (operator, from, to)))"

definition start_copy_task :: "'x wasm_api \<Rightarrow> u32 \<Rightarrow> u32 \<Rightarrow> u32 \<Rightarrow> ('x, u32) W" where
  "start_copy_task api operator_handle from_handle to_handle =
     bind (two_paths api operator_handle from_handle to_handle) (\<lambda>(operator, from, to).
       start_task (FutCopy operator from to))"

definition start_rename_task :: "'x wasm_api \<Rightarrow> u32 \<Rightarrow> u32 \<Rightarrow> u32 \<Rightarrow> ('x, u32) W" where
  "start_rename_task api operator_handle from_handle to_handle =
     bind (two_paths api operator_handle from_handle to_handle) (\<lambda>(operator, from, to).
       start_task (FutRename operator from to))"

section \<open>Reserving a stateful resource\<close>

text \<open>
  The three \<open>reserve_*\<close> functions have one body; \<open>seat\<close> says what each finds in the resource's
  state. \<open>mem::replace\<close> followed by writing the old state back leaves the arena as it was.
\<close>

datatype 'a seat = SeatOpen 'a u64 | SeatBusy | SeatClosed

definition reserve ::
  "(Arena \<Rightarrow> u32 \<Rightarrow> BridgeError + ('s \<times> ('s \<Rightarrow> Arena))) \<Rightarrow> ('s \<Rightarrow> 'a seat) \<Rightarrow> (u64 \<Rightarrow> 's) \<Rightarrow>
   ('a \<Rightarrow> u64 \<Rightarrow> 's) \<Rightarrow> ResourceKind \<Rightarrow> u32 \<Rightarrow> ('x, u32 \<times> ResourceLease \<times> 'a) W" where
  "reserve resource_at seat_of busy reopen k handle =
     bind (state_of id) (\<lambda>state.
       if st_torn_down state then throw TornDown
       else if \<not> can_insert (st_arena state) then throw HandleLimit
       else
         bind allocate_resource_operation (\<lambda>operation.
         bind (arena_read (\<lambda>a. resource_at a handle)) (\<lambda>(current, put).
           case seat_of current of
             SeatBusy \<Rightarrow> throw (ResourceBusy handle)
           | SeatClosed \<Rightarrow> throw (ResourceClosed handle)
           | SeatOpen inner previous_operation \<Rightarrow>
               let lease = \<lparr>ls_handle = handle, ls_kind = k, ls_operation = operation\<rparr> in
               bind (set_arena (put (busy operation))) (\<lambda>_.
               bind (closure (arena_call (arena_insert (ResTask (PendingTask (Some lease)))))) (\<lambda>r.
                 case r of
                   Inr task \<Rightarrow> ret (task, lease, inner)
                 | Inl error \<Rightarrow>
                     bind (arena_read (\<lambda>a. resource_at a handle)) (\<lambda>(_, put).
                     bind (set_arena (put (reopen inner previous_operation))) (\<lambda>_. throw error)))))))"

fun stream_seat :: "ReadStreamState \<Rightarrow> ReadStreamCursor seat" where
  "stream_seat (RsOpen cursor previous_operation) = SeatOpen cursor previous_operation"
| "stream_seat (RsBusy _) = SeatBusy"
| "stream_seat RsEnd = SeatClosed"
| "stream_seat RsFailed = SeatClosed"

fun writer_seat :: "WriterState \<Rightarrow> token seat" where
  "writer_seat (WrOpen writer previous_operation) = SeatOpen writer previous_operation"
| "writer_seat (WrBusy _) = SeatBusy"
| "writer_seat (WrFinished _) = SeatClosed"
| "writer_seat WrAborted = SeatClosed"
| "writer_seat WrFailed = SeatClosed"

fun lister_seat :: "ListerState \<Rightarrow> token seat" where
  "lister_seat (LsOpen lister previous_operation) = SeatOpen lister previous_operation"
| "lister_seat (LsBusy _) = SeatBusy"
| "lister_seat LsEnd = SeatClosed"
| "lister_seat LsFailed = SeatClosed"

definition reserve_read_stream_next :: "u32 \<Rightarrow> ('x, u32 \<times> ResourceLease \<times> ReadStreamCursor) W" where
  "reserve_read_stream_next = reserve arena_read_stream_mut stream_seat RsBusy RsOpen ReadStreamK"

definition reserve_writer_call :: "u32 \<Rightarrow> ('x, u32 \<times> ResourceLease \<times> token) W" where
  "reserve_writer_call = reserve arena_writer_mut writer_seat WrBusy WrOpen WriterK"

definition reserve_lister_next :: "u32 \<Rightarrow> ('x, u32 \<times> ResourceLease \<times> token) W" where
  "reserve_lister_next = reserve arena_lister_mut lister_seat LsBusy LsOpen ListerK"

section \<open>Buffers\<close>

definition owned_writer_chunk :: "'x wasm_api \<Rightarrow> u32 \<Rightarrow> ('x, u8 list) W" where
  "owned_writer_chunk api handle =
     bind (arena_read (\<lambda>a. arena_buffer a handle)) (\<lambda>data.
       if length data > MAX_TRANSFER_CHUNK then throw BufferTooLarge
       else on_ext (try_owned_bytes api data))"

definition checked_buffer_window :: "usize \<Rightarrow> u32 \<Rightarrow> u32 \<Rightarrow> BridgeError + (usize \<times> usize)" where
  "checked_buffer_window buffer_length offset len =
     (if len = 0 \<or> unat len > MAX_TRANSFER_CHUNK
      then Inl (InvalidArgument (''transfer length must be 1..='' @ dec MAX_TRANSFER_CHUNK @
             '', found '' @ dec (unat len)))
      else
        case checked_add_usize32 (unat offset) (unat len) of
          None \<Rightarrow> Inl (IndexOutOfBounds (- 1) buffer_length)
        | Some stop \<Rightarrow>
            if stop > buffer_length then Inl (IndexOutOfBounds offset buffer_length)
            else Inr (unat offset, stop))"

section \<open>Operator builders\<close>

fun clone_config :: "'x wasm_api \<Rightarrow> (string \<times> string) list \<Rightarrow> ('x, (string \<times> string) list) fut" where
  "clone_config api [] = ret []"
| "clone_config api ((key, v) # rest) =
     bind (try_owned_string api key) (\<lambda>key.
     bind (try_owned_string api v) (\<lambda>v.
     bind (clone_config api rest) (\<lambda>rest. ret ((key, v) # rest))))"

definition try_clone_operator_builder :: "'x wasm_api \<Rightarrow> OperatorBuilder \<Rightarrow> ('x, OperatorBuilder) fut" where
  "try_clone_operator_builder api builder =
     bind (try_reserve (wa_alloc api) (length (ob_config builder))) (\<lambda>_.
     bind (clone_config api (ob_config builder)) (\<lambda>config.
     bind (try_owned_string api (ob_scheme builder)) (\<lambda>scheme.
       ret \<lparr>ob_scheme = scheme, ob_config = config, ob_config_bytes = ob_config_bytes builder\<rparr>)))"

definition eq_ignore_ascii_case :: "string \<Rightarrow> string \<Rightarrow> bool" where
  "eq_ignore_ascii_case s t \<longleftrightarrow> to_ascii_lowercase s = to_ascii_lowercase t"

definition push_operator_config ::
  "'x wasm_api \<Rightarrow> OperatorBuilder \<Rightarrow> string \<Rightarrow> string \<Rightarrow> ('x, OperatorBuilder) fut" where
  "push_operator_config api builder key v =
     (if list_ex (\<lambda>(existing, _). eq_ignore_ascii_case existing key) (ob_config builder)
      then throw (InvalidArgument ''duplicate config key'')
      else if length (ob_config builder) \<ge> MAX_CONFIG_ENTRIES
      then throw (InvalidArgument (''config exceeds the '' @ dec MAX_CONFIG_ENTRIES @ ''-entry limit''))
      else
        case Option.bind (checked_add_usize32 (ob_config_bytes builder) (length key)) (\<lambda>len.
               checked_add_usize32 len (length v)) of
          None \<Rightarrow>
            throw (InvalidArgument (''config exceeds the '' @ dec MAX_CONFIG_BYTES @ ''-byte limit''))
        | Some config_bytes \<Rightarrow>
            if config_bytes > MAX_CONFIG_BYTES
            then throw (InvalidArgument (''config exceeds the '' @ dec MAX_CONFIG_BYTES @ ''-byte limit''))
            else
              bind (try_reserve (wa_alloc api) 1) (\<lambda>_.
                ret (builder\<lparr>ob_config := ob_config builder @ [(key, v)], ob_config_bytes := config_bytes\<rparr>)))"

definition build_operator :: "'x wasm_api \<Rightarrow> OperatorBuilder \<Rightarrow> ('x, token) fut" where
  "build_operator api builder =
     call_ext from_construction_error (wa_via_iter api (ob_scheme builder) (ob_config builder))"

definition capability_word :: "'x wasm_api \<Rightarrow> token \<Rightarrow> u32 \<Rightarrow> BridgeError + u64" where
  "capability_word api operator word =
     (let capability = oi_capability (wa_info api operator) in
      if word = 0 then
        Inr (flag_word
          [(CAP_STAT_w, cap_stat capability), (CAP_READ_w, cap_read capability),
           (CAP_WRITE_w, cap_write capability), (CAP_CREATE_DIR_w, cap_create_dir capability),
           (CAP_DELETE_w, cap_delete capability), (CAP_LIST_w, cap_list capability),
           (CAP_COPY_w, cap_copy capability), (CAP_RENAME_w, cap_rename capability),
           (CAP_READ_SUFFIX_w, wa_native_suffix api operator),
           (CAP_WRITE_APPEND_w, cap_write_can_append capability),
           (CAP_LIST_LIMIT_w, cap_list_with_limit capability),
           (CAP_LIST_START_AFTER_w, cap_list_with_start_after capability),
           (CAP_LIST_RECURSIVE_w, cap_list_with_recursive capability),
           (CAP_PRESIGN_STAT_w, cap_presign_stat capability),
           (CAP_PRESIGN_READ_w, cap_presign_read capability),
           (CAP_PRESIGN_WRITE_w, cap_presign_write capability)])
      else if word = 1 then
        (case cap_delete_max_size capability of
           None \<Rightarrow> Inr 0
         | Some v \<Rightarrow> (case u64_try_from v of None \<Rightarrow> Inl LengthOverflow | Some w \<Rightarrow> Inr w))
      else if word = 2 \<or> word = 3 then Inr 0
      else Inl (IndexOutOfBounds word 4))"

end
