(* ===== verification/WasmExports.thy ===== *)
theory WasmExports
  imports WasmInputs "HOL-Library.List_Lexorder"
begin

text \<open>
  The exported scalar functions \<open>opendal_mbt_wasm_*\<close> for buffers, operators, streams, writers,
  listers and tasks, in the order of the source. A \<open>u32\<close> or \<open>u64\<close> result is a word, an \<open>i32\<close> result an
  integer. A function ends by recording its error and returning its sentinel, so no export ends in
  \<open>Err\<close>.
\<close>

section \<open>The bridge instance\<close>

definition opendal_mbt_wasm_abi_version :: "('x, u32) W" where
  "opendal_mbt_wasm_abi_version = ret ABI_VERSION"

definition opendal_mbt_wasm_feature_flags :: "('x, u32) W" where
  "opendal_mbt_wasm_feature_flags =
     ret (FEATURE_MEMORY_SERVICE OR FEATURE_POLL_ONCE_CANARY OR FEATURE_GENERATION_HANDLES OR
          FEATURE_BINARY_BUFFERS OR FEATURE_TASK_ABI OR FEATURE_GENERIC_OPERATOR OR
          FEATURE_CORE_MUTATIONS OR FEATURE_BOUNDED_LIST OR FEATURE_BULK_TRANSFER OR
          FEATURE_STRUCTURED_ERRORS OR FEATURE_METADATA_OPTIONS OR FEATURE_COPY_RENAME OR
          FEATURE_STATEFUL_READER OR FEATURE_STATEFUL_WRITER OR FEATURE_STATEFUL_LISTER OR
          FEATURE_EXPLICIT_EOF)"

definition opendal_mbt_wasm_canary_forced_pending_poll_count :: "('x, u32) W" where
  "opendal_mbt_wasm_canary_forced_pending_poll_count = state_of st_forced_pending_poll_count"

definition opendal_mbt_wasm_canary_set_force_pending :: "u32 \<Rightarrow> ('x, u32) W" where
  "opendal_mbt_wasm_canary_set_force_pending enabled =
     status (bind (lift_res (scalar_bool enabled ''force_pending'')) (\<lambda>enabled.
       state_update (\<lambda>s. s\<lparr>st_force_pending_for_canary := enabled\<rparr>)))"

definition opendal_mbt_wasm_live_handle_count :: "('x, u32) W" where
  "opendal_mbt_wasm_live_handle_count = state_of (\<lambda>s. ar_live (st_arena s))"

definition opendal_mbt_wasm_teardown :: "('x, u32) W" where
  "opendal_mbt_wasm_teardown =
     bind (state_update (\<lambda>s. s\<lparr>st_torn_down := True, st_arena := arena_clear (st_arena s),
             st_last_error := None\<rparr>)) (\<lambda>_. ret STATUS_OK_w)"

section \<open>Buffers\<close>

definition opendal_mbt_wasm_buffer_new :: "('x, u32) W" where
  "opendal_mbt_wasm_buffer_new = handle_or_record_error (insert_buffer [])"

definition opendal_mbt_wasm_buffer_new_sized :: "'x wasm_api \<Rightarrow> u32 \<Rightarrow> ('x, u32) W" where
  "opendal_mbt_wasm_buffer_new_sized api len =
     handle_or_record_error (bind (on_ext (zeroed_buffer api len)) insert_buffer)"

definition opendal_mbt_wasm_buffer_push :: "u32 \<Rightarrow> u32 \<Rightarrow> ('x, u32) W" where
  "opendal_mbt_wasm_buffer_push handle v =
     status (bind (arena_read (\<lambda>a. arena_buffer_mut a handle)) (\<lambda>(buffer, put).
       if length buffer = MAX_BUFFER_LENGTH then throw BufferTooLarge
       else if unat v > 255 then throw (InvalidByte v)
       else set_arena (put (buffer @ [ucast v]))))"

definition i32_of_len :: "usize \<Rightarrow> BridgeError + int" where
  "i32_of_len n = (if n \<le> 2147483647 then Inr (int n) else Inl LengthOverflow)"

definition opendal_mbt_wasm_buffer_len :: "u32 \<Rightarrow> ('x, int) W" where
  "opendal_mbt_wasm_buffer_len handle =
     or_record SCALAR_ERROR (arena_read (\<lambda>a. res_bind (arena_buffer a handle) (\<lambda>b. i32_of_len (length b))))"

definition opendal_mbt_wasm_buffer_get :: "u32 \<Rightarrow> u32 \<Rightarrow> ('x, int) W" where
  "opendal_mbt_wasm_buffer_get handle index =
     or_record SCALAR_ERROR (arena_read (\<lambda>a. res_bind (arena_buffer a handle) (\<lambda>buffer.
       if unat index < length buffer then Inr (uint (buffer ! unat index))
       else Inl (IndexOutOfBounds index (length buffer)))))"

definition opendal_mbt_wasm_buffer_data_ptr :: "'x wasm_api \<Rightarrow> u32 \<Rightarrow> u32 \<Rightarrow> u32 \<Rightarrow> ('x, u32) W" where
  \<comment> \<open>\<open>wa_buffer_address\<close> is where the allocator put the buffer's bytes\<close>
  "opendal_mbt_wasm_buffer_data_ptr api handle offset len =
     handle_or_record_error (arena_read (\<lambda>a. res_bind (arena_buffer_mut a handle) (\<lambda>(buffer, _).
       res_bind (checked_buffer_window (length buffer) offset len) (\<lambda>(start, _).
         case u32_try_from_usize (wa_buffer_address api handle + start) of
           None \<Rightarrow> Inl LengthOverflow
         | Some p \<Rightarrow> Inr p))))"

definition opendal_mbt_wasm_buffer_release :: "u32 \<Rightarrow> ('x, u32) W" where
  "opendal_mbt_wasm_buffer_release handle = release_resource handle BufferK"

definition opendal_mbt_wasm_last_error_code :: "('x, u32) W" where
  "opendal_mbt_wasm_last_error_code =
     state_of (\<lambda>s. case st_last_error s of None \<Rightarrow> STATUS_OK_w | Some e \<Rightarrow> code e)"

definition opendal_mbt_wasm_last_error_clear :: "('x, u32) W" where
  "opendal_mbt_wasm_last_error_clear =
     bind (state_update (\<lambda>s. s\<lparr>st_last_error := None\<rparr>)) (\<lambda>_. ret STATUS_OK_w)"

definition opendal_mbt_wasm_canary_stale_handle_rejected :: "('x, u32) W" where
  "opendal_mbt_wasm_canary_stale_handle_rejected =
     bind opendal_mbt_wasm_last_error_clear (\<lambda>_.
     bind opendal_mbt_wasm_buffer_new (\<lambda>stale.
     bind (if stale = 0 then ret 0
           else bind (opendal_mbt_wasm_buffer_release stale) (\<lambda>r. ret (if r \<noteq> STATUS_OK_w then 0 else (1 :: u32))))
       (\<lambda>go.
     if go = 0 then ret 0 else
     bind opendal_mbt_wasm_buffer_new (\<lambda>current.
     if current = 0 then ret 0 else
     bind (opendal_mbt_wasm_buffer_len stale) (\<lambda>stale_result.
     bind opendal_mbt_wasm_last_error_code (\<lambda>error_code.
     bind opendal_mbt_wasm_last_error_clear (\<lambda>_.
     bind (opendal_mbt_wasm_buffer_release current) (\<lambda>r.
       ret (if stale_result = SCALAR_ERROR \<and> error_code = 1 \<and> current \<noteq> stale \<and> r = STATUS_OK_w
            then 1 else 0)))))))))"

section \<open>Operators\<close>

definition opendal_mbt_wasm_operator_new_memory :: "'x wasm_api \<Rightarrow> ('x, u32) W" where
  "opendal_mbt_wasm_operator_new_memory api =
     or_record 0 (bind (on_ext (call_ext from_opendal (wa_new_memory api))) (\<lambda>operator.
       insert_resource (ResOperator operator)))"

fun join_lines :: "string list \<Rightarrow> string" where
  "join_lines [] = []"
| "join_lines [s] = s"
| "join_lines (s # t # rest) = s @ [CHR 0x0A] @ join_lines (t # rest)"

definition opendal_mbt_wasm_registered_schemes :: "'x wasm_api \<Rightarrow> ('x, u32) W" where
  "opendal_mbt_wasm_registered_schemes api =
     (let schemes = sort_key (map (of_char :: char \<Rightarrow> nat)) (wa_schemes api) in
      handle_or_record_error (insert_buffer (bytes_of_text (join_lines schemes))))"

definition opendal_mbt_wasm_operator_builder_new :: "'x wasm_api \<Rightarrow> u32 \<Rightarrow> ('x, u32) W" where
  "opendal_mbt_wasm_operator_builder_new api scheme_handle =
     handle_or_record_error (bind (owned_utf8_buffer api scheme_handle) (\<lambda>scheme.
       if scheme = [] then throw (InvalidArgument ''service scheme cannot be empty'')
       else insert_resource (ResOperatorBuilder \<lparr>ob_scheme = scheme, ob_config = [], ob_config_bytes = 0\<rparr>)))"

definition opendal_mbt_wasm_operator_builder_set ::
  "'x wasm_api \<Rightarrow> u32 \<Rightarrow> u32 \<Rightarrow> u32 \<Rightarrow> ('x, u32) W" where
  "opendal_mbt_wasm_operator_builder_set api builder_handle key_handle value_handle =
     status (bind (owned_utf8_buffer api key_handle) (\<lambda>key.
       bind (owned_utf8_buffer api value_handle) (\<lambda>v.
       bind (arena_read (\<lambda>a. arena_operator_builder_mut a builder_handle)) (\<lambda>(builder, put).
       bind (on_ext (push_operator_config api builder key v)) (\<lambda>builder'. set_arena (put builder'))))))"

definition opendal_mbt_wasm_operator_builder_build :: "'x wasm_api \<Rightarrow> u32 \<Rightarrow> ('x, u32) W" where
  "opendal_mbt_wasm_operator_builder_build api builder_handle =
     handle_or_record_error (bind (arena_read (\<lambda>a. arena_operator_builder a builder_handle)) (\<lambda>builder.
       bind (on_ext (try_clone_operator_builder api builder)) (\<lambda>builder.
       bind (on_ext (build_operator api builder)) (\<lambda>operator.
         insert_resource (ResOperator operator)))))"

definition opendal_mbt_wasm_operator_builder_release :: "u32 \<Rightarrow> ('x, u32) W" where
  "opendal_mbt_wasm_operator_builder_release handle = release_resource handle OperatorBuilderK"

definition operator_info_buffer :: "'x wasm_api \<Rightarrow> u32 \<Rightarrow> (opendal_info \<Rightarrow> string) \<Rightarrow> ('x, u32) W" where
  "operator_info_buffer api handle select =
     handle_or_record_error (bind (arena_read (\<lambda>a. arena_operator a handle)) (\<lambda>operator.
       insert_buffer (bytes_of_text (select (wa_info api operator)))))"

definition opendal_mbt_wasm_operator_info_scheme :: "'x wasm_api \<Rightarrow> u32 \<Rightarrow> ('x, u32) W" where
  "opendal_mbt_wasm_operator_info_scheme api handle = operator_info_buffer api handle oi_scheme"

definition opendal_mbt_wasm_operator_info_root :: "'x wasm_api \<Rightarrow> u32 \<Rightarrow> ('x, u32) W" where
  "opendal_mbt_wasm_operator_info_root api handle = operator_info_buffer api handle oi_root"

definition opendal_mbt_wasm_operator_info_name :: "'x wasm_api \<Rightarrow> u32 \<Rightarrow> ('x, u32) W" where
  "opendal_mbt_wasm_operator_info_name api handle = operator_info_buffer api handle oi_name"

definition opendal_mbt_wasm_operator_info_capability_word :: "'x wasm_api \<Rightarrow> u32 \<Rightarrow> u32 \<Rightarrow> ('x, u64) W" where
  "opendal_mbt_wasm_operator_info_capability_word api handle word =
     or_record 0 (arena_read (\<lambda>a. res_bind (arena_operator a handle) (\<lambda>operator.
       capability_word api operator word)))"

section \<open>Operations polled once\<close>

definition poll_once :: "('x, 'a) poll \<Rightarrow> ('x, 'a) fut" where
  \<comment> \<open>\<open>poll_once(future)?.map_err(BridgeError::from)\<close>\<close>
  "poll_once p x =
     (case p x of
        (None, x') \<Rightarrow> (Err AsyncPending, x')
      | (Some (XOk a), x') \<Rightarrow> (Ok a, x')
      | (Some (XErr e), x') \<Rightarrow> (Err (from_opendal e), x')
      | (Some XPanic, x') \<Rightarrow> (Panic, x'))"

definition opendal_mbt_wasm_operator_write :: "'x wasm_api \<Rightarrow> u32 \<Rightarrow> u32 \<Rightarrow> u32 \<Rightarrow> ('x, u32) W" where
  "opendal_mbt_wasm_operator_write api operator_handle path_handle data_handle =
     status (bind (write_inputs api operator_handle path_handle data_handle) (\<lambda>(operator, path, data).
       bind (on_ext (poll_once (wa_poll_write api operator path data))) (\<lambda>_. ret ())))"

definition opendal_mbt_wasm_operator_read :: "'x wasm_api \<Rightarrow> u32 \<Rightarrow> u32 \<Rightarrow> ('x, u32) W" where
  "opendal_mbt_wasm_operator_read api operator_handle path_handle =
     or_record 0 (bind (path_and_operator api operator_handle path_handle) (\<lambda>(operator, path).
       bind (on_ext (poll_once (wa_poll_read api operator path))) (\<lambda>buffer.
       bind (on_ext (try_owned_opendal_buffer api buffer)) insert_buffer)))"

definition opendal_mbt_wasm_operator_stat :: "'x wasm_api \<Rightarrow> u32 \<Rightarrow> u32 \<Rightarrow> ('x, u32) W" where
  "opendal_mbt_wasm_operator_stat api operator_handle path_handle =
     or_record 0 (bind (path_and_operator api operator_handle path_handle) (\<lambda>(operator, path).
       bind (on_ext (poll_once (wa_poll_stat api operator path))) (\<lambda>metadata.
         insert_resource (ResMetadata metadata))))"

section \<open>Asynchronous operations\<close>

definition opendal_mbt_wasm_operator_write_start :: "'x wasm_api \<Rightarrow> u32 \<Rightarrow> u32 \<Rightarrow> u32 \<Rightarrow> ('x, u32) W" where
  "opendal_mbt_wasm_operator_write_start api operator_handle path_handle data_handle =
     handle_or_record_error
       (start_write_task api operator_handle path_handle data_handle WriteOptions_default)"

definition opendal_mbt_wasm_operator_write_options_start_v1 ::
  "'x wasm_api \<Rightarrow> u32 \<Rightarrow> u32 \<Rightarrow> u32 \<Rightarrow> u32 \<Rightarrow> u32 \<Rightarrow> u32 \<Rightarrow> u32 \<Rightarrow> u32 \<Rightarrow> u32 \<Rightarrow> u32 \<Rightarrow> ('x, u32) W" where
  "opendal_mbt_wasm_operator_write_options_start_v1 api operator_handle path_handle data_handle append_flag
     content_type_handle content_disposition_handle content_encoding_handle cache_control_handle
     if_match_handle if_none_match_handle =
     handle_or_record_error
       (bind (write_options_from_scalars api append_flag content_type_handle content_disposition_handle
                content_encoding_handle cache_control_handle if_match_handle if_none_match_handle)
          (\<lambda>write_options. start_write_task api operator_handle path_handle data_handle write_options))"

definition opendal_mbt_wasm_operator_read_start :: "'x wasm_api \<Rightarrow> u32 \<Rightarrow> u32 \<Rightarrow> ('x, u32) W" where
  "opendal_mbt_wasm_operator_read_start api operator_handle path_handle =
     handle_or_record_error (start_read_task api operator_handle path_handle ReadOptions_default)"

definition opendal_mbt_wasm_operator_read_options_start_v1 ::
  "'x wasm_api \<Rightarrow> u32 \<Rightarrow> u32 \<Rightarrow> u32 \<Rightarrow> u64 \<Rightarrow> u64 \<Rightarrow> u32 \<Rightarrow> u32 \<Rightarrow> u32 \<Rightarrow> ('x, u32) W" where
  "opendal_mbt_wasm_operator_read_options_start_v1 api operator_handle path_handle range_kind range_offset
     range_length version_handle if_match_handle if_none_match_handle =
     handle_or_record_error
       (bind (read_options_from_scalars api range_kind range_offset range_length version_handle
                if_match_handle if_none_match_handle)
          (start_read_task api operator_handle path_handle))"

definition opendal_mbt_wasm_operator_stat_start :: "'x wasm_api \<Rightarrow> u32 \<Rightarrow> u32 \<Rightarrow> ('x, u32) W" where
  "opendal_mbt_wasm_operator_stat_start api operator_handle path_handle =
     handle_or_record_error (start_stat_task api operator_handle path_handle StatOptions_default)"

definition opendal_mbt_wasm_operator_stat_options_start_v1 ::
  "'x wasm_api \<Rightarrow> u32 \<Rightarrow> u32 \<Rightarrow> u32 \<Rightarrow> u32 \<Rightarrow> u32 \<Rightarrow> ('x, u32) W" where
  "opendal_mbt_wasm_operator_stat_options_start_v1 api operator_handle path_handle version_handle
     if_match_handle if_none_match_handle =
     handle_or_record_error
       (bind (stat_options_from_scalars api version_handle if_match_handle if_none_match_handle)
          (start_stat_task api operator_handle path_handle))"

definition opendal_mbt_wasm_operator_create_dir_start :: "'x wasm_api \<Rightarrow> u32 \<Rightarrow> u32 \<Rightarrow> ('x, u32) W" where
  "opendal_mbt_wasm_operator_create_dir_start api operator_handle path_handle =
     handle_or_record_error (bind (path_and_operator api operator_handle path_handle) (\<lambda>(operator, path).
       start_task (FutCreateDir operator path)))"

definition opendal_mbt_wasm_operator_delete_start ::
  "'x wasm_api \<Rightarrow> u32 \<Rightarrow> u32 \<Rightarrow> u32 \<Rightarrow> u32 \<Rightarrow> ('x, u32) W" where
  "opendal_mbt_wasm_operator_delete_start api operator_handle path_handle version_handle recursive =
     handle_or_record_error (bind (lift_res (scalar_bool recursive ''recursive'')) (\<lambda>recursive.
       bind (path_and_operator api operator_handle path_handle) (\<lambda>(operator, path).
       bind (optional_owned_utf8_buffer api version_handle) (\<lambda>version.
         start_task (FutDelete operator path \<lparr>dop_version = version, dop_recursive = recursive\<rparr>)))))"

definition list_inputs ::
  "'x wasm_api \<Rightarrow> u32 \<Rightarrow> u32 \<Rightarrow> u32 \<Rightarrow> u32 \<Rightarrow> u64 \<Rightarrow> u32 \<Rightarrow>
   ('x, token \<times> string \<times> bool \<times> usize option \<times> string option) W" where
  \<comment> \<open>the inputs of \<open>list_start\<close> and \<open>lister_start\<close>\<close>
  "list_inputs api operator_handle path_handle recursive has_limit limit start_after_handle =
     bind (lift_res (scalar_bool recursive ''recursive'')) (\<lambda>recursive.
     bind (lift_res (optional_list_limit has_limit limit)) (\<lambda>limit.
     bind (path_and_operator api operator_handle path_handle) (\<lambda>(operator, path).
     bind (optional_owned_utf8_buffer api start_after_handle) (\<lambda>start_after.
       ret (operator, path, recursive, limit, start_after)))))"

definition opendal_mbt_wasm_operator_list_start ::
  "'x wasm_api \<Rightarrow> u32 \<Rightarrow> u32 \<Rightarrow> u32 \<Rightarrow> u32 \<Rightarrow> u64 \<Rightarrow> u32 \<Rightarrow> ('x, u32) W" where
  "opendal_mbt_wasm_operator_list_start api operator_handle path_handle recursive has_limit limit
     start_after_handle =
     handle_or_record_error
       (bind (list_inputs api operator_handle path_handle recursive has_limit limit start_after_handle)
          (\<lambda>(operator, path, recursive, limit, start_after).
             start_task (FutList operator path recursive limit start_after)))"

definition opendal_mbt_wasm_operator_copy_start :: "'x wasm_api \<Rightarrow> u32 \<Rightarrow> u32 \<Rightarrow> u32 \<Rightarrow> ('x, u32) W" where
  "opendal_mbt_wasm_operator_copy_start api operator_handle from_handle to_handle =
     handle_or_record_error (start_copy_task api operator_handle from_handle to_handle)"

definition opendal_mbt_wasm_operator_rename_start :: "'x wasm_api \<Rightarrow> u32 \<Rightarrow> u32 \<Rightarrow> u32 \<Rightarrow> ('x, u32) W" where
  "opendal_mbt_wasm_operator_rename_start api operator_handle from_handle to_handle =
     handle_or_record_error (start_rename_task api operator_handle from_handle to_handle)"

section \<open>Read streams\<close>

definition opendal_mbt_wasm_operator_read_stream_start_v1 ::
  "'x wasm_api \<Rightarrow> u32 \<Rightarrow> u32 \<Rightarrow> u32 \<Rightarrow> u32 \<Rightarrow> u64 \<Rightarrow> u64 \<Rightarrow> u32 \<Rightarrow> u32 \<Rightarrow> u32 \<Rightarrow> ('x, u32) W" where
  "opendal_mbt_wasm_operator_read_stream_start_v1 api operator_handle path_handle chunk_size range_kind
     range_offset range_length version_handle if_match_handle if_none_match_handle =
     handle_or_record_error
       (bind (read_stream_options_from_scalars api chunk_size range_kind range_offset range_length
                version_handle if_match_handle if_none_match_handle) (\<lambda>(reader_options, r, max_chunk).
        bind (path_and_operator api operator_handle path_handle) (\<lambda>(operator, path).
        bind (lift_res (wasm_ensure_suffix_is_native api operator r)) (\<lambda>_.
          start_task (FutOpenReadStream operator path reader_options r max_chunk)))))"

definition opendal_mbt_wasm_read_stream_next_start :: "u32 \<Rightarrow> ('x, u32) W" where
  "opendal_mbt_wasm_read_stream_next_start handle =
     handle_or_record_error (bind (reserve_read_stream_next handle) (\<lambda>(task, lease, cursor).
       bind (spawn_resource_task task lease (FutStreamNext cursor)) (\<lambda>_. ret task)))"

definition opendal_mbt_wasm_read_stream_release :: "u32 \<Rightarrow> ('x, u32) W" where
  "opendal_mbt_wasm_read_stream_release handle = release_resource handle ReadStreamK"

section \<open>Writers\<close>

definition opendal_mbt_wasm_operator_writer_start_v1 ::
  "'x wasm_api \<Rightarrow> u32 \<Rightarrow> u32 \<Rightarrow> u32 \<Rightarrow> u32 \<Rightarrow> u32 \<Rightarrow> u32 \<Rightarrow> u32 \<Rightarrow> u32 \<Rightarrow> u32 \<Rightarrow> ('x, u32) W" where
  "opendal_mbt_wasm_operator_writer_start_v1 api operator_handle path_handle append_flag
     content_type_handle content_disposition_handle content_encoding_handle cache_control_handle
     if_match_handle if_none_match_handle =
     handle_or_record_error
       (bind (write_options_from_scalars api append_flag content_type_handle content_disposition_handle
                content_encoding_handle cache_control_handle if_match_handle if_none_match_handle)
          (\<lambda>write_options.
        bind (path_and_operator api operator_handle path_handle) (\<lambda>(operator, path).
          start_task (FutOpenWriter operator path write_options))))"

definition opendal_mbt_wasm_writer_write_start :: "'x wasm_api \<Rightarrow> u32 \<Rightarrow> u32 \<Rightarrow> ('x, u32) W" where
  "opendal_mbt_wasm_writer_write_start api writer_handle data_handle =
     handle_or_record_error (bind (owned_writer_chunk api data_handle) (\<lambda>data.
       bind (reserve_writer_call writer_handle) (\<lambda>(task, lease, writer).
       bind (spawn_resource_task task lease (FutWriterWrite writer data)) (\<lambda>_. ret task))))"

fun writer_finished :: "u32 \<Rightarrow> WriterState \<Rightarrow> BridgeError + Metadata option" where
  \<comment> \<open>the first look at the state in \<open>writer_finish_start\<close>\<close>
  "writer_finished handle (WrFinished metadata) = Inr (Some metadata)"
| "writer_finished handle (WrOpen _ _) = Inr None"
| "writer_finished handle (WrBusy _) = Inl (ResourceBusy handle)"
| "writer_finished handle WrAborted = Inl (ResourceClosed handle)"
| "writer_finished handle WrFailed = Inl (ResourceClosed handle)"

definition opendal_mbt_wasm_writer_finish_start :: "u32 \<Rightarrow> ('x, u32) W" where
  "opendal_mbt_wasm_writer_finish_start writer_handle =
     handle_or_record_error
       (bind (arena_read (\<lambda>a. res_bind (arena_writer_mut a writer_handle) (\<lambda>(w, _).
                writer_finished writer_handle w))) (\<lambda>finished.
          case finished of
            Some metadata \<Rightarrow> start_task (FutReady (CWriterFinish (Inr metadata)))
          | None \<Rightarrow>
              bind (reserve_writer_call writer_handle) (\<lambda>(task, lease, writer).
              bind (spawn_resource_task task lease (FutWriterFinish writer)) (\<lambda>_. ret task))))"

fun writer_aborted :: "u32 \<Rightarrow> WriterState \<Rightarrow> BridgeError + bool" where
  \<comment> \<open>the first look at the state in \<open>writer_abort_start\<close>\<close>
  "writer_aborted handle WrAborted = Inr True"
| "writer_aborted handle (WrOpen _ _) = Inr False"
| "writer_aborted handle (WrBusy _) = Inl (ResourceBusy handle)"
| "writer_aborted handle (WrFinished _) = Inl (ResourceClosed handle)"
| "writer_aborted handle WrFailed = Inl (ResourceClosed handle)"

definition opendal_mbt_wasm_writer_abort_start :: "u32 \<Rightarrow> ('x, u32) W" where
  "opendal_mbt_wasm_writer_abort_start writer_handle =
     handle_or_record_error
       (bind (arena_read (\<lambda>a. res_bind (arena_writer_mut a writer_handle) (\<lambda>(w, _).
                writer_aborted writer_handle w))) (\<lambda>repeated.
          if repeated then start_task (FutReady (CWriterAbort (Inr ())))
          else
            bind (reserve_writer_call writer_handle) (\<lambda>(task, lease, writer).
            bind (spawn_resource_task task lease (FutWriterAbort writer)) (\<lambda>_. ret task))))"

definition opendal_mbt_wasm_writer_release :: "u32 \<Rightarrow> ('x, u32) W" where
  "opendal_mbt_wasm_writer_release handle = release_resource handle WriterK"

section \<open>Listers\<close>

definition opendal_mbt_wasm_operator_lister_start ::
  "'x wasm_api \<Rightarrow> u32 \<Rightarrow> u32 \<Rightarrow> u32 \<Rightarrow> u32 \<Rightarrow> u64 \<Rightarrow> u32 \<Rightarrow> ('x, u32) W" where
  "opendal_mbt_wasm_operator_lister_start api operator_handle path_handle recursive has_limit limit
     start_after_handle =
     handle_or_record_error
       (bind (list_inputs api operator_handle path_handle recursive has_limit limit start_after_handle)
          (\<lambda>(operator, path, recursive, limit, start_after).
             start_task (FutOpenLister operator path recursive limit start_after)))"

definition opendal_mbt_wasm_lister_next_start :: "u32 \<Rightarrow> ('x, u32) W" where
  "opendal_mbt_wasm_lister_next_start handle =
     handle_or_record_error (bind (reserve_lister_next handle) (\<lambda>(task, lease, lister).
       bind (spawn_resource_task task lease (FutListerNext lister)) (\<lambda>_. ret task)))"

definition opendal_mbt_wasm_lister_release :: "u32 \<Rightarrow> ('x, u32) W" where
  "opendal_mbt_wasm_lister_release handle = release_resource handle ListerK"

end
