(* ===== verification/WasmResults.thy ===== *)
theory WasmResults
  imports WasmExports
begin

text \<open>
  The exported functions for task results: tasks, completions, entry lists, metadata and errors, in
  the order of the source. \<open>unreachable!\<close> and \<open>expect\<close> are \<open>panic\<close>.
\<close>

section \<open>Tasks\<close>

fun task_state_code :: "Task \<Rightarrow> u32" where
  "task_state_code (PendingTask _) = TASK_PENDING"
| "task_state_code (ReadyTask _ _) = TASK_READY"
| "task_state_code CancelledTask = TASK_CANCELLED"
| "task_state_code ConsumedTask = TASK_CONSUMED"

definition opendal_mbt_wasm_task_state :: "u32 \<Rightarrow> ('x, u32) W" where
  "opendal_mbt_wasm_task_state handle =
     or_record 0 (arena_read (\<lambda>a. res_bind (arena_task a handle) (\<lambda>t. Inr (task_state_code t))))"

definition opendal_mbt_wasm_task_take :: "u32 \<Rightarrow> ('x, u32) W" where
  "opendal_mbt_wasm_task_take handle =
     handle_or_record_error
       (bind (state_of (\<lambda>s. can_insert (st_arena s))) (\<lambda>room.
          if \<not> room then throw HandleLimit
          else
            bind (arena_read (\<lambda>a. arena_task_mut a handle)) (\<lambda>(task, put).
              case task of
                ReadyTask completion _ \<Rightarrow>
                  bind (set_arena (put ConsumedTask)) (\<lambda>_. arena_call (arena_insert (ResCompletion completion)))
              | PendingTask lease \<Rightarrow> throw (TaskNotReady handle)
              | CancelledTask \<Rightarrow> throw (TaskNotReady handle)
              | ConsumedTask \<Rightarrow> throw (TaskConsumed handle))))"

definition terminalize_task :: "u32 \<Rightarrow> ('x, unit) W" where
  \<comment> \<open>the first statements of \<open>task_cancel\<close> and \<open>task_release\<close>\<close>
  "terminalize_task handle =
     bind (arena_read (\<lambda>a. arena_task a handle)) (\<lambda>task.
       case task_lease task of
         Some lease \<Rightarrow> state_update (\<lambda>s. s\<lparr>st_arena := terminalize_lease lease (st_arena s)\<rparr>)
       | None \<Rightarrow> ret ())"

definition opendal_mbt_wasm_task_cancel :: "u32 \<Rightarrow> ('x, u32) W" where
  "opendal_mbt_wasm_task_cancel handle =
     status (bind (terminalize_task handle) (\<lambda>_.
       bind (arena_read (\<lambda>a. arena_task_mut a handle)) (\<lambda>(task, put).
         case task of
           PendingTask _ \<Rightarrow> set_arena (put CancelledTask)
         | ReadyTask _ _ \<Rightarrow> set_arena (put CancelledTask)
         | CancelledTask \<Rightarrow> ret ()
         | ConsumedTask \<Rightarrow> ret ())))"

definition opendal_mbt_wasm_task_release :: "u32 \<Rightarrow> ('x, u32) W" where
  "opendal_mbt_wasm_task_release handle =
     status (bind (terminalize_task handle) (\<lambda>_. arena_call (arena_release handle TaskK)))"

section \<open>Completions\<close>

definition opendal_mbt_wasm_completion_kind :: "u32 \<Rightarrow> ('x, u32) W" where
  "opendal_mbt_wasm_completion_kind handle =
     or_record 0 (arena_read (\<lambda>a. res_bind (arena_completion a handle) (\<lambda>c. Inr (completion_kind c))))"

definition opendal_mbt_wasm_completion_status :: "u32 \<Rightarrow> ('x, u32) W" where
  "opendal_mbt_wasm_completion_status handle =
     bind (closure (arena_read (\<lambda>a. res_bind (arena_completion a handle) (\<lambda>c.
             Inr (case completion_error c of None \<Rightarrow> 0 | Some e \<Rightarrow> code e))))) (\<lambda>r.
       case r of Inr completion_status \<Rightarrow> ret completion_status | Inl error \<Rightarrow> record_error error)"

fun completion_end :: "u32 \<Rightarrow> Completion \<Rightarrow> BridgeError + bool" where
  "completion_end handle (CReadStreamNext (Inr v)) = Inr (v = None)"
| "completion_end handle (CListerNext (Inr v)) = Inr (v = None)"
| "completion_end handle (CReadStreamNext (Inl error)) = Inl error"
| "completion_end handle (CListerNext (Inl error)) = Inl error"
| "completion_end handle completion =
     Inl (WrongResourceType handle ''next completion''
       (if completion_kind completion = COMPLETION_READ then ''read completion''
        else if completion_kind completion = COMPLETION_LIST then ''list completion''
        else ''non-next completion''))"

definition completion_is_end_value :: "u32 \<Rightarrow> ('x, bool) W" where
  "completion_is_end_value handle =
     arena_read (\<lambda>a. res_bind (arena_completion a handle) (completion_end handle))"

definition opendal_mbt_wasm_completion_is_end :: "u32 \<Rightarrow> ('x, int) W" where
  "opendal_mbt_wasm_completion_is_end handle =
     or_record SCALAR_ERROR (bind (completion_is_end_value handle) (\<lambda>is_end. ret (if is_end then 1 else 0)))"

definition completion_name :: "u32 \<Rightarrow> string" where
  "completion_name k =
     (if k = COMPLETION_WRITE then ''write completion''
      else if k = COMPLETION_READ then ''read completion''
      else if k = COMPLETION_STAT then ''stat completion''
      else if k = COMPLETION_CREATE_DIR then ''create-dir completion''
      else if k = COMPLETION_DELETE then ''delete completion''
      else if k = COMPLETION_LIST then ''list completion''
      else if k = COMPLETION_COPY then ''copy completion''
      else if k = COMPLETION_RENAME then ''rename completion''
      else if k = COMPLETION_OPEN_READER then ''open-read-stream completion''
      else if k = COMPLETION_READER_NEXT then ''read-stream-next completion''
      else if k = COMPLETION_OPEN_WRITER then ''open-writer completion''
      else if k = COMPLETION_WRITER_WRITE then ''writer-write completion''
      else if k = COMPLETION_WRITER_FINISH then ''writer-finish completion''
      else if k = COMPLETION_WRITER_ABORT then ''writer-abort completion''
      else if k = COMPLETION_OPEN_LISTER then ''open-lister completion''
      else if k = COMPLETION_LISTER_NEXT then ''lister-next completion''
      else ''completion'')"

definition wrong_completion_type :: "u32 \<Rightarrow> u32 \<Rightarrow> u32 \<Rightarrow> BridgeError" where
  "wrong_completion_type handle expected actual =
     WrongResourceType handle (completion_name expected) (completion_name actual)"

fun oversized :: "Completion \<Rightarrow> bool" where
  \<comment> \<open>the two length checks of \<open>take_successful_completion\<close>\<close>
  "oversized (CRead (Inr buffer)) \<longleftrightarrow> length buffer > MAX_BUFFER_LENGTH"
| "oversized (CReadStreamNext (Inr (Some buffer))) \<longleftrightarrow> length buffer > MAX_TRANSFER_CHUNK"
| "oversized _ \<longleftrightarrow> False"

definition take_successful_completion :: "u32 \<Rightarrow> u32 \<Rightarrow> bool \<Rightarrow> ('x, Completion) W" where
  "take_successful_completion handle expected_kind needs_replacement =
     bind (arena_read (\<lambda>a. arena_completion a handle)) (\<lambda>completion.
       if completion_kind completion \<noteq> expected_kind
       then throw (wrong_completion_type handle expected_kind (completion_kind completion))
       else
         case completion_error completion of
           Some error \<Rightarrow> throw error
         | None \<Rightarrow>
             if oversized completion then throw BufferTooLarge
             else
               bind (if needs_replacement
                     then arena_read (\<lambda>a. ensure_insert_capacity_after_take a handle CompletionK)
                     else ret ()) (\<lambda>_.
               bind (arena_call (arena_take handle CompletionK)) (\<lambda>r.
                 case r of ResCompletion completion \<Rightarrow> ret completion | _ \<Rightarrow> panic)))"

definition opendal_mbt_wasm_completion_take_read_stream :: "u32 \<Rightarrow> ('x, u32) W" where
  "opendal_mbt_wasm_completion_take_read_stream handle =
     handle_or_record_error
       (bind (take_successful_completion handle COMPLETION_OPEN_READER True) (\<lambda>completion.
          case completion of
            COpenReadStream (Inr cursor) \<Rightarrow> insert_resource (ResReadStream (RsOpen cursor 0))
          | _ \<Rightarrow> panic))"

definition opendal_mbt_wasm_completion_take_writer :: "u32 \<Rightarrow> ('x, u32) W" where
  "opendal_mbt_wasm_completion_take_writer handle =
     handle_or_record_error
       (bind (take_successful_completion handle COMPLETION_OPEN_WRITER True) (\<lambda>completion.
          case completion of
            COpenWriter (Inr writer) \<Rightarrow> insert_resource (ResWriter (WrOpen writer 0))
          | _ \<Rightarrow> panic))"

definition opendal_mbt_wasm_completion_take_lister :: "u32 \<Rightarrow> ('x, u32) W" where
  "opendal_mbt_wasm_completion_take_lister handle =
     handle_or_record_error
       (bind (take_successful_completion handle COMPLETION_OPEN_LISTER True) (\<lambda>completion.
          case completion of
            COpenLister (Inr lister) \<Rightarrow> insert_resource (ResLister (LsOpen lister 0))
          | _ \<Rightarrow> panic))"

definition opendal_mbt_wasm_completion_take_buffer :: "u32 \<Rightarrow> ('x, u32) W" where
  "opendal_mbt_wasm_completion_take_buffer handle =
     handle_or_record_error
       (bind (arena_read (\<lambda>a. res_bind (arena_completion a handle) (\<lambda>c. Inr (completion_kind c)))) (\<lambda>k.
          if k = COMPLETION_READ then
            bind (take_successful_completion handle COMPLETION_READ True) (\<lambda>completion.
              case completion of CRead (Inr buffer) \<Rightarrow> insert_buffer buffer | _ \<Rightarrow> panic)
          else if k = COMPLETION_READER_NEXT then
            bind (completion_is_end_value handle) (\<lambda>is_end.
            bind (take_successful_completion handle COMPLETION_READER_NEXT (\<not> is_end)) (\<lambda>completion.
              case completion of
                CReadStreamNext (Inr buffer) \<Rightarrow>
                  (case buffer of None \<Rightarrow> ret 0 | Some bytes \<Rightarrow> insert_buffer bytes)
              | _ \<Rightarrow> panic))
          else throw (wrong_completion_type handle COMPLETION_READ k)))"

definition opendal_mbt_wasm_completion_take_metadata :: "u32 \<Rightarrow> ('x, u32) W" where
  "opendal_mbt_wasm_completion_take_metadata handle =
     handle_or_record_error
       (bind (arena_read (\<lambda>a. res_bind (arena_completion a handle) (\<lambda>c. Inr (completion_kind c)))) (\<lambda>k.
          if \<not> (k = COMPLETION_STAT \<or> k = COMPLETION_COPY \<or> k = COMPLETION_WRITER_FINISH)
          then throw (wrong_completion_type handle COMPLETION_STAT k)
          else
            bind (take_successful_completion handle k True) (\<lambda>completion.
              case completion of
                CStat (Inr metadata) \<Rightarrow> arena_call (arena_insert (ResMetadata metadata))
              | CCopy (Inr metadata) \<Rightarrow> arena_call (arena_insert (ResMetadata metadata))
              | CWriterFinish (Inr metadata) \<Rightarrow> arena_call (arena_insert (ResMetadata metadata))
              | _ \<Rightarrow> panic)))"

definition metadata_completion_name :: "u32 \<Rightarrow> string" where
  \<comment> \<open>the names with which \<open>take_metadata_snapshot\<close> refuses a completion of another kind\<close>
  "metadata_completion_name k =
     (if k \<in> {COMPLETION_WRITE, COMPLETION_STAT, COMPLETION_COPY, COMPLETION_WRITER_FINISH}
      then ''completion'' else completion_name k)"

fun completion_metadata :: "u32 \<Rightarrow> Completion \<Rightarrow> BridgeError + Metadata" where
  "completion_metadata handle (CWrite r) = r"
| "completion_metadata handle (CStat r) = r"
| "completion_metadata handle (CCopy r) = r"
| "completion_metadata handle (CWriterFinish r) = r"
| "completion_metadata handle completion =
     Inl (WrongResourceType handle ''successful metadata completion''
       (metadata_completion_name (completion_kind completion)))"

fun has_metadata :: "Resource \<Rightarrow> bool" where
  "has_metadata (ResCompletion (CWrite (Inr _))) = True"
| "has_metadata (ResCompletion (CStat (Inr _))) = True"
| "has_metadata (ResCompletion (CCopy (Inr _))) = True"
| "has_metadata (ResCompletion (CWriterFinish (Inr _))) = True"
| "has_metadata _ = False"

definition insert_or_panic :: "Resource \<Rightarrow> ('x, u32) W" where
  \<comment> \<open>\<open>match arena.insert(..) { Ok(h) => Ok(h), Err(_) => unreachable!(..) }\<close>\<close>
  "insert_or_panic r = bind (closure (arena_call (arena_insert r))) (\<lambda>r.
     case r of Inr handle \<Rightarrow> ret handle | Inl _ \<Rightarrow> panic)"

definition opendal_mbt_wasm_completion_take_metadata_snapshot :: "'x wasm_api \<Rightarrow> u32 \<Rightarrow> ('x, u32) W" where
  "opendal_mbt_wasm_completion_take_metadata_snapshot api handle =
     handle_or_record_error
       (bind (arena_read (\<lambda>a. res_bind (arena_completion a handle) (completion_metadata handle))) (\<lambda>metadata.
        bind (on_ext (metadata_snapshot_bytes (wa_alloc api) metadata)) (\<lambda>snapshot.
        bind (arena_read (\<lambda>a. ensure_insert_capacity_after_take a handle CompletionK)) (\<lambda>_.
        bind (arena_call (arena_take handle CompletionK)) (\<lambda>r.
          if has_metadata r then insert_or_panic (ResBuffer snapshot) else panic)))))"

definition opendal_mbt_wasm_completion_take_entry_list :: "u32 \<Rightarrow> ('x, u32) W" where
  "opendal_mbt_wasm_completion_take_entry_list handle =
     handle_or_record_error
       (bind (arena_read (\<lambda>a. res_bind (arena_completion a handle) (\<lambda>c. Inr (completion_kind c)))) (\<lambda>k.
          if k = COMPLETION_LIST then
            bind (take_successful_completion handle COMPLETION_LIST True) (\<lambda>completion.
              case completion of
                CList (Inr entries) \<Rightarrow> arena_call (arena_insert (ResEntryList entries))
              | _ \<Rightarrow> panic)
          else if k = COMPLETION_LISTER_NEXT then
            bind (completion_is_end_value handle) (\<lambda>is_end.
            bind (take_successful_completion handle COMPLETION_LISTER_NEXT (\<not> is_end)) (\<lambda>completion.
              case completion of
                CListerNext (Inr entry) \<Rightarrow>
                  (case entry of None \<Rightarrow> ret 0 | Some e \<Rightarrow> arena_call (arena_insert (ResEntryList [e])))
              | _ \<Rightarrow> panic))
          else throw (wrong_completion_type handle COMPLETION_LIST k)))"

definition opendal_mbt_wasm_completion_take_error :: "u32 \<Rightarrow> ('x, u32) W" where
  "opendal_mbt_wasm_completion_take_error handle =
     handle_or_record_error
       (bind (arena_read (\<lambda>a. arena_completion a handle)) (\<lambda>completion.
          if completion_error completion = None
          then throw (WrongResourceType handle ''failed completion'' ''successful completion'')
          else
            bind (arena_read (\<lambda>a. ensure_insert_capacity_after_take a handle CompletionK)) (\<lambda>_.
            bind (arena_call (arena_take handle CompletionK)) (\<lambda>r.
              case r of
                ResCompletion completion \<Rightarrow>
                  (case completion_error completion of
                     Some error \<Rightarrow> arena_call (arena_insert (ResError error))
                   | None \<Rightarrow> panic)
              | _ \<Rightarrow> panic))))"

definition opendal_mbt_wasm_completion_release :: "u32 \<Rightarrow> ('x, u32) W" where
  "opendal_mbt_wasm_completion_release handle = release_resource handle CompletionK"

section \<open>Entry lists\<close>

definition entry_list_value :: "u32 \<Rightarrow> u32 \<Rightarrow> (EntrySnapshot \<Rightarrow> 'a) \<Rightarrow> ('x, 'a) W" where
  "entry_list_value handle index select =
     arena_read (\<lambda>a. res_bind (arena_entry_list a handle) (\<lambda>entries.
       if unat index < length entries then Inr (select (entries ! unat index))
       else Inl (IndexOutOfBounds index (length entries))))"

definition opendal_mbt_wasm_entry_list_len :: "u32 \<Rightarrow> ('x, int) W" where
  "opendal_mbt_wasm_entry_list_len handle =
     or_record SCALAR_ERROR
       (arena_read (\<lambda>a. res_bind (arena_entry_list a handle) (\<lambda>es. i32_of_len (length es))))"

definition entry_list_text :: "'x wasm_api \<Rightarrow> u32 \<Rightarrow> u32 \<Rightarrow> bool \<Rightarrow> ('x, u32) W" where
  "entry_list_text api handle index path =
     handle_or_record_error
       (bind (entry_list_value handle index (\<lambda>entry. bytes_of_text (if path then es_path entry else es_name entry)))
          (\<lambda>bytes. bind (on_ext (try_owned_bytes api bytes)) insert_buffer))"

definition opendal_mbt_wasm_entry_list_path :: "'x wasm_api \<Rightarrow> u32 \<Rightarrow> u32 \<Rightarrow> ('x, u32) W" where
  "opendal_mbt_wasm_entry_list_path api handle index = entry_list_text api handle index True"

definition opendal_mbt_wasm_entry_list_name :: "'x wasm_api \<Rightarrow> u32 \<Rightarrow> u32 \<Rightarrow> ('x, u32) W" where
  "opendal_mbt_wasm_entry_list_name api handle index = entry_list_text api handle index False"

definition i32_expect :: "u32 \<Rightarrow> ('x, int) W" where
  \<comment> \<open>\<open>i32::try_from(mode).expect(..)\<close>\<close>
  "i32_expect v = (if unat v \<le> 2147483647 then ret (uint v) else panic)"

definition opendal_mbt_wasm_entry_list_mode :: "u32 \<Rightarrow> u32 \<Rightarrow> ('x, int) W" where
  "opendal_mbt_wasm_entry_list_mode handle index =
     or_record SCALAR_ERROR (bind (entry_list_value handle index es_mode) i32_expect)"

definition opendal_mbt_wasm_entry_list_content_length :: "u32 \<Rightarrow> u32 \<Rightarrow> ('x, u64) W" where
  "opendal_mbt_wasm_entry_list_content_length handle index =
     or_record 0 (entry_list_value handle index es_content_length)"

definition snapshot_taken :: BridgeError where
  "snapshot_taken = InvalidArgument ''entry metadata snapshot has already been taken''"

definition opendal_mbt_wasm_entry_list_metadata_snapshot :: "u32 \<Rightarrow> u32 \<Rightarrow> ('x, u32) W" where
  "opendal_mbt_wasm_entry_list_metadata_snapshot handle index =
     handle_or_record_error
       (bind (entry_list_value handle index es_metadata_snapshot) (\<lambda>snapshot.
          if snapshot = [] then throw snapshot_taken
          else
            bind (state_of (\<lambda>s. can_insert (st_arena s))) (\<lambda>room.
              if \<not> room then throw HandleLimit
              else
                bind (arena_read (\<lambda>a. arena_entry_list_mut a handle)) (\<lambda>(entries, put).
                  if \<not> unat index < length entries then throw snapshot_taken
                  else
                    let entry = entries ! unat index in
                    bind (set_arena (put (entries[unat index := entry\<lparr>es_metadata_snapshot := []\<rparr>]))) (\<lambda>_.
                      if es_metadata_snapshot entry = [] then throw snapshot_taken
                      else insert_or_panic (ResBuffer (es_metadata_snapshot entry)))))))"

definition opendal_mbt_wasm_entry_list_release :: "u32 \<Rightarrow> ('x, u32) W" where
  "opendal_mbt_wasm_entry_list_release handle = release_resource handle EntryListK"

definition opendal_mbt_wasm_operator_release :: "u32 \<Rightarrow> ('x, u32) W" where
  "opendal_mbt_wasm_operator_release handle = release_resource handle OperatorK"

section \<open>Metadata\<close>

definition metadata_content_length :: "u32 \<Rightarrow> (u64 \<Rightarrow> u32) \<Rightarrow> ('x, u32) W" where
  "metadata_content_length handle part =
     or_record 0 (arena_read (\<lambda>a. res_bind (arena_metadata a handle) (\<lambda>m. Inr (part (md_content_length m)))))"

definition opendal_mbt_wasm_metadata_content_length_low :: "u32 \<Rightarrow> ('x, u32) W" where
  "opendal_mbt_wasm_metadata_content_length_low handle = metadata_content_length handle ucast"

definition opendal_mbt_wasm_metadata_content_length_high :: "u32 \<Rightarrow> ('x, u32) W" where
  "opendal_mbt_wasm_metadata_content_length_high handle =
     metadata_content_length handle (\<lambda>len. ucast (drop_bit 32 len))"

definition opendal_mbt_wasm_metadata_is_file :: "u32 \<Rightarrow> ('x, int) W" where
  "opendal_mbt_wasm_metadata_is_file handle =
     or_record SCALAR_ERROR (arena_read (\<lambda>a. res_bind (arena_metadata a handle) (\<lambda>m.
       Inr (if md_mode m = FILE then 1 else 0))))"

definition opendal_mbt_wasm_metadata_mode :: "u32 \<Rightarrow> ('x, int) W" where
  "opendal_mbt_wasm_metadata_mode handle =
     or_record SCALAR_ERROR (bind (arena_read (\<lambda>a. res_bind (arena_metadata a handle) (\<lambda>m.
       Inr (wasm_mode (md_mode m))))) i32_expect)"

definition opendal_mbt_wasm_metadata_release :: "u32 \<Rightarrow> ('x, u32) W" where
  "opendal_mbt_wasm_metadata_release handle = release_resource handle MetadataK"

section \<open>Errors\<close>

definition opendal_mbt_wasm_last_error_take :: "('x, u32) W" where
  "opendal_mbt_wasm_last_error_take =
     or_record 0 (bind (state_of id) (\<lambda>state.
       if st_torn_down state
       then bind (state_update (\<lambda>s. s\<lparr>st_last_error := None\<rparr>)) (\<lambda>_. ret 0)
       else
         case st_last_error state of
           None \<Rightarrow> ret 0
         | Some error \<Rightarrow>
             bind (arena_call (arena_insert (ResError error))) (\<lambda>handle.
             bind (state_update (\<lambda>s. s\<lparr>st_last_error := None\<rparr>)) (\<lambda>_. ret handle))))"

definition opendal_mbt_wasm_error_code :: "u32 \<Rightarrow> ('x, u32) W" where
  "opendal_mbt_wasm_error_code handle =
     or_record 0 (arena_read (\<lambda>a. res_bind (arena_error a handle) (\<lambda>e. Inr (code e))))"

definition opendal_mbt_wasm_error_message :: "u32 \<Rightarrow> ('x, u32) W" where
  "opendal_mbt_wasm_error_message handle =
     or_record 0 (bind (arena_read (\<lambda>a. arena_error a handle)) (\<lambda>e.
       insert_buffer (bytes_of_text (to_string e))))"

definition opendal_mbt_wasm_error_snapshot_take :: "'x wasm_api \<Rightarrow> u32 \<Rightarrow> ('x, u32) W" where
  "opendal_mbt_wasm_error_snapshot_take api handle =
     handle_or_record_error
       (bind (arena_read (\<lambda>a. arena_error a handle)) (\<lambda>error.
        bind (on_ext (error_snapshot_bytes (wa_alloc api) error)) (\<lambda>snapshot.
        bind (arena_read (\<lambda>a. ensure_insert_capacity_after_take a handle ErrorK)) (\<lambda>_.
        bind (arena_call (arena_take handle ErrorK)) (\<lambda>r.
          case r of ResError _ \<Rightarrow> insert_or_panic (ResBuffer snapshot) | _ \<Rightarrow> panic)))))"

definition opendal_mbt_wasm_error_release :: "u32 \<Rightarrow> ('x, u32) W" where
  "opendal_mbt_wasm_error_release handle = release_resource handle ErrorK"

end
