(* ===== verification/WasmInvariant.thy ===== *)
theory WasmInvariant
  imports WasmResults
begin

text \<open>
  The invariant of a browser bridge instance, stated over the map from live handles to resources:
  every resource, spawned future and finished result is within the limits of its type (\<open>resource_ok\<close>,
  \<open>job_ok\<close>, \<open>completion_ok\<close>), every pending task has a spawned future that will complete it, every busy stream, writer or lister
  is the subject of the lease of one live pending task, and no two live tasks hold a lease for the
  same operation. The theory shows what each change of the arena keeps of it; \<open>WasmSafety\<close> lifts that
  to the exported functions.
\<close>

section \<open>The invariant\<close>

text \<open>
  What it means for a value to be well typed beyond its Rust type: the limits that the checks of the
  code establish when the value is made. An entry has one of the three modes and a bounded size, a
  listing is bounded as a whole, a stream's chunks have a positive size of at most one transfer, and a
  builder's configuration is counted exactly and names every key once, up to ASCII case.
\<close>

definition entry_ok :: "EntrySnapshot \<Rightarrow> bool" where
  "entry_ok e \<longleftrightarrow> unat (es_mode e) \<le> 2 \<and> snapshot_bytes e \<le> MAX_LIST_OUTPUT_BYTES"

definition entries_ok :: "EntrySnapshot list \<Rightarrow> bool" where
  "entries_ok es \<longleftrightarrow>
     list_all entry_ok es \<and> length es \<le> MAX_LIST_ENTRIES \<and> listing_bytes es \<le> MAX_LIST_OUTPUT_BYTES"

definition bytes_ok :: "u8 list \<Rightarrow> bool" where
  "bytes_ok bytes \<longleftrightarrow> length bytes \<le> MAX_BUFFER_LENGTH"

definition chunk_ok :: "usize \<Rightarrow> bool" where
  "chunk_ok n \<longleftrightarrow> 1 \<le> n \<and> n \<le> MAX_TRANSFER_CHUNK"

definition builder_ok :: "OperatorBuilder \<Rightarrow> bool" where
  "builder_ok ob \<longleftrightarrow>
     ob_scheme ob \<noteq> [] \<and> length (ob_config ob) \<le> MAX_CONFIG_ENTRIES \<and>
     ob_config_bytes ob = (\<Sum>(key, v)\<leftarrow>ob_config ob. length key + length v) \<and>
     ob_config_bytes ob \<le> MAX_CONFIG_BYTES \<and>
     distinct (map (\<lambda>(key, v). to_ascii_lowercase key) (ob_config ob))"

fun completion_ok :: "Completion \<Rightarrow> bool" where
  "completion_ok (CRead (Inr bytes)) = bytes_ok bytes"
| "completion_ok (CReadStreamNext (Inr (Some bytes))) = bytes_ok bytes"
| "completion_ok (COpenReadStream (Inr cursor)) = chunk_ok (rsc_max_chunk cursor)"
| "completion_ok (CList (Inr es)) = entries_ok es"
| "completion_ok (CListerNext (Inr (Some e))) = entry_ok e"
| "completion_ok _ = True"

fun resource_ok :: "Resource \<Rightarrow> bool" where
  "resource_ok (ResBuffer bytes) = bytes_ok bytes"
| "resource_ok (ResOperatorBuilder ob) = builder_ok ob"
| "resource_ok (ResCompletion c) = completion_ok c"
| "resource_ok (ResTask (ReadyTask c _)) = completion_ok c"
| "resource_ok (ResEntryList es) = entries_ok es"
| "resource_ok (ResReadStream (RsOpen cursor _)) = chunk_ok (rsc_max_chunk cursor)"
| "resource_ok _ = True"

lemma entries_ok_one: "entry_ok e \<Longrightarrow> entries_ok [e]"
  by (simp add: entries_ok_def entry_ok_def)

lemma entries_ok_taken:
  assumes "entries_ok es" and "i < length es"
  shows "entries_ok (es[i := (es ! i)\<lparr>es_metadata_snapshot := []\<rparr>])"
proof -
  let ?e = "(es ! i)\<lparr>es_metadata_snapshot := []\<rparr>"
  have "snapshot_bytes ?e \<le> snapshot_bytes (es ! i)" by (simp add: snapshot_bytes_def)
  moreover from assms(2) this have "listing_bytes (es[i := ?e]) \<le> listing_bytes es"
    by (induction es arbitrary: i) (auto split: nat.split simp: nth_Cons)
  ultimately show ?thesis
    using assms by (auto simp: entries_ok_def entry_ok_def list_all_length nth_list_update dest: spec [of _ i])
qed

fun lease_of :: "Resource \<Rightarrow> ResourceLease option" where
  "lease_of (ResTask t) = task_lease t"
| "lease_of _ = None"

fun busy_lease :: "u32 \<Rightarrow> Resource \<Rightarrow> ResourceLease option" where
  "busy_lease h (ResReadStream (RsBusy n)) = Some \<lparr>ls_handle = h, ls_kind = ReadStreamK, ls_operation = n\<rparr>"
| "busy_lease h (ResWriter (WrBusy n)) = Some \<lparr>ls_handle = h, ls_kind = WriterK, ls_operation = n\<rparr>"
| "busy_lease h (ResLister (LsBusy n)) = Some \<lparr>ls_handle = h, ls_kind = ListerK, ls_operation = n\<rparr>"
| "busy_lease h _ = None"

fun future_kind :: "ResourceFuture \<Rightarrow> ResourceKind" where
  "future_kind (FutStreamNext _) = ReadStreamK"
| "future_kind (FutWriterWrite _ _) = WriterK"
| "future_kind (FutWriterFinish _) = WriterK"
| "future_kind (FutWriterAbort _) = WriterK"
| "future_kind (FutListerNext _) = ListerK"

fun future_ok :: "ResourceFuture \<Rightarrow> bool" where
  "future_ok (FutStreamNext cursor) = chunk_ok (rsc_max_chunk cursor)"
| "future_ok (FutWriterWrite _ bytes) \<longleftrightarrow> length bytes \<le> MAX_TRANSFER_CHUNK"
| "future_ok _ = True"

fun update_ok :: "ResourceUpdate \<Rightarrow> bool" where
  "update_ok (StreamChange (StreamToOpen cursor)) = chunk_ok (rsc_max_chunk cursor)"
| "update_ok _ = True"

fun job_ok :: "Job \<Rightarrow> bool" where
  "job_ok (TaskJob _ (FutReady c)) = completion_ok c"
| "job_ok (TaskJob _ (FutOpenReadStream _ _ _ _ max_chunk)) = chunk_ok max_chunk"
| "job_ok (TaskJob _ _) = True"
| "job_ok (ResourceJob _ l f) \<longleftrightarrow> future_kind f = ls_kind l \<and> future_ok f"

definition resources_ok :: "(u32 \<Rightarrow> Resource option) \<Rightarrow> bool" where
  "resources_ok M \<longleftrightarrow> (\<forall>h r. M h = Some r \<longrightarrow> resource_ok r)"

definition leases_bounded :: "(u32 \<Rightarrow> Resource option) \<Rightarrow> u64 \<Rightarrow> bool" where
  "leases_bounded M n \<longleftrightarrow> (\<forall>h r l. M h = Some r \<longrightarrow> lease_of r = Some l \<longrightarrow> ls_operation l \<le> n)"

definition leases_distinct :: "(u32 \<Rightarrow> Resource option) \<Rightarrow> bool" where
  "leases_distinct M \<longleftrightarrow>
     (\<forall>h h' r r' l l'. M h = Some r \<longrightarrow> M h' = Some r' \<longrightarrow> lease_of r = Some l \<longrightarrow> lease_of r' = Some l' \<longrightarrow>
        ls_operation l = ls_operation l' \<longrightarrow> h = h')"

definition pending_spawned :: "(u32 \<Rightarrow> Resource option) \<Rightarrow> Job list \<Rightarrow> bool" where
  "pending_spawned M jobs \<longleftrightarrow>
     (\<forall>h. M h = Some (ResTask (PendingTask None)) \<longrightarrow> (\<exists>f. TaskJob h f \<in> set jobs)) \<and>
     (\<forall>h l. M h = Some (ResTask (PendingTask (Some l))) \<longrightarrow> (\<exists>f. ResourceJob h l f \<in> set jobs))"

definition busy_owned :: "(u32 \<Rightarrow> Resource option) \<Rightarrow> bool" where
  "busy_owned M \<longleftrightarrow>
     (\<forall>h r l. M h = Some r \<longrightarrow> busy_lease h r = Some l \<longrightarrow> (\<exists>t. M t = Some (ResTask (PendingTask (Some l)))))"

definition map_inv :: "(u32 \<Rightarrow> Resource option) \<Rightarrow> Job list \<Rightarrow> u64 \<Rightarrow> bool" where
  "map_inv M jobs n \<longleftrightarrow>
     resources_ok M \<and> leases_bounded M n \<and> leases_distinct M \<and> pending_spawned M jobs \<and>
     busy_owned M \<and> list_all job_ok jobs"

lemmas map_inv_defs = map_inv_def resources_ok_def leases_bounded_def leases_distinct_def
  pending_spawned_def busy_owned_def

lemma busy_ownerE:
  assumes "map_inv M jobs n" and "M h = Some r" and "busy_lease h r = Some l"
  obtains t where "M t = Some (ResTask (PendingTask (Some l)))"
  using assms unfolding map_inv_def busy_owned_def by blast

section \<open>Changes of the map\<close>

text \<open>A \<open>plain\<close> resource holds no lease, is not pending and is not busy.\<close>

fun plain :: "Resource \<Rightarrow> bool" where
  "plain (ResTask (PendingTask _)) = False"
| "plain (ResTask (ReadyTask _ (Some _))) = False"
| "plain (ResReadStream (RsBusy _)) = False"
| "plain (ResWriter (WrBusy _)) = False"
| "plain (ResLister (LsBusy _)) = False"
| "plain _ = True"

lemma plainD:
  assumes "plain r"
  shows "lease_of r = None" and "busy_lease h r = None" and "r \<noteq> ResTask (PendingTask x)"
  using assms by (cases r rule: plain.cases; simp)+

lemma busy_not_task: "busy_lease h r = Some l \<Longrightarrow> r \<noteq> ResTask t"
  by auto

lemma busy_leaseD: "busy_lease h r = Some l \<Longrightarrow> ls_handle l = h \<and> ls_kind l = resource_kind r"
  by (cases "(h, r)" rule: busy_lease.cases) auto

lemma inv_empty: "map_inv Map.empty jobs n \<longleftrightarrow> list_all job_ok jobs"
  by (simp add: map_inv_defs)

lemma inv_insert:
  assumes "map_inv M jobs n" and "M h = None" and "plain r" and "resource_ok r"
  shows "map_inv (M(h \<mapsto> r)) jobs n"
proof -
  note M = assms(1) [unfolded map_inv_def]
  have "resources_ok (M(h \<mapsto> r))" using M assms(4) by (simp add: resources_ok_def)
  moreover have "leases_bounded (M(h \<mapsto> r)) n" using M plainD(1) [OF assms(3)] by (auto simp: leases_bounded_def)
  moreover have "leases_distinct (M(h \<mapsto> r))" using M plainD(1) [OF assms(3)] by (auto simp: leases_distinct_def)
  moreover have "pending_spawned (M(h \<mapsto> r)) jobs" using M plainD(3) [OF assms(3)] by (auto simp: pending_spawned_def)
  moreover have "busy_owned (M(h \<mapsto> r))"
    unfolding busy_owned_def
  proof (intro allI impI)
    fix h' r' l
    assume "(M(h \<mapsto> r)) h' = Some r'" and b: "busy_lease h' r' = Some l"
    then have "M h' = Some r'" using plainD(2) [OF assms(3), of h'] by (auto split: if_splits)
    then obtain t where "M t = Some (ResTask (PendingTask (Some l)))" using b by (rule busy_ownerE [OF assms(1)])
    with assms(2) show "\<exists>t. (M(h \<mapsto> r)) t = Some (ResTask (PendingTask (Some l)))"
      by (intro exI [of _ t]) auto
  qed
  ultimately show ?thesis using M by (simp add: map_inv_def)
qed

text \<open>A live resource may be dropped unless it is a task whose lease keeps something busy.\<close>

definition droppable :: "(u32 \<Rightarrow> Resource option) \<Rightarrow> u32 \<Rightarrow> bool" where
  "droppable M h \<longleftrightarrow>
     (\<forall>l x s. M h = Some (ResTask (PendingTask (Some l))) \<longrightarrow> M x = Some s \<longrightarrow> busy_lease x s \<noteq> Some l)"

lemma inv_remove:
  assumes "map_inv M jobs n" and "droppable M h"
  shows "map_inv (M(h := None)) jobs n"
proof -
  note M = assms(1) [unfolded map_inv_def]
  have "busy_owned (M(h := None))"
    unfolding busy_owned_def
  proof (intro allI impI)
    fix h' r' l
    assume "(M(h := None)) h' = Some r'" and b: "busy_lease h' r' = Some l"
    then have m: "M h' = Some r'" by (auto split: if_splits)
    then obtain t where t: "M t = Some (ResTask (PendingTask (Some l)))" using b by (rule busy_ownerE [OF assms(1)])
    with assms(2) m b have "t \<noteq> h" by (auto simp: droppable_def)
    with t show "\<exists>t. (M(h := None)) t = Some (ResTask (PendingTask (Some l)))" by (intro exI [of _ t]) auto
  qed
  moreover have "leases_distinct (M(h := None))" using M by (auto simp: leases_distinct_def)
  moreover have "pending_spawned (M(h := None)) jobs" using M by (auto simp: pending_spawned_def)
  moreover have "resources_ok (M(h := None))" "leases_bounded (M(h := None)) n"
    using M by (auto simp: resources_ok_def leases_bounded_def split: if_splits)
  ultimately show ?thesis using M by (simp add: map_inv_def)
qed

lemma inv_replace:
  assumes "map_inv M jobs n" and "droppable M h" and "plain r" and "resource_ok r"
  shows "map_inv (M(h \<mapsto> r)) jobs n"
  using inv_insert [OF inv_remove [OF assms(1,2)], of h r] assms(3,4) by simp

lemma droppable_not_task: "(\<And>t. M h \<noteq> Some (ResTask t)) \<Longrightarrow> droppable M h"
  by (simp add: droppable_def)

lemma inv_jobs_more: "map_inv M jobs n \<Longrightarrow> job_ok j \<Longrightarrow> map_inv M (jobs @ [j]) n"
  unfolding map_inv_def pending_spawned_def by (simp, blast)

lemma inv_next: "map_inv M jobs n \<Longrightarrow> n \<le> n' \<Longrightarrow> map_inv M jobs n'"
  by (fastforce simp: map_inv_def leases_bounded_def)

text \<open>A started task and its future arrive together.\<close>

lemma inv_start_task:
  assumes "map_inv M jobs n" and "M h = None" and "job_ok (TaskJob h f)"
  shows "map_inv (M(h \<mapsto> ResTask (PendingTask None))) (jobs @ [TaskJob h f]) n"
proof -
  let ?M = "M(h \<mapsto> ResTask (PendingTask None))"
  note M = assms(1) [unfolded map_inv_def]
  have "busy_owned ?M"
    unfolding busy_owned_def
  proof (intro allI impI)
    fix h' r' l
    assume "?M h' = Some r'" and b: "busy_lease h' r' = Some l"
    then have "M h' = Some r'" by (auto split: if_splits)
    then obtain t where "M t = Some (ResTask (PendingTask (Some l)))" using b by (rule busy_ownerE [OF assms(1)])
    with assms(2) show "\<exists>t. ?M t = Some (ResTask (PendingTask (Some l)))" by (intro exI [of _ t]) auto
  qed
  moreover have "pending_spawned ?M (jobs @ [TaskJob h f])" using M by (auto simp: pending_spawned_def)
  moreover have "leases_distinct ?M" using M by (auto simp: leases_distinct_def)
  moreover have "resources_ok ?M" "leases_bounded ?M n"
    using M by (auto simp: resources_ok_def leases_bounded_def)
  ultimately show ?thesis using M assms(3) by (simp add: map_inv_def)
qed

text \<open>A reservation makes its resource busy and adds the pending task that owns it.\<close>

lemma inv_reserve:
  assumes "map_inv M jobs n" and "M h = Some r" and "\<And>t. r \<noteq> ResTask t" and "busy_lease h r' = Some l"
    and "resource_ok r'" and "M t = None" and "n < ls_operation l"
    and "future_kind f = ls_kind l" and "future_ok f"
  shows "map_inv (M(h \<mapsto> r', t \<mapsto> ResTask (PendingTask (Some l)))) (jobs @ [ResourceJob t l f]) (ls_operation l)"
proof -
  let ?M = "M(h \<mapsto> r', t \<mapsto> ResTask (PendingTask (Some l)))"
  note M = assms(1) [unfolded map_inv_def]
  have ht: "h \<noteq> t" using assms(2,6) by auto
  have r': "lease_of r' = None" "\<And>x. r' \<noteq> ResTask x" using busy_not_task [OF assms(4)] by (cases r'; simp)+
  have "busy_owned ?M"
    unfolding busy_owned_def
  proof (intro allI impI)
    fix x s l'
    assume x: "?M x = Some s" and b: "busy_lease x s = Some l'"
    show "\<exists>u. ?M u = Some (ResTask (PendingTask (Some l')))"
    proof (cases "x = h")
      case True
      then have "l' = l" using x b ht assms(4) by simp
      then show ?thesis by (intro exI [of _ t]) simp
    next
      case False
      then have "M x = Some s" using x b by (auto split: if_splits)
      then obtain u where u: "M u = Some (ResTask (PendingTask (Some l')))"
        using b by (rule busy_ownerE [OF assms(1)])
      then have "u \<noteq> h" "u \<noteq> t" using assms(2,3,6) by auto
      with u show ?thesis by (intro exI [of _ u]) simp
    qed
  qed
  moreover have "leases_bounded ?M (ls_operation l)"
    using M r'(1) assms(7) ht unfolding leases_bounded_def by (auto split: if_splits) (meson order.strict_implies_order order_trans)
  moreover have "leases_distinct ?M"
  proof -
    have old: "ls_operation l' < ls_operation l" if "M x = Some s" "lease_of s = Some l'" for x s l'
      using M that assms(7) unfolding leases_bounded_def by (meson le_less_trans)
    then have neq: "ls_operation l \<noteq> ls_operation l'" "ls_operation l' \<noteq> ls_operation l"
      if "M x = Some s" "lease_of s = Some l'" for x s l'
      using that by fastforce+
    show ?thesis using M r'(1) ht neq unfolding leases_distinct_def by (auto split: if_splits)
  qed
  moreover have "pending_spawned ?M (jobs @ [ResourceJob t l f])"
    using M r'(2) by (auto simp: pending_spawned_def split: if_splits)
  moreover have "resources_ok ?M" using M assms(5) by (auto simp: resources_ok_def split: if_splits)
  ultimately show ?thesis using M assms(8,9) by (simp add: map_inv_def)
qed

section \<open>Publishing and cancelling\<close>

fun updated :: "ResourceLease \<Rightarrow> ResourceUpdate \<Rightarrow> Resource" where
  "updated l (StreamChange u) = ResReadStream (update_stream (ls_operation l) u)"
| "updated l (WriterChange u) = ResWriter (update_writer (ls_operation l) u)"
| "updated l (ListerChange u) = ResLister (update_lister (ls_operation l) u)"

lemma updated_plain: "plain (updated l u) \<and> resource_kind (updated l u) = update_kind u"
proof (cases u)
  case (StreamChange s)
  then show ?thesis by (cases s) simp_all
next
  case (WriterChange w)
  then show ?thesis by (cases w) simp_all
next
  case (ListerChange w)
  then show ?thesis by (cases w) simp_all
qed

lemma updated_ok: "update_ok u \<Longrightarrow> resource_ok (updated l u)"
  by (cases u rule: update_ok.cases) simp_all

definition after_update ::
  "ResourceLease \<Rightarrow> ResourceUpdate \<Rightarrow> (u32 \<Rightarrow> Resource option) \<Rightarrow> (u32 \<Rightarrow> Resource option)" where
  "after_update l u M =
     (case M (ls_handle l) of
        Some r \<Rightarrow> if busy_lease (ls_handle l) r = Some l then M(ls_handle l \<mapsto> updated l u) else M
      | None \<Rightarrow> M)"

lemma after_update_task: "M t = Some (ResTask x) \<Longrightarrow> after_update l u M t = Some (ResTask x)"
  by (auto simp: after_update_def split: option.split)

lemma after_update_lease:
  "after_update l u M h = Some r \<Longrightarrow> lease_of r = Some l' \<Longrightarrow> M h = Some r"
  using plainD(1) [of "updated l u"] updated_plain [of l u]
  by (auto simp: after_update_def split: option.splits if_splits)

lemma after_update_busy:
  assumes "after_update l u M h = Some r" and "busy_lease h r = Some l'"
  shows "M h = Some r \<and> l' \<noteq> l"
proof -
  have p: "busy_lease h (updated l u) = None" using plainD(2) updated_plain by blast
  have m: "M h = Some r"
    using assms p by (auto simp: after_update_def split: option.splits if_splits)
  moreover have "l' \<noteq> l"
  proof
    assume "l' = l"
    then have "after_update l u M h = Some (updated l u)"
      using m assms(2) busy_leaseD [OF assms(2)] by (auto simp: after_update_def)
    with assms p show False by simp
  qed
  ultimately show ?thesis by simp
qed

lemma inv_publish_resource:
  assumes inv: "map_inv M (js @ ResourceJob t l f # ks) n" and pending: "M t = Some (ResTask (PendingTask (Some l)))"
    and c: "completion_ok c" and u: "update_ok u"
  shows "map_inv ((after_update l u M)(t \<mapsto> ResTask (ReadyTask c (Some l)))) (js @ ks) n"
proof -
  let ?U = "after_update l u M"
  let ?M = "?U(t \<mapsto> ResTask (ReadyTask c (Some l)))"
  note M = inv [unfolded map_inv_def]
  have lease: "\<exists>r0. M h = Some r0 \<and> lease_of r0 = Some l'" if "?M h = Some r" "lease_of r = Some l'" for h r l'
    using that pending after_update_lease [of l u M h r l'] by (cases "h = t") auto
  have "leases_bounded ?M n"
    unfolding leases_bounded_def using M lease unfolding leases_bounded_def by blast
  moreover have "leases_distinct ?M"
    unfolding leases_distinct_def using M lease unfolding leases_distinct_def by metis
  moreover have "resources_ok ?M"
  proof -
    have "resource_ok r" if "?U h = Some r" for h r
      using that M updated_ok [OF u, of l]
      by (auto simp: after_update_def resources_ok_def split: option.splits if_splits)
    then show ?thesis using c by (simp add: resources_ok_def)
  qed
  moreover have "busy_owned ?M"
    unfolding busy_owned_def
  proof (intro allI impI)
    fix h r l'
    assume h: "?M h = Some r" and b: "busy_lease h r = Some l'"
    then have "?U h = Some r" by (auto split: if_splits)
    from after_update_busy [OF this b] have m: "M h = Some r" and ne: "l' \<noteq> l" by auto
    obtain t' where t': "M t' = Some (ResTask (PendingTask (Some l')))" by (rule busy_ownerE [OF inv m b])
    with pending ne have "t' \<noteq> t" by auto
    with t' after_update_task [where M = M and t = t', OF t'] show "\<exists>t. ?M t = Some (ResTask (PendingTask (Some l')))"
      by (intro exI [of _ t']) simp
  qed
  moreover have "pending_spawned ?M (js @ ks)"
  proof -
    have "M h = Some (ResTask (PendingTask x)) \<and> h \<noteq> t" if "?M h = Some (ResTask (PendingTask x))" for h x
      using that updated_plain [of l u] plainD(3) [of "updated l u" x]
      by (auto simp: after_update_def split: option.splits if_splits)
    with M show ?thesis unfolding pending_spawned_def by fastforce
  qed
  ultimately show ?thesis using M by (simp add: map_inv_def)
qed

lemma inv_drop_resource_job:
  assumes "map_inv M (js @ ResourceJob t l f # ks) n" and "M t \<noteq> Some (ResTask (PendingTask (Some l)))"
  shows "map_inv M (js @ ks) n"
  using assms unfolding map_inv_def pending_spawned_def by fastforce

lemma inv_drop_task_job:
  assumes "map_inv M (js @ TaskJob t f # ks) n" and "M t \<noteq> Some (ResTask (PendingTask None))"
  shows "map_inv M (js @ ks) n"
  using assms unfolding map_inv_def pending_spawned_def by fastforce

lemma inv_publish_task:
  assumes inv: "map_inv M (js @ TaskJob t f # ks) n" and t: "M t = Some (ResTask (PendingTask None))"
    and c: "completion_ok c"
  shows "map_inv (M(t \<mapsto> ResTask (ReadyTask c None))) (js @ ks) n"
proof (rule inv_drop_task_job)
  show "map_inv (M(t \<mapsto> ResTask (ReadyTask c None))) (js @ TaskJob t f # ks) n"
    using t c by (intro inv_replace [OF inv]) (simp_all add: droppable_def)
qed simp

text \<open>Terminalizing a lease fails the resource that its operation still holds.\<close>

fun held_by :: "ResourceLease \<Rightarrow> Resource \<Rightarrow> bool" where
  "held_by l (ResReadStream (RsOpen _ n)) \<longleftrightarrow> ls_kind l = ReadStreamK \<and> n = ls_operation l"
| "held_by l (ResReadStream (RsBusy n)) \<longleftrightarrow> ls_kind l = ReadStreamK \<and> n = ls_operation l"
| "held_by l (ResWriter (WrOpen _ n)) \<longleftrightarrow> ls_kind l = WriterK \<and> n = ls_operation l"
| "held_by l (ResWriter (WrBusy n)) \<longleftrightarrow> ls_kind l = WriterK \<and> n = ls_operation l"
| "held_by l (ResLister (LsOpen _ n)) \<longleftrightarrow> ls_kind l = ListerK \<and> n = ls_operation l"
| "held_by l (ResLister (LsBusy n)) \<longleftrightarrow> ls_kind l = ListerK \<and> n = ls_operation l"
| "held_by l _ \<longleftrightarrow> False"

fun failed_of :: "Resource \<Rightarrow> Resource" where
  "failed_of (ResReadStream _) = ResReadStream RsFailed"
| "failed_of (ResWriter _) = ResWriter WrFailed"
| "failed_of (ResLister _) = ResLister LsFailed"
| "failed_of r = r"

lemma held_byD: "held_by l r \<Longrightarrow> plain (failed_of r) \<and> resource_ok (failed_of r) \<and>
    r \<noteq> ResTask t \<and> failed_of r \<noteq> ResTask t"
  by (cases "(l, r)" rule: held_by.cases) auto

lemma busy_held: "busy_lease h r = Some l \<Longrightarrow> held_by l r"
  by (cases "(h, r)" rule: busy_lease.cases) auto

definition after_terminalize ::
  "ResourceLease \<Rightarrow> (u32 \<Rightarrow> Resource option) \<Rightarrow> (u32 \<Rightarrow> Resource option)" where
  "after_terminalize l M =
     (case M (ls_handle l) of
        Some r \<Rightarrow> if held_by l r then M(ls_handle l \<mapsto> failed_of r) else M
      | None \<Rightarrow> M)"

lemma inv_terminalize:
  assumes "map_inv M jobs n"
  shows "map_inv (after_terminalize l M) jobs n"
proof (cases "\<exists>r. M (ls_handle l) = Some r \<and> held_by l r")
  case True
  then obtain r where r: "M (ls_handle l) = Some r" "held_by l r" by blast
  then have "map_inv (M(ls_handle l \<mapsto> failed_of r)) jobs n"
    using held_byD [OF r(2)] by (intro inv_replace [OF assms]) (auto simp: droppable_def)
  then show ?thesis using r by (simp add: after_terminalize_def)
qed (use assms in \<open>auto simp: after_terminalize_def split: option.split\<close>)

lemma terminalize_task: "M t = Some (ResTask x) \<longleftrightarrow> after_terminalize l M t = Some (ResTask x)"
  using held_byD [of l]
  by (auto simp: after_terminalize_def split: option.splits if_splits)

lemma terminalize_droppable:
  assumes "M t = Some (ResTask x)" and "task_lease x = Some l \<or> (\<forall>l. x \<noteq> PendingTask (Some l))"
  shows "droppable (after_terminalize l M) t"
  unfolding droppable_def
proof (intro allI impI)
  fix l' y s
  assume "after_terminalize l M t = Some (ResTask (PendingTask (Some l')))" and y: "after_terminalize l M y = Some s"
  then have "M t = Some (ResTask (PendingTask (Some l')))" using terminalize_task by metis
  with assms have l: "l' = l" by auto
  show "busy_lease y s \<noteq> Some l'"
  proof
    assume b: "busy_lease y s = Some l'"
    have yl: "y = ls_handle l" using busy_leaseD [OF b] l by simp
    have "held_by l s" using busy_held [OF b] l by simp
    show False
    proof (cases "M y")
      case None
      then show False using y yl by (simp add: after_terminalize_def)
    next
      case (Some r)
      then show False using y yl b l busy_held [of y r l] plainD(2) [of "failed_of r" y] held_byD [of l r]
        by (auto simp: after_terminalize_def split: if_splits)
    qed
  qed
qed

end
