(* ===== verification/WasmWp.thy ===== *)
theory WasmWp
  imports WasmInvariant
begin

text \<open>
  A weakest precondition \<open>wp\<close> for the computations of the browser bridge, and what holds of its
  futures: as long as the functions of OpenDAL do not panic (\<open>calm_api\<close>), no computation on the
  external state panics, every future ends with a completion, and the future of a stateful resource
  reports an update of that resource's kind.
\<close>

named_theorems wp_simps
named_theorems calm_intros
named_theorems safe_intros

section \<open>Weakest preconditions\<close>

definition wp :: "('w, 'e, 'a) comp \<Rightarrow> ('a \<Rightarrow> 'w \<Rightarrow> bool) \<Rightarrow> ('e \<Rightarrow> 'w \<Rightarrow> bool) \<Rightarrow> 'w \<Rightarrow> bool" where
  "wp m Q E w = (case m w of (Ok a, w') \<Rightarrow> Q a w' | (Err e, w') \<Rightarrow> E e w' | _ \<Rightarrow> False)"

lemma wp_basic [wp_simps]:
  "wp (ret a) Q E w = Q a w"
  "wp (throw e) Q1 E w = E e w"
  "wp panic Q2 E w = False"
  "wp (lift_res r) Q3 E w = (case r of Inr a \<Rightarrow> Q3 a w | Inl e \<Rightarrow> E e w)"
  "wp (bind m f) Q4 E w = wp m (\<lambda>a. wp (f a) Q4 E) E w"
  "wp (closure k) Q5 E w = wp k (\<lambda>a. Q5 (Inr a)) (\<lambda>e. Q5 (Inl e)) w"
  by (simp_all add: wp_def run_basic lift_res_def bind_def closure_def split: sum.split outcome.split prod.split)

lemma wp_mono:
  assumes "wp m Q E w" and "\<And>a w'. Q a w' \<Longrightarrow> Q' a w'" and "\<And>e w'. E e w' \<Longrightarrow> E' e w'"
  shows "wp m Q' E' w"
  using assms by (auto simp: wp_def split: prod.splits outcome.splits)

lemma wp_Ok: "wp m Q (\<lambda>_ _. False) w \<longleftrightarrow> (\<exists>a w'. m w = (Ok a, w') \<and> Q a w')"
  by (auto simp: wp_def split: prod.splits outcome.splits)

definition with_arena :: "Arena \<Rightarrow> 'x browser \<Rightarrow> 'x browser" where
  "with_arena a b = b\<lparr>br_state := (br_state b)\<lparr>st_arena := a\<rparr>\<rparr>"

abbreviation (input) arena_of :: "'x browser \<Rightarrow> Arena" where
  "arena_of b \<equiv> st_arena (br_state b)"

lemma with_arena_simps [simp]:
  "st_arena (br_state (with_arena a b)) = a"
  "st_torn_down (br_state (with_arena a b)) = st_torn_down (br_state b)"
  "st_next_resource_operation (br_state (with_arena a b)) = st_next_resource_operation (br_state b)"
  "st_force_pending_for_canary (br_state (with_arena a b)) = st_force_pending_for_canary (br_state b)"
  "br_spawned (with_arena a b) = br_spawned b"
  "with_arena a (with_arena a' b) = with_arena a b"
  by (simp_all add: with_arena_def)

lemma wp_state [wp_simps]:
  "wp (state_of f) Q E b = Q (f (br_state b)) b"
  "wp (state_update g) Q1 E b = Q1 () (b\<lparr>br_state := g (br_state b)\<rparr>)"
  "wp (arena_read k) Q2 E b = (case k (arena_of b) of Inr a \<Rightarrow> Q2 a b | Inl e \<Rightarrow> E e b)"
  "wp (set_arena a) Q1 E b = Q1 () (with_arena a b)"
  "wp (arena_call c) Q3 E b =
     (case c (arena_of b) of
        (Inr x, a') \<Rightarrow> Q3 x (with_arena a' b) | (Inl e, a') \<Rightarrow> E e (with_arena a' b))"
  by (auto simp: wp_def state_of_def state_update_def arena_read_def set_arena_def arena_call_def lift_res_def
      bind_def with_arena_def split: sum.split prod.split)

section \<open>External computations\<close>

text \<open>A call that does not panic, and computations on the external state built from such calls.\<close>

definition calm_call :: "('x, 'a) xcall \<Rightarrow> bool" where
  "calm_call c \<longleftrightarrow> (\<forall>x. fst (c x) \<noteq> XPanic)"

definition calm :: "('x, 'a) fut \<Rightarrow> bool" where
  "calm m \<longleftrightarrow> (\<forall>x. wp m (\<lambda>_ _. True) (\<lambda>_ _. True) x)"

lemma calmD: "calm m \<Longrightarrow> wp m (\<lambda>_ _. True) (\<lambda>_ _. True) x"
  by (simp add: calm_def)

lemma calm_basic [calm_intros]:
  "calm (ret a)"
  "calm (throw e)"
  "calm (lift_res r)"
  by (simp_all add: calm_def wp_simps split: sum.split)

lemma calm_bind [calm_intros]:
  assumes m: "calm m" and f: "\<And>a. calm (f a)"
  shows "calm (bind m f)"
  unfolding calm_def wp_simps
proof
  fix x
  have "wp m (\<lambda>_ _. True) (\<lambda>_ _. True) x" using m by (simp add: calm_def)
  then show "wp m (\<lambda>a. wp (f a) (\<lambda>_ _. True) (\<lambda>_ _. True)) (\<lambda>_ _. True) x"
    by (rule wp_mono) (use f in \<open>simp_all add: calm_def\<close>)
qed

lemma calm_closure [calm_intros]: "calm m \<Longrightarrow> calm (closure m)"
  by (simp add: calm_def wp_simps)

lemma calm_if [calm_intros]: "(p \<Longrightarrow> calm m) \<Longrightarrow> (\<not> p \<Longrightarrow> calm k) \<Longrightarrow> calm (if p then m else k)"
  by simp

lemma calm_option [calm_intros]: "calm m \<Longrightarrow> (\<And>a. calm (f a)) \<Longrightarrow> calm (case v of None \<Rightarrow> m | Some a \<Rightarrow> f a)"
  by (cases v) simp_all

lemma calm_sum [calm_intros]:
  "(\<And>e. calm (g e)) \<Longrightarrow> (\<And>a. calm (f a)) \<Longrightarrow> calm (case v of Inl e \<Rightarrow> g e | Inr a \<Rightarrow> f a)"
  by (cases v) simp_all

lemma calm_prod [calm_intros]: "(\<And>a b. calm (f a b)) \<Longrightarrow> calm (case v of (a, b) \<Rightarrow> f a b)"
  by (cases v) simp

lemma calm_let [calm_intros]: "calm (f v) \<Longrightarrow> calm (let x = v in f x)"
  by simp

lemma calm_reserve [calm_intros]: "calm (try_reserve alloc n)"
  by (auto simp: calm_def wp_def try_reserve_def split: prod.split bool.split)

lemma calm_call_ext [calm_intros]:
  assumes "calm_call c"
  shows "calm (call_ext f c)"
  unfolding calm_def
proof
  fix x
  show "wp (call_ext f c) (\<lambda>_ _. True) (\<lambda>_ _. True) x"
    using assms by (cases "c x"; cases "fst (c x)") (auto simp: calm_call_def wp_def call_ext_def dest: spec [of _ x])
qed


definition calm_future :: "('x, 'a) poll \<Rightarrow> bool" where
  "calm_future p \<longleftrightarrow> (\<forall>x. fst (p x) \<noteq> Some XPanic)"

definition calm_api :: "'x wasm_api \<Rightarrow> bool" where
  "calm_api api \<longleftrightarrow>
     calm_call (wa_new_memory api) \<and> (\<forall>s c. calm_call (wa_via_iter api s c)) \<and>
     (\<forall>t p d. calm_future (wa_poll_write api t p d)) \<and> (\<forall>t p. calm_future (wa_poll_read api t p)) \<and>
     (\<forall>t p. calm_future (wa_poll_stat api t p)) \<and>
     (\<forall>t p d opts. calm_call (wa_write api t p d opts)) \<and> (\<forall>t p opts. calm_call (wa_read api t p opts)) \<and>
     (\<forall>t p opts. calm_call (wa_stat api t p opts)) \<and> (\<forall>t p. calm_call (wa_create_dir api t p)) \<and>
     (\<forall>t p opts. calm_call (wa_delete api t p opts)) \<and> (\<forall>t p q. calm_call (wa_copy api t p q)) \<and>
     (\<forall>t p q. calm_call (wa_rename api t p q)) \<and> (\<forall>t p opts. calm_call (wa_reader api t p opts)) \<and>
     (\<forall>t r. calm_call (wa_into_stream api t r)) \<and> (\<forall>t. calm_call (wa_stream_next api t)) \<and>
     (\<forall>t p opts. calm_call (wa_writer api t p opts)) \<and> (\<forall>t d. calm_call (wa_writer_write api t d)) \<and>
     (\<forall>t. calm_call (wa_writer_close api t)) \<and> (\<forall>t. calm_call (wa_writer_abort api t)) \<and>
     (\<forall>t p r l s. calm_call (wa_lister api t p r l s)) \<and> (\<forall>t. calm_call (wa_lister_next api t))"

lemma calm_poll: "calm_future p \<Longrightarrow> calm (poll_once p)"
  unfolding calm_def calm_future_def wp_def poll_once_def
  by (auto split: prod.split option.split ext_result.split) (metis fst_conv)+

lemma calm_owned [calm_intros]:
  "calm (try_owned_string api s)"
  "calm (try_owned_bytes api bs)"
  "calm (try_owned_opendal_buffer api buffer)"
  "calm (zeroed_buffer api len)"
  unfolding try_owned_string_def try_owned_bytes_def try_owned_opendal_buffer_def zeroed_buffer_def
  by (intro calm_intros)+

lemma calm_clone_config: "calm (clone_config api kvs)"
proof (induction kvs)
  case (Cons kv kvs)
  obtain k v where "kv = (k, v)" by (cases kv)
  with Cons show ?case by (simp) (intro calm_intros)
qed (simp add: calm_intros)

lemma calm_builder [calm_intros]:
  "calm (try_clone_operator_builder api builder)"
  "calm (push_operator_config api builder k v)"
  unfolding try_clone_operator_builder_def push_operator_config_def
  by (intro calm_intros calm_clone_config)+

lemma calm_metadata_snapshot [calm_intros]: "calm (metadata_snapshot_bytes alloc m)"
  unfolding metadata_snapshot_bytes_def encode_def by (intro calm_intros)

lemma calm_error_snapshot [calm_intros]: "calm (error_snapshot_bytes alloc e)"
  unfolding error_snapshot_bytes_def by (intro calm_intros)

lemma calm_entry_snapshot [calm_intros]: "calm (entry_snapshot api e)"
  unfolding entry_snapshot_def by (intro calm_intros)

lemma calm_push_entry [calm_intros]: "calm (push_entry_snapshot api es tb s bounds)"
  unfolding push_entry_snapshot_def by (intro calm_intros)

lemma push_entry_wp:
  "wp (push_entry_snapshot api es tb s PRODUCTION_LIST_BOUNDS)
     (\<lambda>(es', tb') _. length es' = Suc (length es) \<and> length es < MAX_LIST_ENTRIES) (\<lambda>_ _. True) x"
proof -
  have "wp (push_entry_snapshot api es tb s PRODUCTION_LIST_BOUNDS) (\<lambda>_ _. True) (\<lambda>_ _. True) x"
    by (intro calmD calm_intros)
  then show ?thesis
    using push_entry_length [of api es tb s x]
    by (auto simp: wp_def split: prod.splits outcome.splits)
qed

lemma calm_collect_entries:
  assumes "calm_api api" and "MAX_LIST_ENTRIES < length es + fuel" and "length es \<le> MAX_LIST_ENTRIES"
  shows "wp (collect_entries api lister fuel es tb) (\<lambda>_ _. True) (\<lambda>_ _. True) x"
  using assms(2,3)
proof (induction fuel arbitrary: es tb x)
  case (Suc fuel)
  have next': "calm (call_ext from_opendal (wa_lister_next api lister))"
    using assms(1) by (intro calm_intros) (simp add: calm_api_def)
  have push: "wp (bind (push_entry_snapshot api es tb s PRODUCTION_LIST_BOUNDS)
      (\<lambda>(es', tb'). collect_entries api lister fuel es' tb')) (\<lambda>_ _. True) (\<lambda>_ _. True) y" for s y
    unfolding wp_simps by (rule wp_mono [OF push_entry_wp]) (use Suc in auto)
  show ?case
    unfolding collect_entries.simps wp_simps
  proof (rule wp_mono)
    show "wp (call_ext from_opendal (wa_lister_next api lister)) (\<lambda>_ _. True) (\<lambda>_ _. True) x"
      using next' by (simp add: calm_def)
    show "wp (case v of None \<Rightarrow> ret es
       | Some entry \<Rightarrow> bind (entry_snapshot api entry) (\<lambda>snapshot.
           bind (push_entry_snapshot api es tb snapshot PRODUCTION_LIST_BOUNDS)
             (\<lambda>(es', tb'). collect_entries api lister fuel es' tb'))) (\<lambda>_ _. True) (\<lambda>_ _. True) y" for v y
    proof (cases v)
      case (Some entry)
      have "wp (entry_snapshot api entry) (\<lambda>_ _. True) (\<lambda>_ _. True) y"
        by (intro calmD calm_intros)
      then show ?thesis unfolding Some option.case wp_basic(5) [of "entry_snapshot api entry"]
        by (rule wp_mono) (use push in auto)
    qed (simp add: wp_simps)
  qed
qed simp

lemma calm_collect_list: "calm_api api \<Longrightarrow> calm (collect_list api operator path recursive limit start_after)"
  unfolding collect_list_def
  by (intro calm_intros) (simp_all add: calm_api_def, simp add: calm_def calm_collect_entries calm_api_def)

section \<open>What futures deliver\<close>

lemma wasm_mode_bound [simp]: "unat (wasm_mode m) \<le> 2"
  by (cases m) simp_all

lemma entry_snapshot_ok: "entry_snapshot api e x = (Ok s, x') \<Longrightarrow> entry_ok s"
  by (auto simp: entry_snapshot_def bind_eq_Ok run_basic Let_def entry_ok_def snapshot_bytes_def
      checked_add_usize32_def split: option.splits if_splits)

lemma listing_ok: "listing api lister x ss x' \<Longrightarrow> list_all entry_ok ss"
  by (induction rule: listing.induct) (auto dest: entry_snapshot_ok)

lemma collect_list_ok: "collect_list api operator path recursive limit start_after x = (Ok es, x') \<Longrightarrow> entries_ok es"
  by (auto simp: collect_list_exact entries_ok_def dest: listing_ok)

text \<open>The bytes that the bridge copies or lays out itself are within the limit of a buffer.\<close>

lemma owned_bytes_ok:
  "try_owned_bytes api bs x = (Ok bs', x') \<Longrightarrow> bytes_ok bs' \<and> bs' = bs"
  "try_owned_opendal_buffer api buffer x = (Ok bytes, x') \<Longrightarrow> bytes_ok bytes"
  by (auto simp: try_owned_bytes_def try_owned_opendal_buffer_def buffer_len_of_def bytes_ok_def bind_eq_Ok run_basic
      split: if_splits)

lemma snapshot_ok:
  "metadata_snapshot_bytes alloc m x = (Ok bs, x') \<Longrightarrow> bytes_ok bs"
  "error_snapshot_bytes alloc e x = (Ok bs, x') \<Longrightarrow> bytes_ok bs"
proof -
  show "bytes_ok bs" if made: "metadata_snapshot_bytes alloc m x = (Ok bs, x')"
  proof -
    obtain v where v: "new_snapshot_view m = Inr v" "bs = snapshot_layout v"
      using made by (auto simp: metadata_snapshot_bytes_def encode_def bind_eq_Ok run_basic lift_res_def split: sum.splits)
    have "length (metadata_strings m) = 7" by (simp add: metadata_strings_def)
    with v(1) have "msv_strings v = metadata_strings m" "length (msv_lengths v) = 7"
      "84 + strings_len (metadata_strings m) \<le> 67108864"
      by (auto simp: new_snapshot_view_def res_bind_eq_Inr scan_strings_eq map_snd_zip_strings text_lengths_def
          Let_def split: if_splits)
    then show ?thesis using v(2) layout_fields(12) [of v] by (simp add: bytes_ok_def)
  qed
  show "bytes_ok bs" if made: "error_snapshot_bytes alloc e x = (Ok bs, x')"
    using made
    by (auto simp: error_snapshot_bytes_def Let_def u32_try_from_usize_def checked_add_usize32_def bind_eq_Ok run_basic
        bytes_ok_def split: if_splits option.splits)
qed

lemma stream_chunk_ok: "copy_stream_chunk api buffer n x = (Ok (chunk, rest), x') \<Longrightarrow> bytes_ok chunk"
  by (auto simp: copy_stream_chunk_def bind_eq_Ok run_basic Let_def dest: owned_bytes_ok split: prod.splits)

text \<open>\<open>yields m P\<close>: \<open>m\<close> always ends in \<open>Ok\<close>, with a value that satisfies \<open>P\<close>.\<close>

definition yields :: "('x, 'a) fut \<Rightarrow> ('a \<Rightarrow> bool) \<Rightarrow> bool" where
  "yields m P \<longleftrightarrow> (\<forall>x. wp m (\<lambda>a _. P a) (\<lambda>_ _. False) x)"

lemma yields_completion:
  assumes "calm m" and "\<And>x a x'. m x = (Ok a, x') \<Longrightarrow> completion_ok (mk (Inr a))" and "\<And>e. completion_ok (mk (Inl e))"
  shows "yields (map_completion mk m) completion_ok"
  using assms unfolding yields_def calm_def map_completion_def wp_simps
  by (fastforce simp: wp_def split: prod.splits outcome.splits)

lemma run_future_yields:
  assumes api: "calm_api api" and ok: "job_ok (TaskJob h f)"
  shows "yields (run_future api f) completion_ok"
proof (cases f)
  case (FutList operator path recursive limit start_after)
  show ?thesis
    unfolding FutList run_future.simps
    by (rule yields_completion [OF calm_collect_list [OF api]]) (auto intro: collect_list_ok)
next
  case (FutRead operator path options)
  have "calm_call (wa_read api operator path options)" using api by (simp add: calm_api_def)
  then show ?thesis
    unfolding FutRead run_future.simps
    by (intro yields_completion calm_intros) (auto simp: bind_eq_Ok dest: owned_bytes_ok)
next
  case (FutOpenReadStream operator path options rng max_chunk)
  have "calm_call (wa_reader api operator path options)" "\<And>reader. calm_call (wa_into_stream api reader rng)"
    using api by (simp_all add: calm_api_def)
  then show ?thesis
    using ok unfolding FutOpenReadStream run_future.simps
    by (intro yields_completion calm_intros) (auto simp: bind_eq_Ok run_basic)
next
  case (FutReady c)
  then show ?thesis using ok by (simp add: yields_def wp_simps)
qed (simp only: run_future.simps;
    rule yields_completion; (intro calm_intros)?; use api in \<open>simp add: calm_api_def\<close>)+

lemma calm_stream_chunk [calm_intros]: "calm (copy_stream_chunk api buffer n)"
  unfolding copy_stream_chunk_def by (intro calm_intros)

lemma yields_closure:
  assumes "calm m" and "\<And>x a x'. m x = (Ok a, x') \<Longrightarrow> yields (g (Inr a)) P" and "\<And>e. yields (g (Inl e)) P"
  shows "yields (bind (closure m) g) P"
  unfolding yields_def wp_simps
proof
  fix x
  obtain r x' where r: "m x = (r, x')" by (cases "m x")
  from calmD [OF assms(1), of x] r
  have "(\<exists>a. r = Ok a) \<or> (\<exists>e. r = Err e)" by (auto simp: wp_def split: outcome.splits)
  then show "wp m (\<lambda>a. wp (g (Inr a)) (\<lambda>a _. P a) (\<lambda>_ _. False))
      (\<lambda>e. wp (g (Inl e)) (\<lambda>a _. P a) (\<lambda>_ _. False)) x"
    using assms(2) [of x _ x'] assms(3) r by (auto simp: yields_def wp_def [of m])
qed

lemma yields_ret: "P a \<Longrightarrow> yields (ret a) P"
  by (simp add: yields_def wp_simps)

lemma stream_next_yields:
  assumes "calm_api api" and ok: "chunk_ok (rsc_max_chunk cursor)"
  shows "yields (wasm_read_stream_next api cursor) (\<lambda>(u, c). update_kind u = ReadStreamK \<and> update_ok u \<and> completion_ok c)"
proof -
  define outcome_of where "outcome_of cursor nxt =
     (case nxt of
        Inr (Some buffer) \<Rightarrow>
          bind (closure (copy_stream_chunk api buffer (rsc_max_chunk cursor))) (\<lambda>r.
            case r of
              Inr (chunk, remainder) \<Rightarrow>
                ret (StreamChange (StreamToOpen (cursor\<lparr>rsc_pending := remainder\<rparr>)),
                     CReadStreamNext (Inr (Some chunk)))
            | Inl error \<Rightarrow> ret (StreamChange StreamToFailed, CReadStreamNext (Inl error)))
      | Inr None \<Rightarrow> ret (StreamChange StreamToEnd, CReadStreamNext (Inr None))
      | Inl error \<Rightarrow> ret (StreamChange StreamToFailed, CReadStreamNext (Inl error)))" for cursor nxt
  have eq: "wasm_read_stream_next api cursor =
      bind (case rsc_pending cursor of
             Some buffer \<Rightarrow> ret (Inr (Some buffer))
           | None \<Rightarrow> closure (call_ext from_opendal (wa_stream_next api (rsc_stream cursor))))
        (outcome_of (cursor\<lparr>rsc_pending := None\<rparr>))" for cursor
    unfolding wasm_read_stream_next_def Let_def outcome_of_def by (rule refl)
  have d: "yields (outcome_of cursor nxt) (\<lambda>(u, c). update_kind u = ReadStreamK \<and> update_ok u \<and> completion_ok c)"
    if "chunk_ok (rsc_max_chunk cursor)" for cursor nxt
    using that unfolding outcome_of_def
    by (cases nxt; cases "projr nxt") (auto intro!: yields_ret yields_closure calm_intros, erule stream_chunk_ok)
  show ?thesis
  proof (cases "rsc_pending cursor")
    case None
    have "calm_call (wa_stream_next api (rsc_stream cursor))" using assms by (simp add: calm_api_def)
    then show ?thesis unfolding eq None option.case by (intro yields_closure calm_call_ext d) (simp_all add: ok)
  next
    case (Some buffer)
    then show ?thesis unfolding eq by (simp add: d ok)
  qed
qed

lemma run_resource_future_yields:
  assumes api: "calm_api api" and ok: "future_ok f"
  shows "yields (run_resource_future api f) (\<lambda>(u, c). update_kind u = future_kind f \<and> update_ok u \<and> completion_ok c)"
proof (cases f)
  case (FutStreamNext cursor)
  then show ?thesis using stream_next_yields [OF api, of cursor] ok by simp
next
  case (FutListerNext lister)
  have "calm_call (wa_lister_next api lister)" using api by (simp add: calm_api_def)
  then show ?thesis
    unfolding FutListerNext run_resource_future.simps
    by (intro yields_closure calm_call_ext)
      (auto intro!: yields_ret yields_closure calm_intros split: option.split elim!: entry_snapshot_ok)
qed (use api in \<open>auto simp: calm_api_def intro!: yields_ret yields_closure calm_intros\<close>)

end
