(* ===== verification/WasmSafety.thy ===== *)
theory WasmSafety
  imports WasmWp
begin

text \<open>
  The invariant of a bridge instance through its operations. \<open>safe\<close> computations keep it and end in
  \<open>Ok\<close> or \<open>Err\<close>; \<open>total\<close> ones keep it and end in \<open>Ok\<close>. The locale \<open>stateful\<close> is what the reservation of
  a stream, writer or lister needs to know about that kind of resource.
\<close>

section \<open>The invariant on a browser\<close>

definition bridge_ok :: "bool \<Rightarrow> 'x browser \<Rightarrow> bool" where
  \<comment> \<open>with the first argument true, the instance has also been torn down\<close>
  "bridge_ok T b \<longleftrightarrow>
     (T \<longrightarrow> st_torn_down (br_state b)) \<and> arena_wf (arena_of b) \<and> (st_torn_down (br_state b) \<longrightarrow> ar_slots (arena_of b) = []) \<and>
     map_inv (live_map (arena_of b)) (map sp_job (br_spawned b)) (st_next_resource_operation (br_state b))"

lemma live_map_no_slots: "ar_slots a = [] \<Longrightarrow> live_map a = Map.empty"
  by (rule ext) (simp add: live_map_eq split: sum.split)

lemma live_not_torn: "bridge_ok T b \<Longrightarrow> live_map (arena_of b) h = Some r \<Longrightarrow> \<not> st_torn_down (br_state b)"
  by (auto simp: bridge_ok_def live_map_no_slots)

lemma resources_okD: "bridge_ok T b \<Longrightarrow> live_map (arena_of b) h = Some r \<Longrightarrow> resource_ok r"
  by (auto simp: bridge_ok_def map_inv_def resources_ok_def)

lemma bridge_ok_cong:
  assumes "bridge_ok T b" and "arena_of b' = arena_of b" and "st_torn_down (br_state b') = st_torn_down (br_state b)"
    and "br_spawned b' = br_spawned b"
    and "st_next_resource_operation (br_state b') = st_next_resource_operation (br_state b)"
  shows "bridge_ok T b'"
  using assms by (simp add: bridge_ok_def)

lemma typed_eq:
  "typed sel k a h =
    (case live_map a h of
       None \<Rightarrow> Inl (InvalidHandle h)
     | Some r \<Rightarrow> (case sel r of Some v \<Rightarrow> Inr v | None \<Rightarrow> Inl (wrong_resource_type h k r)))"
  by (simp add: typed_def resource_eq split: option.split)

lemma typed_mut_eq:
  "typed_mut sel mk k a h =
    (case live_map a h of
       None \<Rightarrow> Inl (InvalidHandle h)
     | Some r \<Rightarrow>
         (case sel r of
            Some v \<Rightarrow> Inr (v, \<lambda>v'. store_put h (mk v') a) | None \<Rightarrow> Inl (wrong_resource_type h k r)))"
  by (simp add: typed_mut_def resource_mut_eq split: option.split)

lemma get_iff [simp]:
  "get_buffer r = Some b \<longleftrightarrow> r = ResBuffer b"
  "get_builder r = Some ob \<longleftrightarrow> r = ResOperatorBuilder ob"
  "get_operator r = Some t \<longleftrightarrow> r = ResOperator t"
  "get_metadata r = Some m \<longleftrightarrow> r = ResMetadata m"
  "get_error r = Some e \<longleftrightarrow> r = ResError e"
  "get_task r = Some tk \<longleftrightarrow> r = ResTask tk"
  "get_completion r = Some c \<longleftrightarrow> r = ResCompletion c"
  "get_entries r = Some es \<longleftrightarrow> r = ResEntryList es"
  "get_stream r = Some rs \<longleftrightarrow> r = ResReadStream rs"
  "get_writer r = Some ws \<longleftrightarrow> r = ResWriter ws"
  "get_lister r = Some ls \<longleftrightarrow> r = ResLister ls"
  by (cases r; auto)+

lemma typed_Inr: "typed sel k a h = Inr v \<longleftrightarrow> (\<exists>r. live_map a h = Some r \<and> sel r = Some v)"
  by (auto simp: typed_eq split: option.splits)

lemma typed_mut_Inr:
  "typed_mut sel mk k a h = Inr (v, put) \<longleftrightarrow>
     (\<exists>r. live_map a h = Some r \<and> sel r = Some v) \<and> put = (\<lambda>v'. store_put h (mk v') a)"
  by (auto simp: typed_mut_eq split: option.splits)

lemmas access_defs = arena_buffer_def arena_buffer_mut_def arena_operator_builder_def
  arena_operator_builder_mut_def arena_operator_def arena_metadata_def arena_error_def arena_task_def
  arena_task_mut_def arena_completion_def arena_entry_list_def arena_entry_list_mut_def
  arena_read_stream_mut_def arena_writer_mut_def arena_lister_mut_def

text \<open>Writing, adding and removing a resource.\<close>

lemma ok_put:
  assumes b: "bridge_ok T b" and "live_map (arena_of b) h = Some r0" and "droppable (live_map (arena_of b)) h"
    and "plain r" and "resource_ok r"
  shows "bridge_ok T (with_arena (store_put h r (arena_of b)) b)"
  using b live_not_torn [OF b assms(2)] inv_replace [OF _ assms(3-5)] store_laws(2) put_live [OF assms(2)]
  by (simp add: bridge_ok_def)

lemma insert_Inl:
  assumes "arena_wf a" and "arena_insert r a = (Inl e, a')"
  shows "a' = a \<and> \<not> can_insert a"
  using assms(1) by (cases rule: insert_cases [where r = r]) (use assms(2) in auto)

lemma ok_insert:
  assumes b: "bridge_ok T b" and "\<not> st_torn_down (br_state b)" and "plain r" and "resource_ok r"
    and ins: "arena_insert r (arena_of b) = (res, a')"
  shows "bridge_ok T (with_arena a' b)"
proof (cases res)
  case (Inl e)
  then show ?thesis using insert_Inl [of "arena_of b" r e a'] assms by (simp add: bridge_ok_def)
next
  case (Inr h)
  have wf: "arena_wf (arena_of b)" using b by (simp add: bridge_ok_def)
  from insert_live_map [OF wf] ins Inr
  have "live_map (arena_of b) h = None" "live_map a' = (live_map (arena_of b))(h \<mapsto> r)" by auto
  moreover have "arena_wf a'" using wf_insert [OF wf, of r] ins by simp
  ultimately show ?thesis using b assms(2) inv_insert [OF _ _ assms(3,4)] by (simp add: bridge_ok_def)
qed

lemma take_Inl: "arena_take h k a = (Inl e, a') \<Longrightarrow> a' = a"
  by (auto simp: take_eq split: option.splits if_splits)

lemma take_Inr:
  assumes "arena_wf a" and "arena_take h k a = (Inr r, a')"
  shows "live_map a h = Some r \<and> resource_kind r = k \<and> live_map a' = (live_map a)(h := None) \<and> arena_wf a'"
proof -
  have r: "live_map a h = Some r" "resource_kind r = k"
    using assms(2) by (auto simp: take_eq split: option.splits if_splits)
  show ?thesis using take_live [OF assms(1) r] r assms(2) by (metis Pair_inject)
qed

lemma ok_take:
  assumes b: "bridge_ok T b" and t: "arena_take h k (arena_of b) = (res, a')"
    and d: "droppable (live_map (arena_of b)) h \<or> k \<noteq> TaskK"
  shows "bridge_ok T (with_arena a' b)"
proof (cases res)
  case (Inl e)
  then have "a' = arena_of b" using take_Inl t by blast
  then show ?thesis using b by (simp add: bridge_ok_def)
next
  case (Inr r)
  have wf: "arena_wf (arena_of b)" using b by (simp add: bridge_ok_def)
  note facts = take_Inr [OF wf t [unfolded Inr]]
  have "droppable (live_map (arena_of b)) h" using d facts by (auto simp: droppable_def)
  then have "map_inv (live_map a') (map sp_job (br_spawned b)) (st_next_resource_operation (br_state b))"
    using facts b inv_remove by (simp add: bridge_ok_def)
  then show ?thesis using facts b live_not_torn [OF b, of h r] by (simp add: bridge_ok_def)
qed

section \<open>Safe computations\<close>

definition safe :: "('x, 'a) W \<Rightarrow> bool" where
  "safe m \<longleftrightarrow> (\<forall>T b. bridge_ok T b \<longrightarrow> wp m (\<lambda>_. bridge_ok T) (\<lambda>_. bridge_ok T) b)"

definition total :: "('x, 'a) W \<Rightarrow> bool" where
  "total m \<longleftrightarrow> (\<forall>T b. bridge_ok T b \<longrightarrow> wp m (\<lambda>_. bridge_ok T) (\<lambda>_ _. False) b)"

lemma safeI: "(\<And>T b. bridge_ok T b \<Longrightarrow> wp m (\<lambda>_. bridge_ok T) (\<lambda>_. bridge_ok T) b) \<Longrightarrow> safe m"
  by (simp add: safe_def)

lemma safeD: "safe m \<Longrightarrow> bridge_ok T b \<Longrightarrow> wp m (\<lambda>_. bridge_ok T) (\<lambda>_. bridge_ok T) b"
  by (simp add: safe_def)

lemma safe_basic [safe_intros]:
  "safe (ret a)"
  "safe (throw e)"
  "safe (lift_res r)"
  "safe (state_of f)"
  "safe (arena_read g)"
  by (simp_all add: safe_def wp_simps split: sum.split)

lemma safe_bind [safe_intros]: "safe m \<Longrightarrow> (\<And>a. safe (f a)) \<Longrightarrow> safe (bind m f)"
  unfolding safe_def wp_simps by (blast intro: wp_mono)

lemma safe_if [safe_intros]: "(p \<Longrightarrow> safe m) \<Longrightarrow> (\<not> p \<Longrightarrow> safe k) \<Longrightarrow> safe (if p then m else k)"
  by simp

lemma safe_option [safe_intros]: "safe m \<Longrightarrow> (\<And>a. safe (f a)) \<Longrightarrow> safe (case v of None \<Rightarrow> m | Some a \<Rightarrow> f a)"
  by (cases v) simp_all

lemma safe_prod [safe_intros]: "(\<And>a b. safe (f a b)) \<Longrightarrow> safe (case v of (a, b) \<Rightarrow> f a b)"
  by (cases v) simp

lemma wp_on_ext:
  assumes "calm m" and "\<And>a x. Q a (b\<lparr>br_ext := x\<rparr>)" and "\<And>e x. E e (b\<lparr>br_ext := x\<rparr>)"
  shows "wp (on_ext m) Q E b"
  using calmD [OF assms(1), of "br_ext b"] assms(2,3)
  by (auto simp: wp_def on_ext_def split: prod.splits outcome.splits)

lemma safe_on_ext [safe_intros]: "calm m \<Longrightarrow> safe (on_ext m)"
  by (intro safeI wp_on_ext) (auto elim: bridge_ok_cong)

lemma safe_insert_resource [safe_intros]: "plain r \<Longrightarrow> resource_ok r \<Longrightarrow> safe (insert_resource r)"
  by (auto simp: safe_def insert_resource_def wp_simps intro: ok_insert split: prod.split sum.split)

lemma safe_insert_buffer [safe_intros]: "safe (insert_buffer bytes)"
  unfolding insert_buffer_def by (intro safe_intros) (simp_all add: bytes_ok_def)

text \<open>\<open>safe_with m P\<close>: \<open>m\<close> is safe, and what it returns satisfies \<open>P\<close>.\<close>

definition safe_with :: "('x, 'a) W \<Rightarrow> ('a \<Rightarrow> bool) \<Rightarrow> bool" where
  "safe_with m P \<longleftrightarrow> (\<forall>T b. bridge_ok T b \<longrightarrow> wp m (\<lambda>a b'. P a \<and> bridge_ok T b') (\<lambda>_. bridge_ok T) b)"

lemma safe_bind_with: "safe_with m P \<Longrightarrow> (\<And>a. P a \<Longrightarrow> safe (f a)) \<Longrightarrow> safe (bind m f)"
  unfolding safe_def safe_with_def wp_simps by (blast intro: wp_mono)

lemma safe_with_intros:
  "P a \<Longrightarrow> safe_with (ret a) P"
  "safe_with (throw e) P'"
  "safe m \<Longrightarrow> (\<And>a. safe_with (f a) P'') \<Longrightarrow> safe_with (bind m f) P''"
  "(c \<Longrightarrow> safe_with k Q) \<Longrightarrow> (\<not> c \<Longrightarrow> safe_with l Q) \<Longrightarrow> safe_with (if c then k else l) Q"
  unfolding safe_def safe_with_def wp_simps by (simp_all, blast intro: wp_mono)

lemma safe_with_on_ext:
  assumes "calm m" and "\<And>x a x'. m x = (Ok a, x') \<Longrightarrow> P a"
  shows "safe_with (on_ext m) P"
  unfolding safe_with_def
proof (intro allI impI)
  fix T and b :: "'a browser"
  assume "bridge_ok T b"
  then have "bridge_ok T (b\<lparr>br_ext := x\<rparr>)" for x by (rule bridge_ok_cong) simp_all
  then show "wp (on_ext m) (\<lambda>a b'. P a \<and> bridge_ok T b') (\<lambda>_. bridge_ok T) b"
    using calmD [OF assms(1), of "br_ext b"] assms(2)
    by (auto simp: wp_def on_ext_def split: prod.splits outcome.splits)
qed

lemma ok_error: "bridge_ok T b \<Longrightarrow> bridge_ok T (b\<lparr>br_state := (br_state b)\<lparr>st_last_error := e\<rparr>\<rparr>)"
  by (simp add: bridge_ok_def)

lemma total_record: "total (record_error e)"
  by (simp add: total_def record_error_def wp_simps ok_error)

lemma total_status [safe_intros]: "safe m \<Longrightarrow> total (status m)"
  unfolding total_def status_def wp_simps
  by (intro allI impI, rule wp_mono, erule (1) safeD) (simp_all add: record_error_def wp_simps ok_error)

lemma total_or_record [safe_intros]: "safe m \<Longrightarrow> total (or_record v m)"
  unfolding total_def or_record_def wp_simps
  by (intro allI impI, rule wp_mono, erule (1) safeD) (simp_all add: record_error_def wp_simps ok_error)

lemma total_handle [safe_intros]: "safe m \<Longrightarrow> total (handle_or_record_error m)"
  by (simp add: handle_or_record_error_def total_or_record)

lemma total_bind [safe_intros]: "total m \<Longrightarrow> (\<And>a. total (f a)) \<Longrightarrow> total (bind m f)"
  unfolding total_def wp_simps by (blast intro: wp_mono)

lemma total_basic [safe_intros]: "total (ret a)" "total (state_of f)"
  by (simp_all add: total_def wp_simps)

lemma total_if [safe_intros]: "total m \<Longrightarrow> total k \<Longrightarrow> total (if p then m else k)"
  by simp

lemma total_release [safe_intros]: "k \<noteq> TaskK \<Longrightarrow> total (release_resource h k)"
  unfolding release_resource_def
  by (intro total_status)
    (auto simp: safe_def wp_simps arena_release_def intro: ok_take split: prod.split sum.split)

definition with_spawned :: "Job \<Rightarrow> 'x browser \<Rightarrow> 'x browser" where
  "with_spawned job b = b\<lparr>br_spawned := br_spawned b @ [\<lparr>sp_job = job,
     sp_force_pending = st_force_pending_for_canary (br_state b), sp_pending_seen = False\<rparr>]\<rparr>"

lemma wp_spawn_local [wp_simps]: "wp (spawn_local job) Q E b = Q () (with_spawned job b)"
  by (simp add: wp_def spawn_local_def bind_def state_of_def with_spawned_def)

lemma spawn_simps [simp]:
  "br_state (with_spawned job b) = br_state b"
  "map sp_job (br_spawned (with_spawned job b)) = map sp_job (br_spawned b) @ [job]"
  by (simp_all add: with_spawned_def)

lemma safe_start_task [safe_intros]:
  assumes "\<And>h. job_ok (TaskJob h f)"
  shows "safe (start_task f)"
proof (rule safeI)
  fix T and b :: "'a browser"
  assume b: "bridge_ok T b"
  let ?r = "ResTask (PendingTask None)"
  have wf: "arena_wf (arena_of b)" using b by (simp add: bridge_ok_def)
  obtain res a' where ins: "arena_insert ?r (arena_of b) = (res, a')" by (cases "arena_insert ?r (arena_of b)")
  show "wp (start_task f) (\<lambda>_. bridge_ok T) (\<lambda>_. bridge_ok T) b"
  proof (cases "st_torn_down (br_state b)")
    case True
    then show ?thesis using b by (simp add: start_task_def insert_resource_def wp_simps)
  next
    case False
    show ?thesis
    proof (cases res)
      case (Inl e)
      then have "a' = arena_of b" using insert_Inl [OF wf] ins by blast
      then show ?thesis using b False Inl ins
        by (simp add: start_task_def insert_resource_def wp_simps bridge_ok_def)
    next
      case (Inr h)
      then have "live_map (arena_of b) h = None" "live_map a' = (live_map (arena_of b))(h \<mapsto> ?r)" "arena_wf a'"
        using insert_live_map [OF wf] wf_insert [OF wf, of ?r] ins by auto
      then have "bridge_ok T (with_spawned (TaskJob h f) (with_arena a' b))"
        using b False inv_start_task [OF _ _ assms] by (simp add: bridge_ok_def)
      then show ?thesis using False Inr ins by (simp add: start_task_def insert_resource_def wp_simps)
    qed
  qed
qed

section \<open>Reservations\<close>

lemma can_insert_put: "live_map a h = Some r \<Longrightarrow> can_insert (store_put h r' a) = can_insert a"
proof -
  assume "live_map a h = Some r"
  then obtain i where d: "decode_handle h = Inr (i, sl_generation (ar_slots a ! i))"
    and i: "i < length (ar_slots a)" "sl_resource (ar_slots a ! i) = Some r" and l: "live_map a h = Some r"
    by (auto elim: live_mapE)
  have "slot_free ((ar_slots a)[i := (ar_slots a ! i)\<lparr>sl_resource := Some r'\<rparr>] ! j) = slot_free (ar_slots a ! j)"
    if "j < length (ar_slots a)" for j
    using i that by (cases "j = i") (simp_all add: slot_free_def)
  then show ?thesis
    by (simp add: store_put_eq l d fill_slot_def can_insert_def list_ex_iff Bex_def in_set_conv_nth) (metis (no_types, lifting))
qed

locale stateful =
  fixes sel :: "Resource \<Rightarrow> 's option" and mk :: "'s \<Rightarrow> Resource" and k :: ResourceKind
    and seat_of :: "'s \<Rightarrow> 'a seat" and busy :: "u64 \<Rightarrow> 's" and reopen :: "'a \<Rightarrow> u64 \<Rightarrow> 's"
    and inner_ok :: "'a \<Rightarrow> bool"
  assumes sel_mk: "sel r = Some v \<longleftrightarrow> r = mk v"
    and mk_kind: "resource_kind (mk v) = k"
    and stateful_kind: "k \<noteq> TaskK"
    and busy_ok: "resource_ok (mk (busy n))"
    and open_ok: "resource_ok (mk (reopen inner n)) \<Longrightarrow> inner_ok inner"
    and busy_mk: "busy_lease h (mk (busy n)) = Some \<lparr>ls_handle = h, ls_kind = k, ls_operation = n\<rparr>"
    and seat_open: "seat_of v = SeatOpen inner n \<longleftrightarrow> v = reopen inner n"
begin

abbreviation (input) reserve_it where
  "reserve_it \<equiv> reserve (typed_mut sel mk k) seat_of busy reopen k"

lemma mk_not_task: "mk v \<noteq> ResTask t"
  using mk_kind [of v] stateful_kind by auto

lemma reserved_ok:
  assumes b: "bridge_ok T b" and h: "live_map (arena_of b) h = Some (mk v)"
    and n: "st_next_resource_operation (br_state b) < n"
    and ins: "arena_insert (ResTask (PendingTask (Some \<lparr>ls_handle = h, ls_kind = k, ls_operation = n\<rparr>)))
        (store_put h (mk (busy n)) (arena_of b)) = (Inr t, a')"
    and f: "future_kind f = k" "future_ok f"
    and b': "arena_of b' = a'" "st_torn_down (br_state b') = st_torn_down (br_state b)"
      "st_next_resource_operation (br_state b') = n" "br_spawned b' = br_spawned b"
  shows "bridge_ok T (with_spawned (ResourceJob t \<lparr>ls_handle = h, ls_kind = k, ls_operation = n\<rparr> f) b')"
proof -
  let ?l = "\<lparr>ls_handle = h, ls_kind = k, ls_operation = n\<rparr>" and ?a = "store_put h (mk (busy n)) (arena_of b)"
  have wf: "arena_wf (arena_of b)" using b by (simp add: bridge_ok_def)
  then have wf1: "arena_wf ?a" by (rule store_laws(2))
  have M: "live_map ?a = (live_map (arena_of b))(h \<mapsto> mk (busy n))" using h by (rule put_live)
  from insert_live_map [OF wf1 ins] have t: "live_map (arena_of b) t = None" and M': "live_map a' =
      (live_map (arena_of b))(h \<mapsto> mk (busy n), t \<mapsto> ResTask (PendingTask (Some ?l)))"
    using M by (auto split: if_splits)
  have "map_inv (live_map a') (map sp_job (br_spawned b) @ [ResourceJob t ?l f]) (ls_operation ?l)"
    unfolding M' using b t n f busy_mk [of h n]
    by (intro inv_reserve [where r = "mk v"]) (simp_all add: bridge_ok_def mk_not_task busy_ok h)
  moreover have "arena_wf a'" using wf_insert [OF wf1] ins by (metis snd_conv)
  ultimately show ?thesis using b b' live_not_torn [OF b h] by (simp add: bridge_ok_def)
qed

text \<open>What a reservation does, case by case.\<close>

lemma wp_reserve:
  assumes b: "bridge_ok T b"
    and failed: "\<And>e n. st_next_resource_operation (br_state b) \<le> n \<Longrightarrow>
      E e (b\<lparr>br_state := (br_state b)\<lparr>st_next_resource_operation := n\<rparr>\<rparr>)"
    and reserved: "\<And>inner m n t a'. \<not> st_torn_down (br_state b) \<Longrightarrow>
      live_map (arena_of b) h = Some (mk (reopen inner m)) \<Longrightarrow>
      st_next_resource_operation (br_state b) < n \<Longrightarrow>
      unat n = Suc (unat (st_next_resource_operation (br_state b))) \<Longrightarrow>
      arena_insert (ResTask (PendingTask (Some \<lparr>ls_handle = h, ls_kind = k, ls_operation = n\<rparr>)))
        (store_put h (mk (busy n)) (arena_of b)) = (Inr t, a') \<Longrightarrow>
      Q (t, \<lparr>ls_handle = h, ls_kind = k, ls_operation = n\<rparr>, inner)
        (with_arena a' (b\<lparr>br_state := (br_state b)\<lparr>st_next_resource_operation := n\<rparr>\<rparr>))"
  shows "wp (reserve_it h) Q E b"
proof -
  let ?n = "st_next_resource_operation (br_state b)"
  have wf: "arena_wf (arena_of b)" using b by (simp add: bridge_ok_def)
  have same: "E e b" for e using failed [of ?n e] by simp
  consider (refused) "st_torn_down (br_state b) \<or> \<not> can_insert (arena_of b) \<or> checked_add_u64 ?n 1 = None"
    | (go) n where "\<not> st_torn_down (br_state b)" "can_insert (arena_of b)" "checked_add_u64 ?n 1 = Some n"
    by blast
  then show ?thesis
  proof cases
    case refused
    then show ?thesis using same by (auto simp: reserve_def allocate_resource_operation_def wp_simps)
  next
    case go
    then have n: "?n < n" "unat n = Suc (unat ?n)" by (auto simp: checked_add_u64_Some word_less_nat_alt)
    let ?b = "b\<lparr>br_state := (br_state b)\<lparr>st_next_resource_operation := n\<rparr>\<rparr>"
    have fail: "E e ?b" for e using failed [of n e] n(1) by (simp add: order.strict_implies_order)
    show ?thesis
    proof (cases "\<exists>inner m. live_map (arena_of b) h = Some (mk (reopen inner m))")
      case False
      then show ?thesis using go fail
        by (auto simp: reserve_def allocate_resource_operation_def wp_simps typed_mut_eq sel_mk seat_open
            split: option.split seat.split)
    next
      case True
      then obtain inner m where h: "live_map (arena_of b) h = Some (mk (reopen inner m))" by blast
      let ?l = "\<lparr>ls_handle = h, ls_kind = k, ls_operation = n\<rparr>"
      let ?a = "store_put h (mk (busy n)) (arena_of b)"
      have "arena_wf ?a" "can_insert ?a" using wf go(2) h by (simp_all add: store_laws(2) can_insert_put)
      then obtain t a' where ins: "arena_insert (ResTask (PendingTask (Some ?l))) ?a = (Inr t, a')"
        using insert_can [of ?a "ResTask (PendingTask (Some ?l))"] by (metis prod.collapse)
      have seat: "sel (mk (reopen inner m)) = Some (reopen inner m)" "seat_of (reopen inner m) = SeatOpen inner m"
        by (simp_all add: sel_mk seat_open)
      show ?thesis using reserved [OF go(1) h n ins] go ins h
        by (simp add: reserve_def allocate_resource_operation_def wp_simps typed_mut_eq seat Let_def)
    qed
  qed
qed

lemma reserve_safe:
  assumes "\<And>inner. inner_ok inner \<Longrightarrow> future_kind (fut inner) = k \<and> future_ok (fut inner)"
  shows "safe (bind (reserve_it h) (\<lambda>(task, lease, inner).
    bind (spawn_resource_task task lease (fut inner)) (\<lambda>_. ret task)))"
proof (rule safeI)
  fix T and b :: "'b browser"
  assume b: "bridge_ok T b"
  show "wp (bind (reserve_it h) (\<lambda>(task, lease, inner).
    bind (spawn_resource_task task lease (fut inner)) (\<lambda>_. ret task))) (\<lambda>_. bridge_ok T) (\<lambda>_. bridge_ok T) b"
    unfolding wp_simps
  proof (rule wp_reserve [OF b])
    fix e :: BridgeError and n
    assume "st_next_resource_operation (br_state b) \<le> n"
    then show "bridge_ok T (b\<lparr>br_state := (br_state b)\<lparr>st_next_resource_operation := n\<rparr>\<rparr>)"
      using b inv_next by (auto simp: bridge_ok_def)
  qed (auto simp: spawn_resource_task_def wp_simps assms open_ok [OF resources_okD [OF b]] intro!: reserved_ok [OF b])
qed

end

interpretation stream: stateful get_stream ResReadStream ReadStreamK stream_seat RsBusy RsOpen
  "\<lambda>cursor. chunk_ok (rsc_max_chunk cursor)"
proof unfold_locales
  show "stream_seat v = SeatOpen inner n \<longleftrightarrow> v = RsOpen inner n" for v inner n by (cases v) auto
qed auto

interpretation writer: stateful get_writer ResWriter WriterK writer_seat WrBusy WrOpen "\<lambda>_. True"
proof unfold_locales
  show "writer_seat v = SeatOpen inner n \<longleftrightarrow> v = WrOpen inner n" for v inner n by (cases v) auto
qed auto

interpretation lister: stateful get_lister ResLister ListerK lister_seat LsBusy LsOpen "\<lambda>_. True"
proof unfold_locales
  show "lister_seat v = SeatOpen inner n \<longleftrightarrow> v = LsOpen inner n" for v inner n by (cases v) auto
qed auto

section \<open>Tasks\<close>

lemma held_by_kind: "held_by l r \<Longrightarrow> ls_kind l = resource_kind r"
  by (cases "(l, r)" rule: held_by.cases) auto

lemma terminalize_live_map:
  "live_map (terminalize_lease l a) = after_terminalize l (live_map a) \<and> (arena_wf a \<longrightarrow> arena_wf (terminalize_lease l a))"
proof (cases "live_map a (ls_handle l)")
  case None
  then show ?thesis
    by (simp add: terminalize_lease_def access_defs typed_mut_eq after_terminalize_def split: ResourceKind.split)
next
  case (Some r)
  have put: "live_map (store_put (ls_handle l) r' a) = (live_map a)(ls_handle l \<mapsto> r')" for r'
    using Some by (rule put_live)
  show ?thesis
    by (cases r; cases "ls_kind l")
      (auto simp: terminalize_lease_def access_defs typed_mut_eq after_terminalize_def Some put store_laws(2)
        dest: held_by_kind split: ReadStreamState.split WriterState.split ListerState.split)
qed

lemma wp_terminalize_task:
  assumes b: "bridge_ok T b" and missing: "\<And>e. E e b"
    and found: "\<And>b'. bridge_ok T b' \<Longrightarrow> droppable (live_map (arena_of b')) h \<Longrightarrow> Q () b'"
  shows "wp (terminalize_task h) Q E b"
proof (cases "\<exists>t. live_map (arena_of b) h = Some (ResTask t)")
  case False
  then show ?thesis using missing
    by (auto simp: terminalize_task_def wp_simps access_defs typed_eq split: option.split)
next
  case True
  then obtain t where t: "live_map (arena_of b) h = Some (ResTask t)" by blast
  show ?thesis
  proof (cases "task_lease t")
    case None
    then have "droppable (live_map (arena_of b)) h" using t by (auto simp: droppable_def)
    then show ?thesis using t None found [OF b]
      by (simp add: terminalize_task_def wp_simps access_defs typed_eq)
  next
    case (Some l)
    let ?b = "with_arena (terminalize_lease l (arena_of b)) b"
    have "bridge_ok T ?b"
      using b terminalize_live_map [of l "arena_of b"] inv_terminalize live_not_torn [OF b t]
      by (auto simp: bridge_ok_def)
    moreover have "droppable (live_map (arena_of ?b)) h"
      using terminalize_live_map [of l "arena_of b"] terminalize_droppable [where M = "live_map (arena_of b)", OF t, of l] Some by simp
    ultimately have "Q () ?b" by (rule found)
    then show ?thesis using t Some
      by (simp add: terminalize_task_def wp_simps access_defs typed_eq with_arena_def)
  qed
qed

lemma total_task_cancel [safe_intros]: "total (opendal_mbt_wasm_task_cancel h)"
  unfolding opendal_mbt_wasm_task_cancel_def
proof (intro total_status safeI)
  fix T and b :: "'a browser"
  assume b: "bridge_ok T b"
  show "wp (bind (terminalize_task h) (\<lambda>_.
       bind (arena_read (\<lambda>a. arena_task_mut a h)) (\<lambda>(task, put).
         case task of
           PendingTask _ \<Rightarrow> set_arena (put CancelledTask)
         | ReadyTask _ _ \<Rightarrow> set_arena (put CancelledTask)
         | CancelledTask \<Rightarrow> ret ()
         | ConsumedTask \<Rightarrow> ret ()))) (\<lambda>_. bridge_ok T) (\<lambda>_. bridge_ok T) b"
    unfolding wp_basic(5) [of "terminalize_task h"]
    by (rule wp_terminalize_task [OF b])
      (auto simp: wp_simps access_defs typed_mut_eq b intro!: ok_put split: option.split Task.split)
qed

lemma total_task_release [safe_intros]: "total (opendal_mbt_wasm_task_release h)"
  unfolding opendal_mbt_wasm_task_release_def
proof (intro total_status safeI)
  fix T and b :: "'a browser"
  assume b: "bridge_ok T b"
  show "wp (bind (terminalize_task h) (\<lambda>_. arena_call (arena_release h TaskK))) (\<lambda>_. bridge_ok T) (\<lambda>_. bridge_ok T) b"
    unfolding wp_basic(5) [of "terminalize_task h"]
    by (rule wp_terminalize_task [OF b])
      (auto simp: wp_simps arena_release_def b intro: ok_take split: prod.split sum.split)
qed

lemma total_task_take [safe_intros]: "total (opendal_mbt_wasm_task_take h)"
  unfolding opendal_mbt_wasm_task_take_def
proof (intro total_handle safeI)
  fix T and b :: "'a browser"
  assume b: "bridge_ok T b"
  have ready: "bridge_ok T (with_arena a' b)"
    if t: "live_map (arena_of b) h = Some (ResTask (ReadyTask c l))"
      and ins: "arena_insert (ResCompletion c) (store_put h (ResTask ConsumedTask) (arena_of b)) = (res, a')"
    for c l res a'
  proof -
    let ?b = "with_arena (store_put h (ResTask ConsumedTask) (arena_of b)) b"
    have "bridge_ok T ?b" using t by (intro ok_put [OF b]) (simp_all add: droppable_def)
    moreover have "completion_ok c"
      using b t unfolding bridge_ok_def map_inv_def resources_ok_def by (metis resource_ok.simps(4))
    ultimately show ?thesis using ins live_not_torn [OF b t] ok_insert [of T ?b "ResCompletion c" res a'] by simp
  qed
  show "wp (bind (state_of (\<lambda>s. can_insert (st_arena s))) (\<lambda>room.
          if \<not> room then throw HandleLimit
          else
            bind (arena_read (\<lambda>a. arena_task_mut a h)) (\<lambda>(task, put).
              case task of
                ReadyTask completion _ \<Rightarrow>
                  bind (set_arena (put ConsumedTask)) (\<lambda>_. arena_call (arena_insert (ResCompletion completion)))
              | PendingTask lease \<Rightarrow> throw (TaskNotReady h)
              | CancelledTask \<Rightarrow> throw (TaskNotReady h)
              | ConsumedTask \<Rightarrow> throw (TaskConsumed h)))) (\<lambda>_. bridge_ok T) (\<lambda>_. bridge_ok T) b"
    by (auto simp: wp_simps access_defs typed_mut_eq b intro: ready split: option.split Task.split prod.split sum.split)
qed

section \<open>Taking results\<close>

lemma wp_take_replace:
  assumes b: "bridge_ok T b" and k: "k \<noteq> TaskK" and stay: "\<And>e. E e b"
    and taken: "\<And>r b'. bridge_ok T b' \<Longrightarrow> \<not> st_torn_down (br_state b') \<Longrightarrow> can_insert (arena_of b') \<Longrightarrow>
      live_map (arena_of b) h = Some r \<Longrightarrow> resource_kind r = k \<Longrightarrow> Q r b'"
  shows "wp (bind (arena_read (\<lambda>a. ensure_insert_capacity_after_take a h k)) (\<lambda>_. arena_call (arena_take h k))) Q E b"
proof (cases "ensure_insert_capacity_after_take (arena_of b) h k")
  case (Inl e)
  then show ?thesis by (simp add: wp_simps stay)
next
  case (Inr u)
  have wf: "arena_wf (arena_of b)" using b by (simp add: bridge_ok_def)
  obtain r a' where t: "arena_take h k (arena_of b) = (Inr r, a')" "resource_kind r = k" "can_insert a'"
    using replace_capacity [OF wf, of h k] Inr by (metis old.unit.exhaust)
  have "bridge_ok T (with_arena a' b)" using ok_take [OF b t(1)] k by simp
  moreover have "live_map (arena_of b) h = Some r" using take_Inr [OF wf t(1)] by simp
  ultimately have "Q r (with_arena a' b)" using t live_not_torn [OF b] by (intro taken) auto
  then show ?thesis using Inr t by (simp add: wp_simps)
qed

lemma wp_take_completion:
  assumes b: "bridge_ok T b" and stay: "\<And>e. E e b"
    and taken: "\<And>c b'. bridge_ok T b' \<Longrightarrow> completion_kind c = expected \<Longrightarrow> completion_error c = None \<Longrightarrow>
      completion_ok c \<Longrightarrow> \<not> st_torn_down (br_state b') \<Longrightarrow> \<not> oversized c \<Longrightarrow>
      (needs \<longrightarrow> can_insert (arena_of b')) \<Longrightarrow> live_map (arena_of b) h = Some (ResCompletion c) \<Longrightarrow> Q c b'"
  shows "wp (take_successful_completion h expected needs) Q E b"
proof (cases "\<exists>c. live_map (arena_of b) h = Some (ResCompletion c)")
  case False
  then show ?thesis using stay
    by (auto simp: take_successful_completion_def wp_simps access_defs typed_eq split: option.split)
next
  case True
  then obtain c where c: "live_map (arena_of b) h = Some (ResCompletion c)" by blast
  then have ok: "completion_ok c"
    using b unfolding bridge_ok_def map_inv_def resources_ok_def by (metis resource_ok.simps(3))
  have wf: "arena_wf (arena_of b)" using b by (simp add: bridge_ok_def)
  show ?thesis
  proof (cases "completion_kind c = expected \<and> completion_error c = None \<and> \<not> oversized c")
    case False
    then show ?thesis using stay c
      by (auto simp: take_successful_completion_def wp_simps access_defs typed_eq split: option.split)
  next
    case good: True
    show ?thesis
    proof (cases needs)
      case True
      have "wp (bind (bind (arena_read (\<lambda>a. ensure_insert_capacity_after_take a h CompletionK))
            (\<lambda>_. arena_call (arena_take h CompletionK)))
          (\<lambda>r. case r of ResCompletion c \<Rightarrow> ret c | _ \<Rightarrow> panic)) Q E b"
        unfolding wp_basic(5) [of "bind _ _"]
        by (rule wp_take_replace [OF b]) (use c good ok stay in \<open>auto simp: wp_simps intro!: taken\<close>)
      then show ?thesis using c good True
        by (auto simp: take_successful_completion_def wp_simps access_defs typed_eq split: sum.splits prod.splits)
    next
      case False
      obtain a' where t: "arena_take h CompletionK (arena_of b) = (Inr (ResCompletion c), a')"
        using take_live [OF wf c] by (metis resource_kind.simps(7))
      have "bridge_ok T (with_arena a' b)" using ok_take [OF b t] by simp
      then have "Q c (with_arena a' b)" using c good ok False live_not_torn [OF b c] by (intro taken) auto
      then show ?thesis using c good False t
        by (simp add: take_successful_completion_def wp_simps access_defs typed_eq)
    qed
  qed
qed

lemma wp_insert:
  assumes "bridge_ok T b" and "\<not> st_torn_down (br_state b)" and "plain r" and "resource_ok r"
  shows "wp (arena_call (arena_insert r)) (\<lambda>_. bridge_ok T) (\<lambda>_. bridge_ok T) b"
  using assms by (auto simp: wp_simps intro: ok_insert split: prod.split sum.split)

lemma wp_insert_or_panic:
  assumes "bridge_ok T b" and "\<not> st_torn_down (br_state b)" and "can_insert (arena_of b)" and "plain r" and "resource_ok r"
  shows "wp (insert_or_panic r) (\<lambda>_. bridge_ok T) (\<lambda>_. bridge_ok T) b"
proof -
  have "arena_wf (arena_of b)" using assms(1) by (simp add: bridge_ok_def)
  with assms(3) obtain h a' where i: "arena_insert r (arena_of b) = (Inr h, a')"
    using insert_can [of "arena_of b" r] by (metis prod.collapse)
  then show ?thesis using ok_insert [OF assms(1,2,4,5) i] by (simp add: insert_or_panic_def wp_simps)
qed

definition stores :: "('x, 'a) W \<Rightarrow> bool" where
  "stores m \<longleftrightarrow> (\<forall>T b. bridge_ok T b \<longrightarrow> \<not> st_torn_down (br_state b) \<longrightarrow> wp m (\<lambda>_. bridge_ok T) (\<lambda>_. bridge_ok T) b)"

lemma stores_intros:
  "plain r \<Longrightarrow> resource_ok r \<Longrightarrow> stores (arena_call (arena_insert r))"
  "plain r \<Longrightarrow> resource_ok r \<Longrightarrow> stores (insert_resource r)"
  "stores (insert_buffer bytes)"
  "stores (ret v)"
  by (simp_all add: stores_def wp_insert safeD safe_intros wp_simps(1))

lemma safe_insert_taken:
  assumes "\<And>c. completion_kind c = expected \<Longrightarrow> completion_error c = None \<Longrightarrow> completion_ok c \<Longrightarrow> stores (g c)"
  shows "safe (bind (take_successful_completion h expected needs) g)"
proof (rule safeI)
  fix T and b :: "'a browser"
  assume b: "bridge_ok T b"
  show "wp (bind (take_successful_completion h expected needs) g) (\<lambda>_. bridge_ok T) (\<lambda>_. bridge_ok T) b"
    unfolding wp_simps by (rule wp_take_completion [OF b]) (use b assms in \<open>simp_all add: stores_def\<close>)
qed

lemma err_of_simps [simp]: "err_of (Inr v) = None" "err_of (Inl e) = Some e"
  by (simp_all add: err_of_def)

lemma err_of_None: "err_of r = None \<longleftrightarrow> (\<exists>v. r = Inr v)"
  by (cases r) (simp_all add: err_of_def)

lemma completion_shape:
  "completion_kind c = COMPLETION_READ \<Longrightarrow> completion_error c = None \<Longrightarrow> \<exists>v. c = CRead (Inr v)"
  "completion_kind c = COMPLETION_READER_NEXT \<Longrightarrow> completion_error c = None \<Longrightarrow> \<exists>v. c = CReadStreamNext (Inr v)"
  "completion_kind c = COMPLETION_STAT \<Longrightarrow> completion_error c = None \<Longrightarrow> \<exists>v. c = CStat (Inr v)"
  "completion_kind c = COMPLETION_COPY \<Longrightarrow> completion_error c = None \<Longrightarrow> \<exists>v. c = CCopy (Inr v)"
  "completion_kind c = COMPLETION_WRITER_FINISH \<Longrightarrow> completion_error c = None \<Longrightarrow> \<exists>v. c = CWriterFinish (Inr v)"
  "completion_kind c = COMPLETION_LIST \<Longrightarrow> completion_error c = None \<Longrightarrow> \<exists>v. c = CList (Inr v)"
  "completion_kind c = COMPLETION_LISTER_NEXT \<Longrightarrow> completion_error c = None \<Longrightarrow> \<exists>v. c = CListerNext (Inr v)"
  "completion_kind c = COMPLETION_OPEN_READER \<Longrightarrow> completion_error c = None \<Longrightarrow> \<exists>v. c = COpenReadStream (Inr v)"
  "completion_kind c = COMPLETION_OPEN_WRITER \<Longrightarrow> completion_error c = None \<Longrightarrow> \<exists>v. c = COpenWriter (Inr v)"
  "completion_kind c = COMPLETION_OPEN_LISTER \<Longrightarrow> completion_error c = None \<Longrightarrow> \<exists>v. c = COpenLister (Inr v)"
  by (cases c; auto simp: err_of_None)+

lemma total_take_open [safe_intros]:
  "total (opendal_mbt_wasm_completion_take_read_stream h)"
  "total (opendal_mbt_wasm_completion_take_writer h)"
  "total (opendal_mbt_wasm_completion_take_lister h)"
  unfolding opendal_mbt_wasm_completion_take_read_stream_def opendal_mbt_wasm_completion_take_writer_def
    opendal_mbt_wasm_completion_take_lister_def
  by (intro total_handle safe_insert_taken; drule (1) completion_shape(8-10); auto intro!: stores_intros)+

lemma total_take_buffer [safe_intros]: "total (opendal_mbt_wasm_completion_take_buffer h)"
  unfolding opendal_mbt_wasm_completion_take_buffer_def completion_is_end_value_def
  by (intro total_handle safe_bind [of "arena_read _"] safe_basic safe_if safe_insert_taken;
      drule (1) completion_shape(1,2); auto intro!: stores_intros split: option.split)

lemma total_take_metadata [safe_intros]: "total (opendal_mbt_wasm_completion_take_metadata h)"
proof -
  have "stores (case c of
          CStat (Inr metadata) \<Rightarrow> arena_call (arena_insert (ResMetadata metadata))
        | CCopy (Inr metadata) \<Rightarrow> arena_call (arena_insert (ResMetadata metadata))
        | CWriterFinish (Inr metadata) \<Rightarrow> arena_call (arena_insert (ResMetadata metadata))
        | _ \<Rightarrow> panic)"
    if "completion_kind c = k" "completion_error c = None"
      "k = COMPLETION_STAT \<or> k = COMPLETION_COPY \<or> k = COMPLETION_WRITER_FINISH" for c k
    using that completion_shape(3-5) [of c] by (auto intro!: stores_intros)
  then show ?thesis
    unfolding opendal_mbt_wasm_completion_take_metadata_def
    by (intro total_handle safe_bind [of "arena_read _"] safe_basic safe_if safe_insert_taken) blast
qed

lemma total_take_entry_list [safe_intros]: "total (opendal_mbt_wasm_completion_take_entry_list h)"
  unfolding opendal_mbt_wasm_completion_take_entry_list_def completion_is_end_value_def
  by (intro total_handle safe_bind [of "arena_read _"] safe_basic safe_if safe_insert_taken;
      drule (1) completion_shape(6,7); auto intro!: stores_intros entries_ok_one split: option.split)

lemma safe_access:
  assumes "\<And>T b r v. bridge_ok T b \<Longrightarrow> live_map (arena_of b) h = Some r \<Longrightarrow> sel r = Some v \<Longrightarrow>
    wp (f v) (\<lambda>_. bridge_ok T) (\<lambda>_. bridge_ok T) b"
  shows "safe (bind (arena_read (\<lambda>a. typed sel k a h)) f)"
  using assms by (auto simp: safe_def wp_basic(5) [of "arena_read _"] wp_state(3) typed_eq split: option.split)

lemma safe_read:
  assumes "\<And>T b v. bridge_ok T b \<Longrightarrow> g (arena_of b) = Inr v \<Longrightarrow> wp (f v) (\<lambda>_. bridge_ok T) (\<lambda>_. bridge_ok T) b"
  shows "safe (bind (arena_read g) f)"
  using assms by (auto simp: safe_def wp_basic(5) [of "arena_read _"] wp_state(3) split: sum.split)

lemma safe_replace:
  assumes "k \<noteq> TaskK"
    and "\<And>r b0 b. bridge_ok T b0 \<Longrightarrow> live_map (arena_of b0) h = Some r \<Longrightarrow> resource_kind r = k \<Longrightarrow> bridge_ok T b \<Longrightarrow>
      \<not> st_torn_down (br_state b) \<Longrightarrow> can_insert (arena_of b) \<Longrightarrow> P b0 \<Longrightarrow> wp (f r) (\<lambda>_. bridge_ok T) (\<lambda>_. bridge_ok T) b"
    and "bridge_ok T b0" and "P b0"
  shows "wp (bind (arena_read (\<lambda>a. ensure_insert_capacity_after_take a h k)) (\<lambda>_. bind (arena_call (arena_take h k)) f))
    (\<lambda>_. bridge_ok T) (\<lambda>_. bridge_ok T) b0"
proof -
  have "wp (bind (bind (arena_read (\<lambda>a. ensure_insert_capacity_after_take a h k)) (\<lambda>_. arena_call (arena_take h k))) f)
      (\<lambda>_. bridge_ok T) (\<lambda>_. bridge_ok T) b0"
    unfolding wp_basic(5) [of "bind _ _"]
    by (rule wp_take_replace [OF assms(3,1)]) (use assms in auto)
  then show ?thesis by (simp add: bind_bind)
qed

lemma total_take_error [safe_intros]: "total (opendal_mbt_wasm_completion_take_error h)"
  unfolding opendal_mbt_wasm_completion_take_error_def arena_completion_def
proof (intro total_handle safe_access)
  fix T and b :: "'a browser" and r c
  let ?put = "\<lambda>r. case r of
      ResCompletion completion \<Rightarrow>
        (case completion_error completion of
           Some error \<Rightarrow> arena_call (arena_insert (ResError error))
         | None \<Rightarrow> panic)
    | _ \<Rightarrow> panic"
  assume b: "bridge_ok T b" and live: "live_map (arena_of b) h = Some r" and r: "get_completion r = Some c"
  show "wp (if completion_error c = None
      then throw (WrongResourceType h ''failed completion'' ''successful completion'')
      else bind (arena_read (\<lambda>a. ensure_insert_capacity_after_take a h CompletionK)) (\<lambda>_.
        bind (arena_call (arena_take h CompletionK)) ?put)) (\<lambda>_. bridge_ok T) (\<lambda>_. bridge_ok T) b"
  proof (cases "completion_error c = None")
    case True
    then show ?thesis using b by (simp add: wp_basic(2))
  next
    case False
    have "wp (bind (arena_read (\<lambda>a. ensure_insert_capacity_after_take a h CompletionK))
        (\<lambda>_. bind (arena_call (arena_take h CompletionK)) ?put)) (\<lambda>_. bridge_ok T) (\<lambda>_. bridge_ok T) b"
      by (rule safe_replace [where P = "\<lambda>b. live_map (arena_of b) h = Some (ResCompletion c)", OF _ _ b])
        (use live r False in \<open>auto intro!: wp_insert\<close>)
    then show ?thesis using False by auto
  qed
qed

lemma wp_on_ext_safe:
  assumes "calm m" and "bridge_ok T b"
    and "\<And>v x. m (br_ext b) = (Ok v, x) \<Longrightarrow> bridge_ok T (b\<lparr>br_ext := x\<rparr>) \<Longrightarrow>
      wp (f v) (\<lambda>_. bridge_ok T) (\<lambda>_. bridge_ok T) (b\<lparr>br_ext := x\<rparr>)"
  shows "wp (bind (on_ext m) f) (\<lambda>_. bridge_ok T) (\<lambda>_. bridge_ok T) b"
proof -
  have "bridge_ok T (b\<lparr>br_ext := x\<rparr>)" for x using assms(2) by (rule bridge_ok_cong) simp_all
  then show ?thesis
    unfolding wp_simps using calmD [OF assms(1), of "br_ext b"] assms(3)
    by (auto simp: wp_def on_ext_def split: prod.splits outcome.splits)
qed

lemma total_error_snapshot_take [safe_intros]: "total (opendal_mbt_wasm_error_snapshot_take api h)"
  unfolding opendal_mbt_wasm_error_snapshot_take_def arena_error_def
proof (intro total_handle safe_access wp_on_ext_safe calm_intros)
  fix T and b :: "'a browser" and r e snapshot x
  assume live: "live_map (arena_of b) h = Some r" and r: "get_error r = Some e" and b: "bridge_ok T (b\<lparr>br_ext := x\<rparr>)"
    and made: "error_snapshot_bytes (wa_alloc api) e (br_ext b) = (Ok snapshot, x)"
  let ?put = "\<lambda>r. case r of ResError _ \<Rightarrow> insert_or_panic (ResBuffer snapshot) | _ \<Rightarrow> panic"
  show "wp (bind (arena_read (\<lambda>a. ensure_insert_capacity_after_take a h ErrorK))
      (\<lambda>_. bind (arena_call (arena_take h ErrorK)) ?put)) (\<lambda>_. bridge_ok T) (\<lambda>_. bridge_ok T) (b\<lparr>br_ext := x\<rparr>)"
    by (rule safe_replace [where P = "\<lambda>b. live_map (arena_of b) h = Some (ResError e)", OF _ _ b])
      (use live r snapshot_ok(2) [OF made] in \<open>auto intro!: wp_insert_or_panic\<close>)
qed

lemma completion_metadata_Inr: "completion_metadata h c = Inr m \<Longrightarrow> has_metadata (ResCompletion c)"
  by (cases c) auto

lemma total_take_metadata_snapshot [safe_intros]:
  "total (opendal_mbt_wasm_completion_take_metadata_snapshot api h)"
  unfolding opendal_mbt_wasm_completion_take_metadata_snapshot_def arena_completion_def
proof (intro total_handle safe_read wp_on_ext_safe calm_intros)
  fix T and b :: "'a browser" and m snapshot x
  assume "res_bind (typed get_completion CompletionK (arena_of b) h) (completion_metadata h) = Inr m"
  then obtain c where live: "live_map (arena_of b) h = Some (ResCompletion c)" and c: "completion_metadata h c = Inr m"
    by (auto simp: res_bind_eq_Inr typed_Inr)
  assume b: "bridge_ok T (b\<lparr>br_ext := x\<rparr>)" and made: "metadata_snapshot_bytes (wa_alloc api) m (br_ext b) = (Ok snapshot, x)"
  show "wp (bind (arena_read (\<lambda>a. ensure_insert_capacity_after_take a h CompletionK)) (\<lambda>_.
      bind (arena_call (arena_take h CompletionK)) (\<lambda>r.
        if has_metadata r then insert_or_panic (ResBuffer snapshot) else panic)))
      (\<lambda>_. bridge_ok T) (\<lambda>_. bridge_ok T) (b\<lparr>br_ext := x\<rparr>)"
    by (rule safe_replace [where P = "\<lambda>b. live_map (arena_of b) h = Some (ResCompletion c)", OF _ _ b])
      (use live completion_metadata_Inr [OF c] snapshot_ok(1) [OF made] in \<open>auto intro!: wp_insert_or_panic\<close>)
qed

lemma total_entry_list_mode [safe_intros]: "total (opendal_mbt_wasm_entry_list_mode h i)"
  unfolding opendal_mbt_wasm_entry_list_mode_def entry_list_value_def arena_entry_list_def
proof (intro total_or_record safe_read)
  fix T and b :: "'a browser" and v
  assume b: "bridge_ok T b" and v: "res_bind (typed get_entries EntryListK (arena_of b) h) (\<lambda>entries.
      if unat i < length entries then Inr (es_mode (entries ! unat i)) else Inl (IndexOutOfBounds i (length entries)))
    = Inr v"
  then obtain es where "live_map (arena_of b) h = Some (ResEntryList es)" "unat i < length es" "v = es_mode (es ! unat i)"
    by (auto simp: res_bind_eq_Inr typed_Inr split: if_splits)
  then have "unat v \<le> 2" using resources_okD [OF b] by (fastforce simp: list_all_length entries_ok_def entry_ok_def)
  then show "wp (i32_expect v) (\<lambda>_. bridge_ok T) (\<lambda>_. bridge_ok T) b" using b by (simp add: i32_expect_def wp_simps)
qed

lemma total_metadata_mode [safe_intros]: "total (opendal_mbt_wasm_metadata_mode h)"
  unfolding opendal_mbt_wasm_metadata_mode_def
proof (intro total_or_record safe_read)
  fix T and b :: "'a browser" and v
  assume b: "bridge_ok T b" and "res_bind (arena_metadata (arena_of b) h) (\<lambda>m. Inr (wasm_mode (md_mode m))) = Inr v"
  then obtain m where "v = wasm_mode m" by (auto simp: res_bind_eq_Inr)
  then have "unat v \<le> 2147483647" by (cases m) simp_all
  then show "wp (i32_expect v) (\<lambda>_. bridge_ok T) (\<lambda>_. bridge_ok T) b" using b by (simp add: i32_expect_def wp_simps)
qed

lemma total_entry_list_metadata_snapshot [safe_intros]: "total (opendal_mbt_wasm_entry_list_metadata_snapshot h i)"
  unfolding opendal_mbt_wasm_entry_list_metadata_snapshot_def entry_list_value_def arena_entry_list_def
    arena_entry_list_mut_def
proof (intro total_handle safe_read)
  fix T and b :: "'a browser" and snapshot
  assume b: "bridge_ok T b" and v: "res_bind (typed get_entries EntryListK (arena_of b) h) (\<lambda>entries.
      if unat i < length entries then Inr (es_metadata_snapshot (entries ! unat i))
      else Inl (IndexOutOfBounds i (length entries))) = Inr snapshot"
  then obtain es where live: "live_map (arena_of b) h = Some (ResEntryList es)" and i: "unat i < length es"
    and snap: "snapshot = es_metadata_snapshot (es ! unat i)"
    by (auto simp: res_bind_eq_Inr typed_Inr split: if_splits)
  let ?es = "es[unat i := (es ! unat i)\<lparr>es_metadata_snapshot := []\<rparr>]"
  let ?b = "with_arena (store_put h (ResEntryList ?es) (arena_of b)) b"
  have es: "entries_ok es" using resources_okD [OF b live] by simp
  then have "bytes_ok snapshot"
    using i by (auto simp: snap entries_ok_def list_all_length entry_ok_def snapshot_bytes_def bytes_ok_def)
  have "entries_ok ?es" using es i by (rule entries_ok_taken)
  then have "bridge_ok T ?b" using live by (intro ok_put [OF b live]) (auto simp: droppable_def)
  then have "wp (insert_or_panic (ResBuffer snapshot)) (\<lambda>_. bridge_ok T) (\<lambda>_. bridge_ok T) ?b" if "can_insert (arena_of b)"
    using that live live_not_torn [OF b live] \<open>bytes_ok snapshot\<close> by (intro wp_insert_or_panic) (simp_all add: can_insert_put)
  moreover have "get_entries (ResEntryList es) = Some es" by simp
  ultimately show "wp (if snapshot = [] then throw snapshot_taken
          else
            bind (state_of (\<lambda>s. can_insert (st_arena s))) (\<lambda>room.
              if \<not> room then throw HandleLimit
              else
                bind (arena_read (\<lambda>a. typed_mut get_entries ResEntryList EntryListK a h)) (\<lambda>(entries, put).
                  if \<not> unat i < length entries then throw snapshot_taken
                  else
                    let entry = entries ! unat i in
                    bind (set_arena (put (entries[unat i := entry\<lparr>es_metadata_snapshot := []\<rparr>]))) (\<lambda>_.
                      if es_metadata_snapshot entry = [] then throw snapshot_taken
                      else insert_or_panic (ResBuffer (es_metadata_snapshot entry))))))
      (\<lambda>_. bridge_ok T) (\<lambda>_. bridge_ok T) b"
    using live i snap b by (simp add: wp_simps typed_mut_eq Let_def)
qed

end
