(* ===== verification/WasmBridge.thy ===== *)
theory WasmBridge
  imports WasmSafety
begin

text \<open>
  The browser bridge as a whole: the set of its exported functions, the states a page can reach by
  calling them and by letting spawned futures run, and the properties that hold in every such state.
\<close>

section \<open>The remaining exports\<close>

lemma safe_write:
  assumes "\<And>T b r v. bridge_ok T b \<Longrightarrow> live_map (arena_of b) h = Some r \<Longrightarrow> sel r = Some v \<Longrightarrow>
    wp (f (v, \<lambda>v'. store_put h (mk v') (arena_of b))) (\<lambda>_. bridge_ok T) (\<lambda>_. bridge_ok T) b"
  shows "safe (bind (arena_read (\<lambda>a. typed_mut sel mk k a h)) f)"
proof (rule safe_read)
  fix T and b :: "'a browser" and v
  assume "bridge_ok T b" and "typed_mut sel mk k (arena_of b) h = Inr v"
  then show "wp (f v) (\<lambda>_. bridge_ok T) (\<lambda>_. bridge_ok T) b"
    using assms by (cases v) (auto simp: typed_mut_Inr)
qed

lemma total_buffer_push [safe_intros]: "total (opendal_mbt_wasm_buffer_push h v)"
  unfolding opendal_mbt_wasm_buffer_push_def arena_buffer_mut_def
proof (intro total_status safe_write)
  fix T and b :: "'a browser" and r buffer
  assume b: "bridge_ok T b" and live: "live_map (arena_of b) h = Some r" and r: "get_buffer r = Some buffer"
  have "bridge_ok T (with_arena (store_put h (ResBuffer (buffer @ [ucast v])) (arena_of b)) b)"
    if "length buffer \<noteq> MAX_BUFFER_LENGTH"
    using that live r resources_okD [OF b live]
    by (intro ok_put [OF b live]) (auto simp: droppable_def bytes_ok_def)
  then show "wp (case (buffer, \<lambda>v'. store_put h (ResBuffer v') (arena_of b)) of
      (buffer, put) \<Rightarrow>
        if length buffer = MAX_BUFFER_LENGTH then throw BufferTooLarge
        else if unat v > 255 then throw (InvalidByte v)
        else set_arena (put (buffer @ [ucast v]))) (\<lambda>_. bridge_ok T) (\<lambda>_. bridge_ok T) b"
    using b by (simp add: wp_simps)
qed

lemma safe_owned_utf8_buffer [safe_intros]: "safe (owned_utf8_buffer api h)"
  unfolding owned_utf8_buffer_def by (intro safe_intros calm_intros)

lemma push_config_ok:
  assumes "push_operator_config api ob key v x = (Ok ob', x')" and "builder_ok ob"
  shows "builder_ok ob'"
proof -
  have "\<not> list_ex (\<lambda>(existing, _). eq_ignore_ascii_case existing key) (ob_config ob)"
    "length (ob_config ob) < MAX_CONFIG_ENTRIES" "ob_config_bytes ob + length key + length v \<le> MAX_CONFIG_BYTES"
    "ob' = ob\<lparr>ob_config := ob_config ob @ [(key, v)], ob_config_bytes := ob_config_bytes ob + length key + length v\<rparr>"
    using assms(1)
    by (auto simp: push_operator_config_def checked_add_usize32_def bind_eq_Ok run_basic split: if_splits option.splits)
  then show ?thesis
    using assms(2) by (auto simp: builder_ok_def list_ex_iff eq_ignore_ascii_case_def)
qed

lemma total_builder_set [safe_intros]: "total (opendal_mbt_wasm_operator_builder_set api h kh vh)"
  unfolding opendal_mbt_wasm_operator_builder_set_def arena_operator_builder_mut_def
proof (intro total_status safe_bind [OF safe_owned_utf8_buffer] safe_write)
  fix T and b :: "'a browser" and r builder key v
  assume b: "bridge_ok T b" and live: "live_map (arena_of b) h = Some r" and r: "get_builder r = Some builder"
  have put: "bridge_ok T (with_arena (store_put h (ResOperatorBuilder ob) (arena_of b)) b)" if "builder_ok ob" for ob
    using that live r by (intro ok_put [OF b live]) (auto simp: droppable_def)
  have "builder_ok builder" using resources_okD [OF b live] r by simp
  then show "wp (case (builder, \<lambda>v'. store_put h (ResOperatorBuilder v') (arena_of b)) of
      (builder, put) \<Rightarrow> bind (on_ext (push_operator_config api builder key v)) (\<lambda>builder'. set_arena (put builder')))
      (\<lambda>_. bridge_ok T) (\<lambda>_. bridge_ok T) b"
    unfolding prod.case
    by (intro wp_on_ext_safe [OF _ b] calm_intros)
      (auto simp: wp_simps intro: bridge_ok_cong [OF put [OF push_config_ok]])
qed

lemma total_teardown [safe_intros]: "total opendal_mbt_wasm_teardown"
proof -
  have "bridge_ok T (b\<lparr>br_state := (br_state b)\<lparr>st_torn_down := True, st_arena := arena_clear (arena_of b),
      st_last_error := None\<rparr>\<rparr>)" if "bridge_ok T b" for T and b :: "'a browser"
    using that inv_empty [of "map sp_job (br_spawned b)" "st_next_resource_operation (br_state b)"]
    by (simp add: bridge_ok_def arena_clear_def live_map_no_slots arena_wf_def map_inv_def)
  then show ?thesis by (simp add: opendal_mbt_wasm_teardown_def total_def wp_simps)
qed

lemma total_state [safe_intros]:
  "total (opendal_mbt_wasm_canary_set_force_pending v)"
  "total opendal_mbt_wasm_last_error_clear"
  "total (opendal_mbt_wasm_last_error_take :: ('c, u32) W)"
  "total (opendal_mbt_wasm_completion_status h)"
proof -
  show "total (opendal_mbt_wasm_canary_set_force_pending v)"
    unfolding opendal_mbt_wasm_canary_set_force_pending_def
    by (intro total_status safe_bind safe_basic) (simp add: safe_def wp_simps bridge_ok_def)
  show "total opendal_mbt_wasm_last_error_clear"
    by (simp add: opendal_mbt_wasm_last_error_clear_def total_def wp_simps ok_error)
  have "wp (arena_call (arena_insert (ResError e))) (\<lambda>h. wp (bind (state_update (\<lambda>s. s\<lparr>st_last_error := None\<rparr>)) (\<lambda>_. ret h))
      (\<lambda>_. bridge_ok T) (\<lambda>_. bridge_ok T)) (\<lambda>_. bridge_ok T) b"
    if "bridge_ok T b" "\<not> st_torn_down (br_state b)" for T e and b :: "'c browser"
    by (rule wp_mono [OF wp_insert [OF that]]) (simp_all add: wp_simps ok_error)
  then show "total (opendal_mbt_wasm_last_error_take :: ('c, u32) W)"
    unfolding opendal_mbt_wasm_last_error_take_def
    by (intro total_or_record safeI) (auto simp: wp_basic(1,5) wp_state(1,2) ok_error split: option.split)
  show "total (opendal_mbt_wasm_completion_status h)"
    by (simp add: opendal_mbt_wasm_completion_status_def total_def wp_simps record_error_def ok_error split: sum.split)
qed

lemma safe_inputs [safe_intros]:
  "safe (path_and_operator api h ph)"
  "safe (optional_owned_utf8_buffer api h)"
  unfolding path_and_operator_def optional_owned_utf8_buffer_def by (intro safe_intros)+

lemma safe_options [safe_intros]:
  "safe (read_options_from_scalars api rk ro rl v m n)"
  "safe (stat_options_from_scalars api v m n)"
  "safe (write_options_from_scalars api ap ct cd ce cc m n)"
  unfolding read_options_from_scalars_def stat_options_from_scalars_def write_options_from_scalars_def
  by (intro safe_intros)+

lemma safe_bind_triple: "safe_with m (\<lambda>(p, q, r). P r) \<Longrightarrow> (\<And>p q r. P r \<Longrightarrow> safe (f p q r)) \<Longrightarrow> safe (bind m (\<lambda>(p, q, r). f p q r))"
  by (erule safe_bind_with) auto

lemma read_stream_options_ok:
  "safe_with (read_stream_options_from_scalars api cs rk ro rl v m n) (\<lambda>(_, _, max_chunk). chunk_ok max_chunk)"
  unfolding read_stream_options_from_scalars_def by (intro safe_with_intros safe_intros) (simp add: chunk_ok_def)

lemma safe_composite_inputs [safe_intros]:
  "safe (write_inputs api h ph dh)"
  "safe (two_paths api h ph qh)"
  "safe (list_inputs api h ph r hl l sh)"
  unfolding write_inputs_def two_paths_def list_inputs_def
  by (intro safe_intros calm_intros)+

lemma writer_chunk_ok: "safe_with (owned_writer_chunk api dh) (\<lambda>bytes. length bytes \<le> MAX_TRANSFER_CHUNK)"
  unfolding owned_writer_chunk_def
  by (intro safe_with_intros(2-4) safe_intros safe_with_on_ext calm_intros) (auto dest: owned_bytes_ok)

lemma safe_start [safe_intros]:
  "safe (start_read_task api h ph ro)"
  "safe (start_stat_task api h ph so)"
  "safe (start_write_task api h ph dh wo)"
  "safe (start_copy_task api h ph qh)"
  "safe (start_rename_task api h ph qh)"
  unfolding start_read_task_def start_stat_task_def start_write_task_def start_copy_task_def start_rename_task_def
  by (intro safe_intros; simp)+

lemma safe_entry_list_value [safe_intros]: "safe (entry_list_value h i f)"
  unfolding entry_list_value_def by (intro safe_intros)

lemma total_release_exports [safe_intros]:
  "total (opendal_mbt_wasm_buffer_release a0)"
  "total (opendal_mbt_wasm_operator_builder_release a0)"
  "total (opendal_mbt_wasm_read_stream_release a0)"
  "total (opendal_mbt_wasm_writer_release a0)"
  "total (opendal_mbt_wasm_lister_release a0)"
  "total (opendal_mbt_wasm_completion_release a0)"
  "total (opendal_mbt_wasm_entry_list_release a0)"
  "total (opendal_mbt_wasm_operator_release a0)"
  "total (opendal_mbt_wasm_metadata_release a0)"
  "total (opendal_mbt_wasm_error_release a0)"
  unfolding opendal_mbt_wasm_buffer_release_def opendal_mbt_wasm_operator_builder_release_def
    opendal_mbt_wasm_read_stream_release_def opendal_mbt_wasm_writer_release_def
    opendal_mbt_wasm_lister_release_def opendal_mbt_wasm_completion_release_def
    opendal_mbt_wasm_entry_list_release_def opendal_mbt_wasm_operator_release_def
    opendal_mbt_wasm_metadata_release_def opendal_mbt_wasm_error_release_def
  by (intro safe_intros; simp)+

lemma total_plain_exports [safe_intros]:
  "total (opendal_mbt_wasm_abi_version)"
  "total (opendal_mbt_wasm_feature_flags)"
  "total (opendal_mbt_wasm_canary_forced_pending_poll_count)"
  "total (opendal_mbt_wasm_live_handle_count)"
  "total (opendal_mbt_wasm_buffer_new)"
  "total (opendal_mbt_wasm_buffer_new_sized api a1)"
  "total (opendal_mbt_wasm_buffer_len a0)"
  "total (opendal_mbt_wasm_buffer_get a0 a1)"
  "total (opendal_mbt_wasm_buffer_data_ptr api a1 a2 a3)"
  "total (opendal_mbt_wasm_last_error_code)"
  "total (opendal_mbt_wasm_registered_schemes api)"
  "total (opendal_mbt_wasm_operator_builder_new api a1)"
  "total (opendal_mbt_wasm_operator_info_scheme api a1)"
  "total (opendal_mbt_wasm_operator_info_root api a1)"
  "total (opendal_mbt_wasm_operator_info_name api a1)"
  "total (opendal_mbt_wasm_operator_info_capability_word api a1 a2)"
  "total (opendal_mbt_wasm_operator_write_start api a1 a2 a3)"
  "total (opendal_mbt_wasm_operator_write_options_start_v1 api a1 a2 a3 a4 a5 a6 a7 a8 a9 a10)"
  "total (opendal_mbt_wasm_operator_read_start api a1 a2)"
  "total (opendal_mbt_wasm_operator_read_options_start_v1 api a1 a2 a3 n4 n5 a6 a7 a8)"
  "total (opendal_mbt_wasm_operator_stat_start api a1 a2)"
  "total (opendal_mbt_wasm_operator_stat_options_start_v1 api a1 a2 a3 a4 a5)"
  "total (opendal_mbt_wasm_operator_create_dir_start api a1 a2)"
  "total (opendal_mbt_wasm_operator_delete_start api a1 a2 a3 a4)"
  "total (opendal_mbt_wasm_operator_list_start api a1 a2 a3 a4 n5 a6)"
  "total (opendal_mbt_wasm_operator_copy_start api a1 a2 a3)"
  "total (opendal_mbt_wasm_operator_rename_start api a1 a2 a3)"
  "total (opendal_mbt_wasm_operator_writer_start_v1 api a1 a2 a3 a4 a5 a6 a7 a8 a9)"
  "total (opendal_mbt_wasm_operator_lister_start api a1 a2 a3 a4 n5 a6)"
  "total (opendal_mbt_wasm_task_state a0)"
  "total (opendal_mbt_wasm_completion_kind a0)"
  "total (opendal_mbt_wasm_completion_is_end a0)"
  "total (opendal_mbt_wasm_entry_list_len a0)"
  "total (opendal_mbt_wasm_entry_list_path api a1 a2)"
  "total (opendal_mbt_wasm_entry_list_name api a1 a2)"
  "total (opendal_mbt_wasm_entry_list_content_length a0 a1)"
  "total (opendal_mbt_wasm_metadata_content_length_low a0)"
  "total (opendal_mbt_wasm_metadata_content_length_high a0)"
  "total (opendal_mbt_wasm_metadata_is_file a0)"
  "total (opendal_mbt_wasm_error_code a0)"
  "total (opendal_mbt_wasm_error_message a0)"
  unfolding opendal_mbt_wasm_abi_version_def opendal_mbt_wasm_feature_flags_def
    opendal_mbt_wasm_canary_forced_pending_poll_count_def opendal_mbt_wasm_live_handle_count_def
    opendal_mbt_wasm_buffer_new_def opendal_mbt_wasm_buffer_new_sized_def
    opendal_mbt_wasm_buffer_len_def opendal_mbt_wasm_buffer_get_def
    opendal_mbt_wasm_buffer_data_ptr_def opendal_mbt_wasm_last_error_code_def
    opendal_mbt_wasm_registered_schemes_def opendal_mbt_wasm_operator_builder_new_def
    opendal_mbt_wasm_operator_info_scheme_def opendal_mbt_wasm_operator_info_root_def
    opendal_mbt_wasm_operator_info_name_def opendal_mbt_wasm_operator_info_capability_word_def
    opendal_mbt_wasm_operator_write_start_def opendal_mbt_wasm_operator_write_options_start_v1_def
    opendal_mbt_wasm_operator_read_start_def opendal_mbt_wasm_operator_read_options_start_v1_def
    opendal_mbt_wasm_operator_stat_start_def opendal_mbt_wasm_operator_stat_options_start_v1_def
    opendal_mbt_wasm_operator_create_dir_start_def opendal_mbt_wasm_operator_delete_start_def
    opendal_mbt_wasm_operator_list_start_def opendal_mbt_wasm_operator_copy_start_def
    opendal_mbt_wasm_operator_rename_start_def
    opendal_mbt_wasm_operator_writer_start_v1_def opendal_mbt_wasm_operator_lister_start_def
    opendal_mbt_wasm_task_state_def opendal_mbt_wasm_completion_kind_def
    opendal_mbt_wasm_completion_is_end_def opendal_mbt_wasm_entry_list_len_def
    opendal_mbt_wasm_entry_list_path_def opendal_mbt_wasm_entry_list_name_def
    opendal_mbt_wasm_entry_list_content_length_def opendal_mbt_wasm_metadata_content_length_low_def
    opendal_mbt_wasm_metadata_content_length_high_def opendal_mbt_wasm_metadata_is_file_def
    opendal_mbt_wasm_error_code_def opendal_mbt_wasm_error_message_def
    operator_info_buffer_def metadata_content_length_def entry_list_text_def completion_is_end_value_def Let_def
  by (intro safe_intros calm_intros; simp add: builder_ok_def)+

lemma total_read_stream_start [safe_intros]:
  "total (opendal_mbt_wasm_operator_read_stream_start_v1 api a1 a2 a3 a4 n5 n6 a7 a8 a9)"
  unfolding opendal_mbt_wasm_operator_read_stream_start_v1_def
  by (intro total_handle safe_bind_triple [OF read_stream_options_ok] safe_intros) simp

lemma calm_apiD:
  assumes "calm_api api"
  shows "calm_call (wa_new_memory api)" and "calm_call (wa_via_iter api sch cfg)"
    and "calm (poll_once (wa_poll_write api t p d))" and "calm (poll_once (wa_poll_read api t p))"
    and "calm (poll_once (wa_poll_stat api t p))"
  using assms by (simp_all add: calm_api_def calm_poll)

lemma total_api_exports:
  assumes "calm_api api"
  shows "total (opendal_mbt_wasm_operator_new_memory api)"
    and "total (opendal_mbt_wasm_operator_builder_build api a1)"
    and "total (opendal_mbt_wasm_operator_write api a1 a2 a3)"
    and "total (opendal_mbt_wasm_operator_read api a1 a2)"
    and "total (opendal_mbt_wasm_operator_stat api a1 a2)"
  unfolding opendal_mbt_wasm_operator_new_memory_def opendal_mbt_wasm_operator_builder_build_def
    opendal_mbt_wasm_operator_write_def opendal_mbt_wasm_operator_read_def
    opendal_mbt_wasm_operator_stat_def
    build_operator_def
  by (intro safe_intros calm_intros calm_apiD [OF assms]; simp)+

lemma safe_stream_call:
  "safe (bind (reserve_read_stream_next h) (\<lambda>(task, lease, cursor).
     bind (spawn_resource_task task lease (FutStreamNext cursor)) (\<lambda>_. ret task)))"
  unfolding reserve_read_stream_next_def arena_read_stream_mut_def by (rule stream.reserve_safe) simp

lemma safe_lister_call:
  "safe (bind (reserve_lister_next h) (\<lambda>(task, lease, lister).
     bind (spawn_resource_task task lease (FutListerNext lister)) (\<lambda>_. ret task)))"
  unfolding reserve_lister_next_def arena_lister_mut_def by (rule lister.reserve_safe) simp

lemma safe_writer_call:
  assumes "\<And>w. future_kind (fut w) = WriterK \<and> future_ok (fut w)"
  shows "safe (bind (reserve_writer_call h) (\<lambda>(task, lease, writer).
     bind (spawn_resource_task task lease (fut writer)) (\<lambda>_. ret task)))"
  unfolding reserve_writer_call_def arena_writer_mut_def by (rule writer.reserve_safe [OF assms])

lemma total_reserving_exports [safe_intros]:
  "total (opendal_mbt_wasm_read_stream_next_start a0)"
  "total (opendal_mbt_wasm_lister_next_start a0)"
  "total (opendal_mbt_wasm_writer_write_start api a1 a2)"
  "total (opendal_mbt_wasm_writer_finish_start a0)"
  "total (opendal_mbt_wasm_writer_abort_start a0)"
proof -
  show "total (opendal_mbt_wasm_read_stream_next_start a0)"
    unfolding opendal_mbt_wasm_read_stream_next_start_def by (intro total_handle safe_stream_call)
  show "total (opendal_mbt_wasm_lister_next_start a0)"
    unfolding opendal_mbt_wasm_lister_next_start_def by (intro total_handle safe_lister_call)
  show "total (opendal_mbt_wasm_writer_write_start api a1 a2)"
    unfolding opendal_mbt_wasm_writer_write_start_def
    by (intro total_handle safe_bind_with [OF writer_chunk_ok] safe_writer_call) simp
  show "total (opendal_mbt_wasm_writer_finish_start a0)"
    unfolding opendal_mbt_wasm_writer_finish_start_def
    by (intro total_handle safe_bind [of "arena_read _"] safe_basic safe_option safe_writer_call safe_start_task) simp_all
  show "total (opendal_mbt_wasm_writer_abort_start a0)"
    unfolding opendal_mbt_wasm_writer_abort_start_def
    by (intro total_handle safe_bind [of "arena_read _"] safe_basic safe_if safe_writer_call safe_start_task) simp_all
qed

lemma total_canary [safe_intros]:
  "total (opendal_mbt_wasm_canary_stale_handle_rejected)"
  unfolding opendal_mbt_wasm_canary_stale_handle_rejected_def by (intro safe_intros)

section \<open>The exported functions\<close>

datatype scalar = U32 u32 | I32 int | U64 u64

definition as_u32 :: "('x, u32) W \<Rightarrow> ('x, scalar) W" where
  "as_u32 m = bind m (\<lambda>v. ret (U32 v))"

definition as_i32 :: "('x, int) W \<Rightarrow> ('x, scalar) W" where
  "as_i32 m = bind m (\<lambda>v. ret (I32 v))"

definition as_u64 :: "('x, u64) W \<Rightarrow> ('x, scalar) W" where
  "as_u64 m = bind m (\<lambda>v. ret (U64 v))"

inductive_set exports :: "'x wasm_api \<Rightarrow> ('x, scalar) W set" for api where
  "as_u32 opendal_mbt_wasm_abi_version \<in> exports api"
| "as_u32 opendal_mbt_wasm_feature_flags \<in> exports api"
| "as_u32 opendal_mbt_wasm_canary_forced_pending_poll_count \<in> exports api"
| "as_u32 (opendal_mbt_wasm_canary_set_force_pending a0) \<in> exports api"
| "as_u32 opendal_mbt_wasm_live_handle_count \<in> exports api"
| "as_u32 opendal_mbt_wasm_teardown \<in> exports api"
| "as_u32 opendal_mbt_wasm_buffer_new \<in> exports api"
| "as_u32 (opendal_mbt_wasm_buffer_new_sized api a1) \<in> exports api"
| "as_u32 (opendal_mbt_wasm_buffer_push a0 a1) \<in> exports api"
| "as_i32 (opendal_mbt_wasm_buffer_len a0) \<in> exports api"
| "as_i32 (opendal_mbt_wasm_buffer_get a0 a1) \<in> exports api"
| "as_u32 (opendal_mbt_wasm_buffer_data_ptr api a1 a2 a3) \<in> exports api"
| "as_u32 (opendal_mbt_wasm_buffer_release a0) \<in> exports api"
| "as_u32 opendal_mbt_wasm_last_error_code \<in> exports api"
| "as_u32 opendal_mbt_wasm_last_error_clear \<in> exports api"
| "as_u32 opendal_mbt_wasm_canary_stale_handle_rejected \<in> exports api"
| "as_u32 (opendal_mbt_wasm_operator_new_memory api) \<in> exports api"
| "as_u32 (opendal_mbt_wasm_registered_schemes api) \<in> exports api"
| "as_u32 (opendal_mbt_wasm_operator_builder_new api a1) \<in> exports api"
| "as_u32 (opendal_mbt_wasm_operator_builder_set api a1 a2 a3) \<in> exports api"
| "as_u32 (opendal_mbt_wasm_operator_builder_build api a1) \<in> exports api"
| "as_u32 (opendal_mbt_wasm_operator_builder_release a0) \<in> exports api"
| "as_u32 (opendal_mbt_wasm_operator_info_scheme api a1) \<in> exports api"
| "as_u32 (opendal_mbt_wasm_operator_info_root api a1) \<in> exports api"
| "as_u32 (opendal_mbt_wasm_operator_info_name api a1) \<in> exports api"
| "as_u64 (opendal_mbt_wasm_operator_info_capability_word api a1 a2) \<in> exports api"
| "as_u32 (opendal_mbt_wasm_operator_write api a1 a2 a3) \<in> exports api"
| "as_u32 (opendal_mbt_wasm_operator_read api a1 a2) \<in> exports api"
| "as_u32 (opendal_mbt_wasm_operator_stat api a1 a2) \<in> exports api"
| "as_u32 (opendal_mbt_wasm_operator_write_start api a1 a2 a3) \<in> exports api"
| "as_u32 (opendal_mbt_wasm_operator_write_options_start_v1 api a1 a2 a3 a4 a5 a6 a7 a8 a9 a10) \<in> exports api"
| "as_u32 (opendal_mbt_wasm_operator_read_start api a1 a2) \<in> exports api"
| "as_u32 (opendal_mbt_wasm_operator_read_options_start_v1 api a1 a2 a3 n4 n5 a6 a7 a8) \<in> exports api"
| "as_u32 (opendal_mbt_wasm_operator_stat_start api a1 a2) \<in> exports api"
| "as_u32 (opendal_mbt_wasm_operator_stat_options_start_v1 api a1 a2 a3 a4 a5) \<in> exports api"
| "as_u32 (opendal_mbt_wasm_operator_create_dir_start api a1 a2) \<in> exports api"
| "as_u32 (opendal_mbt_wasm_operator_delete_start api a1 a2 a3 a4) \<in> exports api"
| "as_u32 (opendal_mbt_wasm_operator_list_start api a1 a2 a3 a4 n5 a6) \<in> exports api"
| "as_u32 (opendal_mbt_wasm_operator_copy_start api a1 a2 a3) \<in> exports api"
| "as_u32 (opendal_mbt_wasm_operator_rename_start api a1 a2 a3) \<in> exports api"
| "as_u32 (opendal_mbt_wasm_operator_read_stream_start_v1 api a1 a2 a3 a4 n5 n6 a7 a8 a9) \<in> exports api"
| "as_u32 (opendal_mbt_wasm_read_stream_next_start a0) \<in> exports api"
| "as_u32 (opendal_mbt_wasm_read_stream_release a0) \<in> exports api"
| "as_u32 (opendal_mbt_wasm_operator_writer_start_v1 api a1 a2 a3 a4 a5 a6 a7 a8 a9) \<in> exports api"
| "as_u32 (opendal_mbt_wasm_writer_write_start api a1 a2) \<in> exports api"
| "as_u32 (opendal_mbt_wasm_writer_finish_start a0) \<in> exports api"
| "as_u32 (opendal_mbt_wasm_writer_abort_start a0) \<in> exports api"
| "as_u32 (opendal_mbt_wasm_writer_release a0) \<in> exports api"
| "as_u32 (opendal_mbt_wasm_operator_lister_start api a1 a2 a3 a4 n5 a6) \<in> exports api"
| "as_u32 (opendal_mbt_wasm_lister_next_start a0) \<in> exports api"
| "as_u32 (opendal_mbt_wasm_lister_release a0) \<in> exports api"
| "as_u32 (opendal_mbt_wasm_task_state a0) \<in> exports api"
| "as_u32 (opendal_mbt_wasm_task_take a0) \<in> exports api"
| "as_u32 (opendal_mbt_wasm_task_cancel a0) \<in> exports api"
| "as_u32 (opendal_mbt_wasm_task_release a0) \<in> exports api"
| "as_u32 (opendal_mbt_wasm_completion_kind a0) \<in> exports api"
| "as_u32 (opendal_mbt_wasm_completion_status a0) \<in> exports api"
| "as_i32 (opendal_mbt_wasm_completion_is_end a0) \<in> exports api"
| "as_u32 (opendal_mbt_wasm_completion_take_read_stream a0) \<in> exports api"
| "as_u32 (opendal_mbt_wasm_completion_take_writer a0) \<in> exports api"
| "as_u32 (opendal_mbt_wasm_completion_take_lister a0) \<in> exports api"
| "as_u32 (opendal_mbt_wasm_completion_take_buffer a0) \<in> exports api"
| "as_u32 (opendal_mbt_wasm_completion_take_metadata a0) \<in> exports api"
| "as_u32 (opendal_mbt_wasm_completion_take_metadata_snapshot api a1) \<in> exports api"
| "as_u32 (opendal_mbt_wasm_completion_take_entry_list a0) \<in> exports api"
| "as_u32 (opendal_mbt_wasm_completion_take_error a0) \<in> exports api"
| "as_u32 (opendal_mbt_wasm_completion_release a0) \<in> exports api"
| "as_i32 (opendal_mbt_wasm_entry_list_len a0) \<in> exports api"
| "as_u32 (opendal_mbt_wasm_entry_list_path api a1 a2) \<in> exports api"
| "as_u32 (opendal_mbt_wasm_entry_list_name api a1 a2) \<in> exports api"
| "as_i32 (opendal_mbt_wasm_entry_list_mode a0 a1) \<in> exports api"
| "as_u64 (opendal_mbt_wasm_entry_list_content_length a0 a1) \<in> exports api"
| "as_u32 (opendal_mbt_wasm_entry_list_metadata_snapshot a0 a1) \<in> exports api"
| "as_u32 (opendal_mbt_wasm_entry_list_release a0) \<in> exports api"
| "as_u32 (opendal_mbt_wasm_operator_release a0) \<in> exports api"
| "as_u32 (opendal_mbt_wasm_metadata_content_length_low a0) \<in> exports api"
| "as_u32 (opendal_mbt_wasm_metadata_content_length_high a0) \<in> exports api"
| "as_i32 (opendal_mbt_wasm_metadata_is_file a0) \<in> exports api"
| "as_i32 (opendal_mbt_wasm_metadata_mode a0) \<in> exports api"
| "as_u32 (opendal_mbt_wasm_metadata_release a0) \<in> exports api"
| "as_u32 opendal_mbt_wasm_last_error_take \<in> exports api"
| "as_u32 (opendal_mbt_wasm_error_code a0) \<in> exports api"
| "as_u32 (opendal_mbt_wasm_error_message a0) \<in> exports api"
| "as_u32 (opendal_mbt_wasm_error_snapshot_take api a1) \<in> exports api"
| "as_u32 (opendal_mbt_wasm_error_release a0) \<in> exports api"

lemma exports_total:
  assumes "calm_api api" and "m \<in> exports api"
  shows "total m"
  using assms(2)
  by cases (simp only: as_u32_def as_i32_def as_u64_def, intro total_bind safe_intros total_api_exports [OF assms(1)])+

section \<open>Futures that run\<close>

lemma publish_task_live_map:
  "live_map (publish_task h c a) =
     (if live_map a h = Some (ResTask (PendingTask None)) then (live_map a)(h \<mapsto> ResTask (ReadyTask c None))
      else live_map a)"
  by (auto simp: publish_task_def access_defs typed_mut_eq put_live split: option.split)

lemma apply_update_live_map:
  assumes "update_kind u = ls_kind l"
  shows "live_map (apply_update l u a) = after_update l u (live_map a)"
proof (cases "live_map a (ls_handle l)")
  case None
  then show ?thesis by (cases u) (simp_all add: access_defs typed_mut_eq after_update_def)
next
  case (Some r)
  obtain n where l: "l = \<lparr>ls_handle = ls_handle l, ls_kind = update_kind u, ls_operation = n\<rparr>"
    using assms by (cases l) simp
  have "live_map (apply_update \<lparr>ls_handle = h, ls_kind = update_kind u, ls_operation = n\<rparr> u a) =
      after_update \<lparr>ls_handle = h, ls_kind = update_kind u, ls_operation = n\<rparr> u (live_map a)"
    if "live_map a h = Some r" for h
    by (cases u; cases "(h, r)" rule: busy_lease.cases)
      (auto simp: access_defs typed_mut_eq after_update_def that put_live [OF that])
  from this [OF Some] show ?thesis unfolding l [symmetric] .
qed

lemma arena_task_Inr: "arena_task a h = Inr t \<longleftrightarrow> live_map a h = Some (ResTask t)"
  by (auto simp: arena_task_def typed_Inr)

lemma publish_resource_live_map:
  "live_map (publish_resource_task t l u c a) =
     (if live_map a t = Some (ResTask (PendingTask (Some l))) \<and> update_kind u = ls_kind l
      then (after_update l u (live_map a))(t \<mapsto> ResTask (ReadyTask c (Some l))) else live_map a)"
proof (cases "live_map a t = Some (ResTask (PendingTask (Some l))) \<and> update_kind u = ls_kind l")
  case False
  then show ?thesis by (auto simp: publish_resource_task_def arena_task_Inr)
next
  case True
  then have "live_map (apply_update l u a) t = Some (ResTask (PendingTask (Some l)))"
    using after_update_task [where M = "live_map a"] by (simp add: apply_update_live_map)
  then show ?thesis using True
    by (simp add: publish_resource_task_def arena_task_Inr arena_task_mut_def typed_mut_eq put_live apply_update_live_map)
qed

lemma publish_wf:
  assumes "arena_wf a"
  shows "arena_wf (publish_task h c a)" and "arena_wf (publish_resource_task t l u c a)"
proof -
  have put: "arena_wf (store_put h r b)" if "arena_wf b" for h r b using that by (rule store_laws(2))
  have upd: "arena_wf (apply_update l u a)"
    by (cases u) (auto simp: access_defs typed_mut_eq assms put split: option.split)
  show "arena_wf (publish_task h c a)"
    by (auto simp: publish_task_def access_defs typed_mut_eq assms put split: option.split)
  show "arena_wf (publish_resource_task t l u c a)"
    by (auto simp: publish_resource_task_def Let_def access_defs typed_mut_eq assms upd put split: option.split)
qed

text \<open>A wake-up of a spawned future keeps the invariant and does not panic.\<close>

definition without_job :: "nat \<Rightarrow> 'x browser \<Rightarrow> 'x browser" where
  "without_job i b = b\<lparr>br_spawned := take i (br_spawned b) @ drop (Suc i) (br_spawned b)\<rparr>"

lemma yieldsD: "yields m P \<Longrightarrow> \<exists>a x'. m x = (Ok a, x') \<and> P a"
  unfolding yields_def wp_Ok by blast

lemma poll_task_job:
  assumes "calm_api api" and "i < length (br_spawned b)" and "sp_job (br_spawned b ! i) = TaskJob h f"
    and "\<not> (sp_force_pending (br_spawned b ! i) \<and> d)" and "job_ok (TaskJob h f)"
  obtains c x where "completion_ok c" "poll_spawned api d i b =
    (Ok (), with_arena (publish_task h c (arena_of b)) ((without_job i b)\<lparr>br_ext := x\<rparr>))"
proof -
  obtain c x where "run_future api f (br_ext b) = (Ok c, x)" "completion_ok c"
    using yieldsD [OF run_future_yields [OF assms(1,5)]] by blast
  with assms show ?thesis
    by (intro that) (auto simp: poll_spawned_def Let_def bind_def on_ext_def state_update_def without_job_def with_arena_def)
qed

lemma poll_resource_job:
  assumes "calm_api api" and "i < length (br_spawned b)" and "sp_job (br_spawned b ! i) = ResourceJob t l f"
    and "\<not> (sp_force_pending (br_spawned b ! i) \<and> d)" and "future_ok f"
  obtains u c x where "update_kind u = future_kind f" "update_ok u" "completion_ok c" "poll_spawned api d i b =
    (Ok (), with_arena (publish_resource_task t l u c (arena_of b)) ((without_job i b)\<lparr>br_ext := x\<rparr>))"
proof -
  obtain u c x where "run_resource_future api f (br_ext b) = (Ok (u, c), x)" "update_kind u = future_kind f"
      "update_ok u" "completion_ok c"
    using yieldsD [OF run_resource_future_yields [OF assms(1,5)], of "br_ext b"] by auto
  with assms show ?thesis
    by (intro that) (auto simp: poll_spawned_def Let_def bind_def on_ext_def state_update_def without_job_def with_arena_def)
qed

lemma poll_delayed:
  assumes "\<not> i < length (br_spawned b) \<or> sp_force_pending (br_spawned b ! i) \<and> d"
  obtains b' where "poll_spawned api d i b = (Ok (), b')" "arena_of b' = arena_of b"
    "st_torn_down (br_state b') = st_torn_down (br_state b)"
    "st_next_resource_operation (br_state b') = st_next_resource_operation (br_state b)"
    "map sp_job (br_spawned b') = map sp_job (br_spawned b)"
proof (cases "i < length (br_spawned b)")
  case True
  let ?sp = "br_spawned b ! i"
  have "map sp_job ((br_spawned b)[i := ?sp\<lparr>sp_pending_seen := True\<rparr>]) = map sp_job (br_spawned b)"
    using True by (simp add: map_update) (metis list_update_id map_update nth_map)
  then show ?thesis using that assms True
    by (cases "sp_pending_seen ?sp") (auto simp: poll_spawned_def Let_def bind_def state_update_def ret_def)
qed (use that assms in \<open>simp add: poll_spawned_def\<close>)

lemma slots_publish:
  assumes "ar_slots a = []"
  shows "publish_task h c a = a" and "publish_resource_task t l u c a = a"
  using live_map_no_slots [OF assms]
  by (simp_all add: publish_task_def publish_resource_task_def access_defs typed_mut_eq typed_eq)

lemma jobs_without:
  assumes "i < length (br_spawned b)"
  shows "map sp_job (br_spawned b) = map sp_job (take i (br_spawned b)) @ sp_job (br_spawned b ! i) #
    map sp_job (drop (Suc i) (br_spawned b))"
  using id_take_nth_drop [OF assms] by (metis list.simps(9) map_append)

lemma poll_ok:
  assumes api: "calm_api api" and b: "bridge_ok T b"
  shows "\<exists>b'. poll_spawned api d i b = (Ok (), b') \<and> bridge_ok T b'"
proof (cases "i < length (br_spawned b) \<and> \<not> (sp_force_pending (br_spawned b ! i) \<and> d)")
  case False
  then obtain b' where "poll_spawned api d i b = (Ok (), b')" "arena_of b' = arena_of b"
    "st_torn_down (br_state b') = st_torn_down (br_state b)"
    "st_next_resource_operation (br_state b') = st_next_resource_operation (br_state b)"
    "map sp_job (br_spawned b') = map sp_job (br_spawned b)"
    using poll_delayed [of i b d api] by blast
  then show ?thesis using b by (auto simp: bridge_ok_def)
next
  case run: True
  let ?js = "map sp_job (take i (br_spawned b))" and ?ks = "map sp_job (drop (Suc i) (br_spawned b))"
  let ?n = "st_next_resource_operation (br_state b)"
  have inv: "map_inv (live_map (arena_of b)) (?js @ sp_job (br_spawned b ! i) # ?ks) ?n"
    using b jobs_without [of i b] run by (simp add: bridge_ok_def)
  then have ok: "job_ok (sp_job (br_spawned b ! i))" by (simp add: map_inv_def)
  have wf: "arena_wf (arena_of b)" using b by (simp add: bridge_ok_def)
  have torn: "st_torn_down (br_state b) \<Longrightarrow> ar_slots (arena_of b) = []" using b by (simp add: bridge_ok_def)
  have keep: "bridge_ok T (with_arena a ((without_job i b)\<lparr>br_ext := x\<rparr>))"
    if "arena_wf a" "st_torn_down (br_state b) \<Longrightarrow> a = arena_of b" "map_inv (live_map a) (?js @ ?ks) ?n" for a x
    using that b by (auto simp: bridge_ok_def without_job_def with_arena_def)
  show ?thesis
  proof (cases "sp_job (br_spawned b ! i)")
    case (TaskJob h f)
    obtain c x where c: "completion_ok c" and p: "poll_spawned api d i b =
        (Ok (), with_arena (publish_task h c (arena_of b)) ((without_job i b)\<lparr>br_ext := x\<rparr>))"
      using poll_task_job [OF api _ TaskJob, of d] run ok TaskJob by metis
    have "map_inv (live_map (publish_task h c (arena_of b))) (?js @ ?ks) ?n"
      using inv_publish_task [OF inv [unfolded TaskJob] _ c] inv_drop_task_job [OF inv [unfolded TaskJob]]
      by (simp add: publish_task_live_map)
    then show ?thesis using p keep publish_wf(1) [OF wf] slots_publish(1) torn by blast
  next
    case (ResourceJob t l f)
    obtain u c x where u: "update_kind u = future_kind f" "update_ok u" and c: "completion_ok c" and p: "poll_spawned api d i b =
        (Ok (), with_arena (publish_resource_task t l u c (arena_of b)) ((without_job i b)\<lparr>br_ext := x\<rparr>))"
      using poll_resource_job [OF api _ ResourceJob, of d] run ok ResourceJob by (metis job_ok.simps(13))
    have "update_kind u = ls_kind l" using u ok ResourceJob by simp
    then have "map_inv (live_map (publish_resource_task t l u c (arena_of b))) (?js @ ?ks) ?n"
      using inv_publish_resource [OF inv [unfolded ResourceJob] _ c u(2)] inv_drop_resource_job [OF inv [unfolded ResourceJob]]
      by (simp add: publish_resource_live_map)
    then show ?thesis using p keep publish_wf(2) [OF wf] slots_publish(2) torn by blast
  qed
qed

section \<open>Reachable states\<close>

definition fresh_instance :: "'x \<Rightarrow> 'x browser" where
  "fresh_instance x = \<lparr>br_state = State_default, br_spawned = [], br_ext = x\<rparr>"

text \<open>
  A step is a call of an exported function, a wake-up of a spawned future, or a change of the
  external state that the bridge does not make. Exports run to completion on the one thread of the
  page, so steps do not overlap.
\<close>

inductive bridge_step :: "'x wasm_api \<Rightarrow> 'x browser \<Rightarrow> 'x browser \<Rightarrow> bool" for api where
  call_step: "m \<in> exports api \<Longrightarrow> m b = (Ok v, b') \<Longrightarrow> bridge_step api b b'"
| poll_step: "poll_spawned api d i b = (Ok u, b') \<Longrightarrow> bridge_step api b b'"
| outside_step: "bridge_step api b (b\<lparr>br_ext := x\<rparr>)"

definition reachable :: "'x wasm_api \<Rightarrow> 'x browser \<Rightarrow> bool" where
  "reachable api b \<longleftrightarrow> (\<exists>x. (bridge_step api)\<^sup>*\<^sup>* (fresh_instance x) b)"

lemma totalD: "total m \<Longrightarrow> bridge_ok T b \<Longrightarrow> \<exists>v b'. m b = (Ok v, b') \<and> bridge_ok T b'"
  unfolding total_def wp_Ok by blast

lemma step_ok:
  assumes "calm_api api" and "bridge_step api b b'" and "bridge_ok T b"
  shows "bridge_ok T b'"
  using assms(2)
proof cases
  case (call_step m v)
  then show ?thesis
    using totalD [OF exports_total [OF assms(1) call_step(1)] assms(3)] by auto
next
  case (poll_step d i u)
  then show ?thesis using poll_ok [OF assms(1,3), of d i] by auto
next
  case (outside_step x)
  then show ?thesis using assms(3) by (auto elim: bridge_ok_cong)
qed

lemma steps_ok:
  assumes "calm_api api" and "(bridge_step api)\<^sup>*\<^sup>* b b'" and "bridge_ok T b"
  shows "bridge_ok T b'"
  using assms(2,3) by (induction rule: rtranclp_induct) (auto intro: step_ok [OF assms(1)])

lemma fresh_ok: "bridge_ok False (fresh_instance x)"
  by (simp add: bridge_ok_def fresh_instance_def State_default_def wf_empty_arena live_map_no_slots inv_empty)
    (simp add: empty_arena_def live_map_no_slots inv_empty)

lemma reachable_ok:
  assumes "calm_api api" and "reachable api b"
  shows "bridge_ok False b"
proof -
  obtain x where "(bridge_step api)\<^sup>*\<^sup>* (fresh_instance x) b" using assms(2) by (auto simp: reachable_def)
  from steps_ok [OF assms(1) this fresh_ok] show ?thesis .
qed

end
