(* ===== verification/WasmSample.thy ===== *)
theory WasmSample
  imports WasmBridge
begin

text \<open>
  A concrete OpenDAL for the browser bridge, whose calls all succeed at once, and a concrete page
  that opens a read stream and starts its first read. The states of this run are what the
  properties of the bridge are instantiated at.
\<close>

section \<open>An OpenDAL whose calls succeed\<close>

definition idle_metadata :: Metadata where
  "idle_metadata = \<lparr>md_mode = FILE, md_is_current = None, md_is_deleted = False, md_content_length = 0,
     md_last_modified = None, md_cache_control = None, md_content_disposition = None,
     md_content_encoding = None, md_content_md5 = None, md_content_type = None, md_etag = None,
     md_version = None\<rparr>"

definition idle_entry :: opendal_Entry where
  "idle_entry = \<lparr>oen_name = ''a'', oen_path = ''d/a'', oen_metadata = idle_metadata\<rparr>"

definition idle_capability :: Capability where
  "idle_capability = \<lparr>cap_stat = True, cap_read = True, cap_write = True, cap_create_dir = True,
     cap_delete = True, cap_list = True, cap_copy = True, cap_rename = True, cap_read_with_suffix = False,
     cap_write_can_append = True, cap_list_with_limit = True, cap_list_with_start_after = True,
     cap_list_with_recursive = True, cap_presign_stat = False, cap_presign_read = False,
     cap_presign_write = False, cap_delete_max_size = None\<rparr>"

text \<open>The external state is what a stream or lister has still to yield; writes are appended to it.\<close>

definition idle_api :: "Buffer list wasm_api" where
  "idle_api = \<lparr>wa_alloc = (\<lambda>_ x. (True, x)), wa_buffer_address = (\<lambda>_. 1024),
     wa_split_to = (\<lambda>b n. ([take n (concat b)], [drop n (concat b)])), wa_schemes = [''memory''],
     wa_new_error = (\<lambda>k m. \<lparr>oe_kind = k, oe_kind_static = ''Unsupported'', oe_is_temporary = False,
       oe_is_persistent = False, oe_message = m\<rparr>),
     wa_new_memory = (\<lambda>x. (XOk 7, x)), wa_via_iter = (\<lambda>_ _ x. (XOk 7, x)),
     wa_info = (\<lambda>_. \<lparr>oi_scheme = ''memory'', oi_root = ''/'', oi_name = [], oi_capability = idle_capability\<rparr>),
     wa_native_suffix = (\<lambda>_. False),
     wa_poll_write = (\<lambda>_ _ _ x. (Some (XOk idle_metadata), x)), wa_poll_read = (\<lambda>_ _ x. (Some (XOk []), x)),
     wa_poll_stat = (\<lambda>_ _ x. (Some (XOk idle_metadata), x)),
     wa_write = (\<lambda>_ _ _ _ x. (XOk idle_metadata, x)), wa_read = (\<lambda>_ _ _ x. (XOk [[104, 105]], x)),
     wa_stat = (\<lambda>_ _ _ x. (XOk idle_metadata, x)), wa_create_dir = (\<lambda>_ _ x. (XOk (), x)),
     wa_delete = (\<lambda>_ _ _ x. (XOk (), x)), wa_copy = (\<lambda>_ _ _ x. (XOk idle_metadata, x)),
     wa_rename = (\<lambda>_ _ _ x. (XOk (), x)), wa_reader = (\<lambda>_ _ _ x. (XOk 8, x)),
     wa_into_stream = (\<lambda>_ _ x. (XOk 9, x)), wa_stream_next = (\<lambda>_ x. (XOk (if x = [] then None else Some (hd x)), tl x)),
     wa_writer = (\<lambda>_ _ _ x. (XOk 10, x)), wa_writer_write = (\<lambda>_ p x. (XOk (), x @ [[p]])),
     wa_writer_close = (\<lambda>_ x. (XOk idle_metadata, x)), wa_writer_abort = (\<lambda>_ x. (XOk (), x)),
     wa_lister = (\<lambda>_ _ _ _ _ x. (XOk 11, x)), wa_lister_next = (\<lambda>_ x. (XOk (if x = [] then None else Some idle_entry), tl x))\<rparr>"

lemma calm_idle_api: "calm_api idle_api"
  by (simp add: calm_api_def calm_call_def calm_future_def idle_api_def)

section \<open>A page that reads a stream\<close>

definition page_data :: "Buffer list" where
  "page_data = [[[104, 105]], [[], [106]]]"

definition page_state :: "Slot list \<Rightarrow> u32 \<Rightarrow> u64 \<Rightarrow> State" where
  "page_state slots live n = State_default\<lparr>st_arena := \<lparr>ar_slots = slots, ar_live = live\<rparr>,
     st_next_resource_operation := n\<rparr>"

definition page_cursor :: ReadStreamCursor where
  "page_cursor = \<lparr>rsc_stream = 9, rsc_pending = None, rsc_max_chunk = 1\<rparr>"

definition page_slots :: "u8 list \<Rightarrow> Slot list" where
  "page_slots path = [\<lparr>sl_generation = 1, sl_resource = Some (ResOperator 7)\<rparr>,
     \<lparr>sl_generation = 1, sl_resource = Some (ResBuffer path)\<rparr>]"

definition page_now :: "Slot list \<Rightarrow> u32 \<Rightarrow> u64 \<Rightarrow> Spawned list \<Rightarrow> Buffer list browser" where
  "page_now slots live n js = \<lparr>br_state = page_state slots live n, br_spawned = js, br_ext = page_data\<rparr>"

definition page0 :: "Buffer list browser" where
  "page0 = page_now [\<lparr>sl_generation = 1, sl_resource = Some (ResOperator 7)\<rparr>] 1 0 []"

definition page1 :: "Buffer list browser" where
  "page1 = page_now (page_slots [104]) 2 0 []"

definition page2 :: "WasmFuture \<Rightarrow> Buffer list browser" where
  "page2 f = page_now (page_slots [104] @ [\<lparr>sl_generation = 1, sl_resource = Some (ResTask (PendingTask None))\<rparr>]) 3 0
     [\<lparr>sp_job = TaskJob 65539 f, sp_force_pending = False, sp_pending_seen = False\<rparr>]"

definition page3 :: "Completion \<Rightarrow> Buffer list browser" where
  "page3 c = page_now (page_slots [104] @ [\<lparr>sl_generation = 1, sl_resource = Some (ResTask (ReadyTask c None))\<rparr>]) 3 0 []"

definition consumed_slot :: Slot where
  "consumed_slot = \<lparr>sl_generation = 1, sl_resource = Some (ResTask ConsumedTask)\<rparr>"

definition page4 :: "Completion \<Rightarrow> Buffer list browser" where
  "page4 c = page_now (page_slots [104] @ [consumed_slot, \<lparr>sl_generation = 1, sl_resource = Some (ResCompletion c)\<rparr>]) 4 0 []"

definition page5 :: "Resource \<Rightarrow> Buffer list browser" where
  "page5 r = page_now (page_slots [104] @ [consumed_slot, \<lparr>sl_generation = 2, sl_resource = Some r\<rparr>]) 4 0 []"

text \<open>The three things a page can open, with the futures and completions of their opening.\<close>

definition stream_future :: WasmFuture where
  "stream_future = FutOpenReadStream 7 ''h'' (ReaderOptions_default\<lparr>rdo_chunk := Some 1\<rparr>) BytesRange_default 1"

definition lister_future :: WasmFuture where
  "lister_future = FutOpenLister 7 ''h'' False None None"

definition writer_future :: WasmFuture where
  "writer_future = FutOpenWriter 7 ''h'' WriteOptions_default"

abbreviation stream_page :: "Buffer list browser" where
  "stream_page \<equiv> page5 (ResReadStream (RsOpen page_cursor 0))"

abbreviation lister_page :: "Buffer list browser" where
  "lister_page \<equiv> page5 (ResLister (LsOpen 11 0))"

abbreviation writer_page :: "Buffer list browser" where
  "writer_page \<equiv> page5 (ResWriter (WrOpen 10 0))"

definition page_lease :: ResourceLease where
  "page_lease = \<lparr>ls_handle = 131076, ls_kind = ReadStreamK, ls_operation = 1\<rparr>"

definition page6 :: "Buffer list browser" where
  "page6 = page_now (page_slots [104] @ [consumed_slot,
       \<lparr>sl_generation = 2, sl_resource = Some (ResReadStream (RsBusy 1))\<rparr>,
       \<lparr>sl_generation = 1, sl_resource = Some (ResTask (PendingTask (Some page_lease)))\<rparr>]) 5 1
     [\<lparr>sp_job = ResourceJob 65541 page_lease (FutStreamNext page_cursor), sp_force_pending = False,
       sp_pending_seen = False\<rparr>]"

lemmas page_defs = page_now_def page_state_def page_slots_def consumed_slot_def State_default_def

lemmas bridge_defs = handle_or_record_error_def or_record_def status_def insert_resource_def insert_buffer_def
  arena_call_def set_arena_def state_of_def state_update_def arena_read_def on_ext_def bind_def ret_def
  closure_def lift_res_def throw_def call_ext_def start_task_def spawn_local_def owned_utf8_buffer_def
  path_and_operator_def optional_owned_utf8_buffer_def utf8_of_def try_owned_string_def try_reserve_def
  from_utf8_def access_defs typed_def typed_mut_def resource_def resource_mut_def

lemmas arena_eval = arena_insert_def slot_free_def encode_handle_def decode_handle_def can_insert_def upt_rec

lemma page_path: "text_of_bytes [104] = ''h''"
  by code_simp

lemmas open_eval = scalar_bool_def page_path idle_api_def page1_def page2_def page_defs bridge_defs arena_eval

lemma page0_step: "opendal_mbt_wasm_operator_new_memory idle_api (fresh_instance page_data) = (Ok 65537, page0)"
  by (simp add: opendal_mbt_wasm_operator_new_memory_def idle_api_def fresh_instance_def page0_def page_defs
      bridge_defs arena_insert_def empty_arena_def encode_handle_def)

lemma page1_steps:
  "opendal_mbt_wasm_buffer_new page0 = (Ok 65538, page_now (page_slots []) 2 0 [])"
  "opendal_mbt_wasm_buffer_push 65538 104 (page_now (page_slots []) 2 0 []) = (Ok 0, page1)"
  by (simp_all add: opendal_mbt_wasm_buffer_new_def opendal_mbt_wasm_buffer_push_def page0_def page1_def page_defs
      bridge_defs arena_eval)

lemma page2_steps:
  "opendal_mbt_wasm_operator_read_stream_start_v1 idle_api 65537 65538 1 0 0 0 0 0 0 page1 = (Ok 65539, page2 stream_future)"
  "opendal_mbt_wasm_operator_lister_start idle_api 65537 65538 0 0 0 0 page1 = (Ok 65539, page2 lister_future)"
  "opendal_mbt_wasm_operator_writer_start_v1 idle_api 65537 65538 0 0 0 0 0 0 0 page1 = (Ok 65539, page2 writer_future)"
proof -
  show "opendal_mbt_wasm_operator_read_stream_start_v1 idle_api 65537 65538 1 0 0 0 0 0 0 page1 = (Ok 65539, page2 stream_future)"
    by (simp add: opendal_mbt_wasm_operator_read_stream_start_v1_def read_stream_options_from_scalars_def byte_range_def
        wasm_ensure_suffix_is_native_def BytesRange_default_def ReaderOptions_default_def stream_future_def open_eval)
  show "opendal_mbt_wasm_operator_lister_start idle_api 65537 65538 0 0 0 0 page1 = (Ok 65539, page2 lister_future)"
    by (simp add: opendal_mbt_wasm_operator_lister_start_def list_inputs_def optional_list_limit_def lister_future_def open_eval)
  show "opendal_mbt_wasm_operator_writer_start_v1 idle_api 65537 65538 0 0 0 0 0 0 0 page1 = (Ok 65539, page2 writer_future)"
    by (simp add: opendal_mbt_wasm_operator_writer_start_v1_def write_options_from_scalars_def WriteOptions_default_def
        writer_future_def open_eval)
qed

lemma page3_step:
  assumes "run_future idle_api f page_data = (Ok c, page_data)"
  shows "poll_spawned idle_api False 0 (page2 f) = (Ok (), page3 c)"
  using assms
  by (simp add: poll_spawned_def publish_task_def page2_def page3_def page_defs bridge_defs arena_eval)

lemma page4_step: "opendal_mbt_wasm_task_take 65539 (page3 c) = (Ok 65540, page4 c)"
  by (simp add: opendal_mbt_wasm_task_take_def page3_def page4_def page_defs bridge_defs arena_eval)

lemmas take_eval = take_successful_completion_def ensure_insert_capacity_after_take_def arena_take_def
  next_generation_def page4_def page5_def page_defs bridge_defs arena_eval

lemma page5_steps:
  "opendal_mbt_wasm_completion_take_read_stream 65540 (page4 (COpenReadStream (Inr page_cursor))) = (Ok 131076, stream_page)"
  "opendal_mbt_wasm_completion_take_lister 65540 (page4 (COpenLister (Inr 11))) = (Ok 131076, lister_page)"
  "opendal_mbt_wasm_completion_take_writer 65540 (page4 (COpenWriter (Inr 10))) = (Ok 131076, writer_page)"
  by (simp_all add: opendal_mbt_wasm_completion_take_read_stream_def opendal_mbt_wasm_completion_take_lister_def
      opendal_mbt_wasm_completion_take_writer_def take_eval)

lemma page6_step: "opendal_mbt_wasm_read_stream_next_start 131076 stream_page = (Ok 65541, page6)"
  by (simp add: opendal_mbt_wasm_read_stream_next_start_def reserve_read_stream_next_def reserve_def
      allocate_resource_operation_def checked_add_u64_def u64_max_def spawn_resource_task_def page_lease_def Let_def
      page5_def page6_def page_defs bridge_defs arena_eval)

section \<open>The states of the page are reachable\<close>

lemma call_reachable:
  assumes "reachable api b" and "as_u32 m \<in> exports api" and "m b = (Ok v, b')"
  shows "reachable api b'"
proof -
  have "as_u32 m b = (Ok (U32 v), b')" using assms(3) by (simp add: as_u32_def bind_def ret_def)
  then have "bridge_step api b b'" using assms(2) by (rule call_step [rotated])
  then show ?thesis using assms(1) unfolding reachable_def by (meson rtranclp.rtrancl_into_rtrancl)
qed

lemma poll_reachable:
  assumes "reachable api b" and "poll_spawned api d i b = (Ok u, b')"
  shows "reachable api b'"
  using assms(1) poll_step [OF assms(2)] unfolding reachable_def by (meson rtranclp.rtrancl_into_rtrancl)

lemma opening_reachable:
  assumes "reachable idle_api (page2 f)" and "run_future idle_api f page_data = (Ok c, page_data)"
    and "as_u32 open_it \<in> exports idle_api" and "open_it (page4 c) = (Ok v, page5 r)"
  shows "reachable idle_api (page3 c)" and "reachable idle_api (page5 r)"
proof -
  show p3: "reachable idle_api (page3 c)" using assms(1) page3_step [OF assms(2)] by (rule poll_reachable)
  have "reachable idle_api (page4 c)"
    using p3 by (rule call_reachable [where m = "opendal_mbt_wasm_task_take 65539"]) (rule exports.intros, rule page4_step)
  then show "reachable idle_api (page5 r)" using assms(3,4) by (rule call_reachable)
qed

lemma page_reachable:
  "reachable idle_api (page2 stream_future)" "reachable idle_api (page3 (COpenReadStream (Inr page_cursor)))"
  "reachable idle_api page6" "reachable idle_api stream_page" "reachable idle_api lister_page" "reachable idle_api writer_page"
proof -
  have "reachable idle_api (fresh_instance page_data)" unfolding reachable_def by blast
  then have "reachable idle_api page0"
    by (rule call_reachable [where m = "opendal_mbt_wasm_operator_new_memory idle_api"]) (rule exports.intros, rule page0_step)
  then have "reachable idle_api (page_now (page_slots []) 2 0 [])"
    by (rule call_reachable [where m = "opendal_mbt_wasm_buffer_new"]) (rule exports.intros, rule page1_steps)
  then have p1: "reachable idle_api page1"
    by (rule call_reachable [where m = "opendal_mbt_wasm_buffer_push 65538 104"]) (rule exports.intros, rule page1_steps)
  then show p2: "reachable idle_api (page2 stream_future)"
    by (rule call_reachable [where m = "opendal_mbt_wasm_operator_read_stream_start_v1 idle_api 65537 65538 1 0 0 0 0 0 0"])
      (rule exports.intros, rule page2_steps)
  have run: "run_future idle_api stream_future page_data = (Ok (COpenReadStream (Inr page_cursor)), page_data)"
    "run_future idle_api lister_future page_data = (Ok (COpenLister (Inr 11)), page_data)"
    "run_future idle_api writer_future page_data = (Ok (COpenWriter (Inr 10)), page_data)"
    by (simp_all add: stream_future_def lister_future_def writer_future_def idle_api_def page_cursor_def map_completion_def
        bind_def ret_def closure_def call_ext_def)
  have take: "as_u32 (opendal_mbt_wasm_completion_take_read_stream 65540) \<in> exports idle_api" by (rule exports.intros)
  note stream = opening_reachable [OF p2 run(1) take page5_steps(1)]
  show "reachable idle_api (page3 (COpenReadStream (Inr page_cursor)))" by (rule stream(1))
  show p5: "reachable idle_api stream_page" by (rule stream(2))
  then show "reachable idle_api page6"
    by (rule call_reachable [where m = "opendal_mbt_wasm_read_stream_next_start 131076"]) (rule exports.intros, rule page6_step)
  have "reachable idle_api (page2 lister_future)" using p1
    by (rule call_reachable [where m = "opendal_mbt_wasm_operator_lister_start idle_api 65537 65538 0 0 0 0"])
      (rule exports.intros, rule page2_steps)
  then show "reachable idle_api lister_page"
    by (rule opening_reachable(2) [where open_it = "opendal_mbt_wasm_completion_take_lister 65540", OF _ run(2) _ page5_steps(2)])
      (rule exports.intros)
  have "reachable idle_api (page2 writer_future)" using p1
    by (rule call_reachable [where m = "opendal_mbt_wasm_operator_writer_start_v1 idle_api 65537 65538 0 0 0 0 0 0 0"])
      (rule exports.intros, rule page2_steps)
  then show "reachable idle_api writer_page"
    by (rule opening_reachable(2) [where open_it = "opendal_mbt_wasm_completion_take_writer 65540", OF _ run(3) _ page5_steps(3)])
      (rule exports.intros)
qed

end
