(* ===== verification/WasmLive.thy ===== *)
theory WasmLive
  imports WasmSample
begin

text \<open>
  The properties of the browser bridge that hold in every reachable state: no call panics, no task
  stays pending and no stream, writer or lister stays busy for want of a future that will finish it,
  results are taken once, a cancelled task changes nothing any more, and a torn-down instance stays
  empty. Each is instantiated at a state of the page of \<open>WasmSample\<close>.
\<close>

lemma job_of_pending:
  assumes "bridge_ok T b" and "live_map (arena_of b) h = Some (ResTask (PendingTask l))"
  obtains i where "i < length (br_spawned b)"
    "case l of None \<Rightarrow> \<exists>f. sp_job (br_spawned b ! i) = TaskJob h f \<and> job_ok (TaskJob h f)
     | Some l \<Rightarrow> \<exists>f. sp_job (br_spawned b ! i) = ResourceJob h l f \<and> future_kind f = ls_kind l \<and> future_ok f"
proof -
  let ?js = "map sp_job (br_spawned b)"
  have inv: "pending_spawned (live_map (arena_of b)) ?js" "list_all job_ok ?js"
    using assms(1) by (simp_all add: bridge_ok_def map_inv_def)
  have "\<exists>j \<in> set ?js. case l of None \<Rightarrow> \<exists>f. j = TaskJob h f | Some l \<Rightarrow> \<exists>f. j = ResourceJob h l f"
    using inv(1) assms(2) unfolding pending_spawned_def by (cases l) (simp_all only: option.case, blast+)
  then obtain i where "i < length ?js" and i: "case l of None \<Rightarrow> \<exists>f. ?js ! i = TaskJob h f | Some l \<Rightarrow> \<exists>f. ?js ! i = ResourceJob h l f"
    by (metis in_set_conv_nth)
  moreover have "job_ok (?js ! i)" using inv(2) \<open>i < length ?js\<close> by (simp add: list_all_length)
  ultimately show ?thesis by (intro that [of i]) (auto split: option.splits)
qed

text \<open>
  C16. In every state a page can reach, each exported function returns: whatever its arguments, it
  neither panics nor fails to deliver its scalar, and no spawned future panics when it is woken.
\<close>

theorem wasm_calls_return:
  assumes "calm_api api" and "reachable api b"
  shows "(m \<in> exports api \<longrightarrow> (\<exists>v b'. m b = (Ok v, b'))) \<and> (\<exists>b'. poll_spawned api d i b = (Ok (), b'))"
  using reachable_ok [OF assms] totalD exports_total [OF assms(1)] poll_ok [OF assms(1)] by blast

text \<open>
  C14. A pending task can always finish: in every reachable state some spawned future belongs to it,
  and once that future is no longer delayed, waking it makes the task ready.
\<close>

theorem wasm_pending_completes:
  assumes "calm_api api" and "reachable api b" and "live_map (arena_of b) h = Some (ResTask (PendingTask l))"
  shows "\<exists>i b' c. i < length (br_spawned b) \<and> poll_spawned api False i b = (Ok (), b') \<and>
    live_map (arena_of b') h = Some (ResTask (ReadyTask c l))"
proof -
  obtain i where i: "i < length (br_spawned b)"
    "case l of None \<Rightarrow> \<exists>f. sp_job (br_spawned b ! i) = TaskJob h f \<and> job_ok (TaskJob h f)
     | Some l \<Rightarrow> \<exists>f. sp_job (br_spawned b ! i) = ResourceJob h l f \<and> future_kind f = ls_kind l \<and> future_ok f"
    using job_of_pending [OF reachable_ok [OF assms(1,2)] assms(3)] .
  show ?thesis
  proof (cases l)
    case None
    then obtain f where f: "sp_job (br_spawned b ! i) = TaskJob h f" "job_ok (TaskJob h f)" using i by auto
    obtain c x where "poll_spawned api False i b =
        (Ok (), with_arena (publish_task h c (arena_of b)) ((without_job i b)\<lparr>br_ext := x\<rparr>))"
      using poll_task_job [OF assms(1) i(1) f(1) _ f(2)] by blast
    then show ?thesis using i(1) assms(3) None by (auto simp: publish_task_live_map)
  next
    case (Some l')
    then obtain f where f: "sp_job (br_spawned b ! i) = ResourceJob h l' f" "future_kind f = ls_kind l'" "future_ok f" using i by auto
    obtain u c x where "update_kind u = future_kind f" "poll_spawned api False i b =
        (Ok (), with_arena (publish_resource_task h l' u c (arena_of b)) ((without_job i b)\<lparr>br_ext := x\<rparr>))"
      using poll_resource_job [OF assms(1) i(1) f(1) _ f(3)] by blast
    then show ?thesis using i(1) assms(3) Some f(2) by (auto simp: publish_resource_live_map)
  qed
qed

text \<open>
  C15. A busy stream, writer or lister is never stuck: in every reachable state exactly one live task
  holds the lease on its operation, and there is a spawned future whose completion makes the resource
  usable or terminal again and that task ready.
\<close>

theorem wasm_busy_released:
  assumes "calm_api api" and "reachable api b" and "live_map (arena_of b) h = Some r" and "busy_lease h r = Some l"
  shows "(\<exists>!t. \<exists>s. live_map (arena_of b) t = Some s \<and> lease_of s = Some l) \<and>
    (\<exists>t i b' r' c. i < length (br_spawned b) \<and> poll_spawned api False i b = (Ok (), b') \<and>
      live_map (arena_of b') h = Some r' \<and> resource_kind r' = resource_kind r \<and> busy_lease h r' = None \<and>
      live_map (arena_of b') t = Some (ResTask (ReadyTask c (Some l))))"
proof
  have ok: "bridge_ok False b" using assms(1,2) by (rule reachable_ok)
  then have inv: "map_inv (live_map (arena_of b)) (map sp_job (br_spawned b)) (st_next_resource_operation (br_state b))"
    by (simp add: bridge_ok_def)
  obtain t where t: "live_map (arena_of b) t = Some (ResTask (PendingTask (Some l)))"
    by (rule busy_ownerE [OF inv assms(3,4)])
  have "leases_distinct (live_map (arena_of b))" using inv by (simp add: map_inv_def)
  then show "\<exists>!t. \<exists>s. live_map (arena_of b) t = Some s \<and> lease_of s = Some l"
    using t unfolding leases_distinct_def by (intro ex1I [of _ t]) (fastforce, metis lease_of.simps(1) task_lease.simps(1))
  obtain i f where i: "i < length (br_spawned b)" "sp_job (br_spawned b ! i) = ResourceJob t l f" "future_kind f = ls_kind l"
    "future_ok f"
    by (rule job_of_pending [OF ok t]) auto
  obtain u c x where u: "update_kind u = future_kind f" and p: "poll_spawned api False i b =
      (Ok (), with_arena (publish_resource_task t l u c (arena_of b)) ((without_job i b)\<lparr>br_ext := x\<rparr>))"
    using poll_resource_job [OF assms(1) i(1,2) _ i(4)] by blast
  have l: "ls_handle l = h" "ls_kind l = resource_kind r" using busy_leaseD [OF assms(4)] by auto
  have "t \<noteq> h" using t assms(3,4) by auto
  then have M: "live_map (publish_resource_task t l u c (arena_of b)) h = Some (updated l u)"
    using t u i(3) l assms(3,4) by (simp add: publish_resource_live_map after_update_def)
  show "\<exists>t i b' r' c. i < length (br_spawned b) \<and> poll_spawned api False i b = (Ok (), b') \<and>
      live_map (arena_of b') h = Some r' \<and> resource_kind r' = resource_kind r \<and> busy_lease h r' = None \<and>
      live_map (arena_of b') t = Some (ResTask (ReadyTask c (Some l)))"
    using i(1) p M t u i(3) l updated_plain [of l u] plainD(2) [of "updated l u" h]
    by (intro exI [of _ t] exI [of _ i] exI [of _ "with_arena (publish_resource_task t l u c (arena_of b)) ((without_job i b)\<lparr>br_ext := x\<rparr>)"]
        exI [of _ "updated l u"] exI [of _ c]) (simp add: publish_resource_live_map)
qed

text \<open>
  C22. Teardown is permanent: after it no handle resolves, no handle is live, and no sequence of calls
  and completions brings one back.
\<close>

theorem wasm_teardown_permanent:
  assumes "calm_api api" and "reachable api b" and "opendal_mbt_wasm_teardown b = (Ok v, b1)"
    and "(bridge_step api)\<^sup>*\<^sup>* b1 b2"
  shows "st_torn_down (br_state b2) \<and> ar_live (arena_of b2) = 0 \<and>
    resource (arena_of b2) h = Inl (InvalidHandle h)"
proof -
  have "bridge_ok False b1"
    using totalD [OF total_teardown reachable_ok [OF assms(1,2)]] assms(3) by auto
  moreover have "st_torn_down (br_state b1)"
    using assms(3) by (auto simp: opendal_mbt_wasm_teardown_def bind_def state_update_def ret_def)
  ultimately have "bridge_ok True b1" by (simp add: bridge_ok_def)
  from steps_ok [OF assms(1,4) this] have ok: "bridge_ok True b2" .
  then have slots: "ar_slots (arena_of b2) = []" "arena_wf (arena_of b2)" "st_torn_down (br_state b2)"
    by (simp_all add: bridge_ok_def)
  then have "unat (ar_live (arena_of b2)) = 0" by (simp add: arena_wf_def)
  then show ?thesis using slots by (simp add: unat_eq_0 resource_eq live_map_no_slots)
qed

text \<open>
  C21. A finished task hands out its result exactly once: the first take moves the completion to a
  fresh handle and marks the task consumed, and the next one returns zero and changes no resource.
\<close>

theorem wasm_result_taken_once:
  assumes "calm_api api" and "reachable api b" and "live_map (arena_of b) h = Some (ResTask (ReadyTask c l))"
    and "can_insert (arena_of b)"
  shows "\<exists>ch b1 b2. opendal_mbt_wasm_task_take h b = (Ok ch, b1) \<and> ch \<noteq> 0 \<and>
    live_map (arena_of b) ch = None \<and>
    live_map (arena_of b1) = (live_map (arena_of b))(h \<mapsto> ResTask ConsumedTask, ch \<mapsto> ResCompletion c) \<and>
    opendal_mbt_wasm_task_take h b1 = (Ok 0, b2) \<and> arena_of b2 = arena_of b1"
proof -
  let ?a = "store_put h (ResTask ConsumedTask) (arena_of b)"
  have wf: "arena_wf (arena_of b)" using reachable_ok [OF assms(1,2)] by (simp add: bridge_ok_def)
  have M: "live_map ?a = (live_map (arena_of b))(h \<mapsto> ResTask ConsumedTask)" using assms(3) by (rule put_live)
  have wfa: "arena_wf ?a" using wf by (rule store_laws(2))
  obtain ch a' where ins: "arena_insert (ResCompletion c) ?a = (Inr ch, a')"
    using insert_can [OF wfa, of "ResCompletion c"] assms(3,4) can_insert_put by (metis prod.collapse)
  have ch: "live_map ?a ch = None" "live_map a' = (live_map ?a)(ch \<mapsto> ResCompletion c)" "arena_wf a'"
    using insert_live_map [OF wfa ins] wf_insert [OF wfa, of "ResCompletion c"] ins by auto
  then have "ch \<noteq> h" "live_map (arena_of b) ch = None" using M by (auto split: if_splits)
  moreover have "ch \<noteq> 0" using handle_positive [OF ch(3), of ch "ResCompletion c"] ch(2) by auto
  moreover have "opendal_mbt_wasm_task_take h b = (Ok ch, with_arena a' b)"
    using assms(3,4) ins
    by (simp add: opendal_mbt_wasm_task_take_def handle_or_record_error_def or_record_def bind_def closure_def ret_def
        state_of_def arena_read_def lift_res_def access_defs typed_mut_eq set_arena_def arena_call_def
        state_update_def with_arena_def)
  moreover have "\<exists>b2. opendal_mbt_wasm_task_take h (with_arena a' b) = (Ok 0, b2) \<and> arena_of b2 = a'"
    using ch(2) M \<open>ch \<noteq> h\<close>
    by (cases "can_insert a'")
      (simp_all add: opendal_mbt_wasm_task_take_def handle_or_record_error_def or_record_def bind_def closure_def ret_def
        state_of_def arena_read_def lift_res_def access_defs typed_mut_eq throw_def record_error_def state_update_def)
  ultimately show ?thesis using ch M by (metis with_arena_simps(1))
qed

text \<open>
  C20. Cancelling wins against completion: cancelling the task that holds a busy resource makes the
  resource failed and the task cancelled at once, and whatever its future later delivers is ignored.
\<close>

theorem wasm_cancel_wins:
  assumes "calm_api api" and "reachable api b"
    and t: "live_map (arena_of b) t = Some (ResTask (PendingTask (Some l)))"
    and r: "live_map (arena_of b) (ls_handle l) = Some r" and busy: "busy_lease (ls_handle l) r = Some l"
  shows "\<exists>b1. opendal_mbt_wasm_task_cancel t b = (Ok 0, b1) \<and>
    live_map (arena_of b1) = (live_map (arena_of b))(ls_handle l \<mapsto> failed_of r, t \<mapsto> ResTask CancelledTask) \<and>
    live_map (publish_resource_task t l u c (arena_of b1)) = live_map (arena_of b1)"
proof -
  let ?a = "terminalize_lease l (arena_of b)"
  have M: "live_map ?a = (live_map (arena_of b))(ls_handle l \<mapsto> failed_of r)"
    using terminalize_live_map [of l "arena_of b"] r busy_held [OF busy] by (simp add: after_terminalize_def)
  have "t \<noteq> ls_handle l" using t r busy by auto
  then have t': "live_map ?a t = Some (ResTask (PendingTask (Some l)))" using M t by simp
  have cancel: "opendal_mbt_wasm_task_cancel t b = (Ok 0, with_arena (store_put t (ResTask CancelledTask) ?a) b)"
    using t t'
    by (simp add: opendal_mbt_wasm_task_cancel_def terminalize_task_def status_def bind_def closure_def ret_def
        arena_read_def lift_res_def access_defs typed_eq typed_mut_eq set_arena_def state_update_def with_arena_def)
  moreover have "live_map (store_put t (ResTask CancelledTask) ?a) =
      (live_map (arena_of b))(ls_handle l \<mapsto> failed_of r, t \<mapsto> ResTask CancelledTask)"
    using put_live [OF t'] M by simp
  ultimately show ?thesis by (simp add: publish_resource_live_map)
qed

text \<open>
  C17. Every value is well typed in every state a page can reach, whatever it calls and OpenDAL delivers: a
  buffer is within the buffer limit, an operator builder within the configuration limits with its bytes
  counted and its keys distinct up to ASCII case, a listing within the entry and byte limits with modes
  that exist, an open stream has a positive chunk size of at most one transfer, and so is every finished
  result; every spawned future carries well-typed inputs of the kind its lease names. A handle is taken
  as the kind it was made with, and as any other kind it is refused and nothing changes.
\<close>

theorem wasm_values_typed:
  assumes "calm_api api" and "reachable api b"
  shows "(\<forall>h r. live_map (arena_of b) h = Some r \<longrightarrow> resource_ok r \<and>
      (if k = resource_kind r then \<exists>a'. arena_take h k (arena_of b) = (Inr r, a')
       else arena_take h k (arena_of b) = (Inl (wrong_resource_type h k r), arena_of b))) \<and>
    (\<forall>sp \<in> set (br_spawned b). job_ok (sp_job sp))"
  using reachable_ok [OF assms]
  by (auto simp: bridge_ok_def map_inv_def resources_ok_def list_all_iff take_eq)

text \<open>
  While a read is in flight, a second read of the same stream is refused with \<open>ResourceBusy\<close>,
  and after the stream's end or failure with \<open>ResourceClosed\<close>; no resource and no future changes.
\<close>

theorem wasm_stream_refuses:
  assumes "calm_api api" and "reachable api b"
    and "live_map (arena_of b) h = Some (ResReadStream s)" and "\<not> (\<exists>cursor n. s = RsOpen cursor n)"
    and "can_insert (arena_of b)" and "unat (st_next_resource_operation (br_state b)) < u64_max"
  shows "\<exists>b'. opendal_mbt_wasm_read_stream_next_start h b = (Ok 0, b') \<and>
    st_last_error (br_state b') = Some (if \<exists>n. s = RsBusy n then ResourceBusy h else ResourceClosed h) \<and>
    arena_of b' = arena_of b \<and> br_spawned b' = br_spawned b"
proof -
  have "\<not> st_torn_down (br_state b)" using live_not_torn [OF reachable_ok [OF assms(1,2)] assms(3)] .
  moreover obtain n where "checked_add_u64 (st_next_resource_operation (br_state b)) 1 = Some n"
    using assms(6) by (simp add: checked_add_u64_def)
  ultimately show ?thesis using assms(3-5)
    by (cases s) (simp_all add: opendal_mbt_wasm_read_stream_next_start_def reserve_read_stream_next_def reserve_def
        allocate_resource_operation_def handle_or_record_error_def or_record_def bind_def closure_def ret_def
        state_of_def arena_read_def lift_res_def access_defs typed_mut_eq throw_def record_error_def state_update_def)
qed

section \<open>The properties at the page's states\<close>

lemma page_live:
  "live_map (arena_of (page2 stream_future)) 65539 = Some (ResTask (PendingTask None))"
  "live_map (arena_of (page3 (COpenReadStream (Inr page_cursor)))) 65539 = Some (ResTask (ReadyTask (COpenReadStream (Inr page_cursor)) None))"
  "live_map (arena_of page6) 131076 = Some (ResReadStream (RsBusy 1))"
  "live_map (arena_of page6) 65541 = Some (ResTask (PendingTask (Some page_lease)))"
  by (simp_all add: live_map_eq decode_handle_def page2_def page3_def page6_def page_defs)

lemma page_room: "can_insert (arena_of (page3 (COpenReadStream (Inr page_cursor))))" "can_insert (arena_of page6)"
  by (simp_all add: can_insert_def page3_def page6_def page_defs)

theorem wasm_calls_return_witness:
  "(\<exists>v b'. as_u32 opendal_mbt_wasm_buffer_new page6 = (Ok v, b')) \<and> (\<exists>b'. poll_spawned idle_api True 0 page6 = (Ok (), b'))"
  using wasm_calls_return [OF calm_idle_api page_reachable(3), of "as_u32 opendal_mbt_wasm_buffer_new" True 0]
    exports.intros(7) [of idle_api] by blast

theorem wasm_values_typed_witness:
  "resource_ok (ResReadStream (RsBusy 1)) \<and>
   arena_take 131076 WriterK (arena_of page6) =
     (Inl (wrong_resource_type 131076 WriterK (ResReadStream (RsBusy 1))), arena_of page6) \<and>
   chunk_ok (rsc_max_chunk page_cursor)"
proof -
  have "sp_job (hd (br_spawned page6)) = ResourceJob 65541 page_lease (FutStreamNext page_cursor)"
    "hd (br_spawned page6) \<in> set (br_spawned page6)"
    by (simp_all add: page6_def page_now_def)
  then have "job_ok (ResourceJob 65541 page_lease (FutStreamNext page_cursor))"
    using wasm_values_typed [OF calm_idle_api page_reachable(3)] by metis
  then show ?thesis
    using wasm_values_typed [OF calm_idle_api page_reachable(3), of WriterK] page_live(3) by simp
qed

theorem wasm_pending_completes_witness:
  "\<exists>i b' c. i < length (br_spawned (page2 stream_future)) \<and> poll_spawned idle_api False i (page2 stream_future) = (Ok (), b') \<and>
     live_map (arena_of b') 65539 = Some (ResTask (ReadyTask c None))"
  by (rule wasm_pending_completes [OF calm_idle_api page_reachable(1) page_live(1)])

theorem wasm_busy_released_witness:
  "\<exists>!t. \<exists>s. live_map (arena_of page6) t = Some s \<and> lease_of s = Some page_lease"
  using wasm_busy_released [OF calm_idle_api page_reachable(3) page_live(3), of page_lease]
  by (simp add: page_lease_def)

theorem wasm_teardown_permanent_witness:
  "\<exists>b1. opendal_mbt_wasm_teardown page6 = (Ok 0, b1) \<and> resource (arena_of b1) 131076 = Inl (InvalidHandle 131076)"
proof -
  obtain b1 where b1: "opendal_mbt_wasm_teardown page6 = (Ok 0, b1)"
    by (simp add: opendal_mbt_wasm_teardown_def bind_def state_update_def ret_def)
  with wasm_teardown_permanent [OF calm_idle_api page_reachable(3) b1 rtranclp.rtrancl_refl, of 131076]
  show ?thesis by blast
qed

theorem wasm_result_taken_once_witness:
  "\<exists>ch b1. opendal_mbt_wasm_task_take 65539 (page3 (COpenReadStream (Inr page_cursor))) = (Ok ch, b1) \<and>
     live_map (arena_of b1) ch = Some (ResCompletion (COpenReadStream (Inr page_cursor)))"
  using wasm_result_taken_once [OF calm_idle_api page_reachable(2) page_live(2) page_room(1)] by force

theorem wasm_cancel_wins_witness:
  "\<exists>b1. opendal_mbt_wasm_task_cancel 65541 page6 = (Ok 0, b1) \<and>
     live_map (arena_of b1) 131076 = Some (ResReadStream RsFailed)"
proof -
  have h: "ls_handle page_lease = 131076" by (simp add: page_lease_def)
  have "live_map (arena_of page6) (ls_handle page_lease) = Some (ResReadStream (RsBusy 1))"
    "busy_lease (ls_handle page_lease) (ResReadStream (RsBusy 1)) = Some page_lease"
    by (simp_all add: page_live h) (simp add: page_lease_def)
  from wasm_cancel_wins [OF calm_idle_api page_reachable(3) page_live(4) this] show ?thesis by (force simp: h)
qed

theorem wasm_stream_refuses_witness:
  "\<exists>b'. opendal_mbt_wasm_read_stream_next_start 131076 page6 = (Ok 0, b') \<and>
     st_last_error (br_state b') = Some (ResourceBusy 131076)"
  using wasm_stream_refuses [OF calm_idle_api page_reachable(3) page_live(3) _ page_room(2)]
  by (force simp: page6_def page_now_def page_state_def u64_max_def)

end
