(* ===== verification/WasmSession.thy ===== *)
theory WasmSession
  imports WasmSample
begin

text \<open>
  What whole sessions of a page with the browser bridge are made of: calls that start an operation,
  let its future run, take the completion and release the task. \<open>at_hand\<close> follows the map of live
  handles through the calls; the sessions themselves are in \<open>WasmStreamSession\<close>,
  \<open>WasmWriterSession\<close> and \<open>WasmListerSession\<close>.
\<close>

section \<open>The page's programs\<close>

definition run_call :: "'x wasm_api \<Rightarrow> ('x, u32) W \<Rightarrow> ('x, u32) W" where
  \<comment> \<open>the future that runs is the one the call has just spawned; the result is the completion's handle\<close>
  "run_call api start =
     bind start (\<lambda>task.
     bind (\<lambda>b. poll_spawned api False (length (br_spawned b) - 1) b) (\<lambda>_.
     bind (opendal_mbt_wasm_task_take task) (\<lambda>completion.
     bind (opendal_mbt_wasm_task_release task) (\<lambda>_. ret completion))))"

primrec repeat_round :: "('x, 'a) W \<Rightarrow> nat \<Rightarrow> ('x, 'a list) W" where
  "repeat_round m 0 = ret []"
| "repeat_round m (Suc n) = bind m (\<lambda>r. bind (repeat_round m n) (\<lambda>rs. ret (r # rs)))"

lemma repeat_more:
  assumes "m b = (Ok r, b1)" and "repeat_round m n b1 = (Ok rs, b2)"
  shows "repeat_round m (Suc n) b = (Ok (r # rs), b2)"
  using assms by (simp add: bind_def ret_def)

definition memory_suffices :: "'x wasm_api \<Rightarrow> bool" where
  "memory_suffices api \<longleftrightarrow> (\<forall>n x. wa_alloc api n x = (True, x))"

section \<open>The effect of each call on the map of live handles\<close>

text \<open>
  \<open>at_hand M js n k x b\<close>: in state \<open>b\<close> the live resources are \<open>M\<close>, the spawned futures \<open>js\<close>, the last
  operation number \<open>n\<close>, the external state \<open>x\<close>, and \<open>k\<close> more slots can be appended.
\<close>

definition at_hand ::
  "(u32 \<Rightarrow> Resource option) \<Rightarrow> Spawned list \<Rightarrow> u64 \<Rightarrow> nat \<Rightarrow> 'x \<Rightarrow> 'x browser \<Rightarrow> bool" where
  "at_hand M js n k x b \<longleftrightarrow>
     arena_wf (arena_of b) \<and> live_map (arena_of b) = M \<and> length (ar_slots (arena_of b)) + k \<le> MAX_SLOTS \<and>
     \<not> st_torn_down (br_state b) \<and> \<not> st_force_pending_for_canary (br_state b) \<and>
     st_next_resource_operation (br_state b) = n \<and> br_spawned b = js \<and> br_ext b = x"

lemma insert_at_hand:
  assumes "arena_wf a" and "length (ar_slots a) + Suc k \<le> MAX_SLOTS"
  obtains h a' where "arena_insert r a = (Inr h, a')" "live_map a h = None" "live_map a' = (live_map a)(h \<mapsto> r)"
    "arena_wf a'" "length (ar_slots a') + k \<le> MAX_SLOTS" "h \<noteq> 0"
proof -
  have "can_insert a" using assms(2) by (simp add: can_insert_def)
  then obtain h a' where ins: "arena_insert r a = (Inr h, a')"
    using insert_can [OF assms(1), of r] by (metis prod.collapse)
  have wf: "arena_wf a'" using wf_insert [OF assms(1), of r] ins by simp
  have "length (ar_slots a') \<le> Suc (length (ar_slots a))"
    using assms(1) ins by (cases rule: insert_cases [where r = r]) auto
  moreover note insert_live_map [OF assms(1) ins]
  moreover from this have "h \<noteq> 0" using handle_positive [OF wf, of h r] by auto
  ultimately show thesis using that ins wf assms(2) by simp
qed

lemma length_store_put [simp]: "length (ar_slots (store_put h r a)) = length (ar_slots a)"
  by (simp add: store_put_eq fill_slot_def split: option.split)

lemma take_at_hand:
  assumes "arena_wf a" and "live_map a h = Some r" and "resource_kind r = k"
  obtains a' where "arena_take h k a = (Inr r, a')" "live_map a' = (live_map a)(h := None)" "arena_wf a'"
    "length (ar_slots a') = length (ar_slots a)"
proof -
  obtain a' where t: "arena_take h k a = (Inr r, a')" "live_map a' = (live_map a)(h := None)" "arena_wf a'"
    using take_live [OF assms] by metis
  moreover have "length (ar_slots a') = length (ar_slots a)"
    using t(1) assms(2,3) by (auto simp: take_eq remove_slot_def)
  ultimately show thesis using that by blast
qed

lemmas read_defs = handle_or_record_error_def or_record_def bind_def closure_def ret_def state_of_def
  arena_read_def lift_res_def access_defs typed_eq typed_mut_eq

lemmas call_defs = read_defs status_def set_arena_def arena_call_def state_update_def with_arena_def

lemma poll_at_hand:
  assumes b: "at_hand M (js @ [\<lparr>sp_job = ResourceJob t l f, sp_force_pending = False, sp_pending_seen = False\<rparr>]) n k x b"
    and run: "run_resource_future api f x = (Ok (u, c), x')" and u: "update_kind u = ls_kind l"
    and t: "M t = Some (ResTask (PendingTask (Some l)))" and r: "M (ls_handle l) = Some r" "busy_lease (ls_handle l) r = Some l"
  shows "\<exists>b'. poll_spawned api False (length (br_spawned b) - 1) b = (Ok (), b') \<and>
    at_hand (M(ls_handle l \<mapsto> updated l u, t \<mapsto> ResTask (ReadyTask c (Some l)))) js n k x' b'"
proof -
  let ?a = "publish_resource_task t l u c (arena_of b)"
  have "live_map ?a = M(ls_handle l \<mapsto> updated l u, t \<mapsto> ResTask (ReadyTask c (Some l)))"
    using b t r u by (simp add: at_hand_def publish_resource_live_map after_update_def)
  moreover have "arena_wf ?a" using b publish_wf(2) by (simp add: at_hand_def)
  moreover have "length (ar_slots ?a) = length (ar_slots (arena_of b))"
    by (cases u) (auto simp: publish_resource_task_def access_defs typed_mut_eq Let_def split: option.split)
  ultimately show ?thesis using b run
    by (intro exI [of _ "with_arena ?a (b\<lparr>br_spawned := js, br_ext := x'\<rparr>)"])
      (simp add: at_hand_def poll_spawned_def call_defs on_ext_def)
qed

lemma task_take_at_hand:
  assumes b: "at_hand M js n (Suc k) x b" and t: "M t = Some (ResTask (ReadyTask c l))"
  shows "\<exists>ch b'. opendal_mbt_wasm_task_take t b = (Ok ch, b') \<and> M ch = None \<and>
    at_hand (M(t \<mapsto> ResTask ConsumedTask, ch \<mapsto> ResCompletion c)) js n k x b'"
proof -
  let ?a = "store_put t (ResTask ConsumedTask) (arena_of b)"
  have live: "live_map (arena_of b) t = Some (ResTask (ReadyTask c l))" using b t by (simp add: at_hand_def)
  have a: "arena_wf ?a" "length (ar_slots ?a) + Suc k \<le> MAX_SLOTS" "live_map ?a = M(t \<mapsto> ResTask ConsumedTask)"
    using b store_laws(2) put_live [OF live] by (simp_all add: at_hand_def)
  obtain ch a' where ins: "arena_insert (ResCompletion c) ?a = (Inr ch, a')" "live_map ?a ch = None"
    "live_map a' = (live_map ?a)(ch \<mapsto> ResCompletion c)" "arena_wf a'" "length (ar_slots a') + k \<le> MAX_SLOTS"
    by (rule insert_at_hand [OF a(1,2)])
  have "M ch = None" using ins(2) a(3) by (auto split: if_splits)
  moreover have "can_insert (arena_of b)" using b by (simp add: at_hand_def can_insert_def)
  ultimately show ?thesis using b live ins a(3)
    by (intro exI [of _ ch] exI [of _ "with_arena a' b"])
      (simp add: at_hand_def opendal_mbt_wasm_task_take_def call_defs)
qed

lemma release_at_hand:
  assumes b: "at_hand M js n k x b" and h: "M h = Some r" "resource_kind r = K"
  shows "\<exists>b'. status (arena_call (arena_release h K)) b = (Ok 0, b') \<and> at_hand (M(h := None)) js n k x b'"
proof -
  have "arena_wf (arena_of b)" "live_map (arena_of b) h = Some r" using b h by (simp_all add: at_hand_def)
  then obtain a' where "arena_take h K (arena_of b) = (Inr r, a')" "live_map a' = (live_map (arena_of b))(h := None)"
    "arena_wf a'" "length (ar_slots a') = length (ar_slots (arena_of b))"
    using take_at_hand [OF _ _ h(2)] by blast
  then show ?thesis using b
    by (intro exI [of _ "with_arena a' b"]) (simp add: at_hand_def arena_release_def call_defs)
qed

lemma task_release_at_hand:
  assumes "at_hand M js n k x b" and "M t = Some (ResTask ConsumedTask)"
  shows "\<exists>b'. opendal_mbt_wasm_task_release t b = (Ok 0, b') \<and> at_hand (M(t := None)) js n k x b'"
proof -
  have "terminalize_task t b = (Ok (), b)"
    using assms by (simp add: at_hand_def terminalize_task_def call_defs)
  then have "opendal_mbt_wasm_task_release t b = status (arena_call (arena_release t TaskK)) b"
    by (simp add: opendal_mbt_wasm_task_release_def status_def bind_def closure_def)
  then show ?thesis using release_at_hand [OF assms] by simp
qed

lemma insert_call_at_hand:
  assumes b: "at_hand M js n (Suc free) x b"
  shows "\<exists>h b'. arena_call (arena_insert r) b = (Ok h, b') \<and> h \<noteq> 0 \<and> M h = None \<and> at_hand (M(h \<mapsto> r)) js n free x b'"
proof -
  have "arena_wf (arena_of b)" "length (ar_slots (arena_of b)) + Suc free \<le> MAX_SLOTS" using b by (simp_all add: at_hand_def)
  then obtain h a' where "arena_insert r (arena_of b) = (Inr h, a')" "live_map (arena_of b) h = None"
    "live_map a' = (live_map (arena_of b))(h \<mapsto> r)" "arena_wf a'" "length (ar_slots a') + free \<le> MAX_SLOTS" "h \<noteq> 0"
    by (rule insert_at_hand)
  then show ?thesis using b
    by (intro exI [of _ h] exI [of _ "with_arena a' b"]) (simp add: at_hand_def call_defs)
qed

text \<open>Once the task is ready, taking its completion and releasing it ends the call.\<close>

lemma finish_call_at_hand:
  assumes "start b = (Ok t, b1)" and "poll_spawned api False (length (br_spawned b1) - 1) b1 = (Ok (), b2)"
    and b2: "at_hand (N(t \<mapsto> ResTask (ReadyTask c l))) js n (Suc free) x b2" and "N t = None"
  shows "\<exists>ch b'. run_call api start b = (Ok ch, b') \<and> N ch = None \<and> at_hand (N(ch \<mapsto> ResCompletion c)) js n free x b'"
proof -
  obtain ch b3 where ch: "opendal_mbt_wasm_task_take t b2 = (Ok ch, b3)" "(N(t \<mapsto> ResTask (ReadyTask c l))) ch = None"
    and b3: "at_hand (N(t \<mapsto> ResTask ConsumedTask, ch \<mapsto> ResCompletion c)) js n free x b3"
    using task_take_at_hand [OF b2, of t c l] by auto
  from ch(2) have ne: "t \<noteq> ch" "N ch = None" by (auto split: if_splits)
  obtain b4 where rel: "opendal_mbt_wasm_task_release t b3 = (Ok 0, b4)"
    and b4: "at_hand ((N(t \<mapsto> ResTask ConsumedTask, ch \<mapsto> ResCompletion c))(t := None)) js n free x b4"
    using task_release_at_hand [OF b3, of t] ne by auto
  have "(N(t \<mapsto> ResTask ConsumedTask, ch \<mapsto> ResCompletion c))(t := None) = N(ch \<mapsto> ResCompletion c)"
    using ne assms(4) by (auto simp: fun_eq_iff)
  with b4 have "at_hand (N(ch \<mapsto> ResCompletion c)) js n free x b4" by simp
  moreover have "run_call api start b = (Ok ch, b4)" using assms(1,2) ch(1) rel by (simp add: run_call_def bind_def ret_def)
  ultimately show ?thesis using ne(2) by blast
qed

text \<open>A call that starts a task of its own, without a resource.\<close>

lemma task_call_at_hand:
  assumes b: "at_hand M js n (Suc (Suc free)) x b" and start: "start b = handle_or_record_error (start_task f) b"
    and run: "run_future api f x = (Ok c, x')"
  shows "\<exists>ch b'. run_call api start b = (Ok ch, b') \<and> M ch = None \<and> at_hand (M(ch \<mapsto> ResCompletion c)) js n free x' b'"
proof -
  obtain t b0 where t: "arena_call (arena_insert (ResTask (PendingTask None))) b = (Ok t, b0)" "M t = None"
    and b0: "at_hand (M(t \<mapsto> ResTask (PendingTask None))) js n (Suc free) x b0"
    using insert_call_at_hand [OF b] by blast
  let ?b1 = "b0\<lparr>br_spawned := js @ [\<lparr>sp_job = TaskJob t f, sp_force_pending = False, sp_pending_seen = False\<rparr>]\<rparr>"
  let ?b2 = "with_arena (publish_task t c (arena_of b0)) (b0\<lparr>br_ext := x'\<rparr>)"
  have live: "live_map (arena_of b0) t = Some (ResTask (PendingTask None))" using b0 by (simp add: at_hand_def)
  have "start b = (Ok t, ?b1)"
    using start t(1) b b0
    by (simp add: at_hand_def start_task_def insert_resource_def spawn_local_def handle_or_record_error_def or_record_def
        bind_def closure_def ret_def state_of_def)
  moreover have "poll_spawned api False (length (br_spawned ?b1) - 1) ?b1 = (Ok (), ?b2)"
    using run b0 by (simp add: at_hand_def poll_spawned_def call_defs on_ext_def)
  moreover have "at_hand (M(t \<mapsto> ResTask (ReadyTask c None))) js n (Suc free) x' ?b2"
    using b0 live put_live [OF live, of "ResTask (ReadyTask c None)"] store_laws(2)
    by (simp add: at_hand_def publish_task_def access_defs typed_mut_eq with_arena_def)
  ultimately show ?thesis using t(2) by (rule finish_call_at_hand)
qed

context stateful
begin

lemma reserved_at_hand:
  assumes b: "at_hand M js n (Suc free) x b" and h: "M h = Some (mk (reopen inner m))" and n: "unat n < u64_max"
  defines "l \<equiv> \<lparr>ls_handle = h, ls_kind = k, ls_operation = n + 1\<rparr>"
  shows "\<exists>t b'. bind (reserve_it h) (\<lambda>(task, lease, inner). bind (spawn_resource_task task lease (fut inner)) (\<lambda>_. ret task)) b = (Ok t, b') \<and>
    M t = None \<and> at_hand (M(h \<mapsto> mk (busy (n + 1)), t \<mapsto> ResTask (PendingTask (Some l))))
      (js @ [\<lparr>sp_job = ResourceJob t l (fut inner), sp_force_pending = False, sp_pending_seen = False\<rparr>]) (n + 1) free x b'"
proof -
  let ?a = "store_put h (mk (busy (n + 1))) (arena_of b)"
  have live: "live_map (arena_of b) h = Some (mk (reopen inner m))" using b h by (simp add: at_hand_def)
  have a: "arena_wf ?a" "length (ar_slots ?a) + Suc free \<le> MAX_SLOTS" "live_map ?a = M(h \<mapsto> mk (busy (n + 1)))"
    using b store_laws(2) put_live [OF live] by (simp_all add: at_hand_def)
  obtain t a' where ins: "arena_insert (ResTask (PendingTask (Some l))) ?a = (Inr t, a')" "live_map ?a t = None"
    "live_map a' = (live_map ?a)(t \<mapsto> ResTask (PendingTask (Some l)))" "arena_wf a'" "length (ar_slots a') + free \<le> MAX_SLOTS"
    by (rule insert_at_hand [OF a(1,2)])
  have seat: "sel (mk (reopen inner m)) = Some (reopen inner m)" "seat_of (reopen inner m) = SeatOpen inner m"
    by (simp_all add: sel_mk seat_open)
  have "M t = None" using ins(2) a(3) by (auto split: if_splits)
  moreover have "can_insert (arena_of b)" using b by (simp add: at_hand_def can_insert_def)
  moreover have "checked_add_u64 n 1 = Some (n + 1)" using n by (simp add: checked_add_u64_def)
  ultimately show ?thesis using b live ins a(3)
    by (intro exI [of _ t] exI [of _ "b\<lparr>br_state := (br_state b)\<lparr>st_next_resource_operation := n + 1, st_arena := a'\<rparr>,
          br_spawned := js @ [\<lparr>sp_job = ResourceJob t l (fut inner), sp_force_pending = False, sp_pending_seen = False\<rparr>]\<rparr>"])
      (simp add: at_hand_def reserve_def seat allocate_resource_operation_def spawn_resource_task_def spawn_local_def
        call_defs l_def Let_def)
qed

text \<open>An operation on an open resource, from its start to its completion.\<close>

lemma run_call_at_hand:
  assumes b: "at_hand M js n (Suc (Suc free)) x b" and h: "M h = Some (mk (reopen inner m))" and n: "unat n < u64_max"
    and start: "start b = handle_or_record_error (bind (reserve_it h) (\<lambda>(task, lease, inner).
      bind (spawn_resource_task task lease (fut inner)) (\<lambda>_. ret task))) b"
    and run: "run_resource_future api (fut inner) x = (Ok (u, c), x')" and u: "update_kind u = k"
  shows "\<exists>ch b'. run_call api start b = (Ok ch, b') \<and> M ch = None \<and>
    at_hand (M(h \<mapsto> updated \<lparr>ls_handle = h, ls_kind = k, ls_operation = n + 1\<rparr> u, ch \<mapsto> ResCompletion c)) js (n + 1) free x' b'"
proof -
  let ?l = "\<lparr>ls_handle = h, ls_kind = k, ls_operation = n + 1\<rparr>"
  let ?M = "M(h \<mapsto> updated ?l u)"
  obtain t b1 where t: "start b = (Ok t, b1)" "M t = None"
    and b1: "at_hand (M(h \<mapsto> mk (busy (n + 1)), t \<mapsto> ResTask (PendingTask (Some ?l))))
      (js @ [\<lparr>sp_job = ResourceJob t ?l (fut inner), sp_force_pending = False, sp_pending_seen = False\<rparr>]) (n + 1) (Suc free) x b1"
    using reserved_at_hand [OF b h n, of fut] start by (auto simp: handle_or_record_error_def or_record_def bind_def closure_def ret_def)
  have th: "t \<noteq> h" using t(2) h by auto
  obtain b2 where poll: "poll_spawned api False (length (br_spawned b1) - 1) b1 = (Ok (), b2)"
    and b2: "at_hand (?M(t \<mapsto> ResTask (ReadyTask c (Some ?l)))) js (n + 1) (Suc free) x' b2"
    using poll_at_hand [OF b1 run] u th busy_mk by (auto simp: fun_upd_twist)
  have "?M t = None" using t(2) th by simp
  from finish_call_at_hand [where start = start and b = b and N = ?M, OF t(1) poll b2 this] show ?thesis
    using h by (metis fun_upd_other fun_upd_same option.distinct(1))
qed

end

section \<open>Collecting results\<close>

lemma capacity_at_hand:
  assumes "live_map a h = Some r" and "resource_kind r = K" and "can_insert a"
  shows "ensure_insert_capacity_after_take a h K = Inr ()"
  using assms by (auto simp: ensure_insert_capacity_after_take_def live_map_eq split: sum.splits if_splits)

lemma take_completion_at_hand:
  assumes b: "at_hand M js n (Suc free) x b" and c: "M ch = Some (ResCompletion c)" "completion_error c = None" "\<not> oversized c"
  shows "\<exists>b'. take_successful_completion ch (completion_kind c) needs_replacement b = (Ok c, b') \<and>
    at_hand (M(ch := None)) js n (Suc free) x b'"
proof -
  have live: "arena_wf (arena_of b)" "live_map (arena_of b) ch = Some (ResCompletion c)" using b c by (simp_all add: at_hand_def)
  obtain a' where "arena_take ch CompletionK (arena_of b) = (Inr (ResCompletion c), a')"
    "live_map a' = (live_map (arena_of b))(ch := None)" "arena_wf a'" "length (ar_slots a') = length (ar_slots (arena_of b))"
    by (rule take_at_hand [OF live, of CompletionK]) simp_all
  moreover have "ensure_insert_capacity_after_take (arena_of b) ch CompletionK = Inr ()"
    using b capacity_at_hand [OF live(2)] by (simp add: at_hand_def can_insert_def)
  ultimately show ?thesis using b c live(2)
    by (intro exI [of _ "with_arena a' b"]) (auto simp: at_hand_def take_successful_completion_def call_defs)
qed

lemma at_hand_less: "at_hand M js n (Suc free) x b \<Longrightarrow> at_hand M js n free x b"
  by (simp add: at_hand_def)

lemma forget: "M ch = None \<Longrightarrow> (M(ch \<mapsto> r))(ch := None) = M"
  by (auto simp: fun_eq_iff)

text \<open>A result that the page reads and releases leaves the map as the operation left it.\<close>

lemma collected:
  assumes b: "at_hand (M(h \<mapsto> r)) js n free x b" and "M h = None" and "resource_kind r = K"
  shows "\<exists>b'. release_resource h K b = (Ok 0, b') \<and> at_hand M js n free x b'"
  unfolding release_resource_def
  using release_at_hand [OF b fun_upd_same assms(3), unfolded forget [of M h, OF assms(2)]] .

end
