(* ===== verification/WasmStreamSession.thy ===== *)
theory WasmStreamSession
  imports WasmSession ReadStream
begin

text \<open>
  Reading a stream of the browser bridge to its end.
\<close>

definition read_round :: "'x wasm_api \<Rightarrow> u32 \<Rightarrow> ('x, u8 list option) W" where
  \<comment> \<open>a zero buffer handle is the end of the stream\<close>
  "read_round api h =
     bind (run_call api (opendal_mbt_wasm_read_stream_next_start h)) (\<lambda>completion.
     bind (opendal_mbt_wasm_completion_take_buffer completion) (\<lambda>buffer.
       if buffer = 0 then ret None
       else
         bind (arena_read (\<lambda>a. arena_buffer a buffer)) (\<lambda>bytes.
         bind (opendal_mbt_wasm_buffer_release buffer) (\<lambda>_. ret (Some bytes)))))"

lemma take_buffer_at_hand:
  assumes b: "at_hand M js n (Suc free) x b" and c: "M ch = Some (ResCompletion (CReadStreamNext (Inr chunk)))"
    and len: "case chunk of Some bytes \<Rightarrow> length bytes \<le> MAX_TRANSFER_CHUNK | None \<Rightarrow> True"
  shows "\<exists>h b'. opendal_mbt_wasm_completion_take_buffer ch b = (Ok h, b') \<and>
    (case chunk of
       None \<Rightarrow> h = 0 \<and> at_hand (M(ch := None)) js n (Suc free) x b'
     | Some bytes \<Rightarrow> h \<noteq> 0 \<and> (M(ch := None)) h = None \<and> at_hand (M(ch := None, h \<mapsto> ResBuffer bytes)) js n free x b')"
proof -
  obtain b1 where b1: "take_successful_completion ch COMPLETION_READER_NEXT (chunk \<noteq> None) b =
      (Ok (CReadStreamNext (Inr chunk)), b1)" "at_hand (M(ch := None)) js n (Suc free) x b1"
    using take_completion_at_hand [OF b c, of "chunk \<noteq> None"] len by (auto split: option.splits)
  have run: "opendal_mbt_wasm_completion_take_buffer ch b =
      handle_or_record_error (\<lambda>_. (case chunk of None \<Rightarrow> ret 0 | Some bytes \<Rightarrow> insert_buffer bytes) b1) b"
    using b c b1(1)
    by (simp add: at_hand_def opendal_mbt_wasm_completion_take_buffer_def completion_is_end_value_def call_defs)
  show ?thesis
  proof (cases chunk)
    case None
    then show ?thesis using b1(2) by (simp add: run call_defs)
  next
    case (Some bytes)
    obtain h b2 where h: "arena_call (arena_insert (ResBuffer bytes)) b1 = (Ok h, b2)" "h \<noteq> 0" "(M(ch := None)) h = None"
      "at_hand (M(ch := None, h \<mapsto> ResBuffer bytes)) js n free x b2" using insert_call_at_hand [OF b1(2)] by blast
    have "insert_buffer bytes b1 = (Ok h, b2)"
      using h(1) b1(2) len Some by (simp add: insert_buffer_def insert_resource_def at_hand_def bind_def state_of_def)
    then show ?thesis using h Some by (intro exI [of _ h] exI [of _ b2]) (simp add: run call_defs)
  qed
qed

lemma read_round_at_hand:
  assumes b: "at_hand M js n (Suc (Suc (Suc free))) x b" and h: "M h = Some (ResReadStream (RsOpen cursor m))"
    and n: "unat n < u64_max" and len: "case chunk of Some bytes \<Rightarrow> length bytes \<le> MAX_TRANSFER_CHUNK | None \<Rightarrow> True"
    and run: "wasm_read_stream_next api cursor x = (Ok (StreamChange u, CReadStreamNext (Inr chunk)), x')"
  shows "\<exists>b'. read_round api h b = (Ok chunk, b') \<and>
    at_hand (M(h \<mapsto> ResReadStream (update_stream (n + 1) u))) js (n + 1) free x' b'"
proof -
  let ?M = "M(h \<mapsto> ResReadStream (update_stream (n + 1) u))"
  have start: "opendal_mbt_wasm_read_stream_next_start h b = handle_or_record_error (bind
      (reserve (typed_mut get_stream ResReadStream ReadStreamK) stream_seat RsBusy RsOpen ReadStreamK h)
      (\<lambda>(task, lease, inner). bind (spawn_resource_task task lease (FutStreamNext inner)) (\<lambda>_. ret task))) b"
    by (simp add: opendal_mbt_wasm_read_stream_next_start_def reserve_read_stream_next_def arena_read_stream_mut_def)
  obtain ch b1 where ch: "run_call api (opendal_mbt_wasm_read_stream_next_start h) b = (Ok ch, b1)" "M ch = None"
    and b1: "at_hand (?M(ch \<mapsto> ResCompletion (CReadStreamNext (Inr chunk)))) js (n + 1) (Suc free) x' b1"
    using stream.run_call_at_hand [where start = "opendal_mbt_wasm_read_stream_next_start h" and fut = FutStreamNext,
      OF b h n start, of api "StreamChange u" "CReadStreamNext (Inr chunk)" x'] run by auto
  have "?M ch = None" using ch(2) h by auto
  then have M1: "(?M(ch \<mapsto> ResCompletion (CReadStreamNext (Inr chunk))))(ch := None) = ?M" by (rule forget)
  obtain buffer b2 where buf: "opendal_mbt_wasm_completion_take_buffer ch b1 = (Ok buffer, b2)"
    "case chunk of None \<Rightarrow> buffer = 0 \<and> at_hand ?M js (n + 1) (Suc free) x' b2
     | Some bytes \<Rightarrow> buffer \<noteq> 0 \<and> ?M buffer = None \<and> at_hand (?M(buffer \<mapsto> ResBuffer bytes)) js (n + 1) free x' b2"
    using take_buffer_at_hand [OF b1 fun_upd_same len, unfolded M1] by blast
  show ?thesis
  proof (cases chunk)
    case None
    then show ?thesis using ch(1) buf at_hand_less by (auto simp: read_round_def bind_def ret_def)
  next
    case (Some bytes)
    then have b2: "at_hand (?M(buffer \<mapsto> ResBuffer bytes)) js (n + 1) free x' b2" "?M buffer = None" using buf(2) by auto
    obtain b3 where "release_resource buffer BufferK b2 = (Ok 0, b3)" "at_hand ?M js (n + 1) free x' b3"
      using collected [OF b2 resource_kind.simps(1)] by blast
    moreover have "arena_read (\<lambda>a. arena_buffer a buffer) b2 = (Ok bytes, b2)"
      using buf(2) Some by (simp add: at_hand_def call_defs)
    ultimately show ?thesis using ch(1) buf Some
      by (simp add: read_round_def bind_def ret_def opendal_mbt_wasm_buffer_release_def)
  qed
qed

section \<open>Whole streams\<close>

fun stream_buffers :: "'x wasm_api \<Rightarrow> token \<Rightarrow> 'x \<Rightarrow> Buffer list \<Rightarrow> 'x \<Rightarrow> bool" where
  \<comment> \<open>the stream yields these buffers one after the other and then its end\<close>
  "stream_buffers api stream x [] x' \<longleftrightarrow> wa_stream_next api stream x = (XOk None, x')"
| "stream_buffers api stream x (b # bs) x' \<longleftrightarrow>
     (case wa_stream_next api stream x of (r, x1) \<Rightarrow> r = XOk (Some b) \<and> stream_buffers api stream x1 bs x')"

lemma copy_chunk:
  assumes "memory_suffices api" and "splits_exactly (wa_split_to api)" and "0 < n" and "n \<le> MAX_TRANSFER_CHUNK"
  obtains rest where "copy_stream_chunk api buffer n x = (Ok (take n (concat buffer), rest), x)"
    "map_option concat rest = leftover n (concat buffer)"
proof -
  let ?m = "min (length (concat buffer)) n"
  obtain c r where cr: "wa_split_to api buffer ?m = (c, r)" by fastforce
  with assms(2) have c: "concat c = take ?m (concat buffer)" and r: "concat r = drop ?m (concat buffer)"
    by (auto simp: splits_exactly_def dest!: spec [of _ buffer] spec [of _ ?m])
  let ?rest = "if length (concat r) = 0 then None else Some r"
  have "\<not> MAX_BUFFER_LENGTH < length (concat c)" using c assms(4) by simp
  then have "copy_stream_chunk api buffer n x = (Ok (concat c, ?rest), x)"
    using assms(1) cr
    by (simp add: copy_stream_chunk_def try_owned_opendal_buffer_def try_reserve_def memory_suffices_def
        buffer_len_of_def bind_def ret_def Let_def)
  moreover have "concat c = take n (concat buffer)" using c by (simp add: min_def)
  moreover have "map_option concat ?rest = leftover n (concat buffer)"
    using r assms(3) by (auto simp: leftover_def min_def)
  ultimately show thesis using that by simp
qed

lemma next_chunk:
  assumes "memory_suffices api" and "splits_exactly (wa_split_to api)" and "0 < rsc_max_chunk cursor"
    and "rsc_max_chunk cursor \<le> MAX_TRANSFER_CHUNK"
    and "case rsc_pending cursor of Some b \<Rightarrow> buffer = b \<and> x' = x
      | None \<Rightarrow> wa_stream_next api (rsc_stream cursor) x = (XOk (Some buffer), x')"
  obtains cursor' where "rsc_stream cursor' = rsc_stream cursor" "rsc_max_chunk cursor' = rsc_max_chunk cursor"
    "map_option concat (rsc_pending cursor') = leftover (rsc_max_chunk cursor) (concat buffer)"
    "wasm_read_stream_next api cursor x = (Ok (StreamChange (StreamToOpen cursor'),
       CReadStreamNext (Inr (Some (take (rsc_max_chunk cursor) (concat buffer))))), x')"
proof -
  obtain rest where rest: "copy_stream_chunk api buffer (rsc_max_chunk cursor) x' =
      (Ok (take (rsc_max_chunk cursor) (concat buffer), rest), x')"
    "map_option concat rest = leftover (rsc_max_chunk cursor) (concat buffer)"
    by (rule copy_chunk [OF assms(1-4)])
  show thesis
  proof (rule that [of "cursor\<lparr>rsc_pending := rest\<rparr>"])
    show "wasm_read_stream_next api cursor x = (Ok (StreamChange (StreamToOpen (cursor\<lparr>rsc_pending := rest\<rparr>)),
        CReadStreamNext (Inr (Some (take (rsc_max_chunk cursor) (concat buffer))))), x')"
      using assms(5) rest(1)
      by (auto simp: wasm_read_stream_next_def bind_def ret_def closure_def call_ext_def Let_def split: option.splits)
  qed (simp_all add: rest(2))
qed

text \<open>
  \<open>delivers api cursor x cs x'\<close>: the futures of successive reads, started from \<open>cursor\<close> in state \<open>x\<close>,
  complete with the chunks \<open>cs\<close> and then with the end, in \<open>x'\<close>.
\<close>

inductive delivers :: "'x wasm_api \<Rightarrow> ReadStreamCursor \<Rightarrow> 'x \<Rightarrow> u8 list list \<Rightarrow> 'x \<Rightarrow> bool" for api where
  delivers_end: "wasm_read_stream_next api cursor x = (Ok (StreamChange StreamToEnd, CReadStreamNext (Inr None)), x') \<Longrightarrow>
    delivers api cursor x [] x'"
| delivers_chunk: "wasm_read_stream_next api cursor x =
      (Ok (StreamChange (StreamToOpen cursor'), CReadStreamNext (Inr (Some c))), x1) \<Longrightarrow>
    delivers api cursor' x1 cs x' \<Longrightarrow> delivers api cursor x (c # cs) x'"

lemma stream_delivers:
  assumes "memory_suffices api" and "splits_exactly (wa_split_to api)" and "0 < n" and "n \<le> MAX_TRANSFER_CHUNK"
    and "p = map_option concat (rsc_pending cursor)" and "bs = map concat bufs" and "rsc_max_chunk cursor = n"
    and "stream_buffers api (rsc_stream cursor) x bufs x'"
  shows "delivers api cursor x (all_chunks n p bs) x'"
  using assms(3-)
proof (induction n p bs arbitrary: cursor bufs x rule: all_chunks.induct)
  case (1 n b bs)
  from 1(4) obtain buffer where pend: "rsc_pending cursor = Some buffer" "concat buffer = b"
    by (cases "rsc_pending cursor") auto
  obtain cursor' where c: "rsc_stream cursor' = rsc_stream cursor" "rsc_max_chunk cursor' = n"
    "map_option concat (rsc_pending cursor') = leftover n b"
    "wasm_read_stream_next api cursor x = (Ok (StreamChange (StreamToOpen cursor'), CReadStreamNext (Inr (Some (take n b)))), x)"
    by (rule next_chunk [OF assms(1,2), where cursor = cursor and buffer = buffer and x = x and x' = x]) (use 1(2,3,6) pend in simp_all)
  show ?case unfolding all_chunks.simps
    using 1(7) by (intro delivers_chunk [OF c(4)] 1(1) [OF 1(2,3) c(3) [symmetric] 1(5) c(2)]) (simp add: c(1))
next
  case (2 n b bs)
  from 2(5) obtain buffer bufs' where bufs: "bufs = buffer # bufs'" "concat buffer = b" "bs = map concat bufs'"
    by (cases bufs) auto
  obtain x1 where x1: "wa_stream_next api (rsc_stream cursor) x = (XOk (Some buffer), x1)"
    "stream_buffers api (rsc_stream cursor) x1 bufs' x'" using 2(7) bufs by auto
  have pend: "rsc_pending cursor = None" using 2(4) by simp
  obtain cursor' where c: "rsc_stream cursor' = rsc_stream cursor" "rsc_max_chunk cursor' = n"
    "map_option concat (rsc_pending cursor') = leftover n b"
    "wasm_read_stream_next api cursor x = (Ok (StreamChange (StreamToOpen cursor'), CReadStreamNext (Inr (Some (take n b)))), x1)"
    by (rule next_chunk [OF assms(1,2), where cursor = cursor and buffer = buffer and x = x and x' = x1]) (use 2(2,3,6) pend x1 bufs in simp_all)
  show ?case unfolding all_chunks.simps
    using x1(2) by (intro delivers_chunk [OF c(4)] 2(1) [OF 2(2,3) c(3) [symmetric] bufs(3) c(2)]) (simp add: c(1))
next
  case (3 n)
  then show ?case
    by (simp, intro delivers_end) (simp add: wasm_read_stream_next_def bind_def ret_def closure_def call_ext_def)
qed

lemma delivers_rounds:
  assumes "delivers api cursor x cs x'" and "list_all (\<lambda>c. length c \<le> MAX_TRANSFER_CHUNK) cs"
    and "M h = Some (ResReadStream (RsOpen cursor m))" and "at_hand M js n (3 * Suc (length cs)) x b"
    and "unat n + length cs < u64_max"
  shows "\<exists>b'. repeat_round (read_round api h) (Suc (length cs)) b = (Ok (map Some cs @ [None]), b') \<and>
    at_hand (M(h \<mapsto> ResReadStream RsEnd)) js (n + of_nat (Suc (length cs))) 0 x' b'"
  using assms
proof (induction arbitrary: M m n b rule: delivers.induct)
  case (delivers_end cursor x x')
  have "at_hand M js n (Suc (Suc (Suc 0))) x b" using delivers_end(4) by (simp add: numeral_3_eq_3)
  from read_round_at_hand [OF this delivers_end(3) _ _ delivers_end(1)] delivers_end(5) show ?case
    by (auto simp: bind_def ret_def simp del: fun_upd_apply)
next
  case (delivers_chunk cursor x cursor' c x1 cs x')
  have "at_hand M js n (Suc (Suc (Suc (3 * Suc (length cs))))) x b" using delivers_chunk.prems(3) by (simp add: at_hand_def)
  from read_round_at_hand [OF this delivers_chunk.prems(2) _ _ delivers_chunk.hyps(1)] delivers_chunk.prems(1,4)
  obtain b1 where b1: "read_round api h b = (Ok (Some c), b1)"
    "at_hand (M(h \<mapsto> ResReadStream (RsOpen cursor' (n + 1)))) js (n + 1) (3 * Suc (length cs)) x1 b1" by auto
  have "unat (n + 1) = unat n + 1" using delivers_chunk.prems(4) by (simp add: unat_word_ariths u64_max_def)
  then obtain b' where "repeat_round (read_round api h) (Suc (length cs)) b1 = (Ok (map Some cs @ [None]), b')"
    "at_hand (M(h \<mapsto> ResReadStream RsEnd)) js (n + 1 + of_nat (Suc (length cs))) 0 x' b'"
    using delivers_chunk.IH [OF _ fun_upd_same b1(2)] delivers_chunk.prems(1,4)
    by (auto simp del: fun_upd_apply repeat_round.simps)
  with repeat_more [of "read_round api h", OF b1(1)] show ?case
    by (intro exI [of _ b']) (simp add: algebra_simps del: repeat_round.simps fun_upd_apply)
qed

text \<open>
  C11. Reading a stream to its end through the exported functions delivers the object. For an open
  stream whose backend yields some buffers and then ends, the page's rounds hand out chunks of at
  most the stream's chunk size whose concatenation is exactly the backend's data, then the end; no
  handle is left behind, every other resource is untouched, and the stream has ended.
\<close>

theorem wasm_stream_session:
  assumes "calm_api api" and "reachable api b" and "live_map (arena_of b) h = Some (ResReadStream (RsOpen cursor m))"
    and "rsc_pending cursor = None"
    and "memory_suffices api" and "splits_exactly (wa_split_to api)" and "\<not> st_force_pending_for_canary (br_state b)"
    and "stream_buffers api (rsc_stream cursor) (br_ext b) bufs x'"
    and "length (ar_slots (arena_of b)) + 3 * Suc (length (all_chunks (rsc_max_chunk cursor) None (map concat bufs))) \<le> MAX_SLOTS"
    and "unat (st_next_resource_operation (br_state b)) + 65535 < u64_max"
  shows "\<exists>cs b'. repeat_round (read_round api h) (Suc (length cs)) b = (Ok (map Some cs @ [None]), b') \<and>
    concat cs = concat (concat bufs) \<and> list_all (\<lambda>c. length c \<le> rsc_max_chunk cursor) cs \<and>
    live_map (arena_of b') = (live_map (arena_of b))(h \<mapsto> ResReadStream RsEnd) \<and>
    br_spawned b' = br_spawned b \<and> br_ext b' = x'"
proof -
  let ?cs = "all_chunks (rsc_max_chunk cursor) None (map concat bufs)" and ?n = "st_next_resource_operation (br_state b)"
  have ok: "bridge_ok False b" using assms(1,2) by (rule reachable_ok)
  have chunk: "0 < rsc_max_chunk cursor" "rsc_max_chunk cursor \<le> MAX_TRANSFER_CHUNK"
    using resources_okD [OF ok assms(3)] by (simp_all add: chunk_ok_def)
  have d: "delivers api cursor (br_ext b) ?cs x'"
    using stream_delivers [OF assms(5,6) chunk _ refl refl assms(8)] assms(4) by simp
  have bound: "list_all (\<lambda>c. length c \<le> rsc_max_chunk cursor) ?cs"
    using all_chunks_bound by (metis list_all_iff)
  then have "list_all (\<lambda>c. length c \<le> MAX_TRANSFER_CHUNK) ?cs"
    using chunk(2) by (auto simp: list_all_iff)
  moreover have "at_hand (live_map (arena_of b)) (br_spawned b) ?n (3 * Suc (length ?cs)) (br_ext b) b"
    using ok live_not_torn [OF ok assms(3)] assms(7,9) by (simp add: at_hand_def bridge_ok_def)
  ultimately obtain b' where "repeat_round (read_round api h) (Suc (length ?cs)) b = (Ok (map Some ?cs @ [None]), b')"
    "at_hand ((live_map (arena_of b))(h \<mapsto> ResReadStream RsEnd)) (br_spawned b) (?n + of_nat (Suc (length ?cs))) 0 x' b'"
    using delivers_rounds [OF d, where M = "live_map (arena_of b)" and h = h and m = m and js = "br_spawned b" and n = ?n and b = b]
      assms(3,9,10) by fastforce
  then show ?thesis using bound all_chunks_concat [OF chunk(1), of None "map concat bufs"]
    by (intro exI [of _ ?cs] exI [of _ b']) (simp add: at_hand_def concat_map_concat)
qed

theorem wasm_stream_session_witness:
  "\<exists>cs b'. repeat_round (read_round idle_api 131076) (Suc (length cs)) stream_page = (Ok (map Some cs @ [None]), b') \<and>
     concat cs = [104, 105, 106] \<and> live_map (arena_of b') 131076 = Some (ResReadStream RsEnd)"
proof -
  have live: "live_map (arena_of stream_page) 131076 = Some (ResReadStream (RsOpen page_cursor 0))"
    by (simp add: live_map_eq decode_handle_def page5_def page_defs)
  have "stream_buffers idle_api 9 page_data [[[104, 105]], [[], [106]]] []"
    by (simp add: idle_api_def page_data_def)
  moreover have "memory_suffices idle_api" "splits_exactly (wa_split_to idle_api)"
    by (simp_all add: memory_suffices_def splits_exactly_def idle_api_def)
  moreover have "length (all_chunks 1 None (map concat [[[104, 105 :: u8]], [[], [106]]])) = 3"
    by (simp add: leftover_def)
  ultimately show ?thesis
    using wasm_stream_session [OF calm_idle_api page_reachable(4) live, of "[[[104, 105]], [[], [106]]]" "[]"]
    by (force simp: page_cursor_def page5_def page_defs u64_max_def)
qed

end
