(* ===== verification/WasmWriterSession.thy ===== *)
theory WasmWriterSession
  imports WasmSession
begin

text \<open>
  Writing an object in pieces through the browser bridge.
\<close>

definition write_round :: "'x wasm_api \<Rightarrow> u32 \<Rightarrow> u32 \<Rightarrow> ('x, u32) W" where
  "write_round api h data =
     bind (run_call api (opendal_mbt_wasm_writer_write_start api h data)) (\<lambda>completion.
     bind (opendal_mbt_wasm_completion_status completion) (\<lambda>st.
     bind (opendal_mbt_wasm_completion_release completion) (\<lambda>_. ret st)))"

definition finish_round :: "'x wasm_api \<Rightarrow> u32 \<Rightarrow> ('x, Metadata) W" where
  "finish_round api h =
     bind (run_call api (opendal_mbt_wasm_writer_finish_start h)) (\<lambda>completion.
     bind (opendal_mbt_wasm_completion_take_metadata completion) (\<lambda>handle.
     bind (arena_read (\<lambda>a. arena_metadata a handle)) (\<lambda>metadata.
     bind (opendal_mbt_wasm_metadata_release handle) (\<lambda>_. ret metadata))))"

fun write_rounds :: "'x wasm_api \<Rightarrow> u32 \<Rightarrow> u32 list \<Rightarrow> ('x, u32 list) W" where
  "write_rounds api h [] = ret []"
| "write_rounds api h (d # ds) =
     bind (write_round api h d) (\<lambda>st. bind (write_rounds api h ds) (\<lambda>sts. ret (st # sts)))"

section \<open>One round\<close>

lemma write_round_at_hand:
  assumes b: "at_hand M js n (Suc (Suc (Suc free))) x b" and h: "M h = Some (ResWriter (WrOpen writer m))"
    and n: "unat n < u64_max" and d: "M d = Some (ResBuffer bytes)" "length bytes \<le> MAX_TRANSFER_CHUNK"
    and mem: "memory_suffices api" and run: "wa_writer_write api writer bytes x = (XOk (), x')"
  shows "\<exists>b'. write_round api h d b = (Ok 0, b') \<and> at_hand (M(h \<mapsto> ResWriter (WrOpen writer (n + 1)))) js (n + 1) free x' b'"
proof -
  let ?M = "M(h \<mapsto> ResWriter (WrOpen writer (n + 1)))"
  have "owned_writer_chunk api d b = (Ok bytes, b)"
    using b d mem by (simp add: at_hand_def owned_writer_chunk_def on_ext_def try_owned_bytes_def try_reserve_def
        memory_suffices_def read_defs)
  then have start: "opendal_mbt_wasm_writer_write_start api h d b = handle_or_record_error (bind
      (reserve (typed_mut get_writer ResWriter WriterK) writer_seat WrBusy WrOpen WriterK h)
      (\<lambda>(task, lease, inner). bind (spawn_resource_task task lease (FutWriterWrite inner bytes)) (\<lambda>_. ret task))) b"
    by (simp add: opendal_mbt_wasm_writer_write_start_def reserve_writer_call_def arena_writer_mut_def
        handle_or_record_error_def or_record_def bind_def closure_def)
  have "run_resource_future api (FutWriterWrite writer bytes) x = (Ok (WriterChange (WriterToOpen writer), CWriterWrite (Inr ())), x')"
    using run by (simp add: bind_def ret_def closure_def call_ext_def)
  then obtain ch b1 where ch: "run_call api (opendal_mbt_wasm_writer_write_start api h d) b = (Ok ch, b1)" "M ch = None"
    and b1: "at_hand (?M(ch \<mapsto> ResCompletion (CWriterWrite (Inr ())))) js (n + 1) (Suc free) x' b1"
    using writer.run_call_at_hand [where start = "opendal_mbt_wasm_writer_write_start api h d" and fut = "\<lambda>w. FutWriterWrite w bytes",
      OF b h n start] by fastforce
  have fresh: "?M ch = None" using ch(2) h by auto
  obtain b2 where "release_resource ch CompletionK b1 = (Ok 0, b2)" "at_hand ?M js (n + 1) (Suc free) x' b2"
    using collected [OF b1 fresh resource_kind.simps(7)] by blast
  moreover have "opendal_mbt_wasm_completion_status ch b1 = (Ok 0, b1)"
    using b1 by (simp add: at_hand_def opendal_mbt_wasm_completion_status_def read_defs)
  ultimately show ?thesis using ch(1) at_hand_less
    by (auto simp: write_round_def bind_def ret_def opendal_mbt_wasm_completion_release_def simp del: fun_upd_apply)
qed

lemma take_metadata_at_hand:
  assumes b: "at_hand M js n (Suc free) x b" and c: "M ch = Some (ResCompletion (CWriterFinish (Inr metadata)))"
  shows "\<exists>h b'. opendal_mbt_wasm_completion_take_metadata ch b = (Ok h, b') \<and> (M(ch := None)) h = None \<and>
    at_hand (M(ch := None, h \<mapsto> ResMetadata metadata)) js n free x b'"
proof -
  obtain b1 where b1: "take_successful_completion ch COMPLETION_WRITER_FINISH True b = (Ok (CWriterFinish (Inr metadata)), b1)"
    "at_hand (M(ch := None)) js n (Suc free) x b1"
    using take_completion_at_hand [OF b c, of True] by auto
  obtain h b2 where "arena_call (arena_insert (ResMetadata metadata)) b1 = (Ok h, b2)" "(M(ch := None)) h = None"
    "at_hand (M(ch := None, h \<mapsto> ResMetadata metadata)) js n free x b2" using insert_call_at_hand [OF b1(2)] by blast
  then show ?thesis using b c b1(1)
    by (intro exI [of _ h] exI [of _ b2])
      (simp add: at_hand_def opendal_mbt_wasm_completion_take_metadata_def read_defs)
qed

lemma finish_round_collects:
  assumes call: "run_call api (opendal_mbt_wasm_writer_finish_start h) b = (Ok ch, b1)"
    and b1: "at_hand (M(ch \<mapsto> ResCompletion (CWriterFinish (Inr metadata)))) js n (Suc free) x b1" and "M ch = None"
  shows "\<exists>b'. finish_round api h b = (Ok metadata, b') \<and> at_hand M js n free x b'"
proof -
  have M1: "(M(ch \<mapsto> ResCompletion (CWriterFinish (Inr metadata))))(ch := None) = M"
    using assms(3) by (rule forget [of M ch])
  obtain mh b2 where mh: "opendal_mbt_wasm_completion_take_metadata ch b1 = (Ok mh, b2)" "M mh = None"
    and b2: "at_hand (M(mh \<mapsto> ResMetadata metadata)) js n free x b2"
    using take_metadata_at_hand [OF b1 fun_upd_same, unfolded M1] by blast
  obtain b3 where "release_resource mh MetadataK b2 = (Ok 0, b3)" "at_hand M js n free x b3"
    using collected [OF b2 mh(2) resource_kind.simps(4)] by blast
  moreover have "arena_read (\<lambda>a. arena_metadata a mh) b2 = (Ok metadata, b2)"
    using b2 by (simp add: at_hand_def read_defs)
  ultimately show ?thesis using call mh(1)
    by (simp add: finish_round_def bind_def ret_def opendal_mbt_wasm_metadata_release_def)
qed

lemma finish_round_at_hand:
  assumes b: "at_hand M js n (Suc (Suc (Suc free))) x b" and h: "M h = Some (ResWriter (WrOpen writer m))"
    and n: "unat n < u64_max" and run: "wa_writer_close api writer x = (XOk metadata, x')"
  shows "\<exists>b'. finish_round api h b = (Ok metadata, b') \<and>
    at_hand (M(h \<mapsto> ResWriter (WrFinished metadata))) js (n + 1) free x' b'"
proof -
  let ?M = "M(h \<mapsto> ResWriter (WrFinished metadata))"
  have start: "opendal_mbt_wasm_writer_finish_start h b = handle_or_record_error (bind
      (reserve (typed_mut get_writer ResWriter WriterK) writer_seat WrBusy WrOpen WriterK h)
      (\<lambda>(task, lease, inner). bind (spawn_resource_task task lease (FutWriterFinish inner)) (\<lambda>_. ret task))) b"
    using b h by (simp add: at_hand_def opendal_mbt_wasm_writer_finish_start_def reserve_writer_call_def read_defs)
  have "run_resource_future api (FutWriterFinish writer) x =
      (Ok (WriterChange (WriterToFinished metadata), CWriterFinish (Inr metadata)), x')"
    using run by (simp add: bind_def ret_def closure_def call_ext_def)
  then obtain ch b1 where ch: "run_call api (opendal_mbt_wasm_writer_finish_start h) b = (Ok ch, b1)" "M ch = None"
    and b1: "at_hand (?M(ch \<mapsto> ResCompletion (CWriterFinish (Inr metadata)))) js (n + 1) (Suc free) x' b1"
    using writer.run_call_at_hand [where start = "opendal_mbt_wasm_writer_finish_start h" and fut = FutWriterFinish, OF b h n start]
    by fastforce
  have "?M ch = None" using ch(2) h by auto
  then show ?thesis by (rule finish_round_collects [OF ch(1) b1])
qed

lemma finish_again_at_hand:
  assumes b: "at_hand M js n (Suc (Suc (Suc free))) x b" and h: "M h = Some (ResWriter (WrFinished metadata))"
  shows "\<exists>b'. finish_round api h b = (Ok metadata, b') \<and> at_hand M js n free x b'"
proof -
  have start: "opendal_mbt_wasm_writer_finish_start h b = handle_or_record_error (start_task (FutReady (CWriterFinish (Inr metadata)))) b"
    using b h by (simp add: at_hand_def opendal_mbt_wasm_writer_finish_start_def read_defs)
  obtain ch b1 where ch: "run_call api (opendal_mbt_wasm_writer_finish_start h) b = (Ok ch, b1)" "M ch = None"
    and b1: "at_hand (M(ch \<mapsto> ResCompletion (CWriterFinish (Inr metadata)))) js n (Suc free) x b1"
    using task_call_at_hand [where start = "opendal_mbt_wasm_writer_finish_start h", OF b start, of api] by (auto simp: ret_def)
  show ?thesis using ch(2) by (rule finish_round_collects [OF ch(1) b1])
qed

section \<open>Whole objects\<close>

fun writes_accepted :: "'x wasm_api \<Rightarrow> token \<Rightarrow> 'x \<Rightarrow> u8 list list \<Rightarrow> 'x \<Rightarrow> bool" where
  \<comment> \<open>the backend accepts these pieces one after the other, which takes it from \<open>x\<close> to \<open>x'\<close>\<close>
  "writes_accepted api writer x [] x' \<longleftrightarrow> x' = x"
| "writes_accepted api writer x (p # ps) x' \<longleftrightarrow>
     (case wa_writer_write api writer p x of (r, x1) \<Rightarrow> r = XOk () \<and> writes_accepted api writer x1 ps x')"

abbreviation holds_piece :: "(u32 \<Rightarrow> Resource option) \<Rightarrow> u32 \<Rightarrow> u8 list \<Rightarrow> bool" where
  "holds_piece M d p \<equiv> M d = Some (ResBuffer p) \<and> length p \<le> MAX_TRANSFER_CHUNK"

lemma write_rounds_at_hand:
  assumes "memory_suffices api" and "list_all2 (holds_piece M) ds ps" and "writes_accepted api writer x ps x'"
    and "M h = Some (ResWriter (WrOpen writer m))" and "at_hand M js n (3 * length ds + free) x b"
    and "unat n + length ds \<le> u64_max"
  shows "\<exists>m' b'. write_rounds api h ds b = (Ok (replicate (length ds) 0), b') \<and>
    at_hand (M(h \<mapsto> ResWriter (WrOpen writer m'))) js (n + of_nat (length ds)) free x' b'"
  using assms(2-)
proof (induction ds arbitrary: ps M m n x b)
  case Nil
  then have "M(h \<mapsto> ResWriter (WrOpen writer m)) = M" by (auto simp: fun_eq_iff)
  then show ?case using Nil by (intro exI [of _ m] exI [of _ b]) (simp add: ret_def)
next
  case (Cons d ds)
  obtain p ps' where ps: "ps = p # ps'" and d: "M d = Some (ResBuffer p)" "length p \<le> MAX_TRANSFER_CHUNK"
    and ds: "list_all2 (holds_piece M) ds ps'"
    using Cons.prems(1) by (auto simp: list_all2_Cons1)
  let ?M = "M(h \<mapsto> ResWriter (WrOpen writer (n + 1)))"
  obtain x1 where x1: "wa_writer_write api writer p x = (XOk (), x1)" "writes_accepted api writer x1 ps' x'"
    using Cons.prems(2) ps by auto
  have "at_hand M js n (Suc (Suc (Suc (3 * length ds + free)))) x b" using Cons.prems(4) by (simp add: at_hand_def)
  from write_round_at_hand [OF this Cons.prems(3) _ d assms(1) x1(1)] Cons.prems(5)
  obtain b1 where b1: "write_round api h d b = (Ok 0, b1)" "at_hand ?M js (n + 1) (3 * length ds + free) x1 b1" by auto
  have "list_all2 (holds_piece ?M) ds ps'"
    using ds by (rule list_all2_mono) (use Cons.prems(3) in auto)
  moreover have "unat (n + 1) + length ds \<le> u64_max" using Cons.prems(5) by (simp add: unat_word_ariths u64_max_def)
  ultimately obtain m' b' where "write_rounds api h ds b1 = (Ok (replicate (length ds) 0), b')"
    "at_hand (M(h \<mapsto> ResWriter (WrOpen writer m'))) js (n + 1 + of_nat (length ds)) free x' b'"
    using Cons.IH [OF _ x1(2) fun_upd_same b1(2)] by (auto simp del: fun_upd_apply)
  then show ?case using b1(1)
    by (intro exI [of _ m'] exI [of _ b']) (simp add: bind_def ret_def algebra_simps del: fun_upd_apply)
qed

text \<open>
  C12. Writing through the exported functions delivers the pieces. For an open writer and buffers that
  hold the pieces, the page's writes hand exactly these pieces to the backend, in order, and each
  reports success; finishing hands out the backend's metadata; finishing again hands the same
  metadata out once more without reaching the backend; no handle is left behind and every other
  resource is untouched.
\<close>

theorem wasm_writer_session:
  assumes "calm_api api" and "reachable api b" and "live_map (arena_of b) h = Some (ResWriter (WrOpen writer m))"
    and "memory_suffices api" and "list_all2 (holds_piece (live_map (arena_of b))) ds ps"
    and "writes_accepted api writer (br_ext b) ps x1" and "wa_writer_close api writer x1 = (XOk metadata, x2)"
    and "\<not> st_force_pending_for_canary (br_state b)"
    and "length (ar_slots (arena_of b)) + 3 * length ds + 6 \<le> MAX_SLOTS"
    and "unat (st_next_resource_operation (br_state b)) + 65535 < u64_max"
  shows "\<exists>b1 b2 b3. write_rounds api h ds b = (Ok (replicate (length ds) 0), b1) \<and> br_ext b1 = x1 \<and>
    finish_round api h b1 = (Ok metadata, b2) \<and> br_ext b2 = x2 \<and>
    finish_round api h b2 = (Ok metadata, b3) \<and> br_ext b3 = x2 \<and> br_spawned b3 = br_spawned b \<and>
    live_map (arena_of b3) = (live_map (arena_of b))(h \<mapsto> ResWriter (WrFinished metadata))"
proof -
  let ?M = "live_map (arena_of b)" and ?n = "st_next_resource_operation (br_state b)"
  have ok: "bridge_ok False b" using assms(1,2) by (rule reachable_ok)
  have "at_hand ?M (br_spawned b) ?n (3 * length ds + 6) (br_ext b) b"
    using ok live_not_torn [OF ok assms(3)] assms(8,9) by (simp add: at_hand_def bridge_ok_def)
  from write_rounds_at_hand [where M = ?M and h = h, OF assms(4,5,6,3) this] assms(9,10)
  obtain m' b1 where b1: "write_rounds api h ds b = (Ok (replicate (length ds) 0), b1)"
    "at_hand (?M(h \<mapsto> ResWriter (WrOpen writer m'))) (br_spawned b) (?n + of_nat (length ds)) 6 x1 b1" by auto
  have n: "unat (?n + of_nat (length ds)) < u64_max"
    using assms(9,10) by (simp add: unat_word_ariths u64_max_def unat_of_nat take_bit_nat_def)
  have room: "at_hand (?M(h \<mapsto> ResWriter (WrOpen writer m'))) (br_spawned b) (?n + of_nat (length ds)) (Suc (Suc (Suc 3))) x1 b1"
    using b1(2) by (simp add: eval_nat_numeral)
  obtain b2 where b2: "finish_round api h b1 = (Ok metadata, b2)"
    "at_hand (?M(h \<mapsto> ResWriter (WrFinished metadata))) (br_spawned b) (?n + of_nat (length ds) + 1) 3 x2 b2"
    using finish_round_at_hand [OF room fun_upd_same n assms(7), unfolded fun_upd_upd] by blast
  obtain b3 where "finish_round api h b2 = (Ok metadata, b3)"
    "at_hand (?M(h \<mapsto> ResWriter (WrFinished metadata))) (br_spawned b) (?n + of_nat (length ds) + 1) 0 x2 b3"
    using finish_again_at_hand [OF b2(2) [unfolded numeral_3_eq_3] fun_upd_same] by blast
  with b1 b2 show ?thesis by (auto simp: at_hand_def)
qed

theorem wasm_writer_session_witness:
  "\<exists>b1 b2 b3. write_rounds idle_api 131076 [65538, 65538] writer_page = (Ok [0, 0], b1) \<and>
     br_ext b1 = page_data @ [[[104]], [[104]]] \<and> finish_round idle_api 131076 b1 = (Ok idle_metadata, b2) \<and>
     finish_round idle_api 131076 b2 = (Ok idle_metadata, b3)"
proof -
  have live: "live_map (arena_of writer_page) 131076 = Some (ResWriter (WrOpen 10 0))"
    "live_map (arena_of writer_page) 65538 = Some (ResBuffer [104])"
    by (simp_all add: live_map_eq decode_handle_def page5_def page_defs)
  have "writes_accepted idle_api 10 page_data [[104], [104]] (page_data @ [[[104]], [[104]]])"
    "wa_writer_close idle_api 10 (page_data @ [[[104]], [[104]]]) = (XOk idle_metadata, page_data @ [[[104]], [[104]]])"
    "memory_suffices idle_api"
    by (simp_all add: idle_api_def memory_suffices_def)
  then show ?thesis
    using wasm_writer_session [OF calm_idle_api page_reachable(6) live(1), of "[65538, 65538]" "[[104], [104]]"
        "page_data @ [[[104]], [[104]]]" idle_metadata "page_data @ [[[104]], [[104]]]"] live(2)
    by (fastforce simp: page5_def page_defs u64_max_def simp del: write_rounds.simps)
qed

end
