(* ===== verification/WasmListerSession.thy ===== *)
theory WasmListerSession
  imports WasmSession
begin

text \<open>
  Listing entries one by one through the browser bridge.
\<close>

definition list_round :: "'x wasm_api \<Rightarrow> u32 \<Rightarrow> ('x, EntrySnapshot list option) W" where
  "list_round api h =
     bind (run_call api (opendal_mbt_wasm_lister_next_start h)) (\<lambda>completion.
     bind (opendal_mbt_wasm_completion_take_entry_list completion) (\<lambda>entries.
       if entries = 0 then ret None
       else
         bind (arena_read (\<lambda>a. arena_entry_list a entries)) (\<lambda>es.
         bind (opendal_mbt_wasm_entry_list_release entries) (\<lambda>_. ret (Some es)))))"

lemma take_entries_at_hand:
  assumes b: "at_hand M js n (Suc free) x b" and c: "M ch = Some (ResCompletion (CListerNext (Inr entry)))"
  shows "\<exists>h b'. opendal_mbt_wasm_completion_take_entry_list ch b = (Ok h, b') \<and>
    (case entry of
       None \<Rightarrow> h = 0 \<and> at_hand (M(ch := None)) js n (Suc free) x b'
     | Some e \<Rightarrow> h \<noteq> 0 \<and> (M(ch := None)) h = None \<and> at_hand (M(ch := None, h \<mapsto> ResEntryList [e])) js n free x b')"
proof -
  obtain b1 where b1: "take_successful_completion ch COMPLETION_LISTER_NEXT (entry \<noteq> None) b =
      (Ok (CListerNext (Inr entry)), b1)" "at_hand (M(ch := None)) js n (Suc free) x b1"
    using take_completion_at_hand [OF b c, of "entry \<noteq> None"] by auto
  have run: "opendal_mbt_wasm_completion_take_entry_list ch b =
      handle_or_record_error (\<lambda>_. (case entry of None \<Rightarrow> ret 0 | Some e \<Rightarrow> arena_call (arena_insert (ResEntryList [e]))) b1) b"
    using b c b1(1)
    by (simp add: at_hand_def opendal_mbt_wasm_completion_take_entry_list_def completion_is_end_value_def read_defs)
  show ?thesis
  proof (cases entry)
    case None
    then show ?thesis using b1(2) by (simp add: run call_defs)
  next
    case (Some e)
    obtain h b2 where h: "arena_call (arena_insert (ResEntryList [e])) b1 = (Ok h, b2)" "h \<noteq> 0" "(M(ch := None)) h = None"
      "at_hand (M(ch := None, h \<mapsto> ResEntryList [e])) js n free x b2" using insert_call_at_hand [OF b1(2)] by blast
    then show ?thesis using Some by (intro exI [of _ h] exI [of _ b2]) (simp add: run handle_or_record_error_def or_record_def bind_def closure_def ret_def)
  qed
qed

lemma list_round_at_hand:
  assumes b: "at_hand M js n (Suc (Suc (Suc free))) x b" and h: "M h = Some (ResLister (LsOpen lister m))"
    and n: "unat n < u64_max"
    and run: "run_resource_future api (FutListerNext lister) x = (Ok (ListerChange u, CListerNext (Inr entry)), x')"
  shows "\<exists>b'. list_round api h b = (Ok (map_option (\<lambda>e. [e]) entry), b') \<and>
    at_hand (M(h \<mapsto> ResLister (update_lister (n + 1) u))) js (n + 1) free x' b'"
proof -
  let ?M = "M(h \<mapsto> ResLister (update_lister (n + 1) u))"
  have start: "opendal_mbt_wasm_lister_next_start h b = handle_or_record_error (bind
      (reserve (typed_mut get_lister ResLister ListerK) lister_seat LsBusy LsOpen ListerK h)
      (\<lambda>(task, lease, inner). bind (spawn_resource_task task lease (FutListerNext inner)) (\<lambda>_. ret task))) b"
    by (simp add: opendal_mbt_wasm_lister_next_start_def reserve_lister_next_def arena_lister_mut_def)
  obtain ch b1 where ch: "run_call api (opendal_mbt_wasm_lister_next_start h) b = (Ok ch, b1)" "M ch = None"
    and b1: "at_hand (?M(ch \<mapsto> ResCompletion (CListerNext (Inr entry)))) js (n + 1) (Suc free) x' b1"
    using lister.run_call_at_hand [where start = "opendal_mbt_wasm_lister_next_start h" and fut = FutListerNext,
      OF b h n start run] by auto
  have "?M ch = None" using ch(2) h by auto
  then have M1: "(?M(ch \<mapsto> ResCompletion (CListerNext (Inr entry))))(ch := None) = ?M" by (rule forget)
  obtain es b2 where es: "opendal_mbt_wasm_completion_take_entry_list ch b1 = (Ok es, b2)"
    "case entry of None \<Rightarrow> es = 0 \<and> at_hand ?M js (n + 1) (Suc free) x' b2
     | Some e \<Rightarrow> es \<noteq> 0 \<and> ?M es = None \<and> at_hand (?M(es \<mapsto> ResEntryList [e])) js (n + 1) free x' b2"
    using take_entries_at_hand [OF b1 fun_upd_same, unfolded M1] by blast
  show ?thesis
  proof (cases entry)
    case None
    then show ?thesis using ch(1) es at_hand_less by (auto simp: list_round_def bind_def ret_def)
  next
    case (Some e)
    then have b2: "at_hand (?M(es \<mapsto> ResEntryList [e])) js (n + 1) free x' b2" "?M es = None" using es(2) by auto
    obtain b3 where "release_resource es EntryListK b2 = (Ok 0, b3)" "at_hand ?M js (n + 1) free x' b3"
      using collected [OF b2 resource_kind.simps(8)] by blast
    moreover have "arena_read (\<lambda>a. arena_entry_list a es) b2 = (Ok [e], b2)"
      using es(2) Some by (simp add: at_hand_def call_defs)
    ultimately show ?thesis using ch(1) es Some
      by (simp add: list_round_def bind_def ret_def opendal_mbt_wasm_entry_list_release_def)
  qed
qed

section \<open>Whole listings\<close>

fun lister_entries :: "'x wasm_api \<Rightarrow> token \<Rightarrow> 'x \<Rightarrow> opendal_Entry list \<Rightarrow> 'x \<Rightarrow> bool" where
  \<comment> \<open>the lister yields these entries one after the other and then its end\<close>
  "lister_entries api lister x [] x' \<longleftrightarrow> wa_lister_next api lister x = (XOk None, x')"
| "lister_entries api lister x (e # es) x' \<longleftrightarrow>
     (case wa_lister_next api lister x of (r, x1) \<Rightarrow> r = XOk (Some e) \<and> lister_entries api lister x1 es x')"

definition entry_fits :: "opendal_Entry \<Rightarrow> bool" where
  "entry_fits e \<longleftrightarrow> time_in_range (oen_metadata e) \<and>
     length (oen_path e) + length (oen_name e) + 84 + strings_len (metadata_strings (oen_metadata e)) \<le> MAX_LIST_OUTPUT_BYTES"

definition shows_entry :: "opendal_Entry \<Rightarrow> EntrySnapshot \<Rightarrow> bool" where
  \<comment> \<open>the snapshot has the entry's path, name, kind and length, and its metadata decodes to the entry's\<close>
  "shows_entry e s \<longleftrightarrow>
     es_path s = oen_path e \<and> es_name s = oen_name e \<and> es_mode s = wasm_mode (md_mode (oen_metadata e)) \<and>
     es_content_length s = md_content_length (oen_metadata e) \<and>
     decode_snapshot (es_metadata_snapshot s) = Some ((oen_metadata e)\<lparr>md_last_modified :=
       map_option shown_time (md_last_modified (oen_metadata e))\<rparr>)"

lemma snapshot_shows:
  assumes "memory_suffices api" and "entry_fits e"
  obtains s where "entry_snapshot api e x = (Ok s, x)" "shows_entry e s"
proof -
  obtain bytes where bytes: "metadata_snapshot_bytes (wa_alloc api) (oen_metadata e) x = (Ok bytes, x)"
    "decode_snapshot bytes = Some ((oen_metadata e)\<lparr>md_last_modified := map_option shown_time (md_last_modified (oen_metadata e))\<rparr>)"
    "length bytes = 84 + strings_len (metadata_strings (oen_metadata e))"
    using metadata_snapshot_decodes [of "oen_metadata e" "wa_alloc api" x] assms
    by (auto simp: entry_fits_def memory_suffices_def Let_def split: prod.splits outcome.splits)
  let ?s = "\<lparr>es_path = oen_path e, es_name = oen_name e, es_mode = wasm_mode (md_mode (oen_metadata e)),
    es_content_length = md_content_length (oen_metadata e), es_metadata_snapshot = bytes\<rparr>"
  have "entry_snapshot api e x = (Ok ?s, x)"
    using assms bytes(1,3)
    by (simp add: entry_snapshot_def try_owned_string_def try_reserve_def memory_suffices_def entry_fits_def bind_def
        ret_def checked_add_usize32_def usize32_max_def Let_def)
  moreover have "shows_entry e ?s" using bytes(2) by (simp add: shows_entry_def)
  ultimately show thesis by (rule that)
qed

lemma list_rounds:
  assumes "memory_suffices api" and "list_all entry_fits es" and "lister_entries api lister x es x'"
    and "M h = Some (ResLister (LsOpen lister m))" and "at_hand M js n (3 * Suc (length es)) x b"
    and "unat n + length es < u64_max"
  shows "\<exists>ss b'. repeat_round (list_round api h) (Suc (length es)) b = (Ok (map (\<lambda>s. Some [s]) ss @ [None]), b') \<and>
    list_all2 shows_entry es ss \<and> at_hand (M(h \<mapsto> ResLister LsEnd)) js (n + of_nat (Suc (length es))) 0 x' b'"
  using assms(2-)
proof (induction es arbitrary: M m n x b)
  case Nil
  have "run_resource_future api (FutListerNext lister) x = (Ok (ListerChange ListerToEnd, CListerNext (Inr None)), x')"
    using Nil(2) by (simp add: bind_def ret_def closure_def call_ext_def)
  moreover have "at_hand M js n (Suc (Suc (Suc 0))) x b" using Nil(4) by (simp add: numeral_3_eq_3)
  ultimately show ?case using list_round_at_hand [of M js n 0 x b h lister m api ListerToEnd None x'] Nil(3,5)
    by (auto simp: bind_def ret_def simp del: fun_upd_apply)
next
  case (Cons e es)
  obtain x1 where x1: "wa_lister_next api lister x = (XOk (Some e), x1)" "lister_entries api lister x1 es x'"
    using Cons.prems(2) by auto
  obtain s where s: "entry_snapshot api e x1 = (Ok s, x1)" "shows_entry e s"
    using snapshot_shows [OF assms(1), of e x1] Cons.prems(1) by auto
  have run: "run_resource_future api (FutListerNext lister) x =
      (Ok (ListerChange (ListerToOpen lister), CListerNext (Inr (Some s))), x1)"
    using x1(1) s(1) by (simp add: bind_def ret_def closure_def call_ext_def)
  have "at_hand M js n (Suc (Suc (Suc (3 * Suc (length es))))) x b" using Cons.prems(4) by (simp add: at_hand_def)
  from list_round_at_hand [OF this Cons.prems(3) _ run] Cons.prems(5)
  obtain b1 where b1: "list_round api h b = (Ok (Some [s]), b1)"
    "at_hand (M(h \<mapsto> ResLister (LsOpen lister (n + 1)))) js (n + 1) (3 * Suc (length es)) x1 b1" by auto
  have "unat (n + 1) = unat n + 1" using Cons.prems(5) by (simp add: unat_word_ariths u64_max_def)
  then obtain ss b' where "repeat_round (list_round api h) (Suc (length es)) b1 = (Ok (map (\<lambda>s. Some [s]) ss @ [None]), b')"
    "list_all2 shows_entry es ss" "at_hand (M(h \<mapsto> ResLister LsEnd)) js (n + 1 + of_nat (Suc (length es))) 0 x' b'"
    using Cons.IH [OF _ x1(2) fun_upd_same b1(2)] Cons.prems(1,5) by (auto simp del: fun_upd_apply repeat_round.simps)
  with repeat_more [of "list_round api h", OF b1(1)] s(2) show ?case
    by (intro exI [of _ "s # ss"] exI [of _ b']) (simp add: algebra_simps del: repeat_round.simps fun_upd_apply)
qed

text \<open>
  C13. Listing through the exported functions shows every entry. For an open lister whose backend
  yields some entries and then ends, the page's rounds hand out one entry each, in order, with the
  backend's path, name, kind, length and metadata, and then the end; no handle is left behind, every
  other resource is untouched, and the lister has ended.
\<close>

theorem wasm_lister_session:
  assumes "calm_api api" and "reachable api b" and "live_map (arena_of b) h = Some (ResLister (LsOpen lister m))"
    and "memory_suffices api" and "list_all entry_fits es" and "\<not> st_force_pending_for_canary (br_state b)"
    and "lister_entries api lister (br_ext b) es x'"
    and "length (ar_slots (arena_of b)) + 3 * Suc (length es) \<le> MAX_SLOTS"
    and "unat (st_next_resource_operation (br_state b)) + 65535 < u64_max"
  shows "\<exists>ss b'. repeat_round (list_round api h) (Suc (length es)) b = (Ok (map (\<lambda>s. Some [s]) ss @ [None]), b') \<and>
    list_all2 shows_entry es ss \<and>
    live_map (arena_of b') = (live_map (arena_of b))(h \<mapsto> ResLister LsEnd) \<and>
    br_spawned b' = br_spawned b \<and> br_ext b' = x'"
proof -
  have ok: "bridge_ok False b" using assms(1,2) by (rule reachable_ok)
  have "at_hand (live_map (arena_of b)) (br_spawned b) (st_next_resource_operation (br_state b)) (3 * Suc (length es)) (br_ext b) b"
    using ok live_not_torn [OF ok assms(3)] assms(6,8) by (simp add: at_hand_def bridge_ok_def)
  from list_rounds [where M = "live_map (arena_of b)" and h = h, OF assms(4,5,7,3) this] assms(8,9) show ?thesis
    by (fastforce simp: at_hand_def)
qed

theorem wasm_lister_session_witness:
  "\<exists>ss b'. repeat_round (list_round idle_api 131076) 3 lister_page = (Ok (map (\<lambda>s. Some [s]) ss @ [None]), b') \<and>
     map es_path ss = [''d/a'', ''d/a''] \<and> live_map (arena_of b') 131076 = Some (ResLister LsEnd)"
proof -
  have live: "live_map (arena_of lister_page) 131076 = Some (ResLister (LsOpen 11 0))"
    by (simp add: live_map_eq decode_handle_def page5_def page_defs)
  have "lister_entries idle_api 11 page_data [idle_entry, idle_entry] []"
    by (simp add: idle_api_def page_data_def)
  moreover have "memory_suffices idle_api" by (simp add: memory_suffices_def idle_api_def)
  moreover have "entry_fits idle_entry"
    by (simp add: entry_fits_def idle_entry_def idle_metadata_def time_in_range_def metadata_strings_def)
  ultimately obtain ss b' where run: "repeat_round (list_round idle_api 131076) (Suc (length [idle_entry, idle_entry])) lister_page =
      (Ok (map (\<lambda>s. Some [s]) ss @ [None]), b')" "list_all2 shows_entry [idle_entry, idle_entry] ss"
    "live_map (arena_of b') = (live_map (arena_of lister_page))(131076 \<mapsto> ResLister LsEnd)"
    using wasm_lister_session [OF calm_idle_api page_reachable(5) live, of "[idle_entry, idle_entry]" "[]"]
    by (auto simp: page5_def page_defs u64_max_def simp del: repeat_round.simps)
  have "map es_path ss = [''d/a'', ''d/a'']"
    using run(2) by (auto simp: list_all2_Cons1 shows_entry_def idle_entry_def)
  then show ?thesis using run(1,3) by (auto simp: numeral_3_eq_3 simp del: repeat_round.simps)
qed

end
