(* ===== verification/Spec2Isabelle.thy ===== *)
theory Spec2Isabelle
  imports Prelude Abi Utf8 Failure World Samples EntryPoint Options S3Options Buffers Views Config
    Operator Sessions Lister Reader ReadStream Turns Writer Copier Completion CompletionTargets
    AsyncCore AsyncTask AsyncCalls Interruptible AsyncRead AsyncSession
    AsyncWriterSession ApiTable Presign
    WasmAbi WasmError WasmMetadata WasmArena WasmHandles WasmFutures WasmState WasmInputs
    WasmExports WasmResults WasmInvariant WasmWp WasmSafety WasmBridge WasmSample WasmLive
    WasmSession WasmStreamSession WasmWriterSession WasmListerSession
begin

text \<open>
  A verification development for \<open>opendal-mbt\<close>, the MoonBit binding of Apache OpenDAL.

  \<^bold>\<open>The program.\<close> MoonBit code reaches OpenDAL through one of two Rust libraries, which have no code
  in common.
  \<^item> The \<^emph>\<open>native bridge\<close> (\<open>native/rust/src/lib.rs\<close>, \<open>abi.rs\<close>) exports a table of C functions. A caller
    negotiates the table, passes pointers to versioned structs, and receives boxed objects through
    output slots. Blocking listers, readers, read streams, writers and copiers keep their state
    behind a lock; the asynchronous functions start Tokio tasks that announce their end on a pipe.
  \<^item> The \<^emph>\<open>browser bridge\<close> (\<open>wasm/browser-bridge/src/lib.rs\<close>) exports functions over scalars only.
    Objects live in an arena and are named by 32-bit handles with a generation; asynchronous work is
    handed to the browser's event loop and its result is collected from a task handle.

  \<^bold>\<open>How code becomes definitions.\<close> \<open>Prelude\<close> has the computations both bridges are written in: a
  function from a state to an outcome \<open>Ok\<close>, \<open>Err\<close>, \<open>Panic\<close>, \<open>Blocked\<close> or \<open>UB\<close> (undefined behaviour) and
  the next state, with \<open>bind\<close> for \<open>?\<close> and sequencing, \<open>closure\<close> for a \<open>Result\<close> that is inspected, and
  \<open>catch_unwind\<close>. Integers keep their width (\<open>Word\<close>); \<open>usize\<close> has 64 bits in the native bridge and 32
  in the browser bridge. OpenDAL, Tokio, the allocator, POSIX and the S3 builder are not part of the
  repository: each appears as a record of functions on an external state (\<open>operator_api\<close>, \<open>lister_api\<close>,
  \<open>reader_api\<close>, \<open>stream_api\<close>, \<open>writer_api\<close>, \<open>copier_api\<close>, \<open>presign_api\<close>, \<open>async_api\<close>, \<open>posix\<close>,
  \<open>wasm_api\<close>), and what a theorem needs of one is a hypothesis that its witness discharges for a
  concrete instance.

  \<^bold>\<open>The native bridge, theory by theory.\<close>
  \<^item> \<open>Abi\<close>: constants, structs and handle types of \<open>abi.rs\<close> and the state types of \<open>lib.rs\<close>, with the
    compile-time size assertions. \<open>Utf8\<close>: the check of \<open>std::str::from_utf8\<close>. \<open>Failure\<close>: \<open>CallFailure\<close>
    and the functions that build errors.
  \<^item> \<open>World\<close>: the caller's memory as readable inputs and output slots, the boxes handed out, the
    lazily built runtime; pointer checks, text inputs, \<open>finish_failure\<close>, \<open>catch_status\<close>.
    \<open>EntryPoint\<close>: the output contract, proved once in the locale \<open>quiet_body\<close> for the frame that all
    entry points share and interpreted for every body. \<open>Sessions\<close>: repeated calls of one entry point.
  \<^item> \<open>Options\<close> (locale \<open>option_parser\<close>, one interpretation per option struct), \<open>S3Options\<close>, \<open>Config\<close>:
    decoding of inputs, with exact characterisations of what is accepted.
  \<^item> \<open>Buffers\<close>: bounded collection of read chunks. \<open>Views\<close>, \<open>Presign\<close>: snapshots and views (locales
    \<open>view_layout\<close>, \<open>flag_layout\<close>), with round trips from OpenDAL's value to what the caller reads.
  \<^item> \<open>Operator\<close>: construction, layers and whole-object operations (locale \<open>pair_body\<close>).
  \<^item> \<open>Lister\<close>, \<open>Reader\<close>, \<open>ReadStream\<close>: the blocking handles with their poisoned-lock and panic paths;
    functional theorems for whole sessions, and locale \<open>terminal_states\<close> for states that never change
    again.
  \<^item> \<open>Turns\<close>, \<open>Writer\<close>, \<open>Copier\<close>: handles that threads use in turn. \<open>turn_step\<close> is one locked section of
    the code run on the world: taking the native object, putting a state back, the recovery of a call
    that unwinds, a poisoned lock, or anything that leaves the handle alone. Locale \<open>lent_handle\<close>
    gives mutual exclusion in every interleaving, \<open>ending_handle\<close> that a handle ended with no call at
    work stays ended; \<open>lock_box\<close> is the mutex in a box.
  \<^item> \<open>Completion\<close>: the pipe a task signals, on Linux. \<open>CompletionTargets\<close>: the same on Apple's targets and
    where there are no POSIX descriptors. \<open>AsyncCore\<close>, \<open>AsyncTask\<close>, \<open>AsyncCalls\<close>, \<open>Interruptible\<close>,
    \<open>AsyncRead\<close>: tasks, the cores of asynchronous streams and writers, all \<open>async_*\<close> functions, their
    futures and the supervisor. Tokio's steps (poll, resume, cancel, supervise) are separate
    transitions, so that every interleaving with the caller is a sequence of steps. \<open>Interruptible\<close>
    runs the sections of the cores as turns; locale \<open>interruptible_handle\<close> adds that a core once ended
    stays ended, also when a late completion finds it. \<open>AsyncSession\<close>,
    \<open>AsyncWriterSession\<close>: whole sessions on asynchronous streams and writers, each call started,
    announced and taken.
  \<^item> \<open>ApiTable\<close>: \<open>ApiV1\<close>, \<open>stage_api\<close>, \<open>install_api\<close> and \<open>opendal_mbt_get_api\<close> over byte memory, for every
    combination of Cargo features.
  \<^item> \<open>Samples\<close>: the concrete worlds of the witnesses.

  \<^bold>\<open>The browser bridge, theory by theory.\<close>
  \<^item> \<open>WasmAbi\<close>, \<open>WasmError\<close>, \<open>WasmMetadata\<close>: constants, \<open>BridgeError\<close>, and the binary snapshots \<open>ODE1\<close>
    and \<open>ODM1\<close> with decoders written from their documented layout; the round trips.
  \<^item> \<open>WasmArena\<close>: resources, tasks, completions, slots and every operation of \<open>Arena\<close>. \<open>WasmHandles\<close>:
    its contract as the locale \<open>handle_store\<close>, interpreted on the arena: it is a finite map, and a
    released handle never resolves again.
  \<^item> \<open>WasmFutures\<close>: what the \<open>async\<close> blocks compute, listing collection included. \<open>WasmState\<close>: the
    thread-local \<open>State\<close>, spawning, \<open>ForcePending\<close>, publication and leases. \<open>WasmInputs\<close>: decoding of
    scalar arguments, reservations. \<open>WasmExports\<close>, \<open>WasmResults\<close>: all 85 exported functions.
  \<^item> \<open>WasmInvariant\<close>: the invariant that ties pending tasks to spawned futures and busy resources to
    leases, over the map of live handles, and keeps every value within the limits of its type. \<open>WasmWp\<close>: a weakest-precondition calculus. \<open>WasmSafety\<close>: the
    operations keep the invariant, with locale \<open>stateful\<close> for what streams, writers and listers share.
    \<open>WasmBridge\<close>: the set of exported functions, \<open>bridge_step\<close> and the reachable states.
    \<open>WasmLive\<close>: what holds in every reachable state. \<open>WasmSample\<close>: a concrete page.
  \<^item> \<open>WasmSession\<close>: how one asynchronous call, from its start to the release of its task, changes the
    map of live handles. \<open>WasmStreamSession\<close>, \<open>WasmWriterSession\<close>, \<open>WasmListerSession\<close>: whole sessions of
    a page, through the exported functions only.

  \<^bold>\<open>What the theorems show.\<close> Functional correctness of whole sessions (reads, listings, streams, writers,
  copiers, asynchronous reads, streams and writers, listing collection); the output contract of every entry point, on
  errors and panics too; life cycles and mutual exclusion under interleaving; that a task announces
  its end once and its result is handed out at most once; ordering of operator layers; exact
  acceptance of inputs; negotiation of the table; round trips of views and snapshots; containment of
  \<open>SIGPIPE\<close> and ownership of descriptors; and for the browser bridge that no call panics, that every
  live value stays well typed, that pending tasks and busy resources can always finish, that
  cancellation wins and teardown is permanent, that collecting a listing terminates, and that streams,
  writers and listers deliver what the backend has.

  \<^bold>\<open>Bounds, fuel and waiting.\<close> Blocking waits on a condition variable are given the list of what other
  threads do during each wait; a call whose list is used up is \<open>Blocked\<close>, and the session theorems
  prove that the calls return. The native iterators over chunks and entries yield finite lists.
  \<open>write_completion_byte\<close> loops on \<open>EINTR\<close> as a \<open>partial_function (option)\<close>, and it is proved to return
  when the interruptions are finitely many. \<open>collect_list\<close> of the browser bridge runs with fuel
  \<open>MAX_LIST_ENTRIES + 2\<close>: the loop stops at the entry after the last permitted one.
  \<open>collect_loop\<close> is the same loop without fuel, and it is proved always to
  return and to agree with the one that has fuel. All other recursion is total. The session theorems
  of the browser bridge ask for three unused slots per call: a slot retires after 32767 uses, so that
  without a bound an arena can run full. The sessions of asynchronous streams and writers let each
  operation run undisturbed between its start and its take; what happens when it is disturbed is the
  subject of the protocols in \<open>AsyncTask\<close> and \<open>Interruptible\<close>.

  \<^bold>\<open>Simplifications.\<close> A browser future runs to its result in the step that polls it; what happens
  between its awaits inside OpenDAL is a change of the external state. \<open>RefCell\<close> borrow flags are not
  modelled: no borrow of \<open>STATE\<close> is held across a call that borrows it again. Text is a list of bytes
  written as characters. Linear-memory addresses returned by \<open>buffer_data_ptr\<close> are a parameter. In
  \<open>AsyncCalls\<close> a start function is one step, so that its task runs only after the abort handle is
  installed; in \<open>Interruptible\<close> the installation is a step of its own, and the race of an operation that
  is over before its abort handle is installed is shown there as a deviation. An operation that
  unwinds holds its turn until its supervisor has failed the core, and one that is cancelled keeps it.

  \<^bold>\<open>A limit of the native views.\<close> The sub-second part of a time before the epoch is negative, and the
  native \<open>metadata_view\<close> answers an ABI mismatch for it, although \<open>checked_metadata\<close> accepted the
  metadata and the browser bridge normalises the same time in its snapshots. Both are proved.

  The asynchronous entry points are modelled for Linux.

  \<^bold>\<open>Not modelled.\<close> Code compiled only for tests, and the fault-injection points it uses; the MoonBit packages, the C stub, the JavaScript
  runtime, scripts, examples and documents, which are not Rust.
\<close>

end
